(* ===== verification/Prelude.thy ===== *)
theory Prelude
  imports Main "HOL-Library.Word" "HOL-Library.List_Lexorder" "HOL-Library.Char_ord"
begin

text \<open>
  The shared prelude of the development: the Rust \<^verbatim>\<open>Result\<close> type and its \<^verbatim>\<open>?\<close> operator, loops
  that stop at the first error, the fixed-width integer operations the crates use, and the parts
  of the Rust standard library they call (slices, UTF-8 strings, \<^verbatim>\<open>binary_search\<close>).

  A Rust \<^verbatim>\<open>str\<close> is a \<^typ>\<open>string\<close> whose characters are its UTF-8 bytes, so that \<^const>\<open>length\<close> is
  \<^verbatim>\<open>str::len\<close> and the list order is the byte order of \<^verbatim>\<open>String\<close>. A byte slice is a list of 8-bit
  words. The types \<^verbatim>\<open>u32\<close> and \<^verbatim>\<open>u64\<close> are words; \<^verbatim>\<open>i64\<close> is \<^typ>\<open>int\<close> with saturation and overflow
  written out.
\<close>

named_theorems result_simps \<open>rewriting of results and of the question-mark operator\<close>
named_theorems verified \<open>what a successful check establishes\<close>

type_synonym byte = "8 word"
type_synonym bytes = "byte list"
type_synonym u32 = "32 word"
type_synonym u64 = "64 word"
type_synonym i64 = int

section \<open>Results\<close>

datatype ('a, 'e) result = is_Ok: Ok (ok_value: 'a) | Err (err_value: 'e)

primrec and_then :: "('a, 'e) result \<Rightarrow> ('a \<Rightarrow> ('b, 'e) result) \<Rightarrow> ('b, 'e) result" where
  "and_then (Ok x) f = f x"
| "and_then (Err e) f = Err e"

primrec map_err :: "('e \<Rightarrow> 'f) \<Rightarrow> ('a, 'e) result \<Rightarrow> ('a, 'f) result" where
  "map_err g (Ok x) = Ok x"
| "map_err g (Err e) = Err (g e)"

primrec ok_or :: "'e \<Rightarrow> 'a option \<Rightarrow> ('a, 'e) result" where
  "ok_or e None = Err e"
| "ok_or e (Some x) = Ok x"

lemma and_then_Ok_iff [simp]:
  "and_then m f = Ok y \<longleftrightarrow> (\<exists>x. m = Ok x \<and> f x = Ok y)"
  by (cases m) auto

lemma and_then_Err_iff [result_simps]:
  "and_then m f = Err e \<longleftrightarrow> m = Err e \<or> (\<exists>x. m = Ok x \<and> f x = Err e)"
  by (cases m) auto

lemma map_err_Ok_iff [simp]: "map_err g m = Ok y \<longleftrightarrow> m = Ok y"
  by (cases m) auto

lemma ok_or_Ok_iff [simp]: "ok_or e m = Ok y \<longleftrightarrow> m = Some y"
  by (cases m) auto

lemma if_Err_Ok_iff [simp]:
  "(if c then Err e else m) = Ok y \<longleftrightarrow> \<not> c \<and> m = Ok y"
  by simp

lemma if_Ok_Err_iff [simp]:
  "(if c then m else Err e) = Ok y \<longleftrightarrow> c \<and> m = Ok y"
  by simp

lemma is_Ok_iff: "is_Ok m \<longleftrightarrow> (\<exists>x. m = Ok x)"
  by (cases m) auto

lemma unit_Ok_iff: "m = Ok () \<longleftrightarrow> is_Ok m"
  by (cases m) auto

lemma and_then_assoc [result_simps]: "and_then (and_then m f) g = and_then m (\<lambda>x. and_then (f x) g)"
  by (cases m) auto

section \<open>Loops that stop at the first error\<close>

text \<open>A \<^verbatim>\<open>for\<close> loop whose body uses \<^verbatim>\<open>?\<close>: the state after each element, or the first error.\<close>

primrec try_fold :: "('s \<Rightarrow> 'x \<Rightarrow> ('s, 'e) result) \<Rightarrow> 's \<Rightarrow> 'x list \<Rightarrow> ('s, 'e) result" where
  "try_fold f s [] = Ok s"
| "try_fold f s (x # xs) = and_then (f s x) (\<lambda>s'. try_fold f s' xs)"

primrec try_map :: "('x \<Rightarrow> ('y, 'e) result) \<Rightarrow> 'x list \<Rightarrow> ('y list, 'e) result" where
  "try_map f [] = Ok []"
| "try_map f (x # xs) = and_then (f x) (\<lambda>y. and_then (try_map f xs) (\<lambda>ys. Ok (y # ys)))"

primrec try_each :: "('x \<Rightarrow> (unit, 'e) result) \<Rightarrow> 'x list \<Rightarrow> (unit, 'e) result" where
  "try_each f [] = Ok ()"
| "try_each f (x # xs) = and_then (f x) (\<lambda>_. try_each f xs)"

lemma try_fold_append:
  "try_fold f s (xs @ ys) = and_then (try_fold f s xs) (\<lambda>s'. try_fold f s' ys)"
  by (induction xs arbitrary: s) (auto simp: and_then_assoc)

lemma try_fold_snoc:
  "try_fold f s (xs @ [x]) = and_then (try_fold f s xs) (\<lambda>s'. f s' x)"
proof -
  have "and_then m Ok = m" for m :: "('a, 'b) result"
    by (cases m) auto
  then show ?thesis by (simp add: try_fold_append)
qed

lemma try_fold_prefix_Ok:
  "try_fold f s (xs @ ys) = Ok s'' \<Longrightarrow> \<exists>s'. try_fold f s xs = Ok s'"
  by (auto simp: try_fold_append)

lemma try_map_Ok_iff:
  "try_map f xs = Ok ys \<longleftrightarrow> list_all2 (\<lambda>x y. f x = Ok y) xs ys"
  by (induction xs arbitrary: ys) (auto simp: list_all2_Cons1)

lemma try_map_length: "try_map f xs = Ok ys \<Longrightarrow> length ys = length xs"
  by (auto simp: try_map_Ok_iff dest: list_all2_lengthD)

lemma try_each_Ok_iff [simp]: "try_each f xs = Ok () \<longleftrightarrow> (\<forall>x\<in>set xs. f x = Ok ())"
  by (induction xs) auto

text \<open>The contract of a loop body: what it keeps, the loop keeps.\<close>

locale loop_invariant =
  fixes step :: "'s \<Rightarrow> 'x \<Rightarrow> ('s, 'e) result"
    and inv :: "'x list \<Rightarrow> 's \<Rightarrow> bool"
  assumes step_keeps: "inv seen s \<Longrightarrow> step s x = Ok s' \<Longrightarrow> inv (seen @ [x]) s'"
begin

lemma loop_keeps:
  "inv seen s \<Longrightarrow> try_fold step s xs = Ok s' \<Longrightarrow> inv (seen @ xs) s'"
proof (induction xs arbitrary: seen s)
  case Nil
  then show ?case by simp
next
  case (Cons x xs)
  then obtain t where "step s x = Ok t" and rest: "try_fold step t xs = Ok s'"
    by auto
  with Cons.prems have "inv (seen @ [x]) t" by (blast intro: step_keeps)
  from Cons.IH [OF this rest] show ?case by simp
qed

lemma loop_keeps_from_start: "inv [] s \<Longrightarrow> try_fold step s xs = Ok s' \<Longrightarrow> inv xs s'"
  using loop_keeps [of "[]" s xs s'] by simp

end

end
