(* ===== verification/Rust_Std.thy ===== *)
theory Rust_Std
  imports Prelude
begin

text \<open>
  The parts of the Rust language and standard library that the modelled crates use: checked and
  saturating integer arithmetic, big-endian encodings, UTF-8 strings with their Unicode white
  space, hexadecimal formatting, \<^verbatim>\<open>slice::windows\<close> and \<^verbatim>\<open>slice::binary_search\<close>.
\<close>

unbundle bit_operations_syntax

section \<open>Integers\<close>

definition i64_min :: i64 where "i64_min = - (2 ^ 63)"
definition i64_max :: i64 where "i64_max = 2 ^ 63 - 1"

definition i64_saturating_add :: "i64 \<Rightarrow> i64 \<Rightarrow> i64" where
  "i64_saturating_add a b = max i64_min (min i64_max (a + b))"

definition i64_saturating_sub :: "i64 \<Rightarrow> i64 \<Rightarrow> i64" where
  "i64_saturating_sub a b = max i64_min (min i64_max (a - b))"

definition i64_checked_sub :: "i64 \<Rightarrow> i64 \<Rightarrow> i64 option" where
  "i64_checked_sub a b = (if i64_min \<le> a - b \<and> a - b \<le> i64_max then Some (a - b) else None)"

definition checked_add :: "'a::len word \<Rightarrow> 'a word \<Rightarrow> 'a word option" where
  "checked_add a b = (if unat a + unat b < 2 ^ LENGTH('a) then Some (a + b) else None)"

lemma checked_add_Some_iff:
  "checked_add a b = Some c \<longleftrightarrow> unat c = unat a + unat b"
  for a b c :: "'a::len word"
proof -
  have "unat (a + b) = unat a + unat b" if "unat a + unat b < 2 ^ LENGTH('a)"
    using that by (simp add: unat_word_ariths)
  moreover have "c = a + b" if "unat c = unat a + unat b"
    using that by (metis of_nat_add of_nat_unat ucast_id)
  moreover have "unat c < 2 ^ LENGTH('a)" by simp
  ultimately show ?thesis
    unfolding checked_add_def by (metis option.distinct(1) option.inject)
qed

lemma checked_add_Some_unat: "checked_add a b = Some c \<Longrightarrow> unat c = unat a + unat b"
  by (simp add: checked_add_Some_iff)

text \<open>Big-endian encoding of a 32-bit length.\<close>

definition u32_to_be_bytes :: "u32 \<Rightarrow> bytes" where
  "u32_to_be_bytes w =
     [ucast (drop_bit 24 w), ucast (drop_bit 16 w), ucast (drop_bit 8 w), ucast w]"

definition u32_from_be_bytes :: "byte \<Rightarrow> byte \<Rightarrow> byte \<Rightarrow> byte \<Rightarrow> u32" where
  "u32_from_be_bytes a b c d =
     push_bit 24 (ucast a) OR push_bit 16 (ucast b) OR push_bit 8 (ucast c) OR ucast d"

lemma length_u32_to_be_bytes [simp]: "length (u32_to_be_bytes w) = 4"
  by (simp add: u32_to_be_bytes_def)

lemma u32_be_bytes_inverse:
  "u32_from_be_bytes (ucast (drop_bit 24 w)) (ucast (drop_bit 16 w)) (ucast (drop_bit 8 w)) (ucast w) = w"
proof (rule bit_word_eqI)
  fix n assume "n < LENGTH(32)"
  then consider "n < 8" | "8 \<le> n" "n < 16" | "16 \<le> n" "n < 24" | "24 \<le> n" "n < 32"
    by fastforce
  then show "bit (u32_from_be_bytes (ucast (drop_bit 24 w)) (ucast (drop_bit 16 w))
      (ucast (drop_bit 8 w)) (ucast w)) n = bit w n"
    by cases (auto simp: u32_from_be_bytes_def bit_or_iff Bit_Operations.bit_push_bit_iff bit_word_ucast_iff bit_drop_bit_eq not_le)
qed

lemma u32_to_be_bytes_inj: "u32_to_be_bytes v = u32_to_be_bytes w \<Longrightarrow> v = w"
  unfolding u32_to_be_bytes_def by (metis list.inject u32_be_bytes_inverse)

section \<open>Bytes and strings\<close>

definition as_bytes :: "string \<Rightarrow> bytes" where
  "as_bytes s = map of_char s"

definition char_from :: "byte \<Rightarrow> char" where
  "char_from b = char_of (unat b)"

lemma char_from_of_char [simp]: "char_from (of_char c) = c"
proof -
  have "unat (of_char c :: byte) = of_char c"
  proof -
    have "of_char c < (256 :: nat)" by simp
    then have "unat (of_nat (of_char c) :: byte) = of_char c"
      by (simp add: unat_of_nat)
    then show ?thesis by (simp only: of_nat_of_char)
  qed
  then show ?thesis by (simp add: char_from_def)
qed

lemma unat_lt: "unat b < 256" for b :: byte
  using unsigned_less [of b] by simp

lemma of_char_char_from [simp]: "of_char (char_from b) = b"
proof -
  have "of_char (char_of (unat b)) = unat b"
    using unat_lt [of b] by simp
  then have "(of_nat (of_char (char_of (unat b))) :: byte) = b"
    by simp
  then show ?thesis by (simp only: char_from_def of_nat_of_char)
qed

lemma as_bytes_inj: "as_bytes s = as_bytes t \<Longrightarrow> s = t"
  unfolding as_bytes_def by (rule map_injective) (auto intro!: injI dest: arg_cong [where f = char_from])

lemma length_as_bytes [simp]: "length (as_bytes s) = length s"
  by (simp add: as_bytes_def)

text \<open>Lowercase hexadecimal, as \<^verbatim>\<open>format!("{:x}", digest)\<close> prints it.\<close>

definition hex_digit :: "nat \<Rightarrow> char" where
  "hex_digit n = ''0123456789abcdef'' ! n"

definition hex_byte :: "byte \<Rightarrow> string" where
  "hex_byte b = [hex_digit (unat b div 16), hex_digit (unat b mod 16)]"

definition hex_encode :: "bytes \<Rightarrow> string" where
  "hex_encode bs = concat (map hex_byte bs)"

definition is_lower_hexdigit :: "char \<Rightarrow> bool" where
  "is_lower_hexdigit c = (let n = of_char c :: nat in (48 \<le> n \<and> n \<le> 57) \<or> (97 \<le> n \<and> n \<le> 102))"

lemma length_hex_encode [simp]: "length (hex_encode bs) = 2 * length bs"
  by (induction bs) (auto simp: hex_encode_def hex_byte_def)

lemma less_16_cases:
  "n < 16 \<Longrightarrow> n \<in> {0, 1, 2, 3, 4, 5, 6, 7, 8, 9, 10, 11, 12, 13, 14, 15 :: nat}"
  by (simp only: insert_iff empty_iff) arith

lemma hex_digit_lower: "n < 16 \<Longrightarrow> is_lower_hexdigit (hex_digit n)"
  by (drule less_16_cases) (auto simp: hex_digit_def is_lower_hexdigit_def)

lemma hex_encode_lower: "c \<in> set (hex_encode bs) \<Longrightarrow> is_lower_hexdigit c"
proof -
  assume "c \<in> set (hex_encode bs)"
  then obtain b :: byte where "c = hex_digit (unat b div 16) \<or> c = hex_digit (unat b mod 16)"
    by (auto simp: hex_encode_def hex_byte_def)
  moreover have "unat b div 16 < 16" for b :: byte
    using unat_lt [of b] by simp
  ultimately show ?thesis by (auto intro: hex_digit_lower)
qed

lemma hex_digit_inj: "m < 16 \<Longrightarrow> n < 16 \<Longrightarrow> hex_digit m = hex_digit n \<Longrightarrow> m = n"
proof -
  assume "m < 16" "n < 16" "hex_digit m = hex_digit n"
  moreover have "distinct ''0123456789abcdef''" by simp
  ultimately show ?thesis
    by (simp add: hex_digit_def nth_eq_iff_index_eq)
qed

lemma hex_byte_inj: "hex_byte m = hex_byte n \<longleftrightarrow> m = n"
proof
  assume "hex_byte m = hex_byte n"
  moreover have "unat m div 16 < 16" "unat n div 16 < 16" using unat_lt [of m] unat_lt [of n] by auto
  ultimately have "unat m div 16 = unat n div 16" "unat m mod 16 = unat n mod 16"
    using hex_digit_inj by (auto simp: hex_byte_def)
  then have "unat m = unat n" by (metis div_mult_mod_eq)
  then show "m = n" by (rule unsigned_word_eqI)
qed simp

lemma hex_encode_inj: "hex_encode a = hex_encode b \<Longrightarrow> a = b"
proof (induction a arbitrary: b)
  case Nil
  then show ?case by (cases b) (simp_all add: hex_encode_def hex_byte_def)
next
  case (Cons x a)
  then obtain y c where b: "b = y # c" by (cases b) (simp_all add: hex_encode_def hex_byte_def)
  with Cons.prems have "hex_byte x = hex_byte y" "hex_encode a = hex_encode c"
    by (simp_all add: hex_encode_def hex_byte_def)
  with Cons.IH b show ?case by (simp add: hex_byte_inj)
qed

section \<open>UTF-8\<close>

text \<open>
  A \<^verbatim>\<open>str\<close> is cut into its characters by the length that each leading byte announces. The code
  point of each character comes with the bytes that encode it, so that splitting and trimming
  return slices of the original string.
\<close>

definition utf8_len :: "char \<Rightarrow> nat" where
  "utf8_len c = (let n = of_char c :: nat in if n < 128 then 1 else if n < 224 then 2 else if n < 240 then 3 else 4)"

definition utf8_point :: "string \<Rightarrow> nat" where
  "utf8_point s = (case map (of_char :: char \<Rightarrow> nat) s of
       [a] \<Rightarrow> a
     | [a, b] \<Rightarrow> (a mod 32) * 64 + b mod 64
     | [a, b, c] \<Rightarrow> ((a mod 16) * 64 + b mod 64) * 64 + c mod 64
     | [a, b, c, d] \<Rightarrow> (((a mod 8) * 64 + b mod 64) * 64 + c mod 64) * 64 + d mod 64
     | _ \<Rightarrow> 0)"

type_synonym utf8_char = "nat \<times> string"

function utf8_chars :: "string \<Rightarrow> utf8_char list" where
  "utf8_chars [] = []"
| "utf8_chars (c # cs) =
     (let n = utf8_len c; w = c # take (n - 1) cs
      in (utf8_point w, w) # utf8_chars (drop (n - 1) cs))"
  by pat_completeness auto
termination
  by (relation "measure length") auto

text \<open>\<^verbatim>\<open>str::from_utf8\<close>: the well-formed byte sequences of the Unicode standard.\<close>

fun utf8_char_ok :: "nat list \<Rightarrow> bool" where
  "utf8_char_ok [a] = (a < 128)"
| "utf8_char_ok [a, b] = (194 \<le> a \<and> a \<le> 223 \<and> 128 \<le> b \<and> b \<le> 191)"
| "utf8_char_ok [a, b, c] =
     ((a = 224 \<and> 160 \<le> b \<and> b \<le> 191
       \<or> (225 \<le> a \<and> a \<le> 236 \<or> 238 \<le> a \<and> a \<le> 239) \<and> 128 \<le> b \<and> b \<le> 191
       \<or> a = 237 \<and> 128 \<le> b \<and> b \<le> 159)
      \<and> 128 \<le> c \<and> c \<le> 191)"
| "utf8_char_ok [a, b, c, d] =
     ((a = 240 \<and> 144 \<le> b \<and> b \<le> 191
       \<or> 241 \<le> a \<and> a \<le> 243 \<and> 128 \<le> b \<and> b \<le> 191
       \<or> a = 244 \<and> 128 \<le> b \<and> b \<le> 143)
      \<and> 128 \<le> c \<and> c \<le> 191 \<and> 128 \<le> d \<and> d \<le> 191)"
| "utf8_char_ok _ = False"

definition is_utf8 :: "string \<Rightarrow> bool" where
  "is_utf8 s = list_all (\<lambda>(p, w). utf8_char_ok (map of_char w)) (utf8_chars s)"

definition whole_char :: "utf8_char \<Rightarrow> bool" where
  "whole_char c \<longleftrightarrow> snd c \<noteq> [] \<and> length (snd c) = utf8_len (hd (snd c)) \<and> fst c = utf8_point (snd c)"

definition str_of :: "utf8_char list \<Rightarrow> string" where
  "str_of cs = concat (map snd cs)"

lemma str_of_simps [simp]:
  "str_of [] = []" "str_of (c # cs) = snd c @ str_of cs" "str_of (cs @ ds) = str_of cs @ str_of ds"
  by (simp_all add: str_of_def)

lemma utf8_len_pos [simp]: "0 < utf8_len c"
  by (simp add: utf8_len_def Let_def)

lemma str_of_utf8_chars: "str_of (utf8_chars s) = s"
  by (induction s rule: utf8_chars.induct) (auto simp: Let_def)

lemma utf8_chars_whole_Cons:
  assumes "whole_char c"
  shows "utf8_chars (snd c @ s) = c # utf8_chars s"
proof -
  obtain a w where w: "snd c = a # w" using assms by (cases "snd c") (auto simp: whole_char_def)
  with assms have "length w = utf8_len a - 1" "c = (utf8_point (a # w), a # w)"
    by (auto simp: whole_char_def prod_eq_iff)
  with w show ?thesis by (simp add: Let_def)
qed

lemma utf8_chars_str_of:
  "\<forall>c\<in>set cs. whole_char c \<Longrightarrow> utf8_chars (str_of cs @ s) = cs @ utf8_chars s"
  by (induction cs) (simp_all add: utf8_chars_whole_Cons)

lemma utf8_char_ok_len:
  assumes "utf8_char_ok (map of_char (c # w))"
  shows "length (c # w) = utf8_len c"
  using assms by (cases "map of_char (c # w) :: nat list" rule: utf8_char_ok.cases)
    (auto simp: utf8_len_def Let_def)

lemma is_utf8_whole: "is_utf8 s \<Longrightarrow> \<forall>c\<in>set (utf8_chars s). whole_char c"
proof (induction s rule: utf8_chars.induct)
  case 1
  then show ?case by simp
next
  case (2 c cs)
  let ?n = "utf8_len c"
  have "utf8_char_ok (map of_char (c # take (?n - 1) cs))" and rest: "is_utf8 (drop (?n - 1) cs)"
    using "2.prems" by (auto simp: is_utf8_def Let_def)
  then have "length (c # take (?n - 1) cs) = ?n"
    by (blast intro: utf8_char_ok_len)
  with "2.IH" [OF refl refl rest] show ?case
    by (simp add: Let_def whole_char_def)
qed

subsection \<open>White space\<close>

text \<open>\<^verbatim>\<open>char::is_whitespace\<close>: the Unicode property White\_Space.\<close>

definition is_whitespace :: "nat \<Rightarrow> bool" where
  "is_whitespace p \<longleftrightarrow> (9 \<le> p \<and> p \<le> 13) \<or> p = 32 \<or> p = 133 \<or> p = 160 \<or> p = 5760
     \<or> (8192 \<le> p \<and> p \<le> 8202) \<or> p = 8232 \<or> p = 8233 \<or> p = 8239 \<or> p = 8287 \<or> p = 12288"

definition white :: "utf8_char \<Rightarrow> bool" where
  "white c = is_whitespace (fst c)"

definition str_trim :: "string \<Rightarrow> string" where
  "str_trim s = str_of (rev (dropWhile white (rev (dropWhile white (utf8_chars s)))))"

function words_of :: "utf8_char list \<Rightarrow> utf8_char list list" where
  "words_of cs =
     (let ds = dropWhile white cs
      in if ds = [] then []
         else takeWhile (\<lambda>c. \<not> white c) ds # words_of (dropWhile (\<lambda>c. \<not> white c) ds))"
  by pat_completeness auto

lemma dropWhile_hd_shorter: "xs \<noteq> [] \<Longrightarrow> P (hd xs) \<Longrightarrow> length (dropWhile P xs) < length xs"
  by (cases xs) (auto simp: length_dropWhile_le le_imp_less_Suc)

termination words_of
proof (relation "measure length")
  show "wf (measure (length :: utf8_char list \<Rightarrow> nat))" by simp
next
  fix cs ds :: "utf8_char list"
  assume ds: "ds = dropWhile white cs" and ne: "ds \<noteq> []"
  then have "\<not> white (hd ds)" using hd_dropWhile by blast
  then have "length (dropWhile (\<lambda>c. \<not> white c) ds) < length ds"
    using ne by (intro dropWhile_hd_shorter)
  also have "\<dots> \<le> length cs" by (simp add: ds length_dropWhile_le)
  finally show "(dropWhile (\<lambda>c. \<not> white c) ds, cs) \<in> measure length" by simp
qed

declare words_of.simps [simp del]

definition split_whitespace :: "string \<Rightarrow> string list" where
  "split_whitespace s = map str_of (words_of (utf8_chars s))"

definition is_word :: "utf8_char list \<Rightarrow> bool" where
  "is_word w \<longleftrightarrow> w \<noteq> [] \<and> (\<forall>c\<in>set w. \<not> white c)"

lemma words_of_words: "w \<in> set (words_of cs) \<Longrightarrow> is_word w \<and> set w \<subseteq> set cs"
proof (induction cs rule: words_of.induct)
  case (1 cs)
  let ?ds = "dropWhile white cs"
  from "1.prems" have ne: "?ds \<noteq> []"
    by (auto simp: words_of.simps [of cs] Let_def split: if_splits)
  have sub: "set ?ds \<subseteq> set cs" by (auto dest: set_dropWhileD)
  have "words_of cs = takeWhile (\<lambda>c. \<not> white c) ?ds # words_of (dropWhile (\<lambda>c. \<not> white c) ?ds)"
    by (subst words_of.simps) (simp only: Let_def ne if_False)
  with "1.prems" consider "w = takeWhile (\<lambda>c. \<not> white c) ?ds"
    | "w \<in> set (words_of (dropWhile (\<lambda>c. \<not> white c) ?ds))"
    by (auto simp only: list.set insert_iff)
  then show ?case
  proof cases
    case 1
    moreover have "\<not> white (hd ?ds)" using ne hd_dropWhile by blast
    ultimately show ?thesis using ne sub
      by (cases ?ds) (auto simp: is_word_def dest: set_takeWhileD)
  next
    case 2
    from "1.IH" [OF refl ne this] show ?thesis using sub by (auto dest: set_dropWhileD)
  qed
qed

lemma words_of_one: "is_word w \<Longrightarrow> words_of w = [w]"
proof -
  assume w: "is_word w"
  then have "dropWhile white w = w" by (cases w) (auto simp: is_word_def)
  moreover have "takeWhile (\<lambda>c. \<not> white c) w = w"
    using w by (auto simp: is_word_def)
  moreover have "words_of (dropWhile (\<lambda>c. \<not> white c) w) = []"
  proof -
    have "dropWhile (\<lambda>c. \<not> white c) w = []" using w by (auto simp: is_word_def)
    then show ?thesis by (simp only:) (simp add: words_of.simps)
  qed
  ultimately show ?thesis using w by (simp add: words_of.simps [of w] is_word_def)
qed

lemma words_of_two:
  assumes v: "is_word v" and w: "is_word w" and sp: "white c"
  shows "words_of (v @ c # w) = [v, w]"
proof -
  have "dropWhile white (v @ c # w) = v @ c # w" using v by (cases v) (auto simp: is_word_def)
  moreover have "takeWhile (\<lambda>c. \<not> white c) (v @ c # w) = v"
    using v sp by (auto simp: is_word_def takeWhile_append2)
  moreover have "dropWhile (\<lambda>c. \<not> white c) (v @ c # w) = c # w"
    using v sp by (auto simp: is_word_def dropWhile_append2)
  moreover have "words_of (c # w) = words_of w"
    using sp by (subst (1 2) words_of.simps) simp
  ultimately show ?thesis using words_of_one [OF w]
    by (simp add: words_of.simps [of "v @ c # w"])
qed

text \<open>Joining the first two fields with one space gives a string with exactly those fields.\<close>

lemma split_whitespace_join:
  assumes utf8: "is_utf8 s" and split: "split_whitespace s = a # b # rest"
  shows "split_whitespace (a @ '' '' @ b) = [a, b]"
proof -
  obtain v w ws where ws: "words_of (utf8_chars s) = v # w # ws" and a: "a = str_of v" and b: "b = str_of w"
    using split by (auto simp: split_whitespace_def Cons_eq_map_conv)
  have v: "is_word v" "\<forall>c\<in>set v. whole_char c" and w: "is_word w" "\<forall>c\<in>set w. whole_char c"
    using words_of_words [of v "utf8_chars s"] words_of_words [of w "utf8_chars s"] ws
      is_utf8_whole [OF utf8] by auto
  let ?sp = "(32, '' '')"
  have sp: "whole_char ?sp" "white ?sp"
    by (auto simp: whole_char_def utf8_len_def utf8_point_def white_def is_whitespace_def)
  have "a @ '' '' @ b = str_of (v @ ?sp # w) @ ''''" by (simp add: a b)
  then have "utf8_chars (a @ '' '' @ b) = v @ ?sp # w"
    using v(2) w(2) sp(1) utf8_chars_str_of [of "v @ ?sp # w" "''''"] by auto
  then show ?thesis
    by (simp add: split_whitespace_def words_of_two [OF v(1) w(1) sp(2)] a b)
qed

section \<open>Slices\<close>

text \<open>\<^verbatim>\<open>slice.windows(2).any(..)\<close>: some pair of neighbours satisfies the predicate.\<close>

fun windows_any :: "('a \<Rightarrow> 'a \<Rightarrow> bool) \<Rightarrow> 'a list \<Rightarrow> bool" where
  "windows_any P (x # y # zs) = (P x y \<or> windows_any P (y # zs))"
| "windows_any P _ = False"

lemma no_window_ge_iff: "\<not> windows_any (\<lambda>x y. y \<le> x) xs \<longleftrightarrow> sorted_wrt (<) xs"
  for xs :: "'a::linorder list"
proof (induction "\<lambda>x y :: 'a. y \<le> x" xs rule: windows_any.induct)
  case (1 x y zs)
  then show ?case by (auto simp: not_le intro: less_trans)
qed auto

lemma sorted_no_equal_window:
  "sorted xs \<Longrightarrow> \<not> windows_any (=) xs \<longleftrightarrow> sorted_wrt (<) xs"
  for xs :: "'a::linorder list"
proof (induction "(=) :: 'a \<Rightarrow> 'a \<Rightarrow> bool" xs rule: windows_any.induct)
  case (1 x y zs)
  then show ?case by auto
qed auto

text \<open>
  \<^verbatim>\<open>slice::binary_search\<close>, as the standard library computes it: the interval of candidates is
  halved until one is left, and only that one is compared for equality. On an unsorted slice the
  result is whatever this computes.
\<close>

function search_base :: "'a::linorder list \<Rightarrow> 'a \<Rightarrow> nat \<Rightarrow> nat \<Rightarrow> nat" where
  "search_base xs x base len =
     (if 1 < len
      then let half = len div 2; mid = base + half
           in search_base xs x (if x < xs ! mid then base else mid) (len - half)
      else base)"
  by pat_completeness auto
termination
  by (relation "measure (\<lambda>(xs, x, base, len). len)") auto

declare search_base.simps [simp del]

definition binary_search :: "'a::linorder list \<Rightarrow> 'a \<Rightarrow> (nat, nat) result" where
  "binary_search xs x =
     (if xs = [] then Err 0
      else let i = search_base xs x 0 (length xs)
           in if xs ! i = x then Ok i else Err (if xs ! i < x then Suc i else i))"

lemma search_base_range:
  "0 < len \<Longrightarrow> base + len \<le> length xs \<Longrightarrow>
     base \<le> search_base xs x base len \<and> search_base xs x base len < base + len"
proof (induction xs x base len rule: search_base.induct)
  case (1 xs x base len)
  show ?case
  proof (cases "1 < len")
    case True
    let ?half = "len div 2" and ?base = "if x < xs ! (base + len div 2) then base else base + len div 2"
    have "?base \<le> search_base xs x ?base (len - ?half)
        \<and> search_base xs x ?base (len - ?half) < ?base + (len - ?half)"
      using True "1.prems" by (intro "1.IH" [OF True refl refl]) auto
    with True show ?thesis by (subst (1 2) search_base.simps) (auto simp: Let_def split: if_splits)
  next
    case False
    with "1.prems" show ?thesis by (subst (1 2) search_base.simps) auto
  qed
qed

text \<open>The halving keeps the last position that may hold the key.\<close>

lemma search_base_finds:
  assumes "sorted xs"
  shows "0 < len \<Longrightarrow> base + len \<le> length xs \<Longrightarrow> k < base + len \<Longrightarrow> base \<le> k \<Longrightarrow> xs ! k = x \<Longrightarrow>
     xs ! search_base xs x base len = x"
  using assms
proof (induction xs x base len arbitrary: k rule: search_base.induct)
  case (1 xs x base len)
  let ?half = "len div 2"
  let ?mid = "base + ?half"
  show ?case
  proof (cases "1 < len")
    case True
    have mid: "?mid < length xs" using True "1.prems" by auto
    have unfold: "search_base xs x base len
        = search_base xs x (if x < xs ! ?mid then base else ?mid) (len - ?half)"
      using True by (subst search_base.simps) (simp add: Let_def)
    show ?thesis
    proof (cases "x < xs ! ?mid")
      case low: True
      have "k < ?mid"
      proof (rule ccontr)
        assume "\<not> k < ?mid"
        then have "xs ! ?mid \<le> xs ! k" using "1.prems" by (intro sorted_nth_mono) auto
        with low "1.prems" show False by simp
      qed
      then have "xs ! search_base xs x (if x < xs ! ?mid then base else ?mid) (len - ?half) = x"
        using True low "1.prems" by (intro "1.IH" [OF True refl refl, of k]) auto
      with unfold show ?thesis by simp
    next
      case high: False
      define j where "j = max k ?mid"
      have "xs ! j = x"
      proof (cases "?mid \<le> k")
        case False
        then have "xs ! k \<le> xs ! ?mid" using "1.prems" mid by (intro sorted_nth_mono) auto
        with high False "1.prems" show ?thesis by (auto simp: j_def max_def)
      qed (use "1.prems" in \<open>auto simp: j_def max_def\<close>)
      moreover have "?mid \<le> j" "j < ?mid + (len - ?half)" using True "1.prems" by (auto simp: j_def)
      ultimately have "xs ! search_base xs x (if x < xs ! ?mid then base else ?mid) (len - ?half) = x"
        using True high "1.prems" by (intro "1.IH" [OF True refl refl, of j]) auto
      with unfold show ?thesis by simp
    qed
  next
    case False
    with "1.prems" have "k = base" by simp
    with False "1.prems" show ?thesis by (subst search_base.simps) simp
  qed
qed

lemma binary_search_iff: "sorted xs \<Longrightarrow> is_Ok (binary_search xs x) \<longleftrightarrow> x \<in> set xs"
proof
  assume "is_Ok (binary_search xs x)"
  then have "xs \<noteq> []" "xs ! search_base xs x 0 (length xs) = x"
    by (auto simp: binary_search_def Let_def split: if_splits)
  moreover from this(1) have "search_base xs x 0 (length xs) < length xs"
    using search_base_range [of "length xs" 0 xs x] by simp
  ultimately show "x \<in> set xs" by (metis nth_mem)
next
  assume "sorted xs" "x \<in> set xs"
  then obtain k where "k < length xs" "xs ! k = x" by (auto simp: in_set_conv_nth)
  with \<open>sorted xs\<close> have "xs ! search_base xs x 0 (length xs) = x"
    by (intro search_base_finds [of xs "length xs" 0 k]) auto
  with \<open>x \<in> set xs\<close> show "is_Ok (binary_search xs x)"
    by (auto simp: binary_search_def Let_def)
qed

lemma sorted_wrt_less_sorted: "sorted_wrt (<) xs \<Longrightarrow> sorted xs"
  for xs :: "'a::linorder list"
  by (rule sorted_wrt_mono_rel [of xs "(<)"]) auto

end
