(* ===== verification/Errors.thy ===== *)
theory Errors
  imports Rust_Std
begin

text \<open>
  The error type of \<^verbatim>\<open>a-quo-core\<close> (\<^verbatim>\<open>ProofError\<close> in \<^verbatim>\<open>src/crates/a-quo-core/src/lib.rs\<close>). Each
  constructor of the enum is a constructor here. Where the source carries a message, the model
  carries one constructor per message of a reason type, with the values the message interpolates,
  so that every error path of the source stays distinguishable.
\<close>

datatype (plugins only: code) json_category = JsonIo | JsonSyntax | JsonData | JsonEof

text \<open>What \<^verbatim>\<open>serde_json\<close> reports of an error: its class, line and column.\<close>

datatype (plugins only: code) json_error = JsonError json_category nat nat

datatype (plugins only: code) json_document =
    PersonaRootStatementDoc | PersonaRootProofDoc | PersonaTransitionStatementDoc | PersonaTransitionProofDoc
  | RecoveryPolicyStatementDoc | RecoveryPolicyProofDoc | RecoveryTransitionStatementDoc
  | RecoveryTransitionProofDoc | TerminalRevocationStatementDoc | TerminalRevocationProofDoc
  | RoutineOrRecoveryTransitionProofDoc | RecoveryCeremonyRequestDoc | RecoveryCeremonyResponseDoc
  | PersonaRootCardDoc | PersonaRootPinDoc

text \<open>The message of \<^verbatim>\<open>parse_bounded_json\<close>.\<close>

datatype (plugins only: code) json_reason =
    JsonExceeds json_document nat
  | JsonInvalid json_document json_category nat nat

datatype (plugins only: code) envelope_field =
    ProofSchemaField | SignatureFormatField | SignatureNamespaceField | VerificationMaterialFormatField
  | StatementSchemaField | DigestAlgorithmField

datatype (plugins only: code) key_reason =
    MissingAlgorithm
  | MissingKeyData
  | KeyBase64 string
  | KeyTooLong
  | KeyFileTooLong
  | TruncatedKeyBlob
  | InvalidAlgorithmLength
  | TruncatedAlgorithmName
  | AlgorithmLabelMismatch
  | FingerprintNotSha256Form
  | FingerprintNotBase64
  | FingerprintNotOneDigest
  | MalformedOpensshKey
  | RsaModulusNotPositive
  | RsaExponentNotPositive
  | RsaExponentZero
  | RsaOutsideBounds
  | AlgorithmOutsideProfile

datatype (plugins only: code) persona_reason =
    PersonaEmpty
  | PersonaSurroundingWhitespace
  | PersonaTooLong
  | PersonaUnsafeCharacters

datatype (plugins only: code) encoding_reason =
    DigestNotLowercaseHex
  | PayloadNotBase64 string

datatype (plugins only: code) anchor_reason =
    AnchorNotBase64url
  | AnchorNotThirtyTwoBytes

text \<open>The field names that \<^verbatim>\<open>validate_jcs_time\<close> and \<^verbatim>\<open>validate_sha256\<close> are called with.\<close>

datatype (plugins only: code) time_field =
    RootIssuedAt | RootReviewTime | TransitionIssuedAt | TransitionReviewTime
  | PolicyIssuedAt | PolicyExpiresAt | PolicyCheckTime | ContinuityCheckTime
  | RecoveryIssuedAt | RecoveryExpiresAt | TerminalIssuedAt

datatype (plugins only: code) digest_field =
    ExpectedRootDigest | TransitionRootDigest | PreviousTransitionDigest | ExpectedHeadDigest
  | ExpectedPolicyDigest | PolicyRootDigest | PreviousPolicyDigest | CheckpointDigest
  | RecoveryRootDigest | RecoveryPolicyDigest | TerminalRootDigest | TerminalPolicyDigest
  | CeremonyRequestDigest | CeremonyHeadDigest | CardRootDigest | SourceArtifactDigest

datatype (plugins only: code) root_reason =
    UnsupportedRootSchema string
  | UnsupportedRootCanonicalization string
  | RootVersionNotOne
  | RootNotFresh
  | RootPersonaMismatch

datatype (plugins only: code) transition_reason =
    UnsupportedTransitionSchema string
  | UnsupportedTransitionCanonicalization string
  | TransitionSequenceZero
  | FirstTransitionNamesPrevious
  | LaterTransitionNeedsPrevious
  | TransitionKeysNotDistinct
  | TransitionNotRoutine
  | FirstTransitionKeyNotInitial
  | TransitionPredatesRoot
  | TransitionNotFresh
  | VerifiedRootInconsistent
  | TransitionRootMismatch
  | TransitionSequenceUnexpected
  | TransitionLinkUnexpected

datatype (plugins only: code) policy_reason =
    PolicyV1WithCapabilities
  | PolicyV2WithoutCapability
  | PolicyCapabilitiesNotSorted
  | PolicyCapabilitiesNotDistinct
  | UnsupportedPolicySchema string
  | UnsupportedPolicyCanonicalization string
  | PolicyVersionZero
  | PolicyOneNamesPredecessor
  | LaterPolicyNeedsPredecessor
  | PolicyValidityUnderflow
  | PolicyValidityBounds
  | PolicyAuthorityBounds
  | PolicyThresholdBounds
  | PolicyFingerprintsNotSorted
  | PolicyPredatesRoot
  | PolicyTimesBackward
  | PolicyVersionOverflow
  | OnlineKeyIsAuthority
  | AuthorityKeysNotDistinct
  | CheckpointTooLate
  | CheckpointZeroNamesDigest
  | CheckpointNeedsDigest

datatype (plugins only: code) recovery_reason =
    RecoveryV1WithCeremony
  | RecoveryV2NeedsCeremony
  | RecoveryV2NeedsExpiry
  | RecoveryValidityOverflow
  | RecoveryValidityBounds
  | UnsupportedRecoverySchema string
  | UnsupportedRecoveryCanonicalization string
  | RecoverySequenceZero
  | FirstRecoveryNamesPrevious
  | LaterRecoveryNeedsPrevious
  | RecoveryKeysNotDistinct
  | RecoveryPolicyVersionZero
  | RecoveryPredatesRoot
  | CeremonyNeedsV2
  | CeremonyIdNotBase64url
  | CeremonyIdNotThirtyTwoBytes

datatype (plugins only: code) terminal_reason =
    UnsupportedTerminalSchema string
  | UnsupportedTerminalCanonicalization string
  | TerminalSequenceBounds
  | FirstTerminalNamesPrevious
  | LaterTerminalNeedsPrevious
  | TerminalPolicyVersionZero
  | UnsupportedTerminalEffect string
  | TerminalPredatesRoot

text \<open>The messages of \<^verbatim>\<open>InvalidContinuityStatement\<close>.\<close>

datatype (plugins only: code) statement_reason =
    StatementJson json_reason
  | TimeNotExact time_field
  | NotSha256 digest_field
  | PersonaHasWhitespace
  | RootReason root_reason
  | TransitionReason transition_reason
  | PolicyReason policy_reason
  | RecoveryReason recovery_reason
  | TerminalReason terminal_reason

datatype (plugins only: code) signature_reason =
    SignatureRoleMismatch
  | UnsupportedSignatureFormat string
  | UnsupportedSignatureNamespace string
  | UnsupportedPublicKeyFormat string
  | SignatureLengthBounds
  | TransitionNeedsTwoSignatures
  | DuplicateSignatureRole
  | RootSignatureInTransition
  | MissingPreviousSignature
  | MissingNextSignature

datatype (plugins only: code) authority_reason =
    EnrollmentNeedsVersionOne
  | UpdateNeedsPredecessor
  | InitialPolicyUsesUpdate
  | SuccessorPolicyUsesEnrollment
  | SignatureSetSize nat nat
  | SigningKeyNotAuthorized
  | SignatureKeyNotAuthorized
  | AuthorityKeyCountedTwice
  | NewAuthoritiesMustSign
  | EnrolledAuthoritiesMustSign
  | SignatureSetBounds
  | RecoverySignatureInvalid

text \<open>The messages of \<^verbatim>\<open>InvalidContinuityProof\<close>.\<close>

text \<open>The messages of \<^verbatim>\<open>recovery_ceremony.rs\<close>.\<close>

datatype (plugins only: code) ceremony_reason =
    RequestSchemaUnsupported
  | RequestCanonicalizationUnsupported
  | RequestPolicyCount
  | RequestHistoryTooLong
  | RequestNeedsV2Statement
  | SignatureWorkOverflow
  | SignatureWorkExceeds nat
  | ResponseSchemaUnsupported
  | ResponseCanonicalizationUnsupported
  | ResponseNamesOtherRequest
  | ResponseRoleNotAuthorized
  | ResponseCountBounds
  | ConflictingResponses
  | SeveralNextKeyResponses
  | TooFewAuthorityResponses nat
  | NextKeyMustSign
  | NotAParticipant
  | CheckTimeMovedBackward
  | CeremonyHasNoExpiry
  | CeremonyNotYetValid
  | CeremonyExpired
  | CeremonyHeadTooLate
  | CeremonyHeadZeroNamesDigest
  | CeremonyHeadNeedsDigest
  | CeremonyTimeNotJcs
  | CeremonyDigestMalformed digest_field
  | CeremonyDocumentTooLong json_document nat

text \<open>The messages of \<^verbatim>\<open>root_distribution.rs\<close>.\<close>

datatype (plugins only: code) distribution_time = ComparisonCheckedAt | PinRecordedAt

datatype (plugins only: code) distribution_reason =
    VerifiedRootDigestMismatch
  | VerifiedRootKeyMismatch
  | PinUriUnsupported
  | DistributionJson json_reason
  | CardNotCanonical
  | PinNotCanonical
  | ComparisonBeforePin
  | CardSchemaUnsupported
  | CardCanonicalizationUnsupported
  | CardDigestMismatch
  | CardPinUriMismatch
  | PinSchemaUnsupported
  | PinCanonicalizationUnsupported
  | DistributionTimeNotJcs distribution_time
  | DistributionDigestMalformed digest_field
  | DistributionDocumentTooLong json_document nat

datatype (plugins only: code) proof_reason =
    ProofJson json_reason
  | UnsupportedProofSchema string string
  | PayloadTooLong
  | PayloadNotCanonicalBase64url
  | SignatureReason signature_reason
  | AuthorityReason authority_reason
  | CeremonyReason ceremony_reason
  | DistributionReason distribution_reason

datatype (plugins only: code) link_reason =
    TooManyTransitions
  | RootDigestUnexpected
  | SequenceOutOfOrder u32 u32
  | BoundToDifferentRoot
  | LinkMismatch
  | PreviousKeyNotCurrent
  | IssuanceMovesBackward
  | SequenceOverflow

datatype (plugins only: code) head_reason =
    HeadSequenceTooLarge
  | HeadZeroNamesDigest
  | HeadNeedsDigest
  | HeadMismatch
  | HeadSequenceAboveTerminal

datatype (plugins only: code) policy_chain_reason =
    PolicyChainLength
  | LatestPolicyUnexpected
  | PolicyBoundToDifferentRoot
  | PolicyBeforeRoot
  | PolicySchemaDowngrade
  | SuccessorBoundToDifferentRoot
  | PolicyVersionAdvanceOverflow
  | PolicyNotNextVersion
  | PolicyIssuanceBackward
  | CheckpointMovesBackward
  | CheckpointBeyondChain u32 u32 nat
  | CheckpointMismatch u32 u32
  | PolicyBeforeCheckpointedTransition u32
  | PolicyReusesOnlineKey u32
  | PolicyReusesProposedKey u32

datatype (plugins only: code) recovery_chain_reason =
    RecoveryNotBoundToPolicy
  | PolicyForbidsRecovery
  | RecoveryOutsideValidity
  | CeremonyOutlivesPolicy
  | ReplacedKeyIsAuthority
  | NewKeyIsAuthority
  | RecoveryBoundToDifferentRoot
  | RecoveryBeforeRoot
  | RecoveryOneKeyNotInitial
  | PolicyOutsideChain
  | RecoveryNotSelectedPolicy
  | RecoveryBeforeCheckpoint
  | RecoverySupersededPolicy
  | ReceiptOtherPolicy

datatype (plugins only: code) terminal_chain_reason =
    TerminalOneKeyNotInitial
  | TerminalNotBoundToPolicy
  | PolicyForbidsTerminal
  | TerminalOutsideValidity
  | RevokedKeyIsAuthority
  | TerminalBoundToDifferentRoot
  | TerminalBeforeRoot
  | SeveralTerminals
  | TerminalNotFinal
  | TooManyEntries nat
  | TerminalNotLatestPolicy
  | TerminalBeforeCheckpoint
  | TerminallyRevoked
  | TerminalSequenceOverflow
  | TerminalSequenceOutOfOrder u32 u32
  | TerminalTooManyTransitions
  | TerminalLinkMismatch
  | TerminalKeyNotCurrent
  | TerminalIssuanceBackward
  | TerminalReceiptOtherPolicy

text \<open>The messages of \<^verbatim>\<open>ContinuityChainMismatch\<close>.\<close>

datatype (plugins only: code) chain_reason =
    LinkReason link_reason
  | HeadReason head_reason
  | PolicyChainReason policy_chain_reason
  | RecoveryChainReason recovery_chain_reason
  | TerminalChainReason terminal_chain_reason

datatype (plugins only: code) signer_operation = SigningOperation

datatype (plugins only: code) ProofError =
    Io string
  | Json json_error
  | Unsupported envelope_field string
  | InvalidPublicKey key_reason
  | InvalidPersona persona_reason
  | InvalidDomain string
  | InvalidDomainChallenge string
  | InvalidDomainValidity string
  | DomainProofNotYetValid i64 i64
  | DomainProofExpired i64 i64
  | EntropyUnavailable
  | InvalidEncoding encoding_reason
  | ArtifactMismatch
  | FingerprintMismatch
  | DomainPersonaMismatch
  | NonCanonicalDomainStatement
  | InvalidContinuityAnchor anchor_reason
  | InvalidContinuityStatement statement_reason
  | InvalidContinuityProof proof_reason
  | NonCanonicalContinuityStatement
  | ContinuityChainMismatch chain_reason
  | SignerUnavailable string
  | UnsafeSigner string
  | SignerFailed signer_operation string
  | SignerTimedOut signer_operation
  | NonUtf8Signature
  | SignatureVerificationFailed
  | InvalidLiveSignerLocator
  | LiveSignerLocatorChanged
  | LiveSignerBindingMismatch
  | ProofTooLarge
  | ProofAlreadyExists string

type_synonym 'a res = "('a, ProofError) result"

text \<open>
  The three helpers of \<^verbatim>\<open>continuity.rs\<close> and \<^verbatim>\<open>recovery.rs\<close> that wrap a message; \<^verbatim>\<open>recovery.rs\<close>
  repeats them under shorter names.
\<close>

abbreviation invalid_statement :: "statement_reason \<Rightarrow> 'a res" where
  "invalid_statement r \<equiv> Err (InvalidContinuityStatement r)"

abbreviation invalid_proof :: "proof_reason \<Rightarrow> 'a res" where
  "invalid_proof r \<equiv> Err (InvalidContinuityProof r)"

abbreviation chain_mismatch :: "chain_reason \<Rightarrow> 'a res" where
  "chain_mismatch r \<equiv> Err (ContinuityChainMismatch r)"

end
