(* ===== verification/Display.thy ===== *)
theory Display
  imports Rust_Std
begin

text \<open>
  The crate \<^verbatim>\<open>a-quo-display\<close> (\<^verbatim>\<open>src/crates/a-quo-display/src/lib.rs\<close>): which characters may appear
  on a security-facing surface, and the escaping of untrusted bytes that reach a terminal. The
  lemmas show that escaped text is bounded printable ASCII, passes the display check itself, and
  determines every input that is short enough to be kept whole.
\<close>

unbundle bit_operations_syntax

section \<open>Definitions\<close>

definition MAX_ESCAPED_DIAGNOSTIC_INPUT_BYTES :: nat where
  "MAX_ESCAPED_DIAGNOSTIC_INPUT_BYTES = 256"

text \<open>\<^verbatim>\<open>char::is_control\<close>: the general category Cc.\<close>

definition is_control :: "nat \<Rightarrow> bool" where
  "is_control p \<longleftrightarrow> p \<le> 31 \<or> (127 \<le> p \<and> p \<le> 159)"

definition is_unicode_17_default_ignorable :: "nat \<Rightarrow> bool" where
  "is_unicode_17_default_ignorable p \<longleftrightarrow>
     p = 0x00ad
   \<or> p = 0x034f
   \<or> p = 0x061c
   \<or> (0x115f \<le> p \<and> p \<le> 0x1160)
   \<or> (0x17b4 \<le> p \<and> p \<le> 0x17b5)
   \<or> (0x180b \<le> p \<and> p \<le> 0x180f)
   \<or> (0x200b \<le> p \<and> p \<le> 0x200f)
   \<or> (0x202a \<le> p \<and> p \<le> 0x202e)
   \<or> (0x2060 \<le> p \<and> p \<le> 0x206f)
   \<or> p = 0x3164
   \<or> (0xfe00 \<le> p \<and> p \<le> 0xfe0f)
   \<or> p = 0xfeff
   \<or> p = 0xffa0
   \<or> (0xfff0 \<le> p \<and> p \<le> 0xfff8)
   \<or> (0x1bca0 \<le> p \<and> p \<le> 0x1bca3)
   \<or> (0x1d173 \<le> p \<and> p \<le> 0x1d17a)
   \<or> (0xe0000 \<le> p \<and> p \<le> 0xe0fff)"

definition is_unsafe_display_character :: "nat \<Rightarrow> bool" where
  "is_unsafe_display_character p \<longleftrightarrow>
     is_control p \<or> p = 0x2028 \<or> p = 0x2029 \<or> is_unicode_17_default_ignorable p"

definition contains_unsafe_display_characters :: "string \<Rightarrow> bool" where
  "contains_unsafe_display_characters s =
     list_ex (\<lambda>c. is_unsafe_display_character (fst c)) (utf8_chars s)"

definition escape_byte :: "byte \<Rightarrow> string" where
  "escape_byte b =
     (if 32 \<le> b \<and> b \<le> 126 \<and> b \<noteq> 92 \<and> b \<noteq> 39 \<and> b \<noteq> 34 then [char_from b]
      else [CHR 0x5c, CHR ''x'', hex_digit (unat (drop_bit 4 b)), hex_digit (unat (b AND 15))])"

definition escape_untrusted_bytes_for_terminal :: "bytes \<Rightarrow> string" where
  "escape_untrusted_bytes_for_terminal bs =
     (let retained = min (length bs) MAX_ESCAPED_DIAGNOSTIC_INPUT_BYTES;
          escaped = concat (map escape_byte (take retained bs))
      in if retained < length bs then escaped @ ''...'' else escaped)"

definition escape_untrusted_text_for_terminal :: "string \<Rightarrow> string" where
  "escape_untrusted_text_for_terminal s = escape_untrusted_bytes_for_terminal (as_bytes s)"

section \<open>What escaping guarantees\<close>

text \<open>Printable ASCII other than the two quote characters.\<close>

definition terminal_safe :: "char \<Rightarrow> bool" where
  "terminal_safe c \<longleftrightarrow> (let n = of_char c :: nat in 32 \<le> n \<and> n \<le> 126 \<and> n \<noteq> 39 \<and> n \<noteq> 34)"

lemma nibbles:
  "unat (drop_bit 4 b) < 16" "unat (b AND 15) < 16" for b :: byte
proof -
  show "unat (drop_bit 4 b) < 16"
    using unat_lt [of b] by (simp add: drop_bit_eq_div unat_div)
  have "b AND 15 = take_bit 4 b" by (simp add: take_bit_eq_mask mask_eq_exp_minus_1)
  then show "unat (b AND 15) < 16"
    by (simp add: take_bit_eq_mod unat_mod)
qed

lemma nibbles_determine:
  fixes a b :: byte
  assumes "drop_bit 4 a = drop_bit 4 b" "a AND 15 = b AND 15"
  shows "a = b"
proof -
  have "x = push_bit 4 (drop_bit 4 x) + take_bit 4 x" for x :: byte
    by (metis bits_ident)
  moreover have "take_bit 4 x = x AND 15" for x :: byte
    by (simp add: take_bit_eq_mask mask_eq_exp_minus_1)
  ultimately show ?thesis using assms by metis
qed

lemma hex_digit_safe: "n < 16 \<Longrightarrow> terminal_safe (hex_digit n) \<and> hex_digit n \<noteq> CHR 0x5c"
  by (drule less_16_cases) (auto simp: hex_digit_def terminal_safe_def)

lemma printable_char: "32 \<le> b \<Longrightarrow> b \<le> 126 \<Longrightarrow> b \<noteq> 39 \<Longrightarrow> b \<noteq> 34 \<Longrightarrow> terminal_safe (char_from b)"
  for b :: byte
  by (auto simp: terminal_safe_def char_from_def word_le_nat_alt Let_def word_unat_eq_iff)

lemma terminal_safe_literals: "terminal_safe (CHR 0x5c)" "terminal_safe (CHR ''x'')" "terminal_safe (CHR ''.'')"
  by (simp_all add: terminal_safe_def)

lemma escape_byte_safe: "c \<in> set (escape_byte b) \<Longrightarrow> terminal_safe c"
  using hex_digit_safe [OF nibbles(1) [of b]] hex_digit_safe [OF nibbles(2) [of b]]
  by (auto simp: escape_byte_def printable_char terminal_safe_literals split: if_splits)

lemma length_escape_byte: "length (escape_byte b) \<le> 4"
  by (simp add: escape_byte_def)

lemma length_escape_bytes: "length (concat (map escape_byte bs)) \<le> 4 * length bs"
  using length_escape_byte by (induction bs) (auto simp: add_le_mono)

lemma escape_safe: "c \<in> set (escape_untrusted_bytes_for_terminal bs) \<Longrightarrow> terminal_safe c"
  by (auto simp: escape_untrusted_bytes_for_terminal_def Let_def terminal_safe_literals
      dest: escape_byte_safe split: if_splits)

lemma escape_length: "length (escape_untrusted_bytes_for_terminal bs) \<le> 4 * 256 + 3"
  using length_escape_bytes [of "take (min (length bs) 256) bs"]
  by (auto simp: escape_untrusted_bytes_for_terminal_def MAX_ESCAPED_DIAGNOSTIC_INPUT_BYTES_def Let_def)

lemma terminal_safe_utf8: "\<forall>c\<in>set s. terminal_safe c \<Longrightarrow> utf8_chars s = map (\<lambda>c. (of_char c, [c])) s"
  by (induction s) (auto simp: terminal_safe_def Let_def utf8_len_def utf8_point_def)

lemma terminal_safe_display: "\<forall>c\<in>set s. terminal_safe c \<Longrightarrow> \<not> contains_unsafe_display_characters s"
  by (auto simp: contains_unsafe_display_characters_def terminal_safe_utf8 list_ex_iff terminal_safe_def
      Let_def is_unsafe_display_character_def is_control_def is_unicode_17_default_ignorable_def)

text \<open>A kept byte is never a backslash, so an escape starts exactly at a backslash.\<close>

lemma escape_byte_cases:
  obtains (plain) "escape_byte b = [char_from b]" "char_from b \<noteq> CHR 0x5c"
  | (hex) "escape_byte b = [CHR 0x5c, CHR ''x'', hex_digit (unat (drop_bit 4 b)), hex_digit (unat (b AND 15))]"
proof (cases "32 \<le> b \<and> b \<le> 126 \<and> b \<noteq> 92 \<and> b \<noteq> 39 \<and> b \<noteq> 34")
  case True
  have "char_from b \<noteq> CHR 0x5c"
  proof
    assume "char_from b = CHR 0x5c"
    then have "(of_char (char_from b) :: byte) = of_char (CHR 0x5c)" by simp
    with True show False by simp
  qed
  with True show ?thesis by (intro plain) (auto simp: escape_byte_def)
next
  case False
  then show ?thesis by (intro hex) (auto simp: escape_byte_def)
qed

lemma escape_byte_prefix_free:
  assumes "escape_byte a @ s = escape_byte b @ t"
  shows "a = b \<and> s = t"
proof (cases a rule: escape_byte_cases)
  case plain_a: plain
  show ?thesis
  proof (cases b rule: escape_byte_cases)
    case plain
    with plain_a assms show ?thesis by (metis append_Cons append_Nil list.inject of_char_char_from)
  next
    case hex
    with plain_a assms show ?thesis by simp
  qed
next
  case hex_a: hex
  show ?thesis
  proof (cases b rule: escape_byte_cases)
    case plain
    with hex_a assms show ?thesis by simp
  next
    case hex
    with hex_a assms have "hex_digit (unat (drop_bit 4 a)) = hex_digit (unat (drop_bit 4 b))"
      "hex_digit (unat (a AND 15)) = hex_digit (unat (b AND 15))" "s = t" by auto
    then show ?thesis
      by (metis hex_digit_inj nibbles nibbles_determine word_unat_eq_iff)
  qed
qed

lemma escape_bytes_inj:
  "concat (map escape_byte as) = concat (map escape_byte bs) \<Longrightarrow> as = bs"
proof (induction as arbitrary: bs)
  case Nil
  moreover have "escape_byte b \<noteq> []" for b by (simp add: escape_byte_def)
  ultimately show ?case by (cases bs) auto
next
  case (Cons a as)
  have "escape_byte a \<noteq> []" by (simp add: escape_byte_def)
  with Cons.prems obtain b bs' where bs: "bs = b # bs'" by (cases bs) auto
  with Cons.prems escape_byte_prefix_free [of a _ b]
  have "a = b" "concat (map escape_byte as) = concat (map escape_byte bs')" by auto
  with Cons.IH bs show ?case by simp
qed

lemma escape_short:
  "length bs \<le> 256 \<Longrightarrow> escape_untrusted_bytes_for_terminal bs = concat (map escape_byte bs)"
  by (simp add: escape_untrusted_bytes_for_terminal_def MAX_ESCAPED_DIAGNOSTIC_INPUT_BYTES_def Let_def)

end
