(* ===== verification/Signing.thy ===== *)
theory Signing
  imports Errors Display
begin

text \<open>
  Keys, fingerprints and SSHSIG signatures: the shared helpers of
  \<^verbatim>\<open>src/crates/a-quo-core/src/lib.rs\<close> that every proof format uses.

  The code outside the repository is the record \<open>ext\<close>: the Base64 engines, SHA-256, the parts
  of the \<^verbatim>\<open>ssh-key\<close> crate that are called, and the \<^verbatim>\<open>ssh-keygen\<close> process. A parsed key or signature
  is represented by the text it is parsed from, together with what the source reads of it. Nothing
  is assumed of these functions here; lemmas that rely on their documented behaviour name it.
\<close>

unbundle bit_operations_syntax

section \<open>The code outside the repository\<close>

datatype HashAlg = Sha256 | Sha512

datatype Algorithm = AlgRsa "HashAlg option" | AlgOther

text \<open>\<^verbatim>\<open>ssh_key::public::KeyData\<close>; an RSA key carries \<^verbatim>\<open>n.as_positive_bytes()\<close> and \<^verbatim>\<open>e.as_positive_bytes()\<close>.\<close>

datatype KeyData =
    Ed25519 | Ecdsa | SkEcdsaSha2NistP256 | SkEd25519
  | Rsa "bytes option" "bytes option"
  | UnsupportedKey

text \<open>What the metadata of \<^verbatim>\<open>/usr/bin/ssh-keygen\<close> say.\<close>

record FileMetadata =
  is_symlink :: bool
  is_file :: bool
  file_mode :: u32
  file_owner :: u32

text \<open>
  One run of \<^verbatim>\<open>ssh-keygen\<close> as the parent sees it: whether its standard input is available, whether
  writing to it fails, what the polls of \<^verbatim>\<open>try_wait\<close> return, the time each round of the polling loop
  takes beside the sleep (in nanoseconds), and what \<^verbatim>\<open>wait_with_output\<close> collects (success, status, output).
\<close>

datatype poll = Finished | Running | PollFailed string

record ChildRun =
  stdin_available :: bool
  stdin_failure :: "string option"
  try_wait :: "nat \<Rightarrow> poll"
  round_delay :: "nat \<Rightarrow> nat"
  wait_output :: "(bool \<times> string \<times> bytes, string) result"

record ext =
  base64_decode :: "string \<Rightarrow> (bytes, string) result"
  base64_nopad_decode :: "string \<Rightarrow> (bytes, string) result"
  base64_nopad_encode :: "bytes \<Rightarrow> string"
  base64url_decode :: "string \<Rightarrow> (bytes, string) result"
  base64url_encode :: "bytes \<Rightarrow> string"
  sha256 :: "bytes \<Rightarrow> bytes"
  key_from_openssh :: "string \<Rightarrow> KeyData option"
  sshsig_algorithm :: "string \<Rightarrow> Algorithm option"
  key_verify :: "string \<Rightarrow> string \<Rightarrow> bytes \<Rightarrow> string \<Rightarrow> bool"
  keygen_metadata :: "FileMetadata option"
  process_env :: "string \<Rightarrow> string option"
  keygen_spawn :: "(string \<Rightarrow> string option) \<Rightarrow> string list \<Rightarrow> bytes \<Rightarrow> (ChildRun, string) result"

text \<open>\<^verbatim>\<open>EvidenceStatus\<close>: a report states only what was verified.\<close>

datatype EvidenceStatus = Verified

section \<open>Constants\<close>

definition MAX_PROOF_BYTES :: nat where "MAX_PROOF_BYTES = 1048576"
definition MIN_SSHSIG_RSA_BITS :: nat where "MIN_SSHSIG_RSA_BITS = 2048"
definition MAX_SSHSIG_RSA_BITS :: nat where "MAX_SSHSIG_RSA_BITS = 4096"
definition MAX_SSHSIG_RSA_EXPONENT_BITS :: nat where "MAX_SSHSIG_RSA_EXPONENT_BITS = 32"
definition MAX_PUBLIC_KEY_BYTES :: nat where "MAX_PUBLIC_KEY_BYTES = 16384"
definition MAX_PERSONA_BYTES :: nat where "MAX_PERSONA_BYTES = 256"
definition SSH_KEYGEN :: string where "SSH_KEYGEN = ''/usr/bin/ssh-keygen''"

section \<open>Digests, JSON bounds and personas\<close>

definition sha256_hex :: "'z ext_scheme \<Rightarrow> bytes \<Rightarrow> string" where
  "sha256_hex E bs = hex_encode (sha256 E bs)"

text \<open>\<^verbatim>\<open>parse_bounded_json\<close>, for any parser of one document type.\<close>

definition parse_bounded_json ::
  "(bytes \<Rightarrow> ('a, json_error) result) \<Rightarrow> bytes \<Rightarrow> nat \<Rightarrow> json_document \<Rightarrow> ('a, json_reason) result" where
  "parse_bounded_json from_slice bs maximum description =
     (if maximum < length bs then Err (JsonExceeds description maximum)
      else map_err (\<lambda>e. case e of JsonError c l k \<Rightarrow> JsonInvalid description c l k) (from_slice bs))"

definition lowercase_hex_64 :: "string \<Rightarrow> bool" where
  "lowercase_hex_64 s \<longleftrightarrow> length s = 64 \<and> list_all is_lower_hexdigit s"

definition validate_persona :: "string \<Rightarrow> string res" where
  "validate_persona persona =
     (if persona = [] then Err (InvalidPersona PersonaEmpty)
      else if str_trim persona \<noteq> persona then Err (InvalidPersona PersonaSurroundingWhitespace)
      else if MAX_PERSONA_BYTES < length persona then Err (InvalidPersona PersonaTooLong)
      else if contains_unsafe_display_characters persona then Err (InvalidPersona PersonaUnsafeCharacters)
      else Ok persona)"

section \<open>Public keys\<close>

text \<open>\<^verbatim>\<open>blob.get(i..j)\<close> and \<^verbatim>\<open>usize::checked_add\<close> on a 64-bit target.\<close>

definition slice_get :: "'a list \<Rightarrow> nat \<Rightarrow> nat \<Rightarrow> 'a list option" where
  "slice_get xs i j = (if i \<le> j \<and> j \<le> length xs then Some (take (j - i) (drop i xs)) else None)"

definition usize_checked_add :: "nat \<Rightarrow> nat \<Rightarrow> nat option" where
  "usize_checked_add a b = (if a + b < 2 ^ 64 then Some (a + b) else None)"

definition normalize_public_key :: "'z ext_scheme \<Rightarrow> string \<Rightarrow> string res" where
  "normalize_public_key E public_key =
     (if MAX_PUBLIC_KEY_BYTES < length public_key then Err (InvalidPublicKey KeyTooLong)
      else case split_whitespace public_key of
        [] \<Rightarrow> Err (InvalidPublicKey MissingAlgorithm)
      | [_] \<Rightarrow> Err (InvalidPublicKey MissingKeyData)
      | algorithm # encoded # _ \<Rightarrow>
          and_then (map_err (\<lambda>e. InvalidPublicKey (KeyBase64 e)) (base64_decode E encoded)) (\<lambda>blob.
          if length blob < 4 then Err (InvalidPublicKey TruncatedKeyBlob)
          else let algorithm_len = unat (u32_from_be_bytes (blob ! 0) (blob ! 1) (blob ! 2) (blob ! 3))
          in and_then (ok_or (InvalidPublicKey InvalidAlgorithmLength) (usize_checked_add 4 algorithm_len)) (\<lambda>algorithm_end.
          and_then (ok_or (InvalidPublicKey TruncatedAlgorithmName) (slice_get blob 4 algorithm_end)) (\<lambda>encoded_algorithm.
          if encoded_algorithm \<noteq> as_bytes algorithm then Err (InvalidPublicKey AlgorithmLabelMismatch)
          else Ok (algorithm @ '' '' @ encoded)))))"

definition public_key_fingerprint :: "'z ext_scheme \<Rightarrow> string \<Rightarrow> string res" where
  "public_key_fingerprint E public_key =
     and_then (normalize_public_key E public_key) (\<lambda>normalized.
     case split_whitespace normalized of
        [] \<Rightarrow> Err (InvalidPublicKey MissingAlgorithm)
      | [_] \<Rightarrow> Err (InvalidPublicKey MissingKeyData)
      | _ # encoded # _ \<Rightarrow>
          and_then (map_err (\<lambda>e. InvalidPublicKey (KeyBase64 e)) (base64_decode E encoded)) (\<lambda>key_blob.
          Ok (''SHA256:'' @ base64_nopad_encode E (sha256 E key_blob))))"

definition strip_prefix :: "string \<Rightarrow> string \<Rightarrow> string option" where
  "strip_prefix p s = (if take (length p) s = p then Some (drop (length p) s) else None)"

definition validate_key_fingerprint :: "'z ext_scheme \<Rightarrow> string \<Rightarrow> unit res" where
  "validate_key_fingerprint E fingerprint =
     and_then (ok_or (InvalidPublicKey FingerprintNotSha256Form) (strip_prefix ''SHA256:'' fingerprint)) (\<lambda>encoded.
     and_then (map_err (\<lambda>_. InvalidPublicKey FingerprintNotBase64) (base64_nopad_decode E encoded)) (\<lambda>digest.
     if length digest \<noteq> 32 \<or> base64_nopad_encode E digest \<noteq> encoded
     then Err (InvalidPublicKey FingerprintNotOneDigest)
     else Ok ()))"

section \<open>The SSHSIG profile\<close>

definition u8_leading_zeros :: "byte \<Rightarrow> nat" where
  "u8_leading_zeros b =
     (if 128 \<le> b then 0 else if 64 \<le> b then 1 else if 32 \<le> b then 2 else if 16 \<le> b then 3
      else if 8 \<le> b then 4 else if 4 \<le> b then 5 else if 2 \<le> b then 6 else if 1 \<le> b then 7 else 8)"

definition positive_integer_bit_length :: "bytes option \<Rightarrow> nat option" where
  "positive_integer_bit_length bs =
     (case bs of
        None \<Rightarrow> None
      | Some bytes \<Rightarrow>
          (case dropWhile (\<lambda>b. b = 0) bytes of
             [] \<Rightarrow> None
           | first # rest \<Rightarrow> Some (length rest * 8 + (8 - u8_leading_zeros first))))"

definition exponent_value :: "bytes \<Rightarrow> u64" where
  "exponent_value bs = foldl (\<lambda>value b. push_bit 8 value OR ucast b) 0 bs"

definition require_supported_sshsig_key :: "KeyData \<Rightarrow> unit res" where
  "require_supported_sshsig_key key =
     (case key of
        Ed25519 \<Rightarrow> Ok () | Ecdsa \<Rightarrow> Ok () | SkEcdsaSha2NistP256 \<Rightarrow> Ok () | SkEd25519 \<Rightarrow> Ok ()
      | Rsa n e \<Rightarrow>
          and_then (ok_or (InvalidPublicKey RsaModulusNotPositive) (positive_integer_bit_length n)) (\<lambda>modulus_bits.
          and_then (ok_or (InvalidPublicKey RsaExponentNotPositive) e) (\<lambda>exponent_bytes.
          and_then (ok_or (InvalidPublicKey RsaExponentZero) (positive_integer_bit_length (Some exponent_bytes))) (\<lambda>exponent_bits.
          if \<not> (MIN_SSHSIG_RSA_BITS \<le> modulus_bits \<and> modulus_bits \<le> MAX_SSHSIG_RSA_BITS)
             \<or> MAX_SSHSIG_RSA_EXPONENT_BITS < exponent_bits
          then Err (InvalidPublicKey RsaOutsideBounds)
          else let exponent = exponent_value exponent_bytes
               in if exponent < 3 \<or> exponent mod 2 = 0 then Err (InvalidPublicKey RsaOutsideBounds)
                  else Ok ())))
      | UnsupportedKey \<Rightarrow> Err (InvalidPublicKey AlgorithmOutsideProfile))"

definition is_rsa :: "KeyData \<Rightarrow> bool" where
  "is_rsa key = (case key of Rsa _ _ \<Rightarrow> True | _ \<Rightarrow> False)"

definition sshsig_verify :: "'z ext_scheme \<Rightarrow> bytes \<Rightarrow> string \<Rightarrow> string \<Rightarrow> string \<Rightarrow> unit res" where
  "sshsig_verify E payload signature public_key namespace =
     and_then (ok_or (InvalidPublicKey MalformedOpensshKey) (key_from_openssh E public_key)) (\<lambda>key.
     and_then (require_supported_sshsig_key key) (\<lambda>_.
     and_then (ok_or SignatureVerificationFailed (sshsig_algorithm E signature)) (\<lambda>algorithm.
     if is_rsa key \<and> \<not> (case algorithm of AlgRsa (Some _) \<Rightarrow> True | _ \<Rightarrow> False)
     then Err SignatureVerificationFailed
     else if key_verify E public_key namespace payload signature then Ok ()
     else Err SignatureVerificationFailed)))"

section \<open>Calling the external signer\<close>

definition validate_ssh_keygen :: "'z ext_scheme \<Rightarrow> unit res" where
  "validate_ssh_keygen E =
     (case keygen_metadata E of
        None \<Rightarrow> Err (UnsafeSigner SSH_KEYGEN)
      | Some m \<Rightarrow>
          if is_symlink m \<or> \<not> is_file m then Err (UnsafeSigner SSH_KEYGEN)
          else if file_mode m AND 0x49 = 0 \<or> file_mode m AND 0x12 \<noteq> 0
                  \<or> \<not> (file_owner m = 0 \<or> file_owner m = 65534)
          then Err (UnsafeSigner SSH_KEYGEN)
          else Ok ())"

text \<open>\<^verbatim>\<open>ssh_keygen_command\<close>: the cleared environment with the variables that are passed on.\<close>

definition passed_environment_names :: "string list" where
  "passed_environment_names =
     [''SSH_AUTH_SOCK'', ''HOME'', ''USER'', ''LOGNAME'', ''LANG'', ''LC_ALL'', ''TERM'', ''DISPLAY'',
      ''WAYLAND_DISPLAY'', ''XDG_RUNTIME_DIR'']"

definition copy_environment_if_present ::
  "'z ext_scheme \<Rightarrow> (string \<Rightarrow> string option) \<Rightarrow> string \<Rightarrow> (string \<Rightarrow> string option)" where
  "copy_environment_if_present E env name =
     (case process_env E name of None \<Rightarrow> env | Some value \<Rightarrow> env(name := Some value))"

definition ssh_keygen_command :: "'z ext_scheme \<Rightarrow> (string \<Rightarrow> string option) res" where
  "ssh_keygen_command E =
     and_then (validate_ssh_keygen E) (\<lambda>_.
     Ok (foldl (copy_environment_if_present E) (Map.empty(''PATH'' := Some ''/usr/bin:/bin''))
           passed_environment_names))"

text \<open>
  The deadline of the external signer. Each function returns its result and whether it called
  \<^verbatim>\<open>terminate_signer\<close>. A round sleeps at least 20 ms, so the loop ends.
\<close>

definition SIGNER_TIMEOUT_NANOS :: nat where "SIGNER_TIMEOUT_NANOS = 120 * 10 ^ 9"
definition SIGNER_POLL_NANOS :: nat where "SIGNER_POLL_NANOS = 20 * 10 ^ 6"

definition operation_text :: "signer_operation \<Rightarrow> string" where
  "operation_text operation = (case operation of SigningOperation \<Rightarrow> ''signing'')"

definition write_signer_input :: "ChildRun \<Rightarrow> signer_operation \<Rightarrow> unit res \<times> bool" where
  "write_signer_input child operation =
     (if \<not> stdin_available child
      then (Err (SignerUnavailable (''ssh-keygen '' @ operation_text operation @ '' stdin was unavailable'')), True)
      else case stdin_failure child of Some e \<Rightarrow> (Err (SignerUnavailable e), True) | None \<Rightarrow> (Ok (), False))"

function wait_from :: "ChildRun \<Rightarrow> signer_operation \<Rightarrow> nat \<Rightarrow> nat \<Rightarrow> (bool \<times> string \<times> bytes) res \<times> bool" where
  "wait_from child operation i now =
     (case try_wait child i of
        Finished \<Rightarrow> (map_err SignerUnavailable (wait_output child), False)
      | PollFailed e \<Rightarrow> (Err (SignerUnavailable e), True)
      | Running \<Rightarrow>
          let now = now + round_delay child i
          in if SIGNER_TIMEOUT_NANOS \<le> now then (Err (SignerTimedOut operation), True)
             else wait_from child operation (Suc i) (now + SIGNER_POLL_NANOS))"
  by pat_completeness auto
termination
  by (relation "measure (\<lambda>(child, operation, i, now). SIGNER_TIMEOUT_NANOS - now)")
    (auto simp: SIGNER_POLL_NANOS_def)

declare wait_from.simps [simp del]

definition wait_with_output_deadline :: "ChildRun \<Rightarrow> signer_operation \<Rightarrow> (bool \<times> string \<times> bytes) res \<times> bool" where
  "wait_with_output_deadline child operation = wait_from child operation 0 0"

definition sshsig_sign :: "'z ext_scheme \<Rightarrow> bytes \<Rightarrow> string \<Rightarrow> string \<Rightarrow> string res" where
  "sshsig_sign E payload private_key_path namespace =
     and_then (ssh_keygen_command E) (\<lambda>env.
     and_then (map_err SignerUnavailable
       (keygen_spawn E env [''-Y'', ''sign'', ''-f'', private_key_path, ''-n'', namespace, ''-''] payload)) (\<lambda>child.
     and_then (fst (write_signer_input child SigningOperation)) (\<lambda>_.
     and_then (fst (wait_with_output_deadline child SigningOperation)) (\<lambda>(success, status, stdout).
     if \<not> success then Err (SignerFailed SigningOperation status)
     else let text = map char_from stdout
          in if is_utf8 text then Ok text else Err NonUtf8Signature))))"

section \<open>Normalised public keys\<close>

lemma words_of_Cons_decomp:
  assumes "words_of cs = v # vs"
  obtains p r where "cs = p @ v @ r" "words_of r = vs" "r = [] \<or> white (hd r)"
proof -
  let ?ds = "dropWhile white cs"
  have ne: "?ds \<noteq> []"
  proof
    assume "?ds = []"
    then have "words_of cs = []" by (subst words_of.simps) (simp only: Let_def if_True refl)
    with assms show False by simp
  qed
  have unfold: "words_of cs = takeWhile (\<lambda>c. \<not> white c) ?ds # words_of (dropWhile (\<lambda>c. \<not> white c) ?ds)"
    by (subst words_of.simps) (simp only: Let_def ne if_False)
  show ?thesis
  proof (rule that [of "takeWhile white cs" "dropWhile (\<lambda>c. \<not> white c) ?ds"])
    show "cs = takeWhile white cs @ v @ dropWhile (\<lambda>c. \<not> white c) ?ds"
      using assms unfold by (metis list.inject takeWhile_dropWhile_id)
    show "words_of (dropWhile (\<lambda>c. \<not> white c) ?ds) = vs" using assms unfold by simp
    show "dropWhile (\<lambda>c. \<not> white c) ?ds = [] \<or> white (hd (dropWhile (\<lambda>c. \<not> white c) ?ds))"
      using hd_dropWhile [of "\<lambda>c. \<not> white c" ?ds] by blast
  qed
qed

lemma utf8_chars_nonempty: "c \<in> set (utf8_chars s) \<Longrightarrow> snd c \<noteq> []"
  by (induction s rule: utf8_chars.induct) (auto simp: Let_def)

lemma split_whitespace_shorter:
  assumes "split_whitespace s = a # b # rest"
  shows "length (a @ '' '' @ b) \<le> length s"
proof -
  obtain v w ws where ws: "words_of (utf8_chars s) = v # w # ws" and ab: "a = str_of v" "b = str_of w"
    using assms by (auto simp: split_whitespace_def Cons_eq_map_conv)
  obtain p r where r: "utf8_chars s = p @ v @ r" "words_of r = w # ws" "r = [] \<or> white (hd r)"
    using ws by (rule words_of_Cons_decomp)
  obtain q t where q: "r = q @ w @ t" using r(2) by (rule words_of_Cons_decomp)
  have "is_word w" using words_of_words [of w "utf8_chars s"] ws by simp
  with q r(3) have "q \<noteq> []" by (cases w) (auto simp: is_word_def)
  then obtain c q' where c: "q = c # q'" by (cases q) auto
  have "snd c \<noteq> []" using utf8_chars_nonempty [of c s] r(1) q c by simp
  then have "1 \<le> length (snd c)" by (cases "snd c") auto
  moreover have "s = str_of (p @ v @ (c # q') @ w @ t)"
    using r(1) q c str_of_utf8_chars [of s] by simp
  ultimately show ?thesis by (simp add: ab)
qed

lemma two_fields_Ok_iff:
  "(case xs of [] \<Rightarrow> Err e | [_] \<Rightarrow> Err f | a # b # _ \<Rightarrow> g a b) = Ok y \<longleftrightarrow> (\<exists>a b r. xs = a # b # r \<and> g a b = Ok y)"
  by (auto split: list.splits)

lemma normalize_public_key_Ok_iff:
  "normalize_public_key E k = Ok n \<longleftrightarrow>
     length k \<le> MAX_PUBLIC_KEY_BYTES \<and>
     (\<exists>algorithm encoded rest blob.
        split_whitespace k = algorithm # encoded # rest \<and> base64_decode E encoded = Ok blob \<and>
        n = algorithm @ '' '' @ encoded \<and> 4 \<le> length blob \<and>
        slice_get blob 4 (4 + unat (u32_from_be_bytes (blob ! 0) (blob ! 1) (blob ! 2) (blob ! 3)))
          = Some (as_bytes algorithm) \<and>
        4 + unat (u32_from_be_bytes (blob ! 0) (blob ! 1) (blob ! 2) (blob ! 3)) < 2 ^ 64)"
  by (auto simp: normalize_public_key_def Let_def usize_checked_add_def not_less
      split: list.splits if_splits)

lemma normalize_public_key_idem:
  assumes "is_utf8 k" and "normalize_public_key E k = Ok n"
  shows "normalize_public_key E n = Ok n"
proof -
  obtain algorithm encoded rest where split: "split_whitespace k = algorithm # encoded # rest"
    and n: "n = algorithm @ '' '' @ encoded"
    using assms(2) by (auto simp: normalize_public_key_Ok_iff)
  have "split_whitespace n = [algorithm, encoded]"
    using split_whitespace_join [OF assms(1) split] n by simp
  moreover have "length n \<le> length k" using split_whitespace_shorter [OF split] n by simp
  ultimately show ?thesis using assms(2) split by (auto simp: normalize_public_key_Ok_iff)
qed

lemma fingerprint_of_normalized:
  assumes "is_utf8 k" and "normalize_public_key E k = Ok n"
  shows "public_key_fingerprint E n = public_key_fingerprint E k"
  using normalize_public_key_idem [OF assms] assms(2) by (simp add: public_key_fingerprint_def)

lemma public_key_fingerprint_Ok_iff:
  "public_key_fingerprint E k = Ok f \<longleftrightarrow>
     (\<exists>n algorithm encoded rest blob. normalize_public_key E k = Ok n \<and>
        split_whitespace n = algorithm # encoded # rest \<and> base64_decode E encoded = Ok blob \<and>
        f = ''SHA256:'' @ base64_nopad_encode E (sha256 E blob))"
  by (auto simp: public_key_fingerprint_def two_fields_Ok_iff)

lemma strip_prefix_append [simp]: "strip_prefix p (p @ s) = Some s"
  by (simp add: strip_prefix_def)

text \<open>A fingerprint computed from a key is a fingerprint the validator accepts.\<close>

definition fingerprint_codec :: "'z ext_scheme \<Rightarrow> bool" where
  "fingerprint_codec E \<longleftrightarrow>
     (\<forall>bs. length (sha256 E bs) = 32) \<and>
     (\<forall>bs. base64_nopad_decode E (base64_nopad_encode E bs) = Ok bs)"

lemma fingerprint_valid:
  assumes "fingerprint_codec E" and "public_key_fingerprint E k = Ok f"
  shows "validate_key_fingerprint E f = Ok ()"
  using assms
  by (auto simp: public_key_fingerprint_Ok_iff validate_key_fingerprint_def fingerprint_codec_def
      simp del: append_Cons append_Nil)

section \<open>The RSA profile as a statement about integers\<close>

definition be_value :: "bytes \<Rightarrow> nat" where
  "be_value bs = foldl (\<lambda>v b. v * 256 + unat b) 0 bs"

lemma foldl_be: "foldl (\<lambda>v b. v * 256 + unat b) a bs = a * 256 ^ length bs + be_value bs"
  unfolding be_value_def
proof (induction bs arbitrary: a)
  case (Cons b bs)
  from Cons [of "a * 256 + unat b"] Cons [of "unat b"] show ?case by (simp add: algebra_simps)
qed simp

lemma be_value_Cons: "be_value (b # bs) = unat b * 256 ^ length bs + be_value bs"
  using foldl_be [of "unat b" bs] by (simp add: be_value_def)

lemma be_value_bound: "be_value bs < 256 ^ length bs"
proof (induction bs)
  case (Cons b bs)
  have "(unat b + 1) * 256 ^ length bs \<le> 256 * 256 ^ length bs"
    by (rule mult_right_mono) (use unat_lt [of b] in auto)
  then have "unat b * 256 ^ length bs + 256 ^ length bs \<le> 256 * 256 ^ length bs"
    by (simp only: distrib_right mult_1)
  with Cons show ?case unfolding be_value_Cons length_Cons power_Suc by linarith
qed (simp add: be_value_def)

lemma be_value_dropWhile_zero: "be_value (dropWhile (\<lambda>b. b = 0) bs) = be_value bs"
  by (induction bs) (auto simp: be_value_Cons)

lemma u8_bit_length:
  assumes "b \<noteq> 0"
  shows "0 < 8 - u8_leading_zeros b \<and> 2 ^ (8 - u8_leading_zeros b - 1) \<le> unat b
    \<and> unat b < 2 ^ (8 - u8_leading_zeros b)"
proof -
  have "unat b < 256" "unat b \<noteq> 0" using unat_lt [of b] assms by (auto simp: unat_eq_0)
  then show ?thesis by (auto simp: u8_leading_zeros_def word_le_nat_alt)
qed

lemma bit_length_bounds:
  assumes "positive_integer_bit_length (Some bs) = Some n"
  shows "0 < n \<and> 2 ^ (n - 1) \<le> be_value bs \<and> be_value bs < 2 ^ n"
proof -
  obtain b r where dw: "dropWhile (\<lambda>b. b = 0) bs = b # r" and n: "n = length r * 8 + (8 - u8_leading_zeros b)"
    using assms by (auto simp: positive_integer_bit_length_def split: list.splits)
  let ?l = "8 - u8_leading_zeros b"
  have "b \<noteq> 0" using dw hd_dropWhile [of "\<lambda>b. b = 0" bs] by simp
  then have l: "0 < ?l" "2 ^ (?l - 1) \<le> unat b" "unat b < 2 ^ ?l" using u8_bit_length [of b] by auto
  have "(256::nat) ^ length r = (2 ^ 8) ^ length r" by simp
  also have "\<dots> = 2 ^ (length r * 8)" by (simp only: power_mult [symmetric] mult.commute)
  finally have pow: "(2::nat) ^ (length r * 8) = 256 ^ length r" by simp
  have val: "be_value bs = unat b * 256 ^ length r + be_value r"
    using dw be_value_dropWhile_zero [of bs] by (simp add: be_value_Cons)
  have "n - 1 = length r * 8 + (?l - 1)" using l(1) n by simp
  then have "(2::nat) ^ (n - 1) = 256 ^ length r * 2 ^ (?l - 1)" by (simp only: power_add pow)
  also have "\<dots> \<le> 256 ^ length r * unat b" using l(2) by simp
  also have "\<dots> \<le> be_value bs" by (simp add: val)
  finally have lower: "2 ^ (n - 1) \<le> be_value bs" .
  have "be_value bs < (unat b + 1) * 256 ^ length r"
    using val be_value_bound [of r] by (simp add: algebra_simps)
  also have "\<dots> \<le> 2 ^ ?l * 256 ^ length r" using l(3) by (intro mult_right_mono) auto
  also have "\<dots> = 2 ^ n" by (simp only: n power_add pow mult.commute)
  finally show ?thesis using lower l(1) n by simp
qed

lemma bit_length_None: "positive_integer_bit_length (Some bs) = None \<longleftrightarrow> be_value bs = 0"
proof
  assume "positive_integer_bit_length (Some bs) = None"
  then have "dropWhile (\<lambda>b. b = 0) bs = []"
    by (auto simp: positive_integer_bit_length_def split: list.splits)
  then have "be_value bs = be_value []" using be_value_dropWhile_zero [of bs] by (simp only:)
  then show "be_value bs = 0" by (simp add: be_value_def)
next
  assume z: "be_value bs = 0"
  show "positive_integer_bit_length (Some bs) = None"
  proof (rule ccontr)
    assume "positive_integer_bit_length (Some bs) \<noteq> None"
    then obtain n where "positive_integer_bit_length (Some bs) = Some n" by auto
    from bit_length_bounds [OF this] z show False by simp
  qed
qed

lemma bit_length_le_iff:
  assumes "positive_integer_bit_length (Some bs) = Some n"
  shows "n \<le> m \<longleftrightarrow> be_value bs < 2 ^ m"
proof
  assume "n \<le> m"
  then have "(2::nat) ^ n \<le> 2 ^ m" by simp
  with bit_length_bounds [OF assms] show "be_value bs < 2 ^ m" by linarith
next
  assume "be_value bs < 2 ^ m"
  with bit_length_bounds [OF assms] have "(2::nat) ^ (n - 1) < 2 ^ m" by linarith
  then have "n - 1 < m" by simp
  then show "n \<le> m" by simp
qed

lemma push_8_or: "push_bit 8 v OR ucast b = v * 256 + ucast b" for v :: u64 and b :: byte
proof -
  have "push_bit 8 v AND ucast b = 0"
    by (rule bit_word_eqI) (auto simp: bit_and_iff Bit_Operations.bit_push_bit_iff bit_word_ucast_iff)
  then have "push_bit 8 v OR ucast b = push_bit 8 v + ucast b"
    by (simp add: disjunctive_add_eq_or)
  then show ?thesis by (simp add: push_bit_eq_mult)
qed

lemma mod_linear: "((x mod m) * p + c) mod m = (x * p + c) mod m" for x m p c :: nat
  by (metis mod_add_left_eq mod_mult_left_eq)

lemma exponent_value_mod: "unat (exponent_value bs) = be_value bs mod 2 ^ 64"
proof -
  have "unat (foldl (\<lambda>v b. push_bit 8 v OR ucast b) a bs)
      = foldl (\<lambda>v b. v * 256 + unat b) (unat a) bs mod 2 ^ 64" for a :: u64
  proof (induction bs arbitrary: a)
    case Nil
    have "unat a < 2 ^ 64" using unsigned_less [of a] by simp
    then show ?case by simp
  next
    case (Cons b bs)
    have "unat (ucast b :: u64) = unat b"
      using unat_lt [of b] by (simp add: unsigned_ucast_eq take_bit_nat_eq_self_iff)
    then have "unat (a * 256 + ucast b) = (unat a * 256 + unat b) mod 2 ^ 64"
      by (simp add: unat_word_ariths mod_simps)
    with Cons [of "push_bit 8 a OR ucast b"] show ?case
      by (simp only: push_8_or foldl.simps foldl_be mod_linear)
        (simp only: be_value_Cons length_Cons power_Suc distrib_right mult.assoc add.assoc)
  qed
  from this [of 0] show ?thesis by (simp add: exponent_value_def be_value_def)
qed

lemma modulus_in_profile_iff:
  "(\<exists>m. positive_integer_bit_length (Some nb) = Some m \<and> 2048 \<le> m \<and> m \<le> 4096)
     \<longleftrightarrow> 2 ^ 2047 \<le> be_value nb \<and> be_value nb < 2 ^ 4096"
proof (cases "positive_integer_bit_length (Some nb)")
  case None
  moreover have "(0::nat) < 2 ^ 2047" by (rule zero_less_power) simp
  ultimately show ?thesis using bit_length_None [of nb] by auto
next
  case (Some m)
  have "2048 \<le> m \<longleftrightarrow> \<not> m \<le> 2047" by auto
  with bit_length_le_iff [OF Some] show ?thesis using Some by (auto simp: not_less)
qed

lemma small_exponent_value:
  assumes "be_value eb < 2 ^ 32"
  shows "exponent_value eb < 3 \<longleftrightarrow> be_value eb < 3"
    and "exponent_value eb mod 2 = 0 \<longleftrightarrow> even (be_value eb)"
proof -
  have v: "unat (exponent_value eb) = be_value eb" using assms exponent_value_mod [of eb] by simp
  show "exponent_value eb < 3 \<longleftrightarrow> be_value eb < 3" using v by (simp add: word_less_nat_alt)
  have "exponent_value eb mod 2 = 0 \<longleftrightarrow> unat (exponent_value eb mod 2) = 0" by (simp add: unat_eq_0)
  also have "\<dots> \<longleftrightarrow> even (be_value eb)" using v by (simp add: unat_mod even_iff_mod_2_eq_zero)
  finally show "exponent_value eb mod 2 = 0 \<longleftrightarrow> even (be_value eb)" .
qed

lemma exponent_bits_iff:
  "(\<exists>m. positive_integer_bit_length (Some eb) = Some m \<and> m \<le> 32) \<longleftrightarrow> 0 < be_value eb \<and> be_value eb < 2 ^ 32"
proof (cases "positive_integer_bit_length (Some eb)")
  case None
  then show ?thesis using bit_length_None [of eb] by simp
next
  case (Some m)
  then have "be_value eb \<noteq> 0" using bit_length_None [of eb] by auto
  with Some show ?thesis using bit_length_le_iff [OF Some, of 32] by auto
qed

lemma exponent_in_profile_iff:
  "(\<exists>m. positive_integer_bit_length (Some eb) = Some m \<and> m \<le> 32) \<and>
     \<not> exponent_value eb < 3 \<and> exponent_value eb mod 2 \<noteq> 0 \<longleftrightarrow>
     3 \<le> be_value eb \<and> be_value eb < 2 ^ 32 \<and> odd (be_value eb)"
proof (cases "be_value eb < 2 ^ 32")
  case True
  then show ?thesis by (simp only: exponent_bits_iff small_exponent_value [OF True]) auto
qed (simp add: exponent_bits_iff)

lemma rsa_bits_iff:
  "require_supported_sshsig_key (Rsa n e) = Ok () \<longleftrightarrow>
     (\<exists>nb eb. n = Some nb \<and> e = Some eb \<and>
       (\<exists>m. positive_integer_bit_length (Some nb) = Some m \<and> 2048 \<le> m \<and> m \<le> 4096) \<and>
       (\<exists>m. positive_integer_bit_length (Some eb) = Some m \<and> m \<le> 32) \<and>
       \<not> exponent_value eb < 3 \<and> exponent_value eb mod 2 \<noteq> 0)"
proof -
  have none: "positive_integer_bit_length None = None" by (simp add: positive_integer_bit_length_def)
  show ?thesis
    using none by (cases n)
      (auto simp: require_supported_sshsig_key_def MIN_SSHSIG_RSA_BITS_def MAX_SSHSIG_RSA_BITS_def
        MAX_SSHSIG_RSA_EXPONENT_BITS_def Let_def not_less)
qed

text \<open>
  The RSA profile in integers: exactly the keys with a modulus of 2048 to 4096 bits and an odd
  public exponent of at least three and at most 32 bits pass, whatever leading zero bytes the
  encoding has. In particular the 64-bit accumulator of the exponent never overflows.
\<close>

lemma rsa_profile_iff:
  "require_supported_sshsig_key (Rsa n e) = Ok () \<longleftrightarrow>
     (\<exists>nb eb. n = Some nb \<and> e = Some eb \<and>
        2 ^ 2047 \<le> be_value nb \<and> be_value nb < 2 ^ 4096 \<and>
        3 \<le> be_value eb \<and> be_value eb < 2 ^ 32 \<and> odd (be_value eb))"
  by (simp only: rsa_bits_iff modulus_in_profile_iff exponent_in_profile_iff conj_assoc)

section \<open>What a verified signature establishes\<close>

lemma sshsig_verify_key_verify:
  "sshsig_verify E payload signature public_key namespace = Ok () \<Longrightarrow>
     key_verify E public_key namespace payload signature"
  by (auto simp: sshsig_verify_def)

lemma sshsig_verify_profile:
  "sshsig_verify E payload signature public_key namespace = Ok () \<Longrightarrow>
     \<exists>key. key_from_openssh E public_key = Some key \<and> require_supported_sshsig_key key = Ok ()"
  by (auto simp: sshsig_verify_def)

lemma sshsig_sign_utf8: "sshsig_sign E payload path namespace = Ok s \<Longrightarrow> is_utf8 s"
  by (auto simp: sshsig_sign_def Let_def)

text \<open>A child that has not exited when the wait fails has been terminated.\<close>

lemma wait_from_error_terminates:
  "wait_from child operation i now = (Err e, killed) \<Longrightarrow>
     killed \<or> (\<exists>j\<ge>i. try_wait child j = Finished \<and> (\<exists>m. wait_output child = Err m))"
proof (induction child operation i now rule: wait_from.induct)
  case (1 child operation i now)
  show ?case
  proof (cases "try_wait child i")
    case Finished
    with "1.prems" show ?thesis
      by (cases "wait_output child") (auto simp: wait_from.simps [of child operation i now])
  next
    case Running
    with "1.prems" "1.IH" [OF Running refl] show ?thesis
      by (auto simp: wait_from.simps [of child operation i now] Let_def split: if_splits dest: Suc_leD)
  next
    case (PollFailed m)
    with "1.prems" show ?thesis by (simp add: wait_from.simps [of child operation i now])
  qed
qed

lemma wait_from_running:
  "\<forall>j. try_wait child j = Running \<Longrightarrow> wait_from child operation i now = (Err (SignerTimedOut operation), True)"
proof (induction child operation i now rule: wait_from.induct)
  case (1 child operation i now)
  then show ?case by (simp add: wait_from.simps [of child operation i now] Let_def)
qed

lemma wait_from_Ok:
  "wait_from child operation i now = (Ok x, killed) \<Longrightarrow> \<not> killed \<and> (\<exists>j\<ge>i. try_wait child j = Finished)"
proof (induction child operation i now rule: wait_from.induct)
  case (1 child operation i now)
  then show ?case
    by (cases "try_wait child i")
      (auto simp: wait_from.simps [of child operation i now] Let_def split: if_splits dest: Suc_leD)
qed

text \<open>Only the listed variables reach \<^verbatim>\<open>ssh-keygen\<close>.\<close>

lemma copy_environment_other:
  "name \<noteq> v \<Longrightarrow> copy_environment_if_present E env name v = env v"
  by (simp add: copy_environment_if_present_def split: option.splits)

lemma copied_environment_other:
  "v \<notin> set names \<Longrightarrow> foldl (copy_environment_if_present E) env names v = env v"
  by (induction names arbitrary: env) (auto simp: copy_environment_other)

lemma ssh_keygen_environment:
  assumes "ssh_keygen_command E = Ok env"
  shows "env ''PATH'' = Some ''/usr/bin:/bin''"
    and "v \<noteq> ''PATH'' \<Longrightarrow> v \<notin> set passed_environment_names \<Longrightarrow> env v = None"
proof -
  have env: "env = foldl (copy_environment_if_present E) (Map.empty(''PATH'' := Some ''/usr/bin:/bin''))
      passed_environment_names" using assms by (auto simp: ssh_keygen_command_def)
  have "''PATH'' \<notin> set passed_environment_names" by (simp add: passed_environment_names_def)
  then show "env ''PATH'' = Some ''/usr/bin:/bin''" by (simp add: env copied_environment_other)
  show "v \<noteq> ''PATH'' \<Longrightarrow> v \<notin> set passed_environment_names \<Longrightarrow> env v = None"
    by (simp add: env copied_environment_other)
qed

lemma sha256_hex_shape: "length (sha256 E bs) = 32 \<Longrightarrow> lowercase_hex_64 (sha256_hex E bs)"
  by (auto simp: lowercase_hex_64_def sha256_hex_def list_all_iff dest: hex_encode_lower)

end
