(* ===== verification/Artifact.thy ===== *)
theory Artifact
  imports Signing
begin

text \<open>
  Artifact proofs and live signer bindings (\<^verbatim>\<open>src/crates/a-quo-core/src/lib.rs\<close>): describing an
  artifact by digest and size, the SSHSIG proof bundle with its creation, inspection and
  verification, and the challenge that binds one local signer locator to one public key.

  Files are read through functions that return what each read returns; the file system is passed
  as the state before and after the external signer runs.
\<close>

section \<open>Data\<close>

record Digest =
  digest_algorithm :: string
  digest_value :: string

record ArtifactDescriptor =
  ad_digest :: Digest
  ad_size :: u64

record SignerClaim =
  sc_persona :: string
  sc_key_fingerprint :: string

record ArtifactStatement =
  as_schema :: string
  as_artifact :: ArtifactDescriptor
  as_signer :: SignerClaim

record SignatureEnvelope =
  se_format :: string
  se_namespace :: string
  se_value :: string

record VerificationMaterial =
  vm_format :: string
  vm_public_key :: string

record ProofBundle =
  pb_schema :: string
  pb_payload :: string
  pb_signature :: SignatureEnvelope
  pb_verification_material :: VerificationMaterial

record VerifiedSigner =
  vs_persona :: string
  vs_key_fingerprint :: string
  vs_identity_binding :: string

record VerificationReport =
  vr_artifact_integrity :: EvidenceStatus
  vr_signature :: EvidenceStatus
  vr_signer :: VerifiedSigner
  vr_not_established :: "string list"

text \<open>Serialisation of an artifact statement by \<^verbatim>\<open>serde_json\<close>.\<close>

record artifact_ext = ext +
  bundle_from_json :: "bytes \<Rightarrow> (ProofBundle, json_error) result"
  bundle_to_json_pretty :: "ProofBundle \<Rightarrow> (bytes, json_error) result"
  artifact_to_json :: "ArtifactStatement \<Rightarrow> (bytes, json_error) result"
  artifact_from_json :: "bytes \<Rightarrow> (ArtifactStatement, json_error) result"

definition PROOF_SCHEMA :: string where "PROOF_SCHEMA = ''urn:a-quo:proof:sshsig:v1''"
definition STATEMENT_SCHEMA :: string where "STATEMENT_SCHEMA = ''urn:a-quo:statement:artifact:v1''"
definition SSHSIG_NAMESPACE :: string where "SSHSIG_NAMESPACE = ''a-quo-artifact-v1''"
definition LIVE_SIGNER_BINDING_NAMESPACE :: string where
  "LIVE_SIGNER_BINDING_NAMESPACE = ''a-quo-live-signer-binding-v1''"

section \<open>Describing an artifact\<close>

definition artifact_descriptor :: "'z ext_scheme \<Rightarrow> bytes \<Rightarrow> u64 \<Rightarrow> ArtifactDescriptor" where
  "artifact_descriptor E hashed len =
     \<lparr>ad_digest = \<lparr>digest_algorithm = ''sha256'', digest_value = sha256_hex E hashed\<rparr>, ad_size = len\<rparr>"

text \<open>
  \<^verbatim>\<open>describe_reader\<close>: each element is what one call of \<^verbatim>\<open>read\<close> returns, \<^term>\<open>None\<close> an I/O error; an
  exhausted reader returns no bytes. The hasher is the list of bytes it was updated with.
\<close>

fun describe_reader :: "'z ext_scheme \<Rightarrow> string \<Rightarrow> bytes option list \<Rightarrow> bytes \<Rightarrow> u64 \<Rightarrow> ArtifactDescriptor res" where
  "describe_reader E path [] hashed len = Ok (artifact_descriptor E hashed len)"
| "describe_reader E path (None # reads) hashed len = Err (Io path)"
| "describe_reader E path (Some chunk # reads) hashed len =
     (if chunk = [] then Ok (artifact_descriptor E hashed len)
      else and_then (ok_or ArtifactMismatch (checked_add len (of_nat (length chunk)))) (\<lambda>len'.
           describe_reader E path reads (hashed @ chunk) len'))"

definition describe_artifact :: "'z ext_scheme \<Rightarrow> string \<Rightarrow> bytes option list option \<Rightarrow> ArtifactDescriptor res" where
  "describe_artifact E path opened =
     (case opened of None \<Rightarrow> Err (Io path) | Some reads \<Rightarrow> describe_reader E path reads [] 0)"

text \<open>
  \<^verbatim>\<open>describe_open_artifact\<close>: positional reads of at most 64 KiB from an open descriptor. The loop
  ends because every round that continues advances the checked 64-bit offset.
\<close>

function describe_open_from ::
  "'z ext_scheme \<Rightarrow> (u64 \<Rightarrow> bytes option) \<Rightarrow> bytes \<Rightarrow> u64 \<Rightarrow> ArtifactDescriptor res" where
  "describe_open_from E read_at hashed len =
     (case read_at len of
        None \<Rightarrow> Err (Io ''<open artifact>'')
      | Some available \<Rightarrow>
          let chunk = take 65536 available
          in if chunk = [] then Ok (artifact_descriptor E hashed len)
             else (case checked_add len (of_nat (length chunk)) of
                     None \<Rightarrow> Err ArtifactMismatch
                   | Some len' \<Rightarrow> describe_open_from E read_at (hashed @ chunk) len'))"
  by pat_completeness auto
termination
proof (relation "measure (\<lambda>(E, read_at, hashed, len). 2 ^ 64 - unat len)")
  fix E :: "'z ext_scheme" and read_at :: "u64 \<Rightarrow> bytes option" and hashed a chunk :: bytes and len len' :: u64
  assume chunk: "chunk = take 65536 a" "chunk \<noteq> []"
    and add: "checked_add len (of_nat (length chunk)) = Some len'"
  have "length chunk < 2 ^ 64" using chunk by (auto simp: min_def)
  then have "unat (of_nat (length chunk) :: u64) = length chunk" by (simp add: unat_of_nat)
  moreover have "0 < length chunk" using chunk by simp
  ultimately have "unat len < unat len'" using checked_add_Some_unat [OF add] by linarith
  moreover have "unat len' < 2 ^ 64" using unsigned_less [of len'] by simp
  ultimately show "((E, read_at, hashed @ chunk, len'), E, read_at, hashed, len)
      \<in> measure (\<lambda>(E, read_at, hashed, len). 2 ^ 64 - unat len)" by simp
qed simp

declare describe_open_from.simps [simp del]

definition describe_open_artifact :: "'z ext_scheme \<Rightarrow> (u64 \<Rightarrow> bytes option) \<Rightarrow> ArtifactDescriptor res" where
  "describe_open_artifact E read_at = describe_open_from E read_at [] 0"

section \<open>Validation\<close>

definition require_value :: "envelope_field \<Rightarrow> string \<Rightarrow> string \<Rightarrow> unit res" where
  "require_value field actual expected =
     (if actual = expected then Ok ()
      else Err (Unsupported field (escape_untrusted_text_for_terminal actual)))"

definition validate_envelope :: "ProofBundle \<Rightarrow> string \<Rightarrow> unit res" where
  "validate_envelope proof namespace =
     and_then (require_value ProofSchemaField (pb_schema proof) PROOF_SCHEMA) (\<lambda>_.
     and_then (require_value SignatureFormatField (se_format (pb_signature proof)) ''sshsig'') (\<lambda>_.
     and_then (require_value SignatureNamespaceField (se_namespace (pb_signature proof)) namespace) (\<lambda>_.
     require_value VerificationMaterialFormatField (vm_format (pb_verification_material proof)) ''openssh-public-key'')))"

definition decode_payload :: "'z ext_scheme \<Rightarrow> string \<Rightarrow> bytes res" where
  "decode_payload E payload =
     (if MAX_PROOF_BYTES < length payload then Err ProofTooLarge
      else map_err (\<lambda>e. InvalidEncoding (PayloadNotBase64 e)) (base64url_decode E payload))"

definition validate_artifact_descriptor :: "ArtifactDescriptor \<Rightarrow> unit res" where
  "validate_artifact_descriptor descriptor =
     and_then (require_value DigestAlgorithmField (digest_algorithm (ad_digest descriptor)) ''sha256'') (\<lambda>_.
     if \<not> lowercase_hex_64 (digest_value (ad_digest descriptor)) then Err (InvalidEncoding DigestNotLowercaseHex)
     else Ok ())"

definition validate_statement :: "'z ext_scheme \<Rightarrow> ArtifactStatement \<Rightarrow> unit res" where
  "validate_statement E statement =
     and_then (require_value StatementSchemaField (as_schema statement) STATEMENT_SCHEMA) (\<lambda>_.
     and_then (validate_artifact_descriptor (as_artifact statement)) (\<lambda>_.
     and_then (validate_persona (sc_persona (as_signer statement))) (\<lambda>_.
     validate_key_fingerprint E (sc_key_fingerprint (as_signer statement)))))"

section \<open>Creating and verifying a proof bundle\<close>

definition create_sshsig_payload_proof ::
  "'z ext_scheme \<Rightarrow> bytes \<Rightarrow> string \<Rightarrow> string \<Rightarrow> string \<Rightarrow> ProofBundle res" where
  "create_sshsig_payload_proof E payload private_key_path public_key namespace =
     (if MAX_PROOF_BYTES < length payload then Err ProofTooLarge
      else and_then (normalize_public_key E public_key) (\<lambda>public_key.
      and_then (sshsig_sign E payload private_key_path namespace) (\<lambda>signature.
      and_then (sshsig_verify E payload signature public_key namespace) (\<lambda>_.
      Ok \<lparr>pb_schema = PROOF_SCHEMA,
          pb_payload = base64url_encode E payload,
          pb_signature = \<lparr>se_format = ''sshsig'', se_namespace = namespace, se_value = signature\<rparr>,
          pb_verification_material = \<lparr>vm_format = ''openssh-public-key'', vm_public_key = public_key\<rparr>\<rparr>))))"

definition create_sshsig_proof_for_descriptor ::
  "'z artifact_ext_scheme \<Rightarrow> ArtifactDescriptor \<Rightarrow> string \<Rightarrow> string \<Rightarrow> string \<Rightarrow> ProofBundle res" where
  "create_sshsig_proof_for_descriptor E artifact private_key_path public_key persona =
     and_then (validate_persona persona) (\<lambda>persona.
     and_then (validate_artifact_descriptor artifact) (\<lambda>_.
     and_then (normalize_public_key E public_key) (\<lambda>public_key.
     and_then (public_key_fingerprint E public_key) (\<lambda>key_fingerprint.
     let statement = \<lparr>as_schema = STATEMENT_SCHEMA, as_artifact = artifact,
           as_signer = \<lparr>sc_persona = persona, sc_key_fingerprint = key_fingerprint\<rparr>\<rparr>
     in and_then (map_err Json (artifact_to_json E statement)) (\<lambda>payload.
        create_sshsig_payload_proof E payload private_key_path public_key SSHSIG_NAMESPACE)))))"

definition decode_sshsig_payload :: "'z ext_scheme \<Rightarrow> ProofBundle \<Rightarrow> string \<Rightarrow> (bytes \<times> string) res" where
  "decode_sshsig_payload E proof namespace =
     and_then (validate_envelope proof namespace) (\<lambda>_.
     and_then (decode_payload E (pb_payload proof)) (\<lambda>payload.
     and_then (normalize_public_key E (vm_public_key (pb_verification_material proof))) (\<lambda>public_key.
     Ok (payload, public_key))))"

definition artifact_not_established :: "string list" where
  "artifact_not_established =
     [''legal_identity'', ''current_authorization'', ''non_revocation'', ''trusted_timestamp'',
      ''build_provenance'', ''independent_review'', ''runtime_safety'']"

definition verify_sshsig_proof_for_descriptor ::
  "'z artifact_ext_scheme \<Rightarrow> ArtifactDescriptor \<Rightarrow> ProofBundle \<Rightarrow> VerificationReport res" where
  "verify_sshsig_proof_for_descriptor E descriptor proof =
     and_then (decode_sshsig_payload E proof SSHSIG_NAMESPACE) (\<lambda>(payload, public_key).
     and_then (map_err Json (artifact_from_json E payload)) (\<lambda>statement.
     and_then (validate_statement E statement) (\<lambda>_.
     and_then (validate_artifact_descriptor descriptor) (\<lambda>_.
     if descriptor \<noteq> as_artifact statement then Err ArtifactMismatch
     else and_then (public_key_fingerprint E public_key) (\<lambda>fingerprint.
     if fingerprint \<noteq> sc_key_fingerprint (as_signer statement) then Err FingerprintMismatch
     else and_then (sshsig_verify E payload (se_value (pb_signature proof)) public_key SSHSIG_NAMESPACE) (\<lambda>_.
     Ok \<lparr>vr_artifact_integrity = Verified, vr_signature = Verified,
         vr_signer = \<lparr>vs_persona = sc_persona (as_signer statement),
                      vs_key_fingerprint = sc_key_fingerprint (as_signer statement),
                      vs_identity_binding = ''self_asserted''\<rparr>,
         vr_not_established = artifact_not_established\<rparr>))))))"

text \<open>
  A file as \<^verbatim>\<open>fs::metadata\<close> and \<^verbatim>\<open>fs::read\<close> report it: its length and its contents, each of which may
  be unavailable and which need not agree.
\<close>

record FileView =
  file_len :: "u64 option"
  file_bytes :: "bytes option"

definition read_public_key :: "'z ext_scheme \<Rightarrow> string \<Rightarrow> FileView \<Rightarrow> string res" where
  "read_public_key E path file =
     and_then (ok_or (Io path) (file_len file)) (\<lambda>len.
     if MAX_PUBLIC_KEY_BYTES < unat len then Err (InvalidPublicKey KeyFileTooLong)
     else and_then (ok_or (Io path) (file_bytes file)) (\<lambda>bs.
     if \<not> is_utf8 (map char_from bs) then Err (Io path)
     else normalize_public_key E (map char_from bs)))"

definition create_sshsig_proof ::
  "'z artifact_ext_scheme \<Rightarrow> string \<Rightarrow> bytes option list option \<Rightarrow> string \<Rightarrow> string \<Rightarrow> FileView \<Rightarrow> string \<Rightarrow>
     ProofBundle res" where
  "create_sshsig_proof E artifact_path opened private_key_path public_key_path public_key_file persona =
     and_then (describe_artifact E artifact_path opened) (\<lambda>artifact.
     and_then (read_public_key E public_key_path public_key_file) (\<lambda>public_key.
     create_sshsig_proof_for_descriptor E artifact private_key_path public_key persona))"

definition verify_sshsig_proof ::
  "'z artifact_ext_scheme \<Rightarrow> string \<Rightarrow> bytes option list option \<Rightarrow> ProofBundle \<Rightarrow> VerificationReport res" where
  "verify_sshsig_proof E artifact_path opened proof =
     and_then (describe_artifact E artifact_path opened) (\<lambda>descriptor.
     verify_sshsig_proof_for_descriptor E descriptor proof)"

definition inspect_proof :: "'z artifact_ext_scheme \<Rightarrow> ProofBundle \<Rightarrow> ArtifactStatement res" where
  "inspect_proof E proof =
     and_then (validate_envelope proof SSHSIG_NAMESPACE) (\<lambda>_.
     and_then (decode_payload E (pb_payload proof)) (\<lambda>payload.
     and_then (map_err Json (artifact_from_json E payload)) (\<lambda>statement.
     and_then (validate_statement E statement) (\<lambda>_. Ok statement))))"

definition load_proof :: "'z artifact_ext_scheme \<Rightarrow> string \<Rightarrow> FileView \<Rightarrow> ProofBundle res" where
  "load_proof E path file =
     and_then (ok_or (Io path) (file_len file)) (\<lambda>len.
     if MAX_PROOF_BYTES < unat len then Err ProofTooLarge
     else and_then (ok_or (Io path) (file_bytes file)) (\<lambda>bs.
     map_err Json (bundle_from_json E bs)))"

text \<open>
  \<^verbatim>\<open>write_proof_new\<close> on a file system that maps paths to contents. The last argument says what the
  operating system does: the open may fail for another reason than existence, and a write may stop
  after some bytes.
\<close>

datatype write_fault = NoFault | OpenFails | BodyStopsAfter nat | NewlineFails

definition write_proof_new ::
  "'z artifact_ext_scheme \<Rightarrow> (string \<Rightarrow> bytes option) \<Rightarrow> string \<Rightarrow> ProofBundle \<Rightarrow> write_fault \<Rightarrow>
     unit res \<times> (string \<Rightarrow> bytes option)" where
  "write_proof_new E fs path proof fault =
     (case bundle_to_json_pretty E proof of
        Err e \<Rightarrow> (Err (Json e), fs)
      | Ok bs \<Rightarrow>
          if fs path \<noteq> None then (Err (ProofAlreadyExists path), fs)
          else (case fault of
             OpenFails \<Rightarrow> (Err (Io path), fs)
           | BodyStopsAfter n \<Rightarrow> (Err (Io path), fs(path := Some (take n bs)))
           | NewlineFails \<Rightarrow> (Err (Io path), fs(path := Some bs))
           | NoFault \<Rightarrow> (Ok (), fs(path := Some (bs @ [10])))))"

definition default_proof_path :: "string \<Rightarrow> string" where
  "default_proof_path artifact_path = artifact_path @ ''.a-quo-proof.json''"

section \<open>Live signer bindings\<close>

datatype LiveSignerBindingProvider = OpensshFile | SshAgent | Fido2

definition provider_as_str :: "LiveSignerBindingProvider \<Rightarrow> string" where
  "provider_as_str provider =
     (case provider of OpensshFile \<Rightarrow> ''openssh-file'' | SshAgent \<Rightarrow> ''ssh-agent'' | Fido2 \<Rightarrow> ''fido2'')"

record LiveSignerLocatorIdentity =
  li_length :: u64
  li_readonly :: bool
  li_modified :: "int \<times> nat"
  li_device :: u64
  li_inode :: u64
  li_owner :: u32
  li_mode :: u32
  li_change_time_seconds :: i64
  li_change_time_nanoseconds :: i64

record VerifiedLiveSignerBinding =
  vb_provider :: LiveSignerBindingProvider
  vb_canonical_locator :: string
  vb_normalized_public_key :: string
  vb_public_key_fingerprint :: string
  vb_locator_identity :: LiveSignerLocatorIdentity

text \<open>
  The file system calls of the locator snapshot: \<^verbatim>\<open>symlink_metadata\<close> (whether the entry is a symlink
  or a regular file, and its identity where the modification time is available) and \<^verbatim>\<open>canonicalize\<close>.
\<close>

record LocatorMetadata =
  lm_is_symlink :: bool
  lm_is_file :: bool
  lm_identity :: "LiveSignerLocatorIdentity option"

record LocatorFs =
  symlink_metadata :: "string \<Rightarrow> LocatorMetadata option"
  canonicalize :: "string \<Rightarrow> string option"

definition live_signer_locator_snapshot :: "LocatorFs \<Rightarrow> string \<Rightarrow> (string \<times> LiveSignerLocatorIdentity) res" where
  "live_signer_locator_snapshot fs path =
     and_then (ok_or (Io path) (symlink_metadata fs path)) (\<lambda>entry_metadata.
     if lm_is_symlink entry_metadata \<or> \<not> lm_is_file entry_metadata then Err InvalidLiveSignerLocator
     else and_then (ok_or (Io path) (canonicalize fs path)) (\<lambda>canonical.
     if canonical \<noteq> path then Err InvalidLiveSignerLocator
     else and_then (ok_or (Io canonical) (symlink_metadata fs canonical)) (\<lambda>metadata.
     if lm_is_symlink metadata \<or> \<not> lm_is_file metadata then Err InvalidLiveSignerLocator
     else and_then (ok_or (Io canonical) (lm_identity metadata)) (\<lambda>identity.
     Ok (canonical, identity)))))"

text \<open>One length-prefixed field of the challenge; \<^verbatim>\<open>u32::try_from\<close> bounds its length.\<close>

definition challenge_field :: "bytes \<Rightarrow> bytes \<Rightarrow> bytes res" where
  "challenge_field challenge field =
     (if 2 ^ 32 \<le> length field then Err InvalidLiveSignerLocator
      else Ok (challenge @ u32_to_be_bytes (of_nat (length field)) @ field))"

definition live_signer_binding_challenge ::
  "LiveSignerBindingProvider \<Rightarrow> string \<Rightarrow> string \<Rightarrow> string \<Rightarrow> bytes \<Rightarrow> bytes res" where
  "live_signer_binding_challenge provider canonical_locator normalized_public_key fingerprint nonce =
     (if \<not> is_utf8 canonical_locator then Err InvalidLiveSignerLocator
      else try_fold challenge_field []
        [as_bytes ''a-quo-live-signer-binding-challenge-v1'', as_bytes (provider_as_str provider),
         as_bytes canonical_locator, as_bytes normalized_public_key, as_bytes fingerprint, nonce])"

text \<open>
  \<^verbatim>\<open>prove_live_signer_binding\<close>: the file system before and after the signer ran, and the 32 random
  bytes, or that none were available.
\<close>

definition prove_live_signer_binding ::
  "'z ext_scheme \<Rightarrow> LocatorFs \<Rightarrow> LocatorFs \<Rightarrow> bytes option \<Rightarrow> string \<Rightarrow> string \<Rightarrow> LiveSignerBindingProvider \<Rightarrow>
     VerifiedLiveSignerBinding res" where
  "prove_live_signer_binding E fs_before fs_after entropy locator expected_public_key provider =
     and_then (normalize_public_key E expected_public_key) (\<lambda>normalized_public_key.
     and_then (public_key_fingerprint E normalized_public_key) (\<lambda>fingerprint.
     and_then (live_signer_locator_snapshot fs_before locator) (\<lambda>(canonical_locator, locator_identity).
     and_then (ok_or EntropyUnavailable entropy) (\<lambda>nonce.
     and_then (live_signer_binding_challenge provider canonical_locator normalized_public_key fingerprint nonce) (\<lambda>challenge.
     and_then (sshsig_sign E challenge canonical_locator LIVE_SIGNER_BINDING_NAMESPACE) (\<lambda>signature.
     and_then (sshsig_verify E challenge signature normalized_public_key LIVE_SIGNER_BINDING_NAMESPACE) (\<lambda>_.
     and_then (live_signer_locator_snapshot fs_after canonical_locator) (\<lambda>(post_sign_locator, post_sign_identity).
     if post_sign_locator \<noteq> canonical_locator \<or> post_sign_identity \<noteq> locator_identity
     then Err LiveSignerLocatorChanged
     else Ok \<lparr>vb_provider = provider, vb_canonical_locator = canonical_locator,
              vb_normalized_public_key = normalized_public_key, vb_public_key_fingerprint = fingerprint,
              vb_locator_identity = locator_identity\<rparr>))))))))"

definition validate_verified_live_signer_binding ::
  "'z ext_scheme \<Rightarrow> LocatorFs \<Rightarrow> VerifiedLiveSignerBinding \<Rightarrow> LiveSignerBindingProvider \<Rightarrow> string \<Rightarrow> string \<Rightarrow>
     string \<Rightarrow> unit res" where
  "validate_verified_live_signer_binding E fs receipt expected_provider expected_canonical_locator
     expected_public_key expected_public_key_fingerprint =
     and_then (normalize_public_key E expected_public_key) (\<lambda>normalized_public_key.
     and_then (public_key_fingerprint E normalized_public_key) (\<lambda>fingerprint.
     and_then (live_signer_locator_snapshot fs expected_canonical_locator) (\<lambda>(current_locator, current_identity).
     if vb_provider receipt \<noteq> expected_provider
        \<or> vb_canonical_locator receipt \<noteq> expected_canonical_locator
        \<or> current_locator \<noteq> expected_canonical_locator
        \<or> vb_normalized_public_key receipt \<noteq> normalized_public_key
        \<or> vb_public_key_fingerprint receipt \<noteq> expected_public_key_fingerprint
        \<or> fingerprint \<noteq> expected_public_key_fingerprint
     then Err LiveSignerBindingMismatch
     else if current_identity \<noteq> vb_locator_identity receipt then Err LiveSignerLocatorChanged
     else Ok ())))"

section \<open>The descriptor of an artifact\<close>

lemma checked_add_count:
  assumes "unat len + n < 2 ^ 64"
  shows "checked_add len (of_nat n :: u64) = Some (len + of_nat n)" and "unat (len + of_nat n) = unat len + n"
proof -
  have n: "unat (of_nat n :: u64) = n" using assms by (simp add: unat_of_nat)
  with assms show "checked_add len (of_nat n :: u64) = Some (len + of_nat n)" by (simp add: checked_add_def)
  from checked_add_Some_unat [OF this] n show "unat (len + of_nat n) = unat len + n" by simp
qed

text \<open>Whatever the sizes of the reads, the digest is over all the bytes and the size is their number.\<close>

lemma describe_reader_chunks:
  assumes "list_all (\<lambda>c. c \<noteq> []) chunks" and "unat len + length (concat chunks) < 2 ^ 64"
  shows "describe_reader E path (map Some chunks) hashed len =
    Ok (artifact_descriptor E (hashed @ concat chunks) (len + of_nat (length (concat chunks))))"
  using assms
proof (induction chunks arbitrary: hashed len)
  case (Cons c chunks)
  have small: "unat len + length c < 2 ^ 64" using Cons.prems by simp
  with Cons.prems Cons.IH [of "len + of_nat (length c)" "hashed @ c"] checked_add_count [OF small] show ?case
    by (simp add: algebra_simps)
qed simp

text \<open>An open file that does not change: each positional read returns some of what follows the offset.\<close>

definition stable_reads :: "(u64 \<Rightarrow> bytes option) \<Rightarrow> bytes \<Rightarrow> bool" where
  "stable_reads read_at contents \<longleftrightarrow>
     (\<forall>offset. \<exists>n. read_at offset = Some (take n (drop (unat offset) contents)) \<and>
        (unat offset < length contents \<longrightarrow> 0 < n))"

lemma describe_open_from_stable:
  assumes "stable_reads read_at contents" and "length contents < 2 ^ 64" and "unat len \<le> length contents"
  shows "describe_open_from E read_at (take (unat len) contents) len =
    Ok (artifact_descriptor E contents (of_nat (length contents)))"
  using assms(3)
proof (induction "length contents - unat len" arbitrary: len rule: less_induct)
  case less
  obtain n where n: "read_at len = Some (take n (drop (unat len) contents))"
    "unat len < length contents \<Longrightarrow> 0 < n" using assms(1) unfolding stable_reads_def by blast
  define m where "m = min 65536 n"
  have chunk: "take 65536 (take n (drop (unat len) contents)) = take m (drop (unat len) contents)"
    by (simp add: m_def)
  show ?case
  proof (cases "unat len < length contents")
    case False
    with less.prems have "unat len = length contents" by simp
    moreover from this have "len = of_nat (length contents)" by (metis of_nat_unat ucast_id)
    ultimately show ?thesis using n(1) by (subst describe_open_from.simps) (simp add: Let_def)
  next
    case True
    let ?c = "take m (drop (unat len) contents)"
    have c: "?c \<noteq> []" using True n(2) by (simp add: m_def)
    have cl: "unat len + length ?c \<le> length contents" using less.prems by simp
    with assms(2) have small: "unat len + length ?c < 2 ^ 64" by linarith
    note add = checked_add_count [OF small]
    have "take (unat len) contents @ ?c = take (unat (len + of_nat (length ?c))) contents"
      by (simp only: add(2)) (simp add: take_add min_def)
    moreover have "0 < length ?c" using c by blast
    then have "length contents - unat (len + of_nat (length ?c)) < length contents - unat len"
      by (simp only: add(2)) (use True in linarith)
    from less.hyps [OF this] cl have "describe_open_from E read_at (take (unat (len + of_nat (length ?c))) contents)
        (len + of_nat (length ?c)) = Ok (artifact_descriptor E contents (of_nat (length contents)))"
      by (simp only: add(2))
    ultimately show ?thesis
      by (subst describe_open_from.simps)
        (simp only: n(1) option.case Let_def chunk c if_False add(1))
  qed
qed

lemma describe_open_stable:
  assumes "stable_reads read_at contents" and "length contents < 2 ^ 64"
  shows "describe_open_artifact E read_at = Ok (artifact_descriptor E contents (of_nat (length contents)))"
  using describe_open_from_stable [OF assms, of 0 E] by (simp add: describe_open_artifact_def)

section \<open>What verification establishes\<close>

lemma require_value_Ok_iff [simp]: "require_value field actual expected = Ok () \<longleftrightarrow> actual = expected"
  by (simp add: require_value_def)

lemma validate_persona_Ok: "validate_persona p = Ok q \<Longrightarrow> q = p"
  by (simp add: validate_persona_def)

lemma verify_for_descriptor_Ok_iff:
  "verify_sshsig_proof_for_descriptor E descriptor proof = Ok report \<longleftrightarrow>
     (\<exists>payload public_key statement.
        decode_sshsig_payload E proof SSHSIG_NAMESPACE = Ok (payload, public_key) \<and>
        artifact_from_json E payload = Ok statement \<and> validate_statement E statement = Ok () \<and>
        descriptor = as_artifact statement \<and>
        public_key_fingerprint E public_key = Ok (sc_key_fingerprint (as_signer statement)) \<and>
        sshsig_verify E payload (se_value (pb_signature proof)) public_key SSHSIG_NAMESPACE = Ok () \<and>
        report = \<lparr>vr_artifact_integrity = Verified, vr_signature = Verified,
         vr_signer = \<lparr>vs_persona = sc_persona (as_signer statement),
                      vs_key_fingerprint = sc_key_fingerprint (as_signer statement),
                      vs_identity_binding = ''self_asserted''\<rparr>,
         vr_not_established = artifact_not_established\<rparr>)"
  by (auto simp: verify_sshsig_proof_for_descriptor_def validate_statement_def)

text \<open>The documented behaviour of the codecs that a created proof passes through.\<close>

definition artifact_codecs :: "'z artifact_ext_scheme \<Rightarrow> bool" where
  "artifact_codecs E \<longleftrightarrow>
     fingerprint_codec E \<and>
     (\<forall>bs. base64url_decode E (base64url_encode E bs) = Ok bs) \<and>
     (\<forall>s bs. artifact_to_json E s = Ok bs \<longrightarrow> artifact_from_json E bs = Ok s)"

lemma create_for_descriptor_verifies:
  assumes codecs: "artifact_codecs E" and utf8: "is_utf8 public_key"
    and created: "create_sshsig_proof_for_descriptor E artifact path public_key persona = Ok proof"
    and fits: "length (pb_payload proof) \<le> MAX_PROOF_BYTES"
  shows "\<exists>report. verify_sshsig_proof_for_descriptor E artifact proof = Ok report \<and>
    vs_persona (vr_signer report) = persona \<and>
    public_key_fingerprint E public_key = Ok (vs_key_fingerprint (vr_signer report))"
proof -
  obtain q key f payload signature key' where
    q: "validate_persona persona = Ok q" and a: "validate_artifact_descriptor artifact = Ok ()"
    and key: "normalize_public_key E public_key = Ok key" and f: "public_key_fingerprint E key = Ok f"
    and key': "normalize_public_key E key = Ok key'"
    and j: "artifact_to_json E \<lparr>as_schema = STATEMENT_SCHEMA, as_artifact = artifact,
           as_signer = \<lparr>sc_persona = q, sc_key_fingerprint = f\<rparr>\<rparr> = Ok payload"
    and v: "sshsig_verify E payload signature key' SSHSIG_NAMESPACE = Ok ()"
    and pr: "proof = \<lparr>pb_schema = PROOF_SCHEMA, pb_payload = base64url_encode E payload,
          pb_signature = \<lparr>se_format = ''sshsig'', se_namespace = SSHSIG_NAMESPACE, se_value = signature\<rparr>,
          pb_verification_material = \<lparr>vm_format = ''openssh-public-key'', vm_public_key = key'\<rparr>\<rparr>"
    using created
    by (auto simp: create_sshsig_proof_for_descriptor_def create_sshsig_payload_proof_def Let_def)
  have [simp]: "key' = key" using normalize_public_key_idem [OF utf8 key] key' by simp
  have [simp]: "q = persona" using q by (rule validate_persona_Ok)
  show ?thesis
    using codecs q a f j v key' fits pr fingerprint_valid [OF _ f] fingerprint_of_normalized [OF utf8 key]
    by (auto simp: artifact_codecs_def verify_for_descriptor_Ok_iff decode_sshsig_payload_def
        validate_envelope_def decode_payload_def validate_statement_def not_less intro!: exI)
qed

section \<open>Writing a proof\<close>

lemma write_proof_new_keeps:
  "fs other \<noteq> None \<or> other \<noteq> path \<Longrightarrow> snd (write_proof_new E fs path proof fault) other = fs other"
  by (auto simp: write_proof_new_def split: result.splits write_fault.splits)

section \<open>Live signer bindings\<close>

lemma provider_as_str_inj: "provider_as_str p = provider_as_str q \<Longrightarrow> p = q"
  by (cases p; cases q) (simp_all add: provider_as_str_def)

text \<open>A challenge determines the list of its fields: each is preceded by its length.\<close>

definition encode_fields :: "bytes list \<Rightarrow> bytes" where
  "encode_fields parts = concat (map (\<lambda>f. u32_to_be_bytes (of_nat (length f)) @ f) parts)"

lemma challenge_fold_Ok_iff:
  "try_fold challenge_field acc parts = Ok c \<longleftrightarrow>
     list_all (\<lambda>f. length f < 2 ^ 32) parts \<and> c = acc @ encode_fields parts"
  by (induction parts arbitrary: acc) (auto simp: challenge_field_def encode_fields_def not_le)

lemma encode_fields_inj:
  assumes "list_all (\<lambda>f. length f < 2 ^ 32) fs" "list_all (\<lambda>f. length f < 2 ^ 32) gs"
    and "length fs = length gs" and "encode_fields fs = encode_fields gs"
  shows "fs = gs"
  using assms(3,1,2,4)
proof (induction fs gs rule: list_induct2)
  case (Cons f fs g gs)
  have eq: "u32_to_be_bytes (of_nat (length f)) @ f @ encode_fields fs
      = u32_to_be_bytes (of_nat (length g)) @ g @ encode_fields gs"
    using Cons.prems(3) by (simp add: encode_fields_def)
  then have h: "(of_nat (length f) :: u32) = of_nat (length g)"
      and t: "f @ encode_fields fs = g @ encode_fields gs"
    using u32_to_be_bytes_inj by (auto simp: u32_to_be_bytes_def)
  have "length f = length g"
    using arg_cong [OF h, of unat] Cons.prems by (simp add: unat_of_nat)
  with t Cons show ?case by auto
qed simp

lemma live_challenge_inj:
  assumes "live_signer_binding_challenge p l k f n = Ok c" "live_signer_binding_challenge p' l' k' f' n' = Ok c"
  shows "p = p' \<and> l = l' \<and> k = k' \<and> f = f' \<and> n = n'"
proof -
  let ?parts = "\<lambda>p l k f n. [as_bytes ''a-quo-live-signer-binding-challenge-v1'', as_bytes (provider_as_str p),
         as_bytes l, as_bytes k, as_bytes f, n]"
  have "?parts p l k f n = ?parts p' l' k' f' n'"
    using assms by (intro encode_fields_inj)
      (simp_all only: live_signer_binding_challenge_def challenge_fold_Ok_iff if_Err_Ok_iff list.size append_Nil)
  then show ?thesis by (auto dest: as_bytes_inj provider_as_str_inj)
qed

lemma proved_binding_validates:
  assumes utf8: "is_utf8 key"
    and proved: "prove_live_signer_binding E fs_before fs_after entropy locator key provider = Ok receipt"
  shows "validate_verified_live_signer_binding E fs_after receipt provider locator key
    (vb_public_key_fingerprint receipt) = Ok ()"
  using proved fingerprint_of_normalized [OF utf8]
  by (auto simp: prove_live_signer_binding_def validate_verified_live_signer_binding_def
      live_signer_locator_snapshot_def)

lemma proved_binding_signed:
  assumes "prove_live_signer_binding E fs_before fs_after entropy locator key provider = Ok receipt"
  shows "\<exists>nonce challenge signature. entropy = Some nonce \<and>
    live_signer_binding_challenge (vb_provider receipt) (vb_canonical_locator receipt)
      (vb_normalized_public_key receipt) (vb_public_key_fingerprint receipt) nonce = Ok challenge \<and>
    key_verify E (vb_normalized_public_key receipt) LIVE_SIGNER_BINDING_NAMESPACE challenge signature"
  using assms sshsig_verify_key_verify
  by (fastforce simp: prove_live_signer_binding_def)

end
