(* ===== verification/History.thy ===== *)
theory History
  imports Prelude
begin

text \<open>
  What a persona history is, independently of how proofs are encoded and checked: a head that says
  which key holds the persona's authority, and events that each take over from the head before.
  The chain verifiers of \<open>Continuity\<close> and \<open>Recovery_Chain\<close> refine this specification.

  The theory also holds two contracts the chains share: \<open>hash_chain\<close>, entries that name the digest
  of their predecessor, and \<open>chain_refinement\<close>, a loop whose steps are events of a history.
\<close>

section \<open>Heads and events\<close>

text \<open>The authority over a persona: one online key, or none after a terminal revocation.\<close>

datatype authority = Online string | Ended

record head =
  head_sequence :: nat
  head_link :: "string option"
  head_authority :: authority
  head_time :: int

datatype change = Rotated | Recovered nat | Revoked nat

record event =
  ev_change :: change
  ev_sequence :: nat
  ev_link :: "string option"
  ev_from :: string
  ev_to :: authority
  ev_time :: int
  ev_digest :: string

definition genesis :: "string \<Rightarrow> int \<Rightarrow> head" where
  "genesis key time =
     \<lparr>head_sequence = 0, head_link = None, head_authority = Online key, head_time = time\<rparr>"

definition head_after :: "event \<Rightarrow> head" where
  "head_after e =
     \<lparr>head_sequence = ev_sequence e, head_link = Some (ev_digest e), head_authority = ev_to e,
      head_time = ev_time e\<rparr>"

definition ends_history :: "change \<Rightarrow> bool" where
  "ends_history c = (case c of Revoked _ \<Rightarrow> True | _ \<Rightarrow> False)"

inductive advances :: "head \<Rightarrow> event \<Rightarrow> head \<Rightarrow> bool" where
  advance: "\<lbrakk>head_authority h = Online (ev_from e); ev_sequence e = head_sequence h + 1; ev_link e = head_link h;
    head_time h \<le> ev_time e; ev_to e \<noteq> Online (ev_from e); ev_to e = Ended \<longleftrightarrow> ends_history (ev_change e)\<rbrakk>
    \<Longrightarrow> advances h e (head_after e)"

inductive_simps advances_iff: "advances h e h'"

inductive history :: "head \<Rightarrow> event list \<Rightarrow> head \<Rightarrow> bool" where
  start: "history h [] h"
| extend: "\<lbrakk>history h es h'; advances h' e h''\<rbrakk> \<Longrightarrow> history h (es @ [e]) h''"

inductive_cases history_NilE: "history h [] h'"

lemma history_Nil [simp]: "history h [] h' \<longleftrightarrow> h' = h"
  by (auto intro: history.start elim: history.cases)

lemma history_snoc [simp]: "history h (es @ [e]) h'' \<longleftrightarrow> (\<exists>h'. history h es h' \<and> advances h' e h'')"
  by (auto intro: history.extend elim: history.cases)

lemma history_append: "history h (es @ fs) h'' \<longleftrightarrow> (\<exists>h'. history h es h' \<and> history h' fs h'')"
proof (induction fs arbitrary: h'' rule: rev_induct)
  case (snoc f fs)
  have "history h (es @ fs @ [f]) h'' \<longleftrightarrow> (\<exists>h'. history h (es @ fs) h' \<and> advances h' f h'')"
    using history_snoc [of h "es @ fs" f h''] by simp
  with snoc.IH show ?case by auto
qed simp

lemma history_Cons: "history h (e # es) h'' \<longleftrightarrow> (\<exists>h'. advances h e h' \<and> history h' es h'')"
  using history_append [of h "[e]" es h''] history_snoc [of h "[]" e] by auto

section \<open>Invariants of histories\<close>

lemma advances_deterministic: "advances h e h' \<Longrightarrow> advances h e h'' \<Longrightarrow> h' = h''"
  by (simp add: advances_iff)

lemma history_deterministic: "history h es h' \<Longrightarrow> history h es h'' \<Longrightarrow> h' = h''"
  by (induction es arbitrary: h' h'' rule: rev_induct) (auto dest: advances_deterministic)

lemma history_sequence: "history h es h' \<Longrightarrow> head_sequence h' = head_sequence h + length es"
  by (induction rule: history.induct) (auto simp: advances_iff head_after_def)

lemma history_sequences:
  "history h es h' \<Longrightarrow> map ev_sequence es = [Suc (head_sequence h)..<Suc (head_sequence h + length es)]"
proof (induction rule: history.induct)
  case (extend h es h' e h'')
  then show ?case using history_sequence [of h es h'] by (auto simp: advances_iff)
qed simp

lemma history_time: "history h es h' \<Longrightarrow> head_time h \<le> head_time h'"
  by (induction rule: history.induct) (auto simp: advances_iff head_after_def)

lemma history_tip: "history h es h' \<Longrightarrow> es \<noteq> [] \<Longrightarrow> h' = head_after (last es)"
  by (induction rule: history.induct) (auto simp: advances_iff)

lemma history_times:
  "history h es h' \<Longrightarrow> sorted (map ev_time es) \<and> (\<forall>e\<in>set es. head_time h \<le> ev_time e \<and> ev_time e \<le> head_time h')"
proof (induction rule: history.induct)
  case (extend h es h' e h'')
  then show ?case using history_time [of h es h'] by (fastforce simp: advances_iff head_after_def sorted_append)
qed simp

lemma history_ended: "history h es h' \<Longrightarrow> head_authority h = Ended \<Longrightarrow> es = [] \<and> h' = h"
  by (induction rule: history.induct) (auto simp: advances_iff)

lemma history_end_is_last:
  assumes "history h (es @ e # fs) h'" and "ends_history (ev_change e)"
  shows "fs = []" and "head_authority h' = Ended"
proof -
  obtain k where k: "history (head_after e) fs h'" "ev_to e = Ended"
    using assms by (auto simp: history_append history_Cons advances_iff)
  then have "head_authority (head_after e) = Ended" by (simp add: head_after_def)
  with history_ended [OF k(1)] show "fs = []" and "head_authority h' = Ended" by auto
qed

lemma history_handover:
  assumes "history h (es @ e # f # fs) h'"
  shows "ev_to e = Online (ev_from f)" and "ev_link f = Some (ev_digest e)"
  using assms by (auto simp: history_append history_Cons advances_iff head_after_def)

section \<open>Entries linked by digest\<close>

fun linked :: "('e \<Rightarrow> 'd) \<Rightarrow> ('e \<Rightarrow> 'd option) \<Rightarrow> 'd option \<Rightarrow> 'e list \<Rightarrow> bool" where
  "linked digest link p [] = True"
| "linked digest link p (x # xs) = (link x = p \<and> linked digest link (Some (digest x)) xs)"

fun last_digest :: "('e \<Rightarrow> 'd) \<Rightarrow> 'd option \<Rightarrow> 'e list \<Rightarrow> 'd option" where
  "last_digest digest p [] = p"
| "last_digest digest p (x # xs) = last_digest digest (Some (digest x)) xs"

lemma last_digest_snoc [simp]: "last_digest digest p (xs @ [x]) = Some (digest x)"
  by (induction xs arbitrary: p) auto

lemma linked_snoc [simp]:
  "linked digest link p (xs @ [x]) \<longleftrightarrow> linked digest link p xs \<and> link x = last_digest digest p xs"
  by (induction xs arbitrary: p) auto

lemma linked_map:
  "linked digest link p (map f xs) = linked (digest \<circ> f) (link \<circ> f) p xs"
  "last_digest digest p (map f xs) = last_digest (digest \<circ> f) p xs"
  by (induction xs arbitrary: p) auto

lemma history_linked:
  "history h es h' \<Longrightarrow> linked ev_digest ev_link (head_link h) es \<and> head_link h' = last_digest ev_digest (head_link h) es"
  by (induction rule: history.induct) (auto simp: advances_iff head_after_def)

text \<open>
  An entry's content determines the link it carries. Then, as long as no two entries with different
  contents have the same digest, the last digest determines the whole list.
\<close>

locale hash_chain =
  fixes digest :: "'e \<Rightarrow> 'd" and link :: "'e \<Rightarrow> 'd option" and content :: "'e \<Rightarrow> 'c"
  assumes content_link: "content x = content y \<Longrightarrow> link x = link y"
begin

lemma no_fork:
  assumes "linked digest link None xs" and "linked digest link None ys"
    and "last_digest digest None xs = last_digest digest None ys"
    and "\<And>x y. x \<in> set xs \<Longrightarrow> y \<in> set ys \<Longrightarrow> digest x = digest y \<Longrightarrow> content x = content y"
  shows "map content xs = map content ys"
  using assms
proof (induction xs arbitrary: ys rule: rev_induct)
  case Nil
  then show ?case by (cases ys rule: rev_cases) auto
next
  case (snoc x xs)
  then obtain y zs where ys: "ys = zs @ [y]" by (cases ys rule: rev_cases) auto
  with snoc.prems have "content x = content y" by auto
  moreover from this have "link x = link y" by (rule content_link)
  with snoc.prems ys have "last_digest digest None xs = last_digest digest None zs" by simp
  with snoc.prems ys have "map content xs = map content zs" by (intro snoc.IH) auto
  ultimately show ?case by (simp add: ys)
qed

end

section \<open>Loops that follow a history\<close>

text \<open>
  The invariant also sees the elements that are left, so that it can bound a counter that must not
  wrap and place an element that must come last.
\<close>

locale chain_refinement =
  fixes step :: "'s \<Rightarrow> 'x \<Rightarrow> ('s, 'e) result"
    and abs_head :: "'s \<Rightarrow> head"
    and abs_events :: "'s \<Rightarrow> event list"
    and inv :: "'x list \<Rightarrow> 's \<Rightarrow> bool"
  assumes step_advances: "inv (x # xs) s \<Longrightarrow> step s x = Ok s' \<Longrightarrow>
      inv xs s' \<and> (\<exists>e. abs_events s' = abs_events s @ [e] \<and> advances (abs_head s) e (abs_head s'))"
begin

lemma loop_history:
  assumes "inv xs s" and "try_fold step s xs = Ok s'"
  shows "\<exists>es. abs_events s' = abs_events s @ es \<and> length es = length xs \<and> history (abs_head s) es (abs_head s')"
  using assms
proof (induction xs arbitrary: s)
  case (Cons x xs)
  then obtain t where t: "step s x = Ok t" "try_fold step t xs = Ok s'" by auto
  from step_advances [OF Cons.prems(1) t(1)] obtain e where e: "inv xs t"
    "abs_events t = abs_events s @ [e]" "advances (abs_head s) e (abs_head t)" by blast
  from Cons.IH [OF e(1) t(2)] obtain es where
    "abs_events s' = abs_events t @ es" "length es = length xs" "history (abs_head t) es (abs_head s')" by blast
  with e show ?case by (intro exI [of _ "e # es"]) (auto simp: history_Cons)
qed simp

end

end
