(* ===== verification/Continuity.thy ===== *)
theory Continuity
  imports Artifact History
begin

text \<open>
  Persona roots and routine key transitions (\<^verbatim>\<open>src/crates/a-quo-core/src/continuity.rs\<close>): the
  signed statements with their validation and canonical bytes, creation, review, preflight and
  verification of the two proof types, and the verification of a whole chain, of one extension of a
  verified chain, and of a chain that must end at an expected checkpoint.

  JSON parsing and RFC 8785 canonicalisation are functions of the record \<open>continuity_ext\<close>.
\<close>

section \<open>Data\<close>

definition PERSONA_ROOT_STATEMENT_SCHEMA :: string where
  "PERSONA_ROOT_STATEMENT_SCHEMA = ''urn:a-quo:statement:persona-root:v1''"
definition PERSONA_ROOT_PROOF_SCHEMA :: string where
  "PERSONA_ROOT_PROOF_SCHEMA = ''urn:a-quo:proof:persona-root:sshsig:v1''"
definition PERSONA_ROOT_NAMESPACE :: string where
  "PERSONA_ROOT_NAMESPACE = ''a-quo-persona-root-v1''"
definition PERSONA_TRANSITION_STATEMENT_SCHEMA :: string where
  "PERSONA_TRANSITION_STATEMENT_SCHEMA = ''urn:a-quo:statement:persona-transition:v1''"
definition PERSONA_TRANSITION_PROOF_SCHEMA :: string where
  "PERSONA_TRANSITION_PROOF_SCHEMA = ''urn:a-quo:proof:persona-transition:sshsig:v1''"
definition PERSONA_TRANSITION_NAMESPACE :: string where
  "PERSONA_TRANSITION_NAMESPACE = ''a-quo-persona-transition-v1''"
definition CONTINUITY_CANONICALIZATION :: string where
  "CONTINUITY_CANONICALIZATION = ''RFC8785''"
definition CONTINUITY_ROOT_CLOCK_SKEW_SECONDS :: i64 where
  "CONTINUITY_ROOT_CLOCK_SKEW_SECONDS = 5 * 60"
definition CONTINUITY_TRANSITION_CLOCK_SKEW_SECONDS :: i64 where
  "CONTINUITY_TRANSITION_CLOCK_SKEW_SECONDS = 5 * 60"
definition MAX_CONTINUITY_PAYLOAD_BYTES :: nat where
  "MAX_CONTINUITY_PAYLOAD_BYTES = 64 * 1024"
definition MAX_CONTINUITY_TRANSITIONS :: nat where
  "MAX_CONTINUITY_TRANSITIONS = 4096"
definition PERSONA_ANCHOR_BYTES :: nat where "PERSONA_ANCHOR_BYTES = 32"
definition MAX_CONTINUITY_SIGNATURE_BYTES :: nat where
  "MAX_CONTINUITY_SIGNATURE_BYTES = 64 * 1024"
definition MAX_JCS_SAFE_INTEGER :: i64 where "MAX_JCS_SAFE_INTEGER = 9007199254740991"
definition SIGNATURE_FORMAT :: string where "SIGNATURE_FORMAT = ''sshsig''"
definition PUBLIC_KEY_FORMAT :: string where "PUBLIC_KEY_FORMAT = ''openssh-public-key''"

record PersonaRootStatement =
  rs_schema :: string
  rs_canonicalization :: string
  rs_persona_anchor :: string
  rs_persona :: string
  rs_root_version :: u32
  rs_issued_at :: i64
  rs_initial_key_fingerprint :: string

datatype ContinuitySignatureRole = RootRole | PreviousRole | NextRole

record ContinuitySignature =
  sig_role :: ContinuitySignatureRole
  sig_format :: string
  sig_namespace :: string
  sig_value :: string
  sig_public_key_format :: string
  sig_public_key :: string

record PersonaRootProof =
  rp_schema :: string
  rp_payload :: string
  rp_signature :: ContinuitySignature

record PersonaRootReview =
  rr_persona :: string
  rr_persona_anchor :: string
  rr_root_statement_sha256 :: string
  rr_issued_at :: i64
  rr_initial_key_fingerprint :: string

datatype PersonaTransitionReason = Routine

record PersonaTransitionStatement =
  ts_schema :: string
  ts_canonicalization :: string
  ts_persona_anchor :: string
  ts_persona :: string
  ts_sequence :: u32
  ts_issued_at :: i64
  ts_root_statement_sha256 :: string
  ts_previous_transition_sha256 :: "string option"
  ts_previous_key_fingerprint :: string
  ts_next_key_fingerprint :: string
  ts_reason :: PersonaTransitionReason

record PersonaTransitionReview =
  tr_persona :: string
  tr_persona_anchor :: string
  tr_root_statement_sha256 :: string
  tr_sequence :: u32
  tr_previous_transition_sha256 :: "string option"
  tr_previous_key_fingerprint :: string
  tr_next_key_fingerprint :: string
  tr_issued_at :: i64
  tr_transition_statement_sha256 :: string

record PersonaTransitionProof =
  tp_schema :: string
  tp_payload :: string
  tp_signatures :: "ContinuitySignature list"

record PersonaContinuityCheckpoint =
  pc_transition_sequence :: u32
  pc_transition_sha256 :: "string option"

record VerifiedPersonaRoot =
  vr_statement :: PersonaRootStatement
  vr_root_statement_sha256 :: string
  vr_initial_public_key :: string

record VerifiedPersonaTransition =
  vt_statement :: PersonaTransitionStatement
  vt_transition_statement_sha256 :: string
  vt_previous_public_key :: string
  vt_next_public_key :: string

record VerifiedPersonaTransitionReceipt =
  receipt_transition :: VerifiedPersonaTransition

record ContinuityChainReport =
  cr_root_signature :: EvidenceStatus
  cr_expected_root_digest :: EvidenceStatus
  cr_chain :: EvidenceStatus
  cr_persona :: string
  cr_persona_anchor :: string
  cr_root_statement_sha256 :: string
  cr_initial_key_fingerprint :: string
  cr_chain_tip_key_fingerprint :: string
  cr_transition_count :: u32
  cr_last_issued_at :: i64
  cr_last_transition_sha256 :: "string option"
  cr_expected_head_checkpoint :: "EvidenceStatus option"
  cr_not_established :: "string list"

record VerifiedPersonaContinuityChain =
  vc_root :: VerifiedPersonaRoot
  vc_transitions :: "VerifiedPersonaTransition list"
  vc_report :: ContinuityChainReport

record continuity_ext = ext +
  root_from_json :: "bytes \<Rightarrow> (PersonaRootStatement, json_error) result"
  root_to_jcs :: "PersonaRootStatement \<Rightarrow> (bytes, json_error) result"
  root_proof_from_json :: "bytes \<Rightarrow> (PersonaRootProof, json_error) result"
  transition_from_json :: "bytes \<Rightarrow> (PersonaTransitionStatement, json_error) result"
  transition_to_jcs :: "PersonaTransitionStatement \<Rightarrow> (bytes, json_error) result"
  transition_proof_from_json :: "bytes \<Rightarrow> (PersonaTransitionProof, json_error) result"

section \<open>Validation\<close>

definition validate_persona_anchor :: "'z ext_scheme \<Rightarrow> string \<Rightarrow> unit res" where
  "validate_persona_anchor E anchor =
     and_then (map_err (\<lambda>_. InvalidContinuityAnchor AnchorNotBase64url) (base64url_decode E anchor)) (\<lambda>decoded.
     if length decoded \<noteq> PERSONA_ANCHOR_BYTES \<or> base64url_encode E decoded \<noteq> anchor
     then Err (InvalidContinuityAnchor AnchorNotThirtyTwoBytes)
     else Ok ())"

definition validate_canonical_persona :: "string \<Rightarrow> string res" where
  "validate_canonical_persona persona =
     and_then (validate_persona persona) (\<lambda>canonical.
     if canonical \<noteq> persona then invalid_statement PersonaHasWhitespace else Ok canonical)"

definition validate_jcs_time :: "time_field \<Rightarrow> i64 \<Rightarrow> unit res" where
  "validate_jcs_time field v =
     (if 0 \<le> v \<and> v \<le> MAX_JCS_SAFE_INTEGER then Ok () else invalid_statement (TimeNotExact field))"

definition validate_sha256 :: "digest_field \<Rightarrow> string \<Rightarrow> unit res" where
  "validate_sha256 field v = (if lowercase_hex_64 v then Ok () else invalid_statement (NotSha256 field))"

definition validate_payload_bound :: "bytes \<Rightarrow> unit res" where
  "validate_payload_bound payload =
     (if length payload \<le> MAX_CONTINUITY_PAYLOAD_BYTES then Ok () else invalid_proof PayloadTooLong)"

definition decode_continuity_payload :: "'z ext_scheme \<Rightarrow> string \<Rightarrow> bytes res" where
  "decode_continuity_payload E encoded =
     and_then (decode_payload E encoded) (\<lambda>payload.
     and_then (validate_payload_bound payload) (\<lambda>_.
     if base64url_encode E payload \<noteq> encoded then invalid_proof PayloadNotCanonicalBase64url
     else Ok payload))"

definition validate_signature ::
  "'z ext_scheme \<Rightarrow> ContinuitySignature \<Rightarrow> ContinuitySignatureRole \<Rightarrow> string \<Rightarrow> string res" where
  "validate_signature E signature expected_role expected_namespace =
     (if sig_role signature \<noteq> expected_role then invalid_proof (SignatureReason SignatureRoleMismatch)
      else if sig_format signature \<noteq> SIGNATURE_FORMAT
      then invalid_proof (SignatureReason (UnsupportedSignatureFormat
             (escape_untrusted_text_for_terminal (sig_format signature))))
      else if sig_namespace signature \<noteq> expected_namespace
      then invalid_proof (SignatureReason (UnsupportedSignatureNamespace
             (escape_untrusted_text_for_terminal (sig_namespace signature))))
      else if sig_public_key_format signature \<noteq> PUBLIC_KEY_FORMAT
      then invalid_proof (SignatureReason (UnsupportedPublicKeyFormat
             (escape_untrusted_text_for_terminal (sig_public_key_format signature))))
      else if sig_value signature = [] \<or> MAX_CONTINUITY_SIGNATURE_BYTES < length (sig_value signature)
      then invalid_proof (SignatureReason SignatureLengthBounds)
      else normalize_public_key E (sig_public_key signature))"

definition new_signature :: "ContinuitySignatureRole \<Rightarrow> string \<Rightarrow> string \<Rightarrow> ContinuitySignature" where
  "new_signature role v public_key =
     \<lparr>sig_role = role, sig_format = SIGNATURE_FORMAT,
      sig_namespace = (case role of RootRole \<Rightarrow> PERSONA_ROOT_NAMESPACE
        | PreviousRole \<Rightarrow> PERSONA_TRANSITION_NAMESPACE | NextRole \<Rightarrow> PERSONA_TRANSITION_NAMESPACE),
      sig_value = v, sig_public_key_format = PUBLIC_KEY_FORMAT, sig_public_key = public_key\<rparr>"

definition require_proof_schema :: "string \<Rightarrow> string \<Rightarrow> unit res" where
  "require_proof_schema actual expected =
     (if actual = expected then Ok ()
      else invalid_proof (UnsupportedProofSchema (escape_untrusted_text_for_terminal actual) expected))"

definition validate_persona_root_statement :: "'z ext_scheme \<Rightarrow> PersonaRootStatement \<Rightarrow> unit res" where
  "validate_persona_root_statement E statement =
     (if rs_schema statement \<noteq> PERSONA_ROOT_STATEMENT_SCHEMA
      then invalid_statement (RootReason (UnsupportedRootSchema
             (escape_untrusted_text_for_terminal (rs_schema statement))))
      else if rs_canonicalization statement \<noteq> CONTINUITY_CANONICALIZATION
      then invalid_statement (RootReason (UnsupportedRootCanonicalization
             (escape_untrusted_text_for_terminal (rs_canonicalization statement))))
      else and_then (validate_persona_anchor E (rs_persona_anchor statement)) (\<lambda>_.
      and_then (validate_canonical_persona (rs_persona statement)) (\<lambda>_.
      if rs_root_version statement \<noteq> 1 then invalid_statement (RootReason RootVersionNotOne)
      else and_then (validate_jcs_time RootIssuedAt (rs_issued_at statement)) (\<lambda>_.
      validate_key_fingerprint E (rs_initial_key_fingerprint statement)))))"

definition validate_persona_transition_statement ::
  "'z ext_scheme \<Rightarrow> PersonaTransitionStatement \<Rightarrow> unit res" where
  "validate_persona_transition_statement E statement =
     (if ts_schema statement \<noteq> PERSONA_TRANSITION_STATEMENT_SCHEMA
      then invalid_statement (TransitionReason (UnsupportedTransitionSchema
             (escape_untrusted_text_for_terminal (ts_schema statement))))
      else if ts_canonicalization statement \<noteq> CONTINUITY_CANONICALIZATION
      then invalid_statement (TransitionReason (UnsupportedTransitionCanonicalization
             (escape_untrusted_text_for_terminal (ts_canonicalization statement))))
      else and_then (validate_persona_anchor E (ts_persona_anchor statement)) (\<lambda>_.
      and_then (validate_canonical_persona (ts_persona statement)) (\<lambda>_.
      if ts_sequence statement = 0 then invalid_statement (TransitionReason TransitionSequenceZero)
      else and_then (validate_jcs_time TransitionIssuedAt (ts_issued_at statement)) (\<lambda>_.
      and_then (validate_sha256 TransitionRootDigest (ts_root_statement_sha256 statement)) (\<lambda>_.
      and_then (case ts_previous_transition_sha256 statement of
          None \<Rightarrow> if ts_sequence statement = 1 then Ok ()
                  else invalid_statement (TransitionReason LaterTransitionNeedsPrevious)
        | Some digest \<Rightarrow> if ts_sequence statement = 1
                  then invalid_statement (TransitionReason FirstTransitionNamesPrevious)
                  else validate_sha256 PreviousTransitionDigest digest) (\<lambda>_.
      and_then (validate_key_fingerprint E (ts_previous_key_fingerprint statement)) (\<lambda>_.
      and_then (validate_key_fingerprint E (ts_next_key_fingerprint statement)) (\<lambda>_.
      if ts_previous_key_fingerprint statement = ts_next_key_fingerprint statement
      then invalid_statement (TransitionReason TransitionKeysNotDistinct)
      else if ts_reason statement \<noteq> Routine then invalid_statement (TransitionReason TransitionNotRoutine)
      else Ok ()))))))))"

text \<open>The comparison of a key's fingerprint with the one a statement names.\<close>

definition require_fingerprint :: "'z ext_scheme \<Rightarrow> string \<Rightarrow> string \<Rightarrow> unit res" where
  "require_fingerprint E public_key expected =
     and_then (public_key_fingerprint E public_key) (\<lambda>fingerprint.
     if fingerprint \<noteq> expected then Err FingerprintMismatch else Ok ())"

section \<open>Persona roots\<close>

definition canonical_persona_root_statement_bytes ::
  "'z continuity_ext_scheme \<Rightarrow> PersonaRootStatement \<Rightarrow> bytes res" where
  "canonical_persona_root_statement_bytes E statement =
     and_then (validate_persona_root_statement E statement) (\<lambda>_.
     and_then (map_err Json (root_to_jcs E statement)) (\<lambda>bs.
     and_then (validate_payload_bound bs) (\<lambda>_. Ok bs)))"

definition persona_root_statement_sha256 ::
  "'z continuity_ext_scheme \<Rightarrow> PersonaRootStatement \<Rightarrow> string res" where
  "persona_root_statement_sha256 E statement =
     and_then (canonical_persona_root_statement_bytes E statement) (\<lambda>bs. Ok (sha256_hex E bs))"

definition new_persona_root_statement_with_anchor ::
  "'z ext_scheme \<Rightarrow> string \<Rightarrow> string \<Rightarrow> i64 \<Rightarrow> string \<Rightarrow> PersonaRootStatement res" where
  "new_persona_root_statement_with_anchor E persona_anchor persona issued_at initial_public_key =
     and_then (validate_persona_anchor E persona_anchor) (\<lambda>_.
     and_then (validate_canonical_persona persona) (\<lambda>persona.
     and_then (validate_jcs_time RootIssuedAt issued_at) (\<lambda>_.
     and_then (normalize_public_key E initial_public_key) (\<lambda>initial_public_key.
     and_then (public_key_fingerprint E initial_public_key) (\<lambda>fingerprint.
     let statement = \<lparr>rs_schema = PERSONA_ROOT_STATEMENT_SCHEMA,
           rs_canonicalization = CONTINUITY_CANONICALIZATION, rs_persona_anchor = persona_anchor,
           rs_persona = persona, rs_root_version = 1, rs_issued_at = issued_at,
           rs_initial_key_fingerprint = fingerprint\<rparr>
     in and_then (validate_persona_root_statement E statement) (\<lambda>_. Ok statement))))))"

definition new_persona_root_statement ::
  "'z ext_scheme \<Rightarrow> bytes option \<Rightarrow> string \<Rightarrow> i64 \<Rightarrow> string \<Rightarrow> PersonaRootStatement res" where
  "new_persona_root_statement E entropy persona issued_at initial_public_key =
     and_then (ok_or EntropyUnavailable entropy) (\<lambda>anchor.
     new_persona_root_statement_with_anchor E (base64url_encode E anchor) persona issued_at initial_public_key)"

definition review_persona_root_statement ::
  "'z continuity_ext_scheme \<Rightarrow> PersonaRootStatement \<Rightarrow> i64 \<Rightarrow> string \<Rightarrow> string \<Rightarrow> PersonaRootReview res" where
  "review_persona_root_statement E statement now initial_public_key persona =
     and_then (canonical_persona_root_statement_bytes E statement) (\<lambda>payload.
     and_then (validate_jcs_time RootReviewTime now) (\<lambda>_.
     if rs_issued_at statement < i64_saturating_sub now CONTINUITY_ROOT_CLOCK_SKEW_SECONDS
        \<or> i64_saturating_add now CONTINUITY_ROOT_CLOCK_SKEW_SECONDS < rs_issued_at statement
     then invalid_statement (RootReason RootNotFresh)
     else and_then (validate_canonical_persona persona) (\<lambda>persona.
     if rs_persona statement \<noteq> persona then invalid_statement (RootReason RootPersonaMismatch)
     else and_then (normalize_public_key E initial_public_key) (\<lambda>initial_public_key.
     and_then (require_fingerprint E initial_public_key (rs_initial_key_fingerprint statement)) (\<lambda>_.
     Ok \<lparr>rr_persona = rs_persona statement, rr_persona_anchor = rs_persona_anchor statement,
         rr_root_statement_sha256 = sha256_hex E payload, rr_issued_at = rs_issued_at statement,
         rr_initial_key_fingerprint = rs_initial_key_fingerprint statement\<rparr>)))))"

definition review_persona_root_statement_bytes ::
  "'z continuity_ext_scheme \<Rightarrow> bytes \<Rightarrow> i64 \<Rightarrow> string \<Rightarrow> string \<Rightarrow>
     (PersonaRootStatement \<times> PersonaRootReview) res" where
  "review_persona_root_statement_bytes E bs now initial_public_key persona =
     and_then (map_err (\<lambda>r. InvalidContinuityStatement (StatementJson r))
       (parse_bounded_json (root_from_json E) bs MAX_CONTINUITY_PAYLOAD_BYTES PersonaRootStatementDoc)) (\<lambda>statement.
     and_then (review_persona_root_statement E statement now initial_public_key persona) (\<lambda>review.
     and_then (canonical_persona_root_statement_bytes E statement) (\<lambda>canonical.
     if canonical \<noteq> bs then Err NonCanonicalContinuityStatement else Ok (statement, review))))"

record PersonaRootProofPreflight =
  rpf_payload :: bytes
  rpf_statement :: PersonaRootStatement
  rpf_public_key :: string

definition preflight_persona_root_proof ::
  "'z continuity_ext_scheme \<Rightarrow> PersonaRootProof \<Rightarrow> PersonaRootProofPreflight res" where
  "preflight_persona_root_proof E proof =
     and_then (require_proof_schema (rp_schema proof) PERSONA_ROOT_PROOF_SCHEMA) (\<lambda>_.
     and_then (decode_continuity_payload E (rp_payload proof)) (\<lambda>payload.
     and_then (map_err (\<lambda>r. InvalidContinuityStatement (StatementJson r))
       (parse_bounded_json (root_from_json E) payload MAX_CONTINUITY_PAYLOAD_BYTES PersonaRootStatementDoc)) (\<lambda>statement.
     and_then (canonical_persona_root_statement_bytes E statement) (\<lambda>canonical.
     if canonical \<noteq> payload then Err NonCanonicalContinuityStatement
     else and_then (validate_signature E (rp_signature proof) RootRole PERSONA_ROOT_NAMESPACE) (\<lambda>public_key.
     and_then (require_fingerprint E public_key (rs_initial_key_fingerprint statement)) (\<lambda>_.
     Ok \<lparr>rpf_payload = payload, rpf_statement = statement, rpf_public_key = public_key\<rparr>))))))"

definition parse_persona_root_proof_bytes :: "'z continuity_ext_scheme \<Rightarrow> bytes \<Rightarrow> PersonaRootProof res" where
  "parse_persona_root_proof_bytes E bs =
     and_then (map_err (\<lambda>r. InvalidContinuityProof (ProofJson r))
       (parse_bounded_json (root_proof_from_json E) bs MAX_PROOF_BYTES PersonaRootProofDoc)) (\<lambda>proof.
     and_then (preflight_persona_root_proof E proof) (\<lambda>_. Ok proof))"

definition create_persona_root_proof ::
  "'z continuity_ext_scheme \<Rightarrow> PersonaRootStatement \<Rightarrow> string \<Rightarrow> string \<Rightarrow> PersonaRootProof res" where
  "create_persona_root_proof E statement private_key_path initial_public_key =
     and_then (canonical_persona_root_statement_bytes E statement) (\<lambda>payload.
     and_then (normalize_public_key E initial_public_key) (\<lambda>public_key.
     and_then (require_fingerprint E public_key (rs_initial_key_fingerprint statement)) (\<lambda>_.
     and_then (sshsig_sign E payload private_key_path PERSONA_ROOT_NAMESPACE) (\<lambda>v.
     and_then (sshsig_verify E payload v public_key PERSONA_ROOT_NAMESPACE) (\<lambda>_.
     Ok \<lparr>rp_schema = PERSONA_ROOT_PROOF_SCHEMA, rp_payload = base64url_encode E payload,
         rp_signature = new_signature RootRole v public_key\<rparr>)))))"

definition verify_persona_root_proof ::
  "'z continuity_ext_scheme \<Rightarrow> PersonaRootProof \<Rightarrow> VerifiedPersonaRoot res" where
  "verify_persona_root_proof E proof =
     and_then (preflight_persona_root_proof E proof) (\<lambda>p.
     and_then (sshsig_verify E (rpf_payload p) (sig_value (rp_signature proof)) (rpf_public_key p)
       PERSONA_ROOT_NAMESPACE) (\<lambda>_.
     Ok \<lparr>vr_statement = rpf_statement p, vr_root_statement_sha256 = sha256_hex E (rpf_payload p),
         vr_initial_public_key = rpf_public_key p\<rparr>))"

section \<open>Routine transitions\<close>

definition new_routine_transition_statement ::
  "'z ext_scheme \<Rightarrow> VerifiedPersonaRoot \<Rightarrow> u32 \<Rightarrow> string option \<Rightarrow> string \<Rightarrow> string \<Rightarrow> i64 \<Rightarrow>
     PersonaTransitionStatement res" where
  "new_routine_transition_statement E root sequence previous_transition_sha256 previous_public_key
     next_public_key issued_at =
     and_then (normalize_public_key E previous_public_key) (\<lambda>previous_public_key.
     and_then (normalize_public_key E next_public_key) (\<lambda>next_public_key.
     and_then (public_key_fingerprint E previous_public_key) (\<lambda>previous_key_fingerprint.
     and_then (public_key_fingerprint E next_public_key) (\<lambda>next_key_fingerprint.
     if sequence = 1 \<and> previous_key_fingerprint \<noteq> rs_initial_key_fingerprint (vr_statement root)
     then invalid_statement (TransitionReason FirstTransitionKeyNotInitial)
     else if issued_at < rs_issued_at (vr_statement root)
     then invalid_statement (TransitionReason TransitionPredatesRoot)
     else let statement = \<lparr>ts_schema = PERSONA_TRANSITION_STATEMENT_SCHEMA,
           ts_canonicalization = CONTINUITY_CANONICALIZATION,
           ts_persona_anchor = rs_persona_anchor (vr_statement root),
           ts_persona = rs_persona (vr_statement root), ts_sequence = sequence, ts_issued_at = issued_at,
           ts_root_statement_sha256 = vr_root_statement_sha256 root,
           ts_previous_transition_sha256 = previous_transition_sha256,
           ts_previous_key_fingerprint = previous_key_fingerprint,
           ts_next_key_fingerprint = next_key_fingerprint, ts_reason = Routine\<rparr>
     in and_then (validate_persona_transition_statement E statement) (\<lambda>_. Ok statement)))))"

definition canonical_persona_transition_statement_bytes ::
  "'z continuity_ext_scheme \<Rightarrow> PersonaTransitionStatement \<Rightarrow> bytes res" where
  "canonical_persona_transition_statement_bytes E statement =
     and_then (validate_persona_transition_statement E statement) (\<lambda>_.
     and_then (map_err Json (transition_to_jcs E statement)) (\<lambda>bs.
     and_then (validate_payload_bound bs) (\<lambda>_. Ok bs)))"

definition persona_transition_statement_sha256 ::
  "'z continuity_ext_scheme \<Rightarrow> PersonaTransitionStatement \<Rightarrow> string res" where
  "persona_transition_statement_sha256 E statement =
     and_then (canonical_persona_transition_statement_bytes E statement) (\<lambda>bs. Ok (sha256_hex E bs))"

definition review_persona_transition_statement ::
  "'z continuity_ext_scheme \<Rightarrow> PersonaTransitionStatement \<Rightarrow> i64 \<Rightarrow> VerifiedPersonaRoot \<Rightarrow> u32 \<Rightarrow> string option \<Rightarrow>
     string \<Rightarrow> string \<Rightarrow> PersonaTransitionReview res" where
  "review_persona_transition_statement E statement now root expected_sequence
     expected_previous_transition_sha256 previous_public_key next_public_key =
     and_then (canonical_persona_transition_statement_bytes E statement) (\<lambda>payload.
     and_then (validate_jcs_time TransitionReviewTime now) (\<lambda>_.
     if ts_issued_at statement < i64_saturating_sub now CONTINUITY_TRANSITION_CLOCK_SKEW_SECONDS
        \<or> i64_saturating_add now CONTINUITY_TRANSITION_CLOCK_SKEW_SECONDS < ts_issued_at statement
     then invalid_statement (TransitionReason TransitionNotFresh)
     else and_then (persona_root_statement_sha256 E (vr_statement root)) (\<lambda>actual_root_statement_sha256.
     if vr_root_statement_sha256 root \<noteq> actual_root_statement_sha256
     then invalid_statement (TransitionReason VerifiedRootInconsistent)
     else if ts_persona statement \<noteq> rs_persona (vr_statement root)
        \<or> ts_persona_anchor statement \<noteq> rs_persona_anchor (vr_statement root)
        \<or> ts_root_statement_sha256 statement \<noteq> vr_root_statement_sha256 root
     then invalid_statement (TransitionReason TransitionRootMismatch)
     else if ts_sequence statement \<noteq> expected_sequence
     then invalid_statement (TransitionReason TransitionSequenceUnexpected)
     else if ts_previous_transition_sha256 statement \<noteq> expected_previous_transition_sha256
     then invalid_statement (TransitionReason TransitionLinkUnexpected)
     else and_then (normalize_public_key E previous_public_key) (\<lambda>previous_public_key.
     and_then (normalize_public_key E next_public_key) (\<lambda>next_public_key.
     and_then (require_fingerprint E previous_public_key (ts_previous_key_fingerprint statement)) (\<lambda>_.
     and_then (require_fingerprint E next_public_key (ts_next_key_fingerprint statement)) (\<lambda>_.
     Ok \<lparr>tr_persona = ts_persona statement, tr_persona_anchor = ts_persona_anchor statement,
         tr_root_statement_sha256 = ts_root_statement_sha256 statement, tr_sequence = ts_sequence statement,
         tr_previous_transition_sha256 = ts_previous_transition_sha256 statement,
         tr_previous_key_fingerprint = ts_previous_key_fingerprint statement,
         tr_next_key_fingerprint = ts_next_key_fingerprint statement, tr_issued_at = ts_issued_at statement,
         tr_transition_statement_sha256 = sha256_hex E payload\<rparr>)))))))"

definition review_persona_transition_statement_bytes ::
  "'z continuity_ext_scheme \<Rightarrow> bytes \<Rightarrow> i64 \<Rightarrow> VerifiedPersonaRoot \<Rightarrow> u32 \<Rightarrow> string option \<Rightarrow> string \<Rightarrow> string \<Rightarrow>
     (PersonaTransitionStatement \<times> PersonaTransitionReview) res" where
  "review_persona_transition_statement_bytes E bs now root expected_sequence
     expected_previous_transition_sha256 previous_public_key next_public_key =
     and_then (map_err (\<lambda>r. InvalidContinuityStatement (StatementJson r))
       (parse_bounded_json (transition_from_json E) bs MAX_CONTINUITY_PAYLOAD_BYTES PersonaTransitionStatementDoc)) (\<lambda>statement.
     and_then (review_persona_transition_statement E statement now root expected_sequence
       expected_previous_transition_sha256 previous_public_key next_public_key) (\<lambda>review.
     and_then (canonical_persona_transition_statement_bytes E statement) (\<lambda>canonical.
     if canonical \<noteq> bs then Err NonCanonicalContinuityStatement else Ok (statement, review))))"

text \<open>The loop that assigns the signatures of a proof to the two roles.\<close>

definition assign_transition_role ::
  "ContinuitySignature option \<times> ContinuitySignature option \<Rightarrow> ContinuitySignature \<Rightarrow>
     (ContinuitySignature option \<times> ContinuitySignature option) res" where
  "assign_transition_role roles signature =
     (case roles of (previous, nxt) \<Rightarrow>
       (case sig_role signature of
          PreviousRole \<Rightarrow> (case previous of None \<Rightarrow> Ok (Some signature, nxt)
            | Some _ \<Rightarrow> invalid_proof (SignatureReason DuplicateSignatureRole))
        | NextRole \<Rightarrow> (case nxt of None \<Rightarrow> Ok (previous, Some signature)
            | Some _ \<Rightarrow> invalid_proof (SignatureReason DuplicateSignatureRole))
        | RootRole \<Rightarrow> invalid_proof (SignatureReason RootSignatureInTransition)))"

record PersonaTransitionProofPreflight =
  tpf_payload :: bytes
  tpf_statement :: PersonaTransitionStatement
  tpf_previous :: ContinuitySignature
  tpf_next :: ContinuitySignature
  tpf_previous_public_key :: string
  tpf_next_public_key :: string

definition preflight_persona_transition_proof ::
  "'z continuity_ext_scheme \<Rightarrow> PersonaTransitionProof \<Rightarrow> PersonaTransitionProofPreflight res" where
  "preflight_persona_transition_proof E proof =
     and_then (require_proof_schema (tp_schema proof) PERSONA_TRANSITION_PROOF_SCHEMA) (\<lambda>_.
     if length (tp_signatures proof) \<noteq> 2
     then invalid_proof (SignatureReason TransitionNeedsTwoSignatures)
     else and_then (decode_continuity_payload E (tp_payload proof)) (\<lambda>payload.
     and_then (map_err (\<lambda>r. InvalidContinuityStatement (StatementJson r))
       (parse_bounded_json (transition_from_json E) payload MAX_CONTINUITY_PAYLOAD_BYTES PersonaTransitionStatementDoc)) (\<lambda>statement.
     and_then (canonical_persona_transition_statement_bytes E statement) (\<lambda>canonical.
     if canonical \<noteq> payload then Err NonCanonicalContinuityStatement
     else and_then (try_fold assign_transition_role (None, None) (tp_signatures proof)) (\<lambda>(previous, nxt).
     and_then (ok_or (InvalidContinuityProof (SignatureReason MissingPreviousSignature)) previous) (\<lambda>previous.
     and_then (ok_or (InvalidContinuityProof (SignatureReason MissingNextSignature)) nxt) (\<lambda>nxt.
     and_then (validate_signature E previous PreviousRole PERSONA_TRANSITION_NAMESPACE) (\<lambda>previous_public_key.
     and_then (validate_signature E nxt NextRole PERSONA_TRANSITION_NAMESPACE) (\<lambda>next_public_key.
     and_then (require_fingerprint E previous_public_key (ts_previous_key_fingerprint statement)) (\<lambda>_.
     and_then (require_fingerprint E next_public_key (ts_next_key_fingerprint statement)) (\<lambda>_.
     Ok \<lparr>tpf_payload = payload, tpf_statement = statement, tpf_previous = previous, tpf_next = nxt,
         tpf_previous_public_key = previous_public_key, tpf_next_public_key = next_public_key\<rparr>)))))))))))"

definition validate_persona_transition_proof_structure ::
  "'z continuity_ext_scheme \<Rightarrow> PersonaTransitionProof \<Rightarrow> unit res" where
  "validate_persona_transition_proof_structure E proof =
     and_then (preflight_persona_transition_proof E proof) (\<lambda>_. Ok ())"

definition parse_persona_transition_proof_bytes ::
  "'z continuity_ext_scheme \<Rightarrow> bytes \<Rightarrow> PersonaTransitionProof res" where
  "parse_persona_transition_proof_bytes E bs =
     and_then (map_err (\<lambda>r. InvalidContinuityProof (ProofJson r))
       (parse_bounded_json (transition_proof_from_json E) bs MAX_PROOF_BYTES PersonaTransitionProofDoc)) (\<lambda>proof.
     and_then (preflight_persona_transition_proof E proof) (\<lambda>_. Ok proof))"

definition create_routine_transition_proof ::
  "'z continuity_ext_scheme \<Rightarrow> PersonaTransitionStatement \<Rightarrow> string \<Rightarrow> string \<Rightarrow> string \<Rightarrow> string \<Rightarrow>
     PersonaTransitionProof res" where
  "create_routine_transition_proof E statement previous_private_key_path previous_public_key
     next_private_key_path next_public_key =
     and_then (canonical_persona_transition_statement_bytes E statement) (\<lambda>payload.
     and_then (normalize_public_key E previous_public_key) (\<lambda>previous_public_key.
     and_then (normalize_public_key E next_public_key) (\<lambda>next_public_key.
     and_then (require_fingerprint E previous_public_key (ts_previous_key_fingerprint statement)) (\<lambda>_.
     and_then (require_fingerprint E next_public_key (ts_next_key_fingerprint statement)) (\<lambda>_.
     and_then (sshsig_sign E payload previous_private_key_path PERSONA_TRANSITION_NAMESPACE) (\<lambda>previous_value.
     and_then (sshsig_verify E payload previous_value previous_public_key PERSONA_TRANSITION_NAMESPACE) (\<lambda>_.
     and_then (sshsig_sign E payload next_private_key_path PERSONA_TRANSITION_NAMESPACE) (\<lambda>next_value.
     and_then (sshsig_verify E payload next_value next_public_key PERSONA_TRANSITION_NAMESPACE) (\<lambda>_.
     Ok \<lparr>tp_schema = PERSONA_TRANSITION_PROOF_SCHEMA, tp_payload = base64url_encode E payload,
         tp_signatures = [new_signature PreviousRole previous_value previous_public_key,
                          new_signature NextRole next_value next_public_key]\<rparr>)))))))))"

definition verify_persona_transition_proof_with_receipt ::
  "'z continuity_ext_scheme \<Rightarrow> PersonaTransitionProof \<Rightarrow> VerifiedPersonaTransitionReceipt res" where
  "verify_persona_transition_proof_with_receipt E proof =
     and_then (preflight_persona_transition_proof E proof) (\<lambda>p.
     and_then (sshsig_verify E (tpf_payload p) (sig_value (tpf_previous p)) (tpf_previous_public_key p)
       PERSONA_TRANSITION_NAMESPACE) (\<lambda>_.
     and_then (sshsig_verify E (tpf_payload p) (sig_value (tpf_next p)) (tpf_next_public_key p)
       PERSONA_TRANSITION_NAMESPACE) (\<lambda>_.
     Ok \<lparr>receipt_transition = \<lparr>vt_statement = tpf_statement p,
           vt_transition_statement_sha256 = sha256_hex E (tpf_payload p),
           vt_previous_public_key = tpf_previous_public_key p,
           vt_next_public_key = tpf_next_public_key p\<rparr>\<rparr>)))"

definition verify_persona_transition_proof ::
  "'z continuity_ext_scheme \<Rightarrow> PersonaTransitionProof \<Rightarrow> VerifiedPersonaTransition res" where
  "verify_persona_transition_proof E proof =
     and_then (verify_persona_transition_proof_with_receipt E proof) (\<lambda>receipt. Ok (receipt_transition receipt))"

section \<open>Chains\<close>

definition validate_verified_transition_at_head ::
  "VerifiedPersonaRoot \<Rightarrow> VerifiedPersonaTransition \<Rightarrow> u32 \<Rightarrow> string option \<Rightarrow> string \<Rightarrow> i64 \<Rightarrow> unit res" where
  "validate_verified_transition_at_head root verified expected_sequence expected_previous_transition_sha256
     expected_previous_key_fingerprint previous_issued_at =
     (let statement = vt_statement verified in
      if ts_sequence statement \<noteq> expected_sequence
      then chain_mismatch (LinkReason (SequenceOutOfOrder (ts_sequence statement) expected_sequence))
      else if ts_persona_anchor statement \<noteq> rs_persona_anchor (vr_statement root)
        \<or> ts_persona statement \<noteq> rs_persona (vr_statement root)
        \<or> ts_root_statement_sha256 statement \<noteq> vr_root_statement_sha256 root
      then chain_mismatch (LinkReason BoundToDifferentRoot)
      else if ts_previous_transition_sha256 statement \<noteq> expected_previous_transition_sha256
      then chain_mismatch (LinkReason LinkMismatch)
      else if ts_previous_key_fingerprint statement \<noteq> expected_previous_key_fingerprint
      then chain_mismatch (LinkReason PreviousKeyNotCurrent)
      else if ts_issued_at statement < previous_issued_at
      then chain_mismatch (LinkReason IssuanceMovesBackward)
      else Ok ())"

text \<open>The variables of the chain loop.\<close>

record ChainLoop =
  cl_index :: nat
  cl_current_key_fingerprint :: string
  cl_previous_transition_sha256 :: "string option"
  cl_previous_issued_at :: i64
  cl_verified_transitions :: "VerifiedPersonaTransition list"

definition chain_loop_start :: "VerifiedPersonaRoot \<Rightarrow> ChainLoop" where
  "chain_loop_start root =
     \<lparr>cl_index = 0, cl_current_key_fingerprint = rs_initial_key_fingerprint (vr_statement root),
      cl_previous_transition_sha256 = None, cl_previous_issued_at = rs_issued_at (vr_statement root),
      cl_verified_transitions = []\<rparr>"

definition chain_loop_step ::
  "'z continuity_ext_scheme \<Rightarrow> VerifiedPersonaRoot \<Rightarrow> ChainLoop \<Rightarrow> PersonaTransitionProof \<Rightarrow> ChainLoop res" where
  "chain_loop_step E root s proof =
     and_then (verify_persona_transition_proof E proof) (\<lambda>verified.
     and_then (validate_verified_transition_at_head root verified (of_nat (cl_index s + 1))
       (cl_previous_transition_sha256 s) (cl_current_key_fingerprint s) (cl_previous_issued_at s)) (\<lambda>_.
     Ok \<lparr>cl_index = cl_index s + 1,
         cl_current_key_fingerprint = ts_next_key_fingerprint (vt_statement verified),
         cl_previous_transition_sha256 = Some (vt_transition_statement_sha256 verified),
         cl_previous_issued_at = ts_issued_at (vt_statement verified),
         cl_verified_transitions = cl_verified_transitions s @ [verified]\<rparr>))"

definition chain_not_established :: "string list" where
  "chain_not_established =
     [''when_or_how_the_root_digest_was_pinned'', ''whether_a_newer_or_competing_transition_was_withheld'',
      ''legal_identity'', ''current_key_authorization_or_non_revocation'', ''recovery_authority'',
      ''artifact_or_software_safety'']"

definition chain_report :: "VerifiedPersonaRoot \<Rightarrow> nat \<Rightarrow> ChainLoop \<Rightarrow> ContinuityChainReport" where
  "chain_report root count s =
     \<lparr>cr_root_signature = Verified, cr_expected_root_digest = Verified, cr_chain = Verified,
      cr_persona = rs_persona (vr_statement root), cr_persona_anchor = rs_persona_anchor (vr_statement root),
      cr_root_statement_sha256 = vr_root_statement_sha256 root,
      cr_initial_key_fingerprint = rs_initial_key_fingerprint (vr_statement root),
      cr_chain_tip_key_fingerprint = cl_current_key_fingerprint s,
      cr_transition_count = of_nat count, cr_last_issued_at = cl_previous_issued_at s,
      cr_last_transition_sha256 = cl_previous_transition_sha256 s,
      cr_expected_head_checkpoint = None, cr_not_established = chain_not_established\<rparr>"

definition verify_persona_continuity_chain_with_verified_sequence ::
  "'z continuity_ext_scheme \<Rightarrow> PersonaRootProof \<Rightarrow> PersonaTransitionProof list \<Rightarrow> string \<Rightarrow>
     VerifiedPersonaContinuityChain res" where
  "verify_persona_continuity_chain_with_verified_sequence E root_proof transitions expected_root_statement_sha256 =
     and_then (validate_sha256 ExpectedRootDigest expected_root_statement_sha256) (\<lambda>_.
     if MAX_CONTINUITY_TRANSITIONS < length transitions then chain_mismatch (LinkReason TooManyTransitions)
     else and_then (verify_persona_root_proof E root_proof) (\<lambda>root.
     if vr_root_statement_sha256 root \<noteq> expected_root_statement_sha256
     then chain_mismatch (LinkReason RootDigestUnexpected)
     else and_then (try_fold (chain_loop_step E root) (chain_loop_start root) transitions) (\<lambda>s.
     Ok \<lparr>vc_root = root, vc_transitions = cl_verified_transitions s,
         vc_report = chain_report root (length transitions) s\<rparr>)))"

definition verify_persona_continuity_chain ::
  "'z continuity_ext_scheme \<Rightarrow> PersonaRootProof \<Rightarrow> PersonaTransitionProof list \<Rightarrow> string \<Rightarrow> ContinuityChainReport res" where
  "verify_persona_continuity_chain E root_proof transitions expected_root_statement_sha256 =
     and_then (verify_persona_continuity_chain_with_verified_sequence E root_proof transitions
       expected_root_statement_sha256) (\<lambda>chain. Ok (vc_report chain))"

definition require_persona_continuity_chain_extension_capacity ::
  "VerifiedPersonaContinuityChain \<Rightarrow> unit res" where
  "require_persona_continuity_chain_extension_capacity chain =
     (if MAX_CONTINUITY_TRANSITIONS \<le> length (vc_transitions chain)
      then chain_mismatch (LinkReason TooManyTransitions) else Ok ())"

definition validate_verified_persona_continuity_chain_extension ::
  "VerifiedPersonaContinuityChain \<Rightarrow> VerifiedPersonaTransitionReceipt \<Rightarrow> unit res" where
  "validate_verified_persona_continuity_chain_extension chain receipt =
     and_then (require_persona_continuity_chain_extension_capacity chain) (\<lambda>_.
     and_then (ok_or (ContinuityChainMismatch (LinkReason SequenceOverflow))
       (checked_add (cr_transition_count (vc_report chain)) 1)) (\<lambda>expected_sequence.
     validate_verified_transition_at_head (vc_root chain) (receipt_transition receipt) expected_sequence
       (cr_last_transition_sha256 (vc_report chain)) (cr_chain_tip_key_fingerprint (vc_report chain))
       (cr_last_issued_at (vc_report chain))))"

definition verify_persona_continuity_chain_extension ::
  "'z continuity_ext_scheme \<Rightarrow> VerifiedPersonaContinuityChain \<Rightarrow> PersonaTransitionProof \<Rightarrow>
     VerifiedPersonaTransition res" where
  "verify_persona_continuity_chain_extension E chain proof =
     and_then (require_persona_continuity_chain_extension_capacity chain) (\<lambda>_.
     and_then (verify_persona_transition_proof_with_receipt E proof) (\<lambda>receipt.
     and_then (validate_verified_persona_continuity_chain_extension chain receipt) (\<lambda>_.
     Ok (receipt_transition receipt))))"

definition match_continuity_head_checkpoint ::
  "u32 \<Rightarrow> string option \<Rightarrow> PersonaContinuityCheckpoint \<Rightarrow> unit res" where
  "match_continuity_head_checkpoint actual_sequence actual_transition_sha256 expected =
     (if of_nat MAX_CONTINUITY_TRANSITIONS < pc_transition_sequence expected
      then chain_mismatch (HeadReason HeadSequenceTooLarge)
      else and_then (case pc_transition_sha256 expected of
          None \<Rightarrow> if pc_transition_sequence expected = 0 then Ok () else chain_mismatch (HeadReason HeadNeedsDigest)
        | Some digest \<Rightarrow> if pc_transition_sequence expected = 0
            then chain_mismatch (HeadReason HeadZeroNamesDigest)
            else validate_sha256 ExpectedHeadDigest digest) (\<lambda>_.
      if actual_sequence \<noteq> pc_transition_sequence expected
         \<or> actual_transition_sha256 \<noteq> pc_transition_sha256 expected
      then chain_mismatch (HeadReason HeadMismatch) else Ok ()))"

definition verify_persona_continuity_chain_at_checkpoint ::
  "'z continuity_ext_scheme \<Rightarrow> PersonaRootProof \<Rightarrow> PersonaTransitionProof list \<Rightarrow> string \<Rightarrow>
     PersonaContinuityCheckpoint \<Rightarrow> ContinuityChainReport res" where
  "verify_persona_continuity_chain_at_checkpoint E root_proof transitions expected_root_statement_sha256 expected_head =
     and_then (verify_persona_continuity_chain E root_proof transitions expected_root_statement_sha256) (\<lambda>report.
     and_then (match_continuity_head_checkpoint (cr_transition_count report) (cr_last_transition_sha256 report)
       expected_head) (\<lambda>_.
     Ok (report\<lparr>cr_expected_head_checkpoint := Some Verified,
         cr_not_established :=
           filter (\<lambda>claim. claim \<noteq> ''whether_a_newer_or_competing_transition_was_withheld'') (cr_not_established report)
           @ [''when_or_how_the_head_checkpoint_was_pinned'',
              ''whether_a_competing_transition_was_also_authorized_or_withheld'',
              ''whether_a_newer_transition_exists_after_the_expected_checkpoint'']\<rparr>)))"

section \<open>What a verified proof establishes\<close>

lemma validate_canonical_persona_Ok: "validate_canonical_persona p = Ok q \<Longrightarrow> q = p"
  by (simp add: validate_canonical_persona_def)

lemma validate_sha256_Ok_iff [simp]: "validate_sha256 f d = Ok () \<longleftrightarrow> lowercase_hex_64 d"
  by (simp add: validate_sha256_def)

lemma validate_payload_bound_Ok_iff [simp]:
  "validate_payload_bound p = Ok () \<longleftrightarrow> length p \<le> MAX_CONTINUITY_PAYLOAD_BYTES"
  by (simp add: validate_payload_bound_def)

lemma require_proof_schema_Ok_iff [simp]: "require_proof_schema a e = Ok () \<longleftrightarrow> a = e"
  by (simp add: require_proof_schema_def)

lemma require_fingerprint_Ok_iff [simp]:
  "require_fingerprint E key f = Ok () \<longleftrightarrow> public_key_fingerprint E key = Ok f"
  by (auto simp: require_fingerprint_def)

lemma parse_bounded_json_Ok_iff [simp]:
  "parse_bounded_json parse bs m d = Ok x \<longleftrightarrow> length bs \<le> m \<and> parse bs = Ok x"
  by (auto simp: parse_bounded_json_def)

lemma decode_continuity_payload_Ok_iff:
  "decode_continuity_payload E encoded = Ok payload \<longleftrightarrow>
     length encoded \<le> MAX_PROOF_BYTES \<and> base64url_decode E encoded = Ok payload \<and>
     length payload \<le> MAX_CONTINUITY_PAYLOAD_BYTES \<and> base64url_encode E payload = encoded"
  by (auto simp: decode_continuity_payload_def decode_payload_def not_less)

lemma validate_signature_Ok_iff:
  "validate_signature E s role ns = Ok key \<longleftrightarrow>
     sig_role s = role \<and> sig_format s = SIGNATURE_FORMAT \<and> sig_namespace s = ns \<and>
     sig_public_key_format s = PUBLIC_KEY_FORMAT \<and> sig_value s \<noteq> [] \<and>
     length (sig_value s) \<le> MAX_CONTINUITY_SIGNATURE_BYTES \<and>
     normalize_public_key E (sig_public_key s) = Ok key"
  by (auto simp: validate_signature_def not_less)

lemma canonical_root_Ok_iff:
  "canonical_persona_root_statement_bytes E s = Ok bs \<longleftrightarrow>
     validate_persona_root_statement E s = Ok () \<and> root_to_jcs E s = Ok bs \<and>
     length bs \<le> MAX_CONTINUITY_PAYLOAD_BYTES"
  by (auto simp: canonical_persona_root_statement_bytes_def)

lemma canonical_transition_Ok_iff:
  "canonical_persona_transition_statement_bytes E s = Ok bs \<longleftrightarrow>
     validate_persona_transition_statement E s = Ok () \<and> transition_to_jcs E s = Ok bs \<and>
     length bs \<le> MAX_CONTINUITY_PAYLOAD_BYTES"
  by (auto simp: canonical_persona_transition_statement_bytes_def)

lemma verify_root_Ok_iff:
  "verify_persona_root_proof E proof = Ok root \<longleftrightarrow>
     (\<exists>payload. rp_schema proof = PERSONA_ROOT_PROOF_SCHEMA \<and>
        decode_continuity_payload E (rp_payload proof) = Ok payload \<and>
        root_from_json E payload = Ok (vr_statement root) \<and>
        canonical_persona_root_statement_bytes E (vr_statement root) = Ok payload \<and>
        validate_signature E (rp_signature proof) RootRole PERSONA_ROOT_NAMESPACE = Ok (vr_initial_public_key root) \<and>
        public_key_fingerprint E (vr_initial_public_key root) = Ok (rs_initial_key_fingerprint (vr_statement root)) \<and>
        sshsig_verify E payload (sig_value (rp_signature proof)) (vr_initial_public_key root)
          PERSONA_ROOT_NAMESPACE = Ok () \<and>
        vr_root_statement_sha256 root = sha256_hex E payload)"
  by (cases root)
    (auto simp: verify_persona_root_proof_def preflight_persona_root_proof_def decode_continuity_payload_Ok_iff)

text \<open>The two signatures of a routine transition, whatever their order in the array.\<close>

lemma assign_roles_Ok_iff:
  assumes "length ss = 2"
  shows "try_fold assign_transition_role (None, None) ss = Ok (Some p, Some n) \<longleftrightarrow>
    (ss = [p, n] \<or> ss = [n, p]) \<and> sig_role p = PreviousRole \<and> sig_role n = NextRole"
proof -
  obtain a b where "ss = [a, b]" using assms by (metis length_0_conv length_Suc_conv numeral_2_eq_2)
  then show ?thesis
    by (auto simp: assign_transition_role_def split: ContinuitySignatureRole.splits)
qed

lemma assign_roles_rev:
  assumes "length ss = 2"
  shows "try_fold assign_transition_role (None, None) (rev ss) = try_fold assign_transition_role (None, None) ss"
proof -
  obtain a b where "ss = [a, b]" using assms by (metis length_0_conv length_Suc_conv numeral_2_eq_2)
  then show ?thesis
    by (cases "sig_role a"; cases "sig_role b") (simp_all add: assign_transition_role_def)
qed

lemma preflight_transition_rev:
  "preflight_persona_transition_proof E (proof\<lparr>tp_signatures := rev (tp_signatures proof)\<rparr>)
     = preflight_persona_transition_proof E proof"
  by (cases "length (tp_signatures proof) = 2")
    (simp_all add: preflight_persona_transition_proof_def assign_roles_rev cong: if_cong)

definition transition_signed ::
  "'z continuity_ext_scheme \<Rightarrow> PersonaTransitionProof \<Rightarrow> VerifiedPersonaTransition \<Rightarrow> bytes \<Rightarrow> bool" where
  "transition_signed E proof v payload \<longleftrightarrow>
     (\<exists>p n. (tp_signatures proof = [p, n] \<or> tp_signatures proof = [n, p]) \<and>
        validate_signature E p PreviousRole PERSONA_TRANSITION_NAMESPACE = Ok (vt_previous_public_key v) \<and>
        validate_signature E n NextRole PERSONA_TRANSITION_NAMESPACE = Ok (vt_next_public_key v) \<and>
        sshsig_verify E payload (sig_value p) (vt_previous_public_key v) PERSONA_TRANSITION_NAMESPACE = Ok () \<and>
        sshsig_verify E payload (sig_value n) (vt_next_public_key v) PERSONA_TRANSITION_NAMESPACE = Ok ())"

lemma two_of_three: "length ss = 2 \<and> (ss = [p, n] \<or> ss = [n, p]) \<longleftrightarrow> ss = [p, n] \<or> ss = [n, p]"
  by auto

lemma verify_transition_Ok_iff:
  "verify_persona_transition_proof E proof = Ok v \<longleftrightarrow>
     (\<exists>payload. tp_schema proof = PERSONA_TRANSITION_PROOF_SCHEMA \<and>
        decode_continuity_payload E (tp_payload proof) = Ok payload \<and>
        transition_from_json E payload = Ok (vt_statement v) \<and>
        canonical_persona_transition_statement_bytes E (vt_statement v) = Ok payload \<and>
        public_key_fingerprint E (vt_previous_public_key v) = Ok (ts_previous_key_fingerprint (vt_statement v)) \<and>
        public_key_fingerprint E (vt_next_public_key v) = Ok (ts_next_key_fingerprint (vt_statement v)) \<and>
        transition_signed E proof v payload \<and>
        vt_transition_statement_sha256 v = sha256_hex E payload)"
  (is "?L \<longleftrightarrow> ?R")
proof
  assume ?L
  then obtain payload p n where
    "tp_schema proof = PERSONA_TRANSITION_PROOF_SCHEMA" "length (tp_signatures proof) = 2"
    "decode_continuity_payload E (tp_payload proof) = Ok payload"
    "try_fold assign_transition_role (None, None) (tp_signatures proof) = Ok (Some p, Some n)"
    "transition_from_json E payload = Ok (vt_statement v)"
    "canonical_persona_transition_statement_bytes E (vt_statement v) = Ok payload"
    "validate_signature E p PreviousRole PERSONA_TRANSITION_NAMESPACE = Ok (vt_previous_public_key v)"
    "validate_signature E n NextRole PERSONA_TRANSITION_NAMESPACE = Ok (vt_next_public_key v)"
    "public_key_fingerprint E (vt_previous_public_key v) = Ok (ts_previous_key_fingerprint (vt_statement v))"
    "public_key_fingerprint E (vt_next_public_key v) = Ok (ts_next_key_fingerprint (vt_statement v))"
    "sshsig_verify E payload (sig_value p) (vt_previous_public_key v) PERSONA_TRANSITION_NAMESPACE = Ok ()"
    "sshsig_verify E payload (sig_value n) (vt_next_public_key v) PERSONA_TRANSITION_NAMESPACE = Ok ()"
    "vt_transition_statement_sha256 v = sha256_hex E payload"
    by (auto simp: verify_persona_transition_proof_def verify_persona_transition_proof_with_receipt_def
        preflight_persona_transition_proof_def)
  then show ?R by (auto simp: transition_signed_def assign_roles_Ok_iff)
next
  assume ?R
  then obtain payload p n where facts:
    "tp_schema proof = PERSONA_TRANSITION_PROOF_SCHEMA" "tp_signatures proof = [p, n] \<or> tp_signatures proof = [n, p]"
    "decode_continuity_payload E (tp_payload proof) = Ok payload"
    "transition_from_json E payload = Ok (vt_statement v)"
    "canonical_persona_transition_statement_bytes E (vt_statement v) = Ok payload"
    "validate_signature E p PreviousRole PERSONA_TRANSITION_NAMESPACE = Ok (vt_previous_public_key v)"
    "validate_signature E n NextRole PERSONA_TRANSITION_NAMESPACE = Ok (vt_next_public_key v)"
    "public_key_fingerprint E (vt_previous_public_key v) = Ok (ts_previous_key_fingerprint (vt_statement v))"
    "public_key_fingerprint E (vt_next_public_key v) = Ok (ts_next_key_fingerprint (vt_statement v))"
    "sshsig_verify E payload (sig_value p) (vt_previous_public_key v) PERSONA_TRANSITION_NAMESPACE = Ok ()"
    "sshsig_verify E payload (sig_value n) (vt_next_public_key v) PERSONA_TRANSITION_NAMESPACE = Ok ()"
    "vt_transition_statement_sha256 v = sha256_hex E payload"
    unfolding transition_signed_def by blast
  then have len: "length (tp_signatures proof) = 2" by auto
  have "sig_role p = PreviousRole" "sig_role n = NextRole" using facts by (auto simp: validate_signature_Ok_iff)
  with facts assign_roles_Ok_iff [OF len, of p n]
  have "try_fold assign_transition_role (None, None) (tp_signatures proof) = Ok (Some p, Some n)" by blast
  with facts len show ?L
    by (cases v) (simp add: verify_persona_transition_proof_def verify_persona_transition_proof_with_receipt_def
        preflight_persona_transition_proof_def decode_continuity_payload_Ok_iff)
qed

lemma valid_transition_facts:
  assumes "validate_persona_transition_statement E s = Ok ()"
  shows "ts_previous_key_fingerprint s \<noteq> ts_next_key_fingerprint s" and "ts_sequence s \<noteq> 0"
    and "ts_previous_transition_sha256 s = None \<longleftrightarrow> ts_sequence s = 1"
  using assms by (auto simp: validate_persona_transition_statement_def split: option.splits if_splits)

lemma verified_transition_valid:
  "verify_persona_transition_proof E proof = Ok v \<Longrightarrow> validate_persona_transition_statement E (vt_statement v) = Ok ()"
  by (auto simp: verify_transition_Ok_iff canonical_transition_Ok_iff)

section \<open>Chains as histories\<close>

definition routine_event :: "VerifiedPersonaTransition \<Rightarrow> event" where
  "routine_event v =
     \<lparr>ev_change = Rotated, ev_sequence = unat (ts_sequence (vt_statement v)),
      ev_link = ts_previous_transition_sha256 (vt_statement v),
      ev_from = ts_previous_key_fingerprint (vt_statement v),
      ev_to = Online (ts_next_key_fingerprint (vt_statement v)),
      ev_time = ts_issued_at (vt_statement v), ev_digest = vt_transition_statement_sha256 v\<rparr>"

definition bound_to_root :: "VerifiedPersonaRoot \<Rightarrow> VerifiedPersonaTransition \<Rightarrow> bool" where
  "bound_to_root root v \<longleftrightarrow>
     ts_persona_anchor (vt_statement v) = rs_persona_anchor (vr_statement root) \<and>
     ts_persona (vt_statement v) = rs_persona (vr_statement root) \<and>
     ts_root_statement_sha256 (vt_statement v) = vr_root_statement_sha256 root"

definition root_head :: "VerifiedPersonaRoot \<Rightarrow> head" where
  "root_head root = genesis (rs_initial_key_fingerprint (vr_statement root)) (rs_issued_at (vr_statement root))"

definition loop_head :: "ChainLoop \<Rightarrow> head" where
  "loop_head s =
     \<lparr>head_sequence = cl_index s, head_link = cl_previous_transition_sha256 s,
      head_authority = Online (cl_current_key_fingerprint s), head_time = cl_previous_issued_at s\<rparr>"

definition loop_bounded :: "nat \<Rightarrow> ChainLoop \<Rightarrow> bool" where
  "loop_bounded n s \<longleftrightarrow> cl_index s + n \<le> MAX_CONTINUITY_TRANSITIONS"

lemma loop_head_start [simp]: "loop_head (chain_loop_start root) = root_head root"
  by (simp add: loop_head_def chain_loop_start_def root_head_def genesis_def)

lemma u32_eq_of_nat_iff: "n < 2 ^ 32 \<Longrightarrow> w = of_nat n \<longleftrightarrow> unat w = n" for w :: u32
  by (auto simp: word_unat_eq_iff unat_of_nat)

lemma transition_at_head_Ok_iff:
  assumes "index + 1 \<le> MAX_CONTINUITY_TRANSITIONS"
    and "ts_previous_key_fingerprint (vt_statement v) \<noteq> ts_next_key_fingerprint (vt_statement v)"
  shows "validate_verified_transition_at_head root v (of_nat (index + 1)) link key time = Ok () \<longleftrightarrow>
    bound_to_root root v \<and>
    advances \<lparr>head_sequence = index, head_link = link, head_authority = Online key, head_time = time\<rparr>
      (routine_event v) (head_after (routine_event v))"
proof -
  have "ts_sequence (vt_statement v) = of_nat (index + 1) \<longleftrightarrow> unat (ts_sequence (vt_statement v)) = index + 1"
    using assms(1) by (intro u32_eq_of_nat_iff) (simp add: MAX_CONTINUITY_TRANSITIONS_def)
  with assms(2) show ?thesis
    by (auto simp: validate_verified_transition_at_head_def Let_def bound_to_root_def advances_iff
        routine_event_def ends_history_def)
qed

lemma chain_loop_step_Ok_iff:
  assumes "loop_bounded (Suc n) s"
  shows "chain_loop_step E root s proof = Ok s' \<longleftrightarrow>
    (\<exists>v. verify_persona_transition_proof E proof = Ok v \<and> bound_to_root root v \<and>
       advances (loop_head s) (routine_event v) (loop_head s') \<and>
       cl_index s' = cl_index s + 1 \<and>
       cl_verified_transitions s' = cl_verified_transitions s @ [v])"
proof -
  have bound: "cl_index s + 1 \<le> MAX_CONTINUITY_TRANSITIONS" using assms by (simp add: loop_bounded_def)
  have keys: "ts_previous_key_fingerprint (vt_statement v) \<noteq> ts_next_key_fingerprint (vt_statement v)"
    if "verify_persona_transition_proof E proof = Ok v" for v
    using valid_transition_facts(1) [OF verified_transition_valid [OF that]] .
  have "chain_loop_step E root s proof = Ok s' \<longleftrightarrow>
    (\<exists>v. verify_persona_transition_proof E proof = Ok v \<and>
      (bound_to_root root v \<and> advances (loop_head s) (routine_event v) (head_after (routine_event v))) \<and>
      s' = \<lparr>cl_index = cl_index s + 1,
         cl_current_key_fingerprint = ts_next_key_fingerprint (vt_statement v),
         cl_previous_transition_sha256 = Some (vt_transition_statement_sha256 v),
         cl_previous_issued_at = ts_issued_at (vt_statement v),
         cl_verified_transitions = cl_verified_transitions s @ [v]\<rparr>)"
    using transition_at_head_Ok_iff [OF bound keys]
    by (simp add: chain_loop_step_def loop_head_def) blast
  also have "\<dots> \<longleftrightarrow> (\<exists>v. verify_persona_transition_proof E proof = Ok v \<and> bound_to_root root v \<and>
       advances (loop_head s) (routine_event v) (loop_head s') \<and>
       cl_index s' = cl_index s + 1 \<and>
       cl_verified_transitions s' = cl_verified_transitions s @ [v])"
    by (cases s') (auto simp: advances_iff loop_head_def head_after_def routine_event_def)
  finally show ?thesis .
qed

interpretation routine: chain_refinement "chain_loop_step E root" loop_head
  "\<lambda>s. map routine_event (cl_verified_transitions s)" "\<lambda>ts. loop_bounded (length ts)" for E root
proof
  fix x s s' and xs :: "PersonaTransitionProof list"
  assume "loop_bounded (length (x # xs)) s" and step: "chain_loop_step E root s x = Ok s'"
  then have bound: "loop_bounded (Suc (length xs)) s" by simp
  from step show "loop_bounded (length xs) s' \<and> (\<exists>e. map routine_event (cl_verified_transitions s')
      = map routine_event (cl_verified_transitions s) @ [e] \<and> advances (loop_head s) e (loop_head s'))"
    unfolding chain_loop_step_Ok_iff [OF bound] using bound by (auto simp: loop_bounded_def)
qed

definition verified_so_far ::
  "'z continuity_ext_scheme \<Rightarrow> VerifiedPersonaRoot \<Rightarrow> PersonaTransitionProof list \<Rightarrow> ChainLoop \<Rightarrow> bool" where
  "verified_so_far E root seen s \<longleftrightarrow>
     list_all2 (\<lambda>p v. verify_persona_transition_proof E p = Ok v \<and> bound_to_root root v) seen (cl_verified_transitions s) \<and>
     cl_index s = length seen"

interpretation routine_inv: loop_invariant "chain_loop_step E root" "verified_so_far E root" for E root
proof
  fix seen s x s'
  assume "verified_so_far E root seen s" and "chain_loop_step E root s x = Ok s'"
  then show "verified_so_far E root (seen @ [x]) s'"
    by (auto simp: verified_so_far_def chain_loop_step_def validate_verified_transition_at_head_def Let_def
        bound_to_root_def list_all2_appendI)
qed

text \<open>The head that a verified chain reports.\<close>

definition chain_head :: "VerifiedPersonaContinuityChain \<Rightarrow> head" where
  "chain_head c =
     \<lparr>head_sequence = unat (cr_transition_count (vc_report c)),
      head_link = cr_last_transition_sha256 (vc_report c),
      head_authority = Online (cr_chain_tip_key_fingerprint (vc_report c)),
      head_time = cr_last_issued_at (vc_report c)\<rparr>"

text \<open>What it means for proofs to be a routine history of a root, and for the chain to report it.\<close>

definition routine_history ::
  "'z continuity_ext_scheme \<Rightarrow> VerifiedPersonaRoot \<Rightarrow> PersonaTransitionProof list \<Rightarrow>
     VerifiedPersonaTransition list \<Rightarrow> head \<Rightarrow> bool" where
  "routine_history E root proofs vs h \<longleftrightarrow>
     list_all2 (\<lambda>p v. verify_persona_transition_proof E p = Ok v \<and> bound_to_root root v) proofs vs \<and>
     history (root_head root) (map routine_event vs) h"

lemma bounded_start: "length ts \<le> MAX_CONTINUITY_TRANSITIONS \<Longrightarrow> loop_bounded (length ts) (chain_loop_start root)"
  by (simp add: loop_bounded_def chain_loop_start_def)

lemma chain_loop_sound:
  assumes "length ts \<le> MAX_CONTINUITY_TRANSITIONS"
    and "try_fold (chain_loop_step E root) (chain_loop_start root) ts = Ok s"
  shows "routine_history E root ts (cl_verified_transitions s) (loop_head s)" and "cl_index s = length ts"
proof -
  have "verified_so_far E root [] (chain_loop_start root)" by (simp add: verified_so_far_def chain_loop_start_def)
  from routine_inv.loop_keeps_from_start [OF this assms(2)] have "verified_so_far E root ts s" .
  moreover have "map routine_event (cl_verified_transitions (chain_loop_start root)) = []"
    by (simp add: chain_loop_start_def)
  with routine.loop_history [OF bounded_start [OF assms(1)] assms(2)]
  have "history (root_head root) (map routine_event (cl_verified_transitions s)) (loop_head s)" by auto
  ultimately show "routine_history E root ts (cl_verified_transitions s) (loop_head s)" and "cl_index s = length ts"
    by (auto simp: routine_history_def verified_so_far_def)
qed

lemma chain_loop_complete:
  assumes "length ts \<le> MAX_CONTINUITY_TRANSITIONS" and "routine_history E root ts vs h"
  shows "\<exists>s. try_fold (chain_loop_step E root) (chain_loop_start root) ts = Ok s \<and>
    cl_verified_transitions s = vs \<and> loop_head s = h"
  using assms
proof (induction ts arbitrary: vs h rule: rev_induct)
  case Nil
  then show ?case by (auto simp: routine_history_def chain_loop_start_def loop_head_def root_head_def genesis_def)
next
  case (snoc t ts)
  from snoc.prems(2) obtain ws v g where vs: "vs = ws @ [v]"
    and prev: "routine_history E root ts ws g" and t: "verify_persona_transition_proof E t = Ok v" "bound_to_root root v"
    and adv: "advances g (routine_event v) h"
    unfolding routine_history_def list_all2_append1 list_all2_Cons1 by auto
  from snoc.IH [OF _ prev] snoc.prems(1) obtain s where
    s: "try_fold (chain_loop_step E root) (chain_loop_start root) ts = Ok s"
    "cl_verified_transitions s = ws" "loop_head s = g" by auto
  have "cl_index s = length ts" using chain_loop_sound(2) [OF _ s(1)] snoc.prems(1) by simp
  then have bound: "loop_bounded (Suc 0) s" using snoc.prems(1) by (simp add: loop_bounded_def)
  let ?s = "\<lparr>cl_index = cl_index s + 1, cl_current_key_fingerprint = ts_next_key_fingerprint (vt_statement v),
     cl_previous_transition_sha256 = Some (vt_transition_statement_sha256 v),
     cl_previous_issued_at = ts_issued_at (vt_statement v), cl_verified_transitions = ws @ [v]\<rparr>"
  have "loop_head ?s = h" using adv s(3)
    by (auto simp: advances_iff head_after_def routine_event_def loop_head_def)
  moreover from this have "chain_loop_step E root s t = Ok ?s"
    unfolding chain_loop_step_Ok_iff [OF bound] using s t adv by auto
  ultimately show ?case using s(1) vs by (auto simp: try_fold_snoc)
qed

lemma verify_chain_Ok_iff:
  "verify_persona_continuity_chain_with_verified_sequence E rp ts d = Ok c \<longleftrightarrow>
     lowercase_hex_64 d \<and> length ts \<le> MAX_CONTINUITY_TRANSITIONS \<and>
     verify_persona_root_proof E rp = Ok (vc_root c) \<and> vr_root_statement_sha256 (vc_root c) = d \<and>
     (\<exists>s. try_fold (chain_loop_step E (vc_root c)) (chain_loop_start (vc_root c)) ts = Ok s \<and>
       vc_transitions c = cl_verified_transitions s \<and> vc_report c = chain_report (vc_root c) (length ts) s)"
  by (cases c) (auto simp: verify_persona_continuity_chain_with_verified_sequence_def not_less)

lemma reported_head:
  assumes "length ts \<le> MAX_CONTINUITY_TRANSITIONS" "cl_index s = length ts"
    and "vc_report c = chain_report root (length ts) s"
  shows "chain_head c = loop_head s"
proof -
  have "unat (of_nat (length ts) :: u32) = length ts"
    using assms(1) by (simp add: unat_of_nat MAX_CONTINUITY_TRANSITIONS_def)
  with assms show ?thesis by (simp add: chain_head_def loop_head_def chain_report_def)
qed

lemma chain_refines_history:
  "(\<exists>c. verify_persona_continuity_chain_with_verified_sequence E rp ts d = Ok c \<and>
       vc_root c = root \<and> vc_transitions c = vs \<and> chain_head c = h) \<longleftrightarrow>
     lowercase_hex_64 d \<and> length ts \<le> MAX_CONTINUITY_TRANSITIONS \<and>
     verify_persona_root_proof E rp = Ok root \<and> vr_root_statement_sha256 root = d \<and>
     routine_history E root ts vs h" (is "?L \<longleftrightarrow> ?R")
proof
  assume ?L
  then show ?R using chain_loop_sound reported_head by (fastforce simp: verify_chain_Ok_iff)
next
  assume R: ?R
  with chain_loop_complete obtain s where
    s: "try_fold (chain_loop_step E root) (chain_loop_start root) ts = Ok s"
    "cl_verified_transitions s = vs" "loop_head s = h" by blast
  let ?c = "\<lparr>vc_root = root, vc_transitions = vs, vc_report = chain_report root (length ts) s\<rparr>"
  have "verify_persona_continuity_chain_with_verified_sequence E rp ts d = Ok ?c"
    using R s by (simp add: verify_chain_Ok_iff)
  moreover have "chain_head ?c = h" using R s reported_head [OF _ chain_loop_sound(2) [OF _ s(1)], of ?c root] by simp
  ultimately show ?L by (intro exI [of _ ?c]) simp
qed

lemma verified_chain_history:
  assumes "verify_persona_continuity_chain_with_verified_sequence E rp ts d = Ok c"
  shows "routine_history E (vc_root c) ts (vc_transitions c) (chain_head c)"
  using chain_refines_history [of E rp ts d "vc_root c" "vc_transitions c" "chain_head c"] assms by blast

section \<open>No fork below a checkpoint\<close>

interpretation routine_links: hash_chain vt_transition_statement_sha256
  "\<lambda>v. ts_previous_transition_sha256 (vt_statement v)" vt_statement
  by unfold_locales simp

text \<open>The payloads whose digests the chains compare.\<close>

definition transition_payloads :: "'z continuity_ext_scheme \<Rightarrow> PersonaTransitionProof list \<Rightarrow> bytes set" where
  "transition_payloads E ts = {payload. \<exists>p\<in>set ts. decode_continuity_payload E (tp_payload p) = Ok payload}"

lemma routine_event_simps [simp]:
  "ev_digest \<circ> routine_event = vt_transition_statement_sha256"
  "ev_link \<circ> routine_event = (\<lambda>v. ts_previous_transition_sha256 (vt_statement v))"
  by (auto simp: routine_event_def)

lemma routine_history_linked:
  assumes "routine_history E root ts vs h"
  shows "linked vt_transition_statement_sha256 (\<lambda>v. ts_previous_transition_sha256 (vt_statement v)) None vs"
    and "head_link h = last_digest vt_transition_statement_sha256 None vs"
  using history_linked [of "root_head root" "map routine_event vs" h] assms
  by (auto simp: routine_history_def linked_map root_head_def genesis_def)

lemma routine_history_payload:
  assumes "routine_history E root ts vs h" and "v \<in> set vs"
  shows "\<exists>payload\<in>transition_payloads E ts. transition_from_json E payload = Ok (vt_statement v) \<and>
    vt_transition_statement_sha256 v = sha256_hex E payload"
proof -
  obtain p where "p \<in> set ts" "verify_persona_transition_proof E p = Ok v"
    using assms unfolding routine_history_def list_all2_conv_all_nth in_set_conv_nth by metis
  then show ?thesis by (auto simp: verify_transition_Ok_iff transition_payloads_def)
qed

lemma routine_no_fork:
  assumes "routine_history E root ts vs h" and "routine_history E root' ts' vs' h'"
    and "head_link h = head_link h'"
    and inj: "inj_on (sha256_hex E) (transition_payloads E ts \<union> transition_payloads E ts')"
  shows "map vt_statement vs = map vt_statement vs'"
proof (rule routine_links.no_fork)
  show "last_digest vt_transition_statement_sha256 None vs = last_digest vt_transition_statement_sha256 None vs'"
    using assms(3) routine_history_linked(2) [OF assms(1)] routine_history_linked(2) [OF assms(2)] by simp
  fix v v' assume "v \<in> set vs" "v' \<in> set vs'"
    and eq: "vt_transition_statement_sha256 v = vt_transition_statement_sha256 v'"
  with routine_history_payload [OF assms(1), of v] routine_history_payload [OF assms(2), of v'] obtain p p' where
    "p \<in> transition_payloads E ts" "transition_from_json E p = Ok (vt_statement v)" "sha256_hex E p = sha256_hex E p'"
    "p' \<in> transition_payloads E ts'" "transition_from_json E p' = Ok (vt_statement v')" by metis
  moreover from this have "p = p'" using inj by (auto dest: inj_onD)
  ultimately show "vt_statement v = vt_statement v'" by simp
qed (use routine_history_linked(1) assms in blast)+

lemma checkpoint_Ok:
  assumes "verify_persona_continuity_chain_at_checkpoint E rp ts d cp = Ok r"
  shows "\<exists>c. verify_persona_continuity_chain_with_verified_sequence E rp ts d = Ok c \<and>
    cr_transition_count (vc_report c) = pc_transition_sequence cp \<and>
    cr_last_transition_sha256 (vc_report c) = pc_transition_sha256 cp \<and>
    cr_transition_count r = cr_transition_count (vc_report c) \<and>
    cr_last_transition_sha256 r = cr_last_transition_sha256 (vc_report c) \<and>
    cr_chain_tip_key_fingerprint r = cr_chain_tip_key_fingerprint (vc_report c)"
  using assms
  by (auto simp: verify_persona_continuity_chain_at_checkpoint_def verify_persona_continuity_chain_def
      match_continuity_head_checkpoint_def)

section \<open>Extending a verified chain\<close>

definition extended_chain :: "VerifiedPersonaContinuityChain \<Rightarrow> VerifiedPersonaTransition \<Rightarrow> VerifiedPersonaContinuityChain" where
  "extended_chain c v =
     c\<lparr>vc_transitions := vc_transitions c @ [v],
       vc_report := (vc_report c)\<lparr>cr_chain_tip_key_fingerprint := ts_next_key_fingerprint (vt_statement v),
         cr_transition_count := cr_transition_count (vc_report c) + 1,
         cr_last_issued_at := ts_issued_at (vt_statement v),
         cr_last_transition_sha256 := Some (vt_transition_statement_sha256 v)\<rparr>\<rparr>"

lemma verified_chain_state:
  assumes "verify_persona_continuity_chain_with_verified_sequence E rp ts d = Ok c"
  obtains s where "try_fold (chain_loop_step E (vc_root c)) (chain_loop_start (vc_root c)) ts = Ok s"
    "c = \<lparr>vc_root = vc_root c, vc_transitions = cl_verified_transitions s,
          vc_report = chain_report (vc_root c) (length ts) s\<rparr>"
    "cl_index s = length ts" "length (cl_verified_transitions s) = length ts"
proof -
  from assms obtain s where s: "try_fold (chain_loop_step E (vc_root c)) (chain_loop_start (vc_root c)) ts = Ok s"
    "vc_transitions c = cl_verified_transitions s" "vc_report c = chain_report (vc_root c) (length ts) s"
    "length ts \<le> MAX_CONTINUITY_TRANSITIONS" by (auto simp: verify_chain_Ok_iff)
  show ?thesis
  proof (rule that [OF s(1)])
    show "cl_index s = length ts" by (rule chain_loop_sound(2) [OF s(4) s(1)])
    show "length (cl_verified_transitions s) = length ts"
      using chain_loop_sound(1) [OF s(4) s(1)] by (auto simp: routine_history_def dest: list_all2_lengthD)
  qed (use s in \<open>cases c; simp\<close>)
qed

lemma checked_count_Suc:
  assumes "n < MAX_CONTINUITY_TRANSITIONS"
  shows "checked_add (of_nat n :: u32) 1 = Some (of_nat (n + 1))"
  using assms by (simp add: checked_add_def unat_of_nat MAX_CONTINUITY_TRANSITIONS_def)

lemma step_is_extension:
  assumes "length ts < MAX_CONTINUITY_TRANSITIONS" "cl_index s = length ts"
    "length (cl_verified_transitions s) = length ts"
    and c: "c = \<lparr>vc_root = root, vc_transitions = cl_verified_transitions s, vc_report = chain_report root (length ts) s\<rparr>"
  shows "and_then (chain_loop_step E root s p) (\<lambda>s'.
      Ok \<lparr>vc_root = root, vc_transitions = cl_verified_transitions s', vc_report = chain_report root (length ts + 1) s'\<rparr>)
    = and_then (verify_persona_continuity_chain_extension E c p) (\<lambda>v. Ok (extended_chain c v))"
proof (cases "verify_persona_transition_proof_with_receipt E p")
  case (Ok receipt)
  let ?v = "receipt_transition receipt"
  let ?check = "validate_verified_transition_at_head root ?v (of_nat (length ts + 1))
    (cl_previous_transition_sha256 s) (cl_current_key_fingerprint s) (cl_previous_issued_at s)"
  have capacity: "require_persona_continuity_chain_extension_capacity c = Ok ()"
    using assms by (simp add: require_persona_continuity_chain_extension_capacity_def)
  have "validate_verified_persona_continuity_chain_extension c receipt = ?check"
    using capacity checked_count_Suc [OF assms(1)]
    by (simp add: validate_verified_persona_continuity_chain_extension_def c chain_report_def)
  then show ?thesis using Ok capacity assms(2)
    by (cases ?check) (simp_all add: chain_loop_step_def verify_persona_transition_proof_def
        verify_persona_continuity_chain_extension_def extended_chain_def c chain_report_def)
qed (use assms in \<open>simp add: chain_loop_step_def verify_persona_transition_proof_def
      verify_persona_continuity_chain_extension_def require_persona_continuity_chain_extension_capacity_def\<close>)

lemma chain_extension_eq:
  assumes c: "verify_persona_continuity_chain_with_verified_sequence E rp ts d = Ok c"
  shows "verify_persona_continuity_chain_with_verified_sequence E rp (ts @ [p]) d =
    and_then (verify_persona_continuity_chain_extension E c p) (\<lambda>v. Ok (extended_chain c v))"
proof -
  from c obtain s where s: "try_fold (chain_loop_step E (vc_root c)) (chain_loop_start (vc_root c)) ts = Ok s"
    "c = \<lparr>vc_root = vc_root c, vc_transitions = cl_verified_transitions s,
          vc_report = chain_report (vc_root c) (length ts) s\<rparr>"
    "cl_index s = length ts" "length (cl_verified_transitions s) = length ts" by (rule verified_chain_state)
  have ok: "validate_sha256 ExpectedRootDigest d = Ok ()" "length ts \<le> MAX_CONTINUITY_TRANSITIONS"
    "verify_persona_root_proof E rp = Ok (vc_root c)" "vr_root_statement_sha256 (vc_root c) = d"
    using c by (auto simp: verify_chain_Ok_iff)
  show ?thesis
  proof (cases "length ts < MAX_CONTINUITY_TRANSITIONS")
    case False
    moreover have "length (vc_transitions c) = length ts" using s(2,4) by (metis VerifiedPersonaContinuityChain.select_convs(2))
    ultimately show ?thesis using ok
      by (simp add: validate_sha256_def verify_persona_continuity_chain_with_verified_sequence_def
          verify_persona_continuity_chain_extension_def require_persona_continuity_chain_extension_capacity_def)
  next
    case True
    then have "verify_persona_continuity_chain_with_verified_sequence E rp (ts @ [p]) d =
      and_then (chain_loop_step E (vc_root c) s p) (\<lambda>s'. Ok \<lparr>vc_root = vc_root c,
        vc_transitions = cl_verified_transitions s', vc_report = chain_report (vc_root c) (length ts + 1) s'\<rparr>)"
      using ok s(1) by (simp add: validate_sha256_def verify_persona_continuity_chain_with_verified_sequence_def try_fold_snoc)
    also note step_is_extension [OF True s(3,4,2)]
    finally show ?thesis .
  qed
qed

lemma chain_prefix:
  assumes "verify_persona_continuity_chain_with_verified_sequence E rp (ts @ us) d = Ok c"
  shows "\<exists>c'. verify_persona_continuity_chain_with_verified_sequence E rp ts d = Ok c' \<and>
    vc_transitions c = vc_transitions c' @ drop (length ts) (vc_transitions c)"
proof -
  have hist: "routine_history E (vc_root c) (ts @ us) (vc_transitions c) (chain_head c)"
    using assms by (rule verified_chain_history)
  then obtain vs ws where vs: "vc_transitions c = vs @ ws"
    "list_all2 (\<lambda>p v. verify_persona_transition_proof E p = Ok v \<and> bound_to_root (vc_root c) v) ts vs"
    unfolding routine_history_def list_all2_append1 by blast
  then obtain h where "routine_history E (vc_root c) ts vs h"
    using hist by (auto simp: routine_history_def history_append)
  with chain_refines_history [of E rp ts d "vc_root c" vs h] assms obtain c' where
    "verify_persona_continuity_chain_with_verified_sequence E rp ts d = Ok c'" "vc_transitions c' = vs"
    by (auto simp: verify_chain_Ok_iff)
  then show ?thesis using vs list_all2_lengthD [OF vs(2)] by auto
qed

section \<open>Creating proofs\<close>

text \<open>The documented behaviour of the codecs that a created continuity proof passes through.\<close>

definition continuity_codecs :: "'z continuity_ext_scheme \<Rightarrow> bool" where
  "continuity_codecs E \<longleftrightarrow>
     (\<forall>bs. base64url_decode E (base64url_encode E bs) = Ok bs) \<and>
     (\<forall>bs. length bs \<le> MAX_CONTINUITY_PAYLOAD_BYTES \<longrightarrow> length (base64url_encode E bs) \<le> MAX_PROOF_BYTES) \<and>
     (\<forall>s bs. root_to_jcs E s = Ok bs \<longrightarrow> root_from_json E bs = Ok s) \<and>
     (\<forall>s bs. transition_to_jcs E s = Ok bs \<longrightarrow> transition_from_json E bs = Ok s)"

text \<open>A signature that fits the bounds of the format.\<close>

definition signature_fits :: "ContinuitySignature \<Rightarrow> bool" where
  "signature_fits s \<longleftrightarrow> sig_value s \<noteq> [] \<and> length (sig_value s) \<le> MAX_CONTINUITY_SIGNATURE_BYTES"

lemma new_signature_valid:
  assumes "is_utf8 k" "normalize_public_key E k = Ok key" "signature_fits (new_signature role v key)"
  shows "validate_signature E (new_signature role v key) role
    (case role of RootRole \<Rightarrow> PERSONA_ROOT_NAMESPACE | PreviousRole \<Rightarrow> PERSONA_TRANSITION_NAMESPACE
      | NextRole \<Rightarrow> PERSONA_TRANSITION_NAMESPACE) = Ok key"
  using assms normalize_public_key_idem [OF assms(1,2)]
  by (simp add: validate_signature_Ok_iff new_signature_def signature_fits_def)

lemma created_payload_decodes:
  assumes "continuity_codecs E" "length payload \<le> MAX_CONTINUITY_PAYLOAD_BYTES"
  shows "decode_continuity_payload E (base64url_encode E payload) = Ok payload"
  using assms by (simp add: decode_continuity_payload_Ok_iff continuity_codecs_def)

lemma create_root_verifies:
  assumes codecs: "continuity_codecs E" and utf8: "is_utf8 key"
    and created: "create_persona_root_proof E statement path key = Ok proof"
    and fits: "signature_fits (rp_signature proof)"
  shows "\<exists>root. verify_persona_root_proof E proof = Ok root \<and> vr_statement root = statement \<and>
    persona_root_statement_sha256 E statement = Ok (vr_root_statement_sha256 root)"
proof -
  obtain payload public_key v where c: "canonical_persona_root_statement_bytes E statement = Ok payload"
    "normalize_public_key E key = Ok public_key"
    "public_key_fingerprint E public_key = Ok (rs_initial_key_fingerprint statement)"
    "sshsig_verify E payload v public_key PERSONA_ROOT_NAMESPACE = Ok ()"
    "proof = \<lparr>rp_schema = PERSONA_ROOT_PROOF_SCHEMA, rp_payload = base64url_encode E payload,
         rp_signature = new_signature RootRole v public_key\<rparr>"
    using created by (auto simp: create_persona_root_proof_def)
  let ?root = "\<lparr>vr_statement = statement, vr_root_statement_sha256 = sha256_hex E payload,
    vr_initial_public_key = public_key\<rparr>"
  have "decode_continuity_payload E (base64url_encode E payload) = Ok payload"
    using created_payload_decodes [OF codecs] c(1) by (simp add: canonical_root_Ok_iff)
  moreover have "root_from_json E payload = Ok statement"
    using codecs c(1) by (simp add: canonical_root_Ok_iff continuity_codecs_def)
  moreover have "validate_signature E (new_signature RootRole v public_key) RootRole PERSONA_ROOT_NAMESPACE = Ok public_key"
    using new_signature_valid [OF utf8 c(2), of RootRole v] fits c(5) by simp
  moreover have "sig_value (new_signature RootRole v public_key) = v" by (simp add: new_signature_def)
  ultimately have "verify_persona_root_proof E proof = Ok ?root"
    using c by (simp add: verify_root_Ok_iff)
  moreover have "persona_root_statement_sha256 E statement = Ok (sha256_hex E payload)"
    using c(1) by (simp add: persona_root_statement_sha256_def)
  ultimately show ?thesis by (intro exI [of _ ?root]) simp
qed

lemma create_transition_verifies:
  assumes codecs: "continuity_codecs E" and utf8: "is_utf8 key" "is_utf8 key'"
    and created: "create_routine_transition_proof E statement path key path' key' = Ok proof"
    and fits: "list_all signature_fits (tp_signatures proof)"
  shows "\<exists>v. verify_persona_transition_proof E proof = Ok v \<and> vt_statement v = statement \<and>
    persona_transition_statement_sha256 E statement = Ok (vt_transition_statement_sha256 v)"
proof -
  obtain payload pk nk pv nv where c: "canonical_persona_transition_statement_bytes E statement = Ok payload"
    "normalize_public_key E key = Ok pk" "normalize_public_key E key' = Ok nk"
    "public_key_fingerprint E pk = Ok (ts_previous_key_fingerprint statement)"
    "public_key_fingerprint E nk = Ok (ts_next_key_fingerprint statement)"
    "sshsig_verify E payload pv pk PERSONA_TRANSITION_NAMESPACE = Ok ()"
    "sshsig_verify E payload nv nk PERSONA_TRANSITION_NAMESPACE = Ok ()"
    "proof = \<lparr>tp_schema = PERSONA_TRANSITION_PROOF_SCHEMA, tp_payload = base64url_encode E payload,
         tp_signatures = [new_signature PreviousRole pv pk, new_signature NextRole nv nk]\<rparr>"
    using created by (auto simp: create_routine_transition_proof_def)
  let ?v = "\<lparr>vt_statement = statement, vt_transition_statement_sha256 = sha256_hex E payload,
    vt_previous_public_key = pk, vt_next_public_key = nk\<rparr>"
  have "decode_continuity_payload E (base64url_encode E payload) = Ok payload"
    using created_payload_decodes [OF codecs] c(1) by (simp add: canonical_transition_Ok_iff)
  moreover have "transition_from_json E payload = Ok statement"
    using codecs c(1) by (simp add: canonical_transition_Ok_iff continuity_codecs_def)
  moreover have "transition_signed E proof ?v payload"
    unfolding transition_signed_def
    using c fits new_signature_valid [OF utf8(1) c(2), of PreviousRole pv]
      new_signature_valid [OF utf8(2) c(3), of NextRole nv]
    by (intro exI [of _ "new_signature PreviousRole pv pk"] exI [of _ "new_signature NextRole nv nk"])
      (simp add: new_signature_def)
  ultimately have "verify_persona_transition_proof E proof = Ok ?v"
    using c by (simp add: verify_transition_Ok_iff)
  moreover have "persona_transition_statement_sha256 E statement = Ok (sha256_hex E payload)"
    using c(1) by (simp add: persona_transition_statement_sha256_def)
  ultimately show ?thesis by (intro exI [of _ ?v]) simp
qed

section \<open>Reviews\<close>

lemma review_root_bytes_exact:
  assumes "review_persona_root_statement_bytes E bs now key persona = Ok (statement, review)"
  shows "canonical_persona_root_statement_bytes E statement = Ok bs" and "rr_root_statement_sha256 review = sha256_hex E bs"
    and "rr_persona review = rs_persona statement" and "rs_persona statement = persona"
    and "rr_initial_key_fingerprint review = rs_initial_key_fingerprint statement"
    and "rr_persona_anchor review = rs_persona_anchor statement" and "rr_issued_at review = rs_issued_at statement"
  using assms by (auto simp: review_persona_root_statement_bytes_def review_persona_root_statement_def
      dest: validate_canonical_persona_Ok)

lemma review_transition_bytes_exact:
  assumes "review_persona_transition_statement_bytes E bs now root sequence link key key' = Ok (statement, review)"
  shows "canonical_persona_transition_statement_bytes E statement = Ok bs"
    and "tr_transition_statement_sha256 review = sha256_hex E bs"
    and "ts_sequence statement = sequence" and "ts_previous_transition_sha256 statement = link"
    and "bound_to_root root \<lparr>vt_statement = statement, vt_transition_statement_sha256 = d,
           vt_previous_public_key = k, vt_next_public_key = k'\<rparr>"
    and "tr_previous_key_fingerprint review = ts_previous_key_fingerprint statement"
    and "tr_next_key_fingerprint review = ts_next_key_fingerprint statement"
  using assms by (auto simp: review_persona_transition_statement_bytes_def review_persona_transition_statement_def
      bound_to_root_def)

end
