(* ===== verification/Recovery_Policy.thy ===== *)
theory Recovery_Policy
  imports Continuity "HOL-Library.Multiset"
begin

text \<open>
  Recovery policies (\<^verbatim>\<open>src/crates/a-quo-core/src/recovery.rs\<close>): the threshold set of recovery keys of
  a persona, its enrolment and its updates, the signature sets that authorise them, and the
  verification of a whole policy chain. \<^verbatim>\<open>recovery.rs\<close> repeats the small validation helpers of
  \<^verbatim>\<open>continuity.rs\<close> verbatim; the definitions of \<open>Continuity\<close> stand for both copies.

  A \<^verbatim>\<open>BTreeSet\<close> is the strictly sorted list of its elements, which is the order it iterates in.
\<close>

section \<open>Data\<close>

definition RECOVERY_POLICY_STATEMENT_SCHEMA :: string where
  "RECOVERY_POLICY_STATEMENT_SCHEMA = ''urn:a-quo:statement:persona-recovery-policy:v1''"
definition RECOVERY_POLICY_STATEMENT_SCHEMA_V2 :: string where
  "RECOVERY_POLICY_STATEMENT_SCHEMA_V2 = ''urn:a-quo:statement:persona-recovery-policy:v2''"
definition RECOVERY_POLICY_PROOF_SCHEMA :: string where
  "RECOVERY_POLICY_PROOF_SCHEMA = ''urn:a-quo:proof:persona-recovery-policy:sshsig:v1''"
definition RECOVERY_POLICY_ENROLLMENT_NAMESPACE :: string where
  "RECOVERY_POLICY_ENROLLMENT_NAMESPACE = ''a-quo-recovery-policy-enrollment-v1''"
definition RECOVERY_POLICY_UPDATE_PREVIOUS_NAMESPACE :: string where
  "RECOVERY_POLICY_UPDATE_PREVIOUS_NAMESPACE = ''a-quo-recovery-policy-update-previous-v1''"
definition RECOVERY_POLICY_UPDATE_CURRENT_NAMESPACE :: string where
  "RECOVERY_POLICY_UPDATE_CURRENT_NAMESPACE = ''a-quo-recovery-policy-update-current-v1''"
definition MIN_RECOVERY_AUTHORITIES :: nat where "MIN_RECOVERY_AUTHORITIES = 2"
definition MAX_RECOVERY_AUTHORITIES :: nat where "MAX_RECOVERY_AUTHORITIES = 32"
definition MAX_RECOVERY_POLICY_VERSIONS :: nat where "MAX_RECOVERY_POLICY_VERSIONS = 1024"
definition MAX_RECOVERY_POLICY_VALIDITY_SECONDS :: i64 where
  "MAX_RECOVERY_POLICY_VALIDITY_SECONDS = 315576000"

datatype RecoveryPolicyCapability = KeyRecovery | TerminalRevocation

text \<open>The derived order: constructors in the order of their declaration.\<close>

instantiation RecoveryPolicyCapability :: linorder
begin

definition less_eq_RecoveryPolicyCapability :: "RecoveryPolicyCapability \<Rightarrow> RecoveryPolicyCapability \<Rightarrow> bool" where
  "less_eq_RecoveryPolicyCapability a b \<longleftrightarrow> a = KeyRecovery \<or> b = TerminalRevocation"

definition less_RecoveryPolicyCapability :: "RecoveryPolicyCapability \<Rightarrow> RecoveryPolicyCapability \<Rightarrow> bool" where
  "less_RecoveryPolicyCapability a b \<longleftrightarrow> a = KeyRecovery \<and> b = TerminalRevocation"

instance
proof
  fix x y z :: RecoveryPolicyCapability
  show "x < y \<longleftrightarrow> x \<le> y \<and> \<not> y \<le> x" "x \<le> x" "x \<le> y \<or> y \<le> x"
    by (cases x; cases y; simp add: less_eq_RecoveryPolicyCapability_def less_RecoveryPolicyCapability_def)+
  show "x \<le> y \<Longrightarrow> y \<le> z \<Longrightarrow> x \<le> z" "x \<le> y \<Longrightarrow> y \<le> x \<Longrightarrow> x = y"
    by (cases x; cases y; simp add: less_eq_RecoveryPolicyCapability_def)+
qed

end

record RecoveryContinuityCheckpoint =
  cp_transition_sequence :: u32
  cp_transition_sha256 :: "string option"

record RecoveryPolicyStatement =
  ps_schema :: string
  ps_canonicalization :: string
  ps_persona_anchor :: string
  ps_persona :: string
  ps_root_statement_sha256 :: string
  ps_policy_version :: u32
  ps_previous_policy_sha256 :: "string option"
  ps_continuity_checkpoint :: RecoveryContinuityCheckpoint
  ps_issued_at :: i64
  ps_expires_at :: i64
  ps_threshold :: u32
  ps_recovery_key_fingerprints :: "string list"
  ps_capabilities :: "RecoveryPolicyCapability list"

record RecoverySignature =
  rsig_format :: string
  rsig_namespace :: string
  rsig_value :: string
  rsig_public_key_format :: string
  rsig_public_key :: string

datatype RecoveryPolicyAuthorization =
    Enrollment "RecoverySignature list"
  | Update "RecoverySignature list" "RecoverySignature list"

record RecoveryPolicyProof =
  pp_schema :: string
  pp_payload :: string
  pp_authorization :: RecoveryPolicyAuthorization

record RecoverySigner =
  signer_private_key_path :: string
  signer_public_key :: string

record VerifiedRecoveryPolicy =
  vp_statement :: RecoveryPolicyStatement
  vp_policy_statement_sha256 :: string
  vp_previous_authorization_fingerprints :: "string list"
  vp_current_authorization_fingerprints :: "string list"

datatype RecoveryPolicyTimeStatus = Active | NotYetValid | Expired

record RecoveryPolicyChainReport =
  pr_root_signature :: EvidenceStatus
  pr_expected_root_digest :: EvidenceStatus
  pr_enrollment_proof :: EvidenceStatus
  pr_update_chain :: EvidenceStatus
  pr_expected_latest_policy_digest :: EvidenceStatus
  pr_persona :: string
  pr_persona_anchor :: string
  pr_root_statement_sha256 :: string
  pr_initial_policy_sha256 :: string
  pr_latest_policy_sha256 :: string
  pr_latest_policy_version :: u32
  pr_threshold :: u32
  pr_authority_count :: u32
  pr_latest_checkpoint_sequence :: u32
  pr_latest_checkpoint_sha256 :: "string option"
  pr_checkpoint_against_transition_chain :: string
  pr_issued_at :: i64
  pr_expires_at :: i64
  pr_checked_at :: i64
  pr_time_status :: RecoveryPolicyTimeStatus
  pr_not_established :: "string list"

record VerifiedRecoveryPolicyChain =
  vpc_root :: VerifiedPersonaRoot
  vpc_policies :: "VerifiedRecoveryPolicy list"
  vpc_report :: RecoveryPolicyChainReport

record policy_ext = continuity_ext +
  policy_from_json :: "bytes \<Rightarrow> (RecoveryPolicyStatement, json_error) result"
  policy_to_jcs :: "RecoveryPolicyStatement \<Rightarrow> (bytes, json_error) result"
  policy_proof_from_json :: "bytes \<Rightarrow> (RecoveryPolicyProof, json_error) result"

definition authorizes :: "RecoveryPolicyStatement \<Rightarrow> RecoveryPolicyCapability \<Rightarrow> bool" where
  "authorizes statement capability =
     (if ps_schema statement = RECOVERY_POLICY_STATEMENT_SCHEMA then capability = KeyRecovery
      else is_Ok (binary_search (ps_capabilities statement) capability))"

definition effective_capabilities :: "RecoveryPolicyStatement \<Rightarrow> RecoveryPolicyCapability list" where
  "effective_capabilities statement =
     (if ps_schema statement = RECOVERY_POLICY_STATEMENT_SCHEMA then [KeyRecovery]
      else ps_capabilities statement)"

section \<open>Validation of a policy statement\<close>

definition validate_recovery_checkpoint :: "RecoveryContinuityCheckpoint \<Rightarrow> unit res" where
  "validate_recovery_checkpoint checkpoint =
     (if of_nat MAX_CONTINUITY_TRANSITIONS < cp_transition_sequence checkpoint
      then invalid_statement (PolicyReason CheckpointTooLate)
      else case cp_transition_sha256 checkpoint of
          None \<Rightarrow> if cp_transition_sequence checkpoint = 0 then Ok ()
                  else invalid_statement (PolicyReason CheckpointNeedsDigest)
        | Some digest \<Rightarrow> if cp_transition_sequence checkpoint = 0
                  then invalid_statement (PolicyReason CheckpointZeroNamesDigest)
                  else validate_sha256 CheckpointDigest digest)"

text \<open>The loop over the fingerprints: each is valid and larger than the one before.\<close>

definition fingerprint_order_step :: "'z ext_scheme \<Rightarrow> string option \<Rightarrow> string \<Rightarrow> string option res" where
  "fingerprint_order_step E previous fingerprint =
     and_then (validate_key_fingerprint E fingerprint) (\<lambda>_.
     if (case previous of None \<Rightarrow> False | Some v \<Rightarrow> fingerprint \<le> v)
     then invalid_statement (PolicyReason PolicyFingerprintsNotSorted)
     else Ok (Some fingerprint))"

definition validate_recovery_policy_statement :: "'z ext_scheme \<Rightarrow> RecoveryPolicyStatement \<Rightarrow> unit res" where
  "validate_recovery_policy_statement E statement =
     and_then
       (if ps_schema statement = RECOVERY_POLICY_STATEMENT_SCHEMA
        then if ps_capabilities statement \<noteq> [] then invalid_statement (PolicyReason PolicyV1WithCapabilities) else Ok ()
        else if ps_schema statement = RECOVERY_POLICY_STATEMENT_SCHEMA_V2
        then if ps_capabilities statement = [] then invalid_statement (PolicyReason PolicyV2WithoutCapability)
             else if 2 < length (ps_capabilities statement) \<or> windows_any (\<lambda>x y. y \<le> x) (ps_capabilities statement)
             then invalid_statement (PolicyReason PolicyCapabilitiesNotSorted) else Ok ()
        else invalid_statement (PolicyReason (UnsupportedPolicySchema
               (escape_untrusted_text_for_terminal (ps_schema statement))))) (\<lambda>_.
     if ps_canonicalization statement \<noteq> CONTINUITY_CANONICALIZATION
     then invalid_statement (PolicyReason (UnsupportedPolicyCanonicalization
            (escape_untrusted_text_for_terminal (ps_canonicalization statement))))
     else and_then (validate_persona_anchor E (ps_persona_anchor statement)) (\<lambda>_.
     and_then (validate_canonical_persona (ps_persona statement)) (\<lambda>_.
     and_then (validate_sha256 PolicyRootDigest (ps_root_statement_sha256 statement)) (\<lambda>_.
     and_then
       (if ps_policy_version statement = 0 then invalid_statement (PolicyReason PolicyVersionZero)
        else case ps_previous_policy_sha256 statement of
            None \<Rightarrow> if ps_policy_version statement = 1 then Ok ()
                    else invalid_statement (PolicyReason LaterPolicyNeedsPredecessor)
          | Some digest \<Rightarrow> if ps_policy_version statement = 1
                    then invalid_statement (PolicyReason PolicyOneNamesPredecessor)
                    else validate_sha256 PreviousPolicyDigest digest) (\<lambda>_.
     and_then (validate_recovery_checkpoint (ps_continuity_checkpoint statement)) (\<lambda>_.
     and_then (validate_jcs_time PolicyIssuedAt (ps_issued_at statement)) (\<lambda>_.
     and_then (validate_jcs_time PolicyExpiresAt (ps_expires_at statement)) (\<lambda>_.
     and_then (ok_or (InvalidContinuityStatement (PolicyReason PolicyValidityUnderflow))
       (i64_checked_sub (ps_expires_at statement) (ps_issued_at statement))) (\<lambda>validity.
     if validity \<le> 0 \<or> MAX_RECOVERY_POLICY_VALIDITY_SECONDS < validity
     then invalid_statement (PolicyReason PolicyValidityBounds)
     else if \<not> (MIN_RECOVERY_AUTHORITIES \<le> length (ps_recovery_key_fingerprints statement)
               \<and> length (ps_recovery_key_fingerprints statement) \<le> MAX_RECOVERY_AUTHORITIES)
     then invalid_statement (PolicyReason PolicyAuthorityBounds)
     else if unat (ps_threshold statement) < MIN_RECOVERY_AUTHORITIES
             \<or> length (ps_recovery_key_fingerprints statement) < unat (ps_threshold statement)
     then invalid_statement (PolicyReason PolicyThresholdBounds)
     else and_then (try_fold (fingerprint_order_step E) None (ps_recovery_key_fingerprints statement)) (\<lambda>_.
     Ok ()))))))))))"

definition validate_policy_root_binding :: "VerifiedPersonaRoot \<Rightarrow> RecoveryPolicyStatement \<Rightarrow> unit res" where
  "validate_policy_root_binding root statement =
     (if ps_persona_anchor statement \<noteq> rs_persona_anchor (vr_statement root)
         \<or> ps_persona statement \<noteq> rs_persona (vr_statement root)
         \<or> ps_root_statement_sha256 statement \<noteq> vr_root_statement_sha256 root
      then chain_mismatch (PolicyChainReason PolicyBoundToDifferentRoot)
      else if ps_issued_at statement < rs_issued_at (vr_statement root)
      then chain_mismatch (PolicyChainReason PolicyBeforeRoot)
      else Ok ())"

definition validate_policy_successor ::
  "'z ext_scheme \<Rightarrow> VerifiedRecoveryPolicy \<Rightarrow> RecoveryPolicyStatement \<Rightarrow> unit res" where
  "validate_policy_successor E previous statement =
     and_then (validate_recovery_policy_statement E statement) (\<lambda>_.
     if ps_schema (vp_statement previous) = RECOVERY_POLICY_STATEMENT_SCHEMA_V2
        \<and> ps_schema statement \<noteq> RECOVERY_POLICY_STATEMENT_SCHEMA_V2
     then chain_mismatch (PolicyChainReason PolicySchemaDowngrade)
     else if ps_persona_anchor statement \<noteq> ps_persona_anchor (vp_statement previous)
        \<or> ps_persona statement \<noteq> ps_persona (vp_statement previous)
        \<or> ps_root_statement_sha256 statement \<noteq> ps_root_statement_sha256 (vp_statement previous)
     then chain_mismatch (PolicyChainReason SuccessorBoundToDifferentRoot)
     else and_then (ok_or (ContinuityChainMismatch (PolicyChainReason PolicyVersionAdvanceOverflow))
       (checked_add (ps_policy_version (vp_statement previous)) 1)) (\<lambda>expected_version.
     if ps_policy_version statement \<noteq> expected_version
        \<or> ps_previous_policy_sha256 statement \<noteq> Some (vp_policy_statement_sha256 previous)
     then chain_mismatch (PolicyChainReason PolicyNotNextVersion)
     else if ps_issued_at statement < ps_issued_at (vp_statement previous)
     then chain_mismatch (PolicyChainReason PolicyIssuanceBackward)
     else let previous_checkpoint = ps_continuity_checkpoint (vp_statement previous);
              current_checkpoint = ps_continuity_checkpoint statement
     in if cp_transition_sequence current_checkpoint < cp_transition_sequence previous_checkpoint
           \<or> (cp_transition_sequence current_checkpoint = cp_transition_sequence previous_checkpoint
               \<and> cp_transition_sha256 current_checkpoint \<noteq> cp_transition_sha256 previous_checkpoint)
        then chain_mismatch (PolicyChainReason CheckpointMovesBackward)
        else Ok ()))"

definition authority_fingerprints :: "'z ext_scheme \<Rightarrow> string list \<Rightarrow> string list res" where
  "authority_fingerprints E public_keys =
     (if \<not> (MIN_RECOVERY_AUTHORITIES \<le> length public_keys \<and> length public_keys \<le> MAX_RECOVERY_AUTHORITIES)
      then invalid_statement (PolicyReason PolicyAuthorityBounds)
      else and_then (try_map (\<lambda>key. and_then (normalize_public_key E key) (public_key_fingerprint E)) public_keys) (\<lambda>fingerprints.
      let fingerprints = sort fingerprints
      in if windows_any (=) fingerprints then invalid_statement (PolicyReason AuthorityKeysNotDistinct)
         else Ok fingerprints))"

definition canonical_policy_capabilities ::
  "RecoveryPolicyCapability list \<Rightarrow> RecoveryPolicyCapability list res" where
  "canonical_policy_capabilities capabilities =
     (if capabilities = [] then invalid_statement (PolicyReason PolicyV2WithoutCapability)
      else let canonical = sort capabilities
      in if windows_any (=) canonical then invalid_statement (PolicyReason PolicyCapabilitiesNotDistinct)
         else Ok canonical)"

definition canonical_recovery_policy_statement_bytes ::
  "'z policy_ext_scheme \<Rightarrow> RecoveryPolicyStatement \<Rightarrow> bytes res" where
  "canonical_recovery_policy_statement_bytes E statement =
     and_then (validate_recovery_policy_statement E statement) (\<lambda>_.
     and_then (map_err Json (policy_to_jcs E statement)) (\<lambda>bs.
     and_then (validate_payload_bound bs) (\<lambda>_. Ok bs)))"

definition recovery_policy_statement_sha256 ::
  "'z policy_ext_scheme \<Rightarrow> RecoveryPolicyStatement \<Rightarrow> string res" where
  "recovery_policy_statement_sha256 E statement =
     and_then (canonical_recovery_policy_statement_bytes E statement) (\<lambda>bs. Ok (sha256_hex E bs))"

section \<open>New policy statements\<close>

definition new_initial_recovery_policy_statement_for_schema ::
  "'z ext_scheme \<Rightarrow> VerifiedPersonaRoot \<Rightarrow> string list \<Rightarrow> u32 \<Rightarrow> RecoveryPolicyCapability list \<Rightarrow>
     RecoveryContinuityCheckpoint \<Rightarrow> i64 \<Rightarrow> i64 \<Rightarrow> string \<Rightarrow> RecoveryPolicyStatement res" where
  "new_initial_recovery_policy_statement_for_schema E root authority_public_keys threshold capabilities
     continuity_checkpoint issued_at expires_at schema =
     (if issued_at < rs_issued_at (vr_statement root) then invalid_statement (PolicyReason PolicyPredatesRoot)
      else and_then (authority_fingerprints E authority_public_keys) (\<lambda>fingerprints.
      let statement = \<lparr>ps_schema = schema, ps_canonicalization = CONTINUITY_CANONICALIZATION,
            ps_persona_anchor = rs_persona_anchor (vr_statement root),
            ps_persona = rs_persona (vr_statement root),
            ps_root_statement_sha256 = vr_root_statement_sha256 root, ps_policy_version = 1,
            ps_previous_policy_sha256 = None, ps_continuity_checkpoint = continuity_checkpoint,
            ps_issued_at = issued_at, ps_expires_at = expires_at, ps_threshold = threshold,
            ps_recovery_key_fingerprints = fingerprints, ps_capabilities = capabilities\<rparr>
      in and_then (validate_recovery_policy_statement E statement) (\<lambda>_.
         and_then (validate_policy_root_binding root statement) (\<lambda>_.
         if is_Ok (binary_search (ps_recovery_key_fingerprints statement) (rs_initial_key_fingerprint (vr_statement root)))
         then invalid_statement (PolicyReason OnlineKeyIsAuthority)
         else Ok statement))))"

definition new_initial_recovery_policy_statement ::
  "'z ext_scheme \<Rightarrow> VerifiedPersonaRoot \<Rightarrow> string list \<Rightarrow> u32 \<Rightarrow> RecoveryContinuityCheckpoint \<Rightarrow> i64 \<Rightarrow> i64 \<Rightarrow>
     RecoveryPolicyStatement res" where
  "new_initial_recovery_policy_statement E root authority_public_keys threshold continuity_checkpoint
     issued_at expires_at =
     new_initial_recovery_policy_statement_for_schema E root authority_public_keys threshold []
       continuity_checkpoint issued_at expires_at RECOVERY_POLICY_STATEMENT_SCHEMA"

definition new_initial_recovery_policy_statement_with_capabilities ::
  "'z ext_scheme \<Rightarrow> VerifiedPersonaRoot \<Rightarrow> string list \<Rightarrow> u32 \<Rightarrow> RecoveryPolicyCapability list \<Rightarrow>
     RecoveryContinuityCheckpoint \<Rightarrow> i64 \<Rightarrow> i64 \<Rightarrow> RecoveryPolicyStatement res" where
  "new_initial_recovery_policy_statement_with_capabilities E root authority_public_keys threshold capabilities
     continuity_checkpoint issued_at expires_at =
     and_then (canonical_policy_capabilities capabilities) (\<lambda>capabilities.
     new_initial_recovery_policy_statement_for_schema E root authority_public_keys threshold capabilities
       continuity_checkpoint issued_at expires_at RECOVERY_POLICY_STATEMENT_SCHEMA_V2)"

definition new_recovery_policy_update_statement_for_schema ::
  "'z ext_scheme \<Rightarrow> VerifiedRecoveryPolicy \<Rightarrow> string list \<Rightarrow> u32 \<Rightarrow> RecoveryPolicyCapability list \<Rightarrow>
     RecoveryContinuityCheckpoint \<Rightarrow> i64 \<Rightarrow> i64 \<Rightarrow> string \<Rightarrow> RecoveryPolicyStatement res" where
  "new_recovery_policy_update_statement_for_schema E previous authority_public_keys threshold capabilities
     continuity_checkpoint issued_at expires_at schema =
     (if issued_at < ps_issued_at (vp_statement previous) then invalid_statement (PolicyReason PolicyTimesBackward)
      else and_then (ok_or (InvalidContinuityStatement (PolicyReason PolicyVersionOverflow))
        (checked_add (ps_policy_version (vp_statement previous)) 1)) (\<lambda>policy_version.
      and_then (authority_fingerprints E authority_public_keys) (\<lambda>fingerprints.
      let statement = \<lparr>ps_schema = schema, ps_canonicalization = CONTINUITY_CANONICALIZATION,
            ps_persona_anchor = ps_persona_anchor (vp_statement previous),
            ps_persona = ps_persona (vp_statement previous),
            ps_root_statement_sha256 = ps_root_statement_sha256 (vp_statement previous),
            ps_policy_version = policy_version,
            ps_previous_policy_sha256 = Some (vp_policy_statement_sha256 previous),
            ps_continuity_checkpoint = continuity_checkpoint,
            ps_issued_at = issued_at, ps_expires_at = expires_at, ps_threshold = threshold,
            ps_recovery_key_fingerprints = fingerprints, ps_capabilities = capabilities\<rparr>
      in and_then (validate_recovery_policy_statement E statement) (\<lambda>_.
         and_then (validate_policy_successor E previous statement) (\<lambda>_. Ok statement)))))"

definition new_recovery_policy_update_statement ::
  "'z ext_scheme \<Rightarrow> VerifiedRecoveryPolicy \<Rightarrow> string list \<Rightarrow> u32 \<Rightarrow> RecoveryContinuityCheckpoint \<Rightarrow> i64 \<Rightarrow> i64 \<Rightarrow>
     RecoveryPolicyStatement res" where
  "new_recovery_policy_update_statement E previous authority_public_keys threshold continuity_checkpoint
     issued_at expires_at =
     new_recovery_policy_update_statement_for_schema E previous authority_public_keys threshold []
       continuity_checkpoint issued_at expires_at RECOVERY_POLICY_STATEMENT_SCHEMA"

definition new_recovery_policy_update_statement_with_capabilities ::
  "'z ext_scheme \<Rightarrow> VerifiedRecoveryPolicy \<Rightarrow> string list \<Rightarrow> u32 \<Rightarrow> RecoveryPolicyCapability list \<Rightarrow>
     RecoveryContinuityCheckpoint \<Rightarrow> i64 \<Rightarrow> i64 \<Rightarrow> RecoveryPolicyStatement res" where
  "new_recovery_policy_update_statement_with_capabilities E previous authority_public_keys threshold capabilities
     continuity_checkpoint issued_at expires_at =
     and_then (canonical_policy_capabilities capabilities) (\<lambda>capabilities.
     new_recovery_policy_update_statement_for_schema E previous authority_public_keys threshold capabilities
       continuity_checkpoint issued_at expires_at RECOVERY_POLICY_STATEMENT_SCHEMA_V2)"

section \<open>Signature sets\<close>

definition validate_recovery_signature :: "'z ext_scheme \<Rightarrow> RecoverySignature \<Rightarrow> string \<Rightarrow> string res" where
  "validate_recovery_signature E signature namespace =
     (if rsig_format signature \<noteq> SIGNATURE_FORMAT \<or> rsig_namespace signature \<noteq> namespace
         \<or> rsig_public_key_format signature \<noteq> PUBLIC_KEY_FORMAT \<or> rsig_value signature = []
         \<or> MAX_CONTINUITY_SIGNATURE_BYTES < length (rsig_value signature)
      then invalid_proof (AuthorityReason RecoverySignatureInvalid)
      else normalize_public_key E (rsig_public_key signature))"

record RecoverySignatureCheck =
  rc_signature :: RecoverySignature
  rc_public_key :: string
  rc_fingerprint :: string

record AuthoritySignaturePreflight =
  ap_checks :: "RecoverySignatureCheck list"
  ap_fingerprints :: "string list"

definition unbound_signature_step ::
  "'z ext_scheme \<Rightarrow> string \<Rightarrow> AuthoritySignaturePreflight \<Rightarrow> RecoverySignature \<Rightarrow> AuthoritySignaturePreflight res" where
  "unbound_signature_step E namespace s signature =
     and_then (validate_recovery_signature E signature namespace) (\<lambda>public_key.
     and_then (public_key_fingerprint E public_key) (\<lambda>fingerprint.
     if fingerprint \<in> set (ap_fingerprints s) then invalid_proof (AuthorityReason AuthorityKeyCountedTwice)
     else Ok \<lparr>ap_checks = ap_checks s @ [\<lparr>rc_signature = signature, rc_public_key = public_key,
                rc_fingerprint = fingerprint\<rparr>],
              ap_fingerprints = insort fingerprint (ap_fingerprints s)\<rparr>))"

definition preflight_unbound_signature_set ::
  "'z ext_scheme \<Rightarrow> RecoverySignature list \<Rightarrow> string \<Rightarrow> AuthoritySignaturePreflight res" where
  "preflight_unbound_signature_set E signatures namespace =
     (if \<not> (MIN_RECOVERY_AUTHORITIES \<le> length signatures \<and> length signatures \<le> MAX_RECOVERY_AUTHORITIES)
      then invalid_proof (AuthorityReason SignatureSetBounds)
      else try_fold (unbound_signature_step E namespace) \<lparr>ap_checks = [], ap_fingerprints = []\<rparr> signatures)"

definition preflight_authority_signatures ::
  "'z ext_scheme \<Rightarrow> RecoverySignature list \<Rightarrow> string list \<Rightarrow> nat \<Rightarrow> bool \<Rightarrow> string \<Rightarrow> AuthoritySignaturePreflight res" where
  "preflight_authority_signatures E signatures allowed_fingerprints minimum require_all namespace =
     (if length signatures < minimum \<or> length allowed_fingerprints < length signatures
      then invalid_proof (AuthorityReason (SignatureSetSize minimum (length allowed_fingerprints)))
      else let allowed = sort (remdups allowed_fingerprints)
      in and_then (preflight_unbound_signature_set E signatures namespace) (\<lambda>preflight.
         and_then (try_each (\<lambda>check. if rc_fingerprint check \<notin> set allowed
             then invalid_proof (AuthorityReason SignatureKeyNotAuthorized) else Ok ()) (ap_checks preflight)) (\<lambda>_.
         if require_all \<and> length (ap_fingerprints preflight) \<noteq> length allowed
         then invalid_proof (AuthorityReason EnrolledAuthoritiesMustSign)
         else Ok preflight)))"

definition verify_authority_signatures ::
  "'z ext_scheme \<Rightarrow> bytes \<Rightarrow> RecoverySignature list \<Rightarrow> string list \<Rightarrow> nat \<Rightarrow> bool \<Rightarrow> string \<Rightarrow> string list res" where
  "verify_authority_signatures E payload signatures allowed_fingerprints minimum require_all namespace =
     and_then (preflight_authority_signatures E signatures allowed_fingerprints minimum require_all namespace) (\<lambda>preflight.
     and_then (try_each (\<lambda>check. sshsig_verify E payload (rsig_value (rc_signature check)) (rc_public_key check)
         namespace) (ap_checks preflight)) (\<lambda>_.
     Ok (ap_fingerprints preflight)))"

definition new_recovery_signature :: "string \<Rightarrow> string \<Rightarrow> string \<Rightarrow> RecoverySignature" where
  "new_recovery_signature namespace v public_key =
     \<lparr>rsig_format = SIGNATURE_FORMAT, rsig_namespace = namespace, rsig_value = v,
      rsig_public_key_format = PUBLIC_KEY_FORMAT, rsig_public_key = public_key\<rparr>"

definition authority_sign_step ::
  "'z ext_scheme \<Rightarrow> bytes \<Rightarrow> string list \<Rightarrow> string \<Rightarrow> string list \<times> (string \<times> RecoverySignature) list \<Rightarrow>
     RecoverySigner \<Rightarrow> (string list \<times> (string \<times> RecoverySignature) list) res" where
  "authority_sign_step E payload allowed namespace s signer =
     (case s of (seen, collected) \<Rightarrow>
     and_then (normalize_public_key E (signer_public_key signer)) (\<lambda>public_key.
     and_then (public_key_fingerprint E public_key) (\<lambda>fingerprint.
     if fingerprint \<notin> set allowed then invalid_proof (AuthorityReason SigningKeyNotAuthorized)
     else if fingerprint \<in> set seen then invalid_proof (AuthorityReason AuthorityKeyCountedTwice)
     else and_then (sshsig_sign E payload (signer_private_key_path signer) namespace) (\<lambda>v.
     and_then (sshsig_verify E payload v public_key namespace) (\<lambda>_.
     Ok (insort fingerprint seen, collected @ [(fingerprint, new_recovery_signature namespace v public_key)]))))))"

definition sign_with_authorities ::
  "'z ext_scheme \<Rightarrow> bytes \<Rightarrow> RecoverySigner list \<Rightarrow> string list \<Rightarrow> nat \<Rightarrow> bool \<Rightarrow> string \<Rightarrow> RecoverySignature list res" where
  "sign_with_authorities E payload signers allowed_fingerprints minimum require_all namespace =
     (if length signers < minimum \<or> length allowed_fingerprints < length signers
      then invalid_proof (AuthorityReason (SignatureSetSize minimum (length allowed_fingerprints)))
      else let allowed = sort (remdups allowed_fingerprints)
      in and_then (try_fold (authority_sign_step E payload allowed namespace) ([], []) signers) (\<lambda>(seen, collected).
         if require_all \<and> length seen \<noteq> length allowed
         then invalid_proof (AuthorityReason NewAuthoritiesMustSign)
         else Ok (map snd (sort_key fst collected))))"

definition sign_one :: "'z ext_scheme \<Rightarrow> bytes \<Rightarrow> string \<Rightarrow> string \<Rightarrow> string \<Rightarrow> RecoverySignature res" where
  "sign_one E payload private_key_path public_key namespace =
     and_then (normalize_public_key E public_key) (\<lambda>public_key.
     and_then (sshsig_sign E payload private_key_path namespace) (\<lambda>v.
     and_then (sshsig_verify E payload v public_key namespace) (\<lambda>_.
     Ok (new_recovery_signature namespace v public_key))))"

section \<open>Policy proofs\<close>

definition create_initial_recovery_policy_proof ::
  "'z policy_ext_scheme \<Rightarrow> RecoveryPolicyStatement \<Rightarrow> RecoverySigner list \<Rightarrow> RecoveryPolicyProof res" where
  "create_initial_recovery_policy_proof E statement signers =
     (if ps_policy_version statement \<noteq> 1 \<or> ps_previous_policy_sha256 statement \<noteq> None
      then invalid_proof (AuthorityReason EnrollmentNeedsVersionOne)
      else and_then (canonical_recovery_policy_statement_bytes E statement) (\<lambda>payload.
      and_then (sign_with_authorities E payload signers (ps_recovery_key_fingerprints statement)
        (length (ps_recovery_key_fingerprints statement)) True RECOVERY_POLICY_ENROLLMENT_NAMESPACE) (\<lambda>signatures.
      Ok \<lparr>pp_schema = RECOVERY_POLICY_PROOF_SCHEMA, pp_payload = base64url_encode E payload,
          pp_authorization = Enrollment signatures\<rparr>)))"

definition create_recovery_policy_update_proof ::
  "'z policy_ext_scheme \<Rightarrow> RecoveryPolicyStatement \<Rightarrow> VerifiedRecoveryPolicy \<Rightarrow> RecoverySigner list \<Rightarrow>
     RecoverySigner list \<Rightarrow> RecoveryPolicyProof res" where
  "create_recovery_policy_update_proof E statement previous previous_signers current_signers =
     and_then (validate_policy_successor E previous statement) (\<lambda>_.
     and_then (canonical_recovery_policy_statement_bytes E statement) (\<lambda>payload.
     and_then (sign_with_authorities E payload previous_signers
       (ps_recovery_key_fingerprints (vp_statement previous)) (unat (ps_threshold (vp_statement previous))) False
       RECOVERY_POLICY_UPDATE_PREVIOUS_NAMESPACE) (\<lambda>previous_policy_signatures.
     and_then (sign_with_authorities E payload current_signers (ps_recovery_key_fingerprints statement)
       (length (ps_recovery_key_fingerprints statement)) True
       RECOVERY_POLICY_UPDATE_CURRENT_NAMESPACE) (\<lambda>current_policy_signatures.
     Ok \<lparr>pp_schema = RECOVERY_POLICY_PROOF_SCHEMA, pp_payload = base64url_encode E payload,
         pp_authorization = Update previous_policy_signatures current_policy_signatures\<rparr>))))"

definition preflight_recovery_policy_proof ::
  "'z policy_ext_scheme \<Rightarrow> RecoveryPolicyProof \<Rightarrow> (bytes \<times> RecoveryPolicyStatement) res" where
  "preflight_recovery_policy_proof E proof =
     and_then (require_proof_schema (pp_schema proof) RECOVERY_POLICY_PROOF_SCHEMA) (\<lambda>_.
     and_then (decode_continuity_payload E (pp_payload proof)) (\<lambda>payload.
     and_then (map_err (\<lambda>r. InvalidContinuityStatement (StatementJson r))
       (parse_bounded_json (policy_from_json E) payload MAX_CONTINUITY_PAYLOAD_BYTES RecoveryPolicyStatementDoc)) (\<lambda>statement.
     and_then (canonical_recovery_policy_statement_bytes E statement) (\<lambda>canonical.
     if canonical \<noteq> payload then Err NonCanonicalContinuityStatement
     else and_then
       (case pp_authorization proof of
          Enrollment signatures \<Rightarrow>
            if ps_policy_version statement \<noteq> 1 \<or> ps_previous_policy_sha256 statement \<noteq> None
            then invalid_proof (AuthorityReason EnrollmentNeedsVersionOne)
            else preflight_authority_signatures E signatures (ps_recovery_key_fingerprints statement)
              (length (ps_recovery_key_fingerprints statement)) True RECOVERY_POLICY_ENROLLMENT_NAMESPACE
        | Update previous_policy_signatures current_policy_signatures \<Rightarrow>
            if ps_policy_version statement \<le> 1 \<or> ps_previous_policy_sha256 statement = None
            then invalid_proof (AuthorityReason UpdateNeedsPredecessor)
            else and_then (preflight_unbound_signature_set E previous_policy_signatures
              RECOVERY_POLICY_UPDATE_PREVIOUS_NAMESPACE) (\<lambda>_.
            preflight_authority_signatures E current_policy_signatures (ps_recovery_key_fingerprints statement)
              (unat (ps_threshold statement)) False RECOVERY_POLICY_UPDATE_CURRENT_NAMESPACE)) (\<lambda>_.
     Ok (payload, statement))))))"

definition validate_recovery_policy_proof_structure :: "'z policy_ext_scheme \<Rightarrow> RecoveryPolicyProof \<Rightarrow> unit res" where
  "validate_recovery_policy_proof_structure E proof =
     and_then (preflight_recovery_policy_proof E proof) (\<lambda>_. Ok ())"

definition parse_recovery_policy_proof_bytes :: "'z policy_ext_scheme \<Rightarrow> bytes \<Rightarrow> RecoveryPolicyProof res" where
  "parse_recovery_policy_proof_bytes E bs =
     and_then (map_err (\<lambda>r. InvalidContinuityProof (ProofJson r))
       (parse_bounded_json (policy_proof_from_json E) bs MAX_PROOF_BYTES RecoveryPolicyProofDoc)) (\<lambda>proof.
     and_then (preflight_recovery_policy_proof E proof) (\<lambda>_. Ok proof))"

definition verify_recovery_policy_proof ::
  "'z policy_ext_scheme \<Rightarrow> VerifiedPersonaRoot \<Rightarrow> VerifiedRecoveryPolicy option \<Rightarrow> RecoveryPolicyProof \<Rightarrow>
     VerifiedRecoveryPolicy res" where
  "verify_recovery_policy_proof E root previous proof =
     and_then (preflight_recovery_policy_proof E proof) (\<lambda>(payload, statement).
     and_then (validate_policy_root_binding root statement) (\<lambda>_.
     and_then
       (case previous of
          None \<Rightarrow>
            (case pp_authorization proof of
               Enrollment signatures \<Rightarrow>
                 if ps_policy_version statement \<noteq> 1 \<or> ps_previous_policy_sha256 statement \<noteq> None
                 then invalid_proof (AuthorityReason EnrollmentNeedsVersionOne)
                 else and_then (verify_authority_signatures E payload signatures
                   (ps_recovery_key_fingerprints statement) (length (ps_recovery_key_fingerprints statement)) True
                   RECOVERY_POLICY_ENROLLMENT_NAMESPACE) (\<lambda>current. Ok ([], current))
             | Update _ _ \<Rightarrow> invalid_proof (AuthorityReason InitialPolicyUsesUpdate))
        | Some previous \<Rightarrow>
            (case pp_authorization proof of
               Update previous_policy_signatures current_policy_signatures \<Rightarrow>
                 and_then (validate_policy_successor E previous statement) (\<lambda>_.
                 and_then (verify_authority_signatures E payload previous_policy_signatures
                   (ps_recovery_key_fingerprints (vp_statement previous))
                   (unat (ps_threshold (vp_statement previous))) False
                   RECOVERY_POLICY_UPDATE_PREVIOUS_NAMESPACE) (\<lambda>previous_fingerprints.
                 and_then (verify_authority_signatures E payload current_policy_signatures
                   (ps_recovery_key_fingerprints statement) (unat (ps_threshold statement)) False
                   RECOVERY_POLICY_UPDATE_CURRENT_NAMESPACE) (\<lambda>current_fingerprints.
                 Ok (previous_fingerprints, current_fingerprints))))
             | Enrollment _ \<Rightarrow> invalid_proof (AuthorityReason SuccessorPolicyUsesEnrollment))) (\<lambda>(previous_fingerprints, current_fingerprints).
     Ok \<lparr>vp_statement = statement, vp_policy_statement_sha256 = sha256_hex E payload,
         vp_previous_authorization_fingerprints = previous_fingerprints,
         vp_current_authorization_fingerprints = current_fingerprints\<rparr>)))"

definition verify_initial_recovery_policy_proof ::
  "'z policy_ext_scheme \<Rightarrow> VerifiedPersonaRoot \<Rightarrow> RecoveryPolicyProof \<Rightarrow> VerifiedRecoveryPolicy res" where
  "verify_initial_recovery_policy_proof E root proof = verify_recovery_policy_proof E root None proof"

definition verify_recovery_policy_update_proof ::
  "'z policy_ext_scheme \<Rightarrow> VerifiedPersonaRoot \<Rightarrow> VerifiedRecoveryPolicy \<Rightarrow> RecoveryPolicyProof \<Rightarrow>
     VerifiedRecoveryPolicy res" where
  "verify_recovery_policy_update_proof E root previous proof = verify_recovery_policy_proof E root (Some previous) proof"

section \<open>Policy chains\<close>

definition list_last :: "'a list \<Rightarrow> 'a option" where
  "list_last xs = (if xs = [] then None else Some (last xs))"

definition policy_sequence_step ::
  "'z policy_ext_scheme \<Rightarrow> VerifiedPersonaRoot \<Rightarrow> VerifiedRecoveryPolicy list \<Rightarrow> RecoveryPolicyProof \<Rightarrow>
     VerifiedRecoveryPolicy list res" where
  "policy_sequence_step E root verified proof =
     and_then (verify_recovery_policy_proof E root (list_last verified) proof) (\<lambda>policy.
     Ok (verified @ [policy]))"

definition verify_recovery_policy_proof_sequence ::
  "'z policy_ext_scheme \<Rightarrow> VerifiedPersonaRoot \<Rightarrow> RecoveryPolicyProof list \<Rightarrow> VerifiedRecoveryPolicy list res" where
  "verify_recovery_policy_proof_sequence E root policies =
     (if policies = [] \<or> MAX_RECOVERY_POLICY_VERSIONS < length policies
      then chain_mismatch (PolicyChainReason PolicyChainLength)
      else try_fold (policy_sequence_step E root) [] policies)"

record VerifiedRecoveryPolicySequence =
  vps_root :: VerifiedPersonaRoot
  vps_policies :: "VerifiedRecoveryPolicy list"

definition verified_recovery_policy_sequence ::
  "'z policy_ext_scheme \<Rightarrow> PersonaRootProof \<Rightarrow> RecoveryPolicyProof list \<Rightarrow> string \<Rightarrow> string \<Rightarrow>
     VerifiedRecoveryPolicySequence res" where
  "verified_recovery_policy_sequence E root_proof policies expected_root_statement_sha256
     expected_latest_policy_sha256 =
     and_then (validate_sha256 ExpectedRootDigest expected_root_statement_sha256) (\<lambda>_.
     and_then (validate_sha256 ExpectedPolicyDigest expected_latest_policy_sha256) (\<lambda>_.
     and_then (verify_persona_root_proof E root_proof) (\<lambda>root.
     if vr_root_statement_sha256 root \<noteq> expected_root_statement_sha256
     then chain_mismatch (LinkReason RootDigestUnexpected)
     else and_then (verify_recovery_policy_proof_sequence E root policies) (\<lambda>verified.
     if vp_policy_statement_sha256 (last verified) \<noteq> expected_latest_policy_sha256
     then chain_mismatch (PolicyChainReason LatestPolicyUnexpected)
     else Ok \<lparr>vps_root = root, vps_policies = verified\<rparr>))))"

definition policy_time_status :: "RecoveryPolicyStatement \<Rightarrow> i64 \<Rightarrow> RecoveryPolicyTimeStatus" where
  "policy_time_status statement checked_at =
     (if checked_at < ps_issued_at statement then NotYetValid
      else if ps_expires_at statement \<le> checked_at then Expired
      else Active)"

definition recovery_policy_chain_report ::
  "VerifiedRecoveryPolicySequence \<Rightarrow> i64 \<Rightarrow> RecoveryPolicyChainReport res" where
  "recovery_policy_chain_report chain checked_at =
     and_then (validate_jcs_time PolicyCheckTime checked_at) (\<lambda>_.
     let initial = hd (vps_policies chain); latest = last (vps_policies chain); root = vps_root chain
     in Ok \<lparr>pr_root_signature = Verified, pr_expected_root_digest = Verified, pr_enrollment_proof = Verified,
         pr_update_chain = Verified, pr_expected_latest_policy_digest = Verified,
         pr_persona = rs_persona (vr_statement root), pr_persona_anchor = rs_persona_anchor (vr_statement root),
         pr_root_statement_sha256 = vr_root_statement_sha256 root,
         pr_initial_policy_sha256 = vp_policy_statement_sha256 initial,
         pr_latest_policy_sha256 = vp_policy_statement_sha256 latest,
         pr_latest_policy_version = ps_policy_version (vp_statement latest),
         pr_threshold = ps_threshold (vp_statement latest),
         pr_authority_count = of_nat (length (ps_recovery_key_fingerprints (vp_statement latest))),
         pr_latest_checkpoint_sequence = cp_transition_sequence (ps_continuity_checkpoint (vp_statement latest)),
         pr_latest_checkpoint_sha256 = cp_transition_sha256 (ps_continuity_checkpoint (vp_statement latest)),
         pr_checkpoint_against_transition_chain = ''not_checked_without_transition_chain'',
         pr_issued_at = ps_issued_at (vp_statement latest), pr_expires_at = ps_expires_at (vp_statement latest),
         pr_checked_at = checked_at, pr_time_status = policy_time_status (vp_statement latest) checked_at,
         pr_not_established =
           [''when_or_how_the_root_and_latest_policy_digests_were_pinned'',
            ''whether_a_newer_policy_was_withheld_from_the_verifier'',
            ''whether_policy_checkpoints_match_the_transition_chain'',
            ''a_trusted_timestamp_for_policy_issuance'',
            ''the_legal_identity_or_independence_of_recovery_key_holders'',
            ''artifact_or_software_safety'']\<rparr>)"

definition verify_recovery_policy_chain_with_verified_sequence ::
  "'z policy_ext_scheme \<Rightarrow> PersonaRootProof \<Rightarrow> RecoveryPolicyProof list \<Rightarrow> string \<Rightarrow> string \<Rightarrow> i64 \<Rightarrow>
     VerifiedRecoveryPolicyChain res" where
  "verify_recovery_policy_chain_with_verified_sequence E root_proof policies expected_root_statement_sha256
     expected_latest_policy_sha256 checked_at =
     and_then (verified_recovery_policy_sequence E root_proof policies expected_root_statement_sha256
       expected_latest_policy_sha256) (\<lambda>sequence.
     and_then (recovery_policy_chain_report sequence checked_at) (\<lambda>report.
     Ok \<lparr>vpc_root = vps_root sequence, vpc_policies = vps_policies sequence, vpc_report = report\<rparr>))"

definition verify_recovery_policy_chain ::
  "'z policy_ext_scheme \<Rightarrow> PersonaRootProof \<Rightarrow> RecoveryPolicyProof list \<Rightarrow> string \<Rightarrow> string \<Rightarrow> i64 \<Rightarrow>
     RecoveryPolicyChainReport res" where
  "verify_recovery_policy_chain E root_proof policies expected_root_statement_sha256
     expected_latest_policy_sha256 checked_at =
     and_then (verify_recovery_policy_chain_with_verified_sequence E root_proof policies
       expected_root_statement_sha256 expected_latest_policy_sha256 checked_at) (\<lambda>chain. Ok (vpc_report chain))"

section \<open>What a valid policy statement is\<close>

lemma fingerprint_order_Ok_iff:
  "try_fold (fingerprint_order_step E) p fs = Ok r \<longleftrightarrow>
     (\<forall>f\<in>set fs. validate_key_fingerprint E f = Ok ()) \<and> sorted_wrt (<) fs \<and>
     (case p of None \<Rightarrow> True | Some v \<Rightarrow> \<forall>f\<in>set fs. v < f) \<and>
     r = (if fs = [] then p else Some (last fs))"
proof (induction fs arbitrary: p)
  case (Cons f fs)
  have "try_fold (fingerprint_order_step E) p (f # fs) = Ok r \<longleftrightarrow>
    validate_key_fingerprint E f = Ok () \<and> (case p of None \<Rightarrow> True | Some v \<Rightarrow> v < f) \<and>
    try_fold (fingerprint_order_step E) (Some f) fs = Ok r"
    by (auto simp: fingerprint_order_step_def not_le split: option.splits)
  also have "\<dots> \<longleftrightarrow> (\<forall>g\<in>set (f # fs). validate_key_fingerprint E g = Ok ()) \<and> sorted_wrt (<) (f # fs) \<and>
     (case p of None \<Rightarrow> True | Some v \<Rightarrow> \<forall>g\<in>set (f # fs). v < g) \<and> r = Some (last (f # fs))"
    unfolding Cons.IH by (cases p) (auto intro: less_trans)
  finally show ?case by simp
qed (auto split: option.splits)

lemma valid_policy_facts:
  assumes "validate_recovery_policy_statement E s = Ok ()"
  shows "2 \<le> unat (ps_threshold s)" "unat (ps_threshold s) \<le> length (ps_recovery_key_fingerprints s)"
    "length (ps_recovery_key_fingerprints s) \<le> 32"
    "sorted_wrt (<) (ps_recovery_key_fingerprints s)"
    "\<forall>f\<in>set (ps_recovery_key_fingerprints s). validate_key_fingerprint E f = Ok ()"
    "ps_policy_version s \<noteq> 0" "ps_previous_policy_sha256 s = None \<longleftrightarrow> ps_policy_version s = 1"
    "ps_issued_at s < ps_expires_at s" "ps_expires_at s - ps_issued_at s \<le> MAX_RECOVERY_POLICY_VALIDITY_SECONDS"
  using assms
  by (auto simp: validate_recovery_policy_statement_def fingerprint_order_Ok_iff MIN_RECOVERY_AUTHORITIES_def
      MAX_RECOVERY_AUTHORITIES_def i64_checked_sub_def not_less not_le split: if_splits option.splits)

lemma valid_policy_capabilities:
  assumes "validate_recovery_policy_statement E s = Ok ()"
  shows "sorted_wrt (<) (ps_capabilities s)"
    and "ps_schema s = RECOVERY_POLICY_STATEMENT_SCHEMA \<or> ps_schema s = RECOVERY_POLICY_STATEMENT_SCHEMA_V2"
    and "ps_schema s = RECOVERY_POLICY_STATEMENT_SCHEMA \<longleftrightarrow> ps_capabilities s = []"
proof -
  have neq: "RECOVERY_POLICY_STATEMENT_SCHEMA \<noteq> RECOVERY_POLICY_STATEMENT_SCHEMA_V2"
    by (simp add: RECOVERY_POLICY_STATEMENT_SCHEMA_def RECOVERY_POLICY_STATEMENT_SCHEMA_V2_def)
  show "sorted_wrt (<) (ps_capabilities s)"
    "ps_schema s = RECOVERY_POLICY_STATEMENT_SCHEMA \<or> ps_schema s = RECOVERY_POLICY_STATEMENT_SCHEMA_V2"
    "ps_schema s = RECOVERY_POLICY_STATEMENT_SCHEMA \<longleftrightarrow> ps_capabilities s = []"
    using assms neq no_window_ge_iff [of "ps_capabilities s"]
    by (auto simp: validate_recovery_policy_statement_def split: if_splits)
qed

text \<open>The binary search over the capabilities of a valid statement is membership.\<close>

lemma authorizes_iff:
  assumes "validate_recovery_policy_statement E s = Ok ()"
  shows "authorizes s c \<longleftrightarrow> c \<in> set (effective_capabilities s)"
  using binary_search_iff [OF sorted_wrt_less_sorted [OF valid_policy_capabilities(1) [OF assms]], of c]
  by (simp add: authorizes_def effective_capabilities_def)

lemma recovery_key_search_iff:
  assumes "validate_recovery_policy_statement E s = Ok ()"
  shows "is_Ok (binary_search (ps_recovery_key_fingerprints s) f) \<longleftrightarrow> f \<in> set (ps_recovery_key_fingerprints s)"
  using binary_search_iff [OF sorted_wrt_less_sorted [OF valid_policy_facts(4) [OF assms]]] .

section \<open>Threshold signatures\<close>

text \<open>One signature of a set: the key it names, with its fingerprint, signed the payload.\<close>

definition authority_signed :: "'z ext_scheme \<Rightarrow> bytes \<Rightarrow> string \<Rightarrow> RecoverySignature \<Rightarrow> string \<Rightarrow> bool" where
  "authority_signed E payload namespace signature fingerprint \<longleftrightarrow>
     (\<exists>key. validate_recovery_signature E signature namespace = Ok key \<and>
        public_key_fingerprint E key = Ok fingerprint \<and>
        sshsig_verify E payload (rsig_value signature) key namespace = Ok ())"

definition check_ok :: "'z ext_scheme \<Rightarrow> string \<Rightarrow> RecoverySignature \<Rightarrow> RecoverySignatureCheck \<Rightarrow> bool" where
  "check_ok E namespace signature check \<longleftrightarrow>
     rc_signature check = signature \<and>
     validate_recovery_signature E signature namespace = Ok (rc_public_key check) \<and>
     public_key_fingerprint E (rc_public_key check) = Ok (rc_fingerprint check)"

lemma unbound_fold_Ok_iff:
  "try_fold (unbound_signature_step E namespace) s signatures = Ok t \<longleftrightarrow>
     (\<exists>checks. list_all2 (check_ok E namespace) signatures checks \<and>
        distinct (map rc_fingerprint checks) \<and>
        set (map rc_fingerprint checks) \<inter> set (ap_fingerprints s) = {} \<and>
        ap_checks t = ap_checks s @ checks \<and>
        ap_fingerprints t = foldl (\<lambda>fs f. insort f fs) (ap_fingerprints s) (map rc_fingerprint checks))"
  (is "?L signatures s \<longleftrightarrow> ?R signatures s")
proof (induction signatures arbitrary: s)
  case Nil
  show ?case by (cases s; cases t) auto
next
  case (Cons x xs)
  have "?L (x # xs) s \<longleftrightarrow> (\<exists>c. check_ok E namespace x c \<and> rc_fingerprint c \<notin> set (ap_fingerprints s) \<and>
      ?L xs \<lparr>ap_checks = ap_checks s @ [c], ap_fingerprints = insort (rc_fingerprint c) (ap_fingerprints s)\<rparr>)"
  proof
    assume "?L (x # xs) s"
    then obtain key f where "validate_recovery_signature E x namespace = Ok key" "public_key_fingerprint E key = Ok f"
      "f \<notin> set (ap_fingerprints s)"
      "?L xs \<lparr>ap_checks = ap_checks s @ [\<lparr>rc_signature = x, rc_public_key = key, rc_fingerprint = f\<rparr>],
         ap_fingerprints = insort f (ap_fingerprints s)\<rparr>" by (auto simp: unbound_signature_step_def)
    then show "\<exists>c. check_ok E namespace x c \<and> rc_fingerprint c \<notin> set (ap_fingerprints s) \<and>
      ?L xs \<lparr>ap_checks = ap_checks s @ [c], ap_fingerprints = insort (rc_fingerprint c) (ap_fingerprints s)\<rparr>"
      by (intro exI [of _ "\<lparr>rc_signature = x, rc_public_key = key, rc_fingerprint = f\<rparr>"]) (simp add: check_ok_def)
  next
    assume "\<exists>c. check_ok E namespace x c \<and> rc_fingerprint c \<notin> set (ap_fingerprints s) \<and>
      ?L xs \<lparr>ap_checks = ap_checks s @ [c], ap_fingerprints = insort (rc_fingerprint c) (ap_fingerprints s)\<rparr>"
    then obtain c where c: "check_ok E namespace x c" "rc_fingerprint c \<notin> set (ap_fingerprints s)"
      "?L xs \<lparr>ap_checks = ap_checks s @ [c], ap_fingerprints = insort (rc_fingerprint c) (ap_fingerprints s)\<rparr>" by blast
    then show "?L (x # xs) s" by (cases c) (auto simp: unbound_signature_step_def check_ok_def)
  qed
  also have "\<dots> \<longleftrightarrow> ?R (x # xs) s"
    unfolding Cons.IH by (auto simp: list_all2_Cons1 set_insort_key Int_Un_distrib)
  finally show ?case .
qed

lemma foldl_insort: "sorted acc \<Longrightarrow> foldl (\<lambda>fs f. insort f fs) acc xs = sort (acc @ xs)"
proof (induction xs arbitrary: acc)
  case Nil
  then show ?case by (simp add: sorted_sort_id)
next
  case (Cons x xs)
  have "sorted (insort x acc)" using Cons.prems by (simp add: sorted_insort)
  from Cons.IH [OF this] have "foldl (\<lambda>fs f. insort f fs) acc (x # xs) = sort (insort x acc @ xs)" by simp
  also have "\<dots> = sort (acc @ x # xs)" by (rule properties_for_sort [symmetric]) simp_all
  finally show ?case .
qed

lemma preflight_unbound_Ok_iff:
  "preflight_unbound_signature_set E signatures namespace = Ok t \<longleftrightarrow>
     2 \<le> length signatures \<and> length signatures \<le> 32 \<and>
     list_all2 (check_ok E namespace) signatures (ap_checks t) \<and>
     distinct (map rc_fingerprint (ap_checks t)) \<and>
     ap_fingerprints t = sort (map rc_fingerprint (ap_checks t))"
  by (auto simp: preflight_unbound_signature_set_def unbound_fold_Ok_iff foldl_insort
      MIN_RECOVERY_AUTHORITIES_def MAX_RECOVERY_AUTHORITIES_def)

lemma check_ok_signed:
  "check_ok E ns s c \<Longrightarrow> sshsig_verify E payload (rsig_value (rc_signature c)) (rc_public_key c) ns = Ok () \<Longrightarrow>
     authority_signed E payload ns s (rc_fingerprint c)"
  by (auto simp: check_ok_def authority_signed_def)

text \<open>
  The specification of a signature set: every signature is by a different allowed authority, there
  are enough of them, and the result is the sorted list of who signed.
\<close>

definition authority_quorum ::
  "'z ext_scheme \<Rightarrow> bytes \<Rightarrow> string \<Rightarrow> RecoverySignature list \<Rightarrow> string list \<Rightarrow> nat \<Rightarrow> bool \<Rightarrow> string list \<Rightarrow> bool" where
  "authority_quorum E payload namespace signatures allowed minimum require_all fingerprints \<longleftrightarrow>
     minimum \<le> length signatures \<and> length signatures \<le> length allowed \<and>
     2 \<le> length signatures \<and> length signatures \<le> 32 \<and>
     (\<exists>fs. list_all2 (authority_signed E payload namespace) signatures fs \<and> distinct fs \<and>
        set fs \<subseteq> set allowed \<and> (require_all \<longrightarrow> set fs = set allowed) \<and> fingerprints = sort fs)"

lemma authority_signed_check:
  assumes "authority_signed E payload ns s f"
  obtains c where "check_ok E ns s c" "rc_fingerprint c = f"
    "sshsig_verify E payload (rsig_value (rc_signature c)) (rc_public_key c) ns = Ok ()"
proof -
  from assms obtain key where key: "validate_recovery_signature E s ns = Ok key" "public_key_fingerprint E key = Ok f"
    "sshsig_verify E payload (rsig_value s) key ns = Ok ()" by (auto simp: authority_signed_def)
  show ?thesis
    by (rule that [of "\<lparr>rc_signature = s, rc_public_key = key, rc_fingerprint = f\<rparr>"]) (use key in \<open>simp_all add: check_ok_def\<close>)
qed

lemma signed_list_checks:
  "list_all2 (authority_signed E payload ns) ss fs \<longleftrightarrow>
     (\<exists>cs. list_all2 (check_ok E ns) ss cs \<and> map rc_fingerprint cs = fs \<and>
       (\<forall>c\<in>set cs. sshsig_verify E payload (rsig_value (rc_signature c)) (rc_public_key c) ns = Ok ()))"
proof (induction ss arbitrary: fs)
  case (Cons s ss)
  show ?case
  proof
    assume "list_all2 (authority_signed E payload ns) (s # ss) fs"
    then obtain f gs where f: "fs = f # gs" "authority_signed E payload ns s f"
      "list_all2 (authority_signed E payload ns) ss gs" by (auto simp: list_all2_Cons1)
    from f(2) obtain c where "check_ok E ns s c" "rc_fingerprint c = f"
      "sshsig_verify E payload (rsig_value (rc_signature c)) (rc_public_key c) ns = Ok ()"
      by (rule authority_signed_check)
    moreover from f(3) Cons.IH [of gs] obtain cs where "list_all2 (check_ok E ns) ss cs" "map rc_fingerprint cs = gs"
      "\<forall>c\<in>set cs. sshsig_verify E payload (rsig_value (rc_signature c)) (rc_public_key c) ns = Ok ()" by blast
    ultimately show "\<exists>cs. list_all2 (check_ok E ns) (s # ss) cs \<and> map rc_fingerprint cs = fs \<and>
       (\<forall>c\<in>set cs. sshsig_verify E payload (rsig_value (rc_signature c)) (rc_public_key c) ns = Ok ())"
      using f(1) by (intro exI [of _ "c # cs"]) auto
  next
    assume "\<exists>cs. list_all2 (check_ok E ns) (s # ss) cs \<and> map rc_fingerprint cs = fs \<and>
       (\<forall>c\<in>set cs. sshsig_verify E payload (rsig_value (rc_signature c)) (rc_public_key c) ns = Ok ())"
    then show "list_all2 (authority_signed E payload ns) (s # ss) fs"
      using Cons.IH by (auto simp: list_all2_Cons1 intro: check_ok_signed)
  qed
qed auto

lemma verify_authority_checks_iff:
  assumes "distinct allowed"
  shows "verify_authority_signatures E payload signatures allowed minimum require_all namespace = Ok fingerprints \<longleftrightarrow>
    minimum \<le> length signatures \<and> length signatures \<le> length allowed \<and>
    2 \<le> length signatures \<and> length signatures \<le> 32 \<and>
    (\<exists>cs. list_all2 (check_ok E namespace) signatures cs \<and> distinct (map rc_fingerprint cs) \<and>
       (\<forall>c\<in>set cs. rc_fingerprint c \<in> set allowed) \<and>
       (require_all \<longrightarrow> length (sort (map rc_fingerprint cs)) = length allowed) \<and>
       (\<forall>c\<in>set cs. sshsig_verify E payload (rsig_value (rc_signature c)) (rc_public_key c) namespace = Ok ()) \<and>
       fingerprints = sort (map rc_fingerprint cs))"
    (is "?L \<longleftrightarrow> ?R")
proof
  have len: "length (remdups allowed) = length allowed" using assms by (simp add: distinct_remdups_id)
  show ?R if ?L using that
    by (auto simp: verify_authority_signatures_def preflight_authority_signatures_def Let_def
        preflight_unbound_Ok_iff len not_less)
  assume ?R
  then obtain cs where "?R" "list_all2 (check_ok E namespace) signatures cs" "distinct (map rc_fingerprint cs)"
     "\<forall>c\<in>set cs. rc_fingerprint c \<in> set allowed"
     "require_all \<longrightarrow> length (sort (map rc_fingerprint cs)) = length allowed"
     "\<forall>c\<in>set cs. sshsig_verify E payload (rsig_value (rc_signature c)) (rc_public_key c) namespace = Ok ()"
     "fingerprints = sort (map rc_fingerprint cs)" by blast
  then show ?L
    by (auto simp: verify_authority_signatures_def preflight_authority_signatures_def Let_def
        preflight_unbound_Ok_iff len not_less
        intro!: exI [of _ "\<lparr>ap_checks = cs, ap_fingerprints = fingerprints\<rparr>"])
qed

lemma verify_authority_signatures_iff:
  assumes "distinct allowed"
  shows "verify_authority_signatures E payload signatures allowed minimum require_all namespace = Ok fingerprints \<longleftrightarrow>
    authority_quorum E payload namespace signatures allowed minimum require_all fingerprints"
proof -
  have all: "set fs = set allowed \<longleftrightarrow> length (sort fs) = length allowed" if "distinct fs" "set fs \<subseteq> set allowed" for fs
    using that assms by (metis card_seteq card_subset_eq distinct_card finite_set length_sort order_refl)
  have "distinct (map rc_fingerprint cs) \<and> (\<forall>c\<in>set cs. rc_fingerprint c \<in> set allowed) \<and>
      (require_all \<longrightarrow> length (sort (map rc_fingerprint cs)) = length allowed) \<longleftrightarrow>
    distinct (map rc_fingerprint cs) \<and> set (map rc_fingerprint cs) \<subseteq> set allowed \<and>
      (require_all \<longrightarrow> set (map rc_fingerprint cs) = set allowed)" for cs
    using all [of "map rc_fingerprint cs"] by auto
  then show ?thesis
    unfolding verify_authority_checks_iff [OF assms] authority_quorum_def signed_list_checks by blast
qed

lemma authority_quorum_facts:
  assumes "authority_quorum E payload namespace signatures allowed minimum require_all fingerprints"
  shows "minimum \<le> length fingerprints" "sorted_wrt (<) fingerprints" "set fingerprints \<subseteq> set allowed"
    "require_all \<Longrightarrow> set fingerprints = set allowed"
    "\<And>f. f \<in> set fingerprints \<Longrightarrow> \<exists>s\<in>set signatures. authority_signed E payload namespace s f"
proof -
  obtain fs where fs: "minimum \<le> length signatures" "list_all2 (authority_signed E payload namespace) signatures fs"
    "distinct fs" "set fs \<subseteq> set allowed" "require_all \<longrightarrow> set fs = set allowed" "fingerprints = sort fs"
    using assms by (auto simp: authority_quorum_def)
  from fs(1,2,6) show "minimum \<le> length fingerprints" by (auto dest: list_all2_lengthD)
  from fs(3,6) show "sorted_wrt (<) fingerprints" by (simp add: strict_sorted_iff)
  from fs(4,6) show "set fingerprints \<subseteq> set allowed" by simp
  from fs(5,6) show "require_all \<Longrightarrow> set fingerprints = set allowed" by simp
  fix f assume "f \<in> set fingerprints"
  then have "f \<in> set fs" by (simp add: fs(6))
  with fs(2) show "\<exists>s\<in>set signatures. authority_signed E payload namespace s f"
    unfolding list_all2_conv_all_nth in_set_conv_nth [of f] by (metis nth_mem)
qed

section \<open>Policy histories\<close>

text \<open>
  What a sequence of policies is, independently of the proofs: the first is enrolled by all its
  authorities, and each later one is the next version, names the exact predecessor and is
  authorised by a threshold of the previous and a threshold of the new authorities.
\<close>

definition policy_enrolled :: "VerifiedRecoveryPolicy \<Rightarrow> bool" where
  "policy_enrolled p \<longleftrightarrow>
     ps_policy_version (vp_statement p) = 1 \<and> ps_previous_policy_sha256 (vp_statement p) = None \<and>
     set (vp_current_authorization_fingerprints p) = set (ps_recovery_key_fingerprints (vp_statement p))"

definition policy_succeeds :: "VerifiedRecoveryPolicy \<Rightarrow> VerifiedRecoveryPolicy \<Rightarrow> bool" where
  "policy_succeeds p q \<longleftrightarrow>
     unat (ps_policy_version (vp_statement q)) = unat (ps_policy_version (vp_statement p)) + 1 \<and>
     ps_previous_policy_sha256 (vp_statement q) = Some (vp_policy_statement_sha256 p) \<and>
     ps_issued_at (vp_statement p) \<le> ps_issued_at (vp_statement q) \<and>
     cp_transition_sequence (ps_continuity_checkpoint (vp_statement p))
       \<le> cp_transition_sequence (ps_continuity_checkpoint (vp_statement q)) \<and>
     (ps_schema (vp_statement p) = RECOVERY_POLICY_STATEMENT_SCHEMA_V2 \<longrightarrow>
       ps_schema (vp_statement q) = RECOVERY_POLICY_STATEMENT_SCHEMA_V2) \<and>
     set (vp_previous_authorization_fingerprints q) \<subseteq> set (ps_recovery_key_fingerprints (vp_statement p)) \<and>
     unat (ps_threshold (vp_statement p)) \<le> card (set (vp_previous_authorization_fingerprints q)) \<and>
     set (vp_current_authorization_fingerprints q) \<subseteq> set (ps_recovery_key_fingerprints (vp_statement q)) \<and>
     unat (ps_threshold (vp_statement q)) \<le> card (set (vp_current_authorization_fingerprints q))"

definition policy_history :: "VerifiedRecoveryPolicy list \<Rightarrow> bool" where
  "policy_history ps \<longleftrightarrow> (ps \<noteq> [] \<longrightarrow> policy_enrolled (hd ps)) \<and> successively policy_succeeds ps"

definition policy_bound :: "'z policy_ext_scheme \<Rightarrow> VerifiedPersonaRoot \<Rightarrow> VerifiedRecoveryPolicy \<Rightarrow> bool" where
  "policy_bound E root p \<longleftrightarrow>
     validate_recovery_policy_statement E (vp_statement p) = Ok () \<and>
     ps_persona_anchor (vp_statement p) = rs_persona_anchor (vr_statement root) \<and>
     ps_persona (vp_statement p) = rs_persona (vr_statement root) \<and>
     ps_root_statement_sha256 (vp_statement p) = vr_root_statement_sha256 root \<and>
     rs_issued_at (vr_statement root) \<le> ps_issued_at (vp_statement p) \<and>
     (\<exists>payload. canonical_recovery_policy_statement_bytes E (vp_statement p) = Ok payload \<and>
        policy_from_json E payload = Ok (vp_statement p) \<and>
        vp_policy_statement_sha256 p = sha256_hex E payload)"

lemma canonical_policy_Ok_iff:
  "canonical_recovery_policy_statement_bytes E s = Ok bs \<longleftrightarrow>
     validate_recovery_policy_statement E s = Ok () \<and> policy_to_jcs E s = Ok bs \<and>
     length bs \<le> MAX_CONTINUITY_PAYLOAD_BYTES"
  by (auto simp: canonical_recovery_policy_statement_bytes_def)

lemma preflight_policy_Ok:
  assumes "preflight_recovery_policy_proof E pf = Ok (payload, statement)"
  shows "decode_continuity_payload E (pp_payload pf) = Ok payload" "policy_from_json E payload = Ok statement"
    "canonical_recovery_policy_statement_bytes E statement = Ok payload"
    "validate_recovery_policy_statement E statement = Ok ()"
  using assms by (auto simp: preflight_recovery_policy_proof_def canonical_policy_Ok_iff)

lemma strict_sorted_card: "sorted_wrt (<) xs \<Longrightarrow> card (set xs) = length xs" for xs :: "'a::linorder list"
  by (simp add: distinct_card strict_sorted_iff)

lemma verified_policy_bound:
  assumes "verify_recovery_policy_proof E root previous pf = Ok p"
  shows "policy_bound E root p"
  using assms preflight_policy_Ok [of E pf]
  by (fastforce simp: verify_recovery_policy_proof_def policy_bound_def validate_policy_root_binding_def
      split: if_splits)

lemma verified_policy_payload:
  assumes "verify_recovery_policy_proof E root previous pf = Ok p"
  obtains payload where "decode_continuity_payload E (pp_payload pf) = Ok payload"
    "policy_from_json E payload = Ok (vp_statement p)" "vp_policy_statement_sha256 p = sha256_hex E payload"
  using assms preflight_policy_Ok [of E pf]
  by (fastforce simp: verify_recovery_policy_proof_def)

lemma verified_enrolment:
  assumes "verify_recovery_policy_proof E root None pf = Ok p"
  shows "policy_enrolled p"
    and "\<exists>signatures payload. pp_authorization pf = Enrollment signatures \<and>
      authority_quorum E payload RECOVERY_POLICY_ENROLLMENT_NAMESPACE signatures
        (ps_recovery_key_fingerprints (vp_statement p)) (length (ps_recovery_key_fingerprints (vp_statement p))) True
        (vp_current_authorization_fingerprints p) \<and>
      canonical_recovery_policy_statement_bytes E (vp_statement p) = Ok payload"
proof -
  obtain signatures payload where s: "pp_authorization pf = Enrollment signatures"
    "preflight_recovery_policy_proof E pf = Ok (payload, vp_statement p)"
    "ps_policy_version (vp_statement p) = 1" "ps_previous_policy_sha256 (vp_statement p) = None"
    "verify_authority_signatures E payload signatures (ps_recovery_key_fingerprints (vp_statement p))
       (length (ps_recovery_key_fingerprints (vp_statement p))) True RECOVERY_POLICY_ENROLLMENT_NAMESPACE
       = Ok (vp_current_authorization_fingerprints p)"
    using assms by (cases "pp_authorization pf") (auto simp: verify_recovery_policy_proof_def)
  have "distinct (ps_recovery_key_fingerprints (vp_statement p))"
    using valid_policy_facts(4) [OF preflight_policy_Ok(4) [OF s(2)]] by (simp add: strict_sorted_iff)
  from s(5) [unfolded verify_authority_signatures_iff [OF this]] have
    q: "authority_quorum E payload RECOVERY_POLICY_ENROLLMENT_NAMESPACE signatures
        (ps_recovery_key_fingerprints (vp_statement p)) (length (ps_recovery_key_fingerprints (vp_statement p))) True
        (vp_current_authorization_fingerprints p)" .
  with s show "policy_enrolled p" using authority_quorum_facts(4) [OF q] by (simp add: policy_enrolled_def)
  show "\<exists>signatures payload. pp_authorization pf = Enrollment signatures \<and>
      authority_quorum E payload RECOVERY_POLICY_ENROLLMENT_NAMESPACE signatures
        (ps_recovery_key_fingerprints (vp_statement p)) (length (ps_recovery_key_fingerprints (vp_statement p))) True
        (vp_current_authorization_fingerprints p) \<and>
      canonical_recovery_policy_statement_bytes E (vp_statement p) = Ok payload"
    using s q preflight_policy_Ok(3) [OF s(2)] by blast
qed

lemma verified_update_quorums:
  assumes "verify_recovery_policy_proof E root (Some q) pf = Ok p"
    and "validate_recovery_policy_statement E (vp_statement q) = Ok ()"
  shows "\<exists>previous current payload. pp_authorization pf = Update previous current \<and>
      validate_policy_successor E q (vp_statement p) = Ok () \<and>
      canonical_recovery_policy_statement_bytes E (vp_statement p) = Ok payload \<and>
      authority_quorum E payload RECOVERY_POLICY_UPDATE_PREVIOUS_NAMESPACE previous
        (ps_recovery_key_fingerprints (vp_statement q)) (unat (ps_threshold (vp_statement q))) False
        (vp_previous_authorization_fingerprints p) \<and>
      authority_quorum E payload RECOVERY_POLICY_UPDATE_CURRENT_NAMESPACE current
        (ps_recovery_key_fingerprints (vp_statement p)) (unat (ps_threshold (vp_statement p))) False
        (vp_current_authorization_fingerprints p)"
proof -
  obtain previous current payload where s: "pp_authorization pf = Update previous current"
    "preflight_recovery_policy_proof E pf = Ok (payload, vp_statement p)"
    "validate_policy_successor E q (vp_statement p) = Ok ()"
    "verify_authority_signatures E payload previous (ps_recovery_key_fingerprints (vp_statement q))
       (unat (ps_threshold (vp_statement q))) False RECOVERY_POLICY_UPDATE_PREVIOUS_NAMESPACE
       = Ok (vp_previous_authorization_fingerprints p)"
    "verify_authority_signatures E payload current (ps_recovery_key_fingerprints (vp_statement p))
       (unat (ps_threshold (vp_statement p))) False RECOVERY_POLICY_UPDATE_CURRENT_NAMESPACE
       = Ok (vp_current_authorization_fingerprints p)"
    using assms by (cases "pp_authorization pf") (auto simp: verify_recovery_policy_proof_def)
  have "distinct (ps_recovery_key_fingerprints (vp_statement p))" "distinct (ps_recovery_key_fingerprints (vp_statement q))"
    using valid_policy_facts(4) [OF preflight_policy_Ok(4) [OF s(2)]] valid_policy_facts(4) [OF assms(2)]
    by (auto simp: strict_sorted_iff)
  with s preflight_policy_Ok(3) [OF s(2)] show ?thesis by (auto simp: verify_authority_signatures_iff)
qed

lemma verified_update_succeeds:
  assumes "verify_recovery_policy_proof E root (Some q) pf = Ok p"
    and "validate_recovery_policy_statement E (vp_statement q) = Ok ()"
  shows "policy_succeeds q p"
proof -
  obtain previous current payload where u: "validate_policy_successor E q (vp_statement p) = Ok ()"
    and pq: "authority_quorum E payload RECOVERY_POLICY_UPDATE_PREVIOUS_NAMESPACE previous
        (ps_recovery_key_fingerprints (vp_statement q)) (unat (ps_threshold (vp_statement q))) False
        (vp_previous_authorization_fingerprints p)"
    and cq: "authority_quorum E payload RECOVERY_POLICY_UPDATE_CURRENT_NAMESPACE current
        (ps_recovery_key_fingerprints (vp_statement p)) (unat (ps_threshold (vp_statement p))) False
        (vp_current_authorization_fingerprints p)"
    using verified_update_quorums [OF assms] by blast
  show ?thesis
    using u authority_quorum_facts(1-3) [OF pq] authority_quorum_facts(1-3) [OF cq]
    by (auto simp: policy_succeeds_def validate_policy_successor_def Let_def strict_sorted_card
        checked_add_Some_iff not_less split: if_splits)
qed

definition policies_so_far ::
  "'z policy_ext_scheme \<Rightarrow> VerifiedPersonaRoot \<Rightarrow> RecoveryPolicyProof list \<Rightarrow> VerifiedRecoveryPolicy list \<Rightarrow> bool" where
  "policies_so_far E root seen ps \<longleftrightarrow>
     list_all2 (\<lambda>proof p. policy_bound E root p \<and>
       (\<exists>payload. decode_continuity_payload E (pp_payload proof) = Ok payload \<and>
          policy_from_json E payload = Ok (vp_statement p) \<and> vp_policy_statement_sha256 p = sha256_hex E payload)) seen ps \<and>
     policy_history ps"

lemma policy_history_snoc:
  "policy_history (ps @ [p]) \<longleftrightarrow>
     policy_history ps \<and> (if ps = [] then policy_enrolled p else policy_succeeds (last ps) p)"
  by (auto simp: policy_history_def successively_append_iff)

interpretation policy_loop: loop_invariant "policy_sequence_step E root" "policies_so_far E root" for E root
proof
  fix seen ps x qs
  assume so_far: "policies_so_far E root seen ps" and step: "policy_sequence_step E root ps x = Ok qs"
  from step obtain p where p: "verify_recovery_policy_proof E root (list_last ps) x = Ok p" "qs = ps @ [p]"
    by (auto simp: policy_sequence_step_def)
  have "if ps = [] then policy_enrolled p else policy_succeeds (last ps) p"
  proof (cases "ps = []")
    case True
    with p(1) verified_enrolment(1) show ?thesis by (auto simp: list_last_def)
  next
    case False
    then have "last ps \<in> set ps" by simp
    with so_far have "policy_bound E root (last ps)"
      unfolding policies_so_far_def list_all2_conv_all_nth in_set_conv_nth by metis
    with False p(1) verified_update_succeeds [of E root "last ps" x p] show ?thesis
      by (auto simp: list_last_def policy_bound_def)
  qed
  moreover obtain payload where "decode_continuity_payload E (pp_payload x) = Ok payload"
    "policy_from_json E payload = Ok (vp_statement p)" "vp_policy_statement_sha256 p = sha256_hex E payload"
    using p(1) by (rule verified_policy_payload)
  ultimately show "policies_so_far E root (seen @ [x]) qs" using so_far p(2) verified_policy_bound [OF p(1)]
    by (auto simp: policies_so_far_def policy_history_snoc intro!: list_all2_appendI)
qed

lemma verified_policy_sequence_Ok:
  assumes "verify_recovery_policy_proof_sequence E root proofs = Ok ps"
  shows "policies_so_far E root proofs ps" and "ps \<noteq> []" and "length ps \<le> MAX_RECOVERY_POLICY_VERSIONS"
proof -
  have fold: "try_fold (policy_sequence_step E root) [] proofs = Ok ps" "proofs \<noteq> []"
    "length proofs \<le> MAX_RECOVERY_POLICY_VERSIONS"
    using assms by (auto simp: verify_recovery_policy_proof_sequence_def not_less)
  have "policies_so_far E root [] []" by (simp add: policies_so_far_def policy_history_def)
  from policy_loop.loop_keeps_from_start [OF this fold(1)] show so_far: "policies_so_far E root proofs ps" .
  then have "length ps = length proofs" by (auto simp: policies_so_far_def dest: list_all2_lengthD)
  with fold show "ps \<noteq> []" "length ps \<le> MAX_RECOVERY_POLICY_VERSIONS" by auto
qed

lemma policy_history_versions:
  assumes "policy_history ps" and "i < length ps"
  shows "unat (ps_policy_version (vp_statement (ps ! i))) = i + 1"
  using assms
proof (induction i)
  case 0
  then show ?case by (cases ps) (auto simp: policy_history_def policy_enrolled_def)
next
  case (Suc i)
  then have "policy_succeeds (ps ! i) (ps ! Suc i)"
    by (auto simp: policy_history_def successively_conv_nth)
  with Suc show ?case by (simp add: policy_succeeds_def)
qed

lemma policy_history_monotone:
  assumes "policy_history ps" and "i \<le> j" and "j < length ps"
  shows "cp_transition_sequence (ps_continuity_checkpoint (vp_statement (ps ! i)))
      \<le> cp_transition_sequence (ps_continuity_checkpoint (vp_statement (ps ! j))) \<and>
    ps_issued_at (vp_statement (ps ! i)) \<le> ps_issued_at (vp_statement (ps ! j)) \<and>
    (ps_schema (vp_statement (ps ! i)) = RECOVERY_POLICY_STATEMENT_SCHEMA_V2 \<longrightarrow>
      ps_schema (vp_statement (ps ! j)) = RECOVERY_POLICY_STATEMENT_SCHEMA_V2)"
  using assms(2,3)
proof (induction j rule: dec_induct)
  case (step j)
  then have "policy_succeeds (ps ! j) (ps ! Suc j)"
    using assms(1) by (auto simp: policy_history_def successively_conv_nth)
  with step show ?case by (auto simp: policy_succeeds_def)
qed auto

section \<open>The latest digest determines the policies\<close>

interpretation policy_links: hash_chain vp_policy_statement_sha256
  "\<lambda>p. ps_previous_policy_sha256 (vp_statement p)" vp_statement
  by unfold_locales simp

lemma policy_history_linked:
  "policy_history ps \<Longrightarrow>
     linked vp_policy_statement_sha256 (\<lambda>p. ps_previous_policy_sha256 (vp_statement p)) None ps \<and>
     last_digest vp_policy_statement_sha256 None ps = map_option vp_policy_statement_sha256 (list_last ps)"
proof (induction ps rule: rev_induct)
  case (snoc p ps)
  then show ?case
    by (auto simp: policy_history_snoc policy_enrolled_def policy_succeeds_def list_last_def split: if_splits)
qed (simp add: list_last_def)

definition policy_payloads :: "'z policy_ext_scheme \<Rightarrow> RecoveryPolicyProof list \<Rightarrow> bytes set" where
  "policy_payloads E proofs = {payload. \<exists>p\<in>set proofs. decode_continuity_payload E (pp_payload p) = Ok payload}"

lemma policies_payload:
  assumes "policies_so_far E root proofs ps" and "p \<in> set ps"
  shows "\<exists>payload\<in>policy_payloads E proofs. policy_from_json E payload = Ok (vp_statement p) \<and>
    vp_policy_statement_sha256 p = sha256_hex E payload"
proof -
  obtain pf where "pf \<in> set proofs" "\<exists>payload. decode_continuity_payload E (pp_payload pf) = Ok payload \<and>
          policy_from_json E payload = Ok (vp_statement p) \<and> vp_policy_statement_sha256 p = sha256_hex E payload"
    using assms unfolding policies_so_far_def list_all2_conv_all_nth in_set_conv_nth by metis
  then show ?thesis by (auto simp: policy_payloads_def)
qed

lemma policy_no_fork:
  assumes "policies_so_far E root proofs ps" and "policies_so_far E root' proofs' ps'" and "ps \<noteq> []" "ps' \<noteq> []"
    and "vp_policy_statement_sha256 (last ps) = vp_policy_statement_sha256 (last ps')"
    and inj: "inj_on (sha256_hex E) (policy_payloads E proofs \<union> policy_payloads E proofs')"
  shows "map vp_statement ps = map vp_statement ps'"
proof (rule policy_links.no_fork)
  show "last_digest vp_policy_statement_sha256 None ps = last_digest vp_policy_statement_sha256 None ps'"
    using assms policy_history_linked [of ps] policy_history_linked [of ps']
    by (auto simp: policies_so_far_def list_last_def)
  fix p p' assume "p \<in> set ps" "p' \<in> set ps'" and eq: "vp_policy_statement_sha256 p = vp_policy_statement_sha256 p'"
  with policies_payload [OF assms(1), of p] policies_payload [OF assms(2), of p'] obtain b b' where
    "b \<in> policy_payloads E proofs" "policy_from_json E b = Ok (vp_statement p)" "sha256_hex E b = sha256_hex E b'"
    "b' \<in> policy_payloads E proofs'" "policy_from_json E b' = Ok (vp_statement p')" by metis
  moreover from this have "b = b'" using inj by (auto dest: inj_onD)
  ultimately show "vp_statement p = vp_statement p'" by simp
qed (use policy_history_linked assms in \<open>auto simp: policies_so_far_def\<close>)

end
