(* ===== verification/Recovery_Transition.thy ===== *)
theory Recovery_Transition
  imports Recovery_Policy
begin

text \<open>
  Recovery transitions and terminal revocations (\<^verbatim>\<open>src/crates/a-quo-core/src/recovery.rs\<close>): the
  statements that a threshold of recovery keys signs to replace a lost online key, or to end a
  persona for good, with their validation, creation, preflight and verification against one policy.
\<close>

section \<open>Data\<close>

definition RECOVERY_TRANSITION_STATEMENT_SCHEMA :: string where
  "RECOVERY_TRANSITION_STATEMENT_SCHEMA = ''urn:a-quo:statement:persona-recovery-transition:v1''"
definition RECOVERY_TRANSITION_STATEMENT_SCHEMA_V2 :: string where
  "RECOVERY_TRANSITION_STATEMENT_SCHEMA_V2 = ''urn:a-quo:statement:persona-recovery-transition:v2''"
definition RECOVERY_TRANSITION_PROOF_SCHEMA :: string where
  "RECOVERY_TRANSITION_PROOF_SCHEMA = ''urn:a-quo:proof:persona-recovery-transition:sshsig:v1''"
definition RECOVERY_TRANSITION_AUTHORITY_NAMESPACE :: string where
  "RECOVERY_TRANSITION_AUTHORITY_NAMESPACE = ''a-quo-persona-recovery-authority-v1''"
definition RECOVERY_TRANSITION_NEXT_NAMESPACE :: string where
  "RECOVERY_TRANSITION_NEXT_NAMESPACE = ''a-quo-persona-recovery-next-v1''"
definition TERMINAL_PERSONA_REVOCATION_STATEMENT_SCHEMA :: string where
  "TERMINAL_PERSONA_REVOCATION_STATEMENT_SCHEMA = ''urn:a-quo:statement:persona-terminal-revocation:v1''"
definition TERMINAL_PERSONA_REVOCATION_PROOF_SCHEMA :: string where
  "TERMINAL_PERSONA_REVOCATION_PROOF_SCHEMA = ''urn:a-quo:proof:persona-terminal-revocation:sshsig:v1''"
definition TERMINAL_PERSONA_REVOCATION_AUTHORITY_NAMESPACE :: string where
  "TERMINAL_PERSONA_REVOCATION_AUTHORITY_NAMESPACE = ''a-quo-persona-terminal-revocation-authority-v1''"
definition TERMINAL_PERSONA_REVOCATION_EFFECT :: string where
  "TERMINAL_PERSONA_REVOCATION_EFFECT = ''persona_permanently_deauthorized''"
definition MAX_RECOVERY_CEREMONY_VALIDITY_SECONDS :: i64 where
  "MAX_RECOVERY_CEREMONY_VALIDITY_SECONDS = 7 * 24 * 60 * 60"
definition MAX_TERMINAL_PERSONA_REVOCATION_SEQUENCE :: u32 where
  "MAX_TERMINAL_PERSONA_REVOCATION_SEQUENCE = 4097"
definition RECOVERY_CEREMONY_ID_BYTES :: nat where "RECOVERY_CEREMONY_ID_BYTES = 32"

datatype RecoveryTransitionReason = RecoveryOfKey | RecoveryFromCompromise

record RecoveryTransitionStatement =
  rts_schema :: string
  rts_canonicalization :: string
  rts_persona_anchor :: string
  rts_persona :: string
  rts_sequence :: u32
  rts_issued_at :: i64
  rts_root_statement_sha256 :: string
  rts_previous_transition_sha256 :: "string option"
  rts_previous_key_fingerprint :: string
  rts_next_key_fingerprint :: string
  rts_recovery_policy_sha256 :: string
  rts_recovery_policy_version :: u32
  rts_reason :: RecoveryTransitionReason
  rts_ceremony_id :: "string option"
  rts_expires_at :: "i64 option"

record RecoveryTransitionProof =
  rtp_schema :: string
  rtp_payload :: string
  rtp_recovery_signatures :: "RecoverySignature list"
  rtp_next_signature :: RecoverySignature

record VerifiedRecoveryTransition =
  vrt_statement :: RecoveryTransitionStatement
  vrt_transition_statement_sha256 :: string
  vrt_recovery_signer_fingerprints :: "string list"
  vrt_next_public_key :: string

record VerifiedRecoveryTransitionReceipt =
  rtr_policy_statement :: RecoveryPolicyStatement
  rtr_policy_statement_sha256 :: string
  rtr_transition :: VerifiedRecoveryTransition

datatype TerminalPersonaRevocationReason = TerminalCompromise | TerminalCessation

record TerminalPersonaRevocationStatement =
  trs_schema :: string
  trs_canonicalization :: string
  trs_persona_anchor :: string
  trs_persona :: string
  trs_sequence :: u32
  trs_issued_at :: i64
  trs_root_statement_sha256 :: string
  trs_previous_transition_sha256 :: "string option"
  trs_previous_key_fingerprint :: string
  trs_recovery_policy_sha256 :: string
  trs_recovery_policy_version :: u32
  trs_reason :: TerminalPersonaRevocationReason
  trs_effect :: string

record TerminalPersonaRevocationProof =
  trp_schema :: string
  trp_payload :: string
  trp_recovery_signatures :: "RecoverySignature list"

record VerifiedTerminalPersonaRevocation =
  vtr_statement :: TerminalPersonaRevocationStatement
  vtr_revocation_statement_sha256 :: string
  vtr_recovery_signer_fingerprints :: "string list"

record VerifiedTerminalPersonaRevocationReceipt =
  trr_policy_statement :: RecoveryPolicyStatement
  trr_policy_statement_sha256 :: string
  trr_revocation :: VerifiedTerminalPersonaRevocation

record recovery_ext = policy_ext +
  recovery_from_json :: "bytes \<Rightarrow> (RecoveryTransitionStatement, json_error) result"
  recovery_to_jcs :: "RecoveryTransitionStatement \<Rightarrow> (bytes, json_error) result"
  recovery_proof_from_json :: "bytes \<Rightarrow> (RecoveryTransitionProof, json_error) result"
  terminal_from_json :: "bytes \<Rightarrow> (TerminalPersonaRevocationStatement, json_error) result"
  terminal_to_jcs :: "TerminalPersonaRevocationStatement \<Rightarrow> (bytes, json_error) result"
  terminal_proof_from_json :: "bytes \<Rightarrow> (TerminalPersonaRevocationProof, json_error) result"

section \<open>Validation of a recovery transition\<close>

definition validate_recovery_ceremony_id :: "'z ext_scheme \<Rightarrow> string \<Rightarrow> unit res" where
  "validate_recovery_ceremony_id E ceremony_id =
     and_then (map_err (\<lambda>_. InvalidContinuityStatement (RecoveryReason CeremonyIdNotBase64url))
       (base64url_decode E ceremony_id)) (\<lambda>decoded.
     if length decoded \<noteq> RECOVERY_CEREMONY_ID_BYTES \<or> base64url_encode E decoded \<noteq> ceremony_id
     then invalid_statement (RecoveryReason CeremonyIdNotThirtyTwoBytes)
     else Ok ())"

definition validate_recovery_transition_statement ::
  "'z ext_scheme \<Rightarrow> RecoveryTransitionStatement \<Rightarrow> unit res" where
  "validate_recovery_transition_statement E statement =
     and_then
       (if rts_schema statement = RECOVERY_TRANSITION_STATEMENT_SCHEMA
        then if rts_ceremony_id statement \<noteq> None \<or> rts_expires_at statement \<noteq> None
             then invalid_statement (RecoveryReason RecoveryV1WithCeremony) else Ok ()
        else if rts_schema statement = RECOVERY_TRANSITION_STATEMENT_SCHEMA_V2
        then and_then (ok_or (InvalidContinuityStatement (RecoveryReason RecoveryV2NeedsCeremony))
               (rts_ceremony_id statement)) (\<lambda>ceremony_id.
             and_then (validate_recovery_ceremony_id E ceremony_id) (\<lambda>_.
             and_then (ok_or (InvalidContinuityStatement (RecoveryReason RecoveryV2NeedsExpiry))
               (rts_expires_at statement)) (\<lambda>expires_at.
             and_then (validate_jcs_time RecoveryExpiresAt expires_at) (\<lambda>_.
             and_then (ok_or (InvalidContinuityStatement (RecoveryReason RecoveryValidityOverflow))
               (i64_checked_sub expires_at (rts_issued_at statement))) (\<lambda>validity.
             if \<not> (1 \<le> validity \<and> validity \<le> MAX_RECOVERY_CEREMONY_VALIDITY_SECONDS)
             then invalid_statement (RecoveryReason RecoveryValidityBounds)
             else Ok ())))))
        else invalid_statement (RecoveryReason (UnsupportedRecoverySchema
               (escape_untrusted_text_for_terminal (rts_schema statement))))) (\<lambda>_.
     if rts_canonicalization statement \<noteq> CONTINUITY_CANONICALIZATION
     then invalid_statement (RecoveryReason (UnsupportedRecoveryCanonicalization
            (escape_untrusted_text_for_terminal (rts_canonicalization statement))))
     else and_then (validate_persona_anchor E (rts_persona_anchor statement)) (\<lambda>_.
     and_then (validate_canonical_persona (rts_persona statement)) (\<lambda>_.
     if rts_sequence statement = 0 then invalid_statement (RecoveryReason RecoverySequenceZero)
     else and_then (validate_jcs_time RecoveryIssuedAt (rts_issued_at statement)) (\<lambda>_.
     and_then (validate_sha256 RecoveryRootDigest (rts_root_statement_sha256 statement)) (\<lambda>_.
     and_then (case rts_previous_transition_sha256 statement of
         None \<Rightarrow> if rts_sequence statement = 1 then Ok ()
                 else invalid_statement (RecoveryReason LaterRecoveryNeedsPrevious)
       | Some digest \<Rightarrow> if rts_sequence statement = 1
                 then invalid_statement (RecoveryReason FirstRecoveryNamesPrevious)
                 else validate_sha256 PreviousTransitionDigest digest) (\<lambda>_.
     and_then (validate_key_fingerprint E (rts_previous_key_fingerprint statement)) (\<lambda>_.
     and_then (validate_key_fingerprint E (rts_next_key_fingerprint statement)) (\<lambda>_.
     if rts_previous_key_fingerprint statement = rts_next_key_fingerprint statement
     then invalid_statement (RecoveryReason RecoveryKeysNotDistinct)
     else and_then (validate_sha256 RecoveryPolicyDigest (rts_recovery_policy_sha256 statement)) (\<lambda>_.
     if rts_recovery_policy_version statement = 0
     then invalid_statement (RecoveryReason RecoveryPolicyVersionZero)
     else Ok ())))))))))"

definition validate_recovery_transition_policy_binding ::
  "VerifiedRecoveryPolicy \<Rightarrow> RecoveryTransitionStatement \<Rightarrow> unit res" where
  "validate_recovery_transition_policy_binding policy statement =
     (if rts_persona_anchor statement \<noteq> ps_persona_anchor (vp_statement policy)
         \<or> rts_persona statement \<noteq> ps_persona (vp_statement policy)
         \<or> rts_root_statement_sha256 statement \<noteq> ps_root_statement_sha256 (vp_statement policy)
         \<or> rts_recovery_policy_sha256 statement \<noteq> vp_policy_statement_sha256 policy
         \<or> rts_recovery_policy_version statement \<noteq> ps_policy_version (vp_statement policy)
      then chain_mismatch (RecoveryChainReason RecoveryNotBoundToPolicy)
      else if \<not> authorizes (vp_statement policy) KeyRecovery
      then chain_mismatch (RecoveryChainReason PolicyForbidsRecovery)
      else if policy_time_status (vp_statement policy) (rts_issued_at statement) \<noteq> Active
      then chain_mismatch (RecoveryChainReason RecoveryOutsideValidity)
      else if (case rts_expires_at statement of None \<Rightarrow> False
               | Some expires_at \<Rightarrow> ps_expires_at (vp_statement policy) < expires_at)
      then chain_mismatch (RecoveryChainReason CeremonyOutlivesPolicy)
      else if is_Ok (binary_search (ps_recovery_key_fingerprints (vp_statement policy))
               (rts_previous_key_fingerprint statement))
      then chain_mismatch (RecoveryChainReason ReplacedKeyIsAuthority)
      else if is_Ok (binary_search (ps_recovery_key_fingerprints (vp_statement policy))
               (rts_next_key_fingerprint statement))
      then chain_mismatch (RecoveryChainReason NewKeyIsAuthority)
      else Ok ())"

definition validate_recovery_transition_binding ::
  "'z ext_scheme \<Rightarrow> VerifiedPersonaRoot \<Rightarrow> VerifiedRecoveryPolicy \<Rightarrow> RecoveryTransitionStatement \<Rightarrow> unit res" where
  "validate_recovery_transition_binding E root policy statement =
     and_then (validate_recovery_transition_statement E statement) (\<lambda>_.
     and_then (validate_policy_root_binding root (vp_statement policy)) (\<lambda>_.
     and_then (validate_recovery_transition_policy_binding policy statement) (\<lambda>_.
     if rts_persona_anchor statement \<noteq> rs_persona_anchor (vr_statement root)
        \<or> rts_persona statement \<noteq> rs_persona (vr_statement root)
        \<or> rts_root_statement_sha256 statement \<noteq> vr_root_statement_sha256 root
     then chain_mismatch (RecoveryChainReason RecoveryBoundToDifferentRoot)
     else if rts_issued_at statement < rs_issued_at (vr_statement root)
     then chain_mismatch (RecoveryChainReason RecoveryBeforeRoot)
     else Ok ())))"

definition canonical_recovery_transition_statement_bytes ::
  "'z recovery_ext_scheme \<Rightarrow> RecoveryTransitionStatement \<Rightarrow> bytes res" where
  "canonical_recovery_transition_statement_bytes E statement =
     and_then (validate_recovery_transition_statement E statement) (\<lambda>_.
     and_then (map_err Json (recovery_to_jcs E statement)) (\<lambda>bs.
     and_then (validate_payload_bound bs) (\<lambda>_. Ok bs)))"

definition recovery_transition_statement_sha256 ::
  "'z recovery_ext_scheme \<Rightarrow> RecoveryTransitionStatement \<Rightarrow> string res" where
  "recovery_transition_statement_sha256 E statement =
     and_then (canonical_recovery_transition_statement_bytes E statement) (\<lambda>bs. Ok (sha256_hex E bs))"

section \<open>Recovery transitions\<close>

definition new_recovery_transition_statement_for_schema ::
  "'z ext_scheme \<Rightarrow> VerifiedPersonaRoot \<Rightarrow> u32 \<Rightarrow> string option \<Rightarrow> string \<Rightarrow> string \<Rightarrow> VerifiedRecoveryPolicy \<Rightarrow> i64 \<Rightarrow>
     RecoveryTransitionReason \<Rightarrow> string \<Rightarrow> string option \<Rightarrow> i64 option \<Rightarrow> RecoveryTransitionStatement res" where
  "new_recovery_transition_statement_for_schema E root sequence previous_transition_sha256
     previous_key_fingerprint next_public_key policy issued_at reason schema ceremony_id expires_at =
     and_then (validate_policy_root_binding root (vp_statement policy)) (\<lambda>_.
     and_then (validate_key_fingerprint E previous_key_fingerprint) (\<lambda>_.
     if sequence = 1 \<and> previous_key_fingerprint \<noteq> rs_initial_key_fingerprint (vr_statement root)
     then chain_mismatch (RecoveryChainReason RecoveryOneKeyNotInitial)
     else if issued_at < rs_issued_at (vr_statement root)
     then invalid_statement (RecoveryReason RecoveryPredatesRoot)
     else and_then (normalize_public_key E next_public_key) (\<lambda>next_public_key.
     and_then (public_key_fingerprint E next_public_key) (\<lambda>next_key_fingerprint.
     let statement = \<lparr>rts_schema = schema, rts_canonicalization = CONTINUITY_CANONICALIZATION,
           rts_persona_anchor = rs_persona_anchor (vr_statement root),
           rts_persona = rs_persona (vr_statement root), rts_sequence = sequence, rts_issued_at = issued_at,
           rts_root_statement_sha256 = vr_root_statement_sha256 root,
           rts_previous_transition_sha256 = previous_transition_sha256,
           rts_previous_key_fingerprint = previous_key_fingerprint,
           rts_next_key_fingerprint = next_key_fingerprint,
           rts_recovery_policy_sha256 = vp_policy_statement_sha256 policy,
           rts_recovery_policy_version = ps_policy_version (vp_statement policy), rts_reason = reason,
           rts_ceremony_id = ceremony_id, rts_expires_at = expires_at\<rparr>
     in and_then (validate_recovery_transition_statement E statement) (\<lambda>_.
        and_then (validate_recovery_transition_binding E root policy statement) (\<lambda>_. Ok statement))))))"

definition new_recovery_transition_statement ::
  "'z ext_scheme \<Rightarrow> VerifiedPersonaRoot \<Rightarrow> u32 \<Rightarrow> string option \<Rightarrow> string \<Rightarrow> string \<Rightarrow> VerifiedRecoveryPolicy \<Rightarrow> i64 \<Rightarrow>
     RecoveryTransitionReason \<Rightarrow> RecoveryTransitionStatement res" where
  "new_recovery_transition_statement E root sequence previous_transition_sha256 previous_key_fingerprint
     next_public_key policy issued_at reason =
     new_recovery_transition_statement_for_schema E root sequence previous_transition_sha256
       previous_key_fingerprint next_public_key policy issued_at reason RECOVERY_TRANSITION_STATEMENT_SCHEMA None None"

definition new_recovery_transition_ceremony_statement_with_id ::
  "'z ext_scheme \<Rightarrow> VerifiedPersonaRoot \<Rightarrow> u32 \<Rightarrow> string option \<Rightarrow> string \<Rightarrow> string \<Rightarrow> VerifiedRecoveryPolicy \<Rightarrow> i64 \<Rightarrow> i64 \<Rightarrow>
     RecoveryTransitionReason \<Rightarrow> string \<Rightarrow> RecoveryTransitionStatement res" where
  "new_recovery_transition_ceremony_statement_with_id E root sequence previous_transition_sha256
     previous_key_fingerprint next_public_key policy issued_at expires_at reason ceremony_id =
     new_recovery_transition_statement_for_schema E root sequence previous_transition_sha256
       previous_key_fingerprint next_public_key policy issued_at reason RECOVERY_TRANSITION_STATEMENT_SCHEMA_V2
       (Some ceremony_id) (Some expires_at)"

definition new_recovery_transition_ceremony_statement ::
  "'z ext_scheme \<Rightarrow> bytes option \<Rightarrow> VerifiedPersonaRoot \<Rightarrow> u32 \<Rightarrow> string option \<Rightarrow> string \<Rightarrow> string \<Rightarrow>
     VerifiedRecoveryPolicy \<Rightarrow> i64 \<Rightarrow> i64 \<Rightarrow> RecoveryTransitionReason \<Rightarrow> RecoveryTransitionStatement res" where
  "new_recovery_transition_ceremony_statement E entropy root sequence previous_transition_sha256
     previous_key_fingerprint next_public_key policy issued_at expires_at reason =
     and_then (ok_or EntropyUnavailable entropy) (\<lambda>ceremony_id.
     new_recovery_transition_ceremony_statement_with_id E root sequence previous_transition_sha256
       previous_key_fingerprint next_public_key policy issued_at expires_at reason (base64url_encode E ceremony_id))"

definition decode_recovery_transition_proof ::
  "'z recovery_ext_scheme \<Rightarrow> RecoveryTransitionProof \<Rightarrow> (bytes \<times> RecoveryTransitionStatement) res" where
  "decode_recovery_transition_proof E proof =
     and_then (require_proof_schema (rtp_schema proof) RECOVERY_TRANSITION_PROOF_SCHEMA) (\<lambda>_.
     and_then (decode_continuity_payload E (rtp_payload proof)) (\<lambda>payload.
     and_then (map_err (\<lambda>r. InvalidContinuityStatement (StatementJson r))
       (parse_bounded_json (recovery_from_json E) payload MAX_CONTINUITY_PAYLOAD_BYTES RecoveryTransitionStatementDoc)) (\<lambda>statement.
     and_then (canonical_recovery_transition_statement_bytes E statement) (\<lambda>canonical.
     if canonical \<noteq> payload then Err NonCanonicalContinuityStatement else Ok (payload, statement)))))"

record RecoveryTransitionProofPreflight =
  rtf_payload :: bytes
  rtf_statement :: RecoveryTransitionStatement
  rtf_next_public_key :: string

definition preflight_recovery_transition_proof ::
  "'z recovery_ext_scheme \<Rightarrow> RecoveryTransitionProof \<Rightarrow> RecoveryTransitionProofPreflight res" where
  "preflight_recovery_transition_proof E proof =
     and_then (decode_recovery_transition_proof E proof) (\<lambda>(payload, statement).
     and_then (preflight_unbound_signature_set E (rtp_recovery_signatures proof)
       RECOVERY_TRANSITION_AUTHORITY_NAMESPACE) (\<lambda>_.
     and_then (validate_recovery_signature E (rtp_next_signature proof) RECOVERY_TRANSITION_NEXT_NAMESPACE) (\<lambda>next_public_key.
     and_then (require_fingerprint E next_public_key (rts_next_key_fingerprint statement)) (\<lambda>_.
     Ok \<lparr>rtf_payload = payload, rtf_statement = statement, rtf_next_public_key = next_public_key\<rparr>))))"

definition validate_recovery_transition_proof_structure ::
  "'z recovery_ext_scheme \<Rightarrow> RecoveryTransitionProof \<Rightarrow> unit res" where
  "validate_recovery_transition_proof_structure E proof =
     and_then (preflight_recovery_transition_proof E proof) (\<lambda>_. Ok ())"

definition parse_recovery_transition_proof_bytes ::
  "'z recovery_ext_scheme \<Rightarrow> bytes \<Rightarrow> RecoveryTransitionProof res" where
  "parse_recovery_transition_proof_bytes E bs =
     and_then (map_err (\<lambda>r. InvalidContinuityProof (ProofJson r))
       (parse_bounded_json (recovery_proof_from_json E) bs MAX_PROOF_BYTES RecoveryTransitionProofDoc)) (\<lambda>proof.
     and_then (preflight_recovery_transition_proof E proof) (\<lambda>_. Ok proof))"

definition inspect_recovery_transition_proof ::
  "'z recovery_ext_scheme \<Rightarrow> RecoveryTransitionProof \<Rightarrow> RecoveryTransitionStatement res" where
  "inspect_recovery_transition_proof E proof =
     and_then (preflight_recovery_transition_proof E proof) (\<lambda>p. Ok (rtf_statement p))"

definition create_recovery_transition_proof ::
  "'z recovery_ext_scheme \<Rightarrow> RecoveryTransitionStatement \<Rightarrow> VerifiedRecoveryPolicy \<Rightarrow> RecoverySigner list \<Rightarrow> string \<Rightarrow>
     string \<Rightarrow> RecoveryTransitionProof res" where
  "create_recovery_transition_proof E statement policy authority_signers next_private_key_path next_public_key =
     and_then (validate_recovery_transition_policy_binding policy statement) (\<lambda>_.
     and_then (canonical_recovery_transition_statement_bytes E statement) (\<lambda>payload.
     and_then (sign_with_authorities E payload authority_signers
       (ps_recovery_key_fingerprints (vp_statement policy)) (unat (ps_threshold (vp_statement policy))) False
       RECOVERY_TRANSITION_AUTHORITY_NAMESPACE) (\<lambda>recovery_signatures.
     and_then (normalize_public_key E next_public_key) (\<lambda>next_public_key.
     and_then (require_fingerprint E next_public_key (rts_next_key_fingerprint statement)) (\<lambda>_.
     and_then (sign_one E payload next_private_key_path next_public_key RECOVERY_TRANSITION_NEXT_NAMESPACE) (\<lambda>next_signature.
     Ok \<lparr>rtp_schema = RECOVERY_TRANSITION_PROOF_SCHEMA, rtp_payload = base64url_encode E payload,
         rtp_recovery_signatures = recovery_signatures, rtp_next_signature = next_signature\<rparr>))))))"

definition verify_recovery_transition_proof_with_receipt ::
  "'z recovery_ext_scheme \<Rightarrow> VerifiedPersonaRoot \<Rightarrow> VerifiedRecoveryPolicy \<Rightarrow> RecoveryTransitionProof \<Rightarrow>
     VerifiedRecoveryTransitionReceipt res" where
  "verify_recovery_transition_proof_with_receipt E root policy proof =
     and_then (preflight_recovery_transition_proof E proof) (\<lambda>p.
     and_then (validate_recovery_transition_binding E root policy (rtf_statement p)) (\<lambda>_.
     and_then (verify_authority_signatures E (rtf_payload p) (rtp_recovery_signatures proof)
       (ps_recovery_key_fingerprints (vp_statement policy)) (unat (ps_threshold (vp_statement policy))) False
       RECOVERY_TRANSITION_AUTHORITY_NAMESPACE) (\<lambda>recovery_signer_fingerprints.
     and_then (sshsig_verify E (rtf_payload p) (rsig_value (rtp_next_signature proof)) (rtf_next_public_key p)
       RECOVERY_TRANSITION_NEXT_NAMESPACE) (\<lambda>_.
     Ok \<lparr>rtr_policy_statement = vp_statement policy,
         rtr_policy_statement_sha256 = vp_policy_statement_sha256 policy,
         rtr_transition = \<lparr>vrt_statement = rtf_statement p,
           vrt_transition_statement_sha256 = sha256_hex E (rtf_payload p),
           vrt_recovery_signer_fingerprints = recovery_signer_fingerprints,
           vrt_next_public_key = rtf_next_public_key p\<rparr>\<rparr>))))"

definition verify_recovery_transition_proof ::
  "'z recovery_ext_scheme \<Rightarrow> VerifiedPersonaRoot \<Rightarrow> VerifiedRecoveryPolicy \<Rightarrow> RecoveryTransitionProof \<Rightarrow>
     VerifiedRecoveryTransition res" where
  "verify_recovery_transition_proof E root policy proof =
     and_then (verify_recovery_transition_proof_with_receipt E root policy proof) (\<lambda>receipt. Ok (rtr_transition receipt))"

section \<open>Terminal revocations\<close>

definition validate_terminal_persona_revocation_statement ::
  "'z ext_scheme \<Rightarrow> TerminalPersonaRevocationStatement \<Rightarrow> unit res" where
  "validate_terminal_persona_revocation_statement E statement =
     (if trs_schema statement \<noteq> TERMINAL_PERSONA_REVOCATION_STATEMENT_SCHEMA
      then invalid_statement (TerminalReason (UnsupportedTerminalSchema
             (escape_untrusted_text_for_terminal (trs_schema statement))))
      else if trs_canonicalization statement \<noteq> CONTINUITY_CANONICALIZATION
      then invalid_statement (TerminalReason (UnsupportedTerminalCanonicalization
             (escape_untrusted_text_for_terminal (trs_canonicalization statement))))
      else and_then (validate_persona_anchor E (trs_persona_anchor statement)) (\<lambda>_.
      and_then (validate_canonical_persona (trs_persona statement)) (\<lambda>_.
      if trs_sequence statement = 0 \<or> MAX_TERMINAL_PERSONA_REVOCATION_SEQUENCE < trs_sequence statement
      then invalid_statement (TerminalReason TerminalSequenceBounds)
      else and_then (validate_jcs_time TerminalIssuedAt (trs_issued_at statement)) (\<lambda>_.
      and_then (validate_sha256 TerminalRootDigest (trs_root_statement_sha256 statement)) (\<lambda>_.
      and_then (case trs_previous_transition_sha256 statement of
          None \<Rightarrow> if trs_sequence statement = 1 then Ok ()
                  else invalid_statement (TerminalReason LaterTerminalNeedsPrevious)
        | Some digest \<Rightarrow> if trs_sequence statement = 1
                  then invalid_statement (TerminalReason FirstTerminalNamesPrevious)
                  else validate_sha256 PreviousTransitionDigest digest) (\<lambda>_.
      and_then (validate_key_fingerprint E (trs_previous_key_fingerprint statement)) (\<lambda>_.
      and_then (validate_sha256 TerminalPolicyDigest (trs_recovery_policy_sha256 statement)) (\<lambda>_.
      if trs_recovery_policy_version statement = 0
      then invalid_statement (TerminalReason TerminalPolicyVersionZero)
      else if trs_effect statement \<noteq> TERMINAL_PERSONA_REVOCATION_EFFECT
      then invalid_statement (TerminalReason (UnsupportedTerminalEffect
             (escape_untrusted_text_for_terminal (trs_effect statement))))
      else Ok ()))))))))"

definition validate_terminal_persona_revocation_policy_binding ::
  "VerifiedRecoveryPolicy \<Rightarrow> TerminalPersonaRevocationStatement \<Rightarrow> unit res" where
  "validate_terminal_persona_revocation_policy_binding policy statement =
     (if trs_persona_anchor statement \<noteq> ps_persona_anchor (vp_statement policy)
         \<or> trs_persona statement \<noteq> ps_persona (vp_statement policy)
         \<or> trs_root_statement_sha256 statement \<noteq> ps_root_statement_sha256 (vp_statement policy)
         \<or> trs_recovery_policy_sha256 statement \<noteq> vp_policy_statement_sha256 policy
         \<or> trs_recovery_policy_version statement \<noteq> ps_policy_version (vp_statement policy)
      then chain_mismatch (TerminalChainReason TerminalNotBoundToPolicy)
      else if \<not> authorizes (vp_statement policy) TerminalRevocation
      then chain_mismatch (TerminalChainReason PolicyForbidsTerminal)
      else if policy_time_status (vp_statement policy) (trs_issued_at statement) \<noteq> Active
      then chain_mismatch (TerminalChainReason TerminalOutsideValidity)
      else if is_Ok (binary_search (ps_recovery_key_fingerprints (vp_statement policy))
               (trs_previous_key_fingerprint statement))
      then chain_mismatch (TerminalChainReason RevokedKeyIsAuthority)
      else Ok ())"

definition validate_terminal_persona_revocation_binding ::
  "'z ext_scheme \<Rightarrow> VerifiedPersonaRoot \<Rightarrow> VerifiedRecoveryPolicy \<Rightarrow> TerminalPersonaRevocationStatement \<Rightarrow> unit res" where
  "validate_terminal_persona_revocation_binding E root policy statement =
     and_then (validate_terminal_persona_revocation_statement E statement) (\<lambda>_.
     and_then (validate_policy_root_binding root (vp_statement policy)) (\<lambda>_.
     and_then (validate_terminal_persona_revocation_policy_binding policy statement) (\<lambda>_.
     if trs_persona_anchor statement \<noteq> rs_persona_anchor (vr_statement root)
        \<or> trs_persona statement \<noteq> rs_persona (vr_statement root)
        \<or> trs_root_statement_sha256 statement \<noteq> vr_root_statement_sha256 root
     then chain_mismatch (TerminalChainReason TerminalBoundToDifferentRoot)
     else if trs_issued_at statement < rs_issued_at (vr_statement root)
     then chain_mismatch (TerminalChainReason TerminalBeforeRoot)
     else Ok ())))"

definition new_terminal_persona_revocation_statement ::
  "'z ext_scheme \<Rightarrow> VerifiedPersonaRoot \<Rightarrow> u32 \<Rightarrow> string option \<Rightarrow> string \<Rightarrow> VerifiedRecoveryPolicy \<Rightarrow> i64 \<Rightarrow>
     TerminalPersonaRevocationReason \<Rightarrow> TerminalPersonaRevocationStatement res" where
  "new_terminal_persona_revocation_statement E root sequence previous_transition_sha256
     previous_key_fingerprint policy issued_at reason =
     and_then (validate_policy_root_binding root (vp_statement policy)) (\<lambda>_.
     and_then (validate_key_fingerprint E previous_key_fingerprint) (\<lambda>_.
     if sequence = 1 \<and> previous_key_fingerprint \<noteq> rs_initial_key_fingerprint (vr_statement root)
     then chain_mismatch (TerminalChainReason TerminalOneKeyNotInitial)
     else if issued_at < rs_issued_at (vr_statement root)
     then invalid_statement (TerminalReason TerminalPredatesRoot)
     else let statement = \<lparr>trs_schema = TERMINAL_PERSONA_REVOCATION_STATEMENT_SCHEMA,
           trs_canonicalization = CONTINUITY_CANONICALIZATION,
           trs_persona_anchor = rs_persona_anchor (vr_statement root),
           trs_persona = rs_persona (vr_statement root), trs_sequence = sequence, trs_issued_at = issued_at,
           trs_root_statement_sha256 = vr_root_statement_sha256 root,
           trs_previous_transition_sha256 = previous_transition_sha256,
           trs_previous_key_fingerprint = previous_key_fingerprint,
           trs_recovery_policy_sha256 = vp_policy_statement_sha256 policy,
           trs_recovery_policy_version = ps_policy_version (vp_statement policy), trs_reason = reason,
           trs_effect = TERMINAL_PERSONA_REVOCATION_EFFECT\<rparr>
     in and_then (validate_terminal_persona_revocation_binding E root policy statement) (\<lambda>_. Ok statement)))"

definition canonical_terminal_persona_revocation_statement_bytes ::
  "'z recovery_ext_scheme \<Rightarrow> TerminalPersonaRevocationStatement \<Rightarrow> bytes res" where
  "canonical_terminal_persona_revocation_statement_bytes E statement =
     and_then (validate_terminal_persona_revocation_statement E statement) (\<lambda>_.
     and_then (map_err Json (terminal_to_jcs E statement)) (\<lambda>bs.
     and_then (validate_payload_bound bs) (\<lambda>_. Ok bs)))"

definition terminal_persona_revocation_statement_sha256 ::
  "'z recovery_ext_scheme \<Rightarrow> TerminalPersonaRevocationStatement \<Rightarrow> string res" where
  "terminal_persona_revocation_statement_sha256 E statement =
     and_then (canonical_terminal_persona_revocation_statement_bytes E statement) (\<lambda>bs. Ok (sha256_hex E bs))"

definition create_terminal_persona_revocation_proof ::
  "'z recovery_ext_scheme \<Rightarrow> TerminalPersonaRevocationStatement \<Rightarrow> VerifiedRecoveryPolicy \<Rightarrow> RecoverySigner list \<Rightarrow>
     TerminalPersonaRevocationProof res" where
  "create_terminal_persona_revocation_proof E statement policy authority_signers =
     and_then (validate_terminal_persona_revocation_policy_binding policy statement) (\<lambda>_.
     and_then (canonical_terminal_persona_revocation_statement_bytes E statement) (\<lambda>payload.
     and_then (sign_with_authorities E payload authority_signers
       (ps_recovery_key_fingerprints (vp_statement policy)) (unat (ps_threshold (vp_statement policy))) False
       TERMINAL_PERSONA_REVOCATION_AUTHORITY_NAMESPACE) (\<lambda>recovery_signatures.
     Ok \<lparr>trp_schema = TERMINAL_PERSONA_REVOCATION_PROOF_SCHEMA, trp_payload = base64url_encode E payload,
         trp_recovery_signatures = recovery_signatures\<rparr>)))"

definition decode_terminal_persona_revocation_proof ::
  "'z recovery_ext_scheme \<Rightarrow> TerminalPersonaRevocationProof \<Rightarrow> (bytes \<times> TerminalPersonaRevocationStatement) res" where
  "decode_terminal_persona_revocation_proof E proof =
     and_then (require_proof_schema (trp_schema proof) TERMINAL_PERSONA_REVOCATION_PROOF_SCHEMA) (\<lambda>_.
     and_then (decode_continuity_payload E (trp_payload proof)) (\<lambda>payload.
     and_then (map_err (\<lambda>r. InvalidContinuityStatement (StatementJson r))
       (parse_bounded_json (terminal_from_json E) payload MAX_CONTINUITY_PAYLOAD_BYTES TerminalRevocationStatementDoc)) (\<lambda>statement.
     and_then (canonical_terminal_persona_revocation_statement_bytes E statement) (\<lambda>canonical.
     if canonical \<noteq> payload then Err NonCanonicalContinuityStatement else Ok (payload, statement)))))"

definition preflight_terminal_persona_revocation_proof ::
  "'z recovery_ext_scheme \<Rightarrow> TerminalPersonaRevocationProof \<Rightarrow> (bytes \<times> TerminalPersonaRevocationStatement) res" where
  "preflight_terminal_persona_revocation_proof E proof =
     and_then (decode_terminal_persona_revocation_proof E proof) (\<lambda>(payload, statement).
     and_then (preflight_unbound_signature_set E (trp_recovery_signatures proof)
       TERMINAL_PERSONA_REVOCATION_AUTHORITY_NAMESPACE) (\<lambda>_. Ok (payload, statement)))"

definition validate_terminal_persona_revocation_proof_structure ::
  "'z recovery_ext_scheme \<Rightarrow> TerminalPersonaRevocationProof \<Rightarrow> unit res" where
  "validate_terminal_persona_revocation_proof_structure E proof =
     and_then (preflight_terminal_persona_revocation_proof E proof) (\<lambda>_. Ok ())"

definition parse_terminal_persona_revocation_proof_bytes ::
  "'z recovery_ext_scheme \<Rightarrow> bytes \<Rightarrow> TerminalPersonaRevocationProof res" where
  "parse_terminal_persona_revocation_proof_bytes E bs =
     and_then (map_err (\<lambda>r. InvalidContinuityProof (ProofJson r))
       (parse_bounded_json (terminal_proof_from_json E) bs MAX_PROOF_BYTES TerminalRevocationProofDoc)) (\<lambda>proof.
     and_then (preflight_terminal_persona_revocation_proof E proof) (\<lambda>_. Ok proof))"

definition inspect_terminal_persona_revocation_proof ::
  "'z recovery_ext_scheme \<Rightarrow> TerminalPersonaRevocationProof \<Rightarrow> TerminalPersonaRevocationStatement res" where
  "inspect_terminal_persona_revocation_proof E proof =
     and_then (preflight_terminal_persona_revocation_proof E proof) (\<lambda>p. Ok (snd p))"

definition verify_terminal_persona_revocation_proof_with_receipt ::
  "'z recovery_ext_scheme \<Rightarrow> VerifiedPersonaRoot \<Rightarrow> VerifiedRecoveryPolicy \<Rightarrow> TerminalPersonaRevocationProof \<Rightarrow>
     VerifiedTerminalPersonaRevocationReceipt res" where
  "verify_terminal_persona_revocation_proof_with_receipt E root policy proof =
     and_then (preflight_terminal_persona_revocation_proof E proof) (\<lambda>(payload, statement).
     and_then (validate_terminal_persona_revocation_binding E root policy statement) (\<lambda>_.
     and_then (verify_authority_signatures E payload (trp_recovery_signatures proof)
       (ps_recovery_key_fingerprints (vp_statement policy)) (unat (ps_threshold (vp_statement policy))) False
       TERMINAL_PERSONA_REVOCATION_AUTHORITY_NAMESPACE) (\<lambda>recovery_signer_fingerprints.
     Ok \<lparr>trr_policy_statement = vp_statement policy,
         trr_policy_statement_sha256 = vp_policy_statement_sha256 policy,
         trr_revocation = \<lparr>vtr_statement = statement,
           vtr_revocation_statement_sha256 = sha256_hex E payload,
           vtr_recovery_signer_fingerprints = recovery_signer_fingerprints\<rparr>\<rparr>)))"

definition verify_terminal_persona_revocation_proof ::
  "'z recovery_ext_scheme \<Rightarrow> VerifiedPersonaRoot \<Rightarrow> VerifiedRecoveryPolicy \<Rightarrow> TerminalPersonaRevocationProof \<Rightarrow>
     VerifiedTerminalPersonaRevocation res" where
  "verify_terminal_persona_revocation_proof E root policy proof =
     and_then (verify_terminal_persona_revocation_proof_with_receipt E root policy proof) (\<lambda>receipt.
     Ok (trr_revocation receipt))"

section \<open>What a verified recovery establishes\<close>

lemma canonical_recovery_Ok_iff:
  "canonical_recovery_transition_statement_bytes E s = Ok bs \<longleftrightarrow>
     validate_recovery_transition_statement E s = Ok () \<and> recovery_to_jcs E s = Ok bs \<and>
     length bs \<le> MAX_CONTINUITY_PAYLOAD_BYTES"
  by (auto simp: canonical_recovery_transition_statement_bytes_def)

lemma canonical_terminal_Ok_iff:
  "canonical_terminal_persona_revocation_statement_bytes E s = Ok bs \<longleftrightarrow>
     validate_terminal_persona_revocation_statement E s = Ok () \<and> terminal_to_jcs E s = Ok bs \<and>
     length bs \<le> MAX_CONTINUITY_PAYLOAD_BYTES"
  by (auto simp: canonical_terminal_persona_revocation_statement_bytes_def)

lemma decode_recovery_Ok_iff:
  "decode_recovery_transition_proof E p = Ok (payload, s) \<longleftrightarrow>
     rtp_schema p = RECOVERY_TRANSITION_PROOF_SCHEMA \<and>
     decode_continuity_payload E (rtp_payload p) = Ok payload \<and> recovery_from_json E payload = Ok s \<and>
     canonical_recovery_transition_statement_bytes E s = Ok payload"
  by (auto simp: decode_recovery_transition_proof_def decode_continuity_payload_Ok_iff)

lemma decode_terminal_Ok_iff:
  "decode_terminal_persona_revocation_proof E p = Ok (payload, s) \<longleftrightarrow>
     trp_schema p = TERMINAL_PERSONA_REVOCATION_PROOF_SCHEMA \<and>
     decode_continuity_payload E (trp_payload p) = Ok payload \<and> terminal_from_json E payload = Ok s \<and>
     canonical_terminal_persona_revocation_statement_bytes E s = Ok payload"
  by (auto simp: decode_terminal_persona_revocation_proof_def decode_continuity_payload_Ok_iff)

lemma valid_recovery_facts:
  assumes "validate_recovery_transition_statement E s = Ok ()"
  shows "rts_previous_key_fingerprint s \<noteq> rts_next_key_fingerprint s" and "rts_sequence s \<noteq> 0"
    and "rts_schema s = RECOVERY_TRANSITION_STATEMENT_SCHEMA \<or> rts_schema s = RECOVERY_TRANSITION_STATEMENT_SCHEMA_V2"
    and "rts_schema s = RECOVERY_TRANSITION_STATEMENT_SCHEMA_V2 \<Longrightarrow>
      \<exists>expires. rts_expires_at s = Some expires \<and> rts_issued_at s < expires \<and>
        expires - rts_issued_at s \<le> MAX_RECOVERY_CEREMONY_VALIDITY_SECONDS"
proof -
  have neq: "RECOVERY_TRANSITION_STATEMENT_SCHEMA_V2 \<noteq> RECOVERY_TRANSITION_STATEMENT_SCHEMA"
    by (simp add: RECOVERY_TRANSITION_STATEMENT_SCHEMA_def RECOVERY_TRANSITION_STATEMENT_SCHEMA_V2_def)
  show "rts_previous_key_fingerprint s \<noteq> rts_next_key_fingerprint s" and "rts_sequence s \<noteq> 0"
    and "rts_schema s = RECOVERY_TRANSITION_STATEMENT_SCHEMA \<or> rts_schema s = RECOVERY_TRANSITION_STATEMENT_SCHEMA_V2"
    using assms by (auto simp: validate_recovery_transition_statement_def split: if_splits)
  show "\<exists>expires. rts_expires_at s = Some expires \<and> rts_issued_at s < expires \<and>
        expires - rts_issued_at s \<le> MAX_RECOVERY_CEREMONY_VALIDITY_SECONDS"
    if "rts_schema s = RECOVERY_TRANSITION_STATEMENT_SCHEMA_V2"
    using assms that neq
    by (auto simp: validate_recovery_transition_statement_def i64_checked_sub_def split: if_splits)
qed

text \<open>What a policy allows: the meaning of the two binding checks, for a valid policy.\<close>

definition recovery_allowed :: "VerifiedRecoveryPolicy \<Rightarrow> RecoveryTransitionStatement \<Rightarrow> bool" where
  "recovery_allowed p s \<longleftrightarrow>
     rts_persona_anchor s = ps_persona_anchor (vp_statement p) \<and> rts_persona s = ps_persona (vp_statement p) \<and>
     rts_root_statement_sha256 s = ps_root_statement_sha256 (vp_statement p) \<and>
     rts_recovery_policy_sha256 s = vp_policy_statement_sha256 p \<and>
     rts_recovery_policy_version s = ps_policy_version (vp_statement p) \<and>
     KeyRecovery \<in> set (effective_capabilities (vp_statement p)) \<and>
     ps_issued_at (vp_statement p) \<le> rts_issued_at s \<and> rts_issued_at s < ps_expires_at (vp_statement p) \<and>
     (case rts_expires_at s of None \<Rightarrow> True | Some e \<Rightarrow> e \<le> ps_expires_at (vp_statement p)) \<and>
     rts_previous_key_fingerprint s \<notin> set (ps_recovery_key_fingerprints (vp_statement p)) \<and>
     rts_next_key_fingerprint s \<notin> set (ps_recovery_key_fingerprints (vp_statement p))"

definition terminal_allowed :: "VerifiedRecoveryPolicy \<Rightarrow> TerminalPersonaRevocationStatement \<Rightarrow> bool" where
  "terminal_allowed p s \<longleftrightarrow>
     trs_persona_anchor s = ps_persona_anchor (vp_statement p) \<and> trs_persona s = ps_persona (vp_statement p) \<and>
     trs_root_statement_sha256 s = ps_root_statement_sha256 (vp_statement p) \<and>
     trs_recovery_policy_sha256 s = vp_policy_statement_sha256 p \<and>
     trs_recovery_policy_version s = ps_policy_version (vp_statement p) \<and>
     TerminalRevocation \<in> set (effective_capabilities (vp_statement p)) \<and>
     ps_issued_at (vp_statement p) \<le> trs_issued_at s \<and> trs_issued_at s < ps_expires_at (vp_statement p) \<and>
     trs_previous_key_fingerprint s \<notin> set (ps_recovery_key_fingerprints (vp_statement p))"

lemma policy_active_iff:
  "policy_time_status s t = Active \<longleftrightarrow> ps_issued_at s \<le> t \<and> t < ps_expires_at s"
  by (auto simp: policy_time_status_def)

lemma recovery_policy_binding_iff:
  assumes "validate_recovery_policy_statement E (vp_statement p) = Ok ()"
  shows "validate_recovery_transition_policy_binding p s = Ok () \<longleftrightarrow> recovery_allowed p s"
  by (cases "rts_expires_at s")
    (simp_all add: validate_recovery_transition_policy_binding_def recovery_allowed_def policy_active_iff not_less not_le
      authorizes_iff [OF assms] recovery_key_search_iff [OF assms] conj_ac)

lemma terminal_policy_binding_iff:
  assumes "validate_recovery_policy_statement E (vp_statement p) = Ok ()"
  shows "validate_terminal_persona_revocation_policy_binding p s = Ok () \<longleftrightarrow> terminal_allowed p s"
  by (simp add: validate_terminal_persona_revocation_policy_binding_def terminal_allowed_def policy_active_iff
      authorizes_iff [OF assms] recovery_key_search_iff [OF assms] conj_ac)

text \<open>The signatures of a recovery: a quorum of the policy, and the next key's proof of custody.\<close>

definition recovery_signed ::
  "'z recovery_ext_scheme \<Rightarrow> VerifiedRecoveryPolicy \<Rightarrow> RecoveryTransitionProof \<Rightarrow> VerifiedRecoveryTransition \<Rightarrow> bytes \<Rightarrow> bool" where
  "recovery_signed E p proof v payload \<longleftrightarrow>
     authority_quorum E payload RECOVERY_TRANSITION_AUTHORITY_NAMESPACE (rtp_recovery_signatures proof)
       (ps_recovery_key_fingerprints (vp_statement p)) (unat (ps_threshold (vp_statement p))) False
       (vrt_recovery_signer_fingerprints v) \<and>
     validate_recovery_signature E (rtp_next_signature proof) RECOVERY_TRANSITION_NEXT_NAMESPACE
       = Ok (vrt_next_public_key v) \<and>
     public_key_fingerprint E (vrt_next_public_key v) = Ok (rts_next_key_fingerprint (vrt_statement v)) \<and>
     sshsig_verify E payload (rsig_value (rtp_next_signature proof)) (vrt_next_public_key v)
       RECOVERY_TRANSITION_NEXT_NAMESPACE = Ok ()"

lemma valid_policy_distinct:
  "validate_recovery_policy_statement E s = Ok () \<Longrightarrow> distinct (ps_recovery_key_fingerprints s)"
  by (auto dest: valid_policy_facts(4) simp: strict_sorted_iff)

lemma verify_recovery_Ok:
  assumes "policy_bound E root p" and "verify_recovery_transition_proof E root p pf = Ok v"
  shows "\<exists>payload. decode_recovery_transition_proof E pf = Ok (payload, vrt_statement v) \<and>
    vrt_transition_statement_sha256 v = sha256_hex E payload \<and>
    recovery_allowed p (vrt_statement v) \<and> recovery_signed E p pf v payload"
proof -
  have valid: "validate_recovery_policy_statement E (vp_statement p) = Ok ()" using assms(1) by (simp add: policy_bound_def)
  obtain payload where "decode_recovery_transition_proof E pf = Ok (payload, vrt_statement v)"
    "validate_recovery_transition_policy_binding p (vrt_statement v) = Ok ()"
    "verify_authority_signatures E payload (rtp_recovery_signatures pf)
       (ps_recovery_key_fingerprints (vp_statement p)) (unat (ps_threshold (vp_statement p))) False
       RECOVERY_TRANSITION_AUTHORITY_NAMESPACE = Ok (vrt_recovery_signer_fingerprints v)"
    "validate_recovery_signature E (rtp_next_signature pf) RECOVERY_TRANSITION_NEXT_NAMESPACE = Ok (vrt_next_public_key v)"
    "public_key_fingerprint E (vrt_next_public_key v) = Ok (rts_next_key_fingerprint (vrt_statement v))"
    "sshsig_verify E payload (rsig_value (rtp_next_signature pf)) (vrt_next_public_key v)
       RECOVERY_TRANSITION_NEXT_NAMESPACE = Ok ()"
    "vrt_transition_statement_sha256 v = sha256_hex E payload"
    using assms(2)
    by (auto simp: verify_recovery_transition_proof_def verify_recovery_transition_proof_with_receipt_def
        preflight_recovery_transition_proof_def validate_recovery_transition_binding_def)
  then show ?thesis
    by (auto simp: recovery_signed_def recovery_policy_binding_iff [OF valid]
        verify_authority_signatures_iff [OF valid_policy_distinct [OF valid]])
qed

lemma verify_recovery_valid:
  "verify_recovery_transition_proof E root p pf = Ok v \<Longrightarrow> validate_recovery_transition_statement E (vrt_statement v) = Ok ()"
  by (auto simp: verify_recovery_transition_proof_def verify_recovery_transition_proof_with_receipt_def
      validate_recovery_transition_binding_def)

section \<open>What a verified terminal revocation establishes\<close>

lemma verify_terminal_Ok:
  assumes "policy_bound E root p" and "verify_terminal_persona_revocation_proof E root p pf = Ok v"
  shows "\<exists>payload. decode_terminal_persona_revocation_proof E pf = Ok (payload, vtr_statement v) \<and>
    vtr_revocation_statement_sha256 v = sha256_hex E payload \<and> terminal_allowed p (vtr_statement v) \<and>
    authority_quorum E payload TERMINAL_PERSONA_REVOCATION_AUTHORITY_NAMESPACE (trp_recovery_signatures pf)
      (ps_recovery_key_fingerprints (vp_statement p)) (unat (ps_threshold (vp_statement p))) False
      (vtr_recovery_signer_fingerprints v)"
proof -
  have valid: "validate_recovery_policy_statement E (vp_statement p) = Ok ()" using assms(1) by (simp add: policy_bound_def)
  obtain payload where "decode_terminal_persona_revocation_proof E pf = Ok (payload, vtr_statement v)"
    "validate_terminal_persona_revocation_policy_binding p (vtr_statement v) = Ok ()"
    "verify_authority_signatures E payload (trp_recovery_signatures pf)
       (ps_recovery_key_fingerprints (vp_statement p)) (unat (ps_threshold (vp_statement p))) False
       TERMINAL_PERSONA_REVOCATION_AUTHORITY_NAMESPACE = Ok (vtr_recovery_signer_fingerprints v)"
    "vtr_revocation_statement_sha256 v = sha256_hex E payload"
    using assms(2)
    by (auto simp: verify_terminal_persona_revocation_proof_def verify_terminal_persona_revocation_proof_with_receipt_def
        preflight_terminal_persona_revocation_proof_def validate_terminal_persona_revocation_binding_def)
  then show ?thesis
    by (auto simp: terminal_policy_binding_iff [OF valid]
        verify_authority_signatures_iff [OF valid_policy_distinct [OF valid]])
qed

text \<open>A version 1 policy never allows a terminal revocation.\<close>

lemma v1_policy_not_terminal:
  "ps_schema (vp_statement p) = RECOVERY_POLICY_STATEMENT_SCHEMA \<Longrightarrow> \<not> terminal_allowed p s"
  by (simp add: terminal_allowed_def effective_capabilities_def)

end
