(* ===== verification/Recovery_Chain.thy ===== *)
theory Recovery_Chain
  imports Recovery_Transition
begin

text \<open>
  Recovery-aware histories (\<^verbatim>\<open>src/crates/a-quo-core/src/recovery.rs\<close>): the verification of one ordered
  history of routine transitions, recoveries and at most one terminal revocation together with the
  policy chain that authorises them, the extension of a verified history by one receipt, and the
  match with an expected head.
\<close>

section \<open>Data\<close>

datatype PersonaContinuityTransitionProof =
    RoutineProof PersonaTransitionProof
  | RecoveryProof RecoveryTransitionProof
  | TerminalProof TerminalPersonaRevocationProof

datatype VerifiedPersonaContinuityTransition =
    VerifiedRoutine VerifiedPersonaTransition
  | VerifiedRecovery VerifiedRecoveryTransition
  | VerifiedTerminal VerifiedTerminalPersonaRevocation

record RecoveryAwareContinuityChainReport =
  ra_root_signature :: EvidenceStatus
  ra_expected_root_digest :: EvidenceStatus
  ra_policy_chain :: EvidenceStatus
  ra_policy_transition_checkpoints :: EvidenceStatus
  ra_expected_latest_policy_digest :: EvidenceStatus
  ra_transition_chain :: EvidenceStatus
  ra_persona :: string
  ra_persona_anchor :: string
  ra_root_statement_sha256 :: string
  ra_latest_policy_sha256 :: string
  ra_latest_policy_version :: u32
  ra_latest_policy_time_status :: RecoveryPolicyTimeStatus
  ra_latest_policy_checkpoint_sequence :: u32
  ra_latest_policy_checkpoint_sha256 :: "string option"
  ra_chain_tip_key_fingerprint :: string
  ra_current_key_fingerprint :: "string option"
  ra_terminally_revoked :: bool
  ra_terminal_revocation_count :: u32
  ra_terminal_revocation_statement_sha256 :: "string option"
  ra_terminal_revoked_key_fingerprint :: "string option"
  ra_terminal_revocation_reason :: "TerminalPersonaRevocationReason option"
  ra_transition_count :: u32
  ra_routine_transition_count :: u32
  ra_recovery_transition_count :: u32
  ra_last_issued_at :: i64
  ra_last_transition_sha256 :: "string option"
  ra_checked_at :: i64
  ra_expected_head_checkpoint :: "EvidenceStatus option"
  ra_not_established :: "string list"

record VerifiedRecoveryAwareContinuityChain =
  vrc_root :: VerifiedPersonaRoot
  vrc_policies :: "VerifiedRecoveryPolicy list"
  vrc_transitions :: "VerifiedPersonaContinuityTransition list"
  vrc_report :: RecoveryAwareContinuityChainReport

record chain_ext = recovery_ext +
  continuity_transition_from_json :: "bytes \<Rightarrow> (PersonaContinuityTransitionProof, json_error) result"

definition parse_persona_continuity_transition_proof_bytes ::
  "'z chain_ext_scheme \<Rightarrow> bytes \<Rightarrow> PersonaContinuityTransitionProof res" where
  "parse_persona_continuity_transition_proof_bytes E bs =
     and_then (map_err (\<lambda>r. InvalidContinuityProof (ProofJson r))
       (parse_bounded_json (continuity_transition_from_json E) bs MAX_PROOF_BYTES
         RoutineOrRecoveryTransitionProofDoc)) (\<lambda>proof.
     and_then (case proof of
         RoutineProof p \<Rightarrow> validate_persona_transition_proof_structure E p
       | RecoveryProof p \<Rightarrow> and_then (preflight_recovery_transition_proof E p) (\<lambda>_. Ok ())
       | TerminalProof p \<Rightarrow> and_then (preflight_terminal_persona_revocation_proof E p) (\<lambda>_. Ok ())) (\<lambda>_.
     Ok proof))"

section \<open>The policy a recovery names\<close>

fun position :: "('a \<Rightarrow> bool) \<Rightarrow> 'a list \<Rightarrow> nat option" where
  "position P [] = None"
| "position P (x # xs) = (if P x then Some 0 else map_option Suc (position P xs))"

definition recovery_policy_for_transition ::
  "VerifiedRecoveryPolicy list \<Rightarrow> RecoveryTransitionStatement \<Rightarrow> VerifiedRecoveryPolicy res" where
  "recovery_policy_for_transition policies statement =
     and_then (ok_or (ContinuityChainMismatch (RecoveryChainReason PolicyOutsideChain))
       (position (\<lambda>candidate. vp_policy_statement_sha256 candidate = rts_recovery_policy_sha256 statement) policies)) (\<lambda>policy_index.
     let policy = policies ! policy_index
     in if ps_policy_version (vp_statement policy) \<noteq> rts_recovery_policy_version statement
        then chain_mismatch (RecoveryChainReason RecoveryNotSelectedPolicy)
        else if rts_sequence statement \<le> cp_transition_sequence (ps_continuity_checkpoint (vp_statement policy))
        then chain_mismatch (RecoveryChainReason RecoveryBeforeCheckpoint)
        else if policy_index + 1 < length policies \<and>
          cp_transition_sequence (ps_continuity_checkpoint (vp_statement (policies ! (policy_index + 1))))
            < rts_sequence statement
        then chain_mismatch (RecoveryChainReason RecoverySupersededPolicy)
        else Ok policy)"

section \<open>The history loop\<close>

text \<open>The values that one verified entry of any kind contributes.\<close>

record EntryView =
  en_transition :: VerifiedPersonaContinuityTransition
  en_sequence :: u32
  en_persona_anchor :: string
  en_persona :: string
  en_root_statement_sha256 :: string
  en_linked_previous_transition :: "string option"
  en_previous_key :: string
  en_next_key :: "string option"
  en_issued_at :: i64
  en_statement_sha256 :: string

definition routine_view :: "VerifiedPersonaTransition \<Rightarrow> EntryView" where
  "routine_view v =
     \<lparr>en_transition = VerifiedRoutine v, en_sequence = ts_sequence (vt_statement v),
      en_persona_anchor = ts_persona_anchor (vt_statement v), en_persona = ts_persona (vt_statement v),
      en_root_statement_sha256 = ts_root_statement_sha256 (vt_statement v),
      en_linked_previous_transition = ts_previous_transition_sha256 (vt_statement v),
      en_previous_key = ts_previous_key_fingerprint (vt_statement v),
      en_next_key = Some (ts_next_key_fingerprint (vt_statement v)),
      en_issued_at = ts_issued_at (vt_statement v), en_statement_sha256 = vt_transition_statement_sha256 v\<rparr>"

definition recovery_view :: "VerifiedRecoveryTransition \<Rightarrow> EntryView" where
  "recovery_view v =
     \<lparr>en_transition = VerifiedRecovery v, en_sequence = rts_sequence (vrt_statement v),
      en_persona_anchor = rts_persona_anchor (vrt_statement v), en_persona = rts_persona (vrt_statement v),
      en_root_statement_sha256 = rts_root_statement_sha256 (vrt_statement v),
      en_linked_previous_transition = rts_previous_transition_sha256 (vrt_statement v),
      en_previous_key = rts_previous_key_fingerprint (vrt_statement v),
      en_next_key = Some (rts_next_key_fingerprint (vrt_statement v)),
      en_issued_at = rts_issued_at (vrt_statement v), en_statement_sha256 = vrt_transition_statement_sha256 v\<rparr>"

definition terminal_view :: "VerifiedTerminalPersonaRevocation \<Rightarrow> EntryView" where
  "terminal_view v =
     \<lparr>en_transition = VerifiedTerminal v, en_sequence = trs_sequence (vtr_statement v),
      en_persona_anchor = trs_persona_anchor (vtr_statement v), en_persona = trs_persona (vtr_statement v),
      en_root_statement_sha256 = trs_root_statement_sha256 (vtr_statement v),
      en_linked_previous_transition = trs_previous_transition_sha256 (vtr_statement v),
      en_previous_key = trs_previous_key_fingerprint (vtr_statement v), en_next_key = None,
      en_issued_at = trs_issued_at (vtr_statement v), en_statement_sha256 = vtr_revocation_statement_sha256 v\<rparr>"

text \<open>The \<^verbatim>\<open>match\<close> of the loop: verify one entry against the policies.\<close>

definition verify_entry ::
  "'z recovery_ext_scheme \<Rightarrow> VerifiedPersonaRoot \<Rightarrow> VerifiedRecoveryPolicy list \<Rightarrow> PersonaContinuityTransitionProof \<Rightarrow>
     EntryView res" where
  "verify_entry E root policies entry =
     (case entry of
        RoutineProof proof \<Rightarrow>
          and_then (verify_persona_transition_proof E proof) (\<lambda>verified. Ok (routine_view verified))
      | RecoveryProof proof \<Rightarrow>
          and_then (decode_recovery_transition_proof E proof) (\<lambda>(_, unverified_statement).
          and_then (recovery_policy_for_transition policies unverified_statement) (\<lambda>policy.
          and_then (verify_recovery_transition_proof E root policy proof) (\<lambda>verified. Ok (recovery_view verified))))
      | TerminalProof proof \<Rightarrow>
          and_then (decode_terminal_persona_revocation_proof E proof) (\<lambda>(_, unverified_statement).
          let latest_policy = last policies
          in if trs_recovery_policy_sha256 unverified_statement \<noteq> vp_policy_statement_sha256 latest_policy
                \<or> trs_recovery_policy_version unverified_statement \<noteq> ps_policy_version (vp_statement latest_policy)
             then chain_mismatch (TerminalChainReason TerminalNotLatestPolicy)
             else if trs_sequence unverified_statement
                \<le> cp_transition_sequence (ps_continuity_checkpoint (vp_statement latest_policy))
             then chain_mismatch (TerminalChainReason TerminalBeforeCheckpoint)
             else and_then (verify_terminal_persona_revocation_proof E root latest_policy proof) (\<lambda>verified.
               Ok (terminal_view verified))))"

record RecoveryLoop =
  rl_index :: nat
  rl_current_key_fingerprint :: string
  rl_previous_transition_sha256 :: "string option"
  rl_previous_issued_at :: i64
  rl_routine_transition_count :: u32
  rl_recovery_transition_count :: u32
  rl_terminal_revocation_count :: u32
  rl_terminal_revocation_statement_sha256 :: "string option"
  rl_terminal_revoked_key_fingerprint :: "string option"
  rl_terminal_revocation_reason :: "TerminalPersonaRevocationReason option"
  rl_verified_transitions :: "VerifiedPersonaContinuityTransition list"
  rl_transition_statement_sha256s :: "string list"
  rl_transition_issued_ats :: "i64 list"
  rl_online_key_fingerprints :: "string list"

definition recovery_loop_start :: "VerifiedPersonaRoot \<Rightarrow> RecoveryLoop" where
  "recovery_loop_start root =
     \<lparr>rl_index = 0, rl_current_key_fingerprint = rs_initial_key_fingerprint (vr_statement root),
      rl_previous_transition_sha256 = None, rl_previous_issued_at = rs_issued_at (vr_statement root),
      rl_routine_transition_count = 0, rl_recovery_transition_count = 0, rl_terminal_revocation_count = 0,
      rl_terminal_revocation_statement_sha256 = None, rl_terminal_revoked_key_fingerprint = None,
      rl_terminal_revocation_reason = None, rl_verified_transitions = [],
      rl_transition_statement_sha256s = [], rl_transition_issued_ats = [],
      rl_online_key_fingerprints = [rs_initial_key_fingerprint (vr_statement root)]\<rparr>"

definition validate_entry_at_head :: "VerifiedPersonaRoot \<Rightarrow> RecoveryLoop \<Rightarrow> EntryView \<Rightarrow> unit res" where
  "validate_entry_at_head root s en =
     (if en_sequence en \<noteq> of_nat (rl_index s + 1)
      then chain_mismatch (LinkReason (SequenceOutOfOrder (en_sequence en) (of_nat (rl_index s + 1))))
      else if en_persona_anchor en \<noteq> rs_persona_anchor (vr_statement root)
        \<or> en_persona en \<noteq> rs_persona (vr_statement root)
        \<or> en_root_statement_sha256 en \<noteq> vr_root_statement_sha256 root
      then chain_mismatch (LinkReason BoundToDifferentRoot)
      else if en_linked_previous_transition en \<noteq> rl_previous_transition_sha256 s
      then chain_mismatch (LinkReason LinkMismatch)
      else if en_previous_key en \<noteq> rl_current_key_fingerprint s
      then chain_mismatch (LinkReason PreviousKeyNotCurrent)
      else if en_issued_at en < rl_previous_issued_at s
      then chain_mismatch (LinkReason IssuanceMovesBackward)
      else Ok ())"

text \<open>The set of online keys is a sorted list; inserting a key it has leaves it as it is.\<close>

definition insert_key :: "string \<Rightarrow> string list \<Rightarrow> string list" where
  "insert_key key keys = (if key \<in> set keys then keys else insort key keys)"

definition take_over :: "RecoveryLoop \<Rightarrow> EntryView \<Rightarrow> RecoveryLoop" where
  "take_over s en =
     s\<lparr>rl_index := rl_index s + 1,
       rl_current_key_fingerprint :=
         (case en_next_key en of Some next_key \<Rightarrow> next_key | None \<Rightarrow> rl_current_key_fingerprint s),
       rl_previous_transition_sha256 := Some (en_statement_sha256 en),
       rl_previous_issued_at := en_issued_at en,
       rl_routine_transition_count := rl_routine_transition_count s
         + (case en_transition en of VerifiedRoutine _ \<Rightarrow> 1 | _ \<Rightarrow> 0),
       rl_recovery_transition_count := rl_recovery_transition_count s
         + (case en_transition en of VerifiedRecovery _ \<Rightarrow> 1 | _ \<Rightarrow> 0),
       rl_terminal_revocation_count := rl_terminal_revocation_count s
         + (case en_transition en of VerifiedTerminal _ \<Rightarrow> 1 | _ \<Rightarrow> 0),
       rl_terminal_revocation_statement_sha256 :=
         (case en_next_key en of Some _ \<Rightarrow> rl_terminal_revocation_statement_sha256 s | None \<Rightarrow> Some (en_statement_sha256 en)),
       rl_terminal_revoked_key_fingerprint :=
         (case en_next_key en of Some _ \<Rightarrow> rl_terminal_revoked_key_fingerprint s | None \<Rightarrow> Some (rl_current_key_fingerprint s)),
       rl_terminal_revocation_reason :=
         (case en_transition en of VerifiedTerminal v \<Rightarrow> Some (trs_reason (vtr_statement v)) | _ \<Rightarrow> rl_terminal_revocation_reason s),
       rl_verified_transitions := rl_verified_transitions s @ [en_transition en],
       rl_transition_statement_sha256s := rl_transition_statement_sha256s s @ [en_statement_sha256 en],
       rl_transition_issued_ats := rl_transition_issued_ats s @ [en_issued_at en],
       rl_online_key_fingerprints :=
         (case en_next_key en of Some next_key \<Rightarrow> insert_key next_key (rl_online_key_fingerprints s)
          | None \<Rightarrow> rl_online_key_fingerprints s)\<rparr>"

definition recovery_loop_step ::
  "'z recovery_ext_scheme \<Rightarrow> VerifiedPersonaRoot \<Rightarrow> VerifiedRecoveryPolicy list \<Rightarrow> RecoveryLoop \<Rightarrow>
     PersonaContinuityTransitionProof \<Rightarrow> RecoveryLoop res" where
  "recovery_loop_step E root policies s entry =
     and_then (verify_entry E root policies entry) (\<lambda>en.
     and_then (validate_entry_at_head root s en) (\<lambda>_.
     Ok (take_over s en)))"

section \<open>The checks on the whole history\<close>

definition is_terminal :: "PersonaContinuityTransitionProof \<Rightarrow> bool" where
  "is_terminal entry = (case entry of TerminalProof _ \<Rightarrow> True | _ \<Rightarrow> False)"

definition terminal_positions :: "PersonaContinuityTransitionProof list \<Rightarrow> nat list" where
  "terminal_positions transitions = filter (\<lambda>i. is_terminal (transitions ! i)) [0..<length transitions]"

definition validate_entry_count :: "PersonaContinuityTransitionProof list \<Rightarrow> unit res" where
  "validate_entry_count transitions =
     (let positions = terminal_positions transitions in
      if 1 < length positions then chain_mismatch (TerminalChainReason SeveralTerminals)
      else if (case positions of [] \<Rightarrow> False | index # _ \<Rightarrow> index + 1 \<noteq> length transitions)
      then chain_mismatch (TerminalChainReason TerminalNotFinal)
      else let maximum_entries = (if positions = [] then MAX_CONTINUITY_TRANSITIONS
                                  else unat MAX_TERMINAL_PERSONA_REVOCATION_SEQUENCE)
      in if maximum_entries < length transitions
         then chain_mismatch (TerminalChainReason (TooManyEntries maximum_entries))
         else Ok ())"

definition validate_policy_checkpoint ::
  "string list \<Rightarrow> i64 list \<Rightarrow> nat \<Rightarrow> VerifiedRecoveryPolicy \<Rightarrow> unit res" where
  "validate_policy_checkpoint digests issued_ats transition_count policy =
     (let checkpoint = ps_continuity_checkpoint (vp_statement policy);
          version = ps_policy_version (vp_statement policy) in
      if cp_transition_sequence checkpoint = 0 then Ok ()
      else let checkpoint_index = unat (cp_transition_sequence checkpoint - 1)
      in if length digests \<le> checkpoint_index
         then chain_mismatch (PolicyChainReason
                (CheckpointBeyondChain version (cp_transition_sequence checkpoint) transition_count))
         else if cp_transition_sha256 checkpoint \<noteq> Some (digests ! checkpoint_index)
         then chain_mismatch (PolicyChainReason (CheckpointMismatch version (cp_transition_sequence checkpoint)))
         else if ps_issued_at (vp_statement policy) < issued_ats ! checkpoint_index
         then chain_mismatch (PolicyChainReason (PolicyBeforeCheckpointedTransition version))
         else Ok ())"

definition validate_key_separation :: "string list \<Rightarrow> VerifiedRecoveryPolicy \<Rightarrow> unit res" where
  "validate_key_separation online_key_fingerprints policy =
     (if list_ex (\<lambda>fingerprint. fingerprint \<in> set online_key_fingerprints)
           (ps_recovery_key_fingerprints (vp_statement policy))
      then chain_mismatch (PolicyChainReason (PolicyReusesOnlineKey (ps_policy_version (vp_statement policy))))
      else Ok ())"

definition recovery_not_established :: "bool \<Rightarrow> string list" where
  "recovery_not_established terminally_revoked =
     [''when_or_how_the_root_and_latest_policy_digests_were_pinned'',
      ''whether_a_newer_policy_or_transition_was_withheld'',
      ''trusted_time_for_policy_or_transition_issuance'',
      ''legal_identity_or_guardian_independence'',
      ''artifact_or_software_safety''] @
     (if terminally_revoked
      then [''whether_a_competing_pre_terminal_transition_was_also_authorized_or_withheld'',
            ''whether_recovery_signers_are_distinct_people_or_devices'']
      else [''current_online_key_non_revocation''])"

definition recovery_chain_report ::
  "VerifiedPersonaRoot \<Rightarrow> VerifiedRecoveryPolicy \<Rightarrow> nat \<Rightarrow> i64 \<Rightarrow> RecoveryLoop \<Rightarrow> RecoveryAwareContinuityChainReport" where
  "recovery_chain_report root latest_policy entry_count checked_at s =
     (let terminally_revoked = rl_terminal_revocation_count s = 1 in
      \<lparr>ra_root_signature = Verified, ra_expected_root_digest = Verified, ra_policy_chain = Verified,
       ra_policy_transition_checkpoints = Verified, ra_expected_latest_policy_digest = Verified,
       ra_transition_chain = Verified,
       ra_persona = rs_persona (vr_statement root), ra_persona_anchor = rs_persona_anchor (vr_statement root),
       ra_root_statement_sha256 = vr_root_statement_sha256 root,
       ra_latest_policy_sha256 = vp_policy_statement_sha256 latest_policy,
       ra_latest_policy_version = ps_policy_version (vp_statement latest_policy),
       ra_latest_policy_time_status = policy_time_status (vp_statement latest_policy) checked_at,
       ra_latest_policy_checkpoint_sequence =
         cp_transition_sequence (ps_continuity_checkpoint (vp_statement latest_policy)),
       ra_latest_policy_checkpoint_sha256 =
         cp_transition_sha256 (ps_continuity_checkpoint (vp_statement latest_policy)),
       ra_chain_tip_key_fingerprint = rl_current_key_fingerprint s,
       ra_current_key_fingerprint = (if terminally_revoked then None else Some (rl_current_key_fingerprint s)),
       ra_terminally_revoked = terminally_revoked,
       ra_terminal_revocation_count = rl_terminal_revocation_count s,
       ra_terminal_revocation_statement_sha256 = rl_terminal_revocation_statement_sha256 s,
       ra_terminal_revoked_key_fingerprint = rl_terminal_revoked_key_fingerprint s,
       ra_terminal_revocation_reason = rl_terminal_revocation_reason s,
       ra_transition_count = of_nat entry_count, ra_routine_transition_count = rl_routine_transition_count s,
       ra_recovery_transition_count = rl_recovery_transition_count s,
       ra_last_issued_at = rl_previous_issued_at s, ra_last_transition_sha256 = rl_previous_transition_sha256 s,
       ra_checked_at = checked_at, ra_expected_head_checkpoint = None,
       ra_not_established = recovery_not_established terminally_revoked\<rparr>)"

definition verify_persona_continuity_chain_with_recovery_with_verified_sequence ::
  "'z recovery_ext_scheme \<Rightarrow> PersonaRootProof \<Rightarrow> PersonaContinuityTransitionProof list \<Rightarrow> RecoveryPolicyProof list \<Rightarrow>
     string \<Rightarrow> string \<Rightarrow> i64 \<Rightarrow> VerifiedRecoveryAwareContinuityChain res" where
  "verify_persona_continuity_chain_with_recovery_with_verified_sequence E root_proof transitions policies
     expected_root_statement_sha256 expected_latest_policy_sha256 checked_at =
     and_then (validate_entry_count transitions) (\<lambda>_.
     and_then (validate_jcs_time ContinuityCheckTime checked_at) (\<lambda>_.
     and_then (verified_recovery_policy_sequence E root_proof policies expected_root_statement_sha256
       expected_latest_policy_sha256) (\<lambda>policy_chain.
     let root = vps_root policy_chain; latest_policy = last (vps_policies policy_chain)
     in and_then (try_fold (recovery_loop_step E root (vps_policies policy_chain)) (recovery_loop_start root)
          transitions) (\<lambda>s.
        and_then (try_each (validate_policy_checkpoint (rl_transition_statement_sha256s s)
          (rl_transition_issued_ats s) (length transitions)) (vps_policies policy_chain)) (\<lambda>_.
        and_then (try_each (validate_key_separation (rl_online_key_fingerprints s)) (vps_policies policy_chain)) (\<lambda>_.
        Ok \<lparr>vrc_root = root, vrc_policies = vps_policies policy_chain,
            vrc_transitions = rl_verified_transitions s,
            vrc_report = recovery_chain_report root latest_policy (length transitions) checked_at s\<rparr>))))))"

definition verify_persona_continuity_chain_with_recovery ::
  "'z recovery_ext_scheme \<Rightarrow> PersonaRootProof \<Rightarrow> PersonaContinuityTransitionProof list \<Rightarrow> RecoveryPolicyProof list \<Rightarrow>
     string \<Rightarrow> string \<Rightarrow> i64 \<Rightarrow> RecoveryAwareContinuityChainReport res" where
  "verify_persona_continuity_chain_with_recovery E root_proof transitions policies
     expected_root_statement_sha256 expected_latest_policy_sha256 checked_at =
     and_then (verify_persona_continuity_chain_with_recovery_with_verified_sequence E root_proof transitions policies
       expected_root_statement_sha256 expected_latest_policy_sha256 checked_at) (\<lambda>chain. Ok (vrc_report chain))"

section \<open>Extending a verified history\<close>

definition validate_recovery_aware_transition_at_head ::
  "VerifiedRecoveryAwareContinuityChain \<Rightarrow> u32 \<Rightarrow> string \<Rightarrow> string \<Rightarrow> string \<Rightarrow> string option \<Rightarrow> string \<Rightarrow> string \<Rightarrow> i64 \<Rightarrow>
     unit res" where
  "validate_recovery_aware_transition_at_head chain sequence persona_anchor persona root_statement_sha256
     previous_transition_sha256 previous_key_fingerprint next_key_fingerprint issued_at =
     (if ra_terminally_revoked (vrc_report chain) \<or> ra_current_key_fingerprint (vrc_report chain) = None
      then chain_mismatch (TerminalChainReason TerminallyRevoked)
      else if MAX_CONTINUITY_TRANSITIONS \<le> length (vrc_transitions chain)
      then chain_mismatch (LinkReason TooManyTransitions)
      else and_then (ok_or (ContinuityChainMismatch (LinkReason SequenceOverflow))
        (checked_add (ra_transition_count (vrc_report chain)) 1)) (\<lambda>expected_sequence.
      if sequence \<noteq> expected_sequence
      then chain_mismatch (LinkReason (SequenceOutOfOrder sequence expected_sequence))
      else if persona_anchor \<noteq> rs_persona_anchor (vr_statement (vrc_root chain))
        \<or> persona \<noteq> rs_persona (vr_statement (vrc_root chain))
        \<or> root_statement_sha256 \<noteq> vr_root_statement_sha256 (vrc_root chain)
      then chain_mismatch (LinkReason BoundToDifferentRoot)
      else if previous_transition_sha256 \<noteq> ra_last_transition_sha256 (vrc_report chain)
      then chain_mismatch (LinkReason LinkMismatch)
      else if Some previous_key_fingerprint \<noteq> ra_current_key_fingerprint (vrc_report chain)
      then chain_mismatch (LinkReason PreviousKeyNotCurrent)
      else if issued_at < ra_last_issued_at (vrc_report chain)
      then chain_mismatch (LinkReason IssuanceMovesBackward)
      else try_each (\<lambda>candidate.
        if is_Ok (binary_search (ps_recovery_key_fingerprints (vp_statement candidate)) next_key_fingerprint)
        then chain_mismatch (PolicyChainReason (PolicyReusesProposedKey (ps_policy_version (vp_statement candidate))))
        else Ok ()) (vrc_policies chain)))"

definition validate_verified_recovery_aware_continuity_chain_extension ::
  "VerifiedRecoveryAwareContinuityChain \<Rightarrow> VerifiedRecoveryTransitionReceipt \<Rightarrow> unit res" where
  "validate_verified_recovery_aware_continuity_chain_extension chain receipt =
     (let statement = vrt_statement (rtr_transition receipt) in
      and_then (validate_recovery_aware_transition_at_head chain (rts_sequence statement)
        (rts_persona_anchor statement) (rts_persona statement) (rts_root_statement_sha256 statement)
        (rts_previous_transition_sha256 statement) (rts_previous_key_fingerprint statement)
        (rts_next_key_fingerprint statement) (rts_issued_at statement)) (\<lambda>_.
      and_then (recovery_policy_for_transition (vrc_policies chain) statement) (\<lambda>policy.
      if rtr_policy_statement receipt \<noteq> vp_statement policy
         \<or> rtr_policy_statement_sha256 receipt \<noteq> vp_policy_statement_sha256 policy
      then chain_mismatch (RecoveryChainReason ReceiptOtherPolicy)
      else validate_recovery_transition_policy_binding policy statement)))"

definition validate_recovery_ceremony_candidate ::
  "'z ext_scheme \<Rightarrow> VerifiedRecoveryAwareContinuityChain \<Rightarrow> RecoveryTransitionStatement \<Rightarrow> string \<Rightarrow>
     VerifiedRecoveryPolicy res" where
  "validate_recovery_ceremony_candidate E chain statement next_public_key =
     (if rts_schema statement \<noteq> RECOVERY_TRANSITION_STATEMENT_SCHEMA_V2
      then invalid_statement (RecoveryReason CeremonyNeedsV2)
      else and_then (validate_recovery_transition_statement E statement) (\<lambda>_.
      and_then (normalize_public_key E next_public_key) (\<lambda>next_public_key.
      and_then (require_fingerprint E next_public_key (rts_next_key_fingerprint statement)) (\<lambda>_.
      and_then (validate_recovery_aware_transition_at_head chain (rts_sequence statement)
        (rts_persona_anchor statement) (rts_persona statement) (rts_root_statement_sha256 statement)
        (rts_previous_transition_sha256 statement) (rts_previous_key_fingerprint statement)
        (rts_next_key_fingerprint statement) (rts_issued_at statement)) (\<lambda>_.
      and_then (recovery_policy_for_transition (vrc_policies chain) statement) (\<lambda>policy.
      and_then (validate_recovery_transition_binding E (vrc_root chain) policy statement) (\<lambda>_.
      Ok policy)))))))"

definition validate_verified_recovery_aware_continuity_chain_routine_extension ::
  "VerifiedRecoveryAwareContinuityChain \<Rightarrow> VerifiedPersonaTransitionReceipt \<Rightarrow> unit res" where
  "validate_verified_recovery_aware_continuity_chain_routine_extension chain receipt =
     (let statement = vt_statement (receipt_transition receipt) in
      validate_recovery_aware_transition_at_head chain (ts_sequence statement)
        (ts_persona_anchor statement) (ts_persona statement) (ts_root_statement_sha256 statement)
        (ts_previous_transition_sha256 statement) (ts_previous_key_fingerprint statement)
        (ts_next_key_fingerprint statement) (ts_issued_at statement))"

definition validate_verified_recovery_aware_continuity_chain_terminal_revocation_extension ::
  "VerifiedRecoveryAwareContinuityChain \<Rightarrow> VerifiedTerminalPersonaRevocationReceipt \<Rightarrow> unit res" where
  "validate_verified_recovery_aware_continuity_chain_terminal_revocation_extension chain receipt =
     (if ra_terminally_revoked (vrc_report chain) \<or> ra_current_key_fingerprint (vrc_report chain) = None
      then chain_mismatch (TerminalChainReason TerminallyRevoked)
      else if MAX_CONTINUITY_TRANSITIONS < length (vrc_transitions chain)
      then chain_mismatch (TerminalChainReason TerminalTooManyTransitions)
      else let statement = vtr_statement (trr_revocation receipt);
               latest_policy = last (vrc_policies chain) in
      and_then (ok_or (ContinuityChainMismatch (TerminalChainReason TerminalSequenceOverflow))
        (checked_add (ra_transition_count (vrc_report chain)) 1)) (\<lambda>expected_sequence.
      if MAX_TERMINAL_PERSONA_REVOCATION_SEQUENCE < expected_sequence \<or> trs_sequence statement \<noteq> expected_sequence
      then chain_mismatch (TerminalChainReason (TerminalSequenceOutOfOrder (trs_sequence statement) expected_sequence))
      else if trs_persona_anchor statement \<noteq> rs_persona_anchor (vr_statement (vrc_root chain))
        \<or> trs_persona statement \<noteq> rs_persona (vr_statement (vrc_root chain))
        \<or> trs_root_statement_sha256 statement \<noteq> vr_root_statement_sha256 (vrc_root chain)
      then chain_mismatch (TerminalChainReason TerminalBoundToDifferentRoot)
      else if trs_previous_transition_sha256 statement \<noteq> ra_last_transition_sha256 (vrc_report chain)
      then chain_mismatch (TerminalChainReason TerminalLinkMismatch)
      else if Some (trs_previous_key_fingerprint statement) \<noteq> ra_current_key_fingerprint (vrc_report chain)
      then chain_mismatch (TerminalChainReason TerminalKeyNotCurrent)
      else if trs_issued_at statement < ra_last_issued_at (vrc_report chain)
      then chain_mismatch (TerminalChainReason TerminalIssuanceBackward)
      else if trs_recovery_policy_sha256 statement \<noteq> vp_policy_statement_sha256 latest_policy
        \<or> trs_recovery_policy_version statement \<noteq> ps_policy_version (vp_statement latest_policy)
      then chain_mismatch (TerminalChainReason TerminalNotLatestPolicy)
      else if trs_sequence statement \<le> cp_transition_sequence (ps_continuity_checkpoint (vp_statement latest_policy))
      then chain_mismatch (TerminalChainReason TerminalBeforeCheckpoint)
      else if trr_policy_statement receipt \<noteq> vp_statement latest_policy
        \<or> trr_policy_statement_sha256 receipt \<noteq> vp_policy_statement_sha256 latest_policy
      then chain_mismatch (TerminalChainReason TerminalReceiptOtherPolicy)
      else validate_terminal_persona_revocation_policy_binding latest_policy statement))"

section \<open>Histories at an expected head\<close>

definition match_recovery_aware_continuity_head_checkpoint ::
  "u32 \<Rightarrow> string option \<Rightarrow> PersonaContinuityCheckpoint \<Rightarrow> unit res" where
  "match_recovery_aware_continuity_head_checkpoint actual_sequence actual_transition_sha256 expected =
     (if pc_transition_sequence expected \<le> of_nat MAX_CONTINUITY_TRANSITIONS
      then match_continuity_head_checkpoint actual_sequence actual_transition_sha256 expected
      else if pc_transition_sequence expected \<noteq> MAX_TERMINAL_PERSONA_REVOCATION_SEQUENCE
      then chain_mismatch (HeadReason HeadSequenceAboveTerminal)
      else and_then (ok_or (ContinuityChainMismatch (HeadReason HeadNeedsDigest)) (pc_transition_sha256 expected)) (\<lambda>expected_digest.
      and_then (validate_sha256 ExpectedHeadDigest expected_digest) (\<lambda>_.
      if actual_sequence \<noteq> pc_transition_sequence expected \<or> actual_transition_sha256 \<noteq> Some expected_digest
      then chain_mismatch (HeadReason HeadMismatch)
      else Ok ())))"

definition verify_recovery_chain_with_sequence_at_checkpoint ::
  "'z recovery_ext_scheme \<Rightarrow> PersonaRootProof \<Rightarrow> PersonaContinuityTransitionProof list \<Rightarrow> RecoveryPolicyProof list \<Rightarrow>
     string \<Rightarrow> string \<Rightarrow> i64 \<Rightarrow> PersonaContinuityCheckpoint \<Rightarrow> VerifiedRecoveryAwareContinuityChain res" where
  "verify_recovery_chain_with_sequence_at_checkpoint E root_proof transitions policy_proofs
     expected_root_statement_sha256 expected_latest_policy_sha256 checked_at expected_head =
     and_then (verify_persona_continuity_chain_with_recovery_with_verified_sequence E root_proof transitions
       policy_proofs expected_root_statement_sha256 expected_latest_policy_sha256 checked_at) (\<lambda>chain.
     and_then (match_recovery_aware_continuity_head_checkpoint (ra_transition_count (vrc_report chain))
       (ra_last_transition_sha256 (vrc_report chain)) expected_head) (\<lambda>_.
     Ok (chain\<lparr>vrc_report := (vrc_report chain)\<lparr>ra_expected_head_checkpoint := Some Verified,
       ra_not_established :=
         filter (\<lambda>claim. claim \<noteq> ''whether_a_newer_policy_or_transition_was_withheld'')
           (ra_not_established (vrc_report chain))
         @ [''when_or_how_the_head_checkpoint_was_pinned'', ''whether_a_newer_policy_was_withheld'',
            ''whether_a_competing_transition_or_policy_branch_was_also_authorized_or_withheld'']
         @ (if ra_terminally_revoked (vrc_report chain) then []
            else [''whether_a_newer_transition_exists_after_the_expected_checkpoint''])\<rparr>\<rparr>)))"

definition verify_persona_continuity_chain_with_recovery_at_checkpoint ::
  "'z recovery_ext_scheme \<Rightarrow> PersonaRootProof \<Rightarrow> PersonaContinuityTransitionProof list \<Rightarrow> RecoveryPolicyProof list \<Rightarrow>
     string \<Rightarrow> string \<Rightarrow> i64 \<Rightarrow> PersonaContinuityCheckpoint \<Rightarrow> RecoveryAwareContinuityChainReport res" where
  "verify_persona_continuity_chain_with_recovery_at_checkpoint E root_proof transitions policy_proofs
     expected_root_statement_sha256 expected_latest_policy_sha256 checked_at expected_head =
     and_then (verify_recovery_chain_with_sequence_at_checkpoint E root_proof transitions policy_proofs
       expected_root_statement_sha256 expected_latest_policy_sha256 checked_at expected_head) (\<lambda>chain.
     Ok (vrc_report chain))"

section \<open>Entries of a history\<close>

lemma position_Some:
  "position P xs = Some i \<Longrightarrow> i < length xs \<and> P (xs ! i) \<and> (\<forall>j<i. \<not> P (xs ! j))"
proof (induction xs arbitrary: i)
  case (Cons x xs)
  then show ?case by (cases i) (auto split: if_splits simp: nth_Cons split: nat.splits)
qed simp

text \<open>The policy a recovery was verified under: named by the recovery, and not superseded at its sequence.\<close>

definition governing_policy ::
  "VerifiedRecoveryPolicy list \<Rightarrow> RecoveryTransitionStatement \<Rightarrow> VerifiedRecoveryPolicy \<Rightarrow> bool" where
  "governing_policy policies s p \<longleftrightarrow>
     (\<exists>i<length policies. p = policies ! i \<and>
        vp_policy_statement_sha256 p = rts_recovery_policy_sha256 s \<and>
        ps_policy_version (vp_statement p) = rts_recovery_policy_version s \<and>
        cp_transition_sequence (ps_continuity_checkpoint (vp_statement p)) < rts_sequence s \<and>
        (Suc i < length policies \<longrightarrow>
          rts_sequence s \<le> cp_transition_sequence (ps_continuity_checkpoint (vp_statement (policies ! Suc i)))))"

lemma recovery_policy_for_transition_Ok:
  assumes "recovery_policy_for_transition policies s = Ok p"
  shows "governing_policy policies s p"
  using assms position_Some
  by (fastforce simp: recovery_policy_for_transition_def governing_policy_def Let_def not_le not_less)

lemma governing_policy_member: "governing_policy policies s p \<Longrightarrow> p \<in> set policies"
  by (auto simp: governing_policy_def)

text \<open>What a verified entry is, by kind.\<close>

definition entry_evidence ::
  "'z recovery_ext_scheme \<Rightarrow> VerifiedPersonaRoot \<Rightarrow> VerifiedRecoveryPolicy list \<Rightarrow> PersonaContinuityTransitionProof \<Rightarrow>
     EntryView \<Rightarrow> bool" where
  "entry_evidence E root policies entry en =
     (case entry of
        RoutineProof pf \<Rightarrow> (\<exists>v. en = routine_view v \<and> verify_persona_transition_proof E pf = Ok v)
      | RecoveryProof pf \<Rightarrow> (\<exists>v p. en = recovery_view v \<and> governing_policy policies (vrt_statement v) p \<and>
          verify_recovery_transition_proof E root p pf = Ok v)
      | TerminalProof pf \<Rightarrow> (\<exists>v. en = terminal_view v \<and>
          cp_transition_sequence (ps_continuity_checkpoint (vp_statement (last policies))) < trs_sequence (vtr_statement v) \<and>
          verify_terminal_persona_revocation_proof E root (last policies) pf = Ok v))"

lemma verify_recovery_decodes:
  "verify_recovery_transition_proof E root p pf = Ok v \<Longrightarrow>
     decode_recovery_transition_proof E pf = Ok (payload, s) \<Longrightarrow> s = vrt_statement v"
  by (auto simp: verify_recovery_transition_proof_def verify_recovery_transition_proof_with_receipt_def
      preflight_recovery_transition_proof_def)

lemma verify_terminal_decodes:
  "verify_terminal_persona_revocation_proof E root p pf = Ok v \<Longrightarrow>
     decode_terminal_persona_revocation_proof E pf = Ok (payload, s) \<Longrightarrow> s = vtr_statement v"
  by (auto simp: verify_terminal_persona_revocation_proof_def verify_terminal_persona_revocation_proof_with_receipt_def
      preflight_terminal_persona_revocation_proof_def)

lemma verify_entry_evidence:
  assumes "verify_entry E root policies entry = Ok en"
  shows "entry_evidence E root policies entry en"
proof (cases entry)
  case (RoutineProof pf)
  with assms show ?thesis by (auto simp: verify_entry_def entry_evidence_def)
next
  case (RecoveryProof pf)
  with assms obtain payload s p v where
    "decode_recovery_transition_proof E pf = Ok (payload, s)" "recovery_policy_for_transition policies s = Ok p"
    "verify_recovery_transition_proof E root p pf = Ok v" "en = recovery_view v"
    by (auto simp: verify_entry_def)
  with RecoveryProof show ?thesis
    by (auto simp: entry_evidence_def dest: verify_recovery_decodes recovery_policy_for_transition_Ok)
next
  case (TerminalProof pf)
  with assms obtain payload s v where
    "decode_terminal_persona_revocation_proof E pf = Ok (payload, s)"
    "\<not> trs_sequence s \<le> cp_transition_sequence (ps_continuity_checkpoint (vp_statement (last policies)))"
    "verify_terminal_persona_revocation_proof E root (last policies) pf = Ok v" "en = terminal_view v"
    by (auto simp: verify_entry_def Let_def)
  with TerminalProof show ?thesis
    by (auto simp: entry_evidence_def not_le dest: verify_terminal_decodes)
qed

lemma verified_transition_keys:
  "verify_persona_transition_proof E pf = Ok v \<Longrightarrow>
     ts_previous_key_fingerprint (vt_statement v) \<noteq> ts_next_key_fingerprint (vt_statement v)"
  by (rule valid_transition_facts(1) [OF verified_transition_valid])

lemma verified_recovery_keys:
  "verify_recovery_transition_proof E root p pf = Ok v \<Longrightarrow>
     rts_previous_key_fingerprint (vrt_statement v) \<noteq> rts_next_key_fingerprint (vrt_statement v)"
  by (rule valid_recovery_facts(1) [OF verify_recovery_valid])

lemma entry_evidence_kind:
  assumes "entry_evidence E root policies entry en"
  shows "en_next_key en = None \<longleftrightarrow> is_terminal entry"
    and "en_next_key en \<noteq> Some (en_previous_key en)"
    and "(\<exists>v. en = routine_view v) \<or> (\<exists>v. en = recovery_view v) \<or> (\<exists>v. en = terminal_view v)"
  using assms
  by (auto simp: entry_evidence_def is_terminal_def routine_view_def recovery_view_def terminal_view_def
      split: PersonaContinuityTransitionProof.splits dest: verified_transition_keys verified_recovery_keys)

section \<open>The history loop as a history\<close>

definition entry_change :: "EntryView \<Rightarrow> change" where
  "entry_change en =
     (case en_transition en of
        VerifiedRoutine _ \<Rightarrow> Rotated
      | VerifiedRecovery v \<Rightarrow> Recovered (unat (rts_recovery_policy_version (vrt_statement v)))
      | VerifiedTerminal v \<Rightarrow> Revoked (unat (trs_recovery_policy_version (vtr_statement v))))"

definition entry_event :: "EntryView \<Rightarrow> event" where
  "entry_event en =
     \<lparr>ev_change = entry_change en, ev_sequence = unat (en_sequence en),
      ev_link = en_linked_previous_transition en, ev_from = en_previous_key en,
      ev_to = (case en_next_key en of Some k \<Rightarrow> Online k | None \<Rightarrow> Ended),
      ev_time = en_issued_at en, ev_digest = en_statement_sha256 en\<rparr>"

definition entry_bound :: "VerifiedPersonaRoot \<Rightarrow> EntryView \<Rightarrow> bool" where
  "entry_bound root en \<longleftrightarrow>
     en_persona_anchor en = rs_persona_anchor (vr_statement root) \<and>
     en_persona en = rs_persona (vr_statement root) \<and>
     en_root_statement_sha256 en = vr_root_statement_sha256 root"

definition rl_head :: "RecoveryLoop \<Rightarrow> head" where
  "rl_head s =
     \<lparr>head_sequence = rl_index s, head_link = rl_previous_transition_sha256 s,
      head_authority = (if rl_terminal_revocation_count s = 0 then Online (rl_current_key_fingerprint s) else Ended),
      head_time = rl_previous_issued_at s\<rparr>"

fun terminal_last :: "PersonaContinuityTransitionProof list \<Rightarrow> bool" where
  "terminal_last [] = True"
| "terminal_last (x # xs) = ((is_terminal x \<longrightarrow> xs = []) \<and> terminal_last xs)"

definition rl_inv :: "PersonaContinuityTransitionProof list \<Rightarrow> RecoveryLoop \<Rightarrow> bool" where
  "rl_inv rest s \<longleftrightarrow>
     terminal_last rest \<and> rl_index s + length rest \<le> 4097 \<and> (rest \<noteq> [] \<longrightarrow> rl_terminal_revocation_count s = 0)"

lemma take_over_head:
  assumes "entry_evidence E root policies entry en" and "rl_terminal_revocation_count s = 0"
    and "unat (en_sequence en) = rl_index s + 1"
  shows "rl_head (take_over s en) = head_after (entry_event en)"
  using assms entry_evidence_kind(3) [OF assms(1)]
  by (auto simp: rl_head_def take_over_def head_after_def entry_event_def routine_view_def recovery_view_def terminal_view_def)

lemma recovery_step_Ok_iff:
  assumes "rl_inv (x # rest) s"
  shows "recovery_loop_step E root policies s x = Ok s' \<longleftrightarrow>
    (\<exists>en. verify_entry E root policies x = Ok en \<and> entry_bound root en \<and> s' = take_over s en \<and>
       advances (rl_head s) (entry_event en) (rl_head s'))"
proof -
  have s: "rl_terminal_revocation_count s = 0" "rl_index s + 1 \<le> 4097" using assms by (auto simp: rl_inv_def)
  have "validate_entry_at_head root s en = Ok () \<longleftrightarrow>
      entry_bound root en \<and> advances (rl_head s) (entry_event en) (rl_head (take_over s en))"
    if ev: "entry_evidence E root policies x en" for en
  proof -
    have seq: "en_sequence en = of_nat (rl_index s + 1) \<longleftrightarrow> unat (en_sequence en) = rl_index s + 1"
      using s(2) by (intro u32_eq_of_nat_iff) simp
    have ends: "en_next_key en = None \<longleftrightarrow> ends_history (entry_change en)"
      using entry_evidence_kind(3) [OF ev]
      by (auto simp: entry_change_def ends_history_def routine_view_def recovery_view_def terminal_view_def)
    show ?thesis
    proof (cases "unat (en_sequence en) = rl_index s + 1")
      case True
      then have "rl_head (take_over s en) = head_after (entry_event en)" using take_over_head [OF ev s(1)] by simp
      with True seq ends entry_evidence_kind(2) [OF ev] s(1) show ?thesis
        by (auto simp: validate_entry_at_head_def entry_bound_def advances_iff rl_head_def entry_event_def
            split: option.splits)
    next
      case False
      with seq show ?thesis by (auto simp: validate_entry_at_head_def advances_iff entry_event_def rl_head_def)
    qed
  qed
  then show ?thesis using verify_entry_evidence [of E root policies x]
    by (auto simp: recovery_loop_step_def)
qed


text \<open>The view of a verified entry is a function of the entry.\<close>

definition view_of :: "VerifiedPersonaContinuityTransition \<Rightarrow> EntryView" where
  "view_of t = (case t of VerifiedRoutine v \<Rightarrow> routine_view v | VerifiedRecovery v \<Rightarrow> recovery_view v
     | VerifiedTerminal v \<Rightarrow> terminal_view v)"

lemma view_of_transition:
  "entry_evidence E root policies entry en \<Longrightarrow> view_of (en_transition en) = en"
  by (drule entry_evidence_kind(3)) (auto simp: view_of_def routine_view_def recovery_view_def terminal_view_def)

lemma transition_of_view [simp]: "en_transition (view_of v) = v"
  by (cases v) (simp_all add: view_of_def routine_view_def recovery_view_def terminal_view_def)

definition event_of :: "VerifiedPersonaContinuityTransition \<Rightarrow> event" where
  "event_of t = entry_event (view_of t)"

lemma rl_inv_step:
  assumes "rl_inv (x # rest) s" and "verify_entry E root policies x = Ok en"
  shows "rl_inv rest (take_over s en)"
proof -
  have "rest \<noteq> [] \<Longrightarrow> \<not> is_terminal x" using assms(1) by (auto simp: rl_inv_def)
  then show ?thesis
    using assms(1) entry_evidence_kind(1,3) [OF verify_entry_evidence [OF assms(2)]]
    by (auto simp: rl_inv_def take_over_def routine_view_def recovery_view_def terminal_view_def)
qed

interpretation mixed: chain_refinement "recovery_loop_step E root policies" rl_head
  "\<lambda>s. map event_of (rl_verified_transitions s)" rl_inv for E root policies
proof
  fix x rest s s'
  assume inv: "rl_inv (x # rest) s" and step: "recovery_loop_step E root policies s x = Ok s'"
  from step [unfolded recovery_step_Ok_iff [OF inv]] obtain en where
    en: "verify_entry E root policies x = Ok en" "s' = take_over s en" "advances (rl_head s) (entry_event en) (rl_head s')"
    by blast
  moreover have "map event_of (rl_verified_transitions s') = map event_of (rl_verified_transitions s) @ [entry_event en]"
    using en(2) view_of_transition [OF verify_entry_evidence [OF en(1)]] by (simp add: take_over_def event_of_def)
  ultimately show "rl_inv rest s' \<and> (\<exists>e. map event_of (rl_verified_transitions s')
      = map event_of (rl_verified_transitions s) @ [e] \<and> advances (rl_head s) e (rl_head s'))"
    using rl_inv_step [OF inv en(1)] by auto
qed

definition entries_so_far ::
  "'z recovery_ext_scheme \<Rightarrow> VerifiedPersonaRoot \<Rightarrow> VerifiedRecoveryPolicy list \<Rightarrow> PersonaContinuityTransitionProof list \<Rightarrow>
     RecoveryLoop \<Rightarrow> bool" where
  "entries_so_far E root policies seen s \<longleftrightarrow>
     list_all2 (\<lambda>x t. verify_entry E root policies x = Ok (view_of t) \<and> entry_bound root (view_of t))
       seen (rl_verified_transitions s) \<and>
     s = foldl take_over (recovery_loop_start root) (map view_of (rl_verified_transitions s))"

lemma validate_entry_bound: "validate_entry_at_head root s en = Ok () \<Longrightarrow> entry_bound root en"
  by (auto simp: validate_entry_at_head_def entry_bound_def)

interpretation mixed_inv: loop_invariant "recovery_loop_step E root policies" "entries_so_far E root policies"
  for E root policies
proof
  fix seen s x s'
  assume so_far: "entries_so_far E root policies seen s" and step: "recovery_loop_step E root policies s x = Ok s'"
  from step obtain en where en: "verify_entry E root policies x = Ok en" "validate_entry_at_head root s en = Ok ()"
    "s' = take_over s en" by (auto simp: recovery_loop_step_def)
  have view: "view_of (en_transition en) = en" by (rule view_of_transition [OF verify_entry_evidence [OF en(1)]])
  have "rl_verified_transitions s' = rl_verified_transitions s @ [en_transition en]" by (simp add: en(3) take_over_def)
  with so_far en view validate_entry_bound [OF en(2)] show "entries_so_far E root policies (seen @ [x]) s'"
    by (auto simp: entries_so_far_def intro!: list_all2_appendI)
qed

text \<open>What a recovery-aware history is.\<close>

definition recovery_history ::
  "'z recovery_ext_scheme \<Rightarrow> VerifiedPersonaRoot \<Rightarrow> VerifiedRecoveryPolicy list \<Rightarrow> PersonaContinuityTransitionProof list \<Rightarrow>
     VerifiedPersonaContinuityTransition list \<Rightarrow> head \<Rightarrow> bool" where
  "recovery_history E root policies entries vs h \<longleftrightarrow>
     list_all2 (\<lambda>x t. verify_entry E root policies x = Ok (view_of t) \<and> entry_bound root (view_of t)) entries vs \<and>
     history (root_head root) (map event_of vs) h"

lemma rl_head_start: "rl_head (recovery_loop_start root) = root_head root"
  by (simp add: rl_head_def recovery_loop_start_def root_head_def genesis_def)

lemma recovery_loop_sound:
  assumes "terminal_last ts" "length ts \<le> 4097"
    and loop: "try_fold (recovery_loop_step E root policies) (recovery_loop_start root) ts = Ok s"
  shows "recovery_history E root policies ts (rl_verified_transitions s) (rl_head s)"
    and "s = foldl take_over (recovery_loop_start root) (map view_of (rl_verified_transitions s))"
proof -
  have "entries_so_far E root policies [] (recovery_loop_start root)"
    by (simp add: entries_so_far_def recovery_loop_start_def)
  from mixed_inv.loop_keeps_from_start [OF this loop] have so_far: "entries_so_far E root policies ts s" .
  then show "s = foldl take_over (recovery_loop_start root) (map view_of (rl_verified_transitions s))"
    by (simp add: entries_so_far_def)
  have "rl_inv ts (recovery_loop_start root)" using assms(1,2) by (simp add: rl_inv_def recovery_loop_start_def)
  from mixed.loop_history [OF this loop]
  have "history (root_head root) (map event_of (rl_verified_transitions s)) (rl_head s)"
    by (auto simp: rl_head_start) (simp add: recovery_loop_start_def)
  with so_far show "recovery_history E root policies ts (rl_verified_transitions s) (rl_head s)"
    by (simp add: entries_so_far_def recovery_history_def)
qed

lemma foldl_take_over_index: "rl_index (foldl take_over s ens) = rl_index s + length ens"
  by (induction ens arbitrary: s) (auto simp: take_over_def)

lemma recovery_loop_complete:
  assumes "length ts \<le> 4097" and "recovery_history E root policies ts vs h"
  shows "\<exists>s. try_fold (recovery_loop_step E root policies) (recovery_loop_start root) ts = Ok s \<and>
    rl_verified_transitions s = vs \<and> rl_head s = h"
  using assms
proof (induction ts arbitrary: vs h rule: rev_induct)
  case Nil
  then show ?case by (auto simp: recovery_history_def rl_head_start) (simp add: recovery_loop_start_def)
next
  case (snoc t ts)
  from snoc.prems(2) obtain ws v g where vs: "vs = ws @ [v]" and prev: "recovery_history E root policies ts ws g"
    and t: "verify_entry E root policies t = Ok (view_of v)" "entry_bound root (view_of v)"
    and adv: "advances g (event_of v) h"
    unfolding recovery_history_def list_all2_append1 list_all2_Cons1 by auto
  from snoc.IH [OF _ prev] snoc.prems(1) obtain s where
    s: "try_fold (recovery_loop_step E root policies) (recovery_loop_start root) ts = Ok s"
    "rl_verified_transitions s = ws" "rl_head s = g" by auto
  from adv s(3) have online: "rl_terminal_revocation_count s = 0"
    by (auto simp: advances_iff rl_head_def split: if_splits)
  have seq: "unat (en_sequence (view_of v)) = rl_index s + 1"
    using adv s(3) by (auto simp: advances_iff rl_head_def event_of_def entry_event_def)
  have "rl_index s + 1 \<le> 4097"
  proof -
    have "entries_so_far E root policies [] (recovery_loop_start root)"
      by (simp add: entries_so_far_def recovery_loop_start_def)
    from mixed_inv.loop_keeps_from_start [OF this s(1)] have so_far: "entries_so_far E root policies ts s" .
    then have "s = foldl take_over (recovery_loop_start root) (map view_of (rl_verified_transitions s))"
      and len: "length ts = length (rl_verified_transitions s)"
      by (auto simp: entries_so_far_def dest: list_all2_lengthD)
    then have "rl_index s = length ts"
      using foldl_take_over_index [of "recovery_loop_start root" "map view_of (rl_verified_transitions s)"]
      by (simp add: recovery_loop_start_def)
    with snoc.prems(1) show ?thesis by simp
  qed
  with online have inv: "rl_inv [t] s" by (simp add: rl_inv_def)
  have view: "view_of (en_transition (view_of v)) = view_of v" by (rule view_of_transition [OF verify_entry_evidence [OF t(1)]])
  have head: "rl_head (take_over s (view_of v)) = h"
    using take_over_head [OF verify_entry_evidence [OF t(1)] online seq] adv
    by (simp add: advances_iff event_of_def)
  have "recovery_loop_step E root policies s t = Ok (take_over s (view_of v))"
    unfolding recovery_step_Ok_iff [OF inv] using t adv s(3) head by (auto simp: event_of_def)
  then show ?case using s vs head by (simp add: try_fold_snoc) (simp add: take_over_def)
qed

end
