(* ===== verification/Recovery_History.thy ===== *)
theory Recovery_History
  imports Recovery_Chain
begin

text \<open>
  The correctness of recovery-aware histories: the verification of
  \<^verbatim>\<open>verify_persona_continuity_chain_with_recovery\<close> in \<^verbatim>\<open>src/crates/a-quo-core/src/recovery.rs\<close> refines the
  abstract histories of the theory History, and what follows for quorums, terminal revocations, key
  separation, forks and the extension of a verified history by one receipt.
\<close>

section \<open>The verified history\<close>

lemma terminal_count_step:
  assumes "try_fold (recovery_loop_step E root policies) s ts = Ok s'" "rl_inv ts s"
    and "rl_terminal_revocation_count s \<in> {0, 1}"
  shows "rl_terminal_revocation_count s' \<in> {0, 1}"
  using assms
proof (induction ts arbitrary: s)
  case (Cons t ts)
  from Cons.prems(1) obtain en where en: "verify_entry E root policies t = Ok en"
    and rest: "try_fold (recovery_loop_step E root policies) (take_over s en) ts = Ok s'"
    by (auto simp: recovery_loop_step_def [of E root policies s t])
  have "rl_terminal_revocation_count s = 0" using Cons.prems(2) by (simp add: rl_inv_def)
  then have "rl_terminal_revocation_count (take_over s en) \<in> {0, 1}"
    by (simp add: take_over_def split: VerifiedPersonaContinuityTransition.splits)
  with Cons.IH [OF rest rl_inv_step [OF Cons.prems(2) en]] show ?case .
qed simp

text \<open>What the loop has collected, as a function of the verified entries.\<close>

definition next_keys :: "VerifiedPersonaContinuityTransition list \<Rightarrow> string set" where
  "next_keys vs = {key. \<exists>v\<in>set vs. en_next_key (view_of v) = Some key}"

definition online_keys :: "VerifiedPersonaRoot \<Rightarrow> VerifiedPersonaContinuityTransition list \<Rightarrow> string set" where
  "online_keys root vs = insert (rs_initial_key_fingerprint (vr_statement root)) (next_keys vs)"

lemma set_insert_key [simp]: "set (insert_key key keys) = insert key (set keys)"
  by (auto simp: insert_key_def set_insort_key)

lemma foldl_take_over_facts:
  "rl_transition_statement_sha256s (foldl take_over s (map view_of vs))
     = rl_transition_statement_sha256s s @ map (\<lambda>v. en_statement_sha256 (view_of v)) vs"
  "rl_transition_issued_ats (foldl take_over s (map view_of vs))
     = rl_transition_issued_ats s @ map (\<lambda>v. en_issued_at (view_of v)) vs"
  "set (rl_online_key_fingerprints (foldl take_over s (map view_of vs)))
     = set (rl_online_key_fingerprints s) \<union> next_keys vs"
  by (induction vs arbitrary: s) (auto simp: take_over_def next_keys_def split: option.splits)

definition checkpoint_holds :: "VerifiedPersonaContinuityTransition list \<Rightarrow> VerifiedRecoveryPolicy \<Rightarrow> bool" where
  "checkpoint_holds vs p \<longleftrightarrow>
     (let sequence = unat (cp_transition_sequence (ps_continuity_checkpoint (vp_statement p))) in
      sequence = 0 \<or>
      sequence \<le> length vs \<and>
      cp_transition_sha256 (ps_continuity_checkpoint (vp_statement p))
        = Some (en_statement_sha256 (view_of (vs ! (sequence - 1)))) \<and>
      en_issued_at (view_of (vs ! (sequence - 1))) \<le> ps_issued_at (vp_statement p))"

lemma validate_policy_checkpoint_iff:
  "validate_policy_checkpoint (map (\<lambda>v. en_statement_sha256 (view_of v)) vs)
     (map (\<lambda>v. en_issued_at (view_of v)) vs) n p = Ok () \<longleftrightarrow> checkpoint_holds vs p"
proof -
  let ?cp = "cp_transition_sequence (ps_continuity_checkpoint (vp_statement p))"
  show ?thesis
  proof (cases "?cp = 0")
    case False
    then have "unat (?cp - 1) = unat ?cp - 1" "0 < unat ?cp"
      by (auto simp: unat_minus_one unat_gt_0)
    with False show ?thesis
      by (auto simp: validate_policy_checkpoint_def checkpoint_holds_def Let_def not_le not_less unat_eq_zero)
  qed (simp add: validate_policy_checkpoint_def checkpoint_holds_def)
qed

lemma validate_key_separation_iff:
  "validate_key_separation keys p = Ok () \<longleftrightarrow>
     set (ps_recovery_key_fingerprints (vp_statement p)) \<inter> set keys = {}"
  by (auto simp: validate_key_separation_def list_ex_iff)

section \<open>The number of entries\<close>

lemma terminal_positions_snoc:
  "terminal_positions (ts @ [t]) = terminal_positions ts @ (if is_terminal t then [length ts] else [])"
  by (auto simp: terminal_positions_def nth_append intro!: filter_cong)

lemma terminal_positions_empty_iff: "terminal_positions ts = [] \<longleftrightarrow> (\<forall>t\<in>set ts. \<not> is_terminal t)"
  by (fastforce simp: terminal_positions_def filter_empty_conv in_set_conv_nth)

lemma terminal_last_snoc: "terminal_last (ts @ [t]) \<longleftrightarrow> (\<forall>t\<in>set ts. \<not> is_terminal t)"
  by (induction ts) auto

definition entry_limit :: "PersonaContinuityTransitionProof list \<Rightarrow> nat" where
  "entry_limit ts = (if \<exists>t\<in>set ts. is_terminal t then 4097 else 4096)"

lemma validate_entry_count_iff:
  "validate_entry_count ts = Ok () \<longleftrightarrow> terminal_last ts \<and> length ts \<le> entry_limit ts"
proof (cases ts rule: rev_cases)
  case Nil
  then show ?thesis by (simp add: validate_entry_count_def terminal_positions_def entry_limit_def)
next
  case (snoc us u)
  show ?thesis
  proof (cases "terminal_positions us")
    case Nil
    then show ?thesis
      using terminal_positions_empty_iff [of us]
      by (auto simp: snoc validate_entry_count_def terminal_positions_snoc terminal_last_snoc entry_limit_def
          MAX_CONTINUITY_TRANSITIONS_def MAX_TERMINAL_PERSONA_REVOCATION_SEQUENCE_def Let_def)
  next
    case (Cons i rest)
    then have "i \<in> set (terminal_positions us)" by simp
    then have "i < length us" by (simp add: terminal_positions_def)
    moreover have "\<not> terminal_last ts"
      using Cons terminal_positions_empty_iff [of us] by (auto simp: snoc terminal_last_snoc)
    ultimately show ?thesis using Cons
      by (auto simp: snoc validate_entry_count_def terminal_positions_snoc Let_def)
  qed
qed

lemma entry_limit_bound: "length ts \<le> entry_limit ts \<Longrightarrow> length ts \<le> 4097"
  by (auto simp: entry_limit_def split: if_splits)

section \<open>Refinement\<close>

definition recovery_chain_head :: "VerifiedRecoveryAwareContinuityChain \<Rightarrow> head" where
  "recovery_chain_head c =
     \<lparr>head_sequence = unat (ra_transition_count (vrc_report c)), head_link = ra_last_transition_sha256 (vrc_report c),
      head_authority = (case ra_current_key_fingerprint (vrc_report c) of Some key \<Rightarrow> Online key | None \<Rightarrow> Ended),
      head_time = ra_last_issued_at (vrc_report c)\<rparr>"

text \<open>The checks that tie the policies to the history.\<close>

definition policies_fit ::
  "VerifiedPersonaRoot \<Rightarrow> VerifiedPersonaContinuityTransition list \<Rightarrow> VerifiedRecoveryPolicy list \<Rightarrow> bool" where
  "policies_fit root vs policies \<longleftrightarrow>
     (\<forall>p\<in>set policies. checkpoint_holds vs p \<and>
        set (ps_recovery_key_fingerprints (vp_statement p)) \<inter> online_keys root vs = {})"

lemma verify_recovery_chain_Ok_iff:
  "verify_persona_continuity_chain_with_recovery_with_verified_sequence E rp ts pps d pd now = Ok c \<longleftrightarrow>
     validate_entry_count ts = Ok () \<and> validate_jcs_time ContinuityCheckTime now = Ok () \<and>
     verified_recovery_policy_sequence E rp pps d pd = Ok \<lparr>vps_root = vrc_root c, vps_policies = vrc_policies c\<rparr> \<and>
     (\<exists>s. try_fold (recovery_loop_step E (vrc_root c) (vrc_policies c)) (recovery_loop_start (vrc_root c)) ts = Ok s \<and>
       (\<forall>p\<in>set (vrc_policies c).
          validate_policy_checkpoint (rl_transition_statement_sha256s s) (rl_transition_issued_ats s) (length ts) p = Ok () \<and>
          validate_key_separation (rl_online_key_fingerprints s) p = Ok ()) \<and>
       vrc_transitions c = rl_verified_transitions s \<and>
       vrc_report c = recovery_chain_report (vrc_root c) (last (vrc_policies c)) (length ts) now s)" (is "?L \<longleftrightarrow> ?R")
proof
  assume ?L
  then obtain ch s where "verified_recovery_policy_sequence E rp pps d pd = Ok ch"
    "validate_entry_count ts = Ok ()" "validate_jcs_time ContinuityCheckTime now = Ok ()"
    "try_fold (recovery_loop_step E (vps_root ch) (vps_policies ch)) (recovery_loop_start (vps_root ch)) ts = Ok s"
    "\<forall>p\<in>set (vps_policies ch). validate_policy_checkpoint (rl_transition_statement_sha256s s)
       (rl_transition_issued_ats s) (length ts) p = Ok ()"
    "\<forall>p\<in>set (vps_policies ch). validate_key_separation (rl_online_key_fingerprints s) p = Ok ()"
    "c = \<lparr>vrc_root = vps_root ch, vrc_policies = vps_policies ch, vrc_transitions = rl_verified_transitions s,
        vrc_report = recovery_chain_report (vps_root ch) (last (vps_policies ch)) (length ts) now s\<rparr>"
    unfolding verify_persona_continuity_chain_with_recovery_with_verified_sequence_def Let_def by auto
  then show ?R by (cases ch) simp
qed (cases c, auto simp: verify_persona_continuity_chain_with_recovery_with_verified_sequence_def Let_def)

lemma loop_policies_fit_iff:
  assumes "s = foldl take_over (recovery_loop_start root) (map view_of (rl_verified_transitions s))"
  shows "(\<forall>p\<in>set policies.
      validate_policy_checkpoint (rl_transition_statement_sha256s s) (rl_transition_issued_ats s) n p = Ok () \<and>
      validate_key_separation (rl_online_key_fingerprints s) p = Ok ()) \<longleftrightarrow>
    policies_fit root (rl_verified_transitions s) policies"
proof -
  let ?vs = "rl_verified_transitions s"
  have "rl_transition_statement_sha256s s = map (\<lambda>v. en_statement_sha256 (view_of v)) ?vs"
    "rl_transition_issued_ats s = map (\<lambda>v. en_issued_at (view_of v)) ?vs"
    "set (rl_online_key_fingerprints s) = online_keys root ?vs"
    using foldl_take_over_facts [of "recovery_loop_start root" ?vs] assms
    by (simp_all add: recovery_loop_start_def online_keys_def)
  then show ?thesis by (simp add: validate_policy_checkpoint_iff validate_key_separation_iff policies_fit_def)
qed

lemma recovery_reported_head:
  assumes "length ts \<le> 4097" "rl_index s = length ts" "rl_terminal_revocation_count s \<in> {0, 1}"
    and "vrc_report c = recovery_chain_report root p (length ts) now s"
  shows "recovery_chain_head c = rl_head s"
proof -
  have "unat (of_nat (length ts) :: u32) = length ts" using assms(1) by (simp add: unat_of_nat)
  with assms show ?thesis by (auto simp: recovery_chain_head_def rl_head_def recovery_chain_report_def Let_def)
qed

lemma recovery_loop_state:
  assumes "terminal_last ts" "length ts \<le> 4097"
    and loop: "try_fold (recovery_loop_step E root policies) (recovery_loop_start root) ts = Ok s"
  shows "rl_index s = length ts" "rl_terminal_revocation_count s \<in> {0, 1}"
proof -
  have "list_all2 (\<lambda>x t. verify_entry E root policies x = Ok (view_of t) \<and> entry_bound root (view_of t)) ts
     (rl_verified_transitions s)" using recovery_loop_sound(1) [OF assms] by (simp add: recovery_history_def)
  then have "length (rl_verified_transitions s) = length ts" by (auto dest: list_all2_lengthD)
  then show "rl_index s = length ts"
    using foldl_take_over_index [of "recovery_loop_start root" "map view_of (rl_verified_transitions s)"]
      recovery_loop_sound(2) [OF assms] by (simp add: recovery_loop_start_def)
  show "rl_terminal_revocation_count s \<in> {0, 1}"
    by (rule terminal_count_step [OF loop]) (use assms in \<open>auto simp: rl_inv_def recovery_loop_start_def\<close>)
qed

text \<open>A recovery-aware history ends with its terminal entry: nothing advances an ended head.\<close>

lemma recovery_history_terminal_last:
  assumes "recovery_history E root policies ts vs h"
  shows "terminal_last ts"
proof (cases ts rule: rev_cases)
  case (snoc us u)
  from assms obtain ws v g where ws: "vs = ws @ [v]"
    "list_all2 (\<lambda>x t. verify_entry E root policies x = Ok (view_of t) \<and> entry_bound root (view_of t)) us ws"
    "history (root_head root) (map event_of ws) g" "advances g (event_of v) h"
    unfolding recovery_history_def snoc list_all2_append1 list_all2_Cons1 by auto
  have "\<not> is_terminal x" if "x \<in> set us" for x
  proof
    assume "is_terminal x"
    from ws(2) that obtain i where i: "i < length ws" "verify_entry E root policies x = Ok (view_of (ws ! i))"
      by (auto simp: list_all2_conv_all_nth in_set_conv_nth)
    with \<open>is_terminal x\<close> have ends: "ends_history (ev_change (event_of (ws ! i)))"
      using entry_evidence_kind(1) [OF verify_entry_evidence [OF i(2)]]
      by (cases "ws ! i") (simp_all add: ends_history_def event_of_def entry_event_def entry_change_def view_of_def
          routine_view_def recovery_view_def terminal_view_def)
    have "history (root_head root) (map event_of (take i ws) @ event_of (ws ! i) # map event_of (drop (Suc i) ws @ [v])) h"
      using assms i(1) id_take_nth_drop [OF i(1)] unfolding recovery_history_def ws(1)
      by (metis append_Cons append_assoc list.map(2) map_append)
    from history_end_is_last(1) [OF this ends] show False by simp
  qed
  then show ?thesis by (simp add: snoc terminal_last_snoc)
qed simp

lemma recovery_chain_refines_history:
  "(\<exists>c. verify_persona_continuity_chain_with_recovery_with_verified_sequence E rp ts pps d pd now = Ok c \<and>
       vrc_root c = root \<and> vrc_policies c = policies \<and> vrc_transitions c = vs \<and> recovery_chain_head c = h) \<longleftrightarrow>
     length ts \<le> entry_limit ts \<and> validate_jcs_time ContinuityCheckTime now = Ok () \<and>
     verified_recovery_policy_sequence E rp pps d pd = Ok \<lparr>vps_root = root, vps_policies = policies\<rparr> \<and>
     recovery_history E root policies ts vs h \<and> policies_fit root vs policies" (is "?L \<longleftrightarrow> ?R")
proof
  assume ?L
  then obtain c s where c: "validate_entry_count ts = Ok ()" "validate_jcs_time ContinuityCheckTime now = Ok ()"
    "verified_recovery_policy_sequence E rp pps d pd = Ok \<lparr>vps_root = root, vps_policies = policies\<rparr>"
    "try_fold (recovery_loop_step E root policies) (recovery_loop_start root) ts = Ok s"
    "\<forall>p\<in>set policies.
      validate_policy_checkpoint (rl_transition_statement_sha256s s) (rl_transition_issued_ats s) (length ts) p = Ok () \<and>
      validate_key_separation (rl_online_key_fingerprints s) p = Ok ()"
    "vs = rl_verified_transitions s" "vrc_report c = recovery_chain_report root (last policies) (length ts) now s"
    "h = recovery_chain_head c" unfolding verify_recovery_chain_Ok_iff by blast
  then have bound: "terminal_last ts" "length ts \<le> 4097" "length ts \<le> entry_limit ts"
    by (auto simp: validate_entry_count_iff intro: entry_limit_bound)
  note loop = recovery_loop_sound [OF bound(1,2) c(4)] and state = recovery_loop_state [OF bound(1,2) c(4)]
  from recovery_reported_head [OF bound(2) state c(7)] loop(1) c(6,8)
  have "recovery_history E root policies ts vs h" by simp
  moreover from loop_policies_fit_iff [OF loop(2)] c(5,6) have "policies_fit root vs policies" by blast
  ultimately show ?R using c(2,3) bound(3) by blast
next
  assume R: ?R
  then have bound: "terminal_last ts" "length ts \<le> 4097" "validate_entry_count ts = Ok ()"
    by (auto simp: validate_entry_count_iff intro: entry_limit_bound recovery_history_terminal_last)
  with R recovery_loop_complete obtain s where
    s: "try_fold (recovery_loop_step E root policies) (recovery_loop_start root) ts = Ok s"
    "rl_verified_transitions s = vs" "rl_head s = h" by blast
  let ?c = "\<lparr>vrc_root = root, vrc_policies = policies, vrc_transitions = vs,
    vrc_report = recovery_chain_report root (last policies) (length ts) now s\<rparr>"
  have "recovery_chain_head ?c = h"
    using recovery_reported_head [OF bound(2) recovery_loop_state [OF bound(1,2) s(1)], of ?c] s(3) by simp
  moreover have "verify_persona_continuity_chain_with_recovery_with_verified_sequence E rp ts pps d pd now = Ok ?c"
    unfolding verify_recovery_chain_Ok_iff
    using R s bound(3) loop_policies_fit_iff [OF recovery_loop_sound(2) [OF bound(1,2) s(1)], of policies "length ts"]
    by simp
  ultimately show ?L by (intro exI [of _ ?c]) simp
qed

lemma verified_recovery_history:
  assumes "verify_persona_continuity_chain_with_recovery_with_verified_sequence E rp ts pps d pd now = Ok c"
  shows "recovery_history E (vrc_root c) (vrc_policies c) ts (vrc_transitions c) (recovery_chain_head c)"
    and "policies_fit (vrc_root c) (vrc_transitions c) (vrc_policies c)"
    and "verified_recovery_policy_sequence E rp pps d pd = Ok \<lparr>vps_root = vrc_root c, vps_policies = vrc_policies c\<rparr>"
  using recovery_chain_refines_history [of E rp ts pps d pd now "vrc_root c" "vrc_policies c" "vrc_transitions c"
      "recovery_chain_head c"] assms by blast+

lemma verified_policy_sequence_facts:
  assumes "verified_recovery_policy_sequence E rp pps d pd = Ok \<lparr>vps_root = root, vps_policies = policies\<rparr>"
  shows "policies_so_far E root pps policies" "policies \<noteq> []" "verify_persona_root_proof E rp = Ok root"
    "vr_root_statement_sha256 root = d" "vp_policy_statement_sha256 (last policies) = pd"
    "p \<in> set policies \<Longrightarrow> policy_bound E root p" "policy_history policies"
proof -
  from assms have seq: "verify_recovery_policy_proof_sequence E root pps = Ok policies"
    and rest: "verify_persona_root_proof E rp = Ok root" "vr_root_statement_sha256 root = d"
    "vp_policy_statement_sha256 (last policies) = pd" by (auto simp: verified_recovery_policy_sequence_def)
  from rest show "verify_persona_root_proof E rp = Ok root" "vr_root_statement_sha256 root = d"
    "vp_policy_statement_sha256 (last policies) = pd" .
  from verified_policy_sequence_Ok [OF seq] show so_far: "policies_so_far E root pps policies" and "policies \<noteq> []" by auto
  from so_far show "policy_history policies" by (simp add: policies_so_far_def)
  from so_far show "p \<in> set policies \<Longrightarrow> policy_bound E root p"
    unfolding policies_so_far_def list_all2_conv_all_nth in_set_conv_nth by metis
qed

section \<open>What authorises an entry\<close>

text \<open>A quorum of a policy's recovery keys signed a payload under a namespace.\<close>

definition quorum_of ::
  "'z ext_scheme \<Rightarrow> VerifiedRecoveryPolicy \<Rightarrow> string \<Rightarrow> bytes \<Rightarrow> RecoverySignature list \<Rightarrow> string list \<Rightarrow> bool" where
  "quorum_of E p namespace payload signatures signers \<longleftrightarrow>
     2 \<le> unat (ps_threshold (vp_statement p)) \<and>
     unat (ps_threshold (vp_statement p)) \<le> card (set signers) \<and>
     set signers \<subseteq> set (ps_recovery_key_fingerprints (vp_statement p)) \<and>
     (\<forall>f\<in>set signers. \<exists>signature\<in>set signatures. authority_signed E payload namespace signature f)"

lemma authority_quorum_of:
  assumes "validate_recovery_policy_statement E (vp_statement p) = Ok ()"
    and "authority_quorum E payload namespace signatures (ps_recovery_key_fingerprints (vp_statement p))
      (unat (ps_threshold (vp_statement p))) False signers"
  shows "quorum_of E p namespace payload signatures signers"
  using authority_quorum_facts [OF assms(2)] valid_policy_facts(1) [OF assms(1)] strict_sorted_card [of signers]
  by (simp add: quorum_of_def)

definition recovery_authorised ::
  "'z recovery_ext_scheme \<Rightarrow> VerifiedRecoveryPolicy list \<Rightarrow> VerifiedRecoveryTransition \<Rightarrow> RecoveryTransitionProof \<Rightarrow> bool" where
  "recovery_authorised E policies v pf \<longleftrightarrow>
     (\<exists>p payload. governing_policy policies (vrt_statement v) p \<and> recovery_allowed p (vrt_statement v) \<and>
        decode_recovery_transition_proof E pf = Ok (payload, vrt_statement v) \<and>
        vrt_transition_statement_sha256 v = sha256_hex E payload \<and>
        quorum_of E p RECOVERY_TRANSITION_AUTHORITY_NAMESPACE payload (rtp_recovery_signatures pf)
          (vrt_recovery_signer_fingerprints v) \<and>
        public_key_fingerprint E (vrt_next_public_key v) = Ok (rts_next_key_fingerprint (vrt_statement v)) \<and>
        sshsig_verify E payload (rsig_value (rtp_next_signature pf)) (vrt_next_public_key v)
          RECOVERY_TRANSITION_NEXT_NAMESPACE = Ok ())"

definition terminal_authorised ::
  "'z recovery_ext_scheme \<Rightarrow> VerifiedRecoveryPolicy \<Rightarrow> VerifiedTerminalPersonaRevocation \<Rightarrow>
     TerminalPersonaRevocationProof \<Rightarrow> bool" where
  "terminal_authorised E p v pf \<longleftrightarrow>
     (\<exists>payload. terminal_allowed p (vtr_statement v) \<and>
        decode_terminal_persona_revocation_proof E pf = Ok (payload, vtr_statement v) \<and>
        vtr_revocation_statement_sha256 v = sha256_hex E payload \<and>
        quorum_of E p TERMINAL_PERSONA_REVOCATION_AUTHORITY_NAMESPACE payload (trp_recovery_signatures pf)
          (vtr_recovery_signer_fingerprints v))"

lemma verified_recovery_authorised:
  assumes "governing_policy policies (vrt_statement v) p" "policy_bound E root p"
    and "verify_recovery_transition_proof E root p pf = Ok v"
  shows "recovery_authorised E policies v pf"
proof -
  have valid: "validate_recovery_policy_statement E (vp_statement p) = Ok ()"
    using assms(2) by (simp add: policy_bound_def)
  from verify_recovery_Ok [OF assms(2,3)] obtain payload where
    "decode_recovery_transition_proof E pf = Ok (payload, vrt_statement v)"
    "vrt_transition_statement_sha256 v = sha256_hex E payload"
    "recovery_allowed p (vrt_statement v)" "recovery_signed E p pf v payload" by blast
  with assms(1) authority_quorum_of [OF valid] show ?thesis
    unfolding recovery_authorised_def recovery_signed_def by blast
qed

lemma verified_terminal_authorised:
  assumes "policy_bound E root p" and "verify_terminal_persona_revocation_proof E root p pf = Ok v"
  shows "terminal_authorised E p v pf"
proof -
  have valid: "validate_recovery_policy_statement E (vp_statement p) = Ok ()"
    using assms(1) by (simp add: policy_bound_def)
  with verify_terminal_Ok [OF assms] authority_quorum_of [OF valid] show ?thesis
    unfolding terminal_authorised_def by blast
qed

lemma recovery_history_entry:
  assumes "recovery_history E root policies ts vs h" and "i < length vs"
  shows "entry_evidence E root policies (ts ! i) (view_of (vs ! i))" and "i < length ts"
proof -
  show "i < length ts" using assms by (auto simp: recovery_history_def dest: list_all2_lengthD)
  then show "entry_evidence E root policies (ts ! i) (view_of (vs ! i))"
    using assms by (auto simp: recovery_history_def list_all2_conv_all_nth intro: verify_entry_evidence)
qed

lemma view_cases:
  "routine_view v = routine_view w \<longleftrightarrow> v = w" "recovery_view a = recovery_view b \<longleftrightarrow> a = b"
  "terminal_view x = terminal_view y \<longleftrightarrow> x = y"
  "routine_view v \<noteq> recovery_view a" "routine_view v \<noteq> terminal_view x" "recovery_view a \<noteq> terminal_view x"
  "recovery_view a \<noteq> routine_view v" "terminal_view x \<noteq> routine_view v" "terminal_view x \<noteq> recovery_view a"
  by (auto simp: routine_view_def recovery_view_def terminal_view_def)

text \<open>Every entry of a verified history, by kind.\<close>

lemma verified_recovery_entry:
  assumes "verify_persona_continuity_chain_with_recovery_with_verified_sequence E rp ts pps d pd now = Ok c"
    and "i < length (vrc_transitions c)"
  shows "case vrc_transitions c ! i of
      VerifiedRoutine v \<Rightarrow> \<exists>pf. ts ! i = RoutineProof pf \<and> verify_persona_transition_proof E pf = Ok v
    | VerifiedRecovery v \<Rightarrow> \<exists>pf. ts ! i = RecoveryProof pf \<and> recovery_authorised E (vrc_policies c) v pf
    | VerifiedTerminal v \<Rightarrow> \<exists>pf. ts ! i = TerminalProof pf \<and> terminal_authorised E (last (vrc_policies c)) v pf \<and>
        i + 1 = length ts"
proof -
  note hist = verified_recovery_history(1) [OF assms(1)]
    and facts = verified_policy_sequence_facts [OF verified_recovery_history(3) [OF assms(1)]]
  have ev: "entry_evidence E (vrc_root c) (vrc_policies c) (ts ! i) (view_of (vrc_transitions c ! i))"
    and i: "i < length ts"
    using recovery_history_entry(1,2) [OF hist assms(2)] .
  show ?thesis
  proof (cases "vrc_transitions c ! i")
    case (VerifiedRoutine v)
    with ev show ?thesis
      by (auto simp: entry_evidence_def view_of_def view_cases split: PersonaContinuityTransitionProof.splits)
  next
    case (VerifiedRecovery v)
    with ev obtain pf p where "ts ! i = RecoveryProof pf" "governing_policy (vrc_policies c) (vrt_statement v) p"
      "verify_recovery_transition_proof E (vrc_root c) p pf = Ok v"
      by (auto simp: entry_evidence_def view_of_def view_cases split: PersonaContinuityTransitionProof.splits)
    with VerifiedRecovery facts(6) governing_policy_member verified_recovery_authorised show ?thesis by fastforce
  next
    case (VerifiedTerminal v)
    with ev obtain pf where pf: "ts ! i = TerminalProof pf"
      "verify_terminal_persona_revocation_proof E (vrc_root c) (last (vrc_policies c)) pf = Ok v"
      by (auto simp: entry_evidence_def view_of_def view_cases split: PersonaContinuityTransitionProof.splits)
    have "i + 1 = length ts"
    proof (cases ts rule: rev_cases)
      case (snoc us u)
      with recovery_history_terminal_last [OF hist] have "\<forall>t\<in>set us. \<not> is_terminal t" by (simp add: terminal_last_snoc)
      moreover have "is_terminal (ts ! i)" by (simp add: pf(1) is_terminal_def)
      ultimately show ?thesis using snoc i nth_mem [of i us] by (cases "i < length us") (auto simp: nth_append)
    qed (use i in simp)
    moreover have "terminal_authorised E (last (vrc_policies c)) v pf"
      using verified_terminal_authorised [OF facts(6) pf(2)] facts(2) by simp
    ultimately show ?thesis using VerifiedTerminal pf(1) by simp
  qed
qed

section \<open>A terminal revocation is final\<close>

lemma ended_iff_terminal:
  assumes "recovery_history E root policies ts vs h"
  shows "head_authority h = Ended \<longleftrightarrow> (\<exists>t\<in>set ts. is_terminal t)"
proof (cases ts rule: rev_cases)
  case Nil
  then show ?thesis using assms by (auto simp: recovery_history_def root_head_def genesis_def)
next
  case (snoc us u)
  from assms obtain ws v g where ws: "vs = ws @ [v]" "verify_entry E root policies u = Ok (view_of v)"
    "advances g (event_of v) h"
    unfolding recovery_history_def snoc list_all2_append1 list_all2_Cons1 by auto
  have "head_authority h = Ended \<longleftrightarrow> is_terminal u"
    using ws(3) entry_evidence_kind(1) [OF verify_entry_evidence [OF ws(2)]]
    by (auto simp: advances_iff head_after_def event_of_def entry_event_def split: option.splits)
  moreover have "\<forall>t\<in>set us. \<not> is_terminal t"
    using recovery_history_terminal_last [OF assms] by (simp add: snoc terminal_last_snoc)
  ultimately show ?thesis by (auto simp: snoc)
qed

lemma reported_terminal:
  assumes "verify_persona_continuity_chain_with_recovery_with_verified_sequence E rp ts pps d pd now = Ok c"
  shows "ra_terminally_revoked (vrc_report c) \<longleftrightarrow> ra_current_key_fingerprint (vrc_report c) = None"
    and "ra_terminally_revoked (vrc_report c) \<longleftrightarrow> head_authority (recovery_chain_head c) = Ended"
    and "ra_terminally_revoked (vrc_report c) \<longleftrightarrow> (\<exists>t\<in>set ts. is_terminal t)"
proof -
  show none: "ra_terminally_revoked (vrc_report c) \<longleftrightarrow> ra_current_key_fingerprint (vrc_report c) = None"
    using assms by (auto simp: verify_recovery_chain_Ok_iff recovery_chain_report_def Let_def split: if_splits)
  then show ended: "ra_terminally_revoked (vrc_report c) \<longleftrightarrow> head_authority (recovery_chain_head c) = Ended"
    by (auto simp: recovery_chain_head_def split: option.splits)
  then show "ra_terminally_revoked (vrc_report c) \<longleftrightarrow> (\<exists>t\<in>set ts. is_terminal t)"
    using ended_iff_terminal [OF verified_recovery_history(1) [OF assms]] by simp
qed

lemma terminal_not_continued:
  assumes "\<exists>t\<in>set ts. is_terminal t" and "us \<noteq> []"
  shows "\<not> is_Ok (verify_persona_continuity_chain_with_recovery_with_verified_sequence E rp (ts @ us) pps d pd now)"
proof -
  from assms(2) obtain vs u where "us = vs @ [u]" by (cases us rule: rev_cases) auto
  then have "\<not> terminal_last (ts @ us)"
    using assms(1) terminal_last_snoc [of "ts @ vs" u] by auto
  then show ?thesis by (auto simp: is_Ok_iff verify_recovery_chain_Ok_iff validate_entry_count_iff)
qed

section \<open>No fork below a head\<close>

text \<open>The signed content of a verified entry.\<close>

datatype ContinuityStatement =
    RoutineStatement PersonaTransitionStatement
  | RecoveryStatement RecoveryTransitionStatement
  | TerminalStatement TerminalPersonaRevocationStatement

definition statement_of :: "VerifiedPersonaContinuityTransition \<Rightarrow> ContinuityStatement" where
  "statement_of t = (case t of VerifiedRoutine v \<Rightarrow> RoutineStatement (vt_statement v)
     | VerifiedRecovery v \<Rightarrow> RecoveryStatement (vrt_statement v)
     | VerifiedTerminal v \<Rightarrow> TerminalStatement (vtr_statement v))"

definition statement_schema :: "ContinuityStatement \<Rightarrow> string" where
  "statement_schema s = (case s of RoutineStatement s \<Rightarrow> ts_schema s | RecoveryStatement s \<Rightarrow> rts_schema s
     | TerminalStatement s \<Rightarrow> trs_schema s)"

definition parses_as :: "'z recovery_ext_scheme \<Rightarrow> bytes \<Rightarrow> ContinuityStatement \<Rightarrow> bool" where
  "parses_as E bs s = (case s of RoutineStatement s \<Rightarrow> transition_from_json E bs = Ok s
     | RecoveryStatement s \<Rightarrow> recovery_from_json E bs = Ok s
     | TerminalStatement s \<Rightarrow> terminal_from_json E bs = Ok s)"

text \<open>
  The three JSON decoders read the same \<^verbatim>\<open>schema\<close> member: whichever statement a document is read as, the
  schema is the document's.
\<close>

definition schema_member :: "'z recovery_ext_scheme \<Rightarrow> (bytes \<Rightarrow> string) \<Rightarrow> bool" where
  "schema_member E schema \<longleftrightarrow> (\<forall>bs s. parses_as E bs s \<longrightarrow> statement_schema s = schema bs)"

definition entry_payloads :: "'z recovery_ext_scheme \<Rightarrow> PersonaContinuityTransitionProof list \<Rightarrow> bytes set" where
  "entry_payloads E ts = {payload. \<exists>t\<in>set ts. decode_continuity_payload E
     (case t of RoutineProof p \<Rightarrow> tp_payload p | RecoveryProof p \<Rightarrow> rtp_payload p | TerminalProof p \<Rightarrow> trp_payload p)
       = Ok payload}"

interpretation mixed_links: hash_chain "\<lambda>v. en_statement_sha256 (view_of v)"
  "\<lambda>v. en_linked_previous_transition (view_of v)" statement_of
proof
  fix x y assume "statement_of x = statement_of y"
  then show "en_linked_previous_transition (view_of x) = en_linked_previous_transition (view_of y)"
    by (auto simp: statement_of_def view_of_def routine_view_def recovery_view_def terminal_view_def
        split: VerifiedPersonaContinuityTransition.splits)
qed

text \<open>The kinds have disjoint schemas.\<close>

definition schema_of_kind :: "ContinuityStatement \<Rightarrow> bool" where
  "schema_of_kind s = (case s of
       RoutineStatement s \<Rightarrow> ts_schema s = PERSONA_TRANSITION_STATEMENT_SCHEMA
     | RecoveryStatement s \<Rightarrow> rts_schema s \<in> {RECOVERY_TRANSITION_STATEMENT_SCHEMA, RECOVERY_TRANSITION_STATEMENT_SCHEMA_V2}
     | TerminalStatement s \<Rightarrow> trs_schema s = TERMINAL_PERSONA_REVOCATION_STATEMENT_SCHEMA)"

lemma same_payload_same_statement:
  assumes "schema_member E schema" and "parses_as E bs s" "parses_as E bs s'" "schema_of_kind s" "schema_of_kind s'"
  shows "s = s'"
proof -
  have "statement_schema s = statement_schema s'" using assms(1-3) by (auto simp: schema_member_def)
  with assms(2-5) show ?thesis
    by (cases s; cases s') (auto simp: parses_as_def schema_of_kind_def statement_schema_def
        PERSONA_TRANSITION_STATEMENT_SCHEMA_def RECOVERY_TRANSITION_STATEMENT_SCHEMA_def
        RECOVERY_TRANSITION_STATEMENT_SCHEMA_V2_def TERMINAL_PERSONA_REVOCATION_STATEMENT_SCHEMA_def)
qed

lemma routine_evidence_payload:
  assumes "verify_persona_transition_proof E pf = Ok v"
  shows "\<exists>payload. decode_continuity_payload E (tp_payload pf) = Ok payload \<and> transition_from_json E payload = Ok (vt_statement v) \<and>
    ts_schema (vt_statement v) = PERSONA_TRANSITION_STATEMENT_SCHEMA \<and> vt_transition_statement_sha256 v = sha256_hex E payload"
  using assms
  by (auto simp: verify_transition_Ok_iff canonical_transition_Ok_iff validate_persona_transition_statement_def)

lemma recovery_evidence_payload:
  assumes "verify_recovery_transition_proof E root p pf = Ok v"
  shows "\<exists>payload. decode_continuity_payload E (rtp_payload pf) = Ok payload \<and> recovery_from_json E payload = Ok (vrt_statement v) \<and>
    rts_schema (vrt_statement v) \<in> {RECOVERY_TRANSITION_STATEMENT_SCHEMA, RECOVERY_TRANSITION_STATEMENT_SCHEMA_V2} \<and>
    vrt_transition_statement_sha256 v = sha256_hex E payload"
proof -
  from assms obtain payload where "decode_recovery_transition_proof E pf = Ok (payload, vrt_statement v)"
    "vrt_transition_statement_sha256 v = sha256_hex E payload"
    by (auto simp: verify_recovery_transition_proof_def verify_recovery_transition_proof_with_receipt_def
        preflight_recovery_transition_proof_def)
  with valid_recovery_facts(3) [OF verify_recovery_valid [OF assms]] show ?thesis by (auto simp: decode_recovery_Ok_iff)
qed

lemma terminal_evidence_payload:
  assumes "verify_terminal_persona_revocation_proof E root p pf = Ok v"
  shows "\<exists>payload. decode_continuity_payload E (trp_payload pf) = Ok payload \<and> terminal_from_json E payload = Ok (vtr_statement v) \<and>
    trs_schema (vtr_statement v) = TERMINAL_PERSONA_REVOCATION_STATEMENT_SCHEMA \<and>
    vtr_revocation_statement_sha256 v = sha256_hex E payload"
  using assms
  by (auto simp: verify_terminal_persona_revocation_proof_def verify_terminal_persona_revocation_proof_with_receipt_def
      preflight_terminal_persona_revocation_proof_def decode_terminal_Ok_iff canonical_terminal_Ok_iff
      validate_terminal_persona_revocation_statement_def)

lemma recovery_history_payload:
  assumes "recovery_history E root policies ts vs h" and "v \<in> set vs"
  shows "\<exists>payload\<in>entry_payloads E ts. parses_as E payload (statement_of v) \<and> schema_of_kind (statement_of v) \<and>
    en_statement_sha256 (view_of v) = sha256_hex E payload"
proof -
  from assms(2) obtain i where i: "i < length vs" "v = vs ! i" by (auto simp: in_set_conv_nth)
  have ev: "entry_evidence E root policies (ts ! i) (view_of v)"
    using recovery_history_entry(1) [OF assms(1) i(1)] i(2) by simp
  note len = recovery_history_entry(2) [OF assms(1) i(1)]
  have mem: "ts ! i \<in> set ts" using len by simp
  show ?thesis
  proof (cases "ts ! i")
    case (RoutineProof pf)
    with ev obtain w where "v = VerifiedRoutine w" "verify_persona_transition_proof E pf = Ok w"
      by (cases v) (auto simp: entry_evidence_def view_of_def view_cases)
    with routine_evidence_payload [of E pf w] mem RoutineProof show ?thesis
      by (force simp: entry_payloads_def parses_as_def schema_of_kind_def statement_of_def view_of_def routine_view_def)
  next
    case (RecoveryProof pf)
    with ev obtain w p where "v = VerifiedRecovery w" "verify_recovery_transition_proof E root p pf = Ok w"
      by (cases v) (auto simp: entry_evidence_def view_of_def view_cases)
    with recovery_evidence_payload [of E root p pf w] mem RecoveryProof show ?thesis
      by (force simp: entry_payloads_def parses_as_def schema_of_kind_def statement_of_def view_of_def recovery_view_def)
  next
    case (TerminalProof pf)
    with ev obtain w where "v = VerifiedTerminal w"
      "verify_terminal_persona_revocation_proof E root (last policies) pf = Ok w"
      by (cases v) (auto simp: entry_evidence_def view_of_def view_cases)
    with terminal_evidence_payload [of E root "last policies" pf w] mem TerminalProof show ?thesis
      by (force simp: entry_payloads_def parses_as_def schema_of_kind_def statement_of_def view_of_def terminal_view_def)
  qed
qed

lemma recovery_history_linked:
  assumes "recovery_history E root policies ts vs h"
  shows "linked (\<lambda>v. en_statement_sha256 (view_of v)) (\<lambda>v. en_linked_previous_transition (view_of v)) None vs"
    and "head_link h = last_digest (\<lambda>v. en_statement_sha256 (view_of v)) None vs"
proof -
  have "ev_digest \<circ> event_of = (\<lambda>v. en_statement_sha256 (view_of v))"
    "ev_link \<circ> event_of = (\<lambda>v. en_linked_previous_transition (view_of v))"
    by (auto simp: event_of_def entry_event_def)
  with history_linked [of "root_head root" "map event_of vs" h] assms
  show "linked (\<lambda>v. en_statement_sha256 (view_of v)) (\<lambda>v. en_linked_previous_transition (view_of v)) None vs"
    and "head_link h = last_digest (\<lambda>v. en_statement_sha256 (view_of v)) None vs"
    by (auto simp: recovery_history_def linked_map root_head_def genesis_def)
qed

lemma recovery_no_fork:
  assumes "recovery_history E root policies ts vs h" and "recovery_history E root' policies' ts' vs' h'"
    and "head_link h = head_link h'" and schema: "schema_member E schema"
    and inj: "inj_on (sha256_hex E) (entry_payloads E ts \<union> entry_payloads E ts')"
  shows "map statement_of vs = map statement_of vs'"
proof (rule mixed_links.no_fork)
  show "last_digest (\<lambda>v. en_statement_sha256 (view_of v)) None vs = last_digest (\<lambda>v. en_statement_sha256 (view_of v)) None vs'"
    using assms(3) recovery_history_linked(2) [OF assms(1)] recovery_history_linked(2) [OF assms(2)] by simp
  fix v v' assume "v \<in> set vs" "v' \<in> set vs'" and eq: "en_statement_sha256 (view_of v) = en_statement_sha256 (view_of v')"
  with recovery_history_payload [OF assms(1), of v] recovery_history_payload [OF assms(2), of v'] obtain b b' where
    b: "b \<in> entry_payloads E ts" "parses_as E b (statement_of v)" "schema_of_kind (statement_of v)"
    "b' \<in> entry_payloads E ts'" "parses_as E b' (statement_of v')" "schema_of_kind (statement_of v')"
    "sha256_hex E b = sha256_hex E b'" by metis
  then have "b = b'" using inj by (auto dest: inj_onD)
  with b same_payload_same_statement [OF schema] show "statement_of v = statement_of v'" by blast
qed (use recovery_history_linked(1) assms in blast)+

section \<open>Extending a verified history\<close>

lemma checkpoint_holds_snoc: "checkpoint_holds vs p \<Longrightarrow> checkpoint_holds (vs @ [v]) p"
  by (auto simp: checkpoint_holds_def Let_def nth_append)

lemma checkpoint_holds_fits:
  assumes "policies_fit root vs policies"
  shows "policies_fit root (vs @ [v]) policies \<longleftrightarrow>
    (\<forall>p\<in>set policies. \<forall>key. en_next_key (view_of v) = Some key \<longrightarrow> key \<notin> set (ps_recovery_key_fingerprints (vp_statement p)))"
  using assms checkpoint_holds_snoc by (fastforce simp: policies_fit_def online_keys_def next_keys_def)

lemma recovery_history_unique:
  assumes "recovery_history E root policies ts us g" and "recovery_history E root policies ts vs h"
  shows "us = vs" and "g = h"
proof -
  from assms have len: "length us = length vs" by (auto simp: recovery_history_def dest!: list_all2_lengthD)
  have "view_of (us ! i) = view_of (vs ! i)" if "i < length us" for i
    using assms that len by (auto simp: recovery_history_def list_all2_conv_all_nth)
  then have "en_transition (view_of (us ! i)) = en_transition (view_of (vs ! i))" if "i < length us" for i
    using that by simp
  with len show "us = vs" by (intro nth_equalityI) auto
  with assms show "g = h" by (auto simp: recovery_history_def intro: history_deterministic)
qed

lemma recovery_history_snoc_iff:
  assumes "recovery_history E root policies ts vs h"
  shows "(\<exists>ws h'. recovery_history E root policies (ts @ [t]) ws h' \<and> P ws) \<longleftrightarrow>
    (\<exists>en. verify_entry E root policies t = Ok en \<and> entry_bound root en \<and> (\<exists>h'. advances h (entry_event en) h') \<and>
       P (vs @ [en_transition en]))" (is "?L \<longleftrightarrow> ?R")
proof
  assume ?L
  then obtain us v g h' where us: "P (us @ [v])" "verify_entry E root policies t = Ok (view_of v)"
    "entry_bound root (view_of v)" "recovery_history E root policies ts us g" "advances g (event_of v) h'"
    unfolding recovery_history_def list_all2_append1 list_all2_Cons1 by auto
  with recovery_history_unique [OF us(4) assms] show ?R by (auto simp: event_of_def)
next
  assume ?R
  then obtain en h' where en: "verify_entry E root policies t = Ok en" "entry_bound root en"
    "advances h (entry_event en) h'" "P (vs @ [en_transition en])" by blast
  have "view_of (en_transition en) = en" by (rule view_of_transition [OF verify_entry_evidence [OF en(1)]])
  with assms en have "recovery_history E root policies (ts @ [t]) (vs @ [en_transition en]) h'"
    by (auto simp: recovery_history_def event_of_def intro!: list_all2_appendI)
  with en(4) show ?L by blast
qed

text \<open>What the verification of a longer history adds.\<close>

definition entry_extends ::
  "'z recovery_ext_scheme \<Rightarrow> VerifiedRecoveryAwareContinuityChain \<Rightarrow> PersonaContinuityTransitionProof \<Rightarrow> EntryView \<Rightarrow> bool" where
  "entry_extends E c t en \<longleftrightarrow>
     verify_entry E (vrc_root c) (vrc_policies c) t = Ok en \<and> entry_bound (vrc_root c) en \<and>
     (\<exists>h. advances (recovery_chain_head c) (entry_event en) h) \<and>
     length (vrc_transitions c) < entry_limit [t] \<and>
     (\<forall>p\<in>set (vrc_policies c). \<forall>key. en_next_key en = Some key \<longrightarrow>
        key \<notin> set (ps_recovery_key_fingerprints (vp_statement p)))"

lemma recovery_chain_extension_iff:
  assumes c: "verify_persona_continuity_chain_with_recovery_with_verified_sequence E rp ts pps d pd now = Ok c"
  shows "is_Ok (verify_persona_continuity_chain_with_recovery_with_verified_sequence E rp (ts @ [t]) pps d pd now)
    \<longleftrightarrow> (\<exists>en. entry_extends E c t en)"
proof -
  note hist = verified_recovery_history [OF c]
  have len: "length (vrc_transitions c) = length ts"
    using hist(1) by (auto simp: recovery_history_def dest: list_all2_lengthD)
  have time: "validate_jcs_time ContinuityCheckTime now = Ok ()" using c by (simp add: verify_recovery_chain_Ok_iff)
  have "is_Ok (verify_persona_continuity_chain_with_recovery_with_verified_sequence E rp (ts @ [t]) pps d pd now)
    \<longleftrightarrow> length (ts @ [t]) \<le> entry_limit (ts @ [t]) \<and>
      (\<exists>ws h. recovery_history E (vrc_root c) (vrc_policies c) (ts @ [t]) ws h \<and> policies_fit (vrc_root c) ws (vrc_policies c))"
  proof -
    have "is_Ok (verify_persona_continuity_chain_with_recovery_with_verified_sequence E rp (ts @ [t]) pps d pd now)
      \<longleftrightarrow> (\<exists>root policies ws h c'. verify_persona_continuity_chain_with_recovery_with_verified_sequence E rp (ts @ [t]) pps d pd now
          = Ok c' \<and> vrc_root c' = root \<and> vrc_policies c' = policies \<and> vrc_transitions c' = ws \<and> recovery_chain_head c' = h)"
      by (auto simp: is_Ok_iff)
    then show ?thesis unfolding recovery_chain_refines_history using hist(3) time by auto
  qed
  also have "\<dots> \<longleftrightarrow> (\<exists>en. entry_extends E c t en)"
    unfolding recovery_history_snoc_iff [OF hist(1)] checkpoint_holds_fits [OF hist(2)]
  proof safe
    fix en h' assume en: "verify_entry E (vrc_root c) (vrc_policies c) t = Ok en" "entry_bound (vrc_root c) en"
      "advances (recovery_chain_head c) (entry_event en) h'"
    have "view_of (en_transition en) = en" by (rule view_of_transition [OF verify_entry_evidence [OF en(1)]])
    moreover have "entry_limit (ts @ [t]) = entry_limit [t]"
      using ended_iff_terminal [OF hist(1)] en(3) by (auto simp: entry_limit_def advances_iff)
    moreover assume "length (ts @ [t]) \<le> entry_limit (ts @ [t])"
      "\<forall>p\<in>set (vrc_policies c). \<forall>key. en_next_key (view_of (en_transition en)) = Some key \<longrightarrow>
        key \<notin> set (ps_recovery_key_fingerprints (vp_statement p))"
    ultimately show "\<exists>en. entry_extends E c t en" using en len by (auto simp: entry_extends_def)
  next
    fix en assume ext: "entry_extends E c t en"
    then have "view_of (en_transition en) = en"
      by (auto simp: entry_extends_def intro: view_of_transition [OF verify_entry_evidence])
    moreover have "entry_limit (ts @ [t]) = entry_limit [t]"
      using ended_iff_terminal [OF hist(1)] ext by (auto simp: entry_limit_def advances_iff entry_extends_def)
    ultimately show "length (ts @ [t]) \<le> entry_limit (ts @ [t])"
      and "\<exists>en. verify_entry E (vrc_root c) (vrc_policies c) t = Ok en \<and> entry_bound (vrc_root c) en \<and>
        (\<exists>h'. advances (recovery_chain_head c) (entry_event en) h') \<and>
        (\<forall>p\<in>set (vrc_policies c). \<forall>key. en_next_key (view_of (en_transition en)) = Some key \<longrightarrow>
          key \<notin> set (ps_recovery_key_fingerprints (vp_statement p)))"
      using ext len by (auto simp: entry_extends_def intro!: exI [of _ en])
  qed
  finally show ?thesis .
qed

lemma reported_count:
  assumes "verify_persona_continuity_chain_with_recovery_with_verified_sequence E rp ts pps d pd now = Ok c"
  shows "ra_transition_count (vrc_report c) = of_nat (length (vrc_transitions c))"
    and "head_sequence (recovery_chain_head c) = length (vrc_transitions c)"
    and "length (vrc_transitions c) \<le> 4097"
proof -
  note hist = verified_recovery_history(1) [OF assms]
  then have len: "length (vrc_transitions c) = length ts" by (auto simp: recovery_history_def dest: list_all2_lengthD)
  with assms show "ra_transition_count (vrc_report c) = of_nat (length (vrc_transitions c))"
    by (auto simp: verify_recovery_chain_Ok_iff recovery_chain_report_def Let_def)
  from assms len show "length (vrc_transitions c) \<le> 4097"
    by (auto simp: verify_recovery_chain_Ok_iff validate_entry_count_iff intro: entry_limit_bound)
  from hist len show "head_sequence (recovery_chain_head c) = length (vrc_transitions c)"
    by (auto simp: recovery_history_def root_head_def genesis_def dest: history_sequence)
qed

lemma online_head_iff:
  "ra_current_key_fingerprint (vrc_report c) = Some key \<longleftrightarrow> head_authority (recovery_chain_head c) = Online key"
  by (auto simp: recovery_chain_head_def split: option.splits)

lemma recovery_at_head_iff:
  assumes c: "verify_persona_continuity_chain_with_recovery_with_verified_sequence E rp ts pps d pd now = Ok c"
  shows "validate_recovery_aware_transition_at_head c sequence anchor persona root_sha prev from to t = Ok () \<longleftrightarrow>
    length (vrc_transitions c) < 4096 \<and>
    anchor = rs_persona_anchor (vr_statement (vrc_root c)) \<and> persona = rs_persona (vr_statement (vrc_root c)) \<and>
    root_sha = vr_root_statement_sha256 (vrc_root c) \<and>
    head_authority (recovery_chain_head c) = Online from \<and>
    unat sequence = head_sequence (recovery_chain_head c) + 1 \<and> prev = head_link (recovery_chain_head c) \<and>
    head_time (recovery_chain_head c) \<le> t \<and>
    (\<forall>p\<in>set (vrc_policies c). to \<notin> set (ps_recovery_key_fingerprints (vp_statement p)))"
proof -
  note facts = verified_policy_sequence_facts [OF verified_recovery_history(3) [OF c]]
  have search: "is_Ok (binary_search (ps_recovery_key_fingerprints (vp_statement p)) to)
      \<longleftrightarrow> to \<in> set (ps_recovery_key_fingerprints (vp_statement p))" if "p \<in> set (vrc_policies c)" for p
    using facts(6) [OF that] by (intro recovery_key_search_iff [of E]) (simp add: policy_bound_def)
  have link: "head_link (recovery_chain_head c) = ra_last_transition_sha256 (vrc_report c)"
    "head_time (recovery_chain_head c) = ra_last_issued_at (vrc_report c)" by (simp_all add: recovery_chain_head_def)
  show ?thesis
  proof (cases "length (vrc_transitions c) < 4096")
    case True
    let ?next = "of_nat (length (vrc_transitions c) + 1) :: u32"
    have add: "checked_add (ra_transition_count (vrc_report c)) 1 = Some ?next"
      using checked_count_Suc [of "length (vrc_transitions c)"] True
      unfolding reported_count(1) [OF c] by (simp add: MAX_CONTINUITY_TRANSITIONS_def)
    have "sequence = ?next \<longleftrightarrow> unat sequence = length (vrc_transitions c) + 1"
      using True by (intro u32_eq_of_nat_iff) simp
    then have seq: "sequence = 1 + of_nat (length (vrc_transitions c)) \<longleftrightarrow> unat sequence = Suc (length (vrc_transitions c))"
      by (simp add: add.commute)
    have cap: "\<not> MAX_CONTINUITY_TRANSITIONS \<le> length (vrc_transitions c)" using True by (simp add: MAX_CONTINUITY_TRANSITIONS_def)
    show ?thesis
      unfolding validate_recovery_aware_transition_at_head_def reported_terminal(1) [OF c] add
      using True search
      by (simp add: seq cap reported_count(2) [OF c] link online_head_iff [symmetric] not_less eq_commute [of "Some from"]
          conj_ac cong: conj_cong)
  qed (simp add: validate_recovery_aware_transition_at_head_def MAX_CONTINUITY_TRANSITIONS_def)
qed

lemma advance_ex_iff:
  "(\<exists>h'. advances h e h') \<longleftrightarrow>
     head_authority h = Online (ev_from e) \<and> ev_sequence e = head_sequence h + 1 \<and> ev_link e = head_link h \<and>
     head_time h \<le> ev_time e \<and> ev_to e \<noteq> Online (ev_from e) \<and> (ev_to e = Ended \<longleftrightarrow> ends_history (ev_change e))"
  by (auto simp: advances_iff)

lemma routine_extends_iff:
  assumes c: "verify_persona_continuity_chain_with_recovery_with_verified_sequence E rp ts pps d pd now = Ok c"
    and receipt: "verify_persona_transition_proof_with_receipt E pf = Ok receipt"
  shows "validate_verified_recovery_aware_continuity_chain_routine_extension c receipt = Ok () \<longleftrightarrow>
    entry_extends E c (RoutineProof pf) (routine_view (receipt_transition receipt))"
proof -
  have v: "verify_persona_transition_proof E pf = Ok (receipt_transition receipt)"
    using receipt by (simp add: verify_persona_transition_proof_def)
  from verified_transition_keys [OF v] show ?thesis
    unfolding validate_verified_recovery_aware_continuity_chain_routine_extension_def Let_def recovery_at_head_iff [OF c]
      entry_extends_def advance_ex_iff
    by (simp add: verify_entry_def v entry_bound_def entry_event_def entry_change_def ends_history_def routine_view_def
        entry_limit_def is_terminal_def) auto
qed

lemma recovery_binding_cong:
  assumes "vp_statement p = vp_statement q" "vp_policy_statement_sha256 p = vp_policy_statement_sha256 q"
  shows "verify_recovery_transition_proof_with_receipt E root p pf = verify_recovery_transition_proof_with_receipt E root q pf"
    and "verify_terminal_persona_revocation_proof_with_receipt E root p tf
      = verify_terminal_persona_revocation_proof_with_receipt E root q tf"
  unfolding verify_recovery_transition_proof_with_receipt_def validate_recovery_transition_binding_def
    validate_recovery_transition_policy_binding_def verify_terminal_persona_revocation_proof_with_receipt_def
    validate_terminal_persona_revocation_binding_def validate_terminal_persona_revocation_policy_binding_def assms
  by (rule refl)+

lemma recovery_receipt_facts:
  assumes "verify_recovery_transition_proof_with_receipt E root p pf = Ok receipt"
  shows "verify_recovery_transition_proof E root p pf = Ok (rtr_transition receipt)"
    "rtr_policy_statement receipt = vp_statement p" "rtr_policy_statement_sha256 receipt = vp_policy_statement_sha256 p"
    "\<exists>payload. decode_recovery_transition_proof E pf = Ok (payload, vrt_statement (rtr_transition receipt))"
    "validate_recovery_transition_policy_binding p (vrt_statement (rtr_transition receipt)) = Ok ()"
  using assms
  by (auto simp: verify_recovery_transition_proof_def verify_recovery_transition_proof_with_receipt_def
      preflight_recovery_transition_proof_def validate_recovery_transition_binding_def)

lemma terminal_receipt_facts:
  assumes "verify_terminal_persona_revocation_proof_with_receipt E root p pf = Ok receipt"
  shows "verify_terminal_persona_revocation_proof E root p pf = Ok (trr_revocation receipt)"
    "trr_policy_statement receipt = vp_statement p" "trr_policy_statement_sha256 receipt = vp_policy_statement_sha256 p"
    "\<exists>payload. decode_terminal_persona_revocation_proof E pf = Ok (payload, vtr_statement (trr_revocation receipt))"
    "validate_terminal_persona_revocation_policy_binding p (vtr_statement (trr_revocation receipt)) = Ok ()"
  using assms
  by (auto simp: verify_terminal_persona_revocation_proof_def verify_terminal_persona_revocation_proof_with_receipt_def
      preflight_terminal_persona_revocation_proof_def validate_terminal_persona_revocation_binding_def)

lemma recovery_extends_iff:
  assumes c: "verify_persona_continuity_chain_with_recovery_with_verified_sequence E rp ts pps d pd now = Ok c"
    and receipt: "verify_recovery_transition_proof_with_receipt E (vrc_root c) p pf = Ok receipt"
  shows "validate_verified_recovery_aware_continuity_chain_extension c receipt = Ok () \<longleftrightarrow>
    (\<exists>q. recovery_policy_for_transition (vrc_policies c) (vrt_statement (rtr_transition receipt)) = Ok q \<and>
       vp_statement q = vp_statement p \<and> vp_policy_statement_sha256 q = vp_policy_statement_sha256 p) \<and>
    entry_extends E c (RecoveryProof pf) (recovery_view (rtr_transition receipt))"
proof -
  let ?s = "vrt_statement (rtr_transition receipt)"
  note r = recovery_receipt_facts [OF receipt]
  obtain payload where dec: "decode_recovery_transition_proof E pf = Ok (payload, ?s)" using r(4) ..
  have verify: "verify_entry E (vrc_root c) (vrc_policies c) (RecoveryProof pf) = Ok (recovery_view (rtr_transition receipt))"
    and bind: "validate_recovery_transition_policy_binding q ?s = Ok ()"
    if "recovery_policy_for_transition (vrc_policies c) ?s = Ok q" "vp_statement q = vp_statement p"
      "vp_policy_statement_sha256 q = vp_policy_statement_sha256 p" for q
    using that recovery_binding_cong(1) [OF that(2,3), of E "vrc_root c" pf] receipt r(1,5)
      recovery_receipt_facts(5) [of E "vrc_root c" q pf receipt]
    by (auto simp: verify_entry_def dec verify_recovery_transition_proof_def)
  have ext: "validate_verified_recovery_aware_continuity_chain_extension c receipt = Ok () \<longleftrightarrow>
    validate_recovery_aware_transition_at_head c (rts_sequence ?s) (rts_persona_anchor ?s) (rts_persona ?s)
      (rts_root_statement_sha256 ?s) (rts_previous_transition_sha256 ?s) (rts_previous_key_fingerprint ?s)
      (rts_next_key_fingerprint ?s) (rts_issued_at ?s) = Ok () \<and>
    (\<exists>q. recovery_policy_for_transition (vrc_policies c) ?s = Ok q \<and>
       vp_statement q = vp_statement p \<and> vp_policy_statement_sha256 q = vp_policy_statement_sha256 p)"
    using bind by (auto simp: validate_verified_recovery_aware_continuity_chain_extension_def Let_def r(2,3))
  show ?thesis
    unfolding ext recovery_at_head_iff [OF c] entry_extends_def advance_ex_iff
    using verify verified_recovery_keys [OF r(1)]
    by (simp add: entry_bound_def entry_event_def entry_change_def ends_history_def recovery_view_def
        entry_limit_def is_terminal_def) blast
qed

lemma terminal_extends_iff:
  assumes c: "verify_persona_continuity_chain_with_recovery_with_verified_sequence E rp ts pps d pd now = Ok c"
    and receipt: "verify_terminal_persona_revocation_proof_with_receipt E (vrc_root c) p pf = Ok receipt"
  shows "validate_verified_recovery_aware_continuity_chain_terminal_revocation_extension c receipt = Ok () \<longleftrightarrow>
    vp_statement (last (vrc_policies c)) = vp_statement p \<and>
    vp_policy_statement_sha256 (last (vrc_policies c)) = vp_policy_statement_sha256 p \<and>
    entry_extends E c (TerminalProof pf) (terminal_view (trr_revocation receipt))"
proof (cases "vp_statement (last (vrc_policies c)) = vp_statement p \<and>
    vp_policy_statement_sha256 (last (vrc_policies c)) = vp_policy_statement_sha256 p")
  case True
  let ?s = "vtr_statement (trr_revocation receipt)" and ?p = "last (vrc_policies c)"
  have receipt': "verify_terminal_persona_revocation_proof_with_receipt E (vrc_root c) ?p pf = Ok receipt"
    using receipt recovery_binding_cong(2) [of ?p p E "vrc_root c" pf] True by simp
  note r = terminal_receipt_facts [OF receipt']
  obtain payload where dec: "decode_terminal_persona_revocation_proof E pf = Ok (payload, ?s)" using r(4) ..
  have same: "trs_recovery_policy_sha256 ?s = vp_policy_statement_sha256 ?p"
    "trs_recovery_policy_version ?s = ps_policy_version (vp_statement ?p)"
    using r(5) by (auto simp: validate_terminal_persona_revocation_policy_binding_def)
  have verify: "verify_entry E (vrc_root c) (vrc_policies c) (TerminalProof pf) = Ok (terminal_view (trr_revocation receipt)) \<longleftrightarrow>
    cp_transition_sequence (ps_continuity_checkpoint (vp_statement ?p)) < trs_sequence ?s"
    using same r(1) by (simp add: verify_entry_def dec Let_def not_le)
  have link: "head_link (recovery_chain_head c) = ra_last_transition_sha256 (vrc_report c)"
    "head_time (recovery_chain_head c) = ra_last_issued_at (vrc_report c)" by (simp_all add: recovery_chain_head_def)
  let ?n = "length (vrc_transitions c)"
  show ?thesis
  proof (cases "?n \<le> 4096")
    case len: True
    have add: "checked_add (ra_transition_count (vrc_report c)) 1 = Some (of_nat (?n + 1))"
      unfolding reported_count(1) [OF c] using len by (simp add: checked_add_def unat_of_nat)
    have "trs_sequence ?s = of_nat (?n + 1) \<longleftrightarrow> unat (trs_sequence ?s) = ?n + 1"
      using len by (intro u32_eq_of_nat_iff) simp
    then have seq: "trs_sequence ?s = 1 + of_nat ?n \<longleftrightarrow> unat (trs_sequence ?s) = Suc ?n" by (simp add: add.commute)
    have "unat (of_nat (?n + 1) :: u32) = ?n + 1" using len by (simp only: unat_of_nat) simp
    then have cap: "\<not> MAX_CONTINUITY_TRANSITIONS < ?n" "\<not> MAX_TERMINAL_PERSONA_REVOCATION_SEQUENCE < (of_nat (?n + 1) :: u32)"
      using len unfolding word_less_nat_alt
      by (simp_all add: MAX_CONTINUITY_TRANSITIONS_def MAX_TERMINAL_PERSONA_REVOCATION_SEQUENCE_def)
    show ?thesis
      unfolding validate_verified_recovery_aware_continuity_chain_terminal_revocation_extension_def
        reported_terminal(1) [OF c] add entry_extends_def advance_ex_iff verify
      using True len r(5) same
      by (simp add: seq cap [simplified] Let_def link reported_count(2) [OF c] online_head_iff [symmetric] not_less not_le r(2,3)
          eq_commute [of "Some _"] entry_bound_def entry_event_def entry_change_def ends_history_def terminal_view_def
          entry_limit_def is_terminal_def conj_ac) blast
  qed (simp add: validate_verified_recovery_aware_continuity_chain_terminal_revocation_extension_def
      MAX_CONTINUITY_TRANSITIONS_def entry_extends_def entry_limit_def is_terminal_def)
next
  case False
  then show ?thesis using terminal_receipt_facts(2,3) [OF receipt]
    by (auto simp: validate_verified_recovery_aware_continuity_chain_terminal_revocation_extension_def Let_def)
qed

text \<open>Extending by a receipt accepts exactly the proofs that verifying the longer history accepts.\<close>

lemma extends_by_routine_iff:
  assumes c: "verify_persona_continuity_chain_with_recovery_with_verified_sequence E rp ts pps d pd now = Ok c"
  shows "is_Ok (verify_persona_continuity_chain_with_recovery_with_verified_sequence E rp (ts @ [RoutineProof pf]) pps d pd now)
    \<longleftrightarrow> (\<exists>receipt. verify_persona_transition_proof_with_receipt E pf = Ok receipt \<and>
      validate_verified_recovery_aware_continuity_chain_routine_extension c receipt = Ok ())"
  unfolding recovery_chain_extension_iff [OF c]
proof safe
  fix en assume ext: "entry_extends E c (RoutineProof pf) en"
  then obtain receipt where r: "verify_persona_transition_proof_with_receipt E pf = Ok receipt"
    "en = routine_view (receipt_transition receipt)"
    by (auto simp: entry_extends_def verify_entry_def verify_persona_transition_proof_def)
  with routine_extends_iff [OF c r(1)] ext
  show "\<exists>receipt. verify_persona_transition_proof_with_receipt E pf = Ok receipt \<and>
      validate_verified_recovery_aware_continuity_chain_routine_extension c receipt = Ok ()" by blast
next
  fix receipt assume "verify_persona_transition_proof_with_receipt E pf = Ok receipt"
    "validate_verified_recovery_aware_continuity_chain_routine_extension c receipt = Ok ()"
  with routine_extends_iff [OF c] show "\<exists>en. entry_extends E c (RoutineProof pf) en" by blast
qed

lemma extends_by_recovery_iff:
  assumes c: "verify_persona_continuity_chain_with_recovery_with_verified_sequence E rp ts pps d pd now = Ok c"
  shows "is_Ok (verify_persona_continuity_chain_with_recovery_with_verified_sequence E rp (ts @ [RecoveryProof pf]) pps d pd now)
    \<longleftrightarrow> (\<exists>p receipt. verify_recovery_transition_proof_with_receipt E (vrc_root c) p pf = Ok receipt \<and>
      validate_verified_recovery_aware_continuity_chain_extension c receipt = Ok ())"
  unfolding recovery_chain_extension_iff [OF c]
proof safe
  fix en assume ext: "entry_extends E c (RecoveryProof pf) en"
  then obtain payload s p receipt where r: "decode_recovery_transition_proof E pf = Ok (payload, s)"
    "recovery_policy_for_transition (vrc_policies c) s = Ok p"
    "verify_recovery_transition_proof_with_receipt E (vrc_root c) p pf = Ok receipt"
    "en = recovery_view (rtr_transition receipt)"
    by (auto simp: entry_extends_def verify_entry_def verify_recovery_transition_proof_def)
  moreover have "s = vrt_statement (rtr_transition receipt)" using recovery_receipt_facts(4) [OF r(3)] r(1) by auto
  ultimately have "validate_verified_recovery_aware_continuity_chain_extension c receipt = Ok ()"
    using recovery_extends_iff [OF c r(3)] ext by blast
  with r(3) show "\<exists>p receipt. verify_recovery_transition_proof_with_receipt E (vrc_root c) p pf = Ok receipt \<and>
      validate_verified_recovery_aware_continuity_chain_extension c receipt = Ok ()" by blast
next
  fix p receipt assume "verify_recovery_transition_proof_with_receipt E (vrc_root c) p pf = Ok receipt"
    "validate_verified_recovery_aware_continuity_chain_extension c receipt = Ok ()"
  with recovery_extends_iff [OF c] show "\<exists>en. entry_extends E c (RecoveryProof pf) en" by blast
qed

lemma extends_by_terminal_iff:
  assumes c: "verify_persona_continuity_chain_with_recovery_with_verified_sequence E rp ts pps d pd now = Ok c"
  shows "is_Ok (verify_persona_continuity_chain_with_recovery_with_verified_sequence E rp (ts @ [TerminalProof pf]) pps d pd now)
    \<longleftrightarrow> (\<exists>p receipt. verify_terminal_persona_revocation_proof_with_receipt E (vrc_root c) p pf = Ok receipt \<and>
      validate_verified_recovery_aware_continuity_chain_terminal_revocation_extension c receipt = Ok ())"
  unfolding recovery_chain_extension_iff [OF c]
proof safe
  fix en assume ext: "entry_extends E c (TerminalProof pf) en"
  then obtain receipt where r:
    "verify_terminal_persona_revocation_proof_with_receipt E (vrc_root c) (last (vrc_policies c)) pf = Ok receipt"
    "en = terminal_view (trr_revocation receipt)"
    by (auto simp: entry_extends_def verify_entry_def verify_terminal_persona_revocation_proof_def Let_def)
  with terminal_extends_iff [OF c r(1)] ext
  show "\<exists>p receipt. verify_terminal_persona_revocation_proof_with_receipt E (vrc_root c) p pf = Ok receipt \<and>
      validate_verified_recovery_aware_continuity_chain_terminal_revocation_extension c receipt = Ok ()" by blast
next
  fix p receipt assume "verify_terminal_persona_revocation_proof_with_receipt E (vrc_root c) p pf = Ok receipt"
    "validate_verified_recovery_aware_continuity_chain_terminal_revocation_extension c receipt = Ok ()"
  with terminal_extends_iff [OF c] show "\<exists>en. entry_extends E c (TerminalProof pf) en" by blast
qed

end
