(* ===== verification/Recovery_Creation.thy ===== *)
theory Recovery_Creation
  imports Recovery_Transition
begin

text \<open>
  Created recovery proofs verify: the signing side of \<^verbatim>\<open>src/crates/a-quo-core/src/recovery.rs\<close>
  (\<^verbatim>\<open>sign_with_authorities\<close> and the four \<^verbatim>\<open>create_\<close> functions) against its verification.
\<close>

section \<open>Signing with several authorities\<close>

definition recovery_signature_fits :: "RecoverySignature \<Rightarrow> bool" where
  "recovery_signature_fits s \<longleftrightarrow> rsig_value s \<noteq> [] \<and> length (rsig_value s) \<le> MAX_CONTINUITY_SIGNATURE_BYTES"

definition signed_by ::
  "'z ext_scheme \<Rightarrow> bytes \<Rightarrow> string \<Rightarrow> RecoverySigner \<Rightarrow> string \<times> RecoverySignature \<Rightarrow> bool" where
  "signed_by E payload namespace signer fs \<longleftrightarrow>
     (\<exists>key v. normalize_public_key E (signer_public_key signer) = Ok key \<and>
        public_key_fingerprint E key = Ok (fst fs) \<and> sshsig_verify E payload v key namespace = Ok () \<and>
        snd fs = new_recovery_signature namespace v key)"

definition signatures_so_far ::
  "'z ext_scheme \<Rightarrow> bytes \<Rightarrow> string list \<Rightarrow> string \<Rightarrow> RecoverySigner list \<Rightarrow>
     string list \<times> (string \<times> RecoverySignature) list \<Rightarrow> bool" where
  "signatures_so_far E payload allowed namespace signers s \<longleftrightarrow>
     list_all2 (signed_by E payload namespace) signers (snd s) \<and> distinct (map fst (snd s)) \<and>
     set (map fst (snd s)) \<subseteq> set allowed \<and> set (fst s) = set (map fst (snd s)) \<and> distinct (fst s)"

interpretation signing_loop: loop_invariant "authority_sign_step E payload allowed namespace"
  "signatures_so_far E payload allowed namespace" for E payload allowed namespace
proof
  fix seen s x s'
  assume so_far: "signatures_so_far E payload allowed namespace seen s"
    and step: "authority_sign_step E payload allowed namespace s x = Ok s'"
  obtain fs cs where s: "s = (fs, cs)" by (cases s)
  from step obtain key f v where "normalize_public_key E (signer_public_key x) = Ok key"
    "public_key_fingerprint E key = Ok f" "f \<in> set allowed" "f \<notin> set fs"
    "sshsig_verify E payload v key namespace = Ok ()" "s' = (insort f fs, cs @ [(f, new_recovery_signature namespace v key)])"
    by (auto simp: authority_sign_step_def s)
  with so_far show "signatures_so_far E payload allowed namespace (seen @ [x]) s'"
    by (auto simp: signatures_so_far_def s signed_by_def distinct_insort set_insort_key intro!: list_all2_appendI)
qed

lemma signed_by_authority:
  assumes "signed_by E payload namespace signer fs" "is_utf8 (signer_public_key signer)" "recovery_signature_fits (snd fs)"
  shows "authority_signed E payload namespace (snd fs) (fst fs)"
proof -
  from assms(1) obtain key v where key: "normalize_public_key E (signer_public_key signer) = Ok key"
    "public_key_fingerprint E key = Ok (fst fs)" "sshsig_verify E payload v key namespace = Ok ()"
    "snd fs = new_recovery_signature namespace v key" by (auto simp: signed_by_def)
  have "validate_recovery_signature E (snd fs) namespace = Ok key"
    using assms(3) normalize_public_key_idem [OF assms(2) key(1)]
    by (simp add: validate_recovery_signature_def key(4) new_recovery_signature_def recovery_signature_fits_def not_less)
  with key show ?thesis by (auto simp: authority_signed_def new_recovery_signature_def)
qed

lemma sign_with_authorities_quorum:
  assumes signed: "sign_with_authorities E payload signers allowed minimum require_all namespace = Ok signatures"
    and utf8: "\<forall>s\<in>set signers. is_utf8 (signer_public_key s)"
    and fits: "list_all recovery_signature_fits signatures"
    and bounds: "distinct allowed" "2 \<le> minimum" "length allowed \<le> 32"
  shows "\<exists>fs. authority_quorum E payload namespace signatures allowed minimum require_all fs"
proof -
  let ?sorted = "sort_key fst"
  from signed obtain seen collected where
    loop: "try_fold (authority_sign_step E payload (sort (remdups allowed)) namespace) ([], []) signers = Ok (seen, collected)"
    and size: "minimum \<le> length signers" "length signers \<le> length allowed"
    and all: "require_all \<longrightarrow> length seen = length allowed" and sigs: "signatures = map snd (?sorted collected)"
    using bounds(1) by (auto simp: sign_with_authorities_def Let_def distinct_remdups_id not_less)
  have "signatures_so_far E payload (sort (remdups allowed)) namespace [] ([], [])" by (simp add: signatures_so_far_def)
  from signing_loop.loop_keeps_from_start [OF this loop]
  have so_far: "list_all2 (signed_by E payload namespace) signers collected" "distinct (map fst collected)"
    "set (map fst collected) \<subseteq> set allowed" "set seen = set (map fst collected)" "distinct seen"
    by (auto simp: signatures_so_far_def)
  have "authority_signed E payload namespace (snd x) (fst x)" if "x \<in> set collected" for x
  proof -
    from so_far(1) that obtain signer where "signer \<in> set signers" "signed_by E payload namespace signer x"
      unfolding list_all2_conv_all_nth in_set_conv_nth by metis
    moreover have "recovery_signature_fits (snd x)" using fits that by (auto simp: sigs list_all_iff)
    ultimately show ?thesis using utf8 signed_by_authority by blast
  qed
  then have "list_all2 (authority_signed E payload namespace) signatures (map fst (?sorted collected))"
    unfolding sigs list.rel_map by (intro list.rel_refl_strong) simp
  moreover have "distinct (map fst (?sorted collected))"
    using so_far(2) by (metis distinct_map distinct_sort set_sort)
  moreover have "require_all \<longrightarrow> set (map fst (?sorted collected)) = set allowed"
    using all so_far(3-5) bounds(1) by (metis card_subset_eq distinct_card finite_set set_map set_sort)
  moreover have "length signatures = length signers" using so_far(1) by (simp add: sigs list_all2_lengthD)
  ultimately show ?thesis
    unfolding authority_quorum_def using size bounds so_far(3) by (auto intro!: exI [of _ "map fst (?sorted collected)"])
qed

section \<open>Created proofs\<close>

text \<open>The documented behaviour of the codecs that a created recovery proof passes through.\<close>

definition recovery_codecs :: "'z recovery_ext_scheme \<Rightarrow> bool" where
  "recovery_codecs E \<longleftrightarrow>
     continuity_codecs E \<and>
     (\<forall>s bs. policy_to_jcs E s = Ok bs \<longrightarrow> policy_from_json E bs = Ok s) \<and>
     (\<forall>s bs. recovery_to_jcs E s = Ok bs \<longrightarrow> recovery_from_json E bs = Ok s) \<and>
     (\<forall>s bs. terminal_to_jcs E s = Ok bs \<longrightarrow> terminal_from_json E bs = Ok s)"

lemma quorum_preflight:
  assumes "authority_quorum E payload namespace signatures allowed minimum require_all fs" "distinct allowed"
  shows "verify_authority_signatures E payload signatures allowed minimum require_all namespace = Ok fs"
    and "\<exists>x. preflight_authority_signatures E signatures allowed minimum require_all namespace = Ok x"
    and "\<exists>x. preflight_unbound_signature_set E signatures namespace = Ok x"
proof -
  show v: "verify_authority_signatures E payload signatures allowed minimum require_all namespace = Ok fs"
    using assms by (simp add: verify_authority_signatures_iff)
  then show "\<exists>x. preflight_authority_signatures E signatures allowed minimum require_all namespace = Ok x"
    and "\<exists>x. preflight_unbound_signature_set E signatures namespace = Ok x"
    by (auto simp: verify_authority_signatures_def preflight_authority_signatures_def Let_def)
qed

lemma quorum_weaken:
  assumes "authority_quorum E payload namespace signatures allowed minimum require_all fs" "minimum' \<le> minimum"
  shows "authority_quorum E payload namespace signatures allowed minimum' False fs"
  using assms by (auto simp: authority_quorum_def)

lemma recovery_payload_decodes:
  assumes "recovery_codecs E" "length payload \<le> MAX_CONTINUITY_PAYLOAD_BYTES"
  shows "decode_continuity_payload E (base64url_encode E payload) = Ok payload"
  using assms created_payload_decodes by (auto simp: recovery_codecs_def)

lemma create_policy_verifies:
  assumes codecs: "recovery_codecs E" and utf8: "\<forall>s\<in>set signers. is_utf8 (signer_public_key s)"
    and created: "create_initial_recovery_policy_proof E statement signers = Ok pf"
    and fits: "\<And>signatures. pp_authorization pf = Enrollment signatures \<Longrightarrow> list_all recovery_signature_fits signatures"
    and root: "validate_policy_root_binding root statement = Ok ()"
  shows "\<exists>p. verify_initial_recovery_policy_proof E root pf = Ok p \<and> vp_statement p = statement"
proof -
  from created obtain payload signatures where c: "ps_policy_version statement = 1" "ps_previous_policy_sha256 statement = None"
    "canonical_recovery_policy_statement_bytes E statement = Ok payload"
    "sign_with_authorities E payload signers (ps_recovery_key_fingerprints statement)
        (length (ps_recovery_key_fingerprints statement)) True RECOVERY_POLICY_ENROLLMENT_NAMESPACE = Ok signatures"
    "pf = \<lparr>pp_schema = RECOVERY_POLICY_PROOF_SCHEMA, pp_payload = base64url_encode E payload,
          pp_authorization = Enrollment signatures\<rparr>"
    by (auto simp: create_initial_recovery_policy_proof_def)
  have valid: "validate_recovery_policy_statement E statement = Ok ()" "length payload \<le> MAX_CONTINUITY_PAYLOAD_BYTES"
    and json: "policy_from_json E payload = Ok statement"
    using c(3) codecs by (auto simp: canonical_policy_Ok_iff recovery_codecs_def)
  note facts = valid_policy_facts [OF valid(1)] and distinct = valid_policy_distinct [OF valid(1)]
  have "2 \<le> length (ps_recovery_key_fingerprints statement)" using facts(1,2) by linarith
  from sign_with_authorities_quorum [OF c(4) utf8 _ distinct this facts(3)] fits c(5) obtain fs where
    "authority_quorum E payload RECOVERY_POLICY_ENROLLMENT_NAMESPACE signatures (ps_recovery_key_fingerprints statement)
      (length (ps_recovery_key_fingerprints statement)) True fs" by auto
  from quorum_preflight(1,2) [OF this distinct] c(1-3,5) root json recovery_payload_decodes [OF codecs valid(2)] valid(2)
  show ?thesis
    by (auto simp: verify_initial_recovery_policy_proof_def verify_recovery_policy_proof_def preflight_recovery_policy_proof_def
        require_proof_schema_def)
qed

lemma create_update_verifies:
  assumes codecs: "recovery_codecs E"
    and utf8: "\<forall>s\<in>set previous_signers. is_utf8 (signer_public_key s)" "\<forall>s\<in>set current_signers. is_utf8 (signer_public_key s)"
    and policy: "validate_recovery_policy_statement E (vp_statement previous) = Ok ()"
    and created: "create_recovery_policy_update_proof E statement previous previous_signers current_signers = Ok pf"
    and fits: "\<And>ps cs. pp_authorization pf = Update ps cs \<Longrightarrow> list_all recovery_signature_fits (ps @ cs)"
    and root: "validate_policy_root_binding root statement = Ok ()"
  shows "\<exists>p. verify_recovery_policy_update_proof E root previous pf = Ok p \<and> vp_statement p = statement"
proof -
  from created obtain payload ps cs where c: "validate_policy_successor E previous statement = Ok ()"
    "canonical_recovery_policy_statement_bytes E statement = Ok payload"
    "sign_with_authorities E payload previous_signers (ps_recovery_key_fingerprints (vp_statement previous))
       (unat (ps_threshold (vp_statement previous))) False RECOVERY_POLICY_UPDATE_PREVIOUS_NAMESPACE = Ok ps"
    "sign_with_authorities E payload current_signers (ps_recovery_key_fingerprints statement)
       (length (ps_recovery_key_fingerprints statement)) True RECOVERY_POLICY_UPDATE_CURRENT_NAMESPACE = Ok cs"
    "pf = \<lparr>pp_schema = RECOVERY_POLICY_PROOF_SCHEMA, pp_payload = base64url_encode E payload,
         pp_authorization = Update ps cs\<rparr>"
    by (auto simp: create_recovery_policy_update_proof_def)
  have valid: "validate_recovery_policy_statement E statement = Ok ()" "length payload \<le> MAX_CONTINUITY_PAYLOAD_BYTES"
    and json: "policy_from_json E payload = Ok statement"
    using c(2) codecs by (auto simp: canonical_policy_Ok_iff recovery_codecs_def)
  note facts = valid_policy_facts [OF valid(1)] and distinct = valid_policy_distinct [OF valid(1)]
    and facts' = valid_policy_facts [OF policy] and distinct' = valid_policy_distinct [OF policy]
  have "2 \<le> length (ps_recovery_key_fingerprints statement)" using facts(1,2) by linarith
  from sign_with_authorities_quorum [OF c(4) utf8(2) _ distinct this facts(3)] fits c(5) obtain fs where
    "authority_quorum E payload RECOVERY_POLICY_UPDATE_CURRENT_NAMESPACE cs (ps_recovery_key_fingerprints statement)
      (length (ps_recovery_key_fingerprints statement)) True fs" by auto
  note current = quorum_preflight(1,2) [OF quorum_weaken [OF this facts(2)] distinct]
  from sign_with_authorities_quorum [OF c(3) utf8(1) _ distinct' facts'(1,3)] fits c(5) obtain gs where
    "authority_quorum E payload RECOVERY_POLICY_UPDATE_PREVIOUS_NAMESPACE ps
      (ps_recovery_key_fingerprints (vp_statement previous)) (unat (ps_threshold (vp_statement previous))) False gs" by auto
  note prev = quorum_preflight(1,3) [OF this distinct']
  have "ps_previous_policy_sha256 statement \<noteq> None" using c(1) by (auto simp: validate_policy_successor_def)
  moreover from this facts(6,7) have "unat (ps_policy_version statement) \<noteq> 0" "unat (ps_policy_version statement) \<noteq> 1"
    by (simp_all add: word_unat_eq_iff)
  then have "\<not> ps_policy_version statement \<le> 1" by (simp add: word_le_nat_alt)
  moreover obtain x y where "preflight_authority_signatures E cs (ps_recovery_key_fingerprints statement)
      (unat (ps_threshold statement)) False RECOVERY_POLICY_UPDATE_CURRENT_NAMESPACE = Ok x"
    "preflight_unbound_signature_set E ps RECOVERY_POLICY_UPDATE_PREVIOUS_NAMESPACE = Ok y"
    using current(2) prev(2) by blast
  ultimately show ?thesis
    using current(1) prev(1) c(1,2) root json recovery_payload_decodes [OF codecs valid(2)] valid(2)
    by (simp add: verify_recovery_policy_update_proof_def verify_recovery_policy_proof_def preflight_recovery_policy_proof_def
        require_proof_schema_def c(5) parse_bounded_json_def)
qed

lemma create_recovery_verifies:
  assumes codecs: "recovery_codecs E" and utf8: "\<forall>s\<in>set signers. is_utf8 (signer_public_key s)" "is_utf8 next_key"
    and policy: "validate_recovery_policy_statement E (vp_statement p) = Ok ()"
    and created: "create_recovery_transition_proof E statement p signers path next_key = Ok pf"
    and fits: "list_all recovery_signature_fits (rtp_recovery_signatures pf)" "recovery_signature_fits (rtp_next_signature pf)"
    and bind: "validate_recovery_transition_binding E root p statement = Ok ()"
  shows "\<exists>v. verify_recovery_transition_proof E root p pf = Ok v \<and> vrt_statement v = statement"
proof -
  from created obtain payload signatures key v where
    c: "canonical_recovery_transition_statement_bytes E statement = Ok payload"
    "sign_with_authorities E payload signers (ps_recovery_key_fingerprints (vp_statement p))
       (unat (ps_threshold (vp_statement p))) False RECOVERY_TRANSITION_AUTHORITY_NAMESPACE = Ok signatures"
    "normalize_public_key E next_key = Ok key" "public_key_fingerprint E key = Ok (rts_next_key_fingerprint statement)"
    "sshsig_verify E payload v key RECOVERY_TRANSITION_NEXT_NAMESPACE = Ok ()"
    "pf = \<lparr>rtp_schema = RECOVERY_TRANSITION_PROOF_SCHEMA, rtp_payload = base64url_encode E payload,
         rtp_recovery_signatures = signatures,
         rtp_next_signature = new_recovery_signature RECOVERY_TRANSITION_NEXT_NAMESPACE v key\<rparr>"
    using normalize_public_key_idem [OF utf8(2), of E]
    by (auto simp: create_recovery_transition_proof_def sign_one_def)
  have valid: "length payload \<le> MAX_CONTINUITY_PAYLOAD_BYTES" and json: "recovery_from_json E payload = Ok statement"
    using c(1) codecs by (auto simp: canonical_recovery_Ok_iff recovery_codecs_def)
  note facts = valid_policy_facts [OF policy] and distinct = valid_policy_distinct [OF policy]
  from sign_with_authorities_quorum [OF c(2) utf8(1) _ distinct facts(1,3)] fits(1) c(6) obtain fs where
    "authority_quorum E payload RECOVERY_TRANSITION_AUTHORITY_NAMESPACE signatures
      (ps_recovery_key_fingerprints (vp_statement p)) (unat (ps_threshold (vp_statement p))) False fs" by auto
  note quorum = quorum_preflight(1,3) [OF this distinct]
  have "decode_recovery_transition_proof E pf = Ok (payload, statement)"
    using c(1) json recovery_payload_decodes [OF codecs valid] by (simp add: decode_recovery_Ok_iff c(6))
  moreover have "validate_recovery_signature E (rtp_next_signature pf) RECOVERY_TRANSITION_NEXT_NAMESPACE = Ok key"
    using fits(2) normalize_public_key_idem [OF utf8(2) c(3)]
    by (simp add: validate_recovery_signature_def c(6) new_recovery_signature_def recovery_signature_fits_def not_less)
  ultimately show ?thesis using quorum bind c(4,5)
    by (auto simp: verify_recovery_transition_proof_def verify_recovery_transition_proof_with_receipt_def
        preflight_recovery_transition_proof_def c(6) new_recovery_signature_def)
qed

lemma create_terminal_verifies:
  assumes codecs: "recovery_codecs E" and utf8: "\<forall>s\<in>set signers. is_utf8 (signer_public_key s)"
    and policy: "validate_recovery_policy_statement E (vp_statement p) = Ok ()"
    and created: "create_terminal_persona_revocation_proof E statement p signers = Ok pf"
    and fits: "list_all recovery_signature_fits (trp_recovery_signatures pf)"
    and bind: "validate_terminal_persona_revocation_binding E root p statement = Ok ()"
  shows "\<exists>v. verify_terminal_persona_revocation_proof E root p pf = Ok v \<and> vtr_statement v = statement"
proof -
  from created obtain payload signatures where
    c: "canonical_terminal_persona_revocation_statement_bytes E statement = Ok payload"
    "sign_with_authorities E payload signers (ps_recovery_key_fingerprints (vp_statement p))
       (unat (ps_threshold (vp_statement p))) False TERMINAL_PERSONA_REVOCATION_AUTHORITY_NAMESPACE = Ok signatures"
    "pf = \<lparr>trp_schema = TERMINAL_PERSONA_REVOCATION_PROOF_SCHEMA, trp_payload = base64url_encode E payload,
         trp_recovery_signatures = signatures\<rparr>"
    by (auto simp: create_terminal_persona_revocation_proof_def)
  have valid: "length payload \<le> MAX_CONTINUITY_PAYLOAD_BYTES" and json: "terminal_from_json E payload = Ok statement"
    using c(1) codecs by (auto simp: canonical_terminal_Ok_iff recovery_codecs_def)
  note facts = valid_policy_facts [OF policy] and distinct = valid_policy_distinct [OF policy]
  from sign_with_authorities_quorum [OF c(2) utf8 _ distinct facts(1,3)] fits c(3) obtain fs where
    "authority_quorum E payload TERMINAL_PERSONA_REVOCATION_AUTHORITY_NAMESPACE signatures
      (ps_recovery_key_fingerprints (vp_statement p)) (unat (ps_threshold (vp_statement p))) False fs" by auto
  note quorum = quorum_preflight(1,3) [OF this distinct]
  have "decode_terminal_persona_revocation_proof E pf = Ok (payload, statement)"
    using c(1) json recovery_payload_decodes [OF codecs valid] by (simp add: decode_terminal_Ok_iff c(3))
  with quorum bind show ?thesis
    by (auto simp: verify_terminal_persona_revocation_proof_def verify_terminal_persona_revocation_proof_with_receipt_def
        preflight_terminal_persona_revocation_proof_def c(3))
qed

end
