(* ===== verification/Recovery_Ceremony.thy ===== *)
theory Recovery_Ceremony
  imports Recovery_History Recovery_Creation
begin

text \<open>
  The distributed recovery ceremony (\<^verbatim>\<open>src/crates/a-quo-core/src/recovery_ceremony.rs\<close>): a portable
  request with its whole history, the review and the two signatures of each participant, the check of a
  response, and the assembly of responses into a recovery proof.

  The JSON codecs of requests and responses are code outside the repository (\<open>ceremony_ext\<close>).
\<close>

section \<open>Data\<close>

definition RECOVERY_TRANSITION_CEREMONY_REQUEST_SCHEMA :: string where
  "RECOVERY_TRANSITION_CEREMONY_REQUEST_SCHEMA = ''urn:a-quo:recovery-transition-ceremony-request:v1''"
definition RECOVERY_TRANSITION_CEREMONY_RESPONSE_SCHEMA :: string where
  "RECOVERY_TRANSITION_CEREMONY_RESPONSE_SCHEMA = ''urn:a-quo:recovery-transition-ceremony-response:v1''"
definition RECOVERY_CEREMONY_REQUEST_BINDING_NAMESPACE :: string where
  "RECOVERY_CEREMONY_REQUEST_BINDING_NAMESPACE = ''a-quo-persona-recovery-ceremony-request-v1''"
definition MAX_RECOVERY_CEREMONY_REQUEST_BYTES :: nat where "MAX_RECOVERY_CEREMONY_REQUEST_BYTES = 8 * 1024 * 1024"
definition MAX_RECOVERY_CEREMONY_RESPONSE_BYTES :: nat where "MAX_RECOVERY_CEREMONY_RESPONSE_BYTES = 128 * 1024"
definition MAX_RECOVERY_CEREMONY_RESPONSES :: nat where "MAX_RECOVERY_CEREMONY_RESPONSES = MAX_RECOVERY_AUTHORITIES + 1"
definition MAX_RECOVERY_CEREMONY_SIGNATURE_VERIFICATIONS :: nat where
  "MAX_RECOVERY_CEREMONY_SIGNATURE_VERIFICATIONS = 2048"

abbreviation ceremony_failure :: "ceremony_reason \<Rightarrow> 'a res" where
  "ceremony_failure r \<equiv> invalid_proof (CeremonyReason r)"

record RecoveryCeremonyRequest =
  cq_schema :: string
  cq_canonicalization :: string
  cq_root_proof :: PersonaRootProof
  cq_recovery_policies :: "RecoveryPolicyProof list"
  cq_prior_transitions :: "PersonaContinuityTransitionProof list"
  cq_expected_root_statement_sha256 :: string
  cq_expected_latest_policy_sha256 :: string
  cq_expected_head :: PersonaContinuityCheckpoint
  cq_statement :: RecoveryTransitionStatement
  cq_next_public_key :: string

datatype RecoveryCeremonyParticipantRole = RecoveryAuthority | NextKey

definition role_namespace :: "RecoveryCeremonyParticipantRole \<Rightarrow> string" where
  "role_namespace role = (case role of RecoveryAuthority \<Rightarrow> RECOVERY_TRANSITION_AUTHORITY_NAMESPACE
     | NextKey \<Rightarrow> RECOVERY_TRANSITION_NEXT_NAMESPACE)"

record RecoveryCeremonyResponse =
  cr_schema :: string
  cr_canonicalization :: string
  cr_request_sha256 :: string
  cr_participant_fingerprint :: string
  cr_role :: RecoveryCeremonyParticipantRole
  cr_request_binding_signature :: RecoverySignature
  cr_signature :: RecoverySignature

record RecoveryCeremonyParticipantReview =
  cv_request_sha256 :: string
  cv_ceremony_id :: string
  cv_persona :: string
  cv_role :: RecoveryCeremonyParticipantRole
  cv_participant_fingerprint :: string
  cv_root_statement_sha256 :: string
  cv_recovery_policy_sha256 :: string
  cv_recovery_policy_version :: u32
  cv_previous_head :: PersonaContinuityCheckpoint
  cv_sequence :: u32
  cv_previous_key_fingerprint :: string
  cv_next_key_fingerprint :: string
  cv_reason :: RecoveryTransitionReason
  cv_issued_at :: i64
  cv_expires_at :: i64

record VerifiedRecoveryCeremonyRequest =
  vq_request :: RecoveryCeremonyRequest
  vq_request_sha256 :: string
  vq_statement_payload :: bytes
  vq_next_public_key :: string
  vq_selected_policy :: VerifiedRecoveryPolicy
  vq_chain :: VerifiedRecoveryAwareContinuityChain
  vq_verified_at :: i64

record VerifiedRecoveryCeremonyResponse =
  vcr_response :: RecoveryCeremonyResponse

abbreviation vq_statement :: "VerifiedRecoveryCeremonyRequest \<Rightarrow> RecoveryTransitionStatement" where
  "vq_statement verified \<equiv> cq_statement (vq_request verified)"

record ceremony_ext = chain_ext +
  request_to_jcs :: "RecoveryCeremonyRequest \<Rightarrow> (bytes, json_error) result"
  request_from_json :: "bytes \<Rightarrow> (RecoveryCeremonyRequest, json_error) result"
  response_to_jcs :: "RecoveryCeremonyResponse \<Rightarrow> (bytes, json_error) result"
  response_from_json :: "bytes \<Rightarrow> (RecoveryCeremonyResponse, json_error) result"

section \<open>Structure of requests and responses\<close>

definition ceremony_validate_jcs_time :: "i64 \<Rightarrow> unit res" where
  "ceremony_validate_jcs_time t = (if 0 \<le> t \<and> t \<le> MAX_JCS_SAFE_INTEGER then Ok () else ceremony_failure CeremonyTimeNotJcs)"

definition ceremony_validate_sha256 :: "digest_field \<Rightarrow> string \<Rightarrow> unit res" where
  "ceremony_validate_sha256 field digest =
     (if lowercase_hex_64 digest then Ok () else ceremony_failure (CeremonyDigestMalformed field))"

definition ceremony_require_bound :: "bytes \<Rightarrow> nat \<Rightarrow> json_document \<Rightarrow> unit res" where
  "ceremony_require_bound bs maximum description =
     (if length bs \<le> maximum then Ok () else ceremony_failure (CeremonyDocumentTooLong description maximum))"

definition validate_head :: "PersonaContinuityCheckpoint \<Rightarrow> unit res" where
  "validate_head head =
     (if of_nat MAX_CONTINUITY_TRANSITIONS < pc_transition_sequence head then ceremony_failure CeremonyHeadTooLate
      else case pc_transition_sha256 head of
        None \<Rightarrow> if pc_transition_sequence head = 0 then Ok () else ceremony_failure CeremonyHeadNeedsDigest
      | Some digest \<Rightarrow> if pc_transition_sequence head = 0 then ceremony_failure CeremonyHeadZeroNamesDigest
                       else ceremony_validate_sha256 CeremonyHeadDigest digest)"

definition policy_work :: "RecoveryPolicyProof \<Rightarrow> nat res" where
  "policy_work policy = (case pp_authorization policy of
       Enrollment signatures \<Rightarrow> Ok (length signatures)
     | Update previous current \<Rightarrow>
         ok_or (InvalidContinuityProof (CeremonyReason SignatureWorkOverflow)) (usize_checked_add (length previous) (length current)))"

definition transition_work :: "PersonaContinuityTransitionProof \<Rightarrow> nat res" where
  "transition_work transition = (case transition of
       RoutineProof pf \<Rightarrow> Ok (length (tp_signatures pf))
     | RecoveryProof pf \<Rightarrow>
         ok_or (InvalidContinuityProof (CeremonyReason SignatureWorkOverflow)) (usize_checked_add (length (rtp_recovery_signatures pf)) 1)
     | TerminalProof pf \<Rightarrow> Ok (length (trp_recovery_signatures pf)))"

definition add_work :: "('a \<Rightarrow> nat res) \<Rightarrow> nat \<Rightarrow> 'a \<Rightarrow> nat res" where
  "add_work signatures work x =
     and_then (signatures x) (\<lambda>n. ok_or (InvalidContinuityProof (CeremonyReason SignatureWorkOverflow)) (usize_checked_add work n))"

definition require_request_signature_work_bound :: "RecoveryCeremonyRequest \<Rightarrow> unit res" where
  "require_request_signature_work_bound request =
     and_then (try_fold (add_work policy_work) 1 (cq_recovery_policies request)) (\<lambda>work.
     and_then (try_fold (add_work transition_work) work (cq_prior_transitions request)) (\<lambda>work.
     if MAX_RECOVERY_CEREMONY_SIGNATURE_VERIFICATIONS < work then ceremony_failure (SignatureWorkExceeds work)
     else Ok ()))"

definition validate_entry_structure :: "'z recovery_ext_scheme \<Rightarrow> PersonaContinuityTransitionProof \<Rightarrow> unit res" where
  "validate_entry_structure E transition = (case transition of
       RoutineProof pf \<Rightarrow> validate_persona_transition_proof_structure E pf
     | RecoveryProof pf \<Rightarrow> validate_recovery_transition_proof_structure E pf
     | TerminalProof pf \<Rightarrow> validate_terminal_persona_revocation_proof_structure E pf)"

definition validate_request_structure :: "'z recovery_ext_scheme \<Rightarrow> RecoveryCeremonyRequest \<Rightarrow> unit res" where
  "validate_request_structure E request =
     and_then (require_request_signature_work_bound request) (\<lambda>_.
     if cq_schema request \<noteq> RECOVERY_TRANSITION_CEREMONY_REQUEST_SCHEMA then ceremony_failure RequestSchemaUnsupported
     else if cq_canonicalization request \<noteq> CONTINUITY_CANONICALIZATION then ceremony_failure RequestCanonicalizationUnsupported
     else if cq_recovery_policies request = [] \<or> MAX_RECOVERY_POLICY_VERSIONS < length (cq_recovery_policies request)
     then ceremony_failure RequestPolicyCount
     else if MAX_CONTINUITY_TRANSITIONS < length (cq_prior_transitions request) then ceremony_failure RequestHistoryTooLong
     else and_then (try_each (validate_recovery_policy_proof_structure E) (cq_recovery_policies request)) (\<lambda>_.
     and_then (try_each (validate_entry_structure E) (cq_prior_transitions request)) (\<lambda>_.
     and_then (ceremony_validate_sha256 ExpectedRootDigest (cq_expected_root_statement_sha256 request)) (\<lambda>_.
     and_then (ceremony_validate_sha256 ExpectedPolicyDigest (cq_expected_latest_policy_sha256 request)) (\<lambda>_.
     and_then (validate_head (cq_expected_head request)) (\<lambda>_.
     if rts_schema (cq_statement request) \<noteq> RECOVERY_TRANSITION_STATEMENT_SCHEMA_V2
     then ceremony_failure RequestNeedsV2Statement
     else and_then (canonical_recovery_transition_statement_bytes E (cq_statement request)) (\<lambda>_.
     and_then (normalize_public_key E (cq_next_public_key request)) (\<lambda>next_public_key.
     and_then (public_key_fingerprint E next_public_key) (\<lambda>fingerprint.
     if fingerprint \<noteq> rts_next_key_fingerprint (cq_statement request) then Err FingerprintMismatch else Ok ())))))))))"

definition canonical_recovery_ceremony_request_bytes :: "'z ceremony_ext_scheme \<Rightarrow> RecoveryCeremonyRequest \<Rightarrow> bytes res" where
  "canonical_recovery_ceremony_request_bytes E request =
     and_then (validate_request_structure E request) (\<lambda>_.
     and_then (map_err Json (request_to_jcs E request)) (\<lambda>bs.
     and_then (ceremony_require_bound bs MAX_RECOVERY_CEREMONY_REQUEST_BYTES RecoveryCeremonyRequestDoc) (\<lambda>_. Ok bs)))"

definition recovery_ceremony_request_sha256 :: "'z ceremony_ext_scheme \<Rightarrow> RecoveryCeremonyRequest \<Rightarrow> string res" where
  "recovery_ceremony_request_sha256 E request =
     and_then (canonical_recovery_ceremony_request_bytes E request) (\<lambda>bs. Ok (sha256_hex E bs))"

definition new_recovery_ceremony_request ::
  "'z ceremony_ext_scheme \<Rightarrow> PersonaRootProof \<Rightarrow> RecoveryPolicyProof list \<Rightarrow> PersonaContinuityTransitionProof list \<Rightarrow>
     string \<Rightarrow> string \<Rightarrow> PersonaContinuityCheckpoint \<Rightarrow> RecoveryTransitionStatement \<Rightarrow> string \<Rightarrow> RecoveryCeremonyRequest res" where
  "new_recovery_ceremony_request E root_proof recovery_policies prior_transitions expected_root_statement_sha256
     expected_latest_policy_sha256 expected_head statement next_public_key =
     (let request = \<lparr>cq_schema = RECOVERY_TRANSITION_CEREMONY_REQUEST_SCHEMA, cq_canonicalization = CONTINUITY_CANONICALIZATION,
        cq_root_proof = root_proof, cq_recovery_policies = recovery_policies, cq_prior_transitions = prior_transitions,
        cq_expected_root_statement_sha256 = expected_root_statement_sha256,
        cq_expected_latest_policy_sha256 = expected_latest_policy_sha256, cq_expected_head = expected_head,
        cq_statement = statement, cq_next_public_key = next_public_key\<rparr>
      in and_then (canonical_recovery_ceremony_request_bytes E request) (\<lambda>_. Ok request))"

definition parse_recovery_ceremony_request_bytes :: "'z ceremony_ext_scheme \<Rightarrow> bytes \<Rightarrow> RecoveryCeremonyRequest res" where
  "parse_recovery_ceremony_request_bytes E bs =
     and_then (map_err (\<lambda>r. InvalidContinuityProof (ProofJson r))
       (parse_bounded_json (request_from_json E) bs MAX_RECOVERY_CEREMONY_REQUEST_BYTES RecoveryCeremonyRequestDoc)) (\<lambda>request.
     and_then (canonical_recovery_ceremony_request_bytes E request) (\<lambda>canonical.
     if canonical \<noteq> bs then Err NonCanonicalContinuityStatement else Ok request))"

definition validate_response_structure :: "'z ext_scheme \<Rightarrow> RecoveryCeremonyResponse \<Rightarrow> unit res" where
  "validate_response_structure E response =
     (if cr_schema response \<noteq> RECOVERY_TRANSITION_CEREMONY_RESPONSE_SCHEMA then ceremony_failure ResponseSchemaUnsupported
      else if cr_canonicalization response \<noteq> CONTINUITY_CANONICALIZATION then ceremony_failure ResponseCanonicalizationUnsupported
      else and_then (ceremony_validate_sha256 CeremonyRequestDigest (cr_request_sha256 response)) (\<lambda>_.
      and_then (validate_recovery_signature E (cr_signature response) (role_namespace (cr_role response))) (\<lambda>public_key.
      and_then (public_key_fingerprint E public_key) (\<lambda>fingerprint.
      if fingerprint \<noteq> cr_participant_fingerprint response then Err FingerprintMismatch
      else and_then (validate_recovery_signature E (cr_request_binding_signature response)
        RECOVERY_CEREMONY_REQUEST_BINDING_NAMESPACE) (\<lambda>binding_public_key.
      and_then (public_key_fingerprint E binding_public_key) (\<lambda>binding_fingerprint.
      if binding_fingerprint \<noteq> fingerprint then Err FingerprintMismatch else Ok ()))))))"

definition canonical_recovery_ceremony_response_bytes :: "'z ceremony_ext_scheme \<Rightarrow> RecoveryCeremonyResponse \<Rightarrow> bytes res" where
  "canonical_recovery_ceremony_response_bytes E response =
     and_then (validate_response_structure E response) (\<lambda>_.
     and_then (map_err Json (response_to_jcs E response)) (\<lambda>bs.
     and_then (ceremony_require_bound bs MAX_RECOVERY_CEREMONY_RESPONSE_BYTES RecoveryCeremonyResponseDoc) (\<lambda>_. Ok bs)))"

definition parse_recovery_ceremony_response_bytes :: "'z ceremony_ext_scheme \<Rightarrow> bytes \<Rightarrow> RecoveryCeremonyResponse res" where
  "parse_recovery_ceremony_response_bytes E bs =
     and_then (map_err (\<lambda>r. InvalidContinuityProof (ProofJson r))
       (parse_bounded_json (response_from_json E) bs MAX_RECOVERY_CEREMONY_RESPONSE_BYTES RecoveryCeremonyResponseDoc)) (\<lambda>response.
     and_then (canonical_recovery_ceremony_response_bytes E response) (\<lambda>canonical.
     if canonical \<noteq> bs then Err NonCanonicalContinuityStatement else Ok response))"

section \<open>Checks at a time\<close>

definition ensure_ceremony_current :: "RecoveryTransitionStatement \<Rightarrow> i64 \<Rightarrow> unit res" where
  "ensure_ceremony_current statement checked_at =
     and_then (ok_or (InvalidContinuityProof (CeremonyReason CeremonyHasNoExpiry)) (rts_expires_at statement)) (\<lambda>expires_at.
     if checked_at < rts_issued_at statement then ceremony_failure CeremonyNotYetValid
     else if expires_at \<le> checked_at then ceremony_failure CeremonyExpired
     else Ok ())"

definition ensure_not_before_prior_verification :: "VerifiedRecoveryCeremonyRequest \<Rightarrow> i64 \<Rightarrow> unit res" where
  "ensure_not_before_prior_verification verified checked_at =
     and_then (ceremony_validate_jcs_time checked_at) (\<lambda>_.
     if checked_at < vq_verified_at verified then ceremony_failure CheckTimeMovedBackward else Ok ())"

definition participant_role :: "VerifiedRecoveryCeremonyRequest \<Rightarrow> string \<Rightarrow> RecoveryCeremonyParticipantRole res" where
  "participant_role verified fingerprint =
     (if fingerprint = rts_next_key_fingerprint (vq_statement verified) then Ok NextKey
      else if is_Ok (binary_search (ps_recovery_key_fingerprints (vp_statement (vq_selected_policy verified))) fingerprint)
      then Ok RecoveryAuthority
      else ceremony_failure NotAParticipant)"

definition verify_recovery_ceremony_request ::
  "'z ceremony_ext_scheme \<Rightarrow> RecoveryCeremonyRequest \<Rightarrow> i64 \<Rightarrow> VerifiedRecoveryCeremonyRequest res" where
  "verify_recovery_ceremony_request E request checked_at =
     and_then (ceremony_validate_jcs_time checked_at) (\<lambda>_.
     and_then (canonical_recovery_ceremony_request_bytes E request) (\<lambda>request_bytes.
     and_then (verify_recovery_chain_with_sequence_at_checkpoint E (cq_root_proof request) (cq_prior_transitions request)
       (cq_recovery_policies request) (cq_expected_root_statement_sha256 request) (cq_expected_latest_policy_sha256 request)
       checked_at (cq_expected_head request)) (\<lambda>chain.
     and_then (validate_recovery_ceremony_candidate E chain (cq_statement request) (cq_next_public_key request)) (\<lambda>selected_policy.
     and_then (ensure_ceremony_current (cq_statement request) checked_at) (\<lambda>_.
     and_then (canonical_recovery_transition_statement_bytes E (cq_statement request)) (\<lambda>statement_payload.
     and_then (normalize_public_key E (cq_next_public_key request)) (\<lambda>next_public_key.
     Ok \<lparr>vq_request = request, vq_request_sha256 = sha256_hex E request_bytes, vq_statement_payload = statement_payload,
         vq_next_public_key = next_public_key, vq_selected_policy = selected_policy, vq_chain = chain,
         vq_verified_at = checked_at\<rparr>)))))))"

section \<open>Participants\<close>

text \<open>
  The review reads the ceremony identifier and the expiry of the statement; the source expects both to
  be present, which a verified request guarantees.
\<close>

definition review_recovery_ceremony_participant ::
  "'z ext_scheme \<Rightarrow> VerifiedRecoveryCeremonyRequest \<Rightarrow> string \<Rightarrow> i64 \<Rightarrow> RecoveryCeremonyParticipantReview res" where
  "review_recovery_ceremony_participant E verified participant_public_key checked_at =
     and_then (ensure_not_before_prior_verification verified checked_at) (\<lambda>_.
     and_then (ensure_ceremony_current (vq_statement verified) checked_at) (\<lambda>_.
     and_then (normalize_public_key E participant_public_key) (\<lambda>public_key.
     and_then (public_key_fingerprint E public_key) (\<lambda>participant_fingerprint.
     and_then (participant_role verified participant_fingerprint) (\<lambda>role.
     let statement = vq_statement verified in
     Ok \<lparr>cv_request_sha256 = vq_request_sha256 verified, cv_ceremony_id = the (rts_ceremony_id statement),
         cv_persona = rts_persona statement, cv_role = role, cv_participant_fingerprint = participant_fingerprint,
         cv_root_statement_sha256 = rts_root_statement_sha256 statement,
         cv_recovery_policy_sha256 = rts_recovery_policy_sha256 statement,
         cv_recovery_policy_version = rts_recovery_policy_version statement,
         cv_previous_head = cq_expected_head (vq_request verified), cv_sequence = rts_sequence statement,
         cv_previous_key_fingerprint = rts_previous_key_fingerprint statement,
         cv_next_key_fingerprint = rts_next_key_fingerprint statement, cv_reason = rts_reason statement,
         cv_issued_at = rts_issued_at statement, cv_expires_at = the (rts_expires_at statement)\<rparr>)))))"

definition new_recovery_ceremony_response ::
  "'z ceremony_ext_scheme \<Rightarrow> VerifiedRecoveryCeremonyRequest \<Rightarrow> RecoverySignature \<Rightarrow> RecoverySignature \<Rightarrow> i64 \<Rightarrow>
     RecoveryCeremonyResponse res" where
  "new_recovery_ceremony_response E verified signature request_binding_signature checked_at =
     and_then (ensure_not_before_prior_verification verified checked_at) (\<lambda>_.
     and_then (ensure_ceremony_current (vq_statement verified) checked_at) (\<lambda>_.
     and_then (normalize_public_key E (rsig_public_key signature)) (\<lambda>public_key.
     and_then (public_key_fingerprint E public_key) (\<lambda>participant_fingerprint.
     and_then (participant_role verified participant_fingerprint) (\<lambda>role.
     and_then (validate_recovery_signature E signature (role_namespace role)) (\<lambda>_.
     and_then (validate_recovery_signature E request_binding_signature RECOVERY_CEREMONY_REQUEST_BINDING_NAMESPACE) (\<lambda>binding_public_key.
     and_then (public_key_fingerprint E binding_public_key) (\<lambda>binding_fingerprint.
     if binding_fingerprint \<noteq> participant_fingerprint then Err FingerprintMismatch
     else and_then (sshsig_verify E (vq_statement_payload verified) (rsig_value signature) public_key (role_namespace role)) (\<lambda>_.
     and_then (canonical_recovery_ceremony_request_bytes E (vq_request verified)) (\<lambda>request_bytes.
     and_then (sshsig_verify E request_bytes (rsig_value request_binding_signature) binding_public_key
       RECOVERY_CEREMONY_REQUEST_BINDING_NAMESPACE) (\<lambda>_.
     let response = \<lparr>cr_schema = RECOVERY_TRANSITION_CEREMONY_RESPONSE_SCHEMA, cr_canonicalization = CONTINUITY_CANONICALIZATION,
       cr_request_sha256 = vq_request_sha256 verified, cr_participant_fingerprint = participant_fingerprint, cr_role = role,
       cr_request_binding_signature = request_binding_signature, cr_signature = signature\<rparr>
     in and_then (canonical_recovery_ceremony_response_bytes E response) (\<lambda>_. Ok response))))))))))))"

definition sign_recovery_ceremony_request ::
  "'z ceremony_ext_scheme \<Rightarrow> VerifiedRecoveryCeremonyRequest \<Rightarrow> RecoverySigner \<Rightarrow> i64 \<Rightarrow> RecoveryCeremonyResponse res" where
  "sign_recovery_ceremony_request E verified signer checked_at =
     and_then (review_recovery_ceremony_participant E verified (signer_public_key signer) checked_at) (\<lambda>review.
     and_then (sign_one E (vq_statement_payload verified) (signer_private_key_path signer) (signer_public_key signer)
       (role_namespace (cv_role review))) (\<lambda>signature.
     and_then (canonical_recovery_ceremony_request_bytes E (vq_request verified)) (\<lambda>request_bytes.
     and_then (sign_one E request_bytes (signer_private_key_path signer) (signer_public_key signer)
       RECOVERY_CEREMONY_REQUEST_BINDING_NAMESPACE) (\<lambda>request_binding_signature.
     new_recovery_ceremony_response E verified signature request_binding_signature checked_at))))"

definition verify_recovery_ceremony_response ::
  "'z ceremony_ext_scheme \<Rightarrow> VerifiedRecoveryCeremonyRequest \<Rightarrow> RecoveryCeremonyResponse \<Rightarrow> i64 \<Rightarrow>
     VerifiedRecoveryCeremonyResponse res" where
  "verify_recovery_ceremony_response E verified response checked_at =
     and_then (ensure_not_before_prior_verification verified checked_at) (\<lambda>_.
     and_then (ensure_ceremony_current (vq_statement verified) checked_at) (\<lambda>_.
     and_then (canonical_recovery_ceremony_response_bytes E response) (\<lambda>_.
     if cr_request_sha256 response \<noteq> vq_request_sha256 verified then ceremony_failure ResponseNamesOtherRequest
     else and_then (validate_recovery_signature E (cr_signature response) (role_namespace (cr_role response))) (\<lambda>public_key.
     and_then (public_key_fingerprint E public_key) (\<lambda>fingerprint.
     if fingerprint \<noteq> cr_participant_fingerprint response then Err FingerprintMismatch
     else and_then (participant_role verified fingerprint) (\<lambda>expected_role.
     if expected_role \<noteq> cr_role response then ceremony_failure ResponseRoleNotAuthorized
     else and_then (validate_recovery_signature E (cr_request_binding_signature response)
       RECOVERY_CEREMONY_REQUEST_BINDING_NAMESPACE) (\<lambda>binding_public_key.
     and_then (public_key_fingerprint E binding_public_key) (\<lambda>binding_fingerprint.
     if binding_fingerprint \<noteq> fingerprint then Err FingerprintMismatch
     else and_then (sshsig_verify E (vq_statement_payload verified) (rsig_value (cr_signature response)) public_key
       (role_namespace (cr_role response))) (\<lambda>_.
     and_then (canonical_recovery_ceremony_request_bytes E (vq_request verified)) (\<lambda>request_bytes.
     and_then (sshsig_verify E request_bytes (rsig_value (cr_request_binding_signature response)) binding_public_key
       RECOVERY_CEREMONY_REQUEST_BINDING_NAMESPACE) (\<lambda>_.
     Ok \<lparr>vcr_response = response\<rparr>)))))))))))"

section \<open>Assembly\<close>

text \<open>The map from participant fingerprints to responses: an association list in the order of its keys.\<close>

type_synonym responses = "(string \<times> VerifiedRecoveryCeremonyResponse) list"

definition collect_response ::
  "'z ceremony_ext_scheme \<Rightarrow> VerifiedRecoveryCeremonyRequest \<Rightarrow> i64 \<Rightarrow> responses \<Rightarrow> RecoveryCeremonyResponse \<Rightarrow> responses res" where
  "collect_response E verified checked_at distinct_responses response =
     and_then (verify_recovery_ceremony_response E verified response checked_at) (\<lambda>candidate.
     let fingerprint = cr_participant_fingerprint (vcr_response candidate) in
     case map_of distinct_responses fingerprint of
       Some existing \<Rightarrow> if vcr_response existing = vcr_response candidate then Ok distinct_responses else ceremony_failure ConflictingResponses
     | None \<Rightarrow> Ok (insort_key fst (fingerprint, candidate) distinct_responses))"

definition take_response ::
  "RecoverySignature list \<times> RecoverySignature option \<Rightarrow> string \<times> VerifiedRecoveryCeremonyResponse \<Rightarrow>
     (RecoverySignature list \<times> RecoverySignature option) res" where
  "take_response s entry =
     (case s of (recovery_signatures, next_signature) \<Rightarrow>
        (case cr_role (vcr_response (snd entry)) of
           RecoveryAuthority \<Rightarrow> Ok (recovery_signatures @ [cr_signature (vcr_response (snd entry))], next_signature)
         | NextKey \<Rightarrow> if next_signature \<noteq> None then ceremony_failure SeveralNextKeyResponses
                      else Ok (recovery_signatures, Some (cr_signature (vcr_response (snd entry))))))"

definition assemble_recovery_ceremony_proof ::
  "'z ceremony_ext_scheme \<Rightarrow> VerifiedRecoveryCeremonyRequest \<Rightarrow> RecoveryCeremonyResponse list \<Rightarrow> i64 \<Rightarrow> RecoveryTransitionProof res" where
  "assemble_recovery_ceremony_proof E verified responses checked_at =
     and_then (ensure_not_before_prior_verification verified checked_at) (\<lambda>_.
     and_then (ensure_ceremony_current (vq_statement verified) checked_at) (\<lambda>_.
     if responses = [] \<or> MAX_RECOVERY_CEREMONY_RESPONSES < length responses then ceremony_failure ResponseCountBounds
     else and_then (try_fold (collect_response E verified checked_at) [] responses) (\<lambda>distinct_responses.
     let threshold = unat (ps_threshold (vp_statement (vq_selected_policy verified)))
     in and_then (try_fold take_response ([], None) distinct_responses) (\<lambda>(recovery_signatures, next_signature).
     if length recovery_signatures < threshold then ceremony_failure (TooFewAuthorityResponses threshold)
     else and_then (ok_or (InvalidContinuityProof (CeremonyReason NextKeyMustSign)) next_signature) (\<lambda>next_signature.
     let pf = \<lparr>rtp_schema = RECOVERY_TRANSITION_PROOF_SCHEMA, rtp_payload = base64url_encode E (vq_statement_payload verified),
           rtp_recovery_signatures = recovery_signatures, rtp_next_signature = next_signature\<rparr>
     in and_then (verify_recovery_transition_proof_with_receipt E (vrc_root (vq_chain verified)) (vq_selected_policy verified) pf) (\<lambda>receipt.
     and_then (validate_verified_recovery_aware_continuity_chain_extension (vq_chain verified) receipt) (\<lambda>_.
     Ok pf)))))))"

section \<open>Verified requests\<close>

lemma candidate_Ok:
  assumes "validate_recovery_ceremony_candidate E chain s key = Ok p"
  shows "recovery_policy_for_transition (vrc_policies chain) s = Ok p"
    and "validate_recovery_transition_binding E (vrc_root chain) p s = Ok ()"
    and "rts_schema s = RECOVERY_TRANSITION_STATEMENT_SCHEMA_V2" and "validate_recovery_transition_statement E s = Ok ()"
    and "\<exists>k. normalize_public_key E key = Ok k \<and> public_key_fingerprint E k = Ok (rts_next_key_fingerprint s)"
    and "validate_recovery_aware_transition_at_head chain (rts_sequence s) (rts_persona_anchor s) (rts_persona s)
        (rts_root_statement_sha256 s) (rts_previous_transition_sha256 s) (rts_previous_key_fingerprint s)
        (rts_next_key_fingerprint s) (rts_issued_at s) = Ok ()"
  using assms by (auto simp: validate_recovery_ceremony_candidate_def require_fingerprint_def)

text \<open>The chain of a verified request is the batch verification of its history, with the head checkpoint noted.\<close>

definition same_chain :: "VerifiedRecoveryAwareContinuityChain \<Rightarrow> VerifiedRecoveryAwareContinuityChain \<Rightarrow> bool" where
  "same_chain c d \<longleftrightarrow> vrc_root c = vrc_root d \<and> vrc_policies c = vrc_policies d \<and> vrc_transitions c = vrc_transitions d \<and>
     ra_terminally_revoked (vrc_report c) = ra_terminally_revoked (vrc_report d) \<and>
     ra_current_key_fingerprint (vrc_report c) = ra_current_key_fingerprint (vrc_report d) \<and>
     ra_transition_count (vrc_report c) = ra_transition_count (vrc_report d) \<and>
     ra_last_transition_sha256 (vrc_report c) = ra_last_transition_sha256 (vrc_report d) \<and>
     ra_last_issued_at (vrc_report c) = ra_last_issued_at (vrc_report d)"

lemma same_chain_extension:
  assumes "same_chain c d"
  shows "validate_recovery_aware_transition_at_head c = validate_recovery_aware_transition_at_head d"
    and "validate_verified_recovery_aware_continuity_chain_extension c = validate_verified_recovery_aware_continuity_chain_extension d"
proof -
  note same = assms [unfolded same_chain_def]
  show head: "validate_recovery_aware_transition_at_head c = validate_recovery_aware_transition_at_head d"
    by (intro ext) (simp only: validate_recovery_aware_transition_at_head_def same)
  show "validate_verified_recovery_aware_continuity_chain_extension c = validate_verified_recovery_aware_continuity_chain_extension d"
    by (intro ext) (simp only: validate_verified_recovery_aware_continuity_chain_extension_def head same)
qed

lemma head_checkpoint_matches:
  assumes "match_recovery_aware_continuity_head_checkpoint n digest expected = Ok ()"
  shows "n = pc_transition_sequence expected" and "digest = pc_transition_sha256 expected"
  using assms
  by (auto simp: match_recovery_aware_continuity_head_checkpoint_def match_continuity_head_checkpoint_def split: if_splits)

lemma verified_request_facts:
  assumes "verify_recovery_ceremony_request E request t = Ok v"
  shows "\<exists>c. verify_persona_continuity_chain_with_recovery_with_verified_sequence E (cq_root_proof request)
        (cq_prior_transitions request) (cq_recovery_policies request) (cq_expected_root_statement_sha256 request)
        (cq_expected_latest_policy_sha256 request) t = Ok c \<and> same_chain (vq_chain v) c \<and>
        ra_transition_count (vrc_report c) = pc_transition_sequence (cq_expected_head request) \<and>
        ra_last_transition_sha256 (vrc_report c) = pc_transition_sha256 (cq_expected_head request)"
    and "validate_recovery_ceremony_candidate E (vq_chain v) (cq_statement request) (cq_next_public_key request)
        = Ok (vq_selected_policy v)"
    and "canonical_recovery_transition_statement_bytes E (cq_statement request) = Ok (vq_statement_payload v)"
    and "vq_request v = request" "vq_verified_at v = t" "ensure_ceremony_current (cq_statement request) t = Ok ()"
    and "\<exists>bs. canonical_recovery_ceremony_request_bytes E request = Ok bs \<and> vq_request_sha256 v = sha256_hex E bs"
proof -
  obtain bs chain p payload k where v: "canonical_recovery_ceremony_request_bytes E request = Ok bs"
    "verify_recovery_chain_with_sequence_at_checkpoint E (cq_root_proof request) (cq_prior_transitions request)
       (cq_recovery_policies request) (cq_expected_root_statement_sha256 request) (cq_expected_latest_policy_sha256 request)
       t (cq_expected_head request) = Ok chain"
    "validate_recovery_ceremony_candidate E chain (cq_statement request) (cq_next_public_key request) = Ok p"
    "ensure_ceremony_current (cq_statement request) t = Ok ()"
    "canonical_recovery_transition_statement_bytes E (cq_statement request) = Ok payload"
    "v = \<lparr>vq_request = request, vq_request_sha256 = sha256_hex E bs, vq_statement_payload = payload,
         vq_next_public_key = k, vq_selected_policy = p, vq_chain = chain, vq_verified_at = t\<rparr>"
    using assms by (auto simp: verify_recovery_ceremony_request_def)
  from v(2) obtain c where c: "verify_persona_continuity_chain_with_recovery_with_verified_sequence E (cq_root_proof request)
        (cq_prior_transitions request) (cq_recovery_policies request) (cq_expected_root_statement_sha256 request)
        (cq_expected_latest_policy_sha256 request) t = Ok c" "same_chain chain c"
    "match_recovery_aware_continuity_head_checkpoint (ra_transition_count (vrc_report c))
       (ra_last_transition_sha256 (vrc_report c)) (cq_expected_head request) = Ok ()"
    by (auto simp: verify_recovery_chain_with_sequence_at_checkpoint_def same_chain_def)
  with head_checkpoint_matches v(6) show "\<exists>c. verify_persona_continuity_chain_with_recovery_with_verified_sequence E (cq_root_proof request)
        (cq_prior_transitions request) (cq_recovery_policies request) (cq_expected_root_statement_sha256 request)
        (cq_expected_latest_policy_sha256 request) t = Ok c \<and> same_chain (vq_chain v) c \<and>
        ra_transition_count (vrc_report c) = pc_transition_sequence (cq_expected_head request) \<and>
        ra_last_transition_sha256 (vrc_report c) = pc_transition_sha256 (cq_expected_head request)" by auto
qed (use assms in \<open>auto simp: verify_recovery_ceremony_request_def\<close>)

text \<open>A verified request carries the identifier and the expiry that its review reads.\<close>

lemma verified_request_complete:
  assumes "verify_recovery_ceremony_request E request t = Ok v"
  shows "\<exists>i e. rts_ceremony_id (vq_statement v) = Some i \<and> rts_expires_at (vq_statement v) = Some e"
proof -
  note s = candidate_Ok(3,4) [OF verified_request_facts(2) [OF assms]]
  have "RECOVERY_TRANSITION_STATEMENT_SCHEMA \<noteq> RECOVERY_TRANSITION_STATEMENT_SCHEMA_V2"
    by (simp add: RECOVERY_TRANSITION_STATEMENT_SCHEMA_V2_def RECOVERY_TRANSITION_STATEMENT_SCHEMA_def)
  with s have "\<exists>i e. rts_ceremony_id (cq_statement request) = Some i \<and> rts_expires_at (cq_statement request) = Some e"
    unfolding validate_recovery_transition_statement_def by (simp only: and_then_Ok_iff ok_or_Ok_iff if_False simp_thms) auto
  with verified_request_facts(4) [OF assms] show ?thesis by simp
qed

section \<open>Verified responses\<close>

text \<open>
  What a response states, apart from the time: it answers this request, its participant has the role it
  claims, and the participant signed both the statement, under the namespace of the role, and the request.
\<close>

definition response_valid :: "'z ceremony_ext_scheme \<Rightarrow> VerifiedRecoveryCeremonyRequest \<Rightarrow> RecoveryCeremonyResponse \<Rightarrow> bool" where
  "response_valid E v r \<longleftrightarrow>
     is_Ok (canonical_recovery_ceremony_response_bytes E r) \<and> cr_request_sha256 r = vq_request_sha256 v \<and>
     participant_role v (cr_participant_fingerprint r) = Ok (cr_role r) \<and>
     authority_signed E (vq_statement_payload v) (role_namespace (cr_role r)) (cr_signature r) (cr_participant_fingerprint r) \<and>
     (\<exists>bs. canonical_recovery_ceremony_request_bytes E (vq_request v) = Ok bs \<and>
        authority_signed E bs RECOVERY_CEREMONY_REQUEST_BINDING_NAMESPACE (cr_request_binding_signature r)
          (cr_participant_fingerprint r))"

definition ceremony_open :: "VerifiedRecoveryCeremonyRequest \<Rightarrow> i64 \<Rightarrow> bool" where
  "ceremony_open v t \<longleftrightarrow> ensure_not_before_prior_verification v t = Ok () \<and> ensure_ceremony_current (vq_statement v) t = Ok ()"

lemma ceremony_open_iff:
  "ceremony_open v t \<longleftrightarrow> 0 \<le> t \<and> t \<le> MAX_JCS_SAFE_INTEGER \<and> vq_verified_at v \<le> t \<and> rts_issued_at (vq_statement v) \<le> t \<and>
     (\<exists>e. rts_expires_at (vq_statement v) = Some e \<and> t < e)"
  by (auto simp: ceremony_open_def ensure_not_before_prior_verification_def ceremony_validate_jcs_time_def
      ensure_ceremony_current_def not_less not_le)

lemma verify_response_iff:
  "verify_recovery_ceremony_response E v r t = Ok w \<longleftrightarrow>
     ceremony_open v t \<and> response_valid E v r \<and> w = \<lparr>vcr_response = r\<rparr>"
  unfolding verify_recovery_ceremony_response_def ceremony_open_def response_valid_def authority_signed_def
  by (simp only: and_then_Ok_iff ok_or_Ok_iff if_Err_Ok_iff) (auto simp: is_Ok_iff)

text \<open>A response that a participant creates is accepted at every later moment of the ceremony.\<close>

lemma new_response_valid:
  assumes "new_recovery_ceremony_response E v s b t = Ok r"
  shows "response_valid E v r" "ceremony_open v t"
proof -
  from assms obtain key f role bkey bs out where
    n: "ceremony_open v t" "normalize_public_key E (rsig_public_key s) = Ok key" "public_key_fingerprint E key = Ok f"
    "participant_role v f = Ok role" "is_Ok (validate_recovery_signature E s (role_namespace role))"
    "validate_recovery_signature E b RECOVERY_CEREMONY_REQUEST_BINDING_NAMESPACE = Ok bkey" "public_key_fingerprint E bkey = Ok f"
    "sshsig_verify E (vq_statement_payload v) (rsig_value s) key (role_namespace role) = Ok ()"
    "canonical_recovery_ceremony_request_bytes E (vq_request v) = Ok bs"
    "sshsig_verify E bs (rsig_value b) bkey RECOVERY_CEREMONY_REQUEST_BINDING_NAMESPACE = Ok ()"
    "r = \<lparr>cr_schema = RECOVERY_TRANSITION_CEREMONY_RESPONSE_SCHEMA, cr_canonicalization = CONTINUITY_CANONICALIZATION,
       cr_request_sha256 = vq_request_sha256 v, cr_participant_fingerprint = f, cr_role = role,
       cr_request_binding_signature = b, cr_signature = s\<rparr>" "canonical_recovery_ceremony_response_bytes E r = Ok out"
    unfolding new_recovery_ceremony_response_def Let_def ceremony_open_def
    by (simp only: and_then_Ok_iff if_Err_Ok_iff is_Ok_iff) auto
  show "ceremony_open v t" by (fact n(1))
  have "validate_recovery_signature E s (role_namespace role) = Ok key"
    using n(2,5) by (auto simp: validate_recovery_signature_def is_Ok_iff split: if_splits)
  with n show "response_valid E v r" by (auto simp: response_valid_def authority_signed_def is_Ok_iff)
qed

lemma signed_response_valid:
  assumes "sign_recovery_ceremony_request E v signer t = Ok r"
  shows "response_valid E v r" "ceremony_open v t"
  using assms new_response_valid unfolding sign_recovery_ceremony_request_def by (auto simp only: and_then_Ok_iff)

section \<open>Collected responses\<close>

text \<open>
  The collected responses are the verified responses as a map in the order of its keys: one entry for each
  participant, whatever the order and the repetitions of the responses.
\<close>

definition collected :: "RecoveryCeremonyResponse list \<Rightarrow> responses \<Rightarrow> bool" where
  "collected rs d \<longleftrightarrow> sorted (map fst d) \<and> distinct (map fst d) \<and>
     set d = (\<lambda>r. (cr_participant_fingerprint r, \<lparr>vcr_response = r\<rparr>)) ` set rs"

lemma collected_unique:
  assumes "collected rs d" "collected rs' d'" "set rs = set rs'"
  shows "d = d'"
proof (rule map_sorted_distinct_set_unique)
  show "inj_on fst (set d \<union> set d')" using assms by (auto simp: collected_def distinct_map)
qed (use assms in \<open>auto simp: collected_def\<close>)

lemma collected_lookup:
  assumes "collected rs d"
  shows "map_of d f = Some w \<longleftrightarrow> (\<exists>r\<in>set rs. cr_participant_fingerprint r = f \<and> w = \<lparr>vcr_response = r\<rparr>)"
  using assms map_of_eq_Some_iff [of d f w] by (auto simp: collected_def)

lemma collected_insert:
  assumes "collected rs d" "map_of d (cr_participant_fingerprint r) = None"
  shows "collected (rs @ [r]) (insort_key fst (cr_participant_fingerprint r, \<lparr>vcr_response = r\<rparr>) d)"
  using assms
  by (auto simp: collected_def sorted_insort_key set_insort_key map_of_eq_None_iff distinct_map inj_on_def distinct_insort image_iff)

lemma collected_again:
  assumes "collected rs d" "r \<in> set rs"
  shows "collected (rs @ [r]) d"
  using assms by (auto simp: collected_def insert_absorb)

lemma collect_Ok_iff:
  assumes d: "collected rs d"
  shows "is_Ok (collect_response E v t d r) \<longleftrightarrow> ceremony_open v t \<and> response_valid E v r \<and>
      (\<forall>r'\<in>set rs. cr_participant_fingerprint r' = cr_participant_fingerprint r \<longrightarrow> r' = r)"
    and "collect_response E v t d r = Ok d' \<Longrightarrow> collected (rs @ [r]) d'"
proof -
  have eq: "collect_response E v t d r = (if \<not> (ceremony_open v t \<and> response_valid E v r)
      then Err (err_value (verify_recovery_ceremony_response E v r t))
      else case map_of d (cr_participant_fingerprint r) of
        Some w \<Rightarrow> if vcr_response w = r then Ok d else ceremony_failure ConflictingResponses
      | None \<Rightarrow> Ok (insort_key fst (cr_participant_fingerprint r, \<lparr>vcr_response = r\<rparr>) d))"
  proof (cases "verify_recovery_ceremony_response E v r t")
    case (Ok w)
    moreover from Ok have "ceremony_open v t" "response_valid E v r" "w = \<lparr>vcr_response = r\<rparr>" by (simp_all add: verify_response_iff)
    ultimately show ?thesis by (simp add: collect_response_def Let_def cong: option.case_cong)
  next
    case (Err e)
    then have "\<not> (ceremony_open v t \<and> response_valid E v r)" using verify_response_iff [of E v r t] by auto
    with Err show ?thesis by (simp add: collect_response_def)
  qed
  show "is_Ok (collect_response E v t d r) \<longleftrightarrow> ceremony_open v t \<and> response_valid E v r \<and>
      (\<forall>r'\<in>set rs. cr_participant_fingerprint r' = cr_participant_fingerprint r \<longrightarrow> r' = r)"
  proof (cases "map_of d (cr_participant_fingerprint r)")
    case None
    then have "\<forall>r'\<in>set rs. cr_participant_fingerprint r' \<noteq> cr_participant_fingerprint r"
      using d by (auto simp: map_of_eq_None_iff collected_def image_image) (metis imageI)
    with None show ?thesis unfolding eq by simp
  next
    case (Some w)
    then obtain r' where r': "r' \<in> set rs" "cr_participant_fingerprint r' = cr_participant_fingerprint r" "w = \<lparr>vcr_response = r'\<rparr>"
      using collected_lookup [OF d] by blast
    have "r'' = r'" if "r'' \<in> set rs" "cr_participant_fingerprint r'' = cr_participant_fingerprint r" for r''
    proof -
      from that have "map_of d (cr_participant_fingerprint r) = Some \<lparr>vcr_response = r''\<rparr>" unfolding collected_lookup [OF d] by blast
      with Some r'(3) show ?thesis by simp
    qed
    with r'(1,2) have "(\<forall>r'\<in>set rs. cr_participant_fingerprint r' = cr_participant_fingerprint r \<longrightarrow> r' = r) \<longleftrightarrow> r' = r"
      by blast
    with Some r'(3) show ?thesis unfolding eq by simp blast
  qed
  show "collected (rs @ [r]) d'" if "collect_response E v t d r = Ok d'"
  proof (cases "map_of d (cr_participant_fingerprint r)")
    case None
    with that collected_insert [OF d] show ?thesis by (auto simp: eq split: if_splits)
  next
    case (Some w)
    with that have "vcr_response w = r" "d' = d" by (auto simp: eq split: if_splits)
    moreover have "r \<in> set rs" using Some calculation(1) unfolding collected_lookup [OF d] by auto
    ultimately show ?thesis using collected_again [OF d] by simp
  qed
qed

interpretation collecting: loop_invariant "collect_response E v t" collected
  by unfold_locales (rule collect_Ok_iff(2))

lemma collected_Nil [simp]: "collected [] []"
  by (simp add: collected_def)

lemma collect_all_iff:
  "is_Ok (try_fold (collect_response E v t) [] rs) \<longleftrightarrow>
     (\<forall>r\<in>set rs. ceremony_open v t \<and> response_valid E v r) \<and> inj_on cr_participant_fingerprint (set rs)"
proof (induction rs rule: rev_induct)
  case (snoc r rs)
  show ?case
  proof (cases "try_fold (collect_response E v t) [] rs")
    case (Ok d)
    note d = collecting.loop_keeps_from_start [OF collected_Nil Ok]
    have step: "is_Ok (try_fold (collect_response E v t) [] (rs @ [r])) \<longleftrightarrow> is_Ok (collect_response E v t d r)"
      by (cases "collect_response E v t d r") (simp_all add: try_fold_append Ok)
    from snoc Ok show ?thesis unfolding step collect_Ok_iff(1) [OF d] by (auto simp: inj_on_def)
  next
    case (Err e)
    then have "\<not> is_Ok (try_fold (collect_response E v t) [] (rs @ [r]))" by (simp add: try_fold_append)
    with Err snoc show ?thesis by (auto simp: inj_on_def)
  qed
qed simp

section \<open>Assembled proofs\<close>

definition by_role :: "RecoveryCeremonyParticipantRole \<Rightarrow> responses \<Rightarrow> responses" where
  "by_role role d = filter (\<lambda>x. cr_role (vcr_response (snd x)) = role) d"

definition signatures_of :: "responses \<Rightarrow> RecoverySignature list" where
  "signatures_of d = map (\<lambda>x. cr_signature (vcr_response (snd x))) d"

lemma take_all:
  assumes "length (by_role NextKey d) \<le> (if n = None then 1 else 0)"
  shows "try_fold take_response (sigs, n) d = Ok (sigs @ signatures_of (by_role RecoveryAuthority d),
    if by_role NextKey d = [] then n else Some (hd (signatures_of (by_role NextKey d))))"
  using assms
proof (induction d arbitrary: sigs n)
  case (Cons x d)
  show ?case
  proof (cases "cr_role (vcr_response (snd x))")
    case RecoveryAuthority
    with Cons show ?thesis by (simp add: take_response_def by_role_def signatures_of_def)
  next
    case NextKey
    with Cons.prems have "n = None" "by_role NextKey d = []" by (auto simp: by_role_def split: if_splits)
    with NextKey Cons.IH [of "Some (cr_signature (vcr_response (snd x)))" sigs] show ?thesis
      by (simp add: take_response_def by_role_def signatures_of_def)
  qed
qed (simp add: by_role_def signatures_of_def)

lemma collected_entry:
  assumes "collected rs d" "x \<in> set d"
  shows "vcr_response (snd x) \<in> set rs" "fst x = cr_participant_fingerprint (vcr_response (snd x))"
  using assms by (auto simp: collected_def)

lemma collected_by_role:
  assumes "collected rs d"
  shows "length (by_role role d) = card {r \<in> set rs. cr_role r = role}"
proof -
  let ?entry = "\<lambda>r. (cr_participant_fingerprint r, \<lparr>vcr_response = r\<rparr>)"
  have "distinct (by_role role d)" using assms by (simp add: collected_def by_role_def distinct_map)
  then have "length (by_role role d) = card (set (by_role role d))" by (simp add: distinct_card)
  also have "set (by_role role d) = ?entry ` {r \<in> set rs. cr_role r = role}" using assms by (auto simp: collected_def by_role_def)
  also have "card \<dots> = card {r \<in> set rs. cr_role r = role}" by (intro card_image inj_onI) simp
  finally show ?thesis .
qed

lemma one_next_key:
  assumes "inj_on cr_participant_fingerprint (set rs)" "\<forall>r\<in>set rs. response_valid E v r"
  shows "card {r \<in> set rs. cr_role r = NextKey} \<le> 1"
proof -
  have "cr_participant_fingerprint r = rts_next_key_fingerprint (vq_statement v)" if "r \<in> set rs" "cr_role r = NextKey" for r
    using assms(2) that by (auto simp: response_valid_def participant_role_def split: if_splits)
  with assms(1) have "\<forall>r\<in>{r \<in> set rs. cr_role r = NextKey}. \<forall>r'\<in>{r \<in> set rs. cr_role r = NextKey}. r = r'"
    by (auto simp: inj_on_def)
  then show ?thesis by (simp add: card_le_Suc0_iff_eq)
qed

lemma take_collected:
  assumes "collected rs d" "inj_on cr_participant_fingerprint (set rs)" "\<forall>r\<in>set rs. response_valid E v r"
  shows "try_fold take_response ([], None) d = Ok (signatures_of (by_role RecoveryAuthority d),
    if by_role NextKey d = [] then None else Some (hd (signatures_of (by_role NextKey d))))"
  using one_next_key [OF assms(2,3)] by (subst take_all) (simp_all add: collected_by_role [OF assms(1)])

lemma selected_policy_bound:
  assumes "verify_recovery_ceremony_request E request t = Ok v"
  shows "policy_bound E (vrc_root (vq_chain v)) (vq_selected_policy v)"
proof -
  from verified_request_facts(1) [OF assms] obtain c where
    c: "verify_persona_continuity_chain_with_recovery_with_verified_sequence E (cq_root_proof request)
        (cq_prior_transitions request) (cq_recovery_policies request) (cq_expected_root_statement_sha256 request)
        (cq_expected_latest_policy_sha256 request) t = Ok c" "same_chain (vq_chain v) c" by blast
  have "vq_selected_policy v \<in> set (vrc_policies (vq_chain v))"
    by (rule governing_policy_member [OF recovery_policy_for_transition_Ok [OF candidate_Ok(1) [OF verified_request_facts(2) [OF assms]]]])
  with c(2) verified_policy_sequence_facts(6) [OF verified_recovery_history(3) [OF c(1)]]
  show ?thesis by (simp add: same_chain_def)
qed

definition assembled_proof :: "'z ext_scheme \<Rightarrow> VerifiedRecoveryCeremonyRequest \<Rightarrow> responses \<Rightarrow> RecoveryTransitionProof" where
  "assembled_proof E v d = \<lparr>rtp_schema = RECOVERY_TRANSITION_PROOF_SCHEMA,
     rtp_payload = base64url_encode E (vq_statement_payload v),
     rtp_recovery_signatures = signatures_of (by_role RecoveryAuthority d),
     rtp_next_signature = hd (signatures_of (by_role NextKey d))\<rparr>"

lemma collected_quorum:
  assumes request: "verify_recovery_ceremony_request E request t0 = Ok v"
    and d: "collected rs d" and valid: "\<forall>r\<in>set rs. response_valid E v r"
    and enough: "unat (ps_threshold (vp_statement (vq_selected_policy v))) \<le> length (by_role RecoveryAuthority d)"
  shows "\<exists>fs. authority_quorum E (vq_statement_payload v) RECOVERY_TRANSITION_AUTHORITY_NAMESPACE
    (signatures_of (by_role RecoveryAuthority d)) (ps_recovery_key_fingerprints (vp_statement (vq_selected_policy v)))
    (unat (ps_threshold (vp_statement (vq_selected_policy v)))) False fs"
proof -
  let ?p = "vp_statement (vq_selected_policy v)" and ?d = "by_role RecoveryAuthority d"
  have policy: "validate_recovery_policy_statement E ?p = Ok ()"
    using selected_policy_bound [OF request] by (simp add: policy_bound_def)
  have entry: "authority_signed E (vq_statement_payload v) RECOVERY_TRANSITION_AUTHORITY_NAMESPACE (cr_signature (vcr_response (snd x))) (fst x)"
    "fst x \<in> set (ps_recovery_key_fingerprints ?p)" if "x \<in> set ?d" for x
  proof -
    from that have x: "x \<in> set d" "cr_role (vcr_response (snd x)) = RecoveryAuthority" by (auto simp: by_role_def)
    with collected_entry [OF d x(1)] valid have "response_valid E v (vcr_response (snd x))" by blast
    with collected_entry(2) [OF d x(1)] x(2)
    show "authority_signed E (vq_statement_payload v) RECOVERY_TRANSITION_AUTHORITY_NAMESPACE (cr_signature (vcr_response (snd x))) (fst x)"
      "fst x \<in> set (ps_recovery_key_fingerprints ?p)"
      by (auto simp: response_valid_def role_namespace_def participant_role_def recovery_key_search_iff [OF policy] split: if_splits)
  qed
  have signed: "list_all2 (authority_signed E (vq_statement_payload v) RECOVERY_TRANSITION_AUTHORITY_NAMESPACE)
      (signatures_of ?d) (map fst ?d)"
    using entry(1) by (auto simp: signatures_of_def list_all2_map1 list_all2_map2 list_all2_same)
  have dist: "distinct (map fst ?d)" using d by (auto simp: collected_def by_role_def distinct_map inj_on_def)
  have sub: "set (map fst ?d) \<subseteq> set (ps_recovery_key_fingerprints ?p)" using entry(2) by auto
  have "length ?d = card (set (map fst ?d))" using distinct_card [OF dist] by simp
  also have "\<dots> \<le> card (set (ps_recovery_key_fingerprints ?p))" by (intro card_mono sub) simp
  also have "\<dots> \<le> length (ps_recovery_key_fingerprints ?p)" by (rule card_length)
  finally show ?thesis using enough signed dist sub valid_policy_facts(1,3) [OF policy]
    by (intro exI [of _ "sort (map fst ?d)"]) (auto simp: authority_quorum_def signatures_of_def intro!: exI [of _ "map fst ?d"])
qed

lemma collected_next_signed:
  assumes d: "collected rs d" and valid: "\<forall>r\<in>set rs. response_valid E v r" and "by_role NextKey d \<noteq> []"
  shows "authority_signed E (vq_statement_payload v) RECOVERY_TRANSITION_NEXT_NAMESPACE
    (hd (signatures_of (by_role NextKey d))) (rts_next_key_fingerprint (vq_statement v))"
proof -
  let ?x = "hd (by_role NextKey d)"
  have "?x \<in> set (by_role NextKey d)" using assms(3) by simp
  then have x: "?x \<in> set d" "cr_role (vcr_response (snd ?x)) = NextKey" by (simp_all add: by_role_def)
  with collected_entry(1) [OF d x(1)] valid have "response_valid E v (vcr_response (snd ?x))" by blast
  with x(2) assms(3) show ?thesis
    by (auto simp: response_valid_def role_namespace_def participant_role_def signatures_of_def hd_map split: if_splits)
qed

lemma assembled_proof_decodes:
  assumes codecs: "recovery_codecs E" and request: "verify_recovery_ceremony_request E request t0 = Ok v"
  shows "decode_recovery_transition_proof E (assembled_proof E v d) = Ok (vq_statement_payload v, cq_statement request)"
  using verified_request_facts(3) [OF request] recovery_payload_decodes [OF codecs] codecs
  by (auto simp: decode_recovery_Ok_iff assembled_proof_def canonical_recovery_Ok_iff recovery_codecs_def)

lemma assembled_proof_verifies:
  assumes codecs: "recovery_codecs E" and request: "verify_recovery_ceremony_request E request t0 = Ok v"
    and d: "collected rs d" and valid: "\<forall>r\<in>set rs. response_valid E v r"
    and enough: "unat (ps_threshold (vp_statement (vq_selected_policy v))) \<le> length (by_role RecoveryAuthority d)"
    and nxt: "by_role NextKey d \<noteq> []"
  shows "\<exists>receipt. verify_recovery_transition_proof_with_receipt E (vrc_root (vq_chain v)) (vq_selected_policy v) (assembled_proof E v d)
      = Ok receipt \<and> validate_verified_recovery_aware_continuity_chain_extension (vq_chain v) receipt = Ok ()"
proof -
  let ?s = "cq_statement request" and ?p = "vq_selected_policy v"
  note req = verified_request_facts [OF request]
  note cand = candidate_Ok [OF req(2)]
  from collected_quorum [OF request d valid enough] obtain fs where
    "authority_quorum E (vq_statement_payload v) RECOVERY_TRANSITION_AUTHORITY_NAMESPACE
      (signatures_of (by_role RecoveryAuthority d)) (ps_recovery_key_fingerprints (vp_statement ?p))
      (unat (ps_threshold (vp_statement ?p))) False fs" by blast
  note quorum = quorum_preflight(1,3) [OF this valid_policy_distinct [of E]] 
  have policy: "validate_recovery_policy_statement E (vp_statement ?p) = Ok ()"
    using selected_policy_bound [OF request] by (simp add: policy_bound_def)
  from collected_next_signed [OF d valid nxt] obtain key where
    key: "validate_recovery_signature E (hd (signatures_of (by_role NextKey d))) RECOVERY_TRANSITION_NEXT_NAMESPACE = Ok key"
    "public_key_fingerprint E key = Ok (rts_next_key_fingerprint ?s)"
    "sshsig_verify E (vq_statement_payload v) (rsig_value (hd (signatures_of (by_role NextKey d)))) key
      RECOVERY_TRANSITION_NEXT_NAMESPACE = Ok ()" by (auto simp: authority_signed_def req(4))
  note dec = assembled_proof_decodes [OF codecs request, of d]
  define receipt where "receipt = \<lparr>rtr_policy_statement = vp_statement ?p, rtr_policy_statement_sha256 = vp_policy_statement_sha256 ?p,
    rtr_transition = \<lparr>vrt_statement = ?s, vrt_transition_statement_sha256 = sha256_hex E (vq_statement_payload v),
      vrt_recovery_signer_fingerprints = fs, vrt_next_public_key = key\<rparr>\<rparr>"
  have "verify_recovery_transition_proof_with_receipt E (vrc_root (vq_chain v)) ?p (assembled_proof E v d) = Ok receipt"
    using quorum [OF policy] key dec cand(2)
    by (auto simp: verify_recovery_transition_proof_with_receipt_def preflight_recovery_transition_proof_def
        assembled_proof_def receipt_def require_fingerprint_def)
  moreover have "validate_recovery_transition_policy_binding ?p ?s = Ok ()"
    using cand(2) by (auto simp: validate_recovery_transition_binding_def)
  then have "validate_verified_recovery_aware_continuity_chain_extension (vq_chain v) receipt = Ok ()"
    using cand(1,6) by (simp add: validate_verified_recovery_aware_continuity_chain_extension_def receipt_def)
  ultimately show ?thesis by blast
qed

lemma assemble_iff:
  assumes codecs: "recovery_codecs E" and request: "verify_recovery_ceremony_request E request t0 = Ok v"
  shows "assemble_recovery_ceremony_proof E v rs t = Ok pf \<longleftrightarrow>
    ceremony_open v t \<and> rs \<noteq> [] \<and> length rs \<le> 33 \<and> (\<forall>r\<in>set rs. response_valid E v r) \<and>
    inj_on cr_participant_fingerprint (set rs) \<and>
    unat (ps_threshold (vp_statement (vq_selected_policy v))) \<le> card {r \<in> set rs. cr_role r = RecoveryAuthority} \<and>
    (\<exists>r\<in>set rs. cr_role r = NextKey) \<and> (\<exists>d. collected rs d \<and> pf = assembled_proof E v d)" (is "?L \<longleftrightarrow> ?R")
proof (cases "\<exists>d. ceremony_open v t \<and> rs \<noteq> [] \<and> length rs \<le> 33 \<and> try_fold (collect_response E v t) [] rs = Ok d")
  case True
  then obtain d where d: "ceremony_open v t" "rs \<noteq> []" "length rs \<le> 33" "try_fold (collect_response E v t) [] rs = Ok d" by blast
  note coll = collecting.loop_keeps_from_start [OF collected_Nil d(4)]
  have valid: "\<forall>r\<in>set rs. response_valid E v r" and inj: "inj_on cr_participant_fingerprint (set rs)"
    using collect_all_iff [of E v t rs] d(4) by auto
  note take = take_collected [OF coll inj valid] and verifies = assembled_proof_verifies [OF codecs request coll valid]
  have nxt: "by_role NextKey d \<noteq> [] \<longleftrightarrow> (\<exists>r\<in>set rs. cr_role r = NextKey)"
    using collected_by_role [OF coll, of NextKey] by (auto simp flip: length_0_conv)
  have "?L \<longleftrightarrow> unat (ps_threshold (vp_statement (vq_selected_policy v))) \<le> length (by_role RecoveryAuthority d) \<and>
      by_role NextKey d \<noteq> [] \<and> pf = assembled_proof E v d"
    using d verifies unfolding assemble_recovery_ceremony_proof_def
    by (auto simp: ceremony_open_def MAX_RECOVERY_CEREMONY_RESPONSES_def MAX_RECOVERY_AUTHORITIES_def take Let_def not_less
        assembled_proof_def signatures_of_def split: if_splits)
  moreover have "(\<exists>d. collected rs d \<and> pf = assembled_proof E v d) \<longleftrightarrow> pf = assembled_proof E v d"
    using coll collected_unique [OF coll _ refl] by blast
  ultimately show ?thesis using d(1-3) valid inj by (simp only: nxt collected_by_role [OF coll]) blast
next
  case False
  then have "\<not> ?L" unfolding assemble_recovery_ceremony_proof_def
    by (auto simp: ceremony_open_def MAX_RECOVERY_CEREMONY_RESPONSES_def MAX_RECOVERY_AUTHORITIES_def not_less)
  moreover have "\<not> ?R" using False collect_all_iff [of E v t rs] unfolding is_Ok_iff by blast
  ultimately show ?thesis by blast
qed

text \<open>The assembled proof is a next entry of the history of the request.\<close>

lemma assembled_proof_extends:
  assumes request: "verify_recovery_ceremony_request E request t0 = Ok v"
    and assembled: "assemble_recovery_ceremony_proof E v rs t = Ok pf"
  shows "is_Ok (verify_persona_continuity_chain_with_recovery_with_verified_sequence E (cq_root_proof request)
    (cq_prior_transitions request @ [RecoveryProof pf]) (cq_recovery_policies request) (cq_expected_root_statement_sha256 request)
    (cq_expected_latest_policy_sha256 request) t0)"
proof -
  from verified_request_facts(1) [OF request] obtain c where
    c: "verify_persona_continuity_chain_with_recovery_with_verified_sequence E (cq_root_proof request)
        (cq_prior_transitions request) (cq_recovery_policies request) (cq_expected_root_statement_sha256 request)
        (cq_expected_latest_policy_sha256 request) t0 = Ok c" "same_chain (vq_chain v) c" by blast
  from assembled have "\<exists>p receipt. verify_recovery_transition_proof_with_receipt E (vrc_root (vq_chain v)) p pf = Ok receipt \<and>
      validate_verified_recovery_aware_continuity_chain_extension (vq_chain v) receipt = Ok ()"
    unfolding assemble_recovery_ceremony_proof_def Let_def by (auto split: if_splits prod.splits)
  moreover have "vrc_root (vq_chain v) = vrc_root c" using c(2) by (simp add: same_chain_def)
  ultimately show ?thesis unfolding extends_by_recovery_iff [OF c(1)] same_chain_extension(2) [OF c(2)] by simp
qed

section \<open>Signature work\<close>

text \<open>The number of signatures that the verification of a request checks.\<close>

definition policy_signatures :: "RecoveryPolicyProof \<Rightarrow> nat" where
  "policy_signatures policy = (case pp_authorization policy of
     Enrollment signatures \<Rightarrow> length signatures | Update previous current \<Rightarrow> length previous + length current)"

definition transition_signatures :: "PersonaContinuityTransitionProof \<Rightarrow> nat" where
  "transition_signatures transition = (case transition of RoutineProof pf \<Rightarrow> length (tp_signatures pf)
     | RecoveryProof pf \<Rightarrow> length (rtp_recovery_signatures pf) + 1 | TerminalProof pf \<Rightarrow> length (trp_recovery_signatures pf))"

definition request_signatures :: "RecoveryCeremonyRequest \<Rightarrow> nat" where
  "request_signatures request = 1 + sum_list (map policy_signatures (cq_recovery_policies request)) +
     sum_list (map transition_signatures (cq_prior_transitions request))"

lemma add_work_Ok:
  assumes "\<And>x n. work x = Ok n \<Longrightarrow> n = f x" and "try_fold (add_work work) w xs = Ok w'"
  shows "w' = w + sum_list (map f xs)"
  using assms(2)
proof (induction xs arbitrary: w)
  case (Cons x xs)
  then obtain w1 where "add_work work w x = Ok w1" "try_fold (add_work work) w1 xs = Ok w'" by auto
  moreover from this(1) assms(1) have "w1 = w + f x" by (auto simp: add_work_def usize_checked_add_def split: if_splits)
  ultimately show ?case using Cons.IH [of w1] by simp
qed simp

lemma verified_request_work:
  assumes "verify_recovery_ceremony_request E request t = Ok v"
  shows "request_signatures request \<le> 2048"
proof -
  have p: "n = policy_signatures x" if "policy_work x = Ok n" for x n
    using that by (auto simp: policy_work_def policy_signatures_def usize_checked_add_def split: RecoveryPolicyAuthorization.splits if_splits)
  have t: "n = transition_signatures x" if "transition_work x = Ok n" for x n
    using that by (auto simp: transition_work_def transition_signatures_def usize_checked_add_def
        split: PersonaContinuityTransitionProof.splits if_splits)
  from verified_request_facts(7) [OF assms] have "require_request_signature_work_bound request = Ok ()"
    by (auto simp: canonical_recovery_ceremony_request_bytes_def validate_request_structure_def)
  then obtain w w' where w: "try_fold (add_work policy_work) 1 (cq_recovery_policies request) = Ok w"
    "try_fold (add_work transition_work) w (cq_prior_transitions request) = Ok w'" "w' \<le> 2048"
    by (auto simp: require_request_signature_work_bound_def MAX_RECOVERY_CEREMONY_SIGNATURE_VERIFICATIONS_def not_less split: if_splits)
  with add_work_Ok [OF p w(1)] add_work_Ok [OF t w(2)] show ?thesis by (simp add: request_signatures_def)
qed

end
