(* ===== verification/Demo.thy ===== *)
theory Demo
  imports Recovery_Ceremony
begin

text \<open>
  A concrete environment for the third-party code and a persona that lives in it: a root, a routine
  transition, two versions of a recovery policy, a recovery and a terminal revocation, with their
  verification evaluated. The theorems about verified histories are applied to it.
\<close>

section \<open>Text\<close>

lemma ascii_is_utf8:
  assumes "list_all (\<lambda>c. (of_char c :: nat) < 128) s"
  shows "is_utf8 s"
  using assms
proof (induction s)
  case (Cons c cs)
  then have "utf8_len c = 1" by (simp add: utf8_len_def Let_def)
  with Cons show ?case by (simp add: is_utf8_def Let_def)
qed (simp add: is_utf8_def)

section \<open>The environment\<close>

text \<open>
  Codecs that keep the bytes, a digest that pads to 32 bytes, and keys and signatures that are
  readable text. A public key is \<^verbatim>\<open>a a\<close> followed by one character.
\<close>

definition demo_key :: "char \<Rightarrow> string" where "demo_key k = ''a a'' @ [k]"

definition demo_sha256 :: "bytes \<Rightarrow> bytes" where "demo_sha256 bs = take 32 (bs @ replicate 32 0)"

definition demo_digest :: "byte \<Rightarrow> string" where "demo_digest n = hex_encode (demo_sha256 [n])"

definition demo_print :: "char \<Rightarrow> string" where
  "demo_print k = ''SHA256:'' @ map char_from (demo_sha256 [0, 0, 0, 1, of_char (CHR ''a''), of_char k])"

definition demo_sign :: "string \<Rightarrow> string \<Rightarrow> bytes \<Rightarrow> string" where
  "demo_sign key namespace payload = last key # namespace @ hex_encode payload"

definition demo_run :: "(string \<Rightarrow> string option) \<Rightarrow> string list \<Rightarrow> bytes \<Rightarrow> (ChildRun, string) result" where
  "demo_run env args payload = Ok \<lparr>stdin_available = True, stdin_failure = None, try_wait = (\<lambda>_. Finished),
     round_delay = (\<lambda>_. 0),
     wait_output = Ok (True, ''exit status: 0'', as_bytes (demo_sign (args ! 3) (args ! 5) payload))\<rparr>"

text \<open>The statements: a root, a routine transition, two policies, a recovery and a terminal revocation.\<close>

definition demo_anchor :: string where "demo_anchor = replicate 32 (CHR ''A'')"

definition demo_root :: PersonaRootStatement where
  "demo_root = \<lparr>rs_schema = PERSONA_ROOT_STATEMENT_SCHEMA, rs_canonicalization = CONTINUITY_CANONICALIZATION,
     rs_persona_anchor = demo_anchor, rs_persona = ''p'', rs_root_version = 1, rs_issued_at = 100,
     rs_initial_key_fingerprint = demo_print (CHR ''0'')\<rparr>"

definition demo_transition :: PersonaTransitionStatement where
  "demo_transition = \<lparr>ts_schema = PERSONA_TRANSITION_STATEMENT_SCHEMA, ts_canonicalization = CONTINUITY_CANONICALIZATION,
     ts_persona_anchor = demo_anchor, ts_persona = ''p'', ts_sequence = 1, ts_issued_at = 200,
     ts_root_statement_sha256 = demo_digest 1, ts_previous_transition_sha256 = None,
     ts_previous_key_fingerprint = demo_print (CHR ''0''), ts_next_key_fingerprint = demo_print (CHR ''1''),
     ts_reason = Routine\<rparr>"

definition demo_policy :: RecoveryPolicyStatement where
  "demo_policy = \<lparr>ps_schema = RECOVERY_POLICY_STATEMENT_SCHEMA_V2, ps_canonicalization = CONTINUITY_CANONICALIZATION,
     ps_persona_anchor = demo_anchor, ps_persona = ''p'', ps_root_statement_sha256 = demo_digest 1,
     ps_policy_version = 1, ps_previous_policy_sha256 = None,
     ps_continuity_checkpoint = \<lparr>cp_transition_sequence = 0, cp_transition_sha256 = None\<rparr>,
     ps_issued_at = 150, ps_expires_at = 1000, ps_threshold = 2,
     ps_recovery_key_fingerprints = [demo_print (CHR ''7''), demo_print (CHR ''8''), demo_print (CHR ''9'')],
     ps_capabilities = [KeyRecovery, TerminalRevocation]\<rparr>"

definition demo_policy_update :: RecoveryPolicyStatement where
  "demo_policy_update = demo_policy\<lparr>ps_policy_version := 2, ps_previous_policy_sha256 := Some (demo_digest 3),
     ps_continuity_checkpoint := \<lparr>cp_transition_sequence = 2, cp_transition_sha256 = Some (demo_digest 5)\<rparr>,
     ps_issued_at := 350, ps_recovery_key_fingerprints := [demo_print (CHR ''8''), demo_print (CHR ''9'')]\<rparr>"

definition demo_recovery :: RecoveryTransitionStatement where
  "demo_recovery = \<lparr>rts_schema = RECOVERY_TRANSITION_STATEMENT_SCHEMA_V2, rts_canonicalization = CONTINUITY_CANONICALIZATION,
     rts_persona_anchor = demo_anchor, rts_persona = ''p'', rts_sequence = 2, rts_issued_at = 300,
     rts_root_statement_sha256 = demo_digest 1, rts_previous_transition_sha256 = Some (demo_digest 2),
     rts_previous_key_fingerprint = demo_print (CHR ''1''), rts_next_key_fingerprint = demo_print (CHR ''2''),
     rts_recovery_policy_sha256 = demo_digest 3, rts_recovery_policy_version = 1, rts_reason = RecoveryOfKey,
     rts_ceremony_id = Some demo_anchor, rts_expires_at = Some 1000\<rparr>"

definition demo_terminal :: TerminalPersonaRevocationStatement where
  "demo_terminal = \<lparr>trs_schema = TERMINAL_PERSONA_REVOCATION_STATEMENT_SCHEMA,
     trs_canonicalization = CONTINUITY_CANONICALIZATION, trs_persona_anchor = demo_anchor, trs_persona = ''p'',
     trs_sequence = 3, trs_issued_at = 400, trs_root_statement_sha256 = demo_digest 1,
     trs_previous_transition_sha256 = Some (demo_digest 5), trs_previous_key_fingerprint = demo_print (CHR ''2''),
     trs_recovery_policy_sha256 = demo_digest 4, trs_recovery_policy_version = 2, trs_reason = TerminalCessation,
     trs_effect = TERMINAL_PERSONA_REVOCATION_EFFECT\<rparr>"

text \<open>The proofs of the statements.\<close>

definition demo_signature :: "ContinuitySignatureRole \<Rightarrow> string \<Rightarrow> char \<Rightarrow> byte \<Rightarrow> ContinuitySignature" where
  "demo_signature role namespace k n = new_signature role (demo_sign (demo_key k) namespace [n]) (demo_key k)"

definition demo_recovery_signature :: "string \<Rightarrow> byte \<Rightarrow> char \<Rightarrow> RecoverySignature" where
  "demo_recovery_signature namespace n k = new_recovery_signature namespace (demo_sign (demo_key k) namespace [n]) (demo_key k)"

definition demo_root_proof :: PersonaRootProof where
  "demo_root_proof = \<lparr>rp_schema = PERSONA_ROOT_PROOF_SCHEMA, rp_payload = map char_from [1],
     rp_signature = demo_signature RootRole PERSONA_ROOT_NAMESPACE (CHR ''0'') 1\<rparr>"

definition demo_transition_proof :: PersonaTransitionProof where
  "demo_transition_proof = \<lparr>tp_schema = PERSONA_TRANSITION_PROOF_SCHEMA, tp_payload = map char_from [2],
     tp_signatures = [demo_signature NextRole PERSONA_TRANSITION_NAMESPACE (CHR ''1'') 2,
       demo_signature PreviousRole PERSONA_TRANSITION_NAMESPACE (CHR ''0'') 2]\<rparr>"

definition demo_policy_proof :: RecoveryPolicyProof where
  "demo_policy_proof = \<lparr>pp_schema = RECOVERY_POLICY_PROOF_SCHEMA, pp_payload = map char_from [3],
     pp_authorization = Enrollment (map (demo_recovery_signature RECOVERY_POLICY_ENROLLMENT_NAMESPACE 3) ''798'')\<rparr>"

definition demo_update_proof :: RecoveryPolicyProof where
  "demo_update_proof = \<lparr>pp_schema = RECOVERY_POLICY_PROOF_SCHEMA, pp_payload = map char_from [4],
     pp_authorization = Update (map (demo_recovery_signature RECOVERY_POLICY_UPDATE_PREVIOUS_NAMESPACE 4) ''79'')
       (map (demo_recovery_signature RECOVERY_POLICY_UPDATE_CURRENT_NAMESPACE 4) ''98'')\<rparr>"

definition demo_recovery_proof :: RecoveryTransitionProof where
  "demo_recovery_proof = \<lparr>rtp_schema = RECOVERY_TRANSITION_PROOF_SCHEMA, rtp_payload = map char_from [5],
     rtp_recovery_signatures = map (demo_recovery_signature RECOVERY_TRANSITION_AUTHORITY_NAMESPACE 5) ''97'',
     rtp_next_signature = demo_recovery_signature RECOVERY_TRANSITION_NEXT_NAMESPACE 5 (CHR ''2'')\<rparr>"

definition demo_terminal_proof :: TerminalPersonaRevocationProof where
  "demo_terminal_proof = \<lparr>trp_schema = TERMINAL_PERSONA_REVOCATION_PROOF_SCHEMA, trp_payload = map char_from [6],
     trp_recovery_signatures = map (demo_recovery_signature TERMINAL_PERSONA_REVOCATION_AUTHORITY_NAMESPACE 6) ''98''\<rparr>"

text \<open>The request of a ceremony that recovers the key after the routine transition, and its responses.\<close>

definition demo_request :: RecoveryCeremonyRequest where
  "demo_request = \<lparr>cq_schema = RECOVERY_TRANSITION_CEREMONY_REQUEST_SCHEMA, cq_canonicalization = CONTINUITY_CANONICALIZATION,
     cq_root_proof = demo_root_proof, cq_recovery_policies = [demo_policy_proof],
     cq_prior_transitions = [RoutineProof demo_transition_proof], cq_expected_root_statement_sha256 = demo_digest 1,
     cq_expected_latest_policy_sha256 = demo_digest 3,
     cq_expected_head = \<lparr>pc_transition_sequence = 1, pc_transition_sha256 = Some (demo_digest 2)\<rparr>,
     cq_statement = demo_recovery, cq_next_public_key = demo_key (CHR ''2'')\<rparr>"

definition demo_response :: "RecoveryCeremonyParticipantRole \<Rightarrow> char \<Rightarrow> RecoveryCeremonyResponse" where
  "demo_response role k = \<lparr>cr_schema = RECOVERY_TRANSITION_CEREMONY_RESPONSE_SCHEMA, cr_canonicalization = CONTINUITY_CANONICALIZATION,
     cr_request_sha256 = demo_digest 7, cr_participant_fingerprint = demo_print k, cr_role = role,
     cr_request_binding_signature = demo_recovery_signature RECOVERY_CEREMONY_REQUEST_BINDING_NAMESPACE 7 k,
     cr_signature = demo_recovery_signature (role_namespace role) 5 k\<rparr>"

definition demo_responses :: "RecoveryCeremonyResponse list" where
  "demo_responses = [demo_response RecoveryAuthority (CHR ''9''), demo_response NextKey (CHR ''2''),
     demo_response RecoveryAuthority (CHR ''7'')]"

text \<open>A JSON codec that knows the documents of a table; the payload of a document is one byte.\<close>

definition demo_to :: "('a \<times> byte) list \<Rightarrow> 'a \<Rightarrow> (bytes, json_error) result" where
  "demo_to table x = (case map_of table x of Some n \<Rightarrow> Ok [n] | None \<Rightarrow> Err (JsonError JsonData 0 0))"

definition demo_from :: "('a \<times> byte) list \<Rightarrow> bytes \<Rightarrow> ('a, json_error) result" where
  "demo_from table bs = (case find (\<lambda>(_, n). bs = [n]) table of Some (x, _) \<Rightarrow> Ok x | None \<Rightarrow> Err (JsonError JsonData 0 0))"

definition demo_ext :: ceremony_ext where
  "demo_ext =
     \<lparr>base64_decode = (\<lambda>s. Ok ([0, 0, 0, 1] @ as_bytes s)),
      base64_nopad_decode = (\<lambda>s. Ok (as_bytes s)), base64_nopad_encode = map char_from,
      base64url_decode = (\<lambda>s. Ok (as_bytes s)), base64url_encode = map char_from,
      sha256 = demo_sha256, key_from_openssh = (\<lambda>_. Some Ed25519), sshsig_algorithm = (\<lambda>_. Some AlgOther),
      key_verify = (\<lambda>key namespace payload signature. signature = demo_sign key namespace payload),
      keygen_metadata = Some \<lparr>is_symlink = False, is_file = True, file_mode = 0x1ED, file_owner = 0\<rparr>,
      process_env = (\<lambda>_. None), keygen_spawn = demo_run,
      root_from_json = demo_from [(demo_root, 1)], root_to_jcs = demo_to [(demo_root, 1)],
      root_proof_from_json = demo_from [],
      transition_from_json = demo_from [(demo_transition, 2)], transition_to_jcs = demo_to [(demo_transition, 2)],
      transition_proof_from_json = demo_from [],
      policy_from_json = demo_from [(demo_policy, 3), (demo_policy_update, 4)],
      policy_to_jcs = demo_to [(demo_policy, 3), (demo_policy_update, 4)],
      policy_proof_from_json = demo_from [],
      recovery_from_json = demo_from [(demo_recovery, 5)], recovery_to_jcs = demo_to [(demo_recovery, 5)],
      recovery_proof_from_json = demo_from [],
      terminal_from_json = demo_from [(demo_terminal, 6)], terminal_to_jcs = demo_to [(demo_terminal, 6)],
      terminal_proof_from_json = demo_from [],
      continuity_transition_from_json = demo_from [],
      request_to_jcs = demo_to [(demo_request, 7)], request_from_json = demo_from [(demo_request, 7)],
      response_to_jcs = demo_to (zip demo_responses [8, 9, 10]), response_from_json = demo_from (zip demo_responses [8, 9, 10])\<rparr>"

lemma demo_fields [simp]:
  "base64_decode demo_ext s = Ok ([0, 0, 0, 1] @ as_bytes s)"
  "base64_nopad_decode demo_ext s = Ok (as_bytes s)" "base64_nopad_encode demo_ext bs = map char_from bs"
  "base64url_decode demo_ext s = Ok (as_bytes s)" "base64url_encode demo_ext bs = map char_from bs"
  "sha256 demo_ext bs = demo_sha256 bs" "key_from_openssh demo_ext s = Some Ed25519"
  "sshsig_algorithm demo_ext s = Some AlgOther"
  "key_verify demo_ext s ns bs v \<longleftrightarrow> v = demo_sign s ns bs"
  "root_from_json demo_ext = demo_from [(demo_root, 1)]" "root_to_jcs demo_ext = demo_to [(demo_root, 1)]"
  "transition_from_json demo_ext = demo_from [(demo_transition, 2)]"
  "transition_to_jcs demo_ext = demo_to [(demo_transition, 2)]"
  "policy_from_json demo_ext = demo_from [(demo_policy, 3), (demo_policy_update, 4)]"
  "policy_to_jcs demo_ext = demo_to [(demo_policy, 3), (demo_policy_update, 4)]"
  "recovery_from_json demo_ext = demo_from [(demo_recovery, 5)]"
  "recovery_to_jcs demo_ext = demo_to [(demo_recovery, 5)]"
  "terminal_from_json demo_ext = demo_from [(demo_terminal, 6)]"
  "terminal_to_jcs demo_ext = demo_to [(demo_terminal, 6)]"
  "request_to_jcs demo_ext = demo_to [(demo_request, 7)]" "request_from_json demo_ext = demo_from [(demo_request, 7)]"
  by (simp_all add: demo_ext_def)

section \<open>Keys, fingerprints and signatures\<close>

lemma as_bytes_char_from [simp]: "as_bytes (map char_from bs) = bs"
  by (simp add: as_bytes_def comp_def)

lemma char_from_as_bytes [simp]: "map char_from (as_bytes s) = s"
  by (simp add: as_bytes_def comp_def)

lemma length_demo_sha256 [simp]: "length (demo_sha256 bs) = 32"
  by (simp add: demo_sha256_def)

definition demo_base :: "'z ext_scheme \<Rightarrow> bool" where
  "demo_base E \<longleftrightarrow>
     base64_decode E = (\<lambda>s. Ok ([0, 0, 0, 1] @ as_bytes s)) \<and>
     base64_nopad_encode E = map char_from \<and> sha256 E = demo_sha256 \<and>
     key_from_openssh E = (\<lambda>_. Some Ed25519) \<and> sshsig_algorithm E = (\<lambda>_. Some AlgOther) \<and>
     key_verify E = (\<lambda>key namespace payload signature. signature = demo_sign key namespace payload) \<and>
     keygen_metadata E = Some \<lparr>is_symlink = False, is_file = True, file_mode = 0x1ED, file_owner = 0\<rparr> \<and>
     process_env E = (\<lambda>_. None) \<and> keygen_spawn E = demo_run"

lemma demo_ext_base: "demo_base demo_ext"
  by (simp add: demo_base_def demo_ext_def)

lemma base_key:
  assumes E: "demo_base E" and k: "k \<in> set ''012789''"
  shows "normalize_public_key E (demo_key k) = Ok (demo_key k)"
    and "public_key_fingerprint E (demo_key k) = Ok (demo_print k)"
proof -
  have split: "split_whitespace (demo_key k) = [''a'', ''a'' @ [k]]"
    using k
    by (auto simp: demo_key_def split_whitespace_def words_of.simps utf8_len_def utf8_point_def white_def
        is_whitespace_def Let_def)
  have len: "u32_from_be_bytes 0 0 0 1 = 1" by (simp add: u32_from_be_bytes_def)
  have "normalize_public_key E (demo_key k) = Ok (''a'' @ '' '' @ ''a'' @ [k])"
    using E split len by (simp add: demo_base_def normalize_public_key_def MAX_PUBLIC_KEY_BYTES_def demo_key_def as_bytes_def
        usize_checked_add_def slice_get_def)
  then show norm: "normalize_public_key E (demo_key k) = Ok (demo_key k)" by (simp add: demo_key_def)
  then show "public_key_fingerprint E (demo_key k) = Ok (demo_print k)"
    using E split by (simp add: demo_base_def public_key_fingerprint_def demo_print_def as_bytes_def)
qed

lemma base_verify:
  "demo_base E \<Longrightarrow> sshsig_verify E payload (demo_sign key namespace payload) key namespace = Ok ()"
  by (simp add: demo_base_def sshsig_verify_def require_supported_sshsig_key_def is_rsa_def)

lemmas demo_key_normal [simp] = base_key [OF demo_ext_base]

lemma demo_print_valid [simp]: "validate_key_fingerprint demo_ext (demo_print k) = Ok ()"
  by (simp add: validate_key_fingerprint_def demo_print_def strip_prefix_def)

lemma demo_sha256_short: "length bs \<le> 32 \<Longrightarrow> demo_sha256 bs = bs @ replicate (32 - length bs) 0"
  by (simp add: demo_sha256_def)

lemma demo_print_text: "demo_print k =
    ''SHA256:'' @ map char_from [0, 0, 0, 1, of_char (CHR ''a'')] @ k # map char_from (replicate 26 0)"
  by (simp add: demo_print_def demo_sha256_short)

lemma append_less: "(a @ x # b < a @ y # b) \<longleftrightarrow> x < y" for x y :: "'a::linorder"
  by (induction a) auto

lemma demo_print_eq [simp]: "demo_print k = demo_print j \<longleftrightarrow> k = j"
  unfolding demo_print_text by simp

lemma demo_print_less [simp]: "demo_print k < demo_print j \<longleftrightarrow> k < j" "demo_print k \<le> demo_print j \<longleftrightarrow> k \<le> j"
proof -
  show "demo_print k < demo_print j \<longleftrightarrow> k < j" for k j
    unfolding demo_print_text append_assoc [symmetric] by (rule append_less)
  then show "demo_print k \<le> demo_print j \<longleftrightarrow> k \<le> j" by (simp add: le_less)
qed

lemma hex_digest_lower: "lowercase_hex_64 (hex_encode (demo_sha256 bs))"
  using hex_encode_lower by (auto simp: lowercase_hex_64_def list_all_iff)

lemma demo_digest_hex [simp]: "lowercase_hex_64 (demo_digest n)"
  unfolding demo_digest_def by (rule hex_digest_lower)

lemma demo_sha256_hex [simp]: "sha256_hex demo_ext [n] = demo_digest n"
  by (simp add: sha256_hex_def demo_digest_def)

lemma demo_verify [simp]:
  "sshsig_verify demo_ext payload (demo_sign key namespace payload) key namespace = Ok ()"
  by (rule base_verify [OF demo_ext_base])

lemma demo_persona [simp]: "validate_canonical_persona ''p'' = Ok ''p''"
proof -
  have "str_trim ''p'' = ''p''" "\<not> contains_unsafe_display_characters ''p''"
    by (simp_all add: str_trim_def utf8_len_def utf8_point_def white_def is_whitespace_def Let_def
        contains_unsafe_display_characters_def is_unsafe_display_character_def is_control_def
        is_unicode_17_default_ignorable_def)
  then show ?thesis by (simp add: validate_canonical_persona_def validate_persona_def MAX_PERSONA_BYTES_def)
qed

lemma demo_anchor_valid [simp]: "validate_persona_anchor demo_ext demo_anchor = Ok ()"
  by (simp add: validate_persona_anchor_def PERSONA_ANCHOR_BYTES_def demo_anchor_def)

section \<open>A history with a transition, a recovery and a terminal revocation\<close>

lemma length_demo_sign [simp]: "length (demo_sign key namespace payload) = 1 + length namespace + 2 * length payload"
  by (simp add: demo_sign_def)

lemma demo_sign_nonempty [simp]: "demo_sign key namespace payload \<noteq> []"
  by (simp add: demo_sign_def)

lemma demo_payload [simp]: "decode_continuity_payload demo_ext [char_from n] = Ok [n]"
  by (simp add: decode_continuity_payload_def decode_payload_def validate_payload_bound_def
      MAX_CONTINUITY_PAYLOAD_BYTES_def MAX_PROOF_BYTES_def as_bytes_def)

lemma demo_root_valid [simp]: "validate_persona_root_statement demo_ext demo_root = Ok ()"
  by (simp add: validate_persona_root_statement_def demo_root_def validate_jcs_time_def MAX_JCS_SAFE_INTEGER_def)

lemma demo_transition_valid [simp]: "validate_persona_transition_statement demo_ext demo_transition = Ok ()"
  by (simp add: validate_persona_transition_statement_def demo_transition_def validate_jcs_time_def MAX_JCS_SAFE_INTEGER_def
      validate_sha256_def)

lemma demo_policy_valid [simp]:
  "validate_recovery_policy_statement demo_ext demo_policy = Ok ()"
  "validate_recovery_policy_statement demo_ext demo_policy_update = Ok ()"
  by (simp_all add: validate_recovery_policy_statement_def demo_policy_def demo_policy_update_def validate_jcs_time_def
      MAX_JCS_SAFE_INTEGER_def validate_sha256_def validate_recovery_checkpoint_def i64_checked_sub_def i64_min_def i64_max_def
      MAX_RECOVERY_POLICY_VALIDITY_SECONDS_def MIN_RECOVERY_AUTHORITIES_def MAX_RECOVERY_AUTHORITIES_def
      fingerprint_order_step_def MAX_CONTINUITY_TRANSITIONS_def RECOVERY_POLICY_STATEMENT_SCHEMA_def
      RECOVERY_POLICY_STATEMENT_SCHEMA_V2_def less_eq_RecoveryPolicyCapability_def)

lemma demo_recovery_valid [simp]: "validate_recovery_transition_statement demo_ext demo_recovery = Ok ()"
  by (simp add: validate_recovery_transition_statement_def demo_recovery_def validate_jcs_time_def MAX_JCS_SAFE_INTEGER_def
      validate_sha256_def RECOVERY_TRANSITION_STATEMENT_SCHEMA_V2_def RECOVERY_TRANSITION_STATEMENT_SCHEMA_def
      validate_recovery_ceremony_id_def RECOVERY_CEREMONY_ID_BYTES_def demo_anchor_def i64_checked_sub_def i64_min_def i64_max_def
      MAX_RECOVERY_CEREMONY_VALIDITY_SECONDS_def demo_anchor_valid [unfolded demo_anchor_def])

lemma demo_terminal_valid [simp]: "validate_terminal_persona_revocation_statement demo_ext demo_terminal = Ok ()"
  by (simp add: validate_terminal_persona_revocation_statement_def demo_terminal_def validate_jcs_time_def
      MAX_JCS_SAFE_INTEGER_def validate_sha256_def MAX_TERMINAL_PERSONA_REVOCATION_SEQUENCE_def)

lemma demo_codec [simp]:
  "demo_from [(x, n)] [n] = Ok x" "demo_to [(x, n)] x = Ok [n]"
  by (simp_all add: demo_from_def demo_to_def)

lemma demo_policies_differ [simp]: "demo_policy \<noteq> demo_policy_update" "demo_policy_update \<noteq> demo_policy"
  by (simp_all add: demo_policy_def demo_policy_update_def)

lemma demo_policy_codec [simp]:
  "demo_from [(demo_policy, 3), (demo_policy_update, 4)] [3] = Ok demo_policy"
  "demo_from [(demo_policy, 3), (demo_policy_update, 4)] [4] = Ok demo_policy_update"
  "demo_to [(demo_policy, 3), (demo_policy_update, 4)] demo_policy = Ok [3]"
  "demo_to [(demo_policy, 3), (demo_policy_update, 4)] demo_policy_update = Ok [4]"
  by (simp_all add: demo_from_def demo_to_def)

definition demo_verified_root :: VerifiedPersonaRoot where
  "demo_verified_root = \<lparr>vr_statement = demo_root, vr_root_statement_sha256 = demo_digest 1,
     vr_initial_public_key = demo_key (CHR ''0'')\<rparr>"

definition demo_verified_transition :: VerifiedPersonaTransition where
  "demo_verified_transition = \<lparr>vt_statement = demo_transition, vt_transition_statement_sha256 = demo_digest 2,
     vt_previous_public_key = demo_key (CHR ''0''), vt_next_public_key = demo_key (CHR ''1'')\<rparr>"

definition demo_verified_policy :: VerifiedRecoveryPolicy where
  "demo_verified_policy = \<lparr>vp_statement = demo_policy, vp_policy_statement_sha256 = demo_digest 3,
     vp_previous_authorization_fingerprints = [], vp_current_authorization_fingerprints = map demo_print ''789''\<rparr>"

definition demo_verified_update :: VerifiedRecoveryPolicy where
  "demo_verified_update = \<lparr>vp_statement = demo_policy_update, vp_policy_statement_sha256 = demo_digest 4,
     vp_previous_authorization_fingerprints = map demo_print ''79'',
     vp_current_authorization_fingerprints = map demo_print ''89''\<rparr>"

definition demo_verified_recovery :: VerifiedRecoveryTransition where
  "demo_verified_recovery = \<lparr>vrt_statement = demo_recovery, vrt_transition_statement_sha256 = demo_digest 5,
     vrt_recovery_signer_fingerprints = map demo_print ''79'', vrt_next_public_key = demo_key (CHR ''2'')\<rparr>"

definition demo_verified_terminal :: VerifiedTerminalPersonaRevocation where
  "demo_verified_terminal = \<lparr>vtr_statement = demo_terminal, vtr_revocation_statement_sha256 = demo_digest 6,
     vtr_recovery_signer_fingerprints = map demo_print ''89''\<rparr>"

lemma demo_signature_valid [simp]:
  assumes "k \<in> set ''012789''"
    and "namespace = (if role = RootRole then PERSONA_ROOT_NAMESPACE else PERSONA_TRANSITION_NAMESPACE)"
  shows "validate_signature demo_ext (demo_signature role namespace k n) role namespace = Ok (demo_key k)"
  using assms
  by (cases role) (simp_all add: validate_signature_def demo_signature_def new_signature_def MAX_CONTINUITY_SIGNATURE_BYTES_def
      PERSONA_ROOT_NAMESPACE_def PERSONA_TRANSITION_NAMESPACE_def del: list.set)

lemma demo_signature_fields [simp]:
  "sig_role (demo_signature role namespace k n) = role"
  "sig_value (demo_signature role namespace k n) = demo_sign (demo_key k) namespace [n]"
  by (simp_all add: demo_signature_def new_signature_def)

lemma demo_recovery_signature_valid:
  assumes "k \<in> set ''012789''" and "length namespace \<le> 100"
  shows "validate_recovery_signature demo_ext (demo_recovery_signature namespace n k) namespace = Ok (demo_key k)"
  using assms
  by (simp add: validate_recovery_signature_def demo_recovery_signature_def new_recovery_signature_def
      MAX_CONTINUITY_SIGNATURE_BYTES_def del: list.set)

lemma demo_recovery_signature_value [simp]:
  "rsig_value (demo_recovery_signature namespace n k) = demo_sign (demo_key k) namespace [n]"
  by (simp add: demo_recovery_signature_def new_recovery_signature_def)

lemma demo_root_verifies: "verify_persona_root_proof demo_ext demo_root_proof = Ok demo_verified_root"
  by (simp add: verify_persona_root_proof_def preflight_persona_root_proof_def demo_root_proof_def require_proof_schema_def
      parse_bounded_json_def MAX_CONTINUITY_PAYLOAD_BYTES_def canonical_persona_root_statement_bytes_def validate_payload_bound_def
      require_fingerprint_def demo_verified_root_def) (simp add: demo_root_def)

lemma demo_transition_verifies: "verify_persona_transition_proof demo_ext demo_transition_proof = Ok demo_verified_transition"
  by (simp add: verify_persona_transition_proof_def verify_persona_transition_proof_with_receipt_def
      preflight_persona_transition_proof_def demo_transition_proof_def require_proof_schema_def assign_transition_role_def
      parse_bounded_json_def MAX_CONTINUITY_PAYLOAD_BYTES_def canonical_persona_transition_statement_bytes_def
      validate_payload_bound_def require_fingerprint_def demo_verified_transition_def) (simp add: demo_transition_def)

lemma demo_quorum:
  assumes "distinct ks" "set ks \<subseteq> set ''789''" "2 \<le> length ks" "length namespace \<le> 100"
    and "distinct allowed" "set (map demo_print ks) \<subseteq> set allowed" "minimum \<le> length ks" "length ks \<le> length allowed"
    and "require_all \<longrightarrow> set (map demo_print ks) = set allowed" "fs = sort (map demo_print ks)"
  shows "verify_authority_signatures demo_ext [n] (map (demo_recovery_signature namespace n) ks) allowed minimum
    require_all namespace = Ok fs"
proof -
  have "card (set ks) \<le> card (set ''789'')" using assms(2) by (intro card_mono) auto
  then have len: "length ks \<le> 32" using distinct_card [OF assms(1)] by simp
  have signed: "authority_signed demo_ext [n] namespace (demo_recovery_signature namespace n k) (demo_print k)"
    if "k \<in> set ks" for k
  proof -
    have "k \<in> set ''012789''" using that assms(2) by auto
    from demo_recovery_signature_valid [OF this assms(4), of n] demo_key_normal(2) [OF this] show ?thesis
      by (auto simp: authority_signed_def simp del: demo_key_normal)
  qed
  have "list_all2 (authority_signed demo_ext [n] namespace) (map (demo_recovery_signature namespace n) ks) (map demo_print ks)"
    using signed by (auto simp: list_all2_conv_all_nth)
  moreover have "distinct (map demo_print ks)" using assms(1) by (simp add: distinct_map inj_on_def)
  ultimately show ?thesis
    unfolding verify_authority_signatures_iff [OF assms(5)] authority_quorum_def
    using assms len by (intro conjI exI [of _ "map demo_print ks"]) auto
qed

lemma demo_preflight:
  assumes "verify_authority_signatures E payload signatures allowed minimum require_all namespace = Ok fs"
  obtains x where "preflight_authority_signatures E signatures allowed minimum require_all namespace = Ok x"
    and "preflight_unbound_signature_set E signatures namespace = Ok x"
  using assms by (auto simp: verify_authority_signatures_def preflight_authority_signatures_def Let_def)

lemmas demo_namespaces = RECOVERY_POLICY_ENROLLMENT_NAMESPACE_def RECOVERY_POLICY_UPDATE_PREVIOUS_NAMESPACE_def
  RECOVERY_POLICY_UPDATE_CURRENT_NAMESPACE_def RECOVERY_TRANSITION_AUTHORITY_NAMESPACE_def
  RECOVERY_TRANSITION_NEXT_NAMESPACE_def TERMINAL_PERSONA_REVOCATION_AUTHORITY_NAMESPACE_def

lemma demo_canonical [simp]:
  "canonical_recovery_policy_statement_bytes demo_ext demo_policy = Ok [3]"
  "canonical_recovery_policy_statement_bytes demo_ext demo_policy_update = Ok [4]"
  "canonical_recovery_transition_statement_bytes demo_ext demo_recovery = Ok [5]"
  "canonical_terminal_persona_revocation_statement_bytes demo_ext demo_terminal = Ok [6]"
  by (simp_all add: canonical_policy_Ok_iff canonical_recovery_Ok_iff canonical_terminal_Ok_iff
      MAX_CONTINUITY_PAYLOAD_BYTES_def)

lemma demo_policy_quorums:
  "verify_authority_signatures demo_ext [3] (map (demo_recovery_signature RECOVERY_POLICY_ENROLLMENT_NAMESPACE 3) ''798'')
     (ps_recovery_key_fingerprints demo_policy) 3 True RECOVERY_POLICY_ENROLLMENT_NAMESPACE = Ok (map demo_print ''789'')"
  "verify_authority_signatures demo_ext [4] (map (demo_recovery_signature RECOVERY_POLICY_UPDATE_PREVIOUS_NAMESPACE 4) ''79'')
     (ps_recovery_key_fingerprints demo_policy) 2 False RECOVERY_POLICY_UPDATE_PREVIOUS_NAMESPACE = Ok (map demo_print ''79'')"
  "verify_authority_signatures demo_ext [4] (map (demo_recovery_signature RECOVERY_POLICY_UPDATE_CURRENT_NAMESPACE 4) ''98'')
     (ps_recovery_key_fingerprints demo_policy_update) 2 False RECOVERY_POLICY_UPDATE_CURRENT_NAMESPACE = Ok (map demo_print ''89'')"
  "verify_authority_signatures demo_ext [5] (map (demo_recovery_signature RECOVERY_TRANSITION_AUTHORITY_NAMESPACE 5) ''97'')
     (ps_recovery_key_fingerprints demo_policy) 2 False RECOVERY_TRANSITION_AUTHORITY_NAMESPACE = Ok (map demo_print ''79'')"
  "verify_authority_signatures demo_ext [6] (map (demo_recovery_signature TERMINAL_PERSONA_REVOCATION_AUTHORITY_NAMESPACE 6) ''98'')
     (ps_recovery_key_fingerprints demo_policy_update) 2 False TERMINAL_PERSONA_REVOCATION_AUTHORITY_NAMESPACE = Ok (map demo_print ''89'')"
  by (rule demo_quorum; auto simp: demo_policy_def demo_policy_update_def demo_namespaces)+

lemma demo_policy_verifies:
  "verify_recovery_policy_proof demo_ext demo_verified_root None demo_policy_proof = Ok demo_verified_policy"
proof -
  obtain x where "preflight_authority_signatures demo_ext
      (map (demo_recovery_signature RECOVERY_POLICY_ENROLLMENT_NAMESPACE 3) ''798'')
      (ps_recovery_key_fingerprints demo_policy) 3 True RECOVERY_POLICY_ENROLLMENT_NAMESPACE = Ok x"
    using demo_policy_quorums(1) by (rule demo_preflight)
  moreover have "ps_policy_version demo_policy = 1" "ps_previous_policy_sha256 demo_policy = None"
    "length (ps_recovery_key_fingerprints demo_policy) = 3" by (simp_all add: demo_policy_def)
  moreover have "validate_policy_root_binding demo_verified_root demo_policy = Ok ()"
    by (simp add: validate_policy_root_binding_def demo_verified_root_def demo_policy_def demo_root_def)
  ultimately show ?thesis using demo_policy_quorums(1)
    by (simp add: verify_recovery_policy_proof_def preflight_recovery_policy_proof_def demo_policy_proof_def
        require_proof_schema_def parse_bounded_json_def MAX_CONTINUITY_PAYLOAD_BYTES_def demo_verified_policy_def)
qed

lemma demo_update_verifies:
  "verify_recovery_policy_proof demo_ext demo_verified_root (Some demo_verified_policy) demo_update_proof = Ok demo_verified_update"
proof -
  obtain x where "preflight_authority_signatures demo_ext
      (map (demo_recovery_signature RECOVERY_POLICY_UPDATE_CURRENT_NAMESPACE 4) ''98'')
      (ps_recovery_key_fingerprints demo_policy_update) 2 False RECOVERY_POLICY_UPDATE_CURRENT_NAMESPACE = Ok x"
    using demo_policy_quorums(3) by (rule demo_preflight)
  moreover obtain y where "preflight_unbound_signature_set demo_ext
      (map (demo_recovery_signature RECOVERY_POLICY_UPDATE_PREVIOUS_NAMESPACE 4) ''79'')
      RECOVERY_POLICY_UPDATE_PREVIOUS_NAMESPACE = Ok y"
    using demo_policy_quorums(2) by (rule demo_preflight)
  moreover have "ps_policy_version demo_policy_update = 2" "ps_previous_policy_sha256 demo_policy_update = Some (demo_digest 3)"
    "ps_threshold demo_policy_update = 2" "ps_threshold demo_policy = 2"
    by (simp_all add: demo_policy_update_def demo_policy_def)
  moreover have "validate_policy_root_binding demo_verified_root demo_policy_update = Ok ()"
    by (simp add: validate_policy_root_binding_def demo_verified_root_def demo_policy_update_def demo_policy_def demo_root_def)
  moreover have "validate_policy_successor demo_ext demo_verified_policy demo_policy_update = Ok ()"
    by (simp add: validate_policy_successor_def demo_verified_policy_def)
      (simp add: demo_policy_def demo_policy_update_def checked_add_def Let_def)
  moreover have "vp_statement demo_verified_policy = demo_policy" "\<not> (2 :: u32) \<le> 1"
    by (simp_all add: demo_verified_policy_def word_le_nat_alt)
  ultimately show ?thesis using demo_policy_quorums(2,3)
    by (simp add: verify_recovery_policy_proof_def preflight_recovery_policy_proof_def demo_update_proof_def
        require_proof_schema_def parse_bounded_json_def MAX_CONTINUITY_PAYLOAD_BYTES_def demo_verified_update_def)
qed

lemma demo_policies_verify:
  "verified_recovery_policy_sequence demo_ext demo_root_proof [demo_policy_proof] (demo_digest 1) (demo_digest 3)
     = Ok \<lparr>vps_root = demo_verified_root, vps_policies = [demo_verified_policy]\<rparr>"
  "verified_recovery_policy_sequence demo_ext demo_root_proof [demo_policy_proof, demo_update_proof] (demo_digest 1) (demo_digest 4)
     = Ok \<lparr>vps_root = demo_verified_root, vps_policies = [demo_verified_policy, demo_verified_update]\<rparr>"
proof -
  have "vr_root_statement_sha256 demo_verified_root = demo_digest 1"
    "vp_policy_statement_sha256 demo_verified_policy = demo_digest 3"
    "vp_policy_statement_sha256 demo_verified_update = demo_digest 4"
    by (simp_all add: demo_verified_root_def demo_verified_policy_def demo_verified_update_def)
  then show "verified_recovery_policy_sequence demo_ext demo_root_proof [demo_policy_proof] (demo_digest 1) (demo_digest 3)
     = Ok \<lparr>vps_root = demo_verified_root, vps_policies = [demo_verified_policy]\<rparr>"
    and "verified_recovery_policy_sequence demo_ext demo_root_proof [demo_policy_proof, demo_update_proof] (demo_digest 1) (demo_digest 4)
     = Ok \<lparr>vps_root = demo_verified_root, vps_policies = [demo_verified_policy, demo_verified_update]\<rparr>"
    by (simp_all add: verified_recovery_policy_sequence_def validate_sha256_def demo_root_verifies
        verify_recovery_policy_proof_sequence_def MAX_RECOVERY_POLICY_VERSIONS_def policy_sequence_step_def list_last_def
        demo_policy_verifies demo_update_verifies)
qed

lemma demo_recovery_verifies:
  "verify_recovery_transition_proof demo_ext demo_verified_root demo_verified_policy demo_recovery_proof = Ok demo_verified_recovery"
  "decode_recovery_transition_proof demo_ext demo_recovery_proof = Ok ([5], demo_recovery)"
proof -
  show dec: "decode_recovery_transition_proof demo_ext demo_recovery_proof = Ok ([5], demo_recovery)"
    by (simp add: decode_recovery_Ok_iff demo_recovery_proof_def)
  obtain x where "preflight_unbound_signature_set demo_ext
      (map (demo_recovery_signature RECOVERY_TRANSITION_AUTHORITY_NAMESPACE 5) ''97'') RECOVERY_TRANSITION_AUTHORITY_NAMESPACE = Ok x"
    using demo_policy_quorums(4) by (rule demo_preflight)
  moreover have "validate_recovery_signature demo_ext (demo_recovery_signature RECOVERY_TRANSITION_NEXT_NAMESPACE 5 (CHR ''2''))
      RECOVERY_TRANSITION_NEXT_NAMESPACE = Ok (demo_key (CHR ''2''))"
    by (rule demo_recovery_signature_valid) (simp_all add: demo_namespaces)
  moreover have "recovery_allowed demo_verified_policy demo_recovery"
    by (simp add: recovery_allowed_def demo_verified_policy_def demo_recovery_def demo_policy_def effective_capabilities_def
        RECOVERY_POLICY_STATEMENT_SCHEMA_def RECOVERY_POLICY_STATEMENT_SCHEMA_V2_def)
  then have "validate_recovery_transition_policy_binding demo_verified_policy demo_recovery = Ok ()"
    using recovery_policy_binding_iff [of demo_ext demo_verified_policy demo_recovery]
    by (simp add: demo_verified_policy_def)
  moreover from this have "validate_recovery_transition_binding demo_ext demo_verified_root demo_verified_policy demo_recovery = Ok ()"
    by (simp add: validate_recovery_transition_binding_def)
      (simp add: validate_policy_root_binding_def demo_verified_root_def demo_verified_policy_def demo_recovery_def demo_policy_def demo_root_def)
  moreover have "vp_statement demo_verified_policy = demo_policy" "unat (ps_threshold demo_policy) = 2"
    "rts_next_key_fingerprint demo_recovery = demo_print (CHR ''2'')"
    by (simp_all add: demo_verified_policy_def demo_policy_def demo_recovery_def)
  ultimately show "verify_recovery_transition_proof demo_ext demo_verified_root demo_verified_policy demo_recovery_proof
      = Ok demo_verified_recovery"
    using dec demo_policy_quorums(4)
    by (simp add: verify_recovery_transition_proof_def verify_recovery_transition_proof_with_receipt_def
        preflight_recovery_transition_proof_def require_fingerprint_def demo_verified_recovery_def)
      (simp add: demo_recovery_proof_def require_fingerprint_def)
qed

lemma demo_terminal_verifies:
  "verify_terminal_persona_revocation_proof demo_ext demo_verified_root demo_verified_update demo_terminal_proof = Ok demo_verified_terminal"
  "decode_terminal_persona_revocation_proof demo_ext demo_terminal_proof = Ok ([6], demo_terminal)"
proof -
  show dec: "decode_terminal_persona_revocation_proof demo_ext demo_terminal_proof = Ok ([6], demo_terminal)"
    by (simp add: decode_terminal_Ok_iff demo_terminal_proof_def)
  obtain x where "preflight_unbound_signature_set demo_ext
      (map (demo_recovery_signature TERMINAL_PERSONA_REVOCATION_AUTHORITY_NAMESPACE 6) ''98'')
      TERMINAL_PERSONA_REVOCATION_AUTHORITY_NAMESPACE = Ok x"
    using demo_policy_quorums(5) by (rule demo_preflight)
  moreover have "terminal_allowed demo_verified_update demo_terminal"
    by (simp add: terminal_allowed_def demo_verified_update_def demo_terminal_def demo_policy_update_def demo_policy_def
        effective_capabilities_def RECOVERY_POLICY_STATEMENT_SCHEMA_def RECOVERY_POLICY_STATEMENT_SCHEMA_V2_def)
  then have "validate_terminal_persona_revocation_policy_binding demo_verified_update demo_terminal = Ok ()"
    using terminal_policy_binding_iff [of demo_ext demo_verified_update demo_terminal]
    by (simp add: demo_verified_update_def)
  moreover from this have "validate_terminal_persona_revocation_binding demo_ext demo_verified_root demo_verified_update demo_terminal = Ok ()"
    by (simp add: validate_terminal_persona_revocation_binding_def)
      (simp add: validate_policy_root_binding_def demo_verified_root_def demo_verified_update_def demo_terminal_def
        demo_policy_update_def demo_policy_def demo_root_def)
  moreover have "vp_statement demo_verified_update = demo_policy_update" "unat (ps_threshold demo_policy_update) = 2"
    by (simp_all add: demo_verified_update_def demo_policy_update_def demo_policy_def)
  ultimately show "verify_terminal_persona_revocation_proof demo_ext demo_verified_root demo_verified_update demo_terminal_proof
      = Ok demo_verified_terminal"
    using dec demo_policy_quorums(5)
    by (simp add: verify_terminal_persona_revocation_proof_def verify_terminal_persona_revocation_proof_with_receipt_def
        preflight_terminal_persona_revocation_proof_def demo_verified_terminal_def)
      (simp add: demo_terminal_proof_def)
qed

definition demo_entries :: "PersonaContinuityTransitionProof list" where
  "demo_entries = [RoutineProof demo_transition_proof, RecoveryProof demo_recovery_proof, TerminalProof demo_terminal_proof]"

definition demo_verified :: "VerifiedPersonaContinuityTransition list" where
  "demo_verified = [VerifiedRoutine demo_verified_transition, VerifiedRecovery demo_verified_recovery,
     VerifiedTerminal demo_verified_terminal]"

definition demo_verify :: "nat \<Rightarrow> nat \<Rightarrow> VerifiedRecoveryAwareContinuityChain res" where
  "demo_verify n m = verify_persona_continuity_chain_with_recovery_with_verified_sequence demo_ext demo_root_proof
     (take n demo_entries) (take m [demo_policy_proof, demo_update_proof]) (demo_digest 1) (demo_digest (of_nat m + 2)) 500"

definition demo_chain :: "nat \<Rightarrow> nat \<Rightarrow> VerifiedRecoveryAwareContinuityChain" where
  "demo_chain n m = ok_value (demo_verify n m)"

lemmas demo_verified_defs = demo_verified_root_def demo_verified_transition_def demo_verified_recovery_def
  demo_verified_terminal_def demo_verified_policy_def demo_verified_update_def

lemmas demo_statement_defs = demo_root_def demo_transition_def demo_recovery_def demo_terminal_def demo_policy_def
  demo_policy_update_def

lemma demo_entry_views:
  "verify_entry demo_ext demo_verified_root policies (RoutineProof demo_transition_proof) = Ok (routine_view demo_verified_transition)"
  "verify_entry demo_ext demo_verified_root [demo_verified_policy] (RecoveryProof demo_recovery_proof)
     = Ok (recovery_view demo_verified_recovery)"
  "verify_entry demo_ext demo_verified_root [demo_verified_policy, demo_verified_update] (RecoveryProof demo_recovery_proof)
     = Ok (recovery_view demo_verified_recovery)"
  "verify_entry demo_ext demo_verified_root [demo_verified_policy, demo_verified_update] (TerminalProof demo_terminal_proof)
     = Ok (terminal_view demo_verified_terminal)"
proof -
  have "recovery_policy_for_transition [demo_verified_policy] demo_recovery = Ok demo_verified_policy"
    "recovery_policy_for_transition [demo_verified_policy, demo_verified_update] demo_recovery = Ok demo_verified_policy"
    by (simp_all add: recovery_policy_for_transition_def demo_verified_defs demo_statement_defs Let_def word_le_nat_alt)
  then show "verify_entry demo_ext demo_verified_root [demo_verified_policy] (RecoveryProof demo_recovery_proof)
     = Ok (recovery_view demo_verified_recovery)"
    "verify_entry demo_ext demo_verified_root [demo_verified_policy, demo_verified_update] (RecoveryProof demo_recovery_proof)
     = Ok (recovery_view demo_verified_recovery)"
    by (simp_all add: verify_entry_def demo_recovery_verifies)
  have "trs_recovery_policy_sha256 demo_terminal = vp_policy_statement_sha256 demo_verified_update"
    "trs_recovery_policy_version demo_terminal = ps_policy_version (vp_statement demo_verified_update)"
    "\<not> trs_sequence demo_terminal \<le> cp_transition_sequence (ps_continuity_checkpoint (vp_statement demo_verified_update))"
    by (simp_all add: demo_verified_defs demo_statement_defs word_le_nat_alt)
  then show "verify_entry demo_ext demo_verified_root [demo_verified_policy, demo_verified_update] (TerminalProof demo_terminal_proof)
     = Ok (terminal_view demo_verified_terminal)"
    by (simp add: verify_entry_def demo_terminal_verifies Let_def)
qed (simp add: verify_entry_def demo_transition_verifies)

lemma demo_events:
  "event_of (VerifiedRoutine demo_verified_transition) = \<lparr>ev_change = Rotated, ev_sequence = 1, ev_link = None,
     ev_from = demo_print (CHR ''0''), ev_to = Online (demo_print (CHR ''1'')), ev_time = 200, ev_digest = demo_digest 2\<rparr>"
  "event_of (VerifiedRecovery demo_verified_recovery) = \<lparr>ev_change = Recovered 1, ev_sequence = 2, ev_link = Some (demo_digest 2),
     ev_from = demo_print (CHR ''1''), ev_to = Online (demo_print (CHR ''2'')), ev_time = 300, ev_digest = demo_digest 5\<rparr>"
  "event_of (VerifiedTerminal demo_verified_terminal) = \<lparr>ev_change = Revoked 2, ev_sequence = 3, ev_link = Some (demo_digest 5),
     ev_from = demo_print (CHR ''2''), ev_to = Ended, ev_time = 400, ev_digest = demo_digest 6\<rparr>"
  "root_head demo_verified_root = \<lparr>head_sequence = 0, head_link = None, head_authority = Online (demo_print (CHR ''0'')),
     head_time = 100\<rparr>"
  by (simp_all add: event_of_def entry_event_def entry_change_def view_of_def routine_view_def recovery_view_def
      terminal_view_def root_head_def genesis_def demo_verified_defs demo_statement_defs)

lemma demo_bound:
  "entry_bound demo_verified_root (routine_view demo_verified_transition)"
  "entry_bound demo_verified_root (recovery_view demo_verified_recovery)"
  "entry_bound demo_verified_root (terminal_view demo_verified_terminal)"
  by (simp_all add: entry_bound_def routine_view_def recovery_view_def terminal_view_def demo_verified_defs demo_statement_defs)

lemma demo_fits:
  "policies_fit demo_verified_root (take 0 demo_verified) [demo_verified_policy]"
  "policies_fit demo_verified_root (take 1 demo_verified) [demo_verified_policy]"
  "policies_fit demo_verified_root (take 2 demo_verified) [demo_verified_policy]"
  "policies_fit demo_verified_root (take 2 demo_verified) [demo_verified_policy, demo_verified_update]"
  "policies_fit demo_verified_root (take 3 demo_verified) [demo_verified_policy, demo_verified_update]"
  by (auto simp: policies_fit_def checkpoint_holds_def online_keys_def next_keys_def demo_verified_def view_of_def
      routine_view_def recovery_view_def terminal_view_def demo_verified_defs demo_statement_defs)

fun demo_head :: "nat \<Rightarrow> head" where
  "demo_head 0 = root_head demo_verified_root"
| "demo_head (Suc n) = head_after (event_of (demo_verified ! n))"

lemma demo_histories:
  "recovery_history demo_ext demo_verified_root [demo_verified_policy] (take 0 demo_entries) (take 0 demo_verified) (demo_head 0)"
  "recovery_history demo_ext demo_verified_root [demo_verified_policy] (take 1 demo_entries) (take 1 demo_verified) (demo_head 1)"
  "recovery_history demo_ext demo_verified_root [demo_verified_policy] (take 2 demo_entries) (take 2 demo_verified) (demo_head 2)"
  "recovery_history demo_ext demo_verified_root [demo_verified_policy, demo_verified_update] (take 2 demo_entries)
     (take 2 demo_verified) (demo_head 2)"
  "recovery_history demo_ext demo_verified_root [demo_verified_policy, demo_verified_update] (take 3 demo_entries)
     (take 3 demo_verified) (demo_head 3)"
  by (simp_all add: recovery_history_def demo_entries_def demo_verified_def view_of_def demo_entry_views demo_bound
      history_Cons advances_iff demo_events head_after_def ends_history_def eval_nat_numeral)

lemma demo_verifies_from:
  assumes "recovery_history demo_ext demo_verified_root policies (take n demo_entries) (take n demo_verified) (demo_head n)"
    and "policies_fit demo_verified_root (take n demo_verified) policies"
    and "verified_recovery_policy_sequence demo_ext demo_root_proof (take m [demo_policy_proof, demo_update_proof])
      (demo_digest 1) (demo_digest (of_nat m + 2)) = Ok \<lparr>vps_root = demo_verified_root, vps_policies = policies\<rparr>"
  shows "demo_verify n m = Ok (demo_chain n m)" "vrc_root (demo_chain n m) = demo_verified_root"
    "vrc_policies (demo_chain n m) = policies" "vrc_transitions (demo_chain n m) = take n demo_verified"
    "recovery_chain_head (demo_chain n m) = demo_head n"
proof -
  have "length (take n demo_entries) \<le> entry_limit (take n demo_entries)"
    by (cases "n \<le> 3") (simp_all add: demo_entries_def entry_limit_def min_def)
  moreover have "validate_jcs_time ContinuityCheckTime 500 = Ok ()" by (simp add: validate_jcs_time_def MAX_JCS_SAFE_INTEGER_def)
  ultimately have "\<exists>c. demo_verify n m = Ok c \<and> vrc_root c = demo_verified_root \<and> vrc_policies c = policies \<and>
      vrc_transitions c = take n demo_verified \<and> recovery_chain_head c = demo_head n"
    unfolding demo_verify_def recovery_chain_refines_history using assms by blast
  then show "demo_verify n m = Ok (demo_chain n m)" "vrc_root (demo_chain n m) = demo_verified_root"
    "vrc_policies (demo_chain n m) = policies" "vrc_transitions (demo_chain n m) = take n demo_verified"
    "recovery_chain_head (demo_chain n m) = demo_head n" by (auto simp: demo_chain_def)
qed

lemma demo_policy_sequences:
  "verified_recovery_policy_sequence demo_ext demo_root_proof (take 1 [demo_policy_proof, demo_update_proof])
      (demo_digest 1) (demo_digest (of_nat 1 + 2)) = Ok \<lparr>vps_root = demo_verified_root, vps_policies = [demo_verified_policy]\<rparr>"
  "verified_recovery_policy_sequence demo_ext demo_root_proof (take 2 [demo_policy_proof, demo_update_proof])
      (demo_digest 1) (demo_digest (of_nat 2 + 2))
     = Ok \<lparr>vps_root = demo_verified_root, vps_policies = [demo_verified_policy, demo_verified_update]\<rparr>"
  using demo_policies_verify by simp_all

lemmas demo_chain_none = demo_verifies_from [OF demo_histories(1) demo_fits(1) demo_policy_sequences(1)]
  and demo_chain_routine = demo_verifies_from [OF demo_histories(2) demo_fits(2) demo_policy_sequences(1)]
  and demo_chain_recovered = demo_verifies_from [OF demo_histories(3) demo_fits(3) demo_policy_sequences(1)]
  and demo_chain_updated = demo_verifies_from [OF demo_histories(4) demo_fits(4) demo_policy_sequences(2)]
  and demo_chain_ended = demo_verifies_from [OF demo_histories(5) demo_fits(5) demo_policy_sequences(2)]

section \<open>Laws of the environment\<close>

lemma demo_digest_inj [simp]: "demo_digest m = demo_digest n \<longleftrightarrow> m = n"
  using hex_encode_inj by (fastforce simp: demo_digest_def demo_sha256_short)

definition demo_schema :: "bytes \<Rightarrow> string" where
  "demo_schema bs = (if bs = [2] then PERSONA_TRANSITION_STATEMENT_SCHEMA else if bs = [5] then RECOVERY_TRANSITION_STATEMENT_SCHEMA_V2
     else TERMINAL_PERSONA_REVOCATION_STATEMENT_SCHEMA)"

lemma demo_from_one: "demo_from [(x, n)] bs = Ok y \<longleftrightarrow> bs = [n] \<and> y = x"
  by (auto simp: demo_from_def)

lemma demo_to_one: "demo_to [(x, n)] y = Ok bs \<longleftrightarrow> bs = [n] \<and> y = x"
  by (auto simp: demo_to_def)

lemma demo_schema_member: "schema_member demo_ext demo_schema"
  unfolding schema_member_def
proof (intro allI impI)
  fix bs s assume "parses_as demo_ext bs s"
  then show "statement_schema s = demo_schema bs"
    by (cases s) (auto simp: parses_as_def statement_schema_def demo_from_one demo_schema_def demo_transition_def
        demo_recovery_def demo_terminal_def)
qed

lemma demo_sha256_inj: "inj_on (sha256_hex demo_ext) {bs. \<exists>n. bs = [n]}"
  by (auto simp: inj_on_def)

lemma demo_entry_payloads: "entry_payloads demo_ext (take n demo_entries) \<subseteq> {bs. \<exists>n. bs = [n]}"
proof -
  have "entry_payloads demo_ext (take n demo_entries) \<subseteq> entry_payloads demo_ext demo_entries"
    using set_take_subset [of n demo_entries] by (auto simp: entry_payloads_def)
  moreover have "entry_payloads demo_ext demo_entries \<subseteq> {bs. \<exists>n. bs = [n]}"
    by (auto simp: entry_payloads_def demo_entries_def demo_transition_proof_def demo_recovery_proof_def demo_terminal_proof_def)
  ultimately show ?thesis by blast
qed

lemma demo_policy_payloads: "policy_payloads demo_ext (take m [demo_policy_proof, demo_update_proof]) \<subseteq> {bs. \<exists>n. bs = [n]}"
proof -
  have "policy_payloads demo_ext (take m [demo_policy_proof, demo_update_proof]) \<subseteq>
      policy_payloads demo_ext [demo_policy_proof, demo_update_proof]"
    using set_take_subset [of m "[demo_policy_proof, demo_update_proof]"] by (auto simp: policy_payloads_def)
  moreover have "policy_payloads demo_ext [demo_policy_proof, demo_update_proof] \<subseteq> {bs. \<exists>n. bs = [n]}"
    by (auto simp: policy_payloads_def demo_policy_proof_def demo_update_proof_def)
  ultimately show ?thesis by blast
qed

lemma demo_codecs: "recovery_codecs demo_ext"
proof -
  have "demo_to [(demo_policy, 3), (demo_policy_update, 4)] s = Ok bs \<Longrightarrow>
      demo_from [(demo_policy, 3), (demo_policy_update, 4)] bs = Ok s" for s bs
    by (auto simp: demo_to_def demo_from_def split: if_splits)
  then show ?thesis
    by (auto simp: recovery_codecs_def continuity_codecs_def demo_from_one demo_to_one MAX_CONTINUITY_PAYLOAD_BYTES_def
        MAX_PROOF_BYTES_def)
qed

section \<open>Signing in the environment\<close>

lemma demo_sign_text:
  assumes "list_all (\<lambda>c. (of_char c :: nat) < 128) (last key # namespace)"
  shows "is_utf8 (demo_sign key namespace payload)"
proof (rule ascii_is_utf8)
  have "(of_char c :: nat) < 128" if "c \<in> set (hex_encode payload)" for c
    using hex_encode_lower [OF that] by (auto simp: is_lower_hexdigit_def Let_def)
  with assms show "list_all (\<lambda>c. (of_char c :: nat) < 128) (demo_sign key namespace payload)"
    by (auto simp: demo_sign_def list_all_iff)
qed

lemma base_signs:
  assumes "demo_base E" and "list_all (\<lambda>c. (of_char c :: nat) < 128) (last key # namespace)"
  shows "sshsig_sign E payload key namespace = Ok (demo_sign key namespace payload)"
  using assms(1) demo_sign_text [OF assms(2)]
  by (simp add: sshsig_sign_def ssh_keygen_command_def validate_ssh_keygen_def demo_base_def demo_run_def
      write_signer_input_def wait_with_output_deadline_def wait_from.simps Let_def)

lemmas demo_signs = base_signs [OF demo_ext_base]

lemma demo_key_utf8:
  assumes "(of_char k :: nat) < 128"
  shows "is_utf8 (demo_key k)"
  by (rule ascii_is_utf8) (simp add: demo_key_def assms)

text \<open>The signers of the environment: each reaches its private key by the path that is its public key.\<close>

definition demo_signer :: "char \<Rightarrow> RecoverySigner" where
  "demo_signer k = \<lparr>signer_private_key_path = demo_key k, signer_public_key = demo_key k\<rparr>"

lemma demo_sign_steps:
  assumes "distinct ks" "set ks \<subseteq> set ''789''" "set (map demo_print ks) \<subseteq> set allowed"
    and "list_all (\<lambda>c. (of_char c :: nat) < 128) namespace" "set seen \<inter> set (map demo_print ks) = {}"
  shows "\<exists>seen'. length seen' = length seen + length ks \<and>
    try_fold (authority_sign_step demo_ext [n] allowed namespace) (seen, pairs) (map demo_signer ks)
      = Ok (seen', pairs @ map (\<lambda>k. (demo_print k, demo_recovery_signature namespace n k)) ks)"
  using assms
proof (induction ks arbitrary: seen pairs)
  case (Cons k ks)
  have k: "k \<in> set ''012789''" using Cons.prems(2) by auto
  have ascii: "list_all (\<lambda>c. (of_char c :: nat) < 128) (last (demo_key k) # namespace)"
    using Cons.prems(2,4) by (auto simp: demo_key_def)
  have new: "demo_print k \<in> set allowed" "demo_print k \<notin> set seen" using Cons.prems(3,5) by auto
  have "set (insort (demo_print k) seen) \<inter> set (map demo_print ks) = {}"
    using Cons.prems(1,5) by (auto simp: set_insort_key)
  moreover have "distinct ks" "set ks \<subseteq> set ''789''" "set (map demo_print ks) \<subseteq> set allowed" using Cons.prems(1-3) by auto
  moreover have "authority_sign_step demo_ext [n] allowed namespace (seen, pairs) (demo_signer k)
      = Ok (insort (demo_print k) seen, pairs @ [(demo_print k, demo_recovery_signature namespace n k)])"
    using k demo_signs [OF ascii] new
    by (simp add: authority_sign_step_def demo_signer_def demo_recovery_signature_def del: list.set)
  ultimately show ?case
    using Cons.IH [of "insort (demo_print k) seen" "pairs @ [(demo_print k, demo_recovery_signature namespace n k)]"]
      Cons.prems(4) by auto
qed simp

lemma demo_authorities_sign:
  assumes "distinct ks" "set ks \<subseteq> set ''789''" "set (map demo_print ks) \<subseteq> set allowed" "distinct allowed"
    and "list_all (\<lambda>c. (of_char c :: nat) < 128) namespace" "length namespace \<le> 100" "minimum \<le> length ks"
    and "length ks \<le> length allowed" "require_all \<longrightarrow> length ks = length allowed"
  shows "\<exists>signatures. sign_with_authorities demo_ext [n] (map demo_signer ks) allowed minimum require_all namespace
      = Ok signatures \<and> list_all recovery_signature_fits signatures"
proof -
  let ?collected = "map (\<lambda>k. (demo_print k, demo_recovery_signature namespace n k)) ks"
  have "set (map demo_print ks) \<subseteq> set (sort (remdups allowed))" using assms(3) by simp
  from demo_sign_steps [OF assms(1,2) this assms(5), of "[]" n "[]"] obtain seen where
    "length seen = length ks" "try_fold (authority_sign_step demo_ext [n] (sort (remdups allowed)) namespace) ([], [])
      (map demo_signer ks) = Ok (seen, ?collected)" by auto
  then have "sign_with_authorities demo_ext [n] (map demo_signer ks) allowed minimum require_all namespace
      = Ok (map snd (sort_key fst ?collected))"
    using assms(4,7-9) by (simp add: sign_with_authorities_def Let_def distinct_remdups_id)
  moreover have "list_all recovery_signature_fits (map snd (sort_key fst ?collected))"
    using assms(6) by (auto simp: list_all_iff recovery_signature_fits_def demo_recovery_signature_def new_recovery_signature_def
        MAX_CONTINUITY_SIGNATURE_BYTES_def)
  ultimately show ?thesis by blast
qed

lemma demo_key_last [simp]: "last (demo_key k) = k"
  by (simp add: demo_key_def)

lemma demo_signings:
  "\<exists>ss. sign_with_authorities demo_ext [4] (map demo_signer ''97'') (ps_recovery_key_fingerprints demo_policy) 2 False
     RECOVERY_POLICY_UPDATE_PREVIOUS_NAMESPACE = Ok ss \<and> list_all recovery_signature_fits ss"
  "\<exists>ss. sign_with_authorities demo_ext [4] (map demo_signer ''89'') (ps_recovery_key_fingerprints demo_policy_update) 2 True
     RECOVERY_POLICY_UPDATE_CURRENT_NAMESPACE = Ok ss \<and> list_all recovery_signature_fits ss"
  "\<exists>ss. sign_with_authorities demo_ext [5] (map demo_signer ''97'') (ps_recovery_key_fingerprints demo_policy) 2 False
     RECOVERY_TRANSITION_AUTHORITY_NAMESPACE = Ok ss \<and> list_all recovery_signature_fits ss"
  "\<exists>ss. sign_with_authorities demo_ext [6] (map demo_signer ''98'') (ps_recovery_key_fingerprints demo_policy_update) 2 False
     TERMINAL_PERSONA_REVOCATION_AUTHORITY_NAMESPACE = Ok ss \<and> list_all recovery_signature_fits ss"
  by (rule demo_authorities_sign; auto simp: demo_policy_def demo_policy_update_def demo_namespaces)+

lemma demo_signer_utf8 [simp]: "(of_char k :: nat) < 128 \<Longrightarrow> is_utf8 (signer_public_key (demo_signer k))"
  by (simp add: demo_signer_def demo_key_utf8)

section \<open>A ceremony\<close>

lemma demo_structures:
  "validate_recovery_policy_proof_structure demo_ext demo_policy_proof = Ok ()"
  "validate_persona_transition_proof_structure demo_ext demo_transition_proof = Ok ()"
  using demo_policy_verifies demo_transition_verifies
  by (auto simp: validate_recovery_policy_proof_structure_def validate_persona_transition_proof_structure_def
      verify_recovery_policy_proof_def verify_persona_transition_proof_def verify_persona_transition_proof_with_receipt_def)

lemma demo_request_work: "require_request_signature_work_bound demo_request = Ok ()"
  by (simp add: require_request_signature_work_bound_def demo_request_def add_work_def policy_work_def transition_work_def
      demo_policy_proof_def demo_transition_proof_def usize_checked_add_def MAX_RECOVERY_CEREMONY_SIGNATURE_VERIFICATIONS_def)

lemma demo_recovery_fields:
  "rts_schema demo_recovery = RECOVERY_TRANSITION_STATEMENT_SCHEMA_V2"
  "rts_next_key_fingerprint demo_recovery = demo_print (CHR ''2'')"
  "rts_issued_at demo_recovery = 300" "rts_expires_at demo_recovery = Some 1000"
  by (simp_all add: demo_recovery_def)

lemma demo_request_canonical: "canonical_recovery_ceremony_request_bytes demo_ext demo_request = Ok [7]"
  using demo_structures demo_request_work demo_recovery_fields
  by (simp add: canonical_recovery_ceremony_request_bytes_def validate_request_structure_def ceremony_require_bound_def
      MAX_RECOVERY_CEREMONY_REQUEST_BYTES_def demo_to_def)
    (simp add: demo_request_def MAX_RECOVERY_POLICY_VERSIONS_def MAX_CONTINUITY_TRANSITIONS_def ceremony_validate_sha256_def
      validate_entry_structure_def validate_head_def)

lemma demo_candidate:
  assumes "same_chain c (demo_chain 1 1)"
  shows "validate_recovery_ceremony_candidate demo_ext c demo_recovery (demo_key (CHR ''2'')) = Ok demo_verified_policy"
proof -
  note chain = demo_chain_routine [simplified]
  have same: "vrc_root c = demo_verified_root" "vrc_policies c = [demo_verified_policy]"
    using assms chain(2,3) by (simp_all add: same_chain_def)
  have bind: "validate_recovery_transition_binding demo_ext demo_verified_root demo_verified_policy demo_recovery = Ok ()"
    using demo_recovery_verifies
    by (auto simp: verify_recovery_transition_proof_def verify_recovery_transition_proof_with_receipt_def demo_verified_recovery_def)
  have policy: "recovery_policy_for_transition [demo_verified_policy] demo_recovery = Ok demo_verified_policy"
    by (simp add: recovery_policy_for_transition_def demo_verified_defs demo_statement_defs Let_def word_le_nat_alt)
  have "validate_recovery_aware_transition_at_head (demo_chain 1 1) (rts_sequence demo_recovery) (rts_persona_anchor demo_recovery)
    (rts_persona demo_recovery) (rts_root_statement_sha256 demo_recovery) (rts_previous_transition_sha256 demo_recovery)
    (rts_previous_key_fingerprint demo_recovery) (rts_next_key_fingerprint demo_recovery) (rts_issued_at demo_recovery) = Ok ()"
    unfolding recovery_at_head_iff [OF demo_chain_routine(1) [unfolded demo_verify_def]] demo_chain_routine(2-5)
    by (simp add: demo_statement_defs demo_verified_root_def demo_verified_def demo_events head_after_def) 
      (simp add: demo_verified_policy_def demo_policy_def)
  with same bind policy demo_recovery_fields(1,2) same_chain_extension(1) [OF assms] show ?thesis
    by (simp add: validate_recovery_ceremony_candidate_def require_fingerprint_def)
qed

lemma demo_request_verifies:
  obtains v where "verify_recovery_ceremony_request demo_ext demo_request 500 = Ok v"
    "vq_request v = demo_request" "vq_request_sha256 v = demo_digest 7" "vq_statement_payload v = [5]"
    "vq_selected_policy v = demo_verified_policy" "vq_verified_at v = 500"
proof -
  note chain = demo_chain_routine(1) [unfolded demo_verify_def]
  have head: "ra_transition_count (vrc_report (demo_chain 1 1)) = 1"
    "ra_last_transition_sha256 (vrc_report (demo_chain 1 1)) = Some (demo_digest 2)"
    using reported_count(1) [OF chain] demo_chain_routine(4,5)
    by (simp_all add: demo_verified_def recovery_chain_head_def demo_events head_after_def)
  obtain c where c: "verify_recovery_chain_with_sequence_at_checkpoint demo_ext demo_root_proof [RoutineProof demo_transition_proof]
      [demo_policy_proof] (demo_digest 1) (demo_digest 3) 500
      \<lparr>pc_transition_sequence = 1, pc_transition_sha256 = Some (demo_digest 2)\<rparr> = Ok c" "same_chain c (demo_chain 1 1)"
    using chain head
    by (simp add: verify_recovery_chain_with_sequence_at_checkpoint_def demo_entries_def same_chain_def
        match_recovery_aware_continuity_head_checkpoint_def match_continuity_head_checkpoint_def MAX_CONTINUITY_TRANSITIONS_def
        validate_sha256_def word_le_nat_alt word_less_nat_alt)
  have fields: "cq_root_proof demo_request = demo_root_proof" "cq_prior_transitions demo_request = [RoutineProof demo_transition_proof]"
    "cq_recovery_policies demo_request = [demo_policy_proof]" "cq_expected_root_statement_sha256 demo_request = demo_digest 1"
    "cq_expected_latest_policy_sha256 demo_request = demo_digest 3"
    "cq_expected_head demo_request = \<lparr>pc_transition_sequence = 1, pc_transition_sha256 = Some (demo_digest 2)\<rparr>"
    "cq_statement demo_request = demo_recovery" "cq_next_public_key demo_request = demo_key (CHR ''2'')"
    by (simp_all add: demo_request_def)
  show thesis
    by (rule that [of "\<lparr>vq_request = demo_request, vq_request_sha256 = demo_digest 7, vq_statement_payload = [5],
        vq_next_public_key = demo_key (CHR ''2''), vq_selected_policy = demo_verified_policy, vq_chain = c, vq_verified_at = 500\<rparr>"])
      (simp_all add: verify_recovery_ceremony_request_def demo_request_canonical fields c demo_candidate [OF c(2)]
        ceremony_validate_jcs_time_def MAX_JCS_SAFE_INTEGER_def ensure_ceremony_current_def demo_recovery_fields)
qed

lemma demo_signed:
  assumes "k \<in> set ''012789''" "length namespace \<le> 100"
  shows "authority_signed demo_ext [n] namespace (demo_recovery_signature namespace n k) (demo_print k)"
  unfolding authority_signed_def
  using demo_recovery_signature_valid [OF assms] assms(1) demo_verify [of "[n]" "demo_key k" namespace]
  by (intro exI [of _ "demo_key k"]) (simp del: list.set)

lemma demo_response_canonical:
  assumes "k \<in> set ''012789''" "demo_response role k \<in> set demo_responses"
  shows "is_Ok (canonical_recovery_ceremony_response_bytes demo_ext (demo_response role k))"
proof -
  have ns: "length (role_namespace role) \<le> 100" "length RECOVERY_CEREMONY_REQUEST_BINDING_NAMESPACE \<le> 100"
    by (cases role; simp add: role_namespace_def demo_namespaces RECOVERY_CEREMONY_REQUEST_BINDING_NAMESPACE_def)+
  have "validate_response_structure demo_ext (demo_response role k) = Ok ()"
    using demo_recovery_signature_valid [OF assms(1) ns(1), of 5] demo_recovery_signature_valid [OF assms(1) ns(2), of 7] assms(1)
    by (simp add: validate_response_structure_def demo_response_def ceremony_validate_sha256_def del: list.set)
  moreover have "map_of (zip demo_responses [8, 9, 10 :: byte]) (demo_response role k) \<noteq> None"
    using assms(2) by (auto simp: demo_responses_def)
  then obtain n where "response_to_jcs demo_ext (demo_response role k) = Ok [n]"
    by (auto simp: demo_ext_def demo_to_def)
  ultimately show ?thesis
    by (simp add: canonical_recovery_ceremony_response_bytes_def ceremony_require_bound_def MAX_RECOVERY_CEREMONY_RESPONSE_BYTES_def)
qed

lemma demo_response_valid:
  assumes v: "vq_request v = demo_request" "vq_request_sha256 v = demo_digest 7" "vq_statement_payload v = [5]"
    "vq_selected_policy v = demo_verified_policy" and r: "r \<in> set demo_responses"
  shows "response_valid demo_ext v r"
proof -
  obtain role k where k: "r = demo_response role k" "k \<in> set ''012789''" "participant_role v (demo_print k) = Ok role"
  proof -
    have allowed: "is_Ok (binary_search (ps_recovery_key_fingerprints (vp_statement (vq_selected_policy v))) f) \<longleftrightarrow>
        f \<in> set (map demo_print ''789'')" for f
      using recovery_key_search_iff [OF demo_policy_valid(1), of f] by (simp add: v(4) demo_verified_policy_def) (simp add: demo_policy_def)
    have roles: "participant_role v (demo_print (CHR ''9'')) = Ok RecoveryAuthority" "participant_role v (demo_print (CHR ''7'')) = Ok RecoveryAuthority"
      "participant_role v (demo_print (CHR ''2'')) = Ok NextKey"
      unfolding participant_role_def allowed by (simp_all add: v(1) demo_request_def demo_recovery_fields)
    from r consider "r = demo_response RecoveryAuthority (CHR ''9'')" | "r = demo_response NextKey (CHR ''2'')"
      | "r = demo_response RecoveryAuthority (CHR ''7'')" by (auto simp: demo_responses_def)
    then show thesis using roles by cases (rule that; simp)+
  qed
  have ns: "length (role_namespace role) \<le> 100" "length RECOVERY_CEREMONY_REQUEST_BINDING_NAMESPACE \<le> 100"
    by (cases role; simp add: role_namespace_def demo_namespaces RECOVERY_CEREMONY_REQUEST_BINDING_NAMESPACE_def)+
  from demo_response_canonical [OF k(2) r [unfolded k(1)]] demo_signed [OF k(2) ns(1), of 5] demo_signed [OF k(2) ns(2), of 7] k(3)
  show ?thesis unfolding response_valid_def k(1) v(1-3)
    by (simp add: demo_response_def demo_request_canonical)
qed

lemma demo_response_fields [simp]:
  "cr_role (demo_response role k) = role" "cr_participant_fingerprint (demo_response role k) = demo_print k"
  by (simp_all add: demo_response_def)

lemma demo_responses_facts:
  "inj_on cr_participant_fingerprint (set demo_responses)" "length demo_responses = 3"
  "card {r \<in> set demo_responses. cr_role r = RecoveryAuthority} = 2"
  "{r \<in> set demo_responses. cr_role r = NextKey} \<noteq> {}"
proof -
  have "{r \<in> set demo_responses. cr_role r = RecoveryAuthority} =
      {demo_response RecoveryAuthority (CHR ''9''), demo_response RecoveryAuthority (CHR ''7'')}"
    by (auto simp: demo_responses_def)
  moreover have "demo_response RecoveryAuthority (CHR ''9'') \<noteq> demo_response RecoveryAuthority (CHR ''7'')"
  proof
    assume "demo_response RecoveryAuthority (CHR ''9'') = demo_response RecoveryAuthority (CHR ''7'')"
    then have "demo_print (CHR ''9'') = demo_print (CHR ''7'')" by (metis demo_response_fields(2))
    then show False by simp
  qed
  ultimately show "card {r \<in> set demo_responses. cr_role r = RecoveryAuthority} = 2" by simp
  show "inj_on cr_participant_fingerprint (set demo_responses)" by (auto simp: demo_responses_def)
  show "length demo_responses = 3" "{r \<in> set demo_responses. cr_role r = NextKey} \<noteq> {}"
    by (auto simp: demo_responses_def)
qed

lemma demo_open:
  assumes "vq_request v = demo_request" "vq_verified_at v = 500"
  shows "ceremony_open v 600"
  by (simp add: ceremony_open_iff assms MAX_JCS_SAFE_INTEGER_def demo_request_def demo_recovery_fields)

lemma demo_assembles:
  obtains v pf where "verify_recovery_ceremony_request demo_ext demo_request 500 = Ok v" "vq_statement_payload v = [5]"
    "assemble_recovery_ceremony_proof demo_ext v demo_responses 600 = Ok pf"
proof -
  obtain v where v: "verify_recovery_ceremony_request demo_ext demo_request 500 = Ok v" "vq_request v = demo_request"
    "vq_request_sha256 v = demo_digest 7" "vq_statement_payload v = [5]" "vq_selected_policy v = demo_verified_policy"
    "vq_verified_at v = 500" by (rule demo_request_verifies)
  have valid: "\<forall>r\<in>set demo_responses. response_valid demo_ext v r" using demo_response_valid [OF v(2-5)] by blast
  have "is_Ok (try_fold (collect_response demo_ext v 600) [] demo_responses)"
    unfolding collect_all_iff using valid demo_open [OF v(2,6)] demo_responses_facts(1) by blast
  then obtain d where d: "try_fold (collect_response demo_ext v 600) [] demo_responses = Ok d" by (auto simp: is_Ok_iff)
  have "unat (ps_threshold (vp_statement (vq_selected_policy v))) = 2"
    by (simp add: v(5) demo_verified_policy_def demo_policy_def)
  with valid demo_open [OF v(2,6)] demo_responses_facts collecting.loop_keeps_from_start [OF collected_Nil d]
  have "assemble_recovery_ceremony_proof demo_ext v demo_responses 600 = Ok (assembled_proof demo_ext v d)"
    unfolding assemble_iff [OF demo_codecs v(1)] by auto
  with that v(1,4) show thesis by blast
qed

lemma demo_participant_signs:
  obtains v where "vq_request v = demo_request" "sign_recovery_ceremony_request demo_ext v (demo_signer (CHR ''9'')) 600
    = Ok (demo_response RecoveryAuthority (CHR ''9''))"
proof -
  let ?k = "CHR ''9''"
  obtain v where v: "verify_recovery_ceremony_request demo_ext demo_request 500 = Ok v" "vq_request v = demo_request"
    "vq_request_sha256 v = demo_digest 7" "vq_statement_payload v = [5]" "vq_selected_policy v = demo_verified_policy"
    "vq_verified_at v = 500" by (rule demo_request_verifies)
  have r: "demo_response RecoveryAuthority ?k \<in> set demo_responses" by (simp add: demo_responses_def)
  from demo_response_valid [OF v(2-5) r] have role: "participant_role v (demo_print ?k) = Ok RecoveryAuthority"
    by (simp add: response_valid_def)
  have ns: "length RECOVERY_TRANSITION_AUTHORITY_NAMESPACE \<le> 100" "length RECOVERY_CEREMONY_REQUEST_BINDING_NAMESPACE \<le> 100"
    "list_all (\<lambda>c. (of_char c :: nat) < 128) (last (demo_key ?k) # RECOVERY_TRANSITION_AUTHORITY_NAMESPACE)"
    "list_all (\<lambda>c. (of_char c :: nat) < 128) (last (demo_key ?k) # RECOVERY_CEREMONY_REQUEST_BINDING_NAMESPACE)"
    by (simp_all add: demo_namespaces RECOVERY_CEREMONY_REQUEST_BINDING_NAMESPACE_def)
  have k: "?k \<in> set ''012789''" by simp
  have sign: "sign_one demo_ext [n] (demo_key ?k) (demo_key ?k) namespace = Ok (demo_recovery_signature namespace n ?k)"
    if "list_all (\<lambda>c. (of_char c :: nat) < 128) (last (demo_key ?k) # namespace)" for n namespace
    using demo_signs [OF that] by (simp add: sign_one_def demo_recovery_signature_def)
  have "ceremony_open v 600" by (rule demo_open [OF v(2,6)])
  then have times: "ensure_not_before_prior_verification v 600 = Ok ()" "ensure_ceremony_current (vq_statement v) 600 = Ok ()"
    by (simp_all add: ceremony_open_def)
  have "rsig_public_key (demo_recovery_signature RECOVERY_TRANSITION_AUTHORITY_NAMESPACE 5 ?k) = demo_key ?k"
    by (simp add: demo_recovery_signature_def new_recovery_signature_def)
  with demo_response_canonical [OF k r] times role demo_recovery_signature_valid [OF k ns(1), of 5] demo_recovery_signature_valid [OF k ns(2), of 7]
  have "new_recovery_ceremony_response demo_ext v (demo_recovery_signature RECOVERY_TRANSITION_AUTHORITY_NAMESPACE 5 ?k)
      (demo_recovery_signature RECOVERY_CEREMONY_REQUEST_BINDING_NAMESPACE 7 ?k) 600 = Ok (demo_response RecoveryAuthority ?k)"
    by (auto simp: new_recovery_ceremony_response_def v(2,3,4) demo_request_canonical role_namespace_def demo_response_def is_Ok_iff)
  with times role sign [OF ns(3)] sign [OF ns(4)]
  have "sign_recovery_ceremony_request demo_ext v (demo_signer ?k) 600 = Ok (demo_response RecoveryAuthority ?k)"
    by (simp add: sign_recovery_ceremony_request_def review_recovery_ceremony_participant_def demo_signer_def Let_def v(2,4)
        role_namespace_def demo_request_canonical)
  with that v(2) show thesis by blast
qed

end
