(* ===== verification/Core_Properties.thy ===== *)
theory Core_Properties
  imports Demo
begin

text \<open>
  The properties of routine continuity chains, of signing, of artifact proofs and of escaped text, each
  applied to the concrete environment of the theory Demo where it has hypotheses.
\<close>

section \<open>Routine continuity\<close>

text \<open>
  C13. Refinement. The verification of a routine continuity chain succeeds with a given head exactly
  when the expected digest is well formed and is the digest of the verified root, there are at most as
  many transitions as the limit allows, and the proofs verify to transitions that are bound to the root
  and form an abstract history from the root's head to that head.
\<close>

theorem routine_verification_refines_history:
  "(\<exists>c. verify_persona_continuity_chain_with_verified_sequence E rp ts d = Ok c \<and>
       vc_root c = root \<and> vc_transitions c = vs \<and> chain_head c = h) \<longleftrightarrow>
     lowercase_hex_64 d \<and> length ts \<le> MAX_CONTINUITY_TRANSITIONS \<and>
     verify_persona_root_proof E rp = Ok root \<and> vr_root_statement_sha256 root = d \<and>
     routine_history E root ts vs h"
  by (rule chain_refines_history)

lemma demo_routine_chain:
  obtains c where "verify_persona_continuity_chain_with_verified_sequence demo_ext demo_root_proof [demo_transition_proof] (demo_digest 1) = Ok c"
    and "vc_root c = demo_verified_root" and "vc_transitions c = [demo_verified_transition]"
proof -
  have "routine_history demo_ext demo_verified_root [demo_transition_proof] [demo_verified_transition]
      (head_after (routine_event demo_verified_transition))"
    by (simp add: routine_history_def demo_transition_verifies history_Cons advances_iff bound_to_root_def routine_event_def
        root_head_def genesis_def demo_verified_defs demo_statement_defs ends_history_def)
  then show ?thesis using that demo_root_verifies
    chain_refines_history [of demo_ext demo_root_proof "[demo_transition_proof]" "demo_digest 1" demo_verified_root
      "[demo_verified_transition]" "head_after (routine_event demo_verified_transition)"]
    by (auto simp: MAX_CONTINUITY_TRANSITIONS_def demo_verified_root_def)
qed

text \<open>
  Extension and prefixes. Verifying a chain with one more transition is the same as verifying the
  chain and then extending the verified chain by the transition, errors included, and the extended
  report is the report of the longer chain; and every prefix of a chain that verifies does so too, with
  the prefix of its transitions.
\<close>

theorem chain_extension_is_batch:
  assumes "verify_persona_continuity_chain_with_verified_sequence E rp ts d = Ok c"
  shows "verify_persona_continuity_chain_with_verified_sequence E rp (ts @ [p]) d =
      and_then (verify_persona_continuity_chain_extension E c p) (\<lambda>v. Ok (extended_chain c v)) \<and>
    (\<exists>c'. verify_persona_continuity_chain_with_verified_sequence E rp (take n ts) d = Ok c' \<and>
      vc_transitions c' = take n (vc_transitions c))"
proof
  show "verify_persona_continuity_chain_with_verified_sequence E rp (ts @ [p]) d =
      and_then (verify_persona_continuity_chain_extension E c p) (\<lambda>v. Ok (extended_chain c v))"
    by (rule chain_extension_eq [OF assms])
  have len: "length (vc_transitions x) = length us"
    if "verify_persona_continuity_chain_with_verified_sequence E rp us d = Ok x" for us x
    using verified_chain_history [OF that] by (auto simp: routine_history_def dest: list_all2_lengthD)
  from assms have "verify_persona_continuity_chain_with_verified_sequence E rp (take n ts @ drop n ts) d = Ok c" by simp
  from chain_prefix [OF this] obtain c' where
    c': "verify_persona_continuity_chain_with_verified_sequence E rp (take n ts) d = Ok c'"
    "vc_transitions c = vc_transitions c' @ drop (length (take n ts)) (vc_transitions c)" by blast
  have "take n (vc_transitions c) = take n (vc_transitions c' @ drop (length (take n ts)) (vc_transitions c))"
    using c'(2) by (rule arg_cong)
  also have "\<dots> = vc_transitions c'" using len [OF c'(1)] len [OF assms] by (cases "n \<le> length ts") simp_all
  finally show "\<exists>c'. verify_persona_continuity_chain_with_verified_sequence E rp (take n ts) d = Ok c' \<and>
      vc_transitions c' = take n (vc_transitions c)" using c'(1) by auto
qed

theorem chain_extension_is_batch_witness:
  "\<exists>c. verify_persona_continuity_chain_with_verified_sequence demo_ext demo_root_proof (take 0 [demo_transition_proof]) (demo_digest 1) = Ok c
     \<and> vc_transitions c = take 0 [demo_verified_transition]"
proof -
  obtain c where "verify_persona_continuity_chain_with_verified_sequence demo_ext demo_root_proof [demo_transition_proof] (demo_digest 1) = Ok c"
    "vc_transitions c = [demo_verified_transition]" by (rule demo_routine_chain)
  with chain_extension_is_batch [of demo_ext demo_root_proof "[demo_transition_proof]" "demo_digest 1" c] show ?thesis by metis
qed

text \<open>
  No fork. Two routine chains that end in the same transition digest consist of the same
  transition statements, as long as SHA-256 has no collision among the payloads they contain.
\<close>

theorem head_digest_determines_routine_chain:
  assumes "verify_persona_continuity_chain_with_verified_sequence E rp ts d = Ok c"
    and "verify_persona_continuity_chain_with_verified_sequence E rp' ts' d' = Ok c'"
    and "cr_last_transition_sha256 (vc_report c) = cr_last_transition_sha256 (vc_report c')"
    and "inj_on (sha256_hex E) (transition_payloads E ts \<union> transition_payloads E ts')"
  shows "map vt_statement (vc_transitions c) = map vt_statement (vc_transitions c')"
  using routine_no_fork [OF verified_chain_history [OF assms(1)] verified_chain_history [OF assms(2)] _ assms(4)] assms(3)
  by (simp add: chain_head_def)

theorem head_digest_determines_routine_chain_witness:
  "\<exists>c. verify_persona_continuity_chain_with_verified_sequence demo_ext demo_root_proof [demo_transition_proof] (demo_digest 1) = Ok c \<and>
     map vt_statement (vc_transitions c) = map vt_statement (vc_transitions c)"
proof -
  obtain c where c: "verify_persona_continuity_chain_with_verified_sequence demo_ext demo_root_proof [demo_transition_proof] (demo_digest 1) = Ok c"
    by (rule demo_routine_chain)
  have "transition_payloads demo_ext [demo_transition_proof] \<union> transition_payloads demo_ext [demo_transition_proof] \<subseteq> {bs. \<exists>n. bs = [n]}"
    by (auto simp: transition_payloads_def demo_transition_proof_def)
  from inj_on_subset [OF demo_sha256_inj this] head_digest_determines_routine_chain [OF c c refl] c show ?thesis by blast
qed

text \<open>
  C27. Custody of both keys. A transition proof verifies exactly when its payload decodes to the
  canonical bytes of the statement and it carries one signature by the previous key and one by the
  next key, in either order, over these bytes.
\<close>

theorem transition_needs_both_keys:
  "verify_persona_transition_proof E pf = Ok v \<longleftrightarrow>
     (\<exists>payload. tp_schema pf = PERSONA_TRANSITION_PROOF_SCHEMA \<and>
        decode_continuity_payload E (tp_payload pf) = Ok payload \<and>
        transition_from_json E payload = Ok (vt_statement v) \<and>
        canonical_persona_transition_statement_bytes E (vt_statement v) = Ok payload \<and>
        public_key_fingerprint E (vt_previous_public_key v) = Ok (ts_previous_key_fingerprint (vt_statement v)) \<and>
        public_key_fingerprint E (vt_next_public_key v) = Ok (ts_next_key_fingerprint (vt_statement v)) \<and>
        transition_signed E pf v payload \<and>
        vt_transition_statement_sha256 v = sha256_hex E payload)"
  by (rule verify_transition_Ok_iff)

text \<open>
  Created transitions verify. A routine transition proof that the creation function returns, with
  signatures within the signature limit, verifies and yields the statement it was created from and its
  digest.
\<close>

theorem created_transition_verifies:
  assumes "continuity_codecs E" and "is_utf8 key" "is_utf8 key'"
    and "create_routine_transition_proof E statement path key path' key' = Ok pf"
    and "list_all signature_fits (tp_signatures pf)"
  shows "\<exists>v. verify_persona_transition_proof E pf = Ok v \<and> vt_statement v = statement \<and>
    persona_transition_statement_sha256 E statement = Ok (vt_transition_statement_sha256 v)"
  using create_transition_verifies [OF assms] .

theorem created_transition_verifies_witness:
  "\<exists>pf v. create_routine_transition_proof demo_ext demo_transition (demo_key (CHR ''0'')) (demo_key (CHR ''0''))
       (demo_key (CHR ''1'')) (demo_key (CHR ''1'')) = Ok pf \<and>
     verify_persona_transition_proof demo_ext pf = Ok v \<and> vt_statement v = demo_transition"
proof -
  let ?sig = "\<lambda>role k. new_signature role (demo_sign (demo_key k) PERSONA_TRANSITION_NAMESPACE [2]) (demo_key k)"
  let ?pf = "\<lparr>tp_schema = PERSONA_TRANSITION_PROOF_SCHEMA, tp_payload = base64url_encode demo_ext [2],
     tp_signatures = [?sig PreviousRole (CHR ''0''), ?sig NextRole (CHR ''1'')]\<rparr>"
  have fields: "ts_previous_key_fingerprint demo_transition = demo_print (CHR ''0'')"
    "ts_next_key_fingerprint demo_transition = demo_print (CHR ''1'')" by (simp_all add: demo_transition_def)
  have codecs: "continuity_codecs demo_ext" using demo_codecs by (simp add: recovery_codecs_def)
  have canonical: "canonical_persona_transition_statement_bytes demo_ext demo_transition = Ok [2]"
    using demo_transition_verifies
    by (auto simp: verify_transition_Ok_iff demo_verified_transition_def demo_transition_proof_def)
  have created: "create_routine_transition_proof demo_ext demo_transition (demo_key (CHR ''0'')) (demo_key (CHR ''0''))
       (demo_key (CHR ''1'')) (demo_key (CHR ''1'')) = Ok ?pf"
    using demo_signs [of "demo_key (CHR ''0'')" PERSONA_TRANSITION_NAMESPACE] demo_signs [of "demo_key (CHR ''1'')" PERSONA_TRANSITION_NAMESPACE]
    by (simp add: create_routine_transition_proof_def canonical require_fingerprint_def fields PERSONA_TRANSITION_NAMESPACE_def)
  have "list_all signature_fits (tp_signatures ?pf)"
    by (simp add: signature_fits_def new_signature_def PERSONA_TRANSITION_NAMESPACE_def MAX_CONTINUITY_SIGNATURE_BYTES_def)
  with created_transition_verifies [OF codecs demo_key_utf8 demo_key_utf8 created]
  have "\<exists>v. verify_persona_transition_proof demo_ext ?pf = Ok v \<and> vt_statement v = demo_transition" by auto
  with created show ?thesis by blast
qed

text \<open>
  Review of a transition. What the user is shown of a transition before signing belongs to exactly
  the bytes that are signed: they are the canonical bytes of the reviewed statement, the shown digest is
  theirs, and the statement is the next one of the expected root, sequence and previous digest for the
  two keys that were given.
\<close>

theorem reviewed_transition_is_signed_transition:
  assumes "review_persona_transition_statement_bytes E bs now root sequence link key key' = Ok (statement, review)"
  shows "canonical_persona_transition_statement_bytes E statement = Ok bs \<and>
    tr_transition_statement_sha256 review = sha256_hex E bs \<and>
    ts_sequence statement = sequence \<and> ts_previous_transition_sha256 statement = link \<and>
    ts_persona_anchor statement = rs_persona_anchor (vr_statement root) \<and>
    ts_root_statement_sha256 statement = vr_root_statement_sha256 root \<and>
    tr_previous_key_fingerprint review = ts_previous_key_fingerprint statement \<and>
    tr_next_key_fingerprint review = ts_next_key_fingerprint statement"
  using review_transition_bytes_exact [OF assms] by (simp add: bound_to_root_def)

theorem reviewed_transition_is_signed_transition_witness:
  "\<exists>review. review_persona_transition_statement_bytes demo_ext [2] 200 demo_verified_root 1 None (demo_key (CHR ''0''))
       (demo_key (CHR ''1'')) = Ok (demo_transition, review) \<and> tr_transition_statement_sha256 review = sha256_hex demo_ext [2]"
proof -
  have canonical: "canonical_persona_transition_statement_bytes demo_ext demo_transition = Ok [2]"
    using demo_transition_verifies
    by (auto simp: verify_transition_Ok_iff demo_verified_transition_def demo_transition_proof_def)
  have digest: "persona_root_statement_sha256 demo_ext demo_root = Ok (demo_digest 1)"
    by (simp add: persona_root_statement_sha256_def canonical_persona_root_statement_bytes_def validate_payload_bound_def
        MAX_CONTINUITY_PAYLOAD_BYTES_def demo_digest_def)
  obtain review where r: "review_persona_transition_statement_bytes demo_ext [2] 200 demo_verified_root 1 None (demo_key (CHR ''0''))
       (demo_key (CHR ''1'')) = Ok (demo_transition, review)"
    by (simp add: review_persona_transition_statement_bytes_def review_persona_transition_statement_def canonical
        parse_bounded_json_def MAX_CONTINUITY_PAYLOAD_BYTES_def require_fingerprint_def validate_jcs_time_def
        MAX_JCS_SAFE_INTEGER_def i64_saturating_add_def i64_saturating_sub_def Let_def digest demo_verified_root_def
        CONTINUITY_TRANSITION_CLOCK_SKEW_SECONDS_def i64_max_def i64_min_def)
      (simp add: demo_statement_defs)
  with reviewed_transition_is_signed_transition [OF r] show ?thesis by blast
qed

section \<open>Signing\<close>

text \<open>
  Normalised keys. Normalising a public key twice is normalising it once, and a key and its normal
  form have the same fingerprint.
\<close>

theorem normalized_key_stable:
  assumes "is_utf8 k" and "normalize_public_key E k = Ok n"
  shows "normalize_public_key E n = Ok n \<and> public_key_fingerprint E n = public_key_fingerprint E k"
  using normalize_public_key_idem [OF assms] fingerprint_of_normalized [OF assms] by blast

theorem normalized_key_stable_witness:
  "normalize_public_key demo_ext (demo_key (CHR ''0'')) = Ok (demo_key (CHR ''0''))"
  using normalized_key_stable [of "demo_key (CHR ''0'')" demo_ext "demo_key (CHR ''0'')"] demo_key_utf8 [of "CHR ''0''"] by simp

text \<open>
  RSA keys. An RSA key is supported exactly when its modulus and exponent are present as positive
  numbers, the modulus has between 2048 and 4096 bits, and the exponent is odd and lies between 3 and
  the largest 32-bit number, whatever leading zeros their encodings carry.
\<close>

theorem rsa_key_profile:
  "require_supported_sshsig_key (Rsa n e) = Ok () \<longleftrightarrow>
     (\<exists>nb eb. n = Some nb \<and> e = Some eb \<and>
        2 ^ 2047 \<le> be_value nb \<and> be_value nb < 2 ^ 4096 \<and>
        3 \<le> be_value eb \<and> be_value eb < 2 ^ 32 \<and> odd (be_value eb))"
  by (rule rsa_profile_iff)

text \<open>
  C39. The signer's deadline. Waiting for the signer always ends; when it fails, either the child was
  terminated or it had exited and its output could not be read; and a child that keeps running past
  the deadline is terminated and reported as timed out.
\<close>

theorem signer_never_left_running:
  assumes "wait_with_output_deadline child operation = (res, killed)"
  shows "(is_Ok res \<longrightarrow> \<not> killed \<and> (\<exists>j. try_wait child j = Finished)) \<and>
    (\<not> is_Ok res \<longrightarrow> killed \<or> (\<exists>j m. try_wait child j = Finished \<and> wait_output child = Err m)) \<and>
    ((\<forall>j. try_wait child j = Running) \<longrightarrow> res = Err (SignerTimedOut operation) \<and> killed)"
proof (intro conjI impI)
  from assms have wait: "wait_from child operation 0 0 = (res, killed)" by (simp add: wait_with_output_deadline_def)
  show "killed \<or> (\<exists>j m. try_wait child j = Finished \<and> wait_output child = Err m)" if "\<not> is_Ok res"
    using that wait wait_from_error_terminates [of child operation 0 0] by (cases res) auto
  show "\<not> killed" "\<exists>j. try_wait child j = Finished" if "is_Ok res"
    using that wait wait_from_Ok [of child operation 0 0] by (auto simp: is_Ok_iff)
  show "res = Err (SignerTimedOut operation)" "killed" if "\<forall>j. try_wait child j = Running"
    using that wait wait_from_running [of child operation 0 0] by auto
qed

theorem signer_never_left_running_witness:
  "\<exists>child. wait_with_output_deadline child SigningOperation = (Err (SignerTimedOut SigningOperation), True)"
proof -
  let ?child = "\<lparr>stdin_available = True, stdin_failure = None, try_wait = (\<lambda>_. Running), round_delay = (\<lambda>_. 0),
     wait_output = Err ''x''\<rparr>"
  obtain res killed where r: "wait_with_output_deadline ?child SigningOperation = (res, killed)" by fastforce
  with signer_never_left_running [OF r] have "res = Err (SignerTimedOut SigningOperation) \<and> killed" by simp
  with r have "wait_with_output_deadline ?child SigningOperation = (Err (SignerTimedOut SigningOperation), True)" by simp
  then show ?thesis by (rule exI)
qed

section \<open>Artifact proofs\<close>

text \<open>A proof bundle environment over the same keys: one artifact statement has an encoding.\<close>

definition demo_artifact :: ArtifactDescriptor where
  "demo_artifact = artifact_descriptor demo_ext [7, 7] 2"

definition demo_statement :: ArtifactStatement where
  "demo_statement = \<lparr>as_schema = STATEMENT_SCHEMA, as_artifact = demo_artifact,
     as_signer = \<lparr>sc_persona = ''p'', sc_key_fingerprint = demo_print (CHR ''0'')\<rparr>\<rparr>"

definition demo_bundle :: ProofBundle where
  "demo_bundle = \<lparr>pb_schema = PROOF_SCHEMA, pb_payload = [char_from 8],
     pb_signature = \<lparr>se_format = ''sshsig'', se_namespace = SSHSIG_NAMESPACE,
       se_value = demo_sign (demo_key (CHR ''0'')) SSHSIG_NAMESPACE [8]\<rparr>,
     pb_verification_material = \<lparr>vm_format = ''openssh-public-key'', vm_public_key = demo_key (CHR ''0'')\<rparr>\<rparr>"

definition demo_artifact_ext :: artifact_ext where
  "demo_artifact_ext =
     \<lparr>base64_decode = (\<lambda>s. Ok ([0, 0, 0, 1] @ as_bytes s)),
      base64_nopad_decode = (\<lambda>s. Ok (as_bytes s)), base64_nopad_encode = map char_from,
      base64url_decode = (\<lambda>s. Ok (as_bytes s)), base64url_encode = map char_from,
      sha256 = demo_sha256, key_from_openssh = (\<lambda>_. Some Ed25519), sshsig_algorithm = (\<lambda>_. Some AlgOther),
      key_verify = (\<lambda>key namespace payload signature. signature = demo_sign key namespace payload),
      keygen_metadata = Some \<lparr>is_symlink = False, is_file = True, file_mode = 0x1ED, file_owner = 0\<rparr>,
      process_env = (\<lambda>_. None), keygen_spawn = demo_run,
      bundle_from_json = demo_from [(demo_bundle, 9)], bundle_to_json_pretty = demo_to [(demo_bundle, 9)],
      artifact_to_json = demo_to [(demo_statement, 8)], artifact_from_json = demo_from [(demo_statement, 8)]\<rparr>"

lemma demo_artifact_base: "demo_base demo_artifact_ext"
  by (simp add: demo_base_def demo_artifact_ext_def)

lemma demo_artifact_codecs: "artifact_codecs demo_artifact_ext"
  by (auto simp: artifact_codecs_def fingerprint_codec_def demo_artifact_ext_def demo_to_one demo_from_one)

lemma demo_artifact_created:
  "create_sshsig_proof_for_descriptor demo_artifact_ext demo_artifact (demo_key (CHR ''0'')) (demo_key (CHR ''0'')) ''p''
     = Ok demo_bundle"
proof -
  have persona: "validate_persona ''p'' = Ok ''p''"
    using demo_persona by (simp add: validate_canonical_persona_def del: demo_persona split: if_splits)
  have artifact: "validate_artifact_descriptor demo_artifact = Ok ()"
    by (simp add: validate_artifact_descriptor_def demo_artifact_def artifact_descriptor_def require_value_def sha256_hex_shape)
  have "artifact_to_json demo_artifact_ext = demo_to [(demo_statement, 8)]" "base64url_encode demo_artifact_ext = map char_from"
    by (simp_all add: demo_artifact_ext_def)
  with persona artifact base_key [OF demo_artifact_base, of "CHR ''0''"] base_verify [OF demo_artifact_base]
    base_signs [OF demo_artifact_base, of "demo_key (CHR ''0'')" SSHSIG_NAMESPACE]
  show ?thesis
    by (simp add: create_sshsig_proof_for_descriptor_def create_sshsig_payload_proof_def Let_def demo_to_def demo_statement_def
        MAX_PROOF_BYTES_def SSHSIG_NAMESPACE_def demo_bundle_def)
qed

lemma demo_file_signed:
  "create_sshsig_proof demo_artifact_ext ''f'' (Some (map Some [[7], [7]])) (demo_key (CHR ''0'')) ''k''
     \<lparr>file_len = Some 5, file_bytes = Some (as_bytes (demo_key (CHR ''0'')))\<rparr> ''p'' = Ok demo_bundle"
proof -
  have hash: "artifact_descriptor demo_artifact_ext [7, 7] 2 = demo_artifact"
    by (simp add: demo_artifact_def artifact_descriptor_def sha256_hex_def demo_artifact_ext_def)
  have "describe_artifact demo_artifact_ext ''f'' (Some (map Some [[7], [7]])) = Ok demo_artifact"
    using describe_reader_chunks [of "[[7], [7]]" 0 demo_artifact_ext "''f''" "[]"] hash by (simp add: describe_artifact_def)
  moreover have "read_public_key demo_artifact_ext ''k'' \<lparr>file_len = Some 5, file_bytes = Some (as_bytes (demo_key (CHR ''0'')))\<rparr>
      = Ok (demo_key (CHR ''0''))"
    using base_key(1) [OF demo_artifact_base, of "CHR ''0''"] demo_key_utf8 [of "CHR ''0''"]
    by (simp add: read_public_key_def MAX_PUBLIC_KEY_BYTES_def)
  ultimately show ?thesis using demo_artifact_created by (simp add: create_sshsig_proof_def)
qed

lemma demo_file_verifies:
  assumes "list_all (\<lambda>c. c \<noteq> []) chunks" "concat chunks = [7, 7]"
  obtains report where "verify_sshsig_proof demo_artifact_ext path (Some (map Some chunks)) demo_bundle = Ok report"
proof -
  have hash: "artifact_descriptor demo_artifact_ext [7, 7] 2 = demo_artifact"
    by (simp add: demo_artifact_def artifact_descriptor_def sha256_hex_def demo_artifact_ext_def)
  have d: "describe_artifact demo_artifact_ext path (Some (map Some chunks)) = Ok demo_artifact"
    using describe_reader_chunks [of chunks 0 demo_artifact_ext path "[]"] assms hash by (simp add: describe_artifact_def)
  have fits: "length (pb_payload demo_bundle) \<le> MAX_PROOF_BYTES" by (simp add: demo_bundle_def MAX_PROOF_BYTES_def)
  have "is_utf8 (demo_key (CHR ''0''))" by (rule demo_key_utf8) simp
  from create_for_descriptor_verifies [OF demo_artifact_codecs this demo_artifact_created fits] that show ?thesis
    by (auto simp: verify_sshsig_proof_def d)
qed

text \<open>
  C32. Signing and verifying a file. A proof created for a file verifies for every file with the same
  contents, in whatever pieces the two reads return them, and reports the persona and the key it was
  created with.
\<close>

theorem signed_file_verifies:
  assumes "artifact_codecs E" and "list_all (\<lambda>c. c \<noteq> []) chunks" "list_all (\<lambda>c. c \<noteq> []) chunks'"
    and "concat chunks' = concat chunks" "length (concat chunks) < 2 ^ 64"
    and "create_sshsig_proof E path (Some (map Some chunks)) private_path key_path key_file persona = Ok pf"
    and "length (pb_payload pf) \<le> MAX_PROOF_BYTES"
  shows "\<exists>report key. verify_sshsig_proof E path' (Some (map Some chunks')) pf = Ok report \<and>
    vs_persona (vr_signer report) = persona \<and>
    read_public_key E key_path key_file = Ok key \<and>
    public_key_fingerprint E key = Ok (vs_key_fingerprint (vr_signer report))"
proof -
  let ?artifact = "artifact_descriptor E (concat chunks) (of_nat (length (concat chunks)))"
  have described: "describe_artifact E path (Some (map Some chunks)) = Ok ?artifact"
    "describe_artifact E path' (Some (map Some chunks')) = Ok ?artifact"
    using describe_reader_chunks [of chunks 0 E path "[]"] describe_reader_chunks [of chunks' 0 E path' "[]"] assms(2-5)
    by (simp_all add: describe_artifact_def)
  from assms(6) obtain key where key: "read_public_key E key_path key_file = Ok key"
    "create_sshsig_proof_for_descriptor E ?artifact private_path key persona = Ok pf"
    by (auto simp: create_sshsig_proof_def described(1))
  from key(1) obtain raw where raw: "is_utf8 raw" "normalize_public_key E raw = Ok key" by (auto simp: read_public_key_def split: if_splits)
  note idem = normalize_public_key_idem [OF raw]
  have "create_sshsig_proof_for_descriptor E ?artifact private_path raw persona = Ok pf"
    using key(2) raw(2) idem by (simp add: create_sshsig_proof_for_descriptor_def)
  from create_for_descriptor_verifies [OF assms(1) raw(1) this assms(7)] fingerprint_of_normalized [OF raw] key(1)
  show ?thesis by (auto simp: verify_sshsig_proof_def described(2))
qed

theorem signed_file_verifies_witness:
  "\<exists>report. verify_sshsig_proof demo_artifact_ext ''g'' (Some (map Some [[7, 7]])) demo_bundle = Ok report \<and>
     vs_persona (vr_signer report) = ''p''"
proof -
  have "length (pb_payload demo_bundle) \<le> MAX_PROOF_BYTES" by (simp add: demo_bundle_def MAX_PROOF_BYTES_def)
  from signed_file_verifies [OF demo_artifact_codecs _ _ _ _ demo_file_signed this, of "[[7, 7]]" "''g''"]
  show ?thesis by auto
qed

text \<open>
  C33. What a verified artifact proof establishes. Verification for a descriptor succeeds exactly when
  the payload under a supported envelope is the valid statement about this very descriptor, the key in
  the proof has the fingerprint the statement names, and this key signed the payload; the report then
  says verified for the integrity and the signature and names the statement's persona as self asserted.
\<close>

theorem artifact_verification:
  "verify_sshsig_proof_for_descriptor E descriptor pf = Ok report \<longleftrightarrow>
     (\<exists>payload public_key statement.
        decode_sshsig_payload E pf SSHSIG_NAMESPACE = Ok (payload, public_key) \<and>
        artifact_from_json E payload = Ok statement \<and> validate_statement E statement = Ok () \<and>
        descriptor = as_artifact statement \<and>
        public_key_fingerprint E public_key = Ok (sc_key_fingerprint (as_signer statement)) \<and>
        sshsig_verify E payload (se_value (pb_signature pf)) public_key SSHSIG_NAMESPACE = Ok () \<and>
        report = \<lparr>vr_artifact_integrity = Verified, vr_signature = Verified,
         vr_signer = \<lparr>vs_persona = sc_persona (as_signer statement),
                      vs_key_fingerprint = sc_key_fingerprint (as_signer statement),
                      vs_identity_binding = ''self_asserted''\<rparr>,
         vr_not_established = artifact_not_established\<rparr>)"
  by (rule verify_for_descriptor_Ok_iff)

text \<open>
  C34. Tampering. A proof that verifies for two files establishes that their contents are equal, unless
  SHA-256 maps both contents to the same digest.
\<close>

theorem artifact_proof_binds_contents:
  assumes "verify_sshsig_proof E path (Some (map Some chunks)) pf = Ok report"
    and "verify_sshsig_proof E path' (Some (map Some chunks')) pf = Ok report'"
    and "list_all (\<lambda>c. c \<noteq> []) chunks" "list_all (\<lambda>c. c \<noteq> []) chunks'"
    and "length (concat chunks) < 2 ^ 64" "length (concat chunks') < 2 ^ 64"
    and "inj_on (sha256_hex E) {concat chunks, concat chunks'}"
  shows "concat chunks = concat chunks' \<and> report = report'"
proof -
  have d: "describe_artifact E path (Some (map Some chunks)) = Ok (artifact_descriptor E (concat chunks) (of_nat (length (concat chunks))))"
    "describe_artifact E path' (Some (map Some chunks')) = Ok (artifact_descriptor E (concat chunks') (of_nat (length (concat chunks'))))"
    using describe_reader_chunks [of chunks 0 E path "[]"] describe_reader_chunks [of chunks' 0 E path' "[]"] assms(3-6)
    by (simp_all add: describe_artifact_def)
  from assms(1,2) have "artifact_descriptor E (concat chunks) (of_nat (length (concat chunks)))
      = artifact_descriptor E (concat chunks') (of_nat (length (concat chunks')))" "report = report'"
    by (auto simp: verify_sshsig_proof_def d verify_for_descriptor_Ok_iff)
  with assms(7) show ?thesis by (auto simp: artifact_descriptor_def dest: inj_onD)
qed

theorem artifact_proof_binds_contents_witness:
  "\<exists>report. verify_sshsig_proof demo_artifact_ext ''f'' (Some (map Some [[7], [7]])) demo_bundle = Ok report \<and>
     concat [[7], [7 :: byte]] = concat [[7, 7]]"
proof -
  obtain report where r: "verify_sshsig_proof demo_artifact_ext ''f'' (Some (map Some [[7], [7]])) demo_bundle = Ok report"
    by (rule demo_file_verifies [of "[[7], [7]]" "''f''"]) simp_all
  obtain report' where r': "verify_sshsig_proof demo_artifact_ext ''g'' (Some (map Some [[7, 7]])) demo_bundle = Ok report'"
    by (rule demo_file_verifies [of "[[7, 7]]" "''g''"]) simp_all
  from artifact_proof_binds_contents [OF r r'] r show ?thesis by auto
qed

text \<open>
  C35. Live signer bindings. A receipt for a live signer exists only when the key of the receipt signed
  the challenge made of the provider, the locator, the key, its fingerprint and the fresh nonce, and it
  validates against the provider, locator and key it was requested for while the locator is unchanged.
\<close>

theorem live_binding_receipt:
  assumes "is_utf8 key"
    and "prove_live_signer_binding E fs_before fs_after entropy locator key provider = Ok receipt"
  shows "validate_verified_live_signer_binding E fs_after receipt provider locator key (vb_public_key_fingerprint receipt) = Ok () \<and>
    (\<exists>nonce challenge signature. entropy = Some nonce \<and>
      live_signer_binding_challenge (vb_provider receipt) (vb_canonical_locator receipt)
        (vb_normalized_public_key receipt) (vb_public_key_fingerprint receipt) nonce = Ok challenge \<and>
      key_verify E (vb_normalized_public_key receipt) LIVE_SIGNER_BINDING_NAMESPACE challenge signature)"
  using proved_binding_validates [OF assms] proved_binding_signed [OF assms(2)] by blast

theorem live_binding_receipt_witness:
  "\<exists>fs receipt. prove_live_signer_binding demo_ext fs fs (Some [1, 2]) (demo_key (CHR ''0'')) (demo_key (CHR ''0'')) SshAgent = Ok receipt \<and>
     validate_verified_live_signer_binding demo_ext fs receipt SshAgent (demo_key (CHR ''0'')) (demo_key (CHR ''0''))
       (vb_public_key_fingerprint receipt) = Ok ()"
proof -
  let ?identity = "\<lparr>li_length = 1, li_readonly = False, li_modified = (0, 0), li_device = 1, li_inode = 1,
     li_owner = 0, li_mode = 0x180, li_change_time_seconds = 0, li_change_time_nanoseconds = 0\<rparr>"
  let ?fs = "\<lparr>symlink_metadata = (\<lambda>_. Some \<lparr>lm_is_symlink = False, lm_is_file = True, lm_identity = Some ?identity\<rparr>),
     canonicalize = Some\<rparr>"
  have utf8: "is_utf8 (demo_key (CHR ''0''))" by (rule demo_key_utf8) simp
  have demo_lengths: "length (demo_key (CHR ''0'')) < 2 ^ 32" "length (demo_print (CHR ''0'')) < 2 ^ 32"
    by (simp_all add: demo_key_def demo_print_def)
  obtain receipt where r: "prove_live_signer_binding demo_ext ?fs ?fs (Some [1, 2]) (demo_key (CHR ''0'')) (demo_key (CHR ''0'')) SshAgent
      = Ok receipt"
    using utf8 demo_lengths demo_signs [of "demo_key (CHR ''0'')" LIVE_SIGNER_BINDING_NAMESPACE]
    by (simp add: prove_live_signer_binding_def live_signer_locator_snapshot_def live_signer_binding_challenge_def
        challenge_field_def provider_as_str_def LIVE_SIGNER_BINDING_NAMESPACE_def)
  with live_binding_receipt [OF utf8 r] show ?thesis by blast
qed

text \<open>
  Challenges. The challenge a live signer signs determines the provider, the locator, the key, its
  fingerprint and the nonce it was made of, so a signature cannot be replayed for another binding.
\<close>

theorem live_challenge_determines_binding:
  assumes "live_signer_binding_challenge p l k f n = Ok c" and "live_signer_binding_challenge p' l' k' f' n' = Ok c"
  shows "p = p' \<and> l = l' \<and> k = k' \<and> f = f' \<and> n = n'"
  using live_challenge_inj [OF assms] .

theorem live_challenge_determines_binding_witness:
  "\<exists>c p l k f n. live_signer_binding_challenge Fido2 ''/k'' ''a'' ''b'' [1] = Ok c \<and>
     live_signer_binding_challenge p l k f n = Ok c \<and> p = Fido2 \<and> l = ''/k'' \<and> n = [1]"
proof -
  have "is_utf8 ''/k''" by (rule ascii_is_utf8) simp
  then obtain c where c: "live_signer_binding_challenge Fido2 ''/k'' ''a'' ''b'' [1] = Ok c"
    by (simp add: live_signer_binding_challenge_def challenge_field_def provider_as_str_def)
  with live_challenge_determines_binding [OF c c] show ?thesis by blast
qed

text \<open>
  Writing a proof. Writing a new proof never changes a file that exists, nor any other path; when
  it reports success the path was free and now holds the encoded proof and a final newline.
\<close>

theorem write_proof_new_creates_only:
  "(fs other \<noteq> None \<or> other \<noteq> path \<longrightarrow> snd (write_proof_new E fs path pf fault) other = fs other) \<and>
   (fst (write_proof_new E fs path pf fault) = Ok () \<longrightarrow>
     fs path = None \<and> (\<exists>bs. bundle_to_json_pretty E pf = Ok bs \<and> snd (write_proof_new E fs path pf fault) path = Some (bs @ [10])))"
  using write_proof_new_keeps [of fs other path E pf fault]
  by (auto simp: write_proof_new_def split: result.splits write_fault.splits if_splits)

theorem write_proof_new_creates_only_witness:
  "snd (write_proof_new demo_artifact_ext Map.empty ''f'' demo_bundle NoFault) ''f'' = Some ([9] @ [10])"
proof -
  have json: "bundle_to_json_pretty demo_artifact_ext demo_bundle = Ok [9]" by (simp add: demo_artifact_ext_def demo_to_def)
  then have "fst (write_proof_new demo_artifact_ext Map.empty ''f'' demo_bundle NoFault) = Ok ()" by (simp add: write_proof_new_def)
  with write_proof_new_creates_only [of Map.empty "''g''" "''f''" demo_artifact_ext demo_bundle NoFault] json show ?thesis by auto
qed

section \<open>Text shown to the user\<close>

text \<open>
  C40. Escaping. The text made of untrusted bytes for a diagnostic consists of printable ASCII
  characters other than quotes, contains no unsafe display character, is bounded whatever the length of
  the input, and distinguishes inputs of at most 256 bytes.
\<close>

theorem escaped_text_safe:
  "list_all terminal_safe (escape_untrusted_bytes_for_terminal bs) \<and>
   \<not> contains_unsafe_display_characters (escape_untrusted_bytes_for_terminal bs) \<and>
   length (escape_untrusted_bytes_for_terminal bs) \<le> 1027 \<and>
   (length bs \<le> 256 \<and> length bs' \<le> 256 \<longrightarrow>
     (escape_untrusted_bytes_for_terminal bs = escape_untrusted_bytes_for_terminal bs' \<longleftrightarrow> bs = bs'))"
  using escape_safe [of _ bs] terminal_safe_display [of "escape_untrusted_bytes_for_terminal bs"] escape_length [of bs]
    escape_bytes_inj [of bs bs'] by (auto simp: list_all_iff escape_short)

theorem escaped_text_safe_witness:
  "escape_untrusted_bytes_for_terminal [27] \<noteq> escape_untrusted_bytes_for_terminal [28]"
  using escaped_text_safe [of "[27]" "[28]"] by simp

end
