(* ===== verification/Recovery_Properties.thy ===== *)
theory Recovery_Properties
  imports Demo
begin

text \<open>
  The properties of recovery policies and recovery-aware histories, each applied to the concrete
  persona of the theory Demo where it has hypotheses.
\<close>

section \<open>Verified histories\<close>

text \<open>
  C1. Refinement. The verification of a root, an ordered list of entries and a list of policies
  succeeds with a given head exactly when the policies verify as a policy sequence at the expected
  digests, every entry verifies under them, the entries form an abstract history from the root's head
  to that head, the number of entries is within the limit, every signed checkpoint of a policy names
  the entry it claims, and no recovery key is ever an online key.
\<close>

theorem recovery_verification_refines_history:
  "(\<exists>c. verify_persona_continuity_chain_with_recovery_with_verified_sequence E rp ts pps d pd now = Ok c \<and>
       vrc_root c = root \<and> vrc_policies c = policies \<and> vrc_transitions c = vs \<and> recovery_chain_head c = h) \<longleftrightarrow>
     length ts \<le> entry_limit ts \<and> validate_jcs_time ContinuityCheckTime now = Ok () \<and>
     verified_recovery_policy_sequence E rp pps d pd = Ok \<lparr>vps_root = root, vps_policies = policies\<rparr> \<and>
     recovery_history E root policies ts vs h \<and> policies_fit root vs policies"
  by (rule recovery_chain_refines_history)

text \<open>
  C6. Authorisation. Every entry of a verified history was authorised by its kind: a routine
  transition by the previous and the next key, a recovery by a quorum of the recovery keys of the
  policy that governs its sequence together with the next key's proof of custody, and a terminal
  revocation, which can only be the last entry, by a quorum of the latest policy.
\<close>

theorem every_entry_authorised:
  assumes "verify_persona_continuity_chain_with_recovery_with_verified_sequence E rp ts pps d pd now = Ok c"
    and "i < length (vrc_transitions c)"
  shows "case vrc_transitions c ! i of
      VerifiedRoutine v \<Rightarrow> \<exists>pf. ts ! i = RoutineProof pf \<and> verify_persona_transition_proof E pf = Ok v
    | VerifiedRecovery v \<Rightarrow> \<exists>pf. ts ! i = RecoveryProof pf \<and> recovery_authorised E (vrc_policies c) v pf
    | VerifiedTerminal v \<Rightarrow> \<exists>pf. ts ! i = TerminalProof pf \<and> terminal_authorised E (last (vrc_policies c)) v pf \<and>
        i + 1 = length ts"
  using assms by (rule verified_recovery_entry)

theorem every_entry_authorised_witness:
  "\<exists>pf. demo_entries ! 1 = RecoveryProof pf \<and>
     recovery_authorised demo_ext [demo_verified_policy, demo_verified_update] demo_verified_recovery pf"
  using every_entry_authorised [OF demo_chain_ended(1) [unfolded demo_verify_def], of 1]
  unfolding demo_chain_ended(3,4) by (simp add: demo_verified_def demo_entries_def)

text \<open>
  C7. Finality. Once a history is terminally revoked, no longer history verifies, whatever policies,
  expected digests and check time it is verified with, and no receipt extends it: each of the three
  extension checks answers that the persona is terminally revoked.
\<close>

theorem terminal_revocation_is_final:
  assumes "verify_persona_continuity_chain_with_recovery_with_verified_sequence E rp ts pps d pd now = Ok c"
    and "ra_terminally_revoked (vrc_report c)"
  shows "(us = [] \<or> \<not> is_Ok (verify_persona_continuity_chain_with_recovery_with_verified_sequence E rp' (ts @ us) pps' d' pd' now')) \<and>
    ra_current_key_fingerprint (vrc_report c) = None \<and>
    validate_verified_recovery_aware_continuity_chain_routine_extension c r1 = chain_mismatch (TerminalChainReason TerminallyRevoked) \<and>
    validate_verified_recovery_aware_continuity_chain_extension c r2 = chain_mismatch (TerminalChainReason TerminallyRevoked) \<and>
    validate_verified_recovery_aware_continuity_chain_terminal_revocation_extension c r3
      = chain_mismatch (TerminalChainReason TerminallyRevoked)"
  using assms reported_terminal(1,3) [OF assms(1)] terminal_not_continued [of ts us E rp' pps' d' pd' now']
  by (auto simp: validate_verified_recovery_aware_continuity_chain_routine_extension_def
      validate_verified_recovery_aware_continuity_chain_extension_def validate_recovery_aware_transition_at_head_def
      validate_verified_recovery_aware_continuity_chain_terminal_revocation_extension_def Let_def)

theorem terminal_revocation_is_final_witness:
  "ra_terminally_revoked (vrc_report (demo_chain 3 2)) \<and>
   \<not> is_Ok (verify_persona_continuity_chain_with_recovery_with_verified_sequence demo_ext demo_root_proof
      (take 3 demo_entries @ [TerminalProof demo_terminal_proof]) [demo_policy_proof] (demo_digest 1) (demo_digest 3) 500)"
proof -
  have "ra_terminally_revoked (vrc_report (demo_chain 3 2))"
    using reported_terminal(3) [OF demo_chain_ended(1) [unfolded demo_verify_def]]
    by (simp add: demo_entries_def is_terminal_def)
  with terminal_revocation_is_final [OF demo_chain_ended(1) [unfolded demo_verify_def]] show ?thesis by blast
qed



text \<open>
  C9. Key separation. In a verified history no recovery key of any policy was ever an online key, so
  no key that signed a recovery or a terminal revocation as an authority was ever an online key.
\<close>

theorem recovery_keys_never_online:
  assumes "verify_persona_continuity_chain_with_recovery_with_verified_sequence E rp ts pps d pd now = Ok c"
    and "key \<in> online_keys (vrc_root c) (vrc_transitions c)"
  shows "(\<forall>p\<in>set (vrc_policies c). key \<notin> set (ps_recovery_key_fingerprints (vp_statement p))) \<and>
    (\<forall>v. VerifiedRecovery v \<in> set (vrc_transitions c) \<longrightarrow> key \<notin> set (vrt_recovery_signer_fingerprints v)) \<and>
    (\<forall>v. VerifiedTerminal v \<in> set (vrc_transitions c) \<longrightarrow> key \<notin> set (vtr_recovery_signer_fingerprints v))"
proof -
  have sep: "key \<notin> set (ps_recovery_key_fingerprints (vp_statement p))" if "p \<in> set (vrc_policies c)" for p
    using verified_recovery_history(2) [OF assms(1)] that assms(2) by (auto simp: policies_fit_def)
  note nonempty = verified_policy_sequence_facts(2) [OF verified_recovery_history(3) [OF assms(1)]]
  have "key \<notin> set (vrt_recovery_signer_fingerprints v)" if v: "VerifiedRecovery v \<in> set (vrc_transitions c)" for v
  proof -
    obtain i where "i < length (vrc_transitions c)" "vrc_transitions c ! i = VerifiedRecovery v" using v by (metis in_set_conv_nth)
    with verified_recovery_entry [OF assms(1), of i] obtain pf where "recovery_authorised E (vrc_policies c) v pf" by auto
    with sep governing_policy_member show ?thesis by (fastforce simp: recovery_authorised_def quorum_of_def)
  qed
  moreover have "key \<notin> set (vtr_recovery_signer_fingerprints v)" if v: "VerifiedTerminal v \<in> set (vrc_transitions c)" for v
  proof -
    obtain i where "i < length (vrc_transitions c)" "vrc_transitions c ! i = VerifiedTerminal v" using v by (metis in_set_conv_nth)
    with verified_recovery_entry [OF assms(1), of i] obtain pf where "terminal_authorised E (last (vrc_policies c)) v pf" by auto
    with sep nonempty show ?thesis by (fastforce simp: terminal_authorised_def quorum_of_def)
  qed
  ultimately show ?thesis using sep by blast
qed

theorem recovery_keys_never_online_witness:
  "demo_print (CHR ''1'') \<notin> set (vrt_recovery_signer_fingerprints demo_verified_recovery)"
proof -
  have "demo_print (CHR ''1'') \<in> online_keys (vrc_root (demo_chain 3 2)) (vrc_transitions (demo_chain 3 2))"
    unfolding demo_chain_ended(4)
    by (simp add: online_keys_def next_keys_def demo_verified_def view_of_def routine_view_def demo_verified_transition_def
        demo_transition_def)
  with recovery_keys_never_online [OF demo_chain_ended(1) [unfolded demo_verify_def]] show ?thesis
    unfolding demo_chain_ended(4) by (auto simp: demo_verified_def)
qed

text \<open>
  C10. Receipts and batches agree. A verified history extended by one more proof verifies as a whole
  exactly when the proof alone verifies with a receipt and the receipt passes the extension check
  against the verified history, for each of the three kinds of entry.
\<close>

theorem extension_agrees_with_batch:
  assumes "verify_persona_continuity_chain_with_recovery_with_verified_sequence E rp ts pps d pd now = Ok c"
  shows "(is_Ok (verify_persona_continuity_chain_with_recovery_with_verified_sequence E rp (ts @ [RoutineProof pf]) pps d pd now) \<longleftrightarrow>
      (\<exists>receipt. verify_persona_transition_proof_with_receipt E pf = Ok receipt \<and>
        validate_verified_recovery_aware_continuity_chain_routine_extension c receipt = Ok ())) \<and>
    (is_Ok (verify_persona_continuity_chain_with_recovery_with_verified_sequence E rp (ts @ [RecoveryProof pf']) pps d pd now) \<longleftrightarrow>
      (\<exists>p receipt. verify_recovery_transition_proof_with_receipt E (vrc_root c) p pf' = Ok receipt \<and>
        validate_verified_recovery_aware_continuity_chain_extension c receipt = Ok ())) \<and>
    (is_Ok (verify_persona_continuity_chain_with_recovery_with_verified_sequence E rp (ts @ [TerminalProof pf'']) pps d pd now) \<longleftrightarrow>
      (\<exists>p receipt. verify_terminal_persona_revocation_proof_with_receipt E (vrc_root c) p pf'' = Ok receipt \<and>
        validate_verified_recovery_aware_continuity_chain_terminal_revocation_extension c receipt = Ok ()))"
  using extends_by_routine_iff [OF assms] extends_by_recovery_iff [OF assms] extends_by_terminal_iff [OF assms] by blast

theorem extension_agrees_with_batch_witness:
  "\<exists>p receipt. verify_recovery_transition_proof_with_receipt demo_ext demo_verified_root p demo_recovery_proof = Ok receipt \<and>
     validate_verified_recovery_aware_continuity_chain_extension (demo_chain 1 1) receipt = Ok ()"
proof -
  have "take 1 demo_entries @ [RecoveryProof demo_recovery_proof] = take 2 demo_entries" by (simp add: demo_entries_def)
  with extension_agrees_with_batch [OF demo_chain_routine(1) [unfolded demo_verify_def], of demo_transition_proof
      demo_recovery_proof demo_terminal_proof] demo_chain_recovered(1) [unfolded demo_verify_def]
  show ?thesis unfolding demo_chain_routine(2) by simp
qed

section \<open>Recovery policies\<close>

text \<open>
  C11. Superseded policies. A recovery in a verified history names, by version and digest, the last
  policy whose checkpoint precedes the recovery's sequence, so no earlier policy can authorise a
  recovery beyond the checkpoint of its successor.
\<close>

theorem latest_preceding_policy_governs:
  assumes "verify_persona_continuity_chain_with_recovery_with_verified_sequence E rp ts pps d pd now = Ok c"
    and "VerifiedRecovery v \<in> set (vrc_transitions c)"
  shows "\<exists>i<length (vrc_policies c).
    unat (rts_recovery_policy_version (vrt_statement v)) = i + 1 \<and>
    rts_recovery_policy_sha256 (vrt_statement v) = vp_policy_statement_sha256 (vrc_policies c ! i) \<and>
    (\<forall>j<length (vrc_policies c).
      cp_transition_sequence (ps_continuity_checkpoint (vp_statement (vrc_policies c ! j))) < rts_sequence (vrt_statement v)
        \<longleftrightarrow> j \<le> i)"
proof -
  let ?cp = "\<lambda>j. cp_transition_sequence (ps_continuity_checkpoint (vp_statement (vrc_policies c ! j)))"
  note facts = verified_policy_sequence_facts [OF verified_recovery_history(3) [OF assms(1)]]
  obtain k where "k < length (vrc_transitions c)" "vrc_transitions c ! k = VerifiedRecovery v"
    using assms(2) by (metis in_set_conv_nth)
  with verified_recovery_entry [OF assms(1), of k] obtain p where "governing_policy (vrc_policies c) (vrt_statement v) p"
    by (auto simp: recovery_authorised_def)
  then obtain i where i: "i < length (vrc_policies c)" "p = vrc_policies c ! i"
    "vp_policy_statement_sha256 p = rts_recovery_policy_sha256 (vrt_statement v)"
    "ps_policy_version (vp_statement p) = rts_recovery_policy_version (vrt_statement v)" "?cp i < rts_sequence (vrt_statement v)"
    "Suc i < length (vrc_policies c) \<Longrightarrow> rts_sequence (vrt_statement v) \<le> ?cp (Suc i)"
    unfolding governing_policy_def by blast
  have below: "?cp j < rts_sequence (vrt_statement v)" if "j \<le> i" for j
    using policy_history_monotone [OF facts(7) that i(1)] i(5) by (meson le_less_trans)
  have above: "\<not> ?cp j < rts_sequence (vrt_statement v)" if "i < j" "j < length (vrc_policies c)" for j
  proof -
    have "?cp (Suc i) \<le> ?cp j" using policy_history_monotone [OF facts(7), of "Suc i" j] that by simp
    moreover have "rts_sequence (vrt_statement v) \<le> ?cp (Suc i)" using i(6) that by simp
    ultimately show ?thesis by (simp add: not_less)
  qed
  have "\<forall>j<length (vrc_policies c). ?cp j < rts_sequence (vrt_statement v) \<longleftrightarrow> j \<le> i"
    using below above not_le by blast
  with i policy_history_versions [OF facts(7) i(1)] show ?thesis by metis
qed

theorem latest_preceding_policy_governs_witness:
  "\<exists>i<length (vrc_policies (demo_chain 3 2)). unat (rts_recovery_policy_version (vrt_statement demo_verified_recovery)) = i + 1"
proof -
  have "VerifiedRecovery demo_verified_recovery \<in> set (vrc_transitions (demo_chain 3 2))"
    unfolding demo_chain_ended(4) by (simp add: demo_verified_def)
  from latest_preceding_policy_governs [OF demo_chain_ended(1) [unfolded demo_verify_def] this] show ?thesis by blast
qed



text \<open>
  C14. Thresholds. The check of a set of authority signatures succeeds exactly when there are between
  the minimum and the number of allowed keys of them (and between 2 and 32), each is a valid signature
  of the payload under the namespace by an allowed key, no key signed twice, and every allowed key
  signed where all are required; it returns the sorted fingerprints of the signers.
\<close>

theorem threshold_signatures:
  assumes "distinct allowed"
  shows "verify_authority_signatures E payload signatures allowed minimum require_all namespace = Ok fingerprints \<longleftrightarrow>
    minimum \<le> length signatures \<and> length signatures \<le> length allowed \<and>
    2 \<le> length signatures \<and> length signatures \<le> 32 \<and>
    (\<exists>fs. list_all2 (authority_signed E payload namespace) signatures fs \<and> distinct fs \<and>
      set fs \<subseteq> set allowed \<and> (require_all \<longrightarrow> set fs = set allowed) \<and> fingerprints = sort fs)"
  using verify_authority_signatures_iff [OF assms] by (simp add: authority_quorum_def)

theorem threshold_signatures_witness:
  "\<not> is_Ok (verify_authority_signatures demo_ext [5] [demo_recovery_signature RECOVERY_TRANSITION_AUTHORITY_NAMESPACE 5 (CHR ''7'')]
     [demo_print (CHR ''7'')] 1 False RECOVERY_TRANSITION_AUTHORITY_NAMESPACE)"
  unfolding is_Ok_iff by (subst threshold_signatures) simp_all

text \<open>
  Order of signatures. Permuting the authority signatures of a proof changes neither whether they
  are accepted nor the fingerprints reported.
\<close>

theorem signature_order_irrelevant:
  assumes "distinct allowed" and "mset signatures = mset signatures'"
  shows "verify_authority_signatures E payload signatures allowed minimum require_all namespace = Ok fingerprints \<longleftrightarrow>
    verify_authority_signatures E payload signatures' allowed minimum require_all namespace = Ok fingerprints"
proof -
  have *: "authority_quorum E payload namespace ys allowed minimum require_all fingerprints"
    if q: "authority_quorum E payload namespace xs allowed minimum require_all fingerprints" and perm: "mset xs = mset ys" for xs ys
  proof -
    from q obtain fs where fs: "list_all2 (authority_signed E payload namespace) xs fs" "distinct fs" "set fs \<subseteq> set allowed"
      "require_all \<longrightarrow> set fs = set allowed" "fingerprints = sort fs" by (auto simp: authority_quorum_def)
    from list_all2_reorder_left_invariance [OF fs(1) perm [symmetric]] obtain gs where
      gs: "list_all2 (authority_signed E payload namespace) ys gs" "mset fs = mset gs" by metis
    have "distinct gs" "set gs = set fs" "sort gs = sort fs"
      using gs(2) fs(2) mset_eq_imp_distinct_iff [OF gs(2)] mset_eq_setD [OF gs(2)]
      by (auto intro!: properties_for_sort)
    with gs(1) fs(3-5) have "\<exists>fs. list_all2 (authority_signed E payload namespace) ys fs \<and> distinct fs \<and>
        set fs \<subseteq> set allowed \<and> (require_all \<longrightarrow> set fs = set allowed) \<and> fingerprints = sort fs" by metis
    with q mset_eq_length [OF perm] show ?thesis by (simp add: authority_quorum_def)
  qed
  show ?thesis unfolding verify_authority_signatures_iff [OF assms(1)]
    using * [of signatures signatures'] * [of signatures' signatures] assms(2) by auto
qed

theorem signature_order_irrelevant_witness:
  "verify_authority_signatures demo_ext [5] (map (demo_recovery_signature RECOVERY_TRANSITION_AUTHORITY_NAMESPACE 5) ''79'')
     (ps_recovery_key_fingerprints demo_policy) 2 False RECOVERY_TRANSITION_AUTHORITY_NAMESPACE = Ok (map demo_print ''79'')"
proof -
  have "distinct (ps_recovery_key_fingerprints demo_policy)" by (simp add: demo_policy_def)
  moreover have "mset (map (demo_recovery_signature RECOVERY_TRANSITION_AUTHORITY_NAMESPACE 5) ''79'')
    = mset (map (demo_recovery_signature RECOVERY_TRANSITION_AUTHORITY_NAMESPACE 5) ''97'')" by simp
  ultimately show ?thesis using signature_order_irrelevant demo_policy_quorums(4) by blast
qed

section \<open>Creation\<close>

text \<open>
  Created policy updates verify. When a policy update is created against a valid previous policy,
  its signatures fit the signature limit and its statement belongs to the root, the proof verifies as
  the update of that policy and yields the statement it was created from. The hypothesis on the codecs
  is that decoding inverts encoding.
\<close>

theorem created_policy_update_verifies:
  assumes "recovery_codecs E"
    and "\<forall>s\<in>set previous_signers. is_utf8 (signer_public_key s)" "\<forall>s\<in>set current_signers. is_utf8 (signer_public_key s)"
    and "validate_recovery_policy_statement E (vp_statement previous) = Ok ()"
    and "create_recovery_policy_update_proof E statement previous previous_signers current_signers = Ok pf"
    and "\<And>ps cs. pp_authorization pf = Update ps cs \<Longrightarrow> list_all recovery_signature_fits (ps @ cs)"
    and "validate_policy_root_binding root statement = Ok ()"
  shows "\<exists>p. verify_recovery_policy_update_proof E root previous pf = Ok p \<and> vp_statement p = statement"
  using create_update_verifies [OF assms] .

theorem created_policy_update_verifies_witness:
  "\<exists>pf p. create_recovery_policy_update_proof demo_ext demo_policy_update demo_verified_policy (map demo_signer ''97'')
       (map demo_signer ''89'') = Ok pf \<and>
     verify_recovery_policy_update_proof demo_ext demo_verified_root demo_verified_policy pf = Ok p \<and>
     vp_statement p = demo_policy_update"
proof -
  obtain ps where ps: "sign_with_authorities demo_ext [4] (map demo_signer ''97'') (ps_recovery_key_fingerprints demo_policy) 2
      False RECOVERY_POLICY_UPDATE_PREVIOUS_NAMESPACE = Ok ps" "list_all recovery_signature_fits ps"
    using demo_signings(1) by blast
  obtain cs where cs: "sign_with_authorities demo_ext [4] (map demo_signer ''89'') (ps_recovery_key_fingerprints demo_policy_update)
      2 True RECOVERY_POLICY_UPDATE_CURRENT_NAMESPACE = Ok cs" "list_all recovery_signature_fits cs"
    using demo_signings(2) by blast
  let ?pf = "\<lparr>pp_schema = RECOVERY_POLICY_PROOF_SCHEMA, pp_payload = base64url_encode demo_ext [4], pp_authorization = Update ps cs\<rparr>"
  have fields: "ps_threshold demo_policy = 2" "length (ps_recovery_key_fingerprints demo_policy_update) = 2"
    "vp_statement demo_verified_policy = demo_policy"
    by (simp_all add: demo_policy_def demo_policy_update_def demo_verified_policy_def)
  have successor: "validate_policy_successor demo_ext demo_verified_policy demo_policy_update = Ok ()"
    by (simp add: validate_policy_successor_def demo_verified_policy_def)
      (simp add: demo_policy_def demo_policy_update_def checked_add_def Let_def)
  have created: "create_recovery_policy_update_proof demo_ext demo_policy_update demo_verified_policy (map demo_signer ''97'')
      (map demo_signer ''89'') = Ok ?pf"
    using ps(1) cs(1) successor fields by (simp add: create_recovery_policy_update_proof_def del: list.map)
  have "\<exists>p. verify_recovery_policy_update_proof demo_ext demo_verified_root demo_verified_policy ?pf = Ok p \<and>
      vp_statement p = demo_policy_update"
  proof (rule created_policy_update_verifies [OF demo_codecs _ _ _ created])
    show "validate_policy_root_binding demo_verified_root demo_policy_update = Ok ()"
      by (simp add: validate_policy_root_binding_def demo_verified_root_def demo_policy_update_def demo_policy_def demo_root_def)
    show "validate_recovery_policy_statement demo_ext (vp_statement demo_verified_policy) = Ok ()" by (simp add: fields)
  qed (use ps(2) cs(2) in \<open>auto simp: list_all_iff\<close>)
  with created show ?thesis by blast
qed

text \<open>
  C28. Created recoveries verify. When a recovery transition is created under a valid policy, its
  signatures fit the signature limit and its statement is bound to the root and the policy, the proof
  verifies and yields the statement it was created from.
\<close>

theorem created_recovery_verifies:
  assumes "recovery_codecs E" and "\<forall>s\<in>set signers. is_utf8 (signer_public_key s)" "is_utf8 next_key"
    and "validate_recovery_policy_statement E (vp_statement p) = Ok ()"
    and "create_recovery_transition_proof E statement p signers path next_key = Ok pf"
    and "list_all recovery_signature_fits (rtp_recovery_signatures pf)" "recovery_signature_fits (rtp_next_signature pf)"
    and "validate_recovery_transition_binding E root p statement = Ok ()"
  shows "\<exists>v. verify_recovery_transition_proof E root p pf = Ok v \<and> vrt_statement v = statement"
  using create_recovery_verifies [OF assms] .

theorem created_recovery_verifies_witness:
  "\<exists>pf v. create_recovery_transition_proof demo_ext demo_recovery demo_verified_policy (map demo_signer ''97'')
       (demo_key (CHR ''2'')) (demo_key (CHR ''2'')) = Ok pf \<and>
     verify_recovery_transition_proof demo_ext demo_verified_root demo_verified_policy pf = Ok v \<and> vrt_statement v = demo_recovery"
proof -
  obtain ss where ss: "sign_with_authorities demo_ext [5] (map demo_signer ''97'') (ps_recovery_key_fingerprints demo_policy) 2
      False RECOVERY_TRANSITION_AUTHORITY_NAMESPACE = Ok ss" "list_all recovery_signature_fits ss"
    using demo_signings(3) by blast
  let ?next = "demo_recovery_signature RECOVERY_TRANSITION_NEXT_NAMESPACE 5 (CHR ''2'')"
  let ?pf = "\<lparr>rtp_schema = RECOVERY_TRANSITION_PROOF_SCHEMA, rtp_payload = base64url_encode demo_ext [5],
      rtp_recovery_signatures = ss, rtp_next_signature = ?next\<rparr>"
  have fields: "ps_threshold demo_policy = 2" "vp_statement demo_verified_policy = demo_policy"
    "rts_next_key_fingerprint demo_recovery = demo_print (CHR ''2'')"
    by (simp_all add: demo_policy_def demo_recovery_def demo_verified_policy_def)
  have bind: "validate_recovery_transition_binding demo_ext demo_verified_root demo_verified_policy demo_recovery = Ok ()"
    using demo_recovery_verifies
    by (auto simp: verify_recovery_transition_proof_def verify_recovery_transition_proof_with_receipt_def demo_verified_recovery_def)
  have created: "create_recovery_transition_proof demo_ext demo_recovery demo_verified_policy (map demo_signer ''97'')
       (demo_key (CHR ''2'')) (demo_key (CHR ''2'')) = Ok ?pf"
    using ss(1) bind fields demo_signs [of "demo_key (CHR ''2'')" RECOVERY_TRANSITION_NEXT_NAMESPACE]
    by (simp add: create_recovery_transition_proof_def sign_one_def require_fingerprint_def demo_recovery_signature_def
        validate_recovery_transition_binding_def demo_namespaces del: list.map)
  have fits: "recovery_signature_fits ?next"
    by (simp add: recovery_signature_fits_def demo_namespaces MAX_CONTINUITY_SIGNATURE_BYTES_def)
  have "\<exists>v. verify_recovery_transition_proof demo_ext demo_verified_root demo_verified_policy ?pf = Ok v \<and>
      vrt_statement v = demo_recovery"
    by (rule created_recovery_verifies [OF demo_codecs _ _ _ created _ _ bind])
      (use ss(2) fits in \<open>auto simp: fields intro!: demo_key_utf8\<close>)
  with created show ?thesis by blast
qed

text \<open>
  Created terminal revocations verify. When a terminal revocation is created under a valid policy,
  its signatures fit the signature limit and its statement is bound to the root and the policy, the
  proof verifies and yields the statement it was created from.
\<close>

theorem created_terminal_revocation_verifies:
  assumes "recovery_codecs E" and "\<forall>s\<in>set signers. is_utf8 (signer_public_key s)"
    and "validate_recovery_policy_statement E (vp_statement p) = Ok ()"
    and "create_terminal_persona_revocation_proof E statement p signers = Ok pf"
    and "list_all recovery_signature_fits (trp_recovery_signatures pf)"
    and "validate_terminal_persona_revocation_binding E root p statement = Ok ()"
  shows "\<exists>v. verify_terminal_persona_revocation_proof E root p pf = Ok v \<and> vtr_statement v = statement"
  using create_terminal_verifies [OF assms] .

theorem created_terminal_revocation_verifies_witness:
  "\<exists>pf v. create_terminal_persona_revocation_proof demo_ext demo_terminal demo_verified_update (map demo_signer ''98'') = Ok pf \<and>
     verify_terminal_persona_revocation_proof demo_ext demo_verified_root demo_verified_update pf = Ok v \<and> vtr_statement v = demo_terminal"
proof -
  obtain ss where ss: "sign_with_authorities demo_ext [6] (map demo_signer ''98'') (ps_recovery_key_fingerprints demo_policy_update) 2
      False TERMINAL_PERSONA_REVOCATION_AUTHORITY_NAMESPACE = Ok ss" "list_all recovery_signature_fits ss"
    using demo_signings(4) by blast
  let ?pf = "\<lparr>trp_schema = TERMINAL_PERSONA_REVOCATION_PROOF_SCHEMA, trp_payload = base64url_encode demo_ext [6],
      trp_recovery_signatures = ss\<rparr>"
  have fields: "ps_threshold demo_policy_update = 2" "vp_statement demo_verified_update = demo_policy_update"
    by (simp_all add: demo_policy_update_def demo_policy_def demo_verified_update_def)
  have bind: "validate_terminal_persona_revocation_binding demo_ext demo_verified_root demo_verified_update demo_terminal = Ok ()"
    using demo_terminal_verifies
    by (auto simp: verify_terminal_persona_revocation_proof_def verify_terminal_persona_revocation_proof_with_receipt_def
        demo_verified_terminal_def)
  have created: "create_terminal_persona_revocation_proof demo_ext demo_terminal demo_verified_update (map demo_signer ''98'') = Ok ?pf"
    using ss(1) bind fields
    by (simp add: create_terminal_persona_revocation_proof_def validate_terminal_persona_revocation_binding_def del: list.map)
  have "\<exists>v. verify_terminal_persona_revocation_proof demo_ext demo_verified_root demo_verified_update ?pf = Ok v \<and>
      vtr_statement v = demo_terminal"
    by (rule created_terminal_revocation_verifies [OF demo_codecs _ _ created _ bind])
      (use ss(2) in \<open>auto simp: fields\<close>)
  with created show ?thesis by blast
qed

end
