(* ===== verification/Ceremony_Properties.thy ===== *)
theory Ceremony_Properties
  imports Demo
begin

text \<open>
  The properties of the distributed recovery ceremony (\<^verbatim>\<open>recovery_ceremony.rs\<close>): which responses assemble, what an
  assembled proof does to the history, that the order of the responses does not matter, that a signed
  response is accepted, and the bound on the work of a request. Each is applied to the ceremony of \<open>Demo\<close>.
\<close>

text \<open>
  C25. For a verified request, the assembly succeeds exactly when there are between one and thirty-three
  responses, each of them verifies, no participant gave two different responses, at least the threshold of
  recovery authorities answered, and the next key answered. Nothing else can make it fail: in particular
  the final verification of the assembled proof never rejects it.
\<close>

theorem ceremony_assembles_exactly:
  assumes "recovery_codecs E" "verify_recovery_ceremony_request E request t0 = Ok v"
  shows "is_Ok (assemble_recovery_ceremony_proof E v rs t) \<longleftrightarrow>
    rs \<noteq> [] \<and> length rs \<le> 33 \<and> (\<forall>r\<in>set rs. is_Ok (verify_recovery_ceremony_response E v r t)) \<and>
    inj_on cr_participant_fingerprint (set rs) \<and>
    unat (ps_threshold (vp_statement (vq_selected_policy v))) \<le> card {r \<in> set rs. cr_role r = RecoveryAuthority} \<and>
    {r \<in> set rs. cr_role r = NextKey} \<noteq> {}"
proof (cases "rs = []")
  case False
  have verify: "is_Ok (verify_recovery_ceremony_response E v r t) \<longleftrightarrow> ceremony_open v t \<and> response_valid E v r" for r
    unfolding is_Ok_iff verify_response_iff by blast
  have "(\<forall>r\<in>set rs. is_Ok (verify_recovery_ceremony_response E v r t)) \<and> inj_on cr_participant_fingerprint (set rs) \<longleftrightarrow>
      (\<exists>d. try_fold (collect_response E v t) [] rs = Ok d)"
    using collect_all_iff [of E v t rs] unfolding verify is_Ok_iff [of "try_fold _ _ _"] by blast
  then have coll: "(\<forall>r\<in>set rs. is_Ok (verify_recovery_ceremony_response E v r t)) \<and> inj_on cr_participant_fingerprint (set rs) \<Longrightarrow>
      \<exists>d. collected rs d" using collecting.loop_keeps_from_start [OF collected_Nil] by blast
  have "ceremony_open v t" if "\<forall>r\<in>set rs. is_Ok (verify_recovery_ceremony_response E v r t)"
    using that False unfolding verify by (cases rs) auto
  with False coll show ?thesis unfolding is_Ok_iff [of "assemble_recovery_ceremony_proof E v rs t"] assemble_iff [OF assms] verify
    by blast
qed (simp add: is_Ok_iff assemble_iff [OF assms])

theorem ceremony_assembles_exactly_witness:
  "\<exists>v. verify_recovery_ceremony_request demo_ext demo_request 500 = Ok v \<and>
     is_Ok (assemble_recovery_ceremony_proof demo_ext v demo_responses 600) \<and>
     \<not> is_Ok (assemble_recovery_ceremony_proof demo_ext v (tl demo_responses) 600)"
proof -
  obtain v where v: "verify_recovery_ceremony_request demo_ext demo_request 500 = Ok v" "vq_request v = demo_request"
    "vq_request_sha256 v = demo_digest 7" "vq_statement_payload v = [5]" "vq_selected_policy v = demo_verified_policy"
    "vq_verified_at v = 500" by (rule demo_request_verifies)
  note exactly = ceremony_assembles_exactly [OF demo_codecs v(1)]
  have verify: "is_Ok (verify_recovery_ceremony_response demo_ext v r 600)" if "r \<in> set demo_responses" for r
    unfolding is_Ok_iff verify_response_iff using demo_open [OF v(2,6)] demo_response_valid [OF v(2-5) that] by blast
  have threshold: "unat (ps_threshold (vp_statement (vq_selected_policy v))) = 2"
    by (simp add: v(5) demo_verified_policy_def demo_policy_def)
  have "is_Ok (assemble_recovery_ceremony_proof demo_ext v demo_responses 600)"
    unfolding exactly threshold using verify demo_responses_facts by auto
  moreover have "{r \<in> set (tl demo_responses). cr_role r = RecoveryAuthority} = {demo_response RecoveryAuthority (CHR ''7'')}"
    by (auto simp: demo_responses_def)
  then have "\<not> is_Ok (assemble_recovery_ceremony_proof demo_ext v (tl demo_responses) 600)"
    unfolding exactly threshold by simp
  ultimately show ?thesis using v(1) by blast
qed

text \<open>
  C29. The assembled proof depends only on which responses there are: responses in another order, or with
  repetitions, give the same proof.
\<close>

theorem assembly_ignores_order:
  assumes "recovery_codecs E" "verify_recovery_ceremony_request E request t0 = Ok v"
    and "assemble_recovery_ceremony_proof E v rs t = Ok pf" "set rs' = set rs" "length rs' \<le> 33"
  shows "assemble_recovery_ceremony_proof E v rs' t = Ok pf"
proof -
  have "collected rs' d \<longleftrightarrow> collected rs d" for d using assms(4) by (simp add: collected_def)
  moreover have "rs' \<noteq> []" using assms(3,4) unfolding assemble_iff [OF assms(1,2)] by auto
  ultimately show ?thesis using assms(3,4,5) unfolding assemble_iff [OF assms(1,2)] by simp
qed

theorem assembly_ignores_order_witness:
  "\<exists>v pf. assemble_recovery_ceremony_proof demo_ext v demo_responses 600 = Ok pf \<and>
     assemble_recovery_ceremony_proof demo_ext v (rev demo_responses @ demo_responses) 600 = Ok pf"
proof -
  obtain v pf where v: "verify_recovery_ceremony_request demo_ext demo_request 500 = Ok v"
    "assemble_recovery_ceremony_proof demo_ext v demo_responses 600 = Ok pf" by (rule demo_assembles)
  from assembly_ignores_order [OF demo_codecs v, of "rev demo_responses @ demo_responses"] v(2)
  show ?thesis using demo_responses_facts(2) by auto
qed

text \<open>
  C30. A response that a participant signs for a verified request is accepted at every later moment before
  the ceremony expires.
\<close>

theorem signed_response_verifies:
  assumes "sign_recovery_ceremony_request E v signer t = Ok r"
    and "t \<le> t'" "t' \<le> MAX_JCS_SAFE_INTEGER" "rts_expires_at (vq_statement v) = Some e" "t' < e"
  shows "verify_recovery_ceremony_response E v r t' = Ok \<lparr>vcr_response = r\<rparr>"
  using signed_response_valid [OF assms(1)] assms(2-5) by (auto simp: verify_response_iff ceremony_open_iff)

theorem signed_response_verifies_witness:
  "\<exists>v r. sign_recovery_ceremony_request demo_ext v (demo_signer (CHR ''9'')) 600 = Ok r \<and>
     verify_recovery_ceremony_response demo_ext v r 999 = Ok \<lparr>vcr_response = r\<rparr>"
proof -
  obtain v where v: "vq_request v = demo_request" "sign_recovery_ceremony_request demo_ext v (demo_signer (CHR ''9'')) 600
    = Ok (demo_response RecoveryAuthority (CHR ''9''))" by (rule demo_participant_signs)
  have "rts_expires_at (vq_statement v) = Some 1000" by (simp add: v(1) demo_request_def demo_recovery_fields)
  from signed_response_verifies [OF v(2) _ _ this, of 999] v(2) show ?thesis
    by (intro exI [of _ v]) (simp add: MAX_JCS_SAFE_INTEGER_def)
qed

text \<open>
  C31. A verified request carries at most 2048 signatures, its root signature included, at most sixty-four
  policies and at most 4096 prior entries.
\<close>

theorem verified_request_is_bounded:
  assumes "verify_recovery_ceremony_request E request t = Ok v"
  shows "request_signatures request \<le> 2048 \<and> length (cq_recovery_policies request) \<le> MAX_RECOVERY_POLICY_VERSIONS \<and>
    length (cq_prior_transitions request) \<le> MAX_CONTINUITY_TRANSITIONS"
proof -
  from verified_request_facts(7) [OF assms] have "validate_request_structure E request = Ok ()"
    by (auto simp: canonical_recovery_ceremony_request_bytes_def)
  then have "length (cq_recovery_policies request) \<le> MAX_RECOVERY_POLICY_VERSIONS \<and>
      length (cq_prior_transitions request) \<le> MAX_CONTINUITY_TRANSITIONS"
    unfolding validate_request_structure_def by (simp only: and_then_Ok_iff if_Err_Ok_iff not_less de_Morgan_disj) blast
  with verified_request_work [OF assms] show ?thesis by blast
qed

theorem verified_request_is_bounded_witness:
  "is_Ok (verify_recovery_ceremony_request demo_ext demo_request 500) \<and> request_signatures demo_request \<le> 2048"
proof -
  obtain v where v: "verify_recovery_ceremony_request demo_ext demo_request 500 = Ok v" by (rule demo_request_verifies)
  with verified_request_is_bounded [OF v] show ?thesis by simp
qed

end
