(* ===== verification/Domain_Control.thy ===== *)
theory Domain_Control
  imports Artifact
begin

text \<open>
  Domain control proofs (\<^verbatim>\<open>src/crates/a-quo-core/src/domain.rs\<close>) and their live evaluation against DNS
  answers (\<^verbatim>\<open>src/crates/a-quo-domain/src/lib.rs\<close>).

  The IDNA conversion, the JSON encoding of a statement and the resolver are code outside the
  repository: the record \<open>domain_ext\<close> holds them, and what a lookup returns is an argument.
\<close>

section \<open>Strings and addresses of the standard library\<close>

definition to_ascii_lowercase_char :: "char \<Rightarrow> char" where
  "to_ascii_lowercase_char c = (let n = of_char c :: nat in if 65 \<le> n \<and> n \<le> 90 then char_of (n + 32) else c)"

definition to_ascii_lowercase :: "string \<Rightarrow> string" where
  "to_ascii_lowercase s = map to_ascii_lowercase_char s"

definition str_contains :: "string \<Rightarrow> string \<Rightarrow> bool" where
  "str_contains pat s \<longleftrightarrow> list_ex (\<lambda>i. take (length pat) (drop i s) = pat) [0..<length s + 1]"

definition starts_with :: "string \<Rightarrow> string \<Rightarrow> bool" where
  "starts_with pat s \<longleftrightarrow> take (length pat) s = pat"

definition ends_with :: "string \<Rightarrow> string \<Rightarrow> bool" where
  "ends_with pat s \<longleftrightarrow> length pat \<le> length s \<and> drop (length s - length pat) s = pat"

text \<open>\<^verbatim>\<open>str::split\<close> on one character: always at least one part.\<close>

fun split_on :: "char \<Rightarrow> string \<Rightarrow> string list" where
  "split_on c [] = [[]]"
| "split_on c (x # xs) = (if x = c then [] # split_on c xs else (x # hd (split_on c xs)) # tl (split_on c xs))"

text \<open>
  \<^verbatim>\<open>IpAddr::from_str\<close>: the recursive descent parser of \<^verbatim>\<open>core::net\<close>, each reader returning what it read
  and the rest of the input, or \<^term>\<open>None\<close>.
\<close>

definition to_digit :: "nat \<Rightarrow> char \<Rightarrow> nat option" where
  "to_digit radix c =
     (let n = of_char c :: nat;
          d = (if 48 \<le> n \<and> n \<le> 57 then n - 48
               else if 97 \<le> n \<and> n \<le> 122 then n - 87
               else if 65 \<le> n \<and> n \<le> 90 then n - 55 else 36)
      in if d < radix then Some d else None)"

fun read_digits :: "nat \<Rightarrow> nat \<Rightarrow> nat \<Rightarrow> nat \<Rightarrow> string \<Rightarrow> (nat \<times> nat \<times> string) option" where
  "read_digits radix max_digits value_so_far digits [] = Some (value_so_far, digits, [])"
| "read_digits radix max_digits value_so_far digits (c # cs) =
     (case to_digit radix c of
        None \<Rightarrow> Some (value_so_far, digits, c # cs)
      | Some d \<Rightarrow> if max_digits < digits + 1 then None
                  else read_digits radix max_digits (value_so_far * radix + d) (digits + 1) cs)"

definition read_number :: "nat \<Rightarrow> nat \<Rightarrow> nat \<Rightarrow> bool \<Rightarrow> string \<Rightarrow> string option" where
  "read_number radix bound max_digits allow_zero_prefix s =
     (case read_digits radix max_digits 0 0 s of
        None \<Rightarrow> None
      | Some (number, digits, rest) \<Rightarrow>
          if digits = 0 then None
          else if \<not> allow_zero_prefix \<and> take 1 s = ''0'' \<and> 1 < digits then None
          else if bound < number then None else Some rest)"

definition read_given_char :: "char \<Rightarrow> string \<Rightarrow> string option" where
  "read_given_char c s = (case s of [] \<Rightarrow> None | x # xs \<Rightarrow> if x = c then Some xs else None)"

definition read_separator :: "char \<Rightarrow> nat \<Rightarrow> (string \<Rightarrow> string option) \<Rightarrow> string \<Rightarrow> string option" where
  "read_separator sep i inner s = (if i = 0 then inner s else Option.bind (read_given_char sep s) inner)"

definition read_octet :: "nat \<Rightarrow> string \<Rightarrow> string option" where
  "read_octet i = read_separator CHR ''.'' i (read_number 10 255 3 False)"

definition read_ipv4_addr :: "string \<Rightarrow> string option" where
  "read_ipv4_addr s =
     Option.bind (read_octet 0 s) (\<lambda>s. Option.bind (read_octet 1 s) (\<lambda>s. Option.bind (read_octet 2 s) (read_octet 3)))"

text \<open>\<^verbatim>\<open>read_groups\<close> with room for \<open>limit\<close> groups: how many were read and whether they end in an IPv4 address.\<close>

function read_groups :: "nat \<Rightarrow> nat \<Rightarrow> string \<Rightarrow> nat \<times> bool \<times> string" where
  "read_groups limit i s =
     (if limit \<le> i then (limit, False, s)
      else case (if i < limit - 1 then read_separator CHR '':'' i read_ipv4_addr s else None) of
        Some rest \<Rightarrow> (i + 2, True, rest)
      | None \<Rightarrow> (case read_separator CHR '':'' i (read_number 16 65535 4 True) s of
           Some rest \<Rightarrow> read_groups limit (i + 1) rest
         | None \<Rightarrow> (i, False, s)))"
  by pat_completeness auto
termination by (relation "measure (\<lambda>(limit, i, s). limit - i)") auto

declare read_groups.simps [simp del]

definition read_ipv6_addr :: "string \<Rightarrow> string option" where
  "read_ipv6_addr s =
     (case read_groups 8 0 s of (head_size, head_ipv4, rest) \<Rightarrow>
        if head_size = 8 then Some rest
        else if head_ipv4 then None
        else Option.bind (read_given_char CHR '':'' rest) (\<lambda>rest.
             Option.bind (read_given_char CHR '':'' rest) (\<lambda>rest.
             Some (snd (snd (read_groups (8 - (head_size + 1)) 0 rest))))))"

definition is_ip_addr :: "string \<Rightarrow> bool" where
  "is_ip_addr s \<longleftrightarrow> (case read_ipv4_addr s of Some rest \<Rightarrow> rest = []
     | None \<Rightarrow> (case read_ipv6_addr s of Some rest \<Rightarrow> rest = [] | None \<Rightarrow> False))"

section \<open>Statements\<close>

definition DOMAIN_CONTROL_STATEMENT_SCHEMA :: string where
  "DOMAIN_CONTROL_STATEMENT_SCHEMA = ''urn:a-quo:statement:domain-control:v1''"
definition DOMAIN_CONTROL_NAMESPACE :: string where "DOMAIN_CONTROL_NAMESPACE = ''a-quo-domain-control-v1''"
definition DOMAIN_DEFAULT_VALIDITY_SECONDS :: i64 where "DOMAIN_DEFAULT_VALIDITY_SECONDS = 7 * 24 * 60 * 60"
definition DOMAIN_MAX_VALIDITY_SECONDS :: i64 where "DOMAIN_MAX_VALIDITY_SECONDS = 30 * 24 * 60 * 60"
definition DOMAIN_CLOCK_SKEW_SECONDS :: i64 where "DOMAIN_CLOCK_SKEW_SECONDS = 5 * 60"
definition DOMAIN_NONCE_BYTES :: nat where "DOMAIN_NONCE_BYTES = 32"
definition DNS_COMMITMENT_CONTEXT :: bytes where
  "DNS_COMMITMENT_CONTEXT = as_bytes (''a-quo-domain-dns-txt-v1'' @ [char_of (0 :: nat)])"
definition DNS_TXT_PREFIX :: string where "DNS_TXT_PREFIX = ''a-quo-domain-v1=''"
definition MAX_DNS_NAME_BYTES :: nat where "MAX_DNS_NAME_BYTES = 253"

record DomainControlStatement =
  dc_schema :: string
  dc_domain :: string
  dc_nonce :: string
  dc_issued_at :: i64
  dc_expires_at :: i64
  dc_signer :: SignerClaim

record DomainControlVerification =
  dv_signature :: EvidenceStatus
  dv_validity :: EvidenceStatus
  dv_domain :: string
  dv_dns_record_name :: string
  dv_dns_txt_value :: string
  dv_issued_at :: i64
  dv_expires_at :: i64
  dv_signer :: VerifiedSigner
  dv_not_established :: "string list"

record DomainControlReview =
  dr_domain :: string
  dr_dns_record_name :: string
  dr_dns_txt_value :: string
  dr_issued_at :: i64
  dr_expires_at :: i64
  dr_signer :: SignerClaim

text \<open>\<^verbatim>\<open>idna::domain_to_ascii_strict\<close>, the JSON codec of a statement, and \<^verbatim>\<open>Name::from_ascii\<close>.\<close>

record domain_ext = ext +
  domain_to_ascii_strict :: "string \<Rightarrow> string option"
  domain_to_json :: "DomainControlStatement \<Rightarrow> (bytes, json_error) result"
  domain_from_json :: "bytes \<Rightarrow> (DomainControlStatement, json_error) result"

definition SPECIAL_SUFFIXES :: "string list" where
  "SPECIAL_SUFFIXES = [''alt'', ''example'', ''example.com'', ''example.net'', ''example.org'', ''home.arpa'', ''invalid'',
     ''local'', ''localhost'', ''onion'', ''test'']"

definition is_special_use_domain :: "string \<Rightarrow> bool" where
  "is_special_use_domain domain \<longleftrightarrow>
     list_ex (\<lambda>suffix. domain = suffix \<or> ends_with (''.'' @ suffix) domain) SPECIAL_SUFFIXES"

definition label_byte :: "char \<Rightarrow> bool" where
  "label_byte c \<longleftrightarrow> (let n = of_char c :: nat in (97 \<le> n \<and> n \<le> 122) \<or> (48 \<le> n \<and> n \<le> 57) \<or> n = 45)"

definition invalid_label :: "string \<Rightarrow> bool" where
  "invalid_label label \<longleftrightarrow> label = [] \<or> 63 < length label \<or> starts_with ''-'' label \<or> ends_with ''-'' label \<or>
     \<not> list_all label_byte label"

definition canonicalize_domain :: "'z domain_ext_scheme \<Rightarrow> string \<Rightarrow> string res" where
  "canonicalize_domain E input =
     (if input = [] \<or> str_trim input \<noteq> input
      then Err (InvalidDomain ''the name cannot be empty or contain surrounding whitespace'')
      else if contains_unsafe_display_characters input
      then Err (InvalidDomain ''control, line/paragraph separator, or default-ignorable Unicode characters are not allowed'')
      else if str_contains ''://'' input \<or> CHR ''/'' \<in> set input \<or> CHR 0x5C \<in> set input \<or> CHR ''@'' \<in> set input
        \<or> CHR '':'' \<in> set input \<or> starts_with ''*.'' input
      then Err (InvalidDomain ''expected one DNS name, not a URL, wildcard, address, or host with a port'')
      else let without_root = (if ends_with ''.'' input then butlast input else input)
      in if without_root = [] \<or> ends_with ''.'' without_root
      then Err (InvalidDomain ''the name contains an empty DNS label'')
      else and_then (ok_or (InvalidDomain ''strict IDNA conversion failed'') (domain_to_ascii_strict E without_root)) (\<lambda>converted.
      let ascii = to_ascii_lowercase converted
      in if MAX_DNS_NAME_BYTES < length ascii
      then Err (InvalidDomain ''the DNS name exceeds 253 ASCII bytes'')
      else if is_ip_addr ascii
      then Err (InvalidDomain ''IP address literals are not domain names'')
      else let labels = split_on CHR ''.'' ascii
      in if length labels < 2
      then Err (InvalidDomain ''a global DNS name requires at least two labels'')
      else if list_ex invalid_label labels
      then Err (InvalidDomain ''the name contains an invalid ASCII DNS label'')
      else if is_special_use_domain ascii
      then Err (InvalidDomain ''special-use and documentation domains cannot carry a global control proof'')
      else Ok ascii))"

definition validate_nonce :: "'z ext_scheme \<Rightarrow> string \<Rightarrow> unit res" where
  "validate_nonce E nonce =
     and_then (map_err (\<lambda>_. InvalidDomainChallenge ''the nonce must be canonical unpadded Base64url'')
       (base64url_decode E nonce)) (\<lambda>decoded.
     if length decoded \<noteq> DOMAIN_NONCE_BYTES \<or> base64url_encode E decoded \<noteq> nonce
     then Err (InvalidDomainChallenge ''the nonce must encode exactly 32 random bytes'')
     else Ok ())"

definition validate_validity :: "i64 \<Rightarrow> i64 \<Rightarrow> unit res" where
  "validate_validity issued_at expires_at =
     (if issued_at < 0 \<or> expires_at < 0
      then Err (InvalidDomainValidity ''timestamps cannot be negative'')
      else and_then (ok_or (InvalidDomainValidity ''expiry must follow issuance'') (i64_checked_sub expires_at issued_at)) (\<lambda>duration.
      if duration \<le> 0 then Err (InvalidDomainValidity ''expiry must follow issuance'')
      else if DOMAIN_MAX_VALIDITY_SECONDS < duration
      then Err (InvalidDomainValidity ''the validity window cannot exceed 2592000 seconds'')
      else Ok ()))"

definition validate_current_time :: "DomainControlStatement \<Rightarrow> i64 \<Rightarrow> unit res" where
  "validate_current_time statement now =
     (if i64_saturating_add now DOMAIN_CLOCK_SKEW_SECONDS < dc_issued_at statement
      then Err (DomainProofNotYetValid now (dc_issued_at statement))
      else if dc_expires_at statement < i64_saturating_sub now DOMAIN_CLOCK_SKEW_SECONDS
      then Err (DomainProofExpired now (dc_expires_at statement))
      else Ok ())"

definition validate_domain_statement :: "'z domain_ext_scheme \<Rightarrow> DomainControlStatement \<Rightarrow> unit res" where
  "validate_domain_statement E statement =
     (if dc_schema statement \<noteq> DOMAIN_CONTROL_STATEMENT_SCHEMA
      then Err (Unsupported StatementSchemaField (escape_untrusted_text_for_terminal (dc_schema statement)))
      else and_then (canonicalize_domain E (dc_domain statement)) (\<lambda>canonical.
      if canonical \<noteq> dc_domain statement
      then Err (InvalidDomain ''the signed name is not in canonical lowercase ASCII A-label form'')
      else and_then (validate_nonce E (dc_nonce statement)) (\<lambda>_.
      and_then (validate_validity (dc_issued_at statement) (dc_expires_at statement)) (\<lambda>_.
      and_then (validate_persona (sc_persona (dc_signer statement))) (\<lambda>_.
      and_then (validate_key_fingerprint E (sc_key_fingerprint (dc_signer statement))) (\<lambda>_. Ok ()))))))"

definition dns_txt_commitment :: "'z ext_scheme \<Rightarrow> bytes \<Rightarrow> string" where
  "dns_txt_commitment E payload = DNS_TXT_PREFIX @ base64url_encode E (sha256 E (DNS_COMMITMENT_CONTEXT @ payload))"

section \<open>Creating, reviewing and verifying a proof\<close>

text \<open>The 32 random bytes are an argument, or that none were available.\<close>

definition new_domain_control_statement ::
  "'z domain_ext_scheme \<Rightarrow> bytes option \<Rightarrow> string \<Rightarrow> i64 \<Rightarrow> i64 \<Rightarrow> string \<Rightarrow> string \<Rightarrow> DomainControlStatement res" where
  "new_domain_control_statement E entropy domain issued_at expires_at public_key persona =
     and_then (canonicalize_domain E domain) (\<lambda>domain.
     and_then (validate_validity issued_at expires_at) (\<lambda>_.
     and_then (validate_persona persona) (\<lambda>persona.
     and_then (normalize_public_key E public_key) (\<lambda>public_key.
     and_then (ok_or EntropyUnavailable entropy) (\<lambda>nonce.
     and_then (public_key_fingerprint E public_key) (\<lambda>key_fingerprint.
     Ok \<lparr>dc_schema = DOMAIN_CONTROL_STATEMENT_SCHEMA, dc_domain = domain, dc_nonce = base64url_encode E nonce,
         dc_issued_at = issued_at, dc_expires_at = expires_at,
         dc_signer = \<lparr>sc_persona = persona, sc_key_fingerprint = key_fingerprint\<rparr>\<rparr>))))))"

definition canonical_domain_control_statement_bytes :: "'z domain_ext_scheme \<Rightarrow> DomainControlStatement \<Rightarrow> bytes res" where
  "canonical_domain_control_statement_bytes E statement =
     and_then (validate_domain_statement E statement) (\<lambda>_. map_err Json (domain_to_json E statement))"

definition create_domain_control_proof_for_statement ::
  "'z domain_ext_scheme \<Rightarrow> DomainControlStatement \<Rightarrow> string \<Rightarrow> string \<Rightarrow> ProofBundle res" where
  "create_domain_control_proof_for_statement E statement private_key_path public_key =
     and_then (canonical_domain_control_statement_bytes E statement) (\<lambda>payload.
     and_then (normalize_public_key E public_key) (\<lambda>public_key.
     and_then (public_key_fingerprint E public_key) (\<lambda>fingerprint.
     if fingerprint \<noteq> sc_key_fingerprint (dc_signer statement) then Err FingerprintMismatch
     else create_sshsig_payload_proof E payload private_key_path public_key DOMAIN_CONTROL_NAMESPACE)))"

definition create_domain_control_proof_with_public_key ::
  "'z domain_ext_scheme \<Rightarrow> bytes option \<Rightarrow> string \<Rightarrow> i64 \<Rightarrow> i64 \<Rightarrow> string \<Rightarrow> string \<Rightarrow> string \<Rightarrow> ProofBundle res" where
  "create_domain_control_proof_with_public_key E entropy domain issued_at expires_at private_key_path public_key persona =
     and_then (new_domain_control_statement E entropy domain issued_at expires_at public_key persona) (\<lambda>statement.
     create_domain_control_proof_for_statement E statement private_key_path public_key)"

definition create_domain_control_proof ::
  "'z domain_ext_scheme \<Rightarrow> bytes option \<Rightarrow> string \<Rightarrow> i64 \<Rightarrow> i64 \<Rightarrow> string \<Rightarrow> string \<Rightarrow> FileView \<Rightarrow> string \<Rightarrow> ProofBundle res" where
  "create_domain_control_proof E entropy domain issued_at expires_at private_key_path public_key_path public_key_file persona =
     and_then (read_public_key E public_key_path public_key_file) (\<lambda>public_key.
     create_domain_control_proof_with_public_key E entropy domain issued_at expires_at private_key_path public_key persona)"

definition review_domain_control_statement ::
  "'z domain_ext_scheme \<Rightarrow> DomainControlStatement \<Rightarrow> i64 \<Rightarrow> string \<Rightarrow> string \<Rightarrow> DomainControlReview res" where
  "review_domain_control_statement E statement now public_key persona =
     and_then (canonical_domain_control_statement_bytes E statement) (\<lambda>payload.
     if now < 0 then Err (InvalidDomainValidity ''review time cannot be negative'')
     else and_then (validate_current_time statement now) (\<lambda>_.
     and_then (validate_persona persona) (\<lambda>persona.
     if sc_persona (dc_signer statement) \<noteq> persona then Err DomainPersonaMismatch
     else and_then (normalize_public_key E public_key) (\<lambda>public_key.
     and_then (public_key_fingerprint E public_key) (\<lambda>fingerprint.
     if fingerprint \<noteq> sc_key_fingerprint (dc_signer statement) then Err FingerprintMismatch
     else Ok \<lparr>dr_domain = dc_domain statement, dr_dns_record_name = dc_domain statement @ ''.'',
              dr_dns_txt_value = dns_txt_commitment E payload, dr_issued_at = dc_issued_at statement,
              dr_expires_at = dc_expires_at statement, dr_signer = dc_signer statement\<rparr>)))))"

definition review_domain_control_statement_bytes ::
  "'z domain_ext_scheme \<Rightarrow> bytes \<Rightarrow> i64 \<Rightarrow> string \<Rightarrow> string \<Rightarrow> (DomainControlStatement \<times> DomainControlReview) res" where
  "review_domain_control_statement_bytes E bs now public_key persona =
     and_then (map_err Json (domain_from_json E bs)) (\<lambda>statement.
     and_then (review_domain_control_statement E statement now public_key persona) (\<lambda>review.
     and_then (canonical_domain_control_statement_bytes E statement) (\<lambda>canonical.
     if canonical \<noteq> bs then Err NonCanonicalDomainStatement else Ok (statement, review))))"

definition domain_not_established :: "string list" where
  "domain_not_established = [''dns_publication'', ''legal_domain_ownership'', ''registrant_identity'',
     ''parent_or_subdomain_control'', ''website_content_control'', ''historical_dns_control'', ''trusted_timestamp'']"

definition verify_domain_control_proof :: "'z domain_ext_scheme \<Rightarrow> ProofBundle \<Rightarrow> i64 \<Rightarrow> DomainControlVerification res" where
  "verify_domain_control_proof E pf now =
     (if now < 0 then Err (InvalidDomainValidity ''verification time cannot be negative'')
      else and_then (decode_sshsig_payload E pf DOMAIN_CONTROL_NAMESPACE) (\<lambda>(payload, public_key).
      and_then (map_err Json (domain_from_json E payload)) (\<lambda>statement.
      and_then (review_domain_control_statement E statement now public_key (sc_persona (dc_signer statement))) (\<lambda>review.
      and_then (sshsig_verify E payload (se_value (pb_signature pf)) public_key DOMAIN_CONTROL_NAMESPACE) (\<lambda>_.
      Ok \<lparr>dv_signature = Verified, dv_validity = Verified, dv_domain = dr_domain review,
          dv_dns_record_name = dr_dns_record_name review, dv_dns_txt_value = dns_txt_commitment E payload,
          dv_issued_at = dr_issued_at review, dv_expires_at = dr_expires_at review,
          dv_signer = \<lparr>vs_persona = sc_persona (dc_signer statement),
                       vs_key_fingerprint = sc_key_fingerprint (dc_signer statement),
                       vs_identity_binding = ''self_asserted''\<rparr>,
          dv_not_established = domain_not_established\<rparr>)))))"

definition inspect_domain_control_proof :: "'z domain_ext_scheme \<Rightarrow> ProofBundle \<Rightarrow> DomainControlStatement res" where
  "inspect_domain_control_proof E pf =
     and_then (validate_envelope pf DOMAIN_CONTROL_NAMESPACE) (\<lambda>_.
     and_then (decode_payload E (pb_payload pf)) (\<lambda>payload.
     and_then (map_err Json (domain_from_json E payload)) (\<lambda>statement.
     and_then (validate_domain_statement E statement) (\<lambda>_. Ok statement))))"

section \<open>Live evaluation\<close>

datatype PublicationStatus = Matched | Missing

datatype DnssecStatus = Secure | Insecure | Bogus | Indeterminate

datatype DomainControlStatus = VerifiedDnssec | ObservedUnsigned | NotEstablished

record LiveDomainControlVerification =
  lv_signature :: EvidenceStatus
  lv_validity :: EvidenceStatus
  lv_publication :: PublicationStatus
  lv_dnssec :: DnssecStatus
  lv_domain_control :: DomainControlStatus
  lv_domain :: string
  lv_dns_record_name :: string
  lv_dns_txt_value :: string
  lv_issued_at :: i64
  lv_expires_at :: i64
  lv_checked_at :: i64
  lv_matching_record_ttl_seconds :: "u32 option"
  lv_signer :: VerifiedSigner
  lv_not_established :: "string list"

datatype DomainVerificationError =
    DomainProof ProofError | ResolverConfiguration | ResolverInitialization | InvalidQueryName | LookupTimedOut
  | LookupFailed | ResponseTooLarge | InconsistentDnssec

definition MAX_ANSWER_RECORDS :: nat where "MAX_ANSWER_RECORDS = 64"
definition MAX_TXT_RECORD_BYTES :: nat where "MAX_TXT_RECORD_BYTES = 4 * 1024"
definition MAX_TOTAL_TXT_BYTES :: nat where "MAX_TOTAL_TXT_BYTES = 64 * 1024"

text \<open>
  A resource record as the resolver returns it: its owner name, its time to live, its validation state
  and its data, of which the code distinguishes TXT parts and the two kinds of denial records.
\<close>

datatype HickoryProof = HickorySecure | HickoryInsecure | HickoryBogus | HickoryIndeterminate

datatype RData = TXT "bytes list" | NSEC | NSEC3 | OtherData

record 'name Record =
  rr_name :: 'name
  rr_ttl :: u32
  rr_proof :: HickoryProof
  rr_data :: RData

text \<open>What a lookup fails with: a timeout, no records with the authority section, a denial proof, or another error.\<close>

datatype 'name NetError =
    Timeout | NoRecordsFound "'name Record list option" | Nsec HickoryProof | OtherNetError

definition map_hickory_proof :: "HickoryProof \<Rightarrow> DnssecStatus" where
  "map_hickory_proof p = (case p of HickorySecure \<Rightarrow> Secure | HickoryInsecure \<Rightarrow> Insecure | HickoryBogus \<Rightarrow> Bogus
     | HickoryIndeterminate \<Rightarrow> Indeterminate)"

definition combine_status :: "DnssecStatus option \<Rightarrow> DnssecStatus \<Rightarrow> DnssecStatus" where
  "combine_status status pf =
     (if status = Some Bogus \<or> pf = Bogus then Bogus
      else if status = Some Indeterminate \<or> pf = Indeterminate then Indeterminate
      else if status = Some Insecure \<or> pf = Insecure then Insecure
      else Secure)"

definition no_records_step :: "DnssecStatus option \<times> bool \<Rightarrow> 'name Record \<Rightarrow> DnssecStatus option \<times> bool" where
  "no_records_step s record =
     (case s of (status, has_secure_denial) \<Rightarrow>
        let pf = map_hickory_proof (rr_proof record)
        in (Some (combine_status status pf),
            has_secure_denial \<or> (pf = Secure \<and> (rr_data record = NSEC \<or> rr_data record = NSEC3))))"

definition no_records_dnssec_status :: "'name Record list option \<Rightarrow> DnssecStatus" where
  "no_records_dnssec_status authorities =
     (case (case authorities of None \<Rightarrow> (None, False) | Some records \<Rightarrow> foldl no_records_step (None, False) records) of
        (Some Secure, has_secure_denial) \<Rightarrow> if has_secure_denial then Secure else Indeterminate
      | (None, _) \<Rightarrow> Indeterminate
      | (Some other, _) \<Rightarrow> other)"

definition negative_dnssec_status :: "'name NetError \<Rightarrow> DnssecStatus option" where
  "negative_dnssec_status e =
     (case e of NoRecordsFound no_records \<Rightarrow> Some (no_records_dnssec_status no_records)
      | Nsec pf \<Rightarrow> Some (map_hickory_proof pf) | _ \<Rightarrow> None)"

definition build_report ::
  "DomainControlVerification \<Rightarrow> i64 \<Rightarrow> PublicationStatus \<Rightarrow> DnssecStatus \<Rightarrow> u32 option \<Rightarrow> LiveDomainControlVerification" where
  "build_report portable checked_at publication dnssec matching_record_ttl_seconds =
     (let domain_control = (if publication = Matched \<and> dnssec = Secure then VerifiedDnssec
            else if publication = Matched \<and> dnssec = Insecure then ObservedUnsigned else NotEstablished);
          not_established = (if publication = Matched
            then filter (\<lambda>claim. claim \<noteq> ''dns_publication'') (dv_not_established portable)
            else dv_not_established portable);
          not_established = not_established @ (case domain_control of VerifiedDnssec \<Rightarrow> []
            | ObservedUnsigned \<Rightarrow> [''dnssec_authenticated_domain_control'']
            | NotEstablished \<Rightarrow> [''current_domain_control''])
      in \<lparr>lv_signature = dv_signature portable, lv_validity = dv_validity portable, lv_publication = publication,
          lv_dnssec = dnssec, lv_domain_control = domain_control, lv_domain = dv_domain portable,
          lv_dns_record_name = dv_dns_record_name portable, lv_dns_txt_value = dv_dns_txt_value portable,
          lv_issued_at = dv_issued_at portable, lv_expires_at = dv_expires_at portable, lv_checked_at = checked_at,
          lv_matching_record_ttl_seconds = matching_record_ttl_seconds, lv_signer = dv_signer portable,
          lv_not_established = not_established\<rparr>)"

record AnswerLoop =
  al_total_txt_bytes :: nat
  al_rrset_dnssec :: "DnssecStatus option"
  al_publication :: PublicationStatus
  al_matching_ttl :: "u32 option"

definition txt_bytes :: "bytes list \<Rightarrow> nat option" where
  "txt_bytes parts = foldl (\<lambda>acc part. Option.bind acc (\<lambda>n. usize_checked_add n (length part))) (Some 0) parts"

definition answer_step ::
  "string \<Rightarrow> 'name \<Rightarrow> AnswerLoop \<Rightarrow> 'name Record \<Rightarrow> (AnswerLoop, DomainVerificationError) result" where
  "answer_step expected_value expected_name s record =
     (case rr_data record of
        TXT parts \<Rightarrow>
          and_then (ok_or ResponseTooLarge (txt_bytes parts)) (\<lambda>record_bytes.
          if MAX_TXT_RECORD_BYTES < record_bytes then Err ResponseTooLarge
          else and_then (ok_or ResponseTooLarge (usize_checked_add (al_total_txt_bytes s) record_bytes)) (\<lambda>total_txt_bytes.
          if MAX_TOTAL_TXT_BYTES < total_txt_bytes then Err ResponseTooLarge
          else if rr_name record \<noteq> expected_name then Ok (s\<lparr>al_total_txt_bytes := total_txt_bytes\<rparr>)
          else let record_dnssec = map_hickory_proof (rr_proof record)
          in if (case al_rrset_dnssec s of Some existing \<Rightarrow> existing \<noteq> record_dnssec | None \<Rightarrow> False)
          then Err InconsistentDnssec
          else if record_bytes = length expected_value \<and> concat parts = as_bytes expected_value
          then Ok (s\<lparr>al_total_txt_bytes := total_txt_bytes, al_rrset_dnssec := Some record_dnssec, al_publication := Matched,
                     al_matching_ttl := Some (case al_matching_ttl s of None \<Rightarrow> rr_ttl record
                       | Some current \<Rightarrow> min current (rr_ttl record))\<rparr>)
          else Ok (s\<lparr>al_total_txt_bytes := total_txt_bytes, al_rrset_dnssec := Some record_dnssec\<rparr>)))
      | _ \<Rightarrow> Ok s)"

definition evaluate_records ::
  "DomainControlVerification \<Rightarrow> i64 \<Rightarrow> 'name \<Rightarrow> 'name Record list \<Rightarrow> DnssecStatus option \<Rightarrow>
     (LiveDomainControlVerification, DomainVerificationError) result" where
  "evaluate_records portable checked_at expected_name answers negative_dnssec =
     (if MAX_ANSWER_RECORDS < length answers then Err ResponseTooLarge
      else and_then (try_fold (answer_step (dv_dns_txt_value portable) expected_name)
        \<lparr>al_total_txt_bytes = 0, al_rrset_dnssec = None, al_publication = Missing, al_matching_ttl = None\<rparr> answers) (\<lambda>s.
      let dnssec = (case al_rrset_dnssec s of Some d \<Rightarrow> d
            | None \<Rightarrow> (case negative_dnssec of Some d \<Rightarrow> d | None \<Rightarrow> Indeterminate))
      in Ok (build_report portable checked_at (al_publication s) dnssec (al_matching_ttl s))))"

text \<open>The options of the resolver that the source sets; durations are in seconds.\<close>

datatype ResolveHosts = Always | Auto | Never

record ResolverOpts =
  ro_validate :: bool
  ro_timeout :: nat
  ro_attempts :: nat
  ro_cache_size :: nat
  ro_use_hosts_file :: ResolveHosts
  ro_positive_max_ttl :: "nat option"
  ro_negative_max_ttl :: "nat option"
  ro_num_concurrent_reqs :: nat
  ro_max_active_requests :: nat
  ro_preserve_intermediates :: bool
  ro_try_tcp_on_error :: bool
  ro_case_randomization :: bool

definition DNS_LOOKUP_DEADLINE :: nat where "DNS_LOOKUP_DEADLINE = 12"
definition DNS_REQUEST_TIMEOUT :: nat where "DNS_REQUEST_TIMEOUT = 3"
definition DNS_CACHE_TTL_CAP :: nat where "DNS_CACHE_TTL_CAP = 300"

definition harden_resolver_options :: "ResolverOpts \<Rightarrow> ResolverOpts" where
  "harden_resolver_options options =
     options\<lparr>ro_validate := True, ro_timeout := DNS_REQUEST_TIMEOUT, ro_attempts := 2, ro_cache_size := 32,
       ro_use_hosts_file := Never, ro_positive_max_ttl := Some DNS_CACHE_TTL_CAP, ro_negative_max_ttl := Some DNS_CACHE_TTL_CAP,
       ro_num_concurrent_reqs := 1, ro_max_active_requests := 1, ro_preserve_intermediates := True,
       ro_try_tcp_on_error := True, ro_case_randomization := True\<rparr>"

text \<open>
  The resolver library: how a query name is read, the options of its builder (\<^term>\<open>None\<close> when the system
  configuration cannot be read), whether a resolver with given options can be built, and what a TXT lookup
  with them gives within a deadline (\<^term>\<open>None\<close> when the deadline passes first).
\<close>

record 'name Dns =
  name_from_ascii :: "string \<Rightarrow> 'name option"
  builder_tokio :: "ResolverOpts option"
  builds :: "ResolverOpts \<Rightarrow> bool"
  lookup_txt :: "ResolverOpts \<Rightarrow> nat \<Rightarrow> 'name \<Rightarrow> ('name Record list, 'name NetError) result option"

definition validating_system_resolver :: "'name Dns \<Rightarrow> (ResolverOpts, DomainVerificationError) result" where
  "validating_system_resolver dns =
     and_then (ok_or ResolverConfiguration (builder_tokio dns)) (\<lambda>options.
     let options = harden_resolver_options options
     in if builds dns options then Ok options else Err ResolverInitialization)"

definition verify_domain_control_live ::
  "'z domain_ext_scheme \<Rightarrow> 'name Dns \<Rightarrow> ProofBundle \<Rightarrow> i64 \<Rightarrow>
     (LiveDomainControlVerification, DomainVerificationError) result" where
  "verify_domain_control_live E dns pf now =
     and_then (map_err DomainProof (verify_domain_control_proof E pf now)) (\<lambda>portable.
     and_then (ok_or InvalidQueryName (name_from_ascii dns (dv_dns_record_name portable))) (\<lambda>query_name.
     and_then (validating_system_resolver dns) (\<lambda>resolver.
     and_then (ok_or LookupTimedOut (lookup_txt dns resolver DNS_LOOKUP_DEADLINE query_name)) (\<lambda>lookup.
     case lookup of
       Ok answers \<Rightarrow> evaluate_records portable now query_name answers None
     | Err e \<Rightarrow>
         if e = Timeout then Err LookupTimedOut
         else (case negative_dnssec_status e of
                 Some dnssec \<Rightarrow> evaluate_records portable now query_name [] (Some dnssec)
               | None \<Rightarrow> Err LookupFailed)))))"

lemma validating_system_resolver_Ok:
  assumes "validating_system_resolver dns = Ok options"
  shows "ro_validate options" "ro_use_hosts_file options = Never"
  using assms by (auto simp: validating_system_resolver_def harden_resolver_options_def Let_def split: if_splits)

section \<open>Validity windows\<close>

lemma validate_validity_iff:
  "validate_validity issued_at expires_at = Ok () \<longleftrightarrow>
     0 \<le> issued_at \<and> issued_at < expires_at \<and> expires_at - issued_at \<le> DOMAIN_MAX_VALIDITY_SECONDS"
  by (auto simp: validate_validity_def i64_checked_sub_def DOMAIN_MAX_VALIDITY_SECONDS_def i64_min_def i64_max_def)

text \<open>The current time is an \<^verbatim>\<open>i64\<close>, and both callers reject a negative one.\<close>

lemma validate_current_time_iff:
  assumes "0 \<le> now" "now \<le> i64_max" "dc_issued_at s \<le> i64_max"
  shows "validate_current_time s now = Ok () \<longleftrightarrow>
     dc_issued_at s - DOMAIN_CLOCK_SKEW_SECONDS \<le> now \<and> now \<le> dc_expires_at s + DOMAIN_CLOCK_SKEW_SECONDS"
  using assms
  by (auto simp: validate_current_time_def i64_saturating_add_def i64_saturating_sub_def DOMAIN_CLOCK_SKEW_SECONDS_def
      i64_max_def i64_min_def)

lemma current_time_window:
  assumes "validate_current_time s now = Ok ()" "0 \<le> now" "now \<le> i64_max"
  shows "dc_issued_at s - DOMAIN_CLOCK_SKEW_SECONDS \<le> now" and "now \<le> dc_expires_at s + DOMAIN_CLOCK_SKEW_SECONDS"
  using assms
  by (auto simp: validate_current_time_def i64_saturating_add_def i64_saturating_sub_def DOMAIN_CLOCK_SKEW_SECONDS_def
      i64_max_def i64_min_def split: if_splits)

lemma validate_domain_statement_iff:
  "validate_domain_statement E s = Ok () \<longleftrightarrow>
     dc_schema s = DOMAIN_CONTROL_STATEMENT_SCHEMA \<and> canonicalize_domain E (dc_domain s) = Ok (dc_domain s) \<and>
     validate_nonce E (dc_nonce s) = Ok () \<and> validate_validity (dc_issued_at s) (dc_expires_at s) = Ok () \<and>
     validate_persona (sc_persona (dc_signer s)) = Ok (sc_persona (dc_signer s)) \<and>
     validate_key_fingerprint E (sc_key_fingerprint (dc_signer s)) = Ok ()"
  by (auto simp: validate_domain_statement_def dest: validate_persona_Ok)

lemma verify_domain_Ok_iff:
  "verify_domain_control_proof E pf now = Ok v \<longleftrightarrow>
     0 \<le> now \<and> (\<exists>payload public_key s fingerprint.
       decode_sshsig_payload E pf DOMAIN_CONTROL_NAMESPACE = Ok (payload, public_key) \<and>
       domain_from_json E payload = Ok s \<and> validate_domain_statement E s = Ok () \<and>
       is_Ok (domain_to_json E s) \<and> validate_current_time s now = Ok () \<and>
       normalize_public_key E public_key = Ok fingerprint \<and>
       public_key_fingerprint E fingerprint = Ok (sc_key_fingerprint (dc_signer s)) \<and>
       sshsig_verify E payload (se_value (pb_signature pf)) public_key DOMAIN_CONTROL_NAMESPACE = Ok () \<and>
       v = \<lparr>dv_signature = Verified, dv_validity = Verified, dv_domain = dc_domain s,
          dv_dns_record_name = dc_domain s @ ''.'', dv_dns_txt_value = dns_txt_commitment E payload,
          dv_issued_at = dc_issued_at s, dv_expires_at = dc_expires_at s,
          dv_signer = \<lparr>vs_persona = sc_persona (dc_signer s), vs_key_fingerprint = sc_key_fingerprint (dc_signer s),
                       vs_identity_binding = ''self_asserted''\<rparr>,
          dv_not_established = domain_not_established\<rparr>)"
  by (fastforce simp: verify_domain_control_proof_def review_domain_control_statement_def is_Ok_iff
      canonical_domain_control_statement_bytes_def validate_domain_statement_iff)

text \<open>A proof is accepted only within its validity window, widened by the clock skew on both sides.\<close>

lemma domain_proof_window:
  assumes "verify_domain_control_proof E pf now = Ok v" and "verify_domain_control_proof E pf now' = Ok v'"
    and "now \<le> i64_max" "now' \<le> i64_max"
  shows "now' - now \<le> DOMAIN_MAX_VALIDITY_SECONDS + 2 * DOMAIN_CLOCK_SKEW_SECONDS" and "v = v'"
proof -
  from assms(1) obtain payload k s where s: "decode_sshsig_payload E pf DOMAIN_CONTROL_NAMESPACE = Ok (payload, k)"
    "domain_from_json E payload = Ok s" "validate_domain_statement E s = Ok ()" "validate_current_time s now = Ok ()" "0 \<le> now"
    by (auto simp: verify_domain_Ok_iff)
  from assms(2) s(1,2) have "validate_current_time s now' = Ok ()" "0 \<le> now'" by (auto simp: verify_domain_Ok_iff)
  from current_time_window(2) [OF this assms(4)] current_time_window(1) [OF s(4,5) assms(3)] s(3)
  show "now' - now \<le> DOMAIN_MAX_VALIDITY_SECONDS + 2 * DOMAIN_CLOCK_SKEW_SECONDS"
    by (simp add: validate_domain_statement_iff validate_validity_iff)
  from assms(1,2) s(1,2) show "v = v'" by (auto simp: verify_domain_Ok_iff)
qed

section \<open>Round trips\<close>

definition domain_codecs :: "'z domain_ext_scheme \<Rightarrow> bool" where
  "domain_codecs E \<longleftrightarrow>
     (\<forall>bs. base64url_decode E (base64url_encode E bs) = Ok bs) \<and>
     (\<forall>s bs. domain_to_json E s = Ok bs \<longrightarrow> domain_from_json E bs = Ok s)"

lemma created_domain_proof_verifies:
  assumes codecs: "domain_codecs E" and utf8: "is_utf8 key"
    and created: "create_domain_control_proof_for_statement E s path key = Ok pf"
    and fits: "length (pb_payload pf) \<le> MAX_PROOF_BYTES" and time: "0 \<le> now" "validate_current_time s now = Ok ()"
  shows "\<exists>v payload. verify_domain_control_proof E pf now = Ok v \<and> dv_domain v = dc_domain s \<and>
    canonical_domain_control_statement_bytes E s = Ok payload \<and> dv_dns_txt_value v = dns_txt_commitment E payload \<and>
    vs_key_fingerprint (dv_signer v) = sc_key_fingerprint (dc_signer s)"
proof -
  from created obtain payload k signature where c: "validate_domain_statement E s = Ok ()" "domain_to_json E s = Ok payload"
    "normalize_public_key E key = Ok k" "public_key_fingerprint E k = Ok (sc_key_fingerprint (dc_signer s))"
    "sshsig_verify E payload signature k DOMAIN_CONTROL_NAMESPACE = Ok ()"
    "pf = \<lparr>pb_schema = PROOF_SCHEMA, pb_payload = base64url_encode E payload,
          pb_signature = \<lparr>se_format = ''sshsig'', se_namespace = DOMAIN_CONTROL_NAMESPACE, se_value = signature\<rparr>,
          pb_verification_material = \<lparr>vm_format = ''openssh-public-key'', vm_public_key = k\<rparr>\<rparr>"
    using normalize_public_key_idem [OF utf8, of E]
    by (fastforce simp: create_domain_control_proof_for_statement_def canonical_domain_control_statement_bytes_def
        create_sshsig_payload_proof_def)
  have "normalize_public_key E k = Ok k" using normalize_public_key_idem [OF utf8 c(3)] .
  moreover have "base64url_decode E (base64url_encode E payload) = Ok payload" "domain_from_json E payload = Ok s"
    using codecs c(2) by (auto simp: domain_codecs_def)
  ultimately have "decode_sshsig_payload E pf DOMAIN_CONTROL_NAMESPACE = Ok (payload, k)"
    using fits c(6) by (simp add: decode_sshsig_payload_def validate_envelope_def decode_payload_def require_value_def)
  with c time \<open>domain_from_json E payload = Ok s\<close> \<open>normalize_public_key E k = Ok k\<close> show ?thesis
    by (auto simp: verify_domain_Ok_iff canonical_domain_control_statement_bytes_def is_Ok_iff)
qed

lemma commitment_binds_payload:
  assumes "dns_txt_commitment E payload = dns_txt_commitment E payload'"
    and "\<forall>bs. base64url_decode E (base64url_encode E bs) = Ok bs"
    and "inj_on (sha256 E) {DNS_COMMITMENT_CONTEXT @ payload, DNS_COMMITMENT_CONTEXT @ payload'}"
  shows "payload = payload'"
proof -
  from assms(1) have "base64url_encode E (sha256 E (DNS_COMMITMENT_CONTEXT @ payload))
      = base64url_encode E (sha256 E (DNS_COMMITMENT_CONTEXT @ payload'))" by (simp add: dns_txt_commitment_def)
  then have "sha256 E (DNS_COMMITMENT_CONTEXT @ payload) = sha256 E (DNS_COMMITMENT_CONTEXT @ payload')"
    using assms(2) by (metis result.inject(1))
  with assms(3) show ?thesis by (auto dest: inj_onD)
qed

section \<open>Canonical names\<close>

lemma split_on_nonempty [simp]: "split_on c s \<noteq> []"
  by (cases s) auto

lemma set_split_on: "set s \<subseteq> insert c (\<Union> (set ` set (split_on c s)))"
proof (induction s)
  case (Cons x xs)
  then show ?case by (cases "split_on c xs") auto
qed simp

lemma split_on_snoc: "split_on c (s @ [c]) = split_on c s @ [[]]"
proof (induction s)
  case (Cons x xs)
  then show ?case by (cases "split_on c xs") auto
qed simp

lemma ends_with_one: "ends_with [c] s \<longleftrightarrow> s \<noteq> [] \<and> last s = c"
proof (cases s rule: rev_cases)
  case (snoc ys y)
  then show ?thesis by (auto simp: ends_with_def)
qed (simp add: ends_with_def)

lemma to_ascii_lowercase_idem: "to_ascii_lowercase (to_ascii_lowercase s) = to_ascii_lowercase s"
  by (auto simp: to_ascii_lowercase_def to_ascii_lowercase_char_def Let_def of_char_of)

definition canonical_name :: "string \<Rightarrow> bool" where
  "canonical_name s \<longleftrightarrow> length s \<le> MAX_DNS_NAME_BYTES \<and> \<not> is_ip_addr s \<and> 2 \<le> length (split_on CHR ''.'' s) \<and>
     \<not> list_ex invalid_label (split_on CHR ''.'' s) \<and> \<not> is_special_use_domain s \<and> to_ascii_lowercase s = s"

lemma canonical_name_safe:
  assumes "canonical_name s" "c \<in> set s"
  shows "label_byte c \<or> c = CHR ''.''" and "terminal_safe c"
proof -
  show *: "label_byte c \<or> c = CHR ''.''"
    using assms set_split_on [of s "CHR ''.''"]
    by (fastforce simp: canonical_name_def list_ex_iff invalid_label_def list_all_iff)
  then show "terminal_safe c" by (auto simp: label_byte_def terminal_safe_def Let_def)
qed

lemma terminal_safe_trim: "\<forall>c\<in>set s. terminal_safe c \<and> c \<noteq> CHR '' '' \<Longrightarrow> str_trim s = s"
proof -
  assume safe: "\<forall>c\<in>set s. terminal_safe c \<and> c \<noteq> CHR '' ''"
  then have chars: "utf8_chars s = map (\<lambda>c. (of_char c, [c])) s" by (simp add: terminal_safe_utf8)
  have space: "of_char c \<noteq> (32 :: nat)" if "c \<noteq> CHR '' ''" for c
  proof
    assume "of_char c = (32 :: nat)"
    then have "(of_char c :: nat) = of_char (CHR '' '')" by simp
    with that show False unfolding of_char_eq_iff by blast
  qed
  have small: "\<not> is_whitespace n" if "32 \<le> n" "n \<le> 126" "n \<noteq> 32" for n
    using that unfolding is_whitespace_def by linarith
  have "\<not> is_whitespace (of_char c)" if "c \<in> set s" for c
    using safe that space [of c] by (intro small) (simp_all add: terminal_safe_def Let_def)
  then have "\<forall>x\<in>set (utf8_chars s). \<not> white x"
    by (auto simp: chars white_def)
  moreover have "dropWhile white xs = xs" if "\<forall>x\<in>set xs. \<not> white x" for xs using that by (cases xs) auto
  ultimately have "dropWhile white (utf8_chars s) = utf8_chars s" "dropWhile white (rev (utf8_chars s)) = rev (utf8_chars s)"
    using set_rev by metis+
  then show "str_trim s = s" by (simp add: str_trim_def str_of_utf8_chars)
qed

lemma canonicalize_Ok_iff:
  "canonicalize_domain E d = Ok c \<longleftrightarrow>
     d \<noteq> [] \<and> str_trim d = d \<and> \<not> contains_unsafe_display_characters d \<and>
     \<not> (str_contains ''://'' d \<or> CHR ''/'' \<in> set d \<or> CHR 0x5C \<in> set d \<or> CHR ''@'' \<in> set d
        \<or> CHR '':'' \<in> set d \<or> starts_with ''*.'' d) \<and>
     (let r = (if ends_with ''.'' d then butlast d else d) in
       r \<noteq> [] \<and> \<not> ends_with ''.'' r \<and> (\<exists>a. domain_to_ascii_strict E r = Some a \<and> c = to_ascii_lowercase a)) \<and>
     canonical_name c"
  unfolding canonicalize_domain_def Let_def canonical_name_def and_then_Ok_iff if_Err_Ok_iff ok_or_Ok_iff not_less de_Morgan_disj
  using to_ascii_lowercase_idem by fastforce

definition idna_stable :: "'z domain_ext_scheme \<Rightarrow> bool" where
  "idna_stable E \<longleftrightarrow> (\<forall>s a. domain_to_ascii_strict E s = Some a \<longrightarrow>
     domain_to_ascii_strict E (to_ascii_lowercase a) = Some (to_ascii_lowercase a))"

lemma canonicalize_idem:
  assumes "idna_stable E" and ok: "canonicalize_domain E d = Ok c"
  shows "canonicalize_domain E c = Ok c"
proof -
  from ok obtain r a where a: "domain_to_ascii_strict E r = Some a" "c = to_ascii_lowercase a" and c: "canonical_name c"
    unfolding canonicalize_Ok_iff Let_def by blast
  note safe = canonical_name_safe [OF c]
  have ne: "c \<noteq> []" using c by (auto simp: canonical_name_def)
  have last: "\<not> ends_with ''.'' c"
  proof
    assume "ends_with ''.'' c"
    then obtain b where "c = b @ ''.''" unfolding ends_with_one using append_butlast_last_id by metis
    with split_on_snoc [of "CHR ''.''" b] c show False by (simp add: canonical_name_def invalid_label_def)
  qed
  have chars: "CHR ''/'' \<notin> set c" "CHR 0x5C \<notin> set c" "CHR ''@'' \<notin> set c" "CHR '':'' \<notin> set c" "CHR ''*'' \<notin> set c" "CHR '' '' \<notin> set c"
    using safe(1) by (fastforce simp: label_byte_def Let_def)+
  have trim: "str_trim c = c" using safe chars(6) by (intro terminal_safe_trim) auto
  have unsafe: "\<not> contains_unsafe_display_characters c" using safe(2) terminal_safe_display by blast
  have url: "\<not> str_contains ''://'' c"
  proof
    assume "str_contains ''://'' c"
    then obtain i where "take 3 (drop i c) = ''://''" by (auto simp: str_contains_def list_ex_iff numeral_3_eq_3)
    then have "CHR ''/'' \<in> set (take 3 (drop i c))" by simp
    then show False using chars(1) by (meson in_set_dropD in_set_takeD)
  qed
  have wild: "\<not> starts_with ''*.'' c"
    using chars(5) by (cases c) (auto simp: starts_with_def)
  show ?thesis
    using assms(1) a c ne last trim unsafe url wild chars
    by (simp add: canonicalize_Ok_iff Let_def idna_stable_def to_ascii_lowercase_idem)
qed

section \<open>What a live report states\<close>

text \<open>The TXT records of the answers that belong to the expected owner, and those that carry the commitment.\<close>

definition owner_txt :: "'name \<Rightarrow> 'name Record list \<Rightarrow> 'name Record list" where
  "owner_txt name answers = filter (\<lambda>r. rr_name r = name \<and> (case rr_data r of TXT _ \<Rightarrow> True | _ \<Rightarrow> False)) answers"

definition publishes :: "string \<Rightarrow> 'name Record \<Rightarrow> bool" where
  "publishes commitment r \<longleftrightarrow> (case rr_data r of TXT parts \<Rightarrow> concat parts = as_bytes commitment | _ \<Rightarrow> False)"

definition answers_so_far :: "string \<Rightarrow> 'name \<Rightarrow> 'name Record list \<Rightarrow> AnswerLoop \<Rightarrow> bool" where
  "answers_so_far commitment name seen s \<longleftrightarrow>
     al_rrset_dnssec s = (case owner_txt name seen of [] \<Rightarrow> None | r # _ \<Rightarrow> Some (map_hickory_proof (rr_proof r))) \<and>
     (\<forall>r\<in>set (owner_txt name seen). map_hickory_proof (rr_proof r) = the (al_rrset_dnssec s)) \<and>
     (al_publication s = Matched \<longleftrightarrow> (\<exists>r\<in>set (owner_txt name seen). publishes commitment r)) \<and>
     al_matching_ttl s = (case filter (publishes commitment) (owner_txt name seen) of [] \<Rightarrow> None
       | r # rs \<Rightarrow> Some (foldl min (rr_ttl r) (map rr_ttl rs)))"

lemma txt_bytes_Some: "txt_bytes parts = Some n \<Longrightarrow> n = length (concat parts)"
proof -
  have none: "foldl (\<lambda>acc part. Option.bind acc (\<lambda>n. usize_checked_add n (length part))) None ps = None" for ps :: "bytes list"
    by (induction ps) auto
  have "foldl (\<lambda>acc part. Option.bind acc (\<lambda>n. usize_checked_add n (length part))) (Some k) ps = Some n \<Longrightarrow>
      n = k + length (concat ps)" for k and ps :: "bytes list"
  proof (induction ps arbitrary: k)
    case (Cons p ps)
    from Cons.prems obtain m where m: "usize_checked_add k (length p) = Some m" by (cases "usize_checked_add k (length p)") (simp_all add: none)
    then have "m = k + length p" by (simp add: usize_checked_add_def split: if_splits)
    with Cons.IH [of m] Cons.prems m show ?case by simp
  qed simp
  then show "txt_bytes parts = Some n \<Longrightarrow> n = length (concat parts)" by (force simp: txt_bytes_def)
qed

lemma answer_step_owner:
  assumes "rr_data r = TXT parts" "rr_name r = name" "answer_step commitment name s r = Ok s'"
  shows "al_rrset_dnssec s = None \<or> al_rrset_dnssec s = Some (map_hickory_proof (rr_proof r))"
    "al_rrset_dnssec s' = Some (map_hickory_proof (rr_proof r))"
    "al_publication s' = (if publishes commitment r then Matched else al_publication s)"
    "al_matching_ttl s' = (if publishes commitment r then Some (case al_matching_ttl s of None \<Rightarrow> rr_ttl r
       | Some current \<Rightarrow> min current (rr_ttl r)) else al_matching_ttl s)"
proof -
  let ?p = "map_hickory_proof (rr_proof r)"
  have pub: "publishes commitment r \<longleftrightarrow> concat parts = as_bytes commitment" by (simp add: publishes_def assms(1))
  from assms obtain n m where n: "txt_bytes parts = Some n" "\<not> (case al_rrset_dnssec s of Some existing \<Rightarrow> existing \<noteq> ?p | None \<Rightarrow> False)"
    and s': "(if n = length commitment \<and> concat parts = as_bytes commitment
      then Ok (s\<lparr>al_total_txt_bytes := m, al_rrset_dnssec := Some ?p, al_publication := Matched,
                 al_matching_ttl := Some (case al_matching_ttl s of None \<Rightarrow> rr_ttl r | Some current \<Rightarrow> min current (rr_ttl r))\<rparr>)
      else Ok (s\<lparr>al_total_txt_bytes := m, al_rrset_dnssec := Some ?p\<rparr>)) = (Ok s' :: (AnswerLoop, DomainVerificationError) result)"
    unfolding answer_step_def
    by (simp only: assms(1,2) RData.case and_then_Ok_iff ok_or_Ok_iff if_Err_Ok_iff Let_def simp_thms if_False) blast
  have "n = length commitment" if "concat parts = as_bytes commitment" using txt_bytes_Some [OF n(1)] that by simp
  with s' n(2) show "al_rrset_dnssec s = None \<or> al_rrset_dnssec s = Some ?p" "al_rrset_dnssec s' = Some ?p"
    "al_publication s' = (if publishes commitment r then Matched else al_publication s)"
    "al_matching_ttl s' = (if publishes commitment r then Some (case al_matching_ttl s of None \<Rightarrow> rr_ttl r
       | Some current \<Rightarrow> min current (rr_ttl r)) else al_matching_ttl s)"
    unfolding pub by (cases "al_rrset_dnssec s"; auto split: if_splits)+
qed

interpretation domain_loop: loop_invariant "answer_step commitment name" "answers_so_far commitment name" for commitment name
proof
  fix seen s r s'
  assume inv: "answers_so_far commitment name seen s" and step: "answer_step commitment name s r = Ok s'"
  show "answers_so_far commitment name (seen @ [r]) s'"
  proof (cases "rr_data r")
    case (TXT parts)
    show ?thesis
    proof (cases "rr_name r = name")
      case True
      then have owner: "owner_txt name (seen @ [r]) = owner_txt name seen @ [r]" by (simp add: owner_txt_def TXT)
      note s' = answer_step_owner [OF TXT True step]
      have old: "al_rrset_dnssec s = (case owner_txt name seen of [] \<Rightarrow> None | r # _ \<Rightarrow> Some (map_hickory_proof (rr_proof r)))"
        "\<And>x. x \<in> set (owner_txt name seen) \<Longrightarrow> map_hickory_proof (rr_proof x) = the (al_rrset_dnssec s)"
        "al_publication s = Matched \<longleftrightarrow> (\<exists>r\<in>set (owner_txt name seen). publishes commitment r)"
        "al_matching_ttl s = (case filter (publishes commitment) (owner_txt name seen) of [] \<Rightarrow> None
           | r # rs \<Rightarrow> Some (foldl min (rr_ttl r) (map rr_ttl rs)))" using inv unfolding answers_so_far_def by blast+
      have rrset: "al_rrset_dnssec s' = (case owner_txt name seen @ [r] of [] \<Rightarrow> None | r # _ \<Rightarrow> Some (map_hickory_proof (rr_proof r)))"
        using s'(1,2) old(1) by (cases "owner_txt name seen") simp_all
      have same: "\<forall>x\<in>set (owner_txt name seen @ [r]). map_hickory_proof (rr_proof x) = the (al_rrset_dnssec s')"
      proof
        fix x assume x: "x \<in> set (owner_txt name seen @ [r])"
        show "map_hickory_proof (rr_proof x) = the (al_rrset_dnssec s')"
        proof (cases "x = r")
          case False
          with x have "x \<in> set (owner_txt name seen)" by simp
          with old(1) old(2) [OF this] s'(1,2) show ?thesis by (cases "owner_txt name seen") auto
        qed (simp add: s'(2))
      qed
      have pub: "al_publication s' = Matched \<longleftrightarrow> (\<exists>x\<in>set (owner_txt name seen @ [r]). publishes commitment x)"
        using s'(3) old(3) by auto
      have ttl: "al_matching_ttl s' = (case filter (publishes commitment) (owner_txt name seen @ [r]) of [] \<Rightarrow> None
          | r # rs \<Rightarrow> Some (foldl min (rr_ttl r) (map rr_ttl rs)))"
        using s'(4) old(4) by (cases "filter (publishes commitment) (owner_txt name seen)") simp_all
      from rrset same pub ttl show ?thesis unfolding answers_so_far_def owner by blast
    next
      case False
      then have "owner_txt name (seen @ [r]) = owner_txt name seen" by (simp add: owner_txt_def)
      moreover have "\<exists>n. s' = s\<lparr>al_total_txt_bytes := n\<rparr>" using step False by (auto simp: answer_step_def TXT)
      ultimately show ?thesis using inv by (auto simp: answers_so_far_def)
    qed
  qed (use step inv in \<open>auto simp: answer_step_def answers_so_far_def owner_txt_def\<close>)
qed

lemma evaluate_records_Ok:
  assumes "evaluate_records portable now name answers negative = Ok report"
  shows "lv_publication report = Matched \<longleftrightarrow> (\<exists>r\<in>set (owner_txt name answers). publishes (dv_dns_txt_value portable) r)"
    and "lv_domain_control report = VerifiedDnssec \<longleftrightarrow> lv_publication report = Matched \<and>
      (\<forall>r\<in>set (owner_txt name answers). rr_proof r = HickorySecure)"
    and "length answers \<le> MAX_ANSWER_RECORDS"
proof -
  from assms obtain s where "try_fold (answer_step (dv_dns_txt_value portable) name)
      \<lparr>al_total_txt_bytes = 0, al_rrset_dnssec = None, al_publication = Missing, al_matching_ttl = None\<rparr> answers = Ok s"
    and report: "report = build_report portable now (al_publication s)
      (case al_rrset_dnssec s of Some d \<Rightarrow> d | None \<Rightarrow> (case negative of Some d \<Rightarrow> d | None \<Rightarrow> Indeterminate)) (al_matching_ttl s)"
    and "length answers \<le> MAX_ANSWER_RECORDS"
    by (auto simp: evaluate_records_def Let_def not_less)
  then show "length answers \<le> MAX_ANSWER_RECORDS" by simp
  have "answers_so_far (dv_dns_txt_value portable) name [] \<lparr>al_total_txt_bytes = 0, al_rrset_dnssec = None,
      al_publication = Missing, al_matching_ttl = None\<rparr>" by (simp add: answers_so_far_def owner_txt_def)
  from domain_loop.loop_keeps_from_start [OF this] \<open>try_fold _ _ answers = Ok s\<close>
  have inv: "answers_so_far (dv_dns_txt_value portable) name answers s" by blast
  then show pub: "lv_publication report = Matched \<longleftrightarrow>
      (\<exists>r\<in>set (owner_txt name answers). publishes (dv_dns_txt_value portable) r)"
    by (simp add: report build_report_def Let_def answers_so_far_def)
  have secure: "map_hickory_proof p = Secure \<longleftrightarrow> p = HickorySecure" for p by (cases p) (simp_all add: map_hickory_proof_def)
  show "lv_domain_control report = VerifiedDnssec \<longleftrightarrow> lv_publication report = Matched \<and>
      (\<forall>r\<in>set (owner_txt name answers). rr_proof r = HickorySecure)"
  proof (cases "lv_publication report = Matched")
    case True
    with pub have ne: "owner_txt name answers \<noteq> []" by auto
    obtain r where r: "r \<in> set (owner_txt name answers)" using ne by (meson last_in_set)
    have "al_rrset_dnssec s = (case owner_txt name answers of [] \<Rightarrow> None | r # _ \<Rightarrow> Some (map_hickory_proof (rr_proof r)))"
      using inv unfolding answers_so_far_def by blast
    with ne obtain d where d: "al_rrset_dnssec s = Some d" by (cases "owner_txt name answers") simp_all
    have all: "map_hickory_proof (rr_proof x) = d" if "x \<in> set (owner_txt name answers)" for x
    proof -
      have "map_hickory_proof (rr_proof x) = the (al_rrset_dnssec s)" using inv that unfolding answers_so_far_def by blast
      with d show ?thesis by simp
    qed
    from True have "al_publication s = Matched" by (simp add: report build_report_def Let_def)
    then have "lv_domain_control report = VerifiedDnssec \<longleftrightarrow> d = Secure" by (simp add: report build_report_def Let_def d)
    also have "\<dots> \<longleftrightarrow> (\<forall>x\<in>set (owner_txt name answers). rr_proof x = HickorySecure)"
      unfolding secure [symmetric] using all r by blast
    finally show ?thesis using True by blast
  next
    case False
    then show ?thesis by (auto simp: report build_report_def Let_def)
  qed
qed

end
