(* ===== verification/Domain_Properties.thy ===== *)
theory Domain_Properties
  imports Demo Domain_Control
begin

text \<open>
  The properties of domain control (\<^verbatim>\<open>a-quo-core/src/domain.rs\<close> and \<^verbatim>\<open>a-quo-domain/src/lib.rs\<close>): the window in which
  a proof is accepted, what a published commitment binds, canonical domain names, and what a live check
  reports. Each is applied to a proof for a domain in an environment like that of \<open>Demo\<close>.
\<close>

section \<open>A proof of domain control\<close>

definition demo_domain_statement :: DomainControlStatement where
  "demo_domain_statement = \<lparr>dc_schema = DOMAIN_CONTROL_STATEMENT_SCHEMA, dc_domain = ''a.bc'', dc_nonce = demo_anchor,
     dc_issued_at = 1000, dc_expires_at = 2000, dc_signer = \<lparr>sc_persona = ''p'', sc_key_fingerprint = demo_print (CHR ''0'')\<rparr>\<rparr>"

definition demo_domain_ext :: domain_ext where
  "demo_domain_ext =
     \<lparr>base64_decode = (\<lambda>s. Ok ([0, 0, 0, 1] @ as_bytes s)),
      base64_nopad_decode = (\<lambda>s. Ok (as_bytes s)), base64_nopad_encode = map char_from,
      base64url_decode = (\<lambda>s. Ok (as_bytes s)), base64url_encode = map char_from,
      sha256 = demo_sha256, key_from_openssh = (\<lambda>_. Some Ed25519), sshsig_algorithm = (\<lambda>_. Some AlgOther),
      key_verify = (\<lambda>key namespace payload signature. signature = demo_sign key namespace payload),
      keygen_metadata = Some \<lparr>is_symlink = False, is_file = True, file_mode = 0x1ED, file_owner = 0\<rparr>,
      process_env = (\<lambda>_. None), keygen_spawn = demo_run,
      domain_to_ascii_strict = Some, domain_to_json = demo_to [(demo_domain_statement, 11)],
      domain_from_json = demo_from [(demo_domain_statement, 11)]\<rparr>"

definition demo_domain_proof :: ProofBundle where
  "demo_domain_proof = \<lparr>pb_schema = PROOF_SCHEMA, pb_payload = map char_from [11],
     pb_signature = \<lparr>se_format = ''sshsig'', se_namespace = DOMAIN_CONTROL_NAMESPACE,
       se_value = demo_sign (demo_key (CHR ''0'')) DOMAIN_CONTROL_NAMESPACE [11]\<rparr>,
     pb_verification_material = \<lparr>vm_format = ''openssh-public-key'', vm_public_key = demo_key (CHR ''0'')\<rparr>\<rparr>"

lemma demo_domain_base: "demo_base demo_domain_ext"
  by (simp add: demo_base_def demo_domain_ext_def)

lemma demo_domain_codecs: "domain_codecs demo_domain_ext"
  by (simp add: domain_codecs_def demo_domain_ext_def demo_to_one demo_from_one)

lemma demo_name: "canonicalize_domain demo_domain_ext ''a.bc'' = Ok ''a.bc''"
proof -
  have name: "canonical_name ''a.bc''"
    by (simp add: canonical_name_def MAX_DNS_NAME_BYTES_def is_ip_addr_def read_ipv4_addr_def read_ipv6_addr_def
        read_octet_def read_separator_def read_number_def to_digit_def read_given_char_def Let_def invalid_label_def label_byte_def
        is_special_use_domain_def SPECIAL_SUFFIXES_def ends_with_def starts_with_def read_groups.simps [of 8 0] read_groups.simps [of 8 "Suc 0"] to_ascii_lowercase_def to_ascii_lowercase_char_def)
  have safe: "\<forall>c\<in>set ''a.bc''. terminal_safe c \<and> c \<noteq> CHR '' ''" using canonical_name_safe [OF name] by auto
  show ?thesis unfolding canonicalize_Ok_iff
    using name terminal_safe_trim [OF safe] terminal_safe_display [of "''a.bc''"] safe
    by (simp add: str_contains_def starts_with_def ends_with_def demo_domain_ext_def to_ascii_lowercase_def
        to_ascii_lowercase_char_def)
qed

lemma demo_domain_valid: "validate_domain_statement demo_domain_ext demo_domain_statement = Ok ()"
proof -
  have "validate_persona ''p'' = Ok ''p''"
    using demo_persona by (auto simp: validate_canonical_persona_def split: if_splits)
  moreover have "validate_key_fingerprint demo_domain_ext (demo_print (CHR ''0'')) = Ok ()"
    by (simp add: validate_key_fingerprint_def demo_print_def strip_prefix_def demo_domain_ext_def)
  moreover have "validate_nonce demo_domain_ext demo_anchor = Ok ()"
    by (simp add: validate_nonce_def demo_domain_ext_def demo_anchor_def DOMAIN_NONCE_BYTES_def)
  moreover have "validate_validity 1000 2000 = Ok ()"
    by (simp add: validate_validity_iff DOMAIN_MAX_VALIDITY_SECONDS_def)
  ultimately show ?thesis using demo_name by (simp add: validate_domain_statement_iff demo_domain_statement_def)
qed

lemma demo_domain_created:
  "create_domain_control_proof_for_statement demo_domain_ext demo_domain_statement (demo_key (CHR ''0'')) (demo_key (CHR ''0''))
     = Ok demo_domain_proof"
proof -
  have "canonical_domain_control_statement_bytes demo_domain_ext demo_domain_statement = Ok [11]"
    using demo_domain_valid by (simp add: canonical_domain_control_statement_bytes_def demo_domain_ext_def demo_to_def)
  with base_key [OF demo_domain_base, of "CHR ''0''"] base_verify [OF demo_domain_base]
    base_signs [OF demo_domain_base, of "demo_key (CHR ''0'')" DOMAIN_CONTROL_NAMESPACE]
  show ?thesis
    by (simp add: create_domain_control_proof_for_statement_def create_sshsig_payload_proof_def demo_domain_statement_def
        DOMAIN_CONTROL_NAMESPACE_def MAX_PROOF_BYTES_def demo_domain_proof_def demo_domain_ext_def)
qed

lemma demo_domain_verifies:
  assumes "1000 \<le> now" "now < 2000"
  obtains v where "verify_domain_control_proof demo_domain_ext demo_domain_proof now = Ok v" "dv_domain v = ''a.bc''"
proof -
  have "length (pb_payload demo_domain_proof) \<le> MAX_PROOF_BYTES" by (simp add: demo_domain_proof_def MAX_PROOF_BYTES_def)
  moreover have "validate_current_time demo_domain_statement now = Ok ()"
    using assms by (subst validate_current_time_iff) (simp_all add: demo_domain_statement_def DOMAIN_CLOCK_SKEW_SECONDS_def i64_max_def)
  ultimately show thesis
    using created_domain_proof_verifies [OF demo_domain_codecs demo_key_utf8 demo_domain_created, of now] assms(1) that
    by (auto simp: demo_domain_statement_def)
qed

section \<open>Properties\<close>

text \<open>
  C37. A proof of domain control is accepted only within a bounded window, whatever its statement says: two
  moments at which it is accepted lie at most thirty days and ten minutes apart, and the verification
  reports the same at both.
\<close>

theorem domain_proof_is_short_lived:
  assumes "verify_domain_control_proof E pf now = Ok v" "verify_domain_control_proof E pf now' = Ok v'"
    and "now \<le> i64_max" "now' \<le> i64_max"
  shows "now' - now \<le> 30 * 24 * 60 * 60 + 10 * 60 \<and> v = v'"
  using domain_proof_window [OF assms] by (simp add: DOMAIN_MAX_VALIDITY_SECONDS_def DOMAIN_CLOCK_SKEW_SECONDS_def)

theorem domain_proof_is_short_lived_witness:
  "\<exists>v. verify_domain_control_proof demo_domain_ext demo_domain_proof 1000 = Ok v \<and>
     verify_domain_control_proof demo_domain_ext demo_domain_proof 1999 = Ok v"
proof -
  obtain v where v: "verify_domain_control_proof demo_domain_ext demo_domain_proof 1000 = Ok v"
    by (rule demo_domain_verifies [of 1000]) simp_all
  obtain v' where v': "verify_domain_control_proof demo_domain_ext demo_domain_proof 1999 = Ok v'"
    by (rule demo_domain_verifies [of 1999]) simp_all
  from domain_proof_is_short_lived [OF v v'] v v' show ?thesis by (simp add: i64_max_def)
qed

definition domain_payloads :: "'z ext_scheme \<Rightarrow> ProofBundle list \<Rightarrow> bytes set" where
  "domain_payloads E pfs = {payload. \<exists>pf\<in>set pfs. \<exists>key. decode_sshsig_payload E pf DOMAIN_CONTROL_NAMESPACE = Ok (payload, key)}"

text \<open>
  One published TXT value stands for one statement: two verified proofs with the same commitment agree
  in everything the verification reports, as long as the digest does not collide on their payloads.
\<close>

theorem commitment_determines_statement:
  assumes "verify_domain_control_proof E pf now = Ok v" "verify_domain_control_proof E pf' now' = Ok v'"
    and "dv_dns_txt_value v = dv_dns_txt_value v'" "domain_codecs E"
    and "inj_on (sha256 E) ((@) DNS_COMMITMENT_CONTEXT ` domain_payloads E [pf, pf'])"
  shows "v = v'"
proof -
  obtain payload key s where a: "decode_sshsig_payload E pf DOMAIN_CONTROL_NAMESPACE = Ok (payload, key)"
    "domain_from_json E payload = Ok s" "v = \<lparr>dv_signature = Verified, dv_validity = Verified, dv_domain = dc_domain s,
          dv_dns_record_name = dc_domain s @ ''.'', dv_dns_txt_value = dns_txt_commitment E payload,
          dv_issued_at = dc_issued_at s, dv_expires_at = dc_expires_at s,
          dv_signer = \<lparr>vs_persona = sc_persona (dc_signer s), vs_key_fingerprint = sc_key_fingerprint (dc_signer s),
                       vs_identity_binding = ''self_asserted''\<rparr>,
          dv_not_established = domain_not_established\<rparr>" using assms(1) unfolding verify_domain_Ok_iff by blast
  obtain payload' key' s' where b: "decode_sshsig_payload E pf' DOMAIN_CONTROL_NAMESPACE = Ok (payload', key')"
    "domain_from_json E payload' = Ok s'" "v' = \<lparr>dv_signature = Verified, dv_validity = Verified, dv_domain = dc_domain s',
          dv_dns_record_name = dc_domain s' @ ''.'', dv_dns_txt_value = dns_txt_commitment E payload',
          dv_issued_at = dc_issued_at s', dv_expires_at = dc_expires_at s',
          dv_signer = \<lparr>vs_persona = sc_persona (dc_signer s'), vs_key_fingerprint = sc_key_fingerprint (dc_signer s'),
                       vs_identity_binding = ''self_asserted''\<rparr>,
          dv_not_established = domain_not_established\<rparr>" using assms(2) unfolding verify_domain_Ok_iff by blast
  have "{DNS_COMMITMENT_CONTEXT @ payload, DNS_COMMITMENT_CONTEXT @ payload'} \<subseteq> (@) DNS_COMMITMENT_CONTEXT ` domain_payloads E [pf, pf']"
    using a(1) b(1) by (auto simp: domain_payloads_def)
  from inj_on_subset [OF assms(5) this] have "payload = payload'"
    using commitment_binds_payload [of E payload payload'] assms(3,4) a(3) b(3) by (simp add: domain_codecs_def)
  with a(2,3) b(2,3) show ?thesis by simp
qed

theorem commitment_determines_statement_witness:
  "\<exists>v v'. verify_domain_control_proof demo_domain_ext demo_domain_proof 1000 = Ok v \<and>
     verify_domain_control_proof demo_domain_ext demo_domain_proof 1999 = Ok v' \<and> v = v'"
proof -
  obtain v where v: "verify_domain_control_proof demo_domain_ext demo_domain_proof 1000 = Ok v"
    by (rule demo_domain_verifies [of 1000]) simp_all
  obtain v' where v': "verify_domain_control_proof demo_domain_ext demo_domain_proof 1999 = Ok v'"
    by (rule demo_domain_verifies [of 1999]) simp_all
  from v v' have "dv_dns_txt_value v = dv_dns_txt_value v'" by (auto simp: verify_domain_Ok_iff)
  moreover have "domain_payloads demo_domain_ext [demo_domain_proof, demo_domain_proof]
      \<subseteq> {p. p = ok_value (base64url_decode demo_domain_ext (pb_payload demo_domain_proof))}"
    by (auto simp: domain_payloads_def decode_sshsig_payload_def decode_payload_def split: if_splits)
  then have "inj_on (sha256 demo_domain_ext) ((@) DNS_COMMITMENT_CONTEXT ` domain_payloads demo_domain_ext [demo_domain_proof, demo_domain_proof])"
    by (auto simp: inj_on_def)
  ultimately show ?thesis using commitment_determines_statement [OF v v' _ demo_domain_codecs] v v' by blast
qed

text \<open>
  A domain name that the library accepts is a fixed point of canonicalisation, when the IDNA conversion
  leaves its own results unchanged: it has at most 253 bytes, at least two labels, is no IP address, and
  every byte is a lower-case letter, a digit, a hyphen or a dot, so it is safe to display.
\<close>

theorem canonical_domain_is_stable:
  assumes "idna_stable E" "canonicalize_domain E d = Ok c"
  shows "canonicalize_domain E c = Ok c \<and> length c \<le> 253 \<and> 2 \<le> length (split_on CHR ''.'' c) \<and> \<not> is_ip_addr c \<and>
    list_all (\<lambda>x. (label_byte x \<or> x = CHR ''.'') \<and> terminal_safe x) c"
proof -
  have "canonical_name c" using assms(2) unfolding canonicalize_Ok_iff by blast
  then show ?thesis using canonicalize_idem [OF assms] canonical_name_safe
    by (auto simp: canonical_name_def MAX_DNS_NAME_BYTES_def list_all_iff)
qed

theorem canonical_domain_is_stable_witness:
  "idna_stable demo_domain_ext \<and> canonicalize_domain demo_domain_ext ''a.bc'' = Ok ''a.bc'' \<and> length ''a.bc'' \<le> 253"
proof -
  have "idna_stable demo_domain_ext" by (simp add: idna_stable_def demo_domain_ext_def)
  from canonical_domain_is_stable [OF this demo_name] this show ?thesis by blast
qed

text \<open>
  C36. A live check reports DNSSEC-verified control exactly when the portable proof verifies and a validating
  resolver, which ignores the local hosts file, answered the TXT query for its record name within the
  deadline with a record of that owner that carries the commitment, and every TXT record of that owner in
  the answer was proved secure. An unsigned or mixed answer, a negative answer and another owner's record
  never count.
\<close>

theorem live_control_needs_secure_commitment:
  assumes "verify_domain_control_live E dns pf now = Ok report"
  shows "lv_domain_control report = VerifiedDnssec \<longleftrightarrow>
    (\<exists>v name options answers. verify_domain_control_proof E pf now = Ok v \<and>
       name_from_ascii dns (dv_dns_record_name v) = Some name \<and>
       validating_system_resolver dns = Ok options \<and> ro_validate options \<and> ro_use_hosts_file options = Never \<and>
       lookup_txt dns options 12 name = Some (Ok answers) \<and>
       list_ex (publishes (dv_dns_txt_value v)) (owner_txt name answers) \<and>
       list_all (\<lambda>r. rr_proof r = HickorySecure) (owner_txt name answers))"
proof -
  from assms obtain v name options lookup where v: "verify_domain_control_proof E pf now = Ok v"
    "name_from_ascii dns (dv_dns_record_name v) = Some name" "validating_system_resolver dns = Ok options"
    "lookup_txt dns options 12 name = Some lookup"
    by (auto simp: verify_domain_control_live_def DNS_LOOKUP_DEADLINE_def)
  note resolver = validating_system_resolver_Ok [OF v(3)]
  show ?thesis
  proof (cases lookup)
    case (Ok answers)
    with assms v have "evaluate_records v now name answers None = Ok report"
      by (auto simp: verify_domain_control_live_def DNS_LOOKUP_DEADLINE_def)
    from evaluate_records_Ok(1,2) [OF this] v resolver Ok show ?thesis by (auto simp: list_ex_iff list_all_iff)
  next
    case (Err e)
    with assms v obtain d where "evaluate_records v now name [] (Some d) = Ok report"
      by (auto simp: verify_domain_control_live_def DNS_LOOKUP_DEADLINE_def split: option.splits if_splits)
    from evaluate_records_Ok(1,2) [OF this] v Err show ?thesis by (auto simp: owner_txt_def)
  qed
qed

definition demo_dns :: "string \<Rightarrow> string Dns" where
  "demo_dns commitment = \<lparr>name_from_ascii = Some,
     builder_tokio = Some \<lparr>ro_validate = False, ro_timeout = 5, ro_attempts = 2, ro_cache_size = 8192, ro_use_hosts_file = Auto,
       ro_positive_max_ttl = None, ro_negative_max_ttl = None, ro_num_concurrent_reqs = 2, ro_max_active_requests = 32,
       ro_preserve_intermediates = False, ro_try_tcp_on_error = False, ro_case_randomization = False\<rparr>,
     builds = ro_validate,
     lookup_txt = (\<lambda>_ _ name. Some (Ok [\<lparr>rr_name = name, rr_ttl = 60, rr_proof = HickorySecure, rr_data = TXT [as_bytes commitment]\<rparr>]))\<rparr>"

lemma demo_resolver: "\<exists>options. validating_system_resolver (demo_dns commitment) = Ok options"
  by (simp add: validating_system_resolver_def demo_dns_def harden_resolver_options_def)

theorem live_control_needs_secure_commitment_witness:
  "\<exists>commitment report. verify_domain_control_live demo_domain_ext (demo_dns commitment) demo_domain_proof 1000 = Ok report \<and>
     lv_domain_control report = VerifiedDnssec"
proof -
  obtain v where v: "verify_domain_control_proof demo_domain_ext demo_domain_proof 1000 = Ok v"
    by (rule demo_domain_verifies [of 1000]) simp_all
  let ?dns = "demo_dns (dv_dns_txt_value v)"
  obtain options where o: "validating_system_resolver ?dns = Ok options" using demo_resolver by blast
  have "length (dv_dns_txt_value v) \<le> 100"
    using v by (auto simp: verify_domain_Ok_iff dns_txt_commitment_def DNS_TXT_PREFIX_def demo_domain_ext_def)
  then obtain report where r: "verify_domain_control_live demo_domain_ext ?dns demo_domain_proof 1000 = Ok report"
    using v o by (auto simp: verify_domain_control_live_def demo_dns_def evaluate_records_def MAX_ANSWER_RECORDS_def answer_step_def
        txt_bytes_def MAX_TXT_RECORD_BYTES_def MAX_TOTAL_TXT_BYTES_def usize_checked_add_def Let_def)
  from live_control_needs_secure_commitment [OF r] v o validating_system_resolver_Ok [OF o]
  have "lv_domain_control report = VerifiedDnssec" by (simp add: demo_dns_def owner_txt_def publishes_def)
  with r show ?thesis by blast
qed

end
