(* ===== verification/Root_Distribution.thy ===== *)
theory Root_Distribution
  imports Continuity
begin

text \<open>
  Distribution of persona roots (\<^verbatim>\<open>src/crates/a-quo-core/src/root_distribution.rs\<close>): the public card that
  is copied from a verified root, the pin that a verifier keeps, the pin URI, and the comparison of a
  verified root with a card and a pin.

  The JSON codecs of cards and pins are code outside the repository (\<open>distribution_ext\<close>).
\<close>

section \<open>Data\<close>

definition PERSONA_ROOT_CARD_SCHEMA :: string where "PERSONA_ROOT_CARD_SCHEMA = ''urn:a-quo:persona-root-card:v1''"
definition PERSONA_ROOT_PIN_SCHEMA :: string where "PERSONA_ROOT_PIN_SCHEMA = ''urn:a-quo:persona-root-pin:v1''"
definition PERSONA_ROOT_PIN_URI_PREFIX :: string where "PERSONA_ROOT_PIN_URI_PREFIX = ''aquo:persona-root-pin:v1:''"
definition MAX_PERSONA_ROOT_CARD_BYTES :: nat where "MAX_PERSONA_ROOT_CARD_BYTES = 4096"
definition MAX_PERSONA_ROOT_PIN_BYTES :: nat where "MAX_PERSONA_ROOT_PIN_BYTES = 4096"
definition PERSONA_ROOT_LATE_FIRST_CONTACT_WARNING_SECONDS :: u64 where
  "PERSONA_ROOT_LATE_FIRST_CONTACT_WARNING_SECONDS = 30 * 24 * 60 * 60"
definition PERSONA_ROOT_PIN_REVIEW_WARNING_SECONDS :: u64 where
  "PERSONA_ROOT_PIN_REVIEW_WARNING_SECONDS = 365 * 24 * 60 * 60"

abbreviation distribution_failure :: "distribution_reason \<Rightarrow> 'a res" where
  "distribution_failure r \<equiv> invalid_proof (DistributionReason r)"

record PersonaRootCard =
  card_schema :: string
  card_canonicalization :: string
  card_persona :: string
  card_persona_anchor :: string
  card_root_version :: u32
  card_issued_at :: i64
  card_initial_key_fingerprint :: string
  card_root_statement_sha256 :: string
  card_pin_uri :: string

datatype PersonaRootTrustBasis = TrustOnFirstUse | SameChannelCopy | OutOfBandUserConfirmed

datatype PersonaRootTrustBasisSource = VerifierFirstObservation | PublisherCandidateChannel | VerifierUserConfirmation

datatype PersonaRootPinChannel = InPerson | Paper | Qr | Voice | File | Other

datatype PersonaRootChannelIndependence = IndependenceNotEstablished | UserReportedSeparate

datatype PersonaRootProvenanceAssurance = UserRecordedNotCryptographicallyVerified

fun trust_basis_source :: "PersonaRootTrustBasis \<Rightarrow> PersonaRootTrustBasisSource" where
  "trust_basis_source TrustOnFirstUse = VerifierFirstObservation"
| "trust_basis_source SameChannelCopy = PublisherCandidateChannel"
| "trust_basis_source OutOfBandUserConfirmed = VerifierUserConfirmation"

fun trust_basis_independence :: "PersonaRootTrustBasis \<Rightarrow> PersonaRootChannelIndependence" where
  "trust_basis_independence TrustOnFirstUse = IndependenceNotEstablished"
| "trust_basis_independence SameChannelCopy = IndependenceNotEstablished"
| "trust_basis_independence OutOfBandUserConfirmed = UserReportedSeparate"

record PersonaRootPin =
  pin_schema :: string
  pin_canonicalization :: string
  pin_root_statement_sha256 :: string
  pin_recorded_at :: i64
  pin_trust_basis :: PersonaRootTrustBasis
  pin_channel :: PersonaRootPinChannel
  pin_source_artifact_sha256 :: "string option"

datatype PersonaRootSignatureStatus = SignatureNotChecked | SignatureVerified

datatype PersonaRootMatchStatus = MatchNotChecked | Matched | Mismatched

datatype PersonaRootClaimStatus = ClaimNotEstablished

record PersonaRootCardValidationReport =
  cvr_card_sha256 :: string
  cvr_root_statement_sha256 :: string
  cvr_pin_uri :: string
  cvr_root_signature :: PersonaRootSignatureStatus

record PersonaRootPinValidationReport =
  pvr_root_statement_sha256 :: string
  pvr_recorded_at :: i64
  pvr_trust_basis :: PersonaRootTrustBasis
  pvr_trust_basis_source :: PersonaRootTrustBasisSource
  pvr_channel :: PersonaRootPinChannel
  pvr_channel_independence :: PersonaRootChannelIndependence
  pvr_provenance_assurance :: PersonaRootProvenanceAssurance
  pvr_source_artifact_sha256 :: "string option"

record PersonaRootDistributionComparisonReport =
  dr_checked_at :: i64
  dr_root_signature :: PersonaRootSignatureStatus
  dr_card_match :: PersonaRootMatchStatus
  dr_pin_match :: PersonaRootMatchStatus
  dr_candidate_root_statement_sha256 :: string
  dr_pinned_root_statement_sha256 :: string
  dr_supplied_card_sha256 :: "string option"
  dr_candidate_card_sha256 :: string
  dr_trust_basis :: PersonaRootTrustBasis
  dr_trust_basis_source :: PersonaRootTrustBasisSource
  dr_channel :: PersonaRootPinChannel
  dr_channel_independence :: PersonaRootChannelIndependence
  dr_provenance_assurance :: PersonaRootProvenanceAssurance
  dr_source_artifact_sha256 :: "string option"
  dr_root_issued_after_local_observation :: bool
  dr_late_first_contact :: "bool option"
  dr_first_contact_delay_seconds :: "u64 option"
  dr_pin_observation_age_seconds :: u64
  dr_pin_observation_review_due :: bool
  dr_trusted_time :: PersonaRootClaimStatus
  dr_current_history_freshness :: PersonaRootClaimStatus
  dr_legal_identity :: PersonaRootClaimStatus
  dr_current_signing_authority :: PersonaRootClaimStatus
  dr_current_recovery_authority :: PersonaRootClaimStatus
  dr_artifact_truth_or_safety :: PersonaRootClaimStatus
  dr_root_card_possession_grants_authority :: bool

record distribution_ext = continuity_ext +
  card_to_jcs :: "PersonaRootCard \<Rightarrow> (bytes, json_error) result"
  card_from_json :: "bytes \<Rightarrow> (PersonaRootCard, json_error) result"
  pin_to_jcs :: "PersonaRootPin \<Rightarrow> (bytes, json_error) result"
  pin_from_json :: "bytes \<Rightarrow> (PersonaRootPin, json_error) result"

section \<open>Validation\<close>

definition distribution_validate_jcs_time :: "distribution_time \<Rightarrow> i64 \<Rightarrow> unit res" where
  "distribution_validate_jcs_time field t =
     (if 0 \<le> t \<and> t \<le> MAX_JCS_SAFE_INTEGER then Ok () else distribution_failure (DistributionTimeNotJcs field))"

definition distribution_validate_sha256 :: "digest_field \<Rightarrow> string \<Rightarrow> unit res" where
  "distribution_validate_sha256 field digest =
     (if lowercase_hex_64 digest then Ok () else distribution_failure (DistributionDigestMalformed field))"

definition distribution_require_bound :: "bytes \<Rightarrow> nat \<Rightarrow> json_document \<Rightarrow> unit res" where
  "distribution_require_bound bs maximum description =
     (if length bs \<le> maximum then Ok () else distribution_failure (DistributionDocumentTooLong description maximum))"

definition persona_root_pin_uri :: "string \<Rightarrow> string res" where
  "persona_root_pin_uri root_statement_sha256 =
     and_then (distribution_validate_sha256 CardRootDigest root_statement_sha256) (\<lambda>_.
     Ok (PERSONA_ROOT_PIN_URI_PREFIX @ root_statement_sha256))"

definition parse_persona_root_pin_uri :: "string \<Rightarrow> string res" where
  "parse_persona_root_pin_uri uri =
     and_then (ok_or (InvalidContinuityProof (DistributionReason PinUriUnsupported)) (strip_prefix PERSONA_ROOT_PIN_URI_PREFIX uri))
       (\<lambda>root_statement_sha256.
     and_then (distribution_validate_sha256 CardRootDigest root_statement_sha256) (\<lambda>_. Ok root_statement_sha256))"

definition validate_persona_root_card_fields :: "'z continuity_ext_scheme \<Rightarrow> PersonaRootCard \<Rightarrow> unit res" where
  "validate_persona_root_card_fields E rcard =
     (if card_schema rcard \<noteq> PERSONA_ROOT_CARD_SCHEMA then distribution_failure CardSchemaUnsupported
      else if card_canonicalization rcard \<noteq> CONTINUITY_CANONICALIZATION then distribution_failure CardCanonicalizationUnsupported
      else and_then (distribution_validate_sha256 CardRootDigest (card_root_statement_sha256 rcard)) (\<lambda>_.
      let statement = \<lparr>rs_schema = PERSONA_ROOT_STATEMENT_SCHEMA, rs_canonicalization = CONTINUITY_CANONICALIZATION,
        rs_persona_anchor = card_persona_anchor rcard, rs_persona = card_persona rcard, rs_root_version = card_root_version rcard,
        rs_issued_at = card_issued_at rcard, rs_initial_key_fingerprint = card_initial_key_fingerprint rcard\<rparr>
      in and_then (canonical_persona_root_statement_bytes E statement) (\<lambda>statement_bytes.
      if sha256_hex E statement_bytes \<noteq> card_root_statement_sha256 rcard then distribution_failure CardDigestMismatch
      else and_then (persona_root_pin_uri (card_root_statement_sha256 rcard)) (\<lambda>pin_uri.
      if card_pin_uri rcard \<noteq> pin_uri then distribution_failure CardPinUriMismatch else Ok ()))))"

definition validate_persona_root_pin_fields :: "PersonaRootPin \<Rightarrow> unit res" where
  "validate_persona_root_pin_fields pin =
     (if pin_schema pin \<noteq> PERSONA_ROOT_PIN_SCHEMA then distribution_failure PinSchemaUnsupported
      else if pin_canonicalization pin \<noteq> CONTINUITY_CANONICALIZATION then distribution_failure PinCanonicalizationUnsupported
      else and_then (distribution_validate_sha256 CardRootDigest (pin_root_statement_sha256 pin)) (\<lambda>_.
      and_then (distribution_validate_jcs_time PinRecordedAt (pin_recorded_at pin)) (\<lambda>_.
      case pin_source_artifact_sha256 pin of
        None \<Rightarrow> Ok ()
      | Some digest \<Rightarrow> distribution_validate_sha256 SourceArtifactDigest digest)))"

section \<open>Cards and pins\<close>

definition persona_root_card_from_verified_root :: "'z continuity_ext_scheme \<Rightarrow> VerifiedPersonaRoot \<Rightarrow> PersonaRootCard res" where
  "persona_root_card_from_verified_root E verified =
     (let s = vr_statement verified in
      and_then (canonical_persona_root_statement_bytes E s) (\<lambda>statement_bytes.
      let statement_sha256 = sha256_hex E statement_bytes in
      if vr_root_statement_sha256 verified \<noteq> statement_sha256 then distribution_failure VerifiedRootDigestMismatch
      else and_then (public_key_fingerprint E (vr_initial_public_key verified)) (\<lambda>fingerprint.
      if fingerprint \<noteq> rs_initial_key_fingerprint s then distribution_failure VerifiedRootKeyMismatch
      else and_then (persona_root_pin_uri statement_sha256) (\<lambda>pin_uri.
      let rcard = \<lparr>card_schema = PERSONA_ROOT_CARD_SCHEMA, card_canonicalization = CONTINUITY_CANONICALIZATION,
        card_persona = rs_persona s, card_persona_anchor = rs_persona_anchor s, card_root_version = rs_root_version s,
        card_issued_at = rs_issued_at s, card_initial_key_fingerprint = rs_initial_key_fingerprint s,
        card_root_statement_sha256 = statement_sha256, card_pin_uri = pin_uri\<rparr>
      in and_then (validate_persona_root_card_fields E rcard) (\<lambda>_. Ok rcard)))))"

definition persona_root_card_from_proof :: "'z continuity_ext_scheme \<Rightarrow> PersonaRootProof \<Rightarrow> PersonaRootCard res" where
  "persona_root_card_from_proof E pf =
     and_then (verify_persona_root_proof E pf) (persona_root_card_from_verified_root E)"

definition new_persona_root_pin ::
  "string \<Rightarrow> i64 \<Rightarrow> PersonaRootTrustBasis \<Rightarrow> PersonaRootPinChannel \<Rightarrow> string option \<Rightarrow> PersonaRootPin res" where
  "new_persona_root_pin root_statement_sha256 recorded_at trust_basis channel source_artifact_sha256 =
     (let pin = \<lparr>pin_schema = PERSONA_ROOT_PIN_SCHEMA, pin_canonicalization = CONTINUITY_CANONICALIZATION,
        pin_root_statement_sha256 = root_statement_sha256, pin_recorded_at = recorded_at, pin_trust_basis = trust_basis,
        pin_channel = channel, pin_source_artifact_sha256 = source_artifact_sha256\<rparr>
      in and_then (validate_persona_root_pin_fields pin) (\<lambda>_. Ok pin))"

definition canonical_persona_root_card_bytes :: "'z distribution_ext_scheme \<Rightarrow> PersonaRootCard \<Rightarrow> bytes res" where
  "canonical_persona_root_card_bytes E rcard =
     and_then (validate_persona_root_card_fields E rcard) (\<lambda>_.
     and_then (map_err Json (card_to_jcs E rcard)) (\<lambda>bs.
     and_then (distribution_require_bound bs MAX_PERSONA_ROOT_CARD_BYTES PersonaRootCardDoc) (\<lambda>_. Ok bs)))"

definition parse_persona_root_card_bytes :: "'z distribution_ext_scheme \<Rightarrow> bytes \<Rightarrow> PersonaRootCard res" where
  "parse_persona_root_card_bytes E bs =
     and_then (map_err (\<lambda>r. InvalidContinuityProof (DistributionReason (DistributionJson r)))
       (parse_bounded_json (card_from_json E) bs MAX_PERSONA_ROOT_CARD_BYTES PersonaRootCardDoc)) (\<lambda>rcard.
     and_then (canonical_persona_root_card_bytes E rcard) (\<lambda>canonical.
     if canonical \<noteq> bs then distribution_failure CardNotCanonical else Ok rcard))"

definition persona_root_card_sha256 :: "'z distribution_ext_scheme \<Rightarrow> PersonaRootCard \<Rightarrow> string res" where
  "persona_root_card_sha256 E rcard = and_then (canonical_persona_root_card_bytes E rcard) (\<lambda>bs. Ok (sha256_hex E bs))"

definition validate_persona_root_card :: "'z distribution_ext_scheme \<Rightarrow> PersonaRootCard \<Rightarrow> PersonaRootCardValidationReport res" where
  "validate_persona_root_card E rcard =
     and_then (persona_root_card_sha256 E rcard) (\<lambda>card_sha256.
     Ok \<lparr>cvr_card_sha256 = card_sha256, cvr_root_statement_sha256 = card_root_statement_sha256 rcard,
         cvr_pin_uri = card_pin_uri rcard, cvr_root_signature = SignatureNotChecked\<rparr>)"

definition canonical_persona_root_pin_bytes :: "'z distribution_ext_scheme \<Rightarrow> PersonaRootPin \<Rightarrow> bytes res" where
  "canonical_persona_root_pin_bytes E pin =
     and_then (validate_persona_root_pin_fields pin) (\<lambda>_.
     and_then (map_err Json (pin_to_jcs E pin)) (\<lambda>bs.
     and_then (distribution_require_bound bs MAX_PERSONA_ROOT_PIN_BYTES PersonaRootPinDoc) (\<lambda>_. Ok bs)))"

definition parse_persona_root_pin_bytes :: "'z distribution_ext_scheme \<Rightarrow> bytes \<Rightarrow> PersonaRootPin res" where
  "parse_persona_root_pin_bytes E bs =
     and_then (map_err (\<lambda>r. InvalidContinuityProof (DistributionReason (DistributionJson r)))
       (parse_bounded_json (pin_from_json E) bs MAX_PERSONA_ROOT_PIN_BYTES PersonaRootPinDoc)) (\<lambda>pin.
     and_then (canonical_persona_root_pin_bytes E pin) (\<lambda>canonical.
     if canonical \<noteq> bs then distribution_failure PinNotCanonical else Ok pin))"

definition persona_root_pin_sha256 :: "'z distribution_ext_scheme \<Rightarrow> PersonaRootPin \<Rightarrow> string res" where
  "persona_root_pin_sha256 E pin = and_then (canonical_persona_root_pin_bytes E pin) (\<lambda>bs. Ok (sha256_hex E bs))"

definition validate_persona_root_pin :: "PersonaRootPin \<Rightarrow> PersonaRootPinValidationReport res" where
  "validate_persona_root_pin pin =
     and_then (validate_persona_root_pin_fields pin) (\<lambda>_.
     Ok \<lparr>pvr_root_statement_sha256 = pin_root_statement_sha256 pin, pvr_recorded_at = pin_recorded_at pin,
         pvr_trust_basis = pin_trust_basis pin, pvr_trust_basis_source = trust_basis_source (pin_trust_basis pin),
         pvr_channel = pin_channel pin, pvr_channel_independence = trust_basis_independence (pin_trust_basis pin),
         pvr_provenance_assurance = UserRecordedNotCryptographicallyVerified,
         pvr_source_artifact_sha256 = pin_source_artifact_sha256 pin\<rparr>)"

section \<open>Comparison\<close>

text \<open>
  \<open>u64_try_from\<close> is the conversion of a 64-bit difference, whose failure the source rules out with
  \<^verbatim>\<open>expect\<close>; that neither it nor the subtraction fails is part of the lemmas below.
\<close>

definition u64_try_from :: "i64 \<Rightarrow> u64 option" where
  "u64_try_from x = (if 0 \<le> x then Some (word_of_int x) else None)"

definition compare_verified_persona_root_distribution ::
  "'z distribution_ext_scheme \<Rightarrow> VerifiedPersonaRoot \<Rightarrow> PersonaRootCard option \<Rightarrow> PersonaRootPin \<Rightarrow> i64 \<Rightarrow>
     PersonaRootDistributionComparisonReport res" where
  "compare_verified_persona_root_distribution E verified supplied_card pin checked_at =
     and_then (distribution_validate_jcs_time ComparisonCheckedAt checked_at) (\<lambda>_.
     and_then (case supplied_card of None \<Rightarrow> Ok None
       | Some rcard \<Rightarrow> and_then (validate_persona_root_card E rcard) (\<lambda>r. Ok (Some r))) (\<lambda>supplied_card_report.
     and_then (validate_persona_root_pin pin) (\<lambda>pin_report.
     if checked_at < pin_recorded_at pin then distribution_failure ComparisonBeforePin
     else and_then (persona_root_card_from_verified_root E verified) (\<lambda>candidate_card.
     and_then (persona_root_card_sha256 E candidate_card) (\<lambda>candidate_card_sha256.
     let card_match = (case supplied_card of
           Some rcard \<Rightarrow> if rcard = candidate_card then Matched else Mismatched
         | None \<Rightarrow> MatchNotChecked);
       pin_match = (if pin_root_statement_sha256 pin = card_root_statement_sha256 candidate_card then Matched else Mismatched);
       root_issued_after_local_observation = (pin_match = Matched \<and> pin_recorded_at pin < card_issued_at candidate_card);
       delay = the (u64_try_from (pin_recorded_at pin - card_issued_at candidate_card));
       measured = (pin_match = Matched \<and> \<not> root_issued_after_local_observation);
       pin_observation_age_seconds = the (u64_try_from (checked_at - pin_recorded_at pin))
     in Ok \<lparr>dr_checked_at = checked_at, dr_root_signature = SignatureVerified, dr_card_match = card_match,
         dr_pin_match = pin_match, dr_candidate_root_statement_sha256 = card_root_statement_sha256 candidate_card,
         dr_pinned_root_statement_sha256 = pin_root_statement_sha256 pin,
         dr_supplied_card_sha256 = map_option cvr_card_sha256 supplied_card_report,
         dr_candidate_card_sha256 = candidate_card_sha256, dr_trust_basis = pvr_trust_basis pin_report,
         dr_trust_basis_source = pvr_trust_basis_source pin_report, dr_channel = pvr_channel pin_report,
         dr_channel_independence = pvr_channel_independence pin_report,
         dr_provenance_assurance = pvr_provenance_assurance pin_report,
         dr_source_artifact_sha256 = pvr_source_artifact_sha256 pin_report,
         dr_root_issued_after_local_observation = root_issued_after_local_observation,
         dr_late_first_contact = (if measured then Some (PERSONA_ROOT_LATE_FIRST_CONTACT_WARNING_SECONDS < delay) else None),
         dr_first_contact_delay_seconds = (if measured then Some delay else None),
         dr_pin_observation_age_seconds = pin_observation_age_seconds,
         dr_pin_observation_review_due = (PERSONA_ROOT_PIN_REVIEW_WARNING_SECONDS < pin_observation_age_seconds),
         dr_trusted_time = ClaimNotEstablished, dr_current_history_freshness = ClaimNotEstablished,
         dr_legal_identity = ClaimNotEstablished, dr_current_signing_authority = ClaimNotEstablished,
         dr_current_recovery_authority = ClaimNotEstablished, dr_artifact_truth_or_safety = ClaimNotEstablished,
         dr_root_card_possession_grants_authority = False\<rparr>)))))"

definition compare_persona_root_distribution ::
  "'z distribution_ext_scheme \<Rightarrow> PersonaRootProof \<Rightarrow> PersonaRootCard option \<Rightarrow> PersonaRootPin \<Rightarrow> i64 \<Rightarrow>
     PersonaRootDistributionComparisonReport res" where
  "compare_persona_root_distribution E pf supplied_card pin checked_at =
     and_then (verify_persona_root_proof E pf) (\<lambda>verified.
     compare_verified_persona_root_distribution E verified supplied_card pin checked_at)"

section \<open>Pin URIs\<close>

lemma distribution_validate_Ok_iff [simp]:
  "distribution_validate_sha256 f d = Ok () \<longleftrightarrow> lowercase_hex_64 d"
  "distribution_validate_jcs_time g t = Ok () \<longleftrightarrow> 0 \<le> t \<and> t \<le> MAX_JCS_SAFE_INTEGER"
  "distribution_require_bound bs n doc = Ok () \<longleftrightarrow> length bs \<le> n"
  by (simp_all add: distribution_validate_sha256_def distribution_validate_jcs_time_def distribution_require_bound_def)

lemma pin_uri_Ok_iff: "persona_root_pin_uri d = Ok u \<longleftrightarrow> lowercase_hex_64 d \<and> u = PERSONA_ROOT_PIN_URI_PREFIX @ d"
  by (auto simp: persona_root_pin_uri_def)

lemma parse_pin_uri_iff: "parse_persona_root_pin_uri u = Ok d \<longleftrightarrow> persona_root_pin_uri d = Ok u"
proof -
  have "strip_prefix PERSONA_ROOT_PIN_URI_PREFIX u = Some d \<longleftrightarrow> u = PERSONA_ROOT_PIN_URI_PREFIX @ d"
    by (auto simp: strip_prefix_def) (metis append_take_drop_id)
  then show ?thesis by (auto simp: parse_persona_root_pin_uri_def pin_uri_Ok_iff)
qed

section \<open>Cards\<close>

text \<open>A card is the copy of a root statement, with its digest and the pin URI of the digest.\<close>

definition card_of :: "'z ext_scheme \<Rightarrow> PersonaRootStatement \<Rightarrow> bytes \<Rightarrow> PersonaRootCard" where
  "card_of E s payload = \<lparr>card_schema = PERSONA_ROOT_CARD_SCHEMA, card_canonicalization = CONTINUITY_CANONICALIZATION,
     card_persona = rs_persona s, card_persona_anchor = rs_persona_anchor s, card_root_version = rs_root_version s,
     card_issued_at = rs_issued_at s, card_initial_key_fingerprint = rs_initial_key_fingerprint s,
     card_root_statement_sha256 = sha256_hex E payload, card_pin_uri = PERSONA_ROOT_PIN_URI_PREFIX @ sha256_hex E payload\<rparr>"

lemma valid_root_schemas:
  assumes "validate_persona_root_statement E s = Ok ()"
  shows "rs_schema s = PERSONA_ROOT_STATEMENT_SCHEMA" "rs_canonicalization s = CONTINUITY_CANONICALIZATION"
  using assms by (auto simp: validate_persona_root_statement_def split: if_splits)


lemma card_fields_Ok_iff:
  "validate_persona_root_card_fields E c = Ok () \<longleftrightarrow>
     (\<exists>s payload. canonical_persona_root_statement_bytes E s = Ok payload \<and> lowercase_hex_64 (sha256_hex E payload) \<and>
        c = card_of E s payload)" (is "?L \<longleftrightarrow> ?R")
proof
  let ?s = "\<lparr>rs_schema = PERSONA_ROOT_STATEMENT_SCHEMA, rs_canonicalization = CONTINUITY_CANONICALIZATION,
     rs_persona_anchor = card_persona_anchor c, rs_persona = card_persona c, rs_root_version = card_root_version c,
     rs_issued_at = card_issued_at c, rs_initial_key_fingerprint = card_initial_key_fingerprint c\<rparr>"
  assume ?L
  then obtain payload where "canonical_persona_root_statement_bytes E ?s = Ok payload" "card_schema c = PERSONA_ROOT_CARD_SCHEMA"
    "card_canonicalization c = CONTINUITY_CANONICALIZATION" "lowercase_hex_64 (card_root_statement_sha256 c)"
    "sha256_hex E payload = card_root_statement_sha256 c" "card_pin_uri c = PERSONA_ROOT_PIN_URI_PREFIX @ card_root_statement_sha256 c"
    by (auto simp: validate_persona_root_card_fields_def Let_def pin_uri_Ok_iff split: if_splits)
  then show ?R by (intro exI [of _ ?s] exI [of _ payload]) (cases c, simp add: card_of_def)
next
  assume ?R
  then obtain s payload where s: "canonical_persona_root_statement_bytes E s = Ok payload" "lowercase_hex_64 (sha256_hex E payload)"
    "c = card_of E s payload" by blast
  then have "validate_persona_root_statement E s = Ok ()" by (simp add: canonical_root_Ok_iff)
  note schemas = valid_root_schemas [OF this]
  have "\<lparr>rs_schema = PERSONA_ROOT_STATEMENT_SCHEMA, rs_canonicalization = CONTINUITY_CANONICALIZATION,
     rs_persona_anchor = rs_persona_anchor s, rs_persona = rs_persona s, rs_root_version = rs_root_version s,
     rs_issued_at = rs_issued_at s, rs_initial_key_fingerprint = rs_initial_key_fingerprint s\<rparr> = s"
    using schemas by (cases s) simp
  with s show ?L by (simp add: validate_persona_root_card_fields_def card_of_def pin_uri_Ok_iff)
qed

lemma verified_root_card:
  assumes "verify_persona_root_proof E pf = Ok root"
  shows "persona_root_card_from_verified_root E root = Ok c \<longleftrightarrow>
    lowercase_hex_64 (vr_root_statement_sha256 root) \<and>
    (\<exists>payload. canonical_persona_root_statement_bytes E (vr_statement root) = Ok payload \<and> c = card_of E (vr_statement root) payload)"
proof -
  from assms obtain payload where r: "canonical_persona_root_statement_bytes E (vr_statement root) = Ok payload"
    "public_key_fingerprint E (vr_initial_public_key root) = Ok (rs_initial_key_fingerprint (vr_statement root))"
    "vr_root_statement_sha256 root = sha256_hex E payload" by (auto simp: verify_root_Ok_iff)
  have "persona_root_card_from_verified_root E root = Ok c \<longleftrightarrow>
      lowercase_hex_64 (sha256_hex E payload) \<and> c = card_of E (vr_statement root) payload \<and>
      validate_persona_root_card_fields E (card_of E (vr_statement root) payload) = Ok ()"
    using r by (auto simp: persona_root_card_from_verified_root_def Let_def pin_uri_Ok_iff card_of_def)
  also have "\<dots> \<longleftrightarrow> lowercase_hex_64 (sha256_hex E payload) \<and> c = card_of E (vr_statement root) payload"
    using r(1) unfolding card_fields_Ok_iff by blast
  finally show ?thesis using r by auto
qed

text \<open>The codecs of cards and pins read back what they write.\<close>

definition distribution_codecs :: "'z distribution_ext_scheme \<Rightarrow> bool" where
  "distribution_codecs E \<longleftrightarrow>
     (\<forall>c bs. card_to_jcs E c = Ok bs \<longrightarrow> card_from_json E bs = Ok c) \<and>
     (\<forall>p bs. pin_to_jcs E p = Ok bs \<longrightarrow> pin_from_json E bs = Ok p)"

lemma canonical_card_Ok_iff:
  "canonical_persona_root_card_bytes E c = Ok bs \<longleftrightarrow>
     validate_persona_root_card_fields E c = Ok () \<and> card_to_jcs E c = Ok bs \<and> length bs \<le> 4096"
  by (auto simp: canonical_persona_root_card_bytes_def MAX_PERSONA_ROOT_CARD_BYTES_def)

lemma canonical_pin_Ok_iff:
  "canonical_persona_root_pin_bytes E p = Ok bs \<longleftrightarrow>
     validate_persona_root_pin_fields p = Ok () \<and> pin_to_jcs E p = Ok bs \<and> length bs \<le> 4096"
  by (auto simp: canonical_persona_root_pin_bytes_def MAX_PERSONA_ROOT_PIN_BYTES_def)

lemma parse_card_iff:
  assumes "distribution_codecs E"
  shows "parse_persona_root_card_bytes E bs = Ok c \<longleftrightarrow> canonical_persona_root_card_bytes E c = Ok bs"
  using assms
  by (auto simp: parse_persona_root_card_bytes_def canonical_card_Ok_iff parse_bounded_json_def MAX_PERSONA_ROOT_CARD_BYTES_def
      distribution_codecs_def split: if_splits)

lemma parse_pin_iff:
  assumes "distribution_codecs E"
  shows "parse_persona_root_pin_bytes E bs = Ok p \<longleftrightarrow> canonical_persona_root_pin_bytes E p = Ok bs"
  using assms
  by (auto simp: parse_persona_root_pin_bytes_def canonical_pin_Ok_iff parse_bounded_json_def MAX_PERSONA_ROOT_PIN_BYTES_def
      distribution_codecs_def split: if_splits)

lemma valid_cards_eq:
  assumes "validate_persona_root_card_fields E c = Ok ()" "validate_persona_root_card_fields E c' = Ok ()"
    and json: "\<forall>s bs. root_to_jcs E s = Ok bs \<longrightarrow> root_from_json E bs = Ok s"
    and inj: "inj_on (sha256_hex E) {bs. \<exists>s. root_to_jcs E s = Ok bs}"
    and "card_root_statement_sha256 c = card_root_statement_sha256 c'"
  shows "c = c'"
proof -
  from assms(1,2) obtain s bs s' bs' where c: "root_to_jcs E s = Ok bs" "c = card_of E s bs"
    "root_to_jcs E s' = Ok bs'" "c' = card_of E s' bs'" unfolding card_fields_Ok_iff canonical_root_Ok_iff by blast
  with assms(5) inj have "bs = bs'" by (auto simp: card_of_def dest: inj_onD)
  with json c have "Ok s = (Ok s' :: (PersonaRootStatement, json_error) result)" by metis
  with c \<open>bs = bs'\<close> show ?thesis by simp
qed

section \<open>Comparison reports\<close>

lemma pin_fields_Ok_iff:
  "validate_persona_root_pin_fields p = Ok () \<longleftrightarrow>
     pin_schema p = PERSONA_ROOT_PIN_SCHEMA \<and> pin_canonicalization p = CONTINUITY_CANONICALIZATION \<and>
     lowercase_hex_64 (pin_root_statement_sha256 p) \<and> 0 \<le> pin_recorded_at p \<and> pin_recorded_at p \<le> MAX_JCS_SAFE_INTEGER \<and>
     (\<forall>d. pin_source_artifact_sha256 p = Some d \<longrightarrow> lowercase_hex_64 d)"
  by (auto simp: validate_persona_root_pin_fields_def split: option.splits)

lemma jcs_difference:
  assumes "0 \<le> a" "a \<le> b" "b \<le> MAX_JCS_SAFE_INTEGER"
  shows "i64_checked_sub b a = Some (b - a)" "u64_try_from (b - a) = Some (word_of_int (b - a))"
    "uint (the (u64_try_from (b - a))) = b - a"
proof -
  have d: "0 \<le> b - a" "b - a < 2 ^ 64" using assms by (simp_all add: MAX_JCS_SAFE_INTEGER_def)
  show "i64_checked_sub b a = Some (b - a)"
    using assms by (simp add: i64_checked_sub_def i64_min_def i64_max_def MAX_JCS_SAFE_INTEGER_def)
  show some: "u64_try_from (b - a) = Some (word_of_int (b - a))" using d(1) by (simp add: u64_try_from_def)
  have "uint (word_of_int (b - a) :: u64) = (b - a) mod 2 ^ 64" by (simp only: uint_word_of_int) simp
  with d some show "uint (the (u64_try_from (b - a))) = b - a" by simp
qed

lemma compare_Ok:
  assumes "compare_verified_persona_root_distribution E root supplied pin t = Ok r"
  obtains c where "0 \<le> t" "t \<le> MAX_JCS_SAFE_INTEGER" "validate_persona_root_pin_fields pin = Ok ()" "pin_recorded_at pin \<le> t"
    "persona_root_card_from_verified_root E root = Ok c" "dr_root_signature r = SignatureVerified"
    "dr_card_match r = (case supplied of None \<Rightarrow> MatchNotChecked | Some c' \<Rightarrow> if c' = c then Matched else Mismatched)"
    "dr_pin_match r = (if pin_root_statement_sha256 pin = card_root_statement_sha256 c then Matched else Mismatched)"
    "dr_root_issued_after_local_observation r \<longleftrightarrow> dr_pin_match r = Matched \<and> pin_recorded_at pin < card_issued_at c"
    "dr_first_contact_delay_seconds r = (if dr_pin_match r = Matched \<and> card_issued_at c \<le> pin_recorded_at pin
       then Some (the (u64_try_from (pin_recorded_at pin - card_issued_at c))) else None)"
    "dr_pin_observation_age_seconds r = the (u64_try_from (t - pin_recorded_at pin))"
    "dr_late_first_contact r = map_option (\<lambda>d. PERSONA_ROOT_LATE_FIRST_CONTACT_WARNING_SECONDS < d) (dr_first_contact_delay_seconds r)"
    "dr_pin_observation_review_due r \<longleftrightarrow> PERSONA_ROOT_PIN_REVIEW_WARNING_SECONDS < dr_pin_observation_age_seconds r"
    "dr_channel_independence r = trust_basis_independence (pin_trust_basis pin)"
    "\<not> dr_root_card_possession_grants_authority r"
proof -
  from assms obtain c where c: "0 \<le> t" "t \<le> MAX_JCS_SAFE_INTEGER" "validate_persona_root_pin_fields pin = Ok ()" "pin_recorded_at pin \<le> t"
    "persona_root_card_from_verified_root E root = Ok c" 
    by (auto simp: compare_verified_persona_root_distribution_def validate_persona_root_pin_def split: if_splits)
  show thesis
    by (rule that [OF c]; insert assms c; simp add: compare_verified_persona_root_distribution_def validate_persona_root_pin_def Let_def;
      elim exE conjE; auto)
qed

end
