(* ===== verification/Distribution_Properties.thy ===== *)
theory Distribution_Properties
  imports Demo Root_Distribution
begin

text \<open>
  The properties of root distribution (\<^verbatim>\<open>a-quo-core/src/root_distribution.rs\<close>): cards carry the root they were copied
  from, and the comparison with a pin reports exact matches and exact delays. Both are applied to the
  root of \<open>Demo\<close>.
\<close>

section \<open>A card and a pin\<close>

definition demo_card :: PersonaRootCard where
  "demo_card = \<lparr>card_schema = PERSONA_ROOT_CARD_SCHEMA, card_canonicalization = CONTINUITY_CANONICALIZATION,
     card_persona = ''p'', card_persona_anchor = demo_anchor, card_root_version = 1, card_issued_at = 100,
     card_initial_key_fingerprint = demo_print (CHR ''0''), card_root_statement_sha256 = demo_digest 1,
     card_pin_uri = PERSONA_ROOT_PIN_URI_PREFIX @ demo_digest 1\<rparr>"

definition demo_pin :: PersonaRootPin where
  "demo_pin = \<lparr>pin_schema = PERSONA_ROOT_PIN_SCHEMA, pin_canonicalization = CONTINUITY_CANONICALIZATION,
     pin_root_statement_sha256 = demo_digest 1, pin_recorded_at = 150, pin_trust_basis = TrustOnFirstUse,
     pin_channel = InPerson, pin_source_artifact_sha256 = None\<rparr>"

definition demo_distribution_ext :: distribution_ext where
  "demo_distribution_ext =
     \<lparr>base64_decode = (\<lambda>s. Ok ([0, 0, 0, 1] @ as_bytes s)),
      base64_nopad_decode = (\<lambda>s. Ok (as_bytes s)), base64_nopad_encode = map char_from,
      base64url_decode = (\<lambda>s. Ok (as_bytes s)), base64url_encode = map char_from,
      sha256 = demo_sha256, key_from_openssh = (\<lambda>_. Some Ed25519), sshsig_algorithm = (\<lambda>_. Some AlgOther),
      key_verify = (\<lambda>key namespace payload signature. signature = demo_sign key namespace payload),
      keygen_metadata = Some \<lparr>is_symlink = False, is_file = True, file_mode = 0x1ED, file_owner = 0\<rparr>,
      process_env = (\<lambda>_. None), keygen_spawn = demo_run,
      root_from_json = demo_from [(demo_root, 1)], root_to_jcs = demo_to [(demo_root, 1)],
      root_proof_from_json = demo_from [],
      transition_from_json = demo_from [], transition_to_jcs = demo_to [], transition_proof_from_json = demo_from [],
      card_to_jcs = demo_to [(demo_card, 20)], card_from_json = demo_from [(demo_card, 20)],
      pin_to_jcs = demo_to [(demo_pin, 21)], pin_from_json = demo_from [(demo_pin, 21)]\<rparr>"

lemma demo_distribution_base: "demo_base demo_distribution_ext"
  by (simp add: demo_base_def demo_distribution_ext_def)

lemma demo_distribution_codecs: "distribution_codecs demo_distribution_ext"
  by (simp add: distribution_codecs_def demo_distribution_ext_def demo_to_one demo_from_one)

lemma demo_distribution_sha256: "length (sha256 demo_distribution_ext bs) = 32" "sha256_hex demo_distribution_ext [n] = demo_digest n"
  by (simp_all add: demo_distribution_ext_def sha256_hex_def demo_digest_def)

lemma demo_distribution_canonical: "canonical_persona_root_statement_bytes demo_distribution_ext demo_root = Ok [1]"
proof -
  have "validate_key_fingerprint demo_distribution_ext (demo_print (CHR ''0'')) = Ok ()"
    by (simp add: validate_key_fingerprint_def demo_print_def strip_prefix_def demo_distribution_ext_def)
  moreover have "validate_persona_anchor demo_distribution_ext demo_anchor = Ok ()"
    by (simp add: validate_persona_anchor_def PERSONA_ANCHOR_BYTES_def demo_anchor_def demo_distribution_ext_def)
  ultimately have "validate_persona_root_statement demo_distribution_ext demo_root = Ok ()"
    by (simp add: validate_persona_root_statement_def demo_root_def validate_jcs_time_def MAX_JCS_SAFE_INTEGER_def)
  then show ?thesis
    by (simp add: canonical_root_Ok_iff MAX_CONTINUITY_PAYLOAD_BYTES_def demo_distribution_ext_def)
qed

lemma demo_distribution_root: "verify_persona_root_proof demo_distribution_ext demo_root_proof = Ok demo_verified_root"
proof -
  note key = base_key [OF demo_distribution_base, of "CHR ''0''"]
  have "decode_continuity_payload demo_distribution_ext [char_from 1] = Ok [1]"
    by (simp add: decode_continuity_payload_def decode_payload_def validate_payload_bound_def
        MAX_CONTINUITY_PAYLOAD_BYTES_def MAX_PROOF_BYTES_def as_bytes_def demo_distribution_ext_def)
  moreover have "validate_signature demo_distribution_ext (demo_signature RootRole PERSONA_ROOT_NAMESPACE (CHR ''0'') 1) RootRole
      PERSONA_ROOT_NAMESPACE = Ok (demo_key (CHR ''0''))"
    using key(1) demo_signature_valid [of "CHR ''0''" PERSONA_ROOT_NAMESPACE RootRole 1]
    by (simp add: validate_signature_def demo_signature_def new_signature_def split: if_splits)
  moreover have "root_from_json demo_distribution_ext [1] = Ok demo_root" by (simp add: demo_distribution_ext_def)
  ultimately show ?thesis
    using demo_distribution_canonical key base_verify [OF demo_distribution_base]
    by (simp add: verify_root_Ok_iff demo_root_proof_def demo_verified_root_def demo_distribution_sha256 demo_root_def)
qed

section \<open>Properties\<close>

lemma root_issued_at: "validate_persona_root_statement E s = Ok () \<Longrightarrow> 0 \<le> rs_issued_at s \<and> rs_issued_at s \<le> MAX_JCS_SAFE_INTEGER"
  by (auto simp: validate_persona_root_statement_def validate_jcs_time_def split: if_splits)

lemma verified_root_candidate:
  assumes "verify_persona_root_proof E pf = Ok root" "persona_root_card_from_verified_root E root = Ok c"
  shows "card_root_statement_sha256 c = vr_root_statement_sha256 root" "card_issued_at c = rs_issued_at (vr_statement root)"
    "0 \<le> card_issued_at c"
proof -
  from assms(1) obtain payload where payload: "canonical_persona_root_statement_bytes E (vr_statement root) = Ok payload"
    "vr_root_statement_sha256 root = sha256_hex E payload" by (auto simp: verify_root_Ok_iff)
  with assms(2) have c: "c = card_of E (vr_statement root) payload" unfolding verified_root_card [OF assms(1)] by auto
  with payload show "card_root_statement_sha256 c = vr_root_statement_sha256 root" "card_issued_at c = rs_issued_at (vr_statement root)"
    by (simp_all add: card_of_def)
  with payload(1) root_issued_at show "0 \<le> card_issued_at c" by (auto simp: canonical_root_Ok_iff)
qed

text \<open>
  C38. The comparison of a root with a card and a pin is exact: the pin matches if and only if it names the
  digest of the verified root, the card if and only if it is the card of that root, and the age of the
  observation and the delay of the first contact are the true differences of the recorded times, with no
  overflow. A card never grants authority.
\<close>

theorem distribution_comparison_is_exact:
  assumes "verify_persona_root_proof E pf = Ok root" "compare_persona_root_distribution E pf supplied pin t = Ok r"
  shows "(dr_pin_match r = Matched \<longleftrightarrow> pin_root_statement_sha256 pin = vr_root_statement_sha256 root) \<and>
    (dr_card_match r = Matched \<longleftrightarrow> supplied \<noteq> None \<and> persona_root_card_from_proof E pf = Ok (the supplied)) \<and>
    i64_checked_sub t (pin_recorded_at pin) = Some (uint (dr_pin_observation_age_seconds r)) \<and>
    map_option uint (dr_first_contact_delay_seconds r) =
      (if dr_pin_match r = Matched \<and> rs_issued_at (vr_statement root) \<le> pin_recorded_at pin
       then i64_checked_sub (pin_recorded_at pin) (rs_issued_at (vr_statement root)) else None) \<and>
    (dr_root_issued_after_local_observation r \<longleftrightarrow>
       dr_pin_match r = Matched \<and> pin_recorded_at pin < rs_issued_at (vr_statement root)) \<and>
    \<not> dr_root_card_possession_grants_authority r"
proof -
  from assms have "compare_verified_persona_root_distribution E root supplied pin t = Ok r"
    by (simp add: compare_persona_root_distribution_def)
  then obtain c where c: "0 \<le> t" "t \<le> MAX_JCS_SAFE_INTEGER" "validate_persona_root_pin_fields pin = Ok ()"
    "pin_recorded_at pin \<le> t" "persona_root_card_from_verified_root E root = Ok c"
    and card: "dr_card_match r = (case supplied of None \<Rightarrow> MatchNotChecked | Some c' \<Rightarrow> if c' = c then Matched else Mismatched)"
    and pin: "dr_pin_match r = (if pin_root_statement_sha256 pin = card_root_statement_sha256 c then Matched else Mismatched)"
      "dr_root_issued_after_local_observation r \<longleftrightarrow> dr_pin_match r = Matched \<and> pin_recorded_at pin < card_issued_at c"
      "dr_first_contact_delay_seconds r = (if dr_pin_match r = Matched \<and> card_issued_at c \<le> pin_recorded_at pin
         then Some (the (u64_try_from (pin_recorded_at pin - card_issued_at c))) else None)"
      "dr_pin_observation_age_seconds r = the (u64_try_from (t - pin_recorded_at pin))"
      "\<not> dr_root_card_possession_grants_authority r" by (rule compare_Ok)
  note root = verified_root_candidate [OF assms(1) c(5)]
  have bounds: "0 \<le> pin_recorded_at pin" "pin_recorded_at pin \<le> MAX_JCS_SAFE_INTEGER" using c(3) by (auto simp: pin_fields_Ok_iff)
  have "dr_card_match r = Matched \<longleftrightarrow> supplied \<noteq> None \<and> persona_root_card_from_proof E pf = Ok (the supplied)"
    using card assms(1) c(5) by (cases supplied) (auto simp: persona_root_card_from_proof_def)
  moreover have "i64_checked_sub t (pin_recorded_at pin) = Some (uint (dr_pin_observation_age_seconds r))"
    using jcs_difference [OF bounds(1) c(4,2)] pin(4) by simp
  moreover have "map_option uint (dr_first_contact_delay_seconds r) =
      (if dr_pin_match r = Matched \<and> rs_issued_at (vr_statement root) \<le> pin_recorded_at pin
       then i64_checked_sub (pin_recorded_at pin) (rs_issued_at (vr_statement root)) else None)"
    using jcs_difference(1,3) [OF root(3) _ bounds(2)] pin(3) root(2) by simp
  ultimately show ?thesis using pin(1,2,5) root(1,2) by simp
qed

theorem distribution_comparison_is_exact_witness:
  "\<exists>r. compare_persona_root_distribution demo_distribution_ext demo_root_proof (Some demo_card) demo_pin 200 = Ok r \<and>
     dr_pin_match r = Matched \<and> dr_card_match r = Matched \<and>
     uint (dr_pin_observation_age_seconds r) = 50 \<and> map_option uint (dr_first_contact_delay_seconds r) = Some 50"
proof -
  have card: "persona_root_card_from_verified_root demo_distribution_ext demo_verified_root = Ok demo_card"
    unfolding verified_root_card [OF demo_distribution_root]
    using demo_distribution_canonical
    by (simp add: demo_verified_root_def card_of_def demo_card_def demo_distribution_sha256 demo_root_def)
  have "lowercase_hex_64 (sha256_hex demo_distribution_ext [1])" by (simp add: demo_distribution_sha256)
  with card demo_distribution_canonical have "validate_persona_root_card_fields demo_distribution_ext demo_card = Ok ()"
    unfolding card_fields_Ok_iff verified_root_card [OF demo_distribution_root]
    by (intro exI [of _ demo_root] exI [of _ "[1]"]) (simp add: demo_verified_root_def)
  then have sha: "persona_root_card_sha256 demo_distribution_ext demo_card = Ok (sha256_hex demo_distribution_ext [20])"
    by (simp add: persona_root_card_sha256_def canonical_persona_root_card_bytes_def demo_distribution_ext_def
        MAX_PERSONA_ROOT_CARD_BYTES_def distribution_require_bound_def)
  have pin: "validate_persona_root_pin_fields demo_pin = Ok ()"
    by (simp add: pin_fields_Ok_iff demo_pin_def MAX_JCS_SAFE_INTEGER_def)
  obtain r where r: "compare_persona_root_distribution demo_distribution_ext demo_root_proof (Some demo_card) demo_pin 200 = Ok r"
    using card sha pin
    by (simp add: compare_persona_root_distribution_def demo_distribution_root compare_verified_persona_root_distribution_def
        validate_persona_root_card_def validate_persona_root_pin_def distribution_validate_jcs_time_def MAX_JCS_SAFE_INTEGER_def Let_def)
      (simp add: demo_pin_def)
  note exact = distribution_comparison_is_exact [OF demo_distribution_root r]
  have "dr_pin_match r = Matched" "dr_card_match r = Matched" using exact card
    by (simp_all add: demo_pin_def demo_verified_root_def persona_root_card_from_proof_def demo_distribution_root)
  moreover have "pin_recorded_at demo_pin = 150" "rs_issued_at (vr_statement demo_verified_root) = 100"
    by (simp_all add: demo_pin_def demo_verified_root_def demo_root_def)
  ultimately show ?thesis using exact r by (auto simp: i64_checked_sub_def i64_min_def i64_max_def)
qed

text \<open>
  The card of a verified root carries that root: it is always derived, its pin URI parses back to the
  digest of the root, and its canonical bytes are the only document that parses to it.
\<close>

theorem card_carries_root:
  assumes "distribution_codecs E" "verify_persona_root_proof E pf = Ok root" "\<forall>bs. length (sha256 E bs) = 32"
  shows "\<exists>c. persona_root_card_from_proof E pf = Ok c \<and> card_root_statement_sha256 c = vr_root_statement_sha256 root \<and>
    parse_persona_root_pin_uri (card_pin_uri c) = Ok (vr_root_statement_sha256 root) \<and>
    (\<forall>bs. parse_persona_root_card_bytes E bs = Ok c \<longleftrightarrow> canonical_persona_root_card_bytes E c = Ok bs)"
proof -
  from assms(2) obtain payload where payload: "canonical_persona_root_statement_bytes E (vr_statement root) = Ok payload"
    "vr_root_statement_sha256 root = sha256_hex E payload" by (auto simp: verify_root_Ok_iff)
  have hex: "lowercase_hex_64 (vr_root_statement_sha256 root)" using sha256_hex_shape [of E payload] assms(3) payload(2) by simp
  let ?c = "card_of E (vr_statement root) payload"
  have "persona_root_card_from_proof E pf = Ok ?c"
    using assms(2) verified_root_card [OF assms(2), of ?c] hex payload(1) by (simp add: persona_root_card_from_proof_def)
  moreover have "parse_persona_root_pin_uri (card_pin_uri ?c) = Ok (vr_root_statement_sha256 root)"
    unfolding parse_pin_uri_iff pin_uri_Ok_iff using hex payload(2) by (simp add: card_of_def)
  ultimately show ?thesis using parse_card_iff [OF assms(1)] payload(2) by (intro exI [of _ ?c]) (simp add: card_of_def)
qed

theorem card_carries_root_witness:
  "\<exists>c. persona_root_card_from_proof demo_distribution_ext demo_root_proof = Ok c \<and>
     card_root_statement_sha256 c = demo_digest 1 \<and> parse_persona_root_pin_uri (card_pin_uri c) = Ok (demo_digest 1)"
  using card_carries_root [OF demo_distribution_codecs demo_distribution_root] demo_distribution_sha256(1)
  by (simp add: demo_verified_root_def) blast

end
