(* ===== verification/Wire.thy ===== *)
theory Wire
  imports Signing
begin

text \<open>
  Fixed binary layouts, shared by the consent protocol of \<^verbatim>\<open>a-quo-ipc\<close> and the approval protocol
  of \<^verbatim>\<open>a-quo-approval\<close>: big-endian integers, slices, the twenty-byte message header and what a codec
  promises. Both crates write the header functions out with their own magic number and their own
  error type, so the laws of the header are proved once, in the locale \<open>framing\<close>, from the equations
  that the two crates share. A decoder that inverts its encoder on exactly the messages it accepts
  is a \<open>codec\<close>.
\<close>

unbundle bit_operations_syntax

named_theorems wire \<open>reading fields of concatenated byte strings\<close>

type_synonym u16 = "16 word"

section \<open>Slices\<close>

text \<open>The slice \<^verbatim>\<open>&bytes[a..b]\<close>. The decoders take one only below a length they have checked.\<close>

definition slice :: "'a list \<Rightarrow> nat \<Rightarrow> nat \<Rightarrow> 'a list" where
  "slice xs a b = take (b - a) (drop a xs)"

lemma length_slice [simp]: "b \<le> length xs \<Longrightarrow> length (slice xs a b) = b - a"
  by (simp add: slice_def)

lemma slice_append_skip [wire]:
  "length xs \<le> a \<Longrightarrow> slice (xs @ ys) a b = slice ys (a - length xs) (b - length xs)"
  by (simp add: slice_def)

lemma slice_append_all [wire]: "length xs = b \<Longrightarrow> slice (xs @ ys) 0 b = xs"
  by (simp add: slice_def)

lemma slice_whole [wire]: "length xs \<le> b \<Longrightarrow> slice xs 0 b = xs"
  by (simp add: slice_def)

lemma slice_Cons_skip [wire]: "0 < a \<Longrightarrow> slice (x # xs) a b = slice xs (a - 1) (b - 1)"
  by (cases a) (simp_all add: slice_def)

lemma slice_Cons_take [wire]: "0 < b \<Longrightarrow> slice (x # xs) 0 b = x # slice xs 0 (b - 1)"
  by (cases b) (simp_all add: slice_def)

lemma slice_empty [wire]: "slice xs a a = []"
  by (simp add: slice_def)

lemma nth_append_skip [wire]: "length xs \<le> i \<Longrightarrow> (xs @ ys) ! i = ys ! (i - length xs)"
  by (simp add: nth_append)

lemma drop_append_skip [wire]: "length xs \<le> i \<Longrightarrow> drop i (xs @ ys) = drop (i - length xs) ys"
  by simp

lemma drop_Cons_skip [wire]: "0 < i \<Longrightarrow> drop i (x # xs) = drop (i - 1) xs"
  by (cases i) simp_all

text \<open>Cutting a list at increasing positions loses nothing.\<close>

fun pieces :: "nat \<Rightarrow> nat list \<Rightarrow> 'a list \<Rightarrow> 'a list" where
  "pieces a [] xs = drop a xs"
| "pieces a (b # bs) xs = slice xs a b @ pieces b bs xs"

lemma pieces_id: "sorted (a # bs) \<Longrightarrow> pieces a bs xs = drop a xs"
proof (induction bs arbitrary: a)
  case (Cons b bs)
  then have "pieces b bs xs = drop b xs" "a \<le> b" by auto
  then show ?case
    by (metis append_take_drop_id drop_drop le_add_diff_inverse2 pieces.simps(2) slice_def)
qed simp

section \<open>Big-endian integers\<close>

definition u16_to_be_bytes :: "u16 \<Rightarrow> bytes" where
  "u16_to_be_bytes w = [ucast (drop_bit 8 w), ucast w]"

definition u16_from_be_bytes :: "byte \<Rightarrow> byte \<Rightarrow> u16" where
  "u16_from_be_bytes a b = push_bit 8 (ucast a) OR ucast b"

definition u64_to_be_bytes :: "u64 \<Rightarrow> bytes" where
  "u64_to_be_bytes w = u32_to_be_bytes (ucast (drop_bit 32 w)) @ u32_to_be_bytes (ucast w)"

definition u64_from_be_bytes :: "byte \<Rightarrow> byte \<Rightarrow> byte \<Rightarrow> byte \<Rightarrow> byte \<Rightarrow> byte \<Rightarrow> byte \<Rightarrow> byte \<Rightarrow> u64" where
  "u64_from_be_bytes a b c d e f g h =
     push_bit 32 (ucast (u32_from_be_bytes a b c d)) OR ucast (u32_from_be_bytes e f g h)"

definition i64_to_be_bytes :: "i64 \<Rightarrow> bytes" where
  "i64_to_be_bytes i = u64_to_be_bytes (word_of_int i)"

definition is_i64 :: "i64 \<Rightarrow> bool" where
  "is_i64 i \<longleftrightarrow> i64_min \<le> i \<and> i \<le> i64_max"

definition read_u16 :: "bytes \<Rightarrow> nat \<Rightarrow> u16" where
  "read_u16 bs k = u16_from_be_bytes (bs ! k) (bs ! (k + 1))"

definition read_u32 :: "bytes \<Rightarrow> nat \<Rightarrow> u32" where
  "read_u32 bs k = u32_from_be_bytes (bs ! k) (bs ! (k + 1)) (bs ! (k + 2)) (bs ! (k + 3))"

definition read_u64 :: "bytes \<Rightarrow> nat \<Rightarrow> u64" where
  "read_u64 bs k = u64_from_be_bytes (bs ! k) (bs ! (k + 1)) (bs ! (k + 2)) (bs ! (k + 3))
     (bs ! (k + 4)) (bs ! (k + 5)) (bs ! (k + 6)) (bs ! (k + 7))"

definition read_i64 :: "bytes \<Rightarrow> nat \<Rightarrow> i64" where
  "read_i64 bs k = sint (read_u64 bs k)"

lemma length_be_bytes [simp]:
  "length (u16_to_be_bytes v) = 2" "length (u64_to_be_bytes w) = 8" "length (i64_to_be_bytes i) = 8"
  by (simp_all add: u16_to_be_bytes_def u64_to_be_bytes_def i64_to_be_bytes_def)

lemma zero_be_bytes: "u16_to_be_bytes 0 = [0, 0]" "u32_to_be_bytes 0 = [0, 0, 0, 0]"
  by (simp_all add: u16_to_be_bytes_def u32_to_be_bytes_def)

lemma unat_u16_lt: "unat w < 65536" for w :: u16
  using unsigned_less [of w] by simp

lemma unat_of_nat_u16: "n < 65536 \<Longrightarrow> unat (of_nat n :: u16) = n"
  by (simp add: unat_of_nat)

lemmas word_bits = bit_or_iff Bit_Operations.bit_push_bit_iff bit_word_ucast_iff bit_drop_bit_eq not_le

lemma u16_be_inverse: "u16_from_be_bytes (ucast (drop_bit 8 w)) (ucast w) = w"
proof (rule bit_word_eqI)
  fix n assume "n < LENGTH(16)"
  then consider "n < 8" | "8 \<le> n" "n < 16" by fastforce
  then show "bit (u16_from_be_bytes (ucast (drop_bit 8 w)) (ucast w)) n = bit w n"
    by cases (auto simp: u16_from_be_bytes_def word_bits)
qed

lemma u16_be_surj: "u16_to_be_bytes (u16_from_be_bytes a b) = [a, b]"
proof -
  have "ucast (drop_bit 8 (u16_from_be_bytes a b)) = a" "ucast (u16_from_be_bytes a b) = b"
    by (auto intro!: bit_word_eqI simp: u16_from_be_bytes_def word_bits dest: bit_imp_le_length)
  then show ?thesis by (simp add: u16_to_be_bytes_def)
qed

lemma u32_be_surj: "u32_to_be_bytes (u32_from_be_bytes a b c d) = [a, b, c, d]"
proof -
  have "ucast (drop_bit 24 (u32_from_be_bytes a b c d)) = a" "ucast (drop_bit 16 (u32_from_be_bytes a b c d)) = b"
    "ucast (drop_bit 8 (u32_from_be_bytes a b c d)) = c" "ucast (u32_from_be_bytes a b c d) = d"
    by (auto intro!: bit_word_eqI simp: u32_from_be_bytes_def word_bits dest: bit_imp_le_length)
  then show ?thesis by (simp add: u32_to_be_bytes_def)
qed

lemma u64_halves: "push_bit 32 (ucast (ucast (drop_bit 32 w) :: u32)) OR ucast (ucast w :: u32) = (w :: u64)"
proof (rule bit_word_eqI)
  fix n assume "n < LENGTH(64)"
  then consider "n < 32" | "32 \<le> n" "n < 64" by fastforce
  then show "bit (push_bit 32 (ucast (ucast (drop_bit 32 w) :: u32)) OR ucast (ucast w :: u32) :: u64) n = bit w n"
    by cases (auto simp: word_bits)
qed

lemma u64_joined:
  fixes v w :: u32
  defines "j \<equiv> push_bit 32 (ucast v) OR ucast w :: u64"
  shows "ucast (drop_bit 32 j) = v" "ucast j = w"
  by (auto intro!: bit_word_eqI simp: j_def word_bits dest: bit_imp_le_length)

lemma u64_be_surj: "u64_to_be_bytes (u64_from_be_bytes a b c d e f g h) = [a, b, c, d, e, f, g, h]"
  unfolding u64_to_be_bytes_def u64_from_be_bytes_def u64_joined u32_be_surj by simp

lemma read_u16_here [wire]: "read_u16 (u16_to_be_bytes w @ xs) 0 = w" "read_u16 (u16_to_be_bytes w) 0 = w"
  by (simp_all add: read_u16_def u16_to_be_bytes_def u16_be_inverse)

lemma read_u32_here [wire]: "read_u32 (u32_to_be_bytes w @ xs) 0 = w" "read_u32 (u32_to_be_bytes w) 0 = w"
  by (simp_all add: read_u32_def u32_to_be_bytes_def u32_be_bytes_inverse)

lemma read_u64_here [wire]: "read_u64 (u64_to_be_bytes w @ xs) 0 = w"
  by (simp add: read_u64_def u64_to_be_bytes_def u32_to_be_bytes_def u64_from_be_bytes_def
      u32_be_bytes_inverse u64_halves)

lemma read_i64_here [wire]: "is_i64 i \<Longrightarrow> read_i64 (i64_to_be_bytes i @ xs) 0 = i"
  by (simp add: read_i64_def i64_to_be_bytes_def read_u64_here is_i64_def i64_min_def i64_max_def
      sint_word_ariths signed_take_bit_int_eq_self signed_of_int)

lemma read_append_skip [wire]:
  "length xs \<le> k \<Longrightarrow> read_u16 (xs @ ys) k = read_u16 ys (k - length xs)"
  "length xs \<le> k \<Longrightarrow> read_u32 (xs @ ys) k = read_u32 ys (k - length xs)"
  "length xs \<le> k \<Longrightarrow> read_u64 (xs @ ys) k = read_u64 ys (k - length xs)"
  "length xs \<le> k \<Longrightarrow> read_i64 (xs @ ys) k = read_i64 ys (k - length xs)"
  by (simp_all add: read_u16_def read_u32_def read_u64_def read_i64_def nth_append Suc_diff_le)

lemma read_Cons_skip [wire]:
  "0 < k \<Longrightarrow> read_u16 (x # xs) k = read_u16 xs (k - 1)"
  "0 < k \<Longrightarrow> read_u32 (x # xs) k = read_u32 xs (k - 1)"
  "0 < k \<Longrightarrow> read_u64 (x # xs) k = read_u64 xs (k - 1)"
  "0 < k \<Longrightarrow> read_i64 (x # xs) k = read_i64 xs (k - 1)"
  using read_append_skip [of "[x]" k xs] by simp_all

text \<open>A slice of the width of an integer is the encoding of the integer read there.\<close>

lemma slice_u16: "b = a + 2 \<Longrightarrow> b \<le> length bs \<Longrightarrow> slice bs a b = u16_to_be_bytes (read_u16 bs a)"
  by (simp add: read_u16_def u16_be_surj slice_def numeral_2_eq_2 take_Suc_conv_app_nth)

lemma slice_u32: "b = a + 4 \<Longrightarrow> b \<le> length bs \<Longrightarrow> slice bs a b = u32_to_be_bytes (read_u32 bs a)"
  by (simp add: read_u32_def u32_be_surj slice_def eval_nat_numeral take_Suc_conv_app_nth)

lemma slice_u64: "b = a + 8 \<Longrightarrow> b \<le> length bs \<Longrightarrow> slice bs a b = u64_to_be_bytes (read_u64 bs a)"
  by (simp add: read_u64_def u64_be_surj slice_def eval_nat_numeral take_Suc_conv_app_nth)

lemma slice_i64: "b = a + 8 \<Longrightarrow> b \<le> length bs \<Longrightarrow> slice bs a b = i64_to_be_bytes (read_i64 bs a)"
  by (simp add: read_i64_def i64_to_be_bytes_def slice_u64)

lemma slice_u8: "b = a + 1 \<Longrightarrow> b \<le> length xs \<Longrightarrow> slice xs a b = [xs ! a]"
  by (simp add: slice_def take_Suc_conv_app_nth)

lemma read_i64_range: "is_i64 (read_i64 bs k)"
  using sint_range_size [of "read_u64 bs k"]
  by (simp add: is_i64_def read_i64_def i64_min_def i64_max_def word_size)

section \<open>Text\<close>

text \<open>\<^verbatim>\<open>str::from_utf8\<close>.\<close>

definition from_utf8 :: "bytes \<Rightarrow> string option" where
  "from_utf8 bs = (let s = map char_from bs in if is_utf8 s then Some s else None)"

lemma map_char_from_as_bytes [simp]: "map char_from (as_bytes s) = s"
  by (simp add: as_bytes_def comp_def)

lemma as_bytes_map_char_from [simp]: "as_bytes (map char_from bs) = bs"
  by (simp add: as_bytes_def comp_def)

lemma from_utf8_iff [wire]: "from_utf8 bs = Some s \<longleftrightarrow> bs = as_bytes s \<and> is_utf8 s"
  by (auto simp: from_utf8_def Let_def)

lemma from_utf8_as_bytes [simp]: "is_utf8 s \<Longrightarrow> from_utf8 (as_bytes s) = Some s"
  by (simp add: from_utf8_iff)

section \<open>Optional digests\<close>

text \<open>\<^verbatim>\<open>u8::from(digest.is_some())\<close> and \<^verbatim>\<open>digest.unwrap_or([0_u8; 32])\<close>.\<close>

definition presence_byte :: "bytes option \<Rightarrow> byte" where
  "presence_byte digest = (if digest = None then 0 else 1)"

definition digest_or_zeros :: "bytes option \<Rightarrow> bytes" where
  "digest_or_zeros digest = (case digest of None \<Rightarrow> replicate 32 0 | Some d \<Rightarrow> d)"

text \<open>
  The \<^verbatim>\<open>match\<close> on the presence byte: an absent digest is written as zeros. The bytes above one were
  refused before.
\<close>

definition optional_digest :: "'e \<Rightarrow> byte \<Rightarrow> bytes \<Rightarrow> (bytes option, 'e) result" where
  "optional_digest invalid presence digest =
     (if presence = 0 then if digest = replicate 32 0 then Ok None else Err invalid
      else Ok (Some digest))"

lemma optional_digest_iff:
  assumes "presence \<le> 1" "length d = 32"
  shows "optional_digest e presence d = Ok x \<longleftrightarrow>
    presence = presence_byte x \<and> d = digest_or_zeros x"
proof -
  have "presence = 0 \<or> presence = 1"
    using assms(1) by (metis le_less word_less_1)
  then show ?thesis
    by (cases x) (auto simp: optional_digest_def presence_byte_def digest_or_zeros_def)
qed

lemma digest_or_zeros_length: "length (digest_or_zeros x) = 32 \<longleftrightarrow> pred_option (\<lambda>d. length d = 32) x"
  by (cases x) (simp_all add: digest_or_zeros_def)

section \<open>The message header\<close>

text \<open>
  Both protocols open a message with an eight-byte magic number, the protocol version, the message
  type, flags and the length of the payload, and check them in the same order. The laws below hold
  for every pair of functions with these equations.
\<close>

locale framing =
  fixes magic :: bytes
    and truncated_header invalid_magic payload_too_large truncated_payload trailing_bytes :: 'e
    and unsupported_version :: "u16 \<Rightarrow> u16 \<Rightarrow> 'e"
    and unsupported_type unsupported_flags :: "u16 \<Rightarrow> 'e"
    and encode_head :: "u16 \<Rightarrow> nat \<Rightarrow> bytes"
    and decode_common :: "bytes \<Rightarrow> (u16, 'e) result"
    and decode_head :: "bytes \<Rightarrow> u16 \<Rightarrow> nat \<Rightarrow> (bytes, 'e) result"
  assumes magic_length: "length magic = 8"
    and encode_head_eq: "encode_head t n = magic @ u16_to_be_bytes 1 @ u16_to_be_bytes 0 @ u16_to_be_bytes t
        @ u16_to_be_bytes 0 @ u32_to_be_bytes (of_nat n)"
    and decode_common_eq: "decode_common m =
        (if length m < 20 then Err truncated_header
         else if take 8 m \<noteq> magic then Err invalid_magic
         else if read_u16 m 8 \<noteq> 1 \<or> read_u16 m 10 \<noteq> 0 then Err (unsupported_version (read_u16 m 8) (read_u16 m 10))
         else if read_u16 m 14 \<noteq> 0 then Err (unsupported_flags (read_u16 m 14))
         else Ok (read_u16 m 12))"
    and decode_head_eq: "decode_head m t k = and_then (decode_common m) (\<lambda>message_type.
        if message_type \<noteq> t then Err (unsupported_type message_type)
        else if k < unat (read_u32 m 16) then Err payload_too_large
        else and_then (ok_or payload_too_large (usize_checked_add 20 (unat (read_u32 m 16)))) (\<lambda>expected.
        if length m < expected then Err truncated_payload
        else if expected < length m then Err trailing_bytes
        else Ok (drop 20 m)))"
begin

lemma length_encode_head: "length (encode_head t n) = 20"
  by (simp add: encode_head_eq magic_length)

lemma decode_common_head: "decode_common (encode_head t n @ p) = Ok t"
  by (simp add: decode_common_eq encode_head_eq magic_length wire)

text \<open>A message of at least twenty bytes that passes the common checks starts with an encoded header.\<close>

lemma decode_common_Ok:
  assumes "decode_common m = Ok t"
  shows "\<exists>n p. m = encode_head t n @ p \<and> n = unat (read_u32 m 16)"
proof -
  from assms have len: "20 \<le> length m" and mg: "take 8 m = magic"
    and r: "read_u16 m 8 = 1" "read_u16 m 10 = 0" "read_u16 m 14 = 0" "read_u16 m 12 = t"
    by (auto simp: decode_common_eq split: if_splits)
  have "m = pieces 0 [8, 10, 12, 14, 16, 20] m"
    by (subst pieces_id) auto
  also have "\<dots> = encode_head t (unat (read_u32 m 16)) @ drop 20 m"
    using len mg r by (simp add: slice_u16 slice_u32 encode_head_eq) (simp add: slice_def)
  finally show ?thesis by blast
qed

lemma decode_head_frame:
  assumes "n \<le> k" "n < 2 ^ 32"
  shows "decode_head (encode_head t n @ p) t k =
    (if length p < n then Err truncated_payload else if n < length p then Err trailing_bytes else Ok p)"
proof -
  have "read_u32 (encode_head t n @ p) 16 = of_nat n"
    by (simp add: encode_head_eq magic_length wire)
  moreover have "unat (of_nat n :: u32) = n" using assms(2) by (simp add: unat_of_nat)
  ultimately show ?thesis using assms
    by (simp add: decode_head_eq decode_common_head length_encode_head usize_checked_add_def)
qed

text \<open>The header is decoded exactly when the message is that header followed by its payload.\<close>

lemma decode_head_iff:
  assumes "k < 2 ^ 32"
  shows "decode_head m t k = Ok p \<longleftrightarrow> m = encode_head t (length p) @ p \<and> length p \<le> k"
proof
  assume dec: "decode_head m t k = Ok p"
  then have "decode_common m = Ok t" and le: "unat (read_u32 m 16) \<le> k"
    by (auto simp: decode_head_eq split: if_splits)
  then obtain n q where m: "m = encode_head t n @ q" "n = unat (read_u32 m 16)"
    using decode_common_Ok by blast
  from le have "n \<le> k" by (simp only: m(2))
  moreover have "n < 2 ^ 32" using unsigned_less [of "read_u32 m 16"] by (simp only: m(2)) simp
  ultimately have "length q = n \<and> p = q" using dec m(1) decode_head_frame [of n k t q]
    by (auto split: if_splits)
  with m(1) \<open>n \<le> k\<close> show "m = encode_head t (length p) @ p \<and> length p \<le> k" by simp
next
  assume "m = encode_head t (length p) @ p \<and> length p \<le> k"
  with assms show "decode_head m t k = Ok p" by (simp add: decode_head_frame)
qed

lemma decode_head_extended:
  assumes "k < 2 ^ 32" "decode_head m t k = Ok p" "x \<noteq> []"
  shows "decode_head (m @ x) t k = Err trailing_bytes"
proof -
  from assms have "m @ x = encode_head t (length p) @ (p @ x)" "length p \<le> k"
    by (simp_all add: decode_head_iff)
  with assms show ?thesis using decode_head_frame [of "length p" k t "p @ x"] by simp
qed

lemma decode_head_truncated:
  assumes "k < 2 ^ 32" "decode_head (y @ x) t k = Ok p" "x \<noteq> []" "20 \<le> length y"
  shows "decode_common y = Ok t \<and> decode_head y t k = Err truncated_payload"
proof -
  from assms have yx: "y @ x = encode_head t (length p) @ p" and "length p \<le> k"
    by (simp_all add: decode_head_iff)
  define q where "q = drop 20 y"
  have "take 20 (y @ x) = encode_head t (length p)" unfolding yx by (simp add: length_encode_head)
  then have "take 20 y = encode_head t (length p)" using assms(4) by simp
  then have y: "y = encode_head t (length p) @ q"
    unfolding q_def by (metis append_take_drop_id)
  have "length y < length (y @ x)" using assms(3) by simp
  then have "length q < length p" unfolding yx by (simp add: y)
  with \<open>length p \<le> k\<close> assms(1) show ?thesis
    unfolding y by (simp add: decode_head_frame decode_common_head)
qed

lemma decode_common_short: "length m < 20 \<Longrightarrow> decode_common m = Err truncated_header"
  by (simp add: decode_common_eq)

end

section \<open>Codecs\<close>

text \<open>
  The contract of an encoder and a decoder: the decoder accepts exactly the bytes that the encoder
  writes for a well-typed value. Messages then round-trip and each value has one wire form.
\<close>

locale codec =
  fixes enc :: "'a \<Rightarrow> (bytes, 'e) result" and dec :: "bytes \<Rightarrow> ('a, 'e) result" and typed :: "'a \<Rightarrow> bool"
  assumes dec_iff: "dec m = Ok r \<longleftrightarrow> typed r \<and> enc r = Ok m"
begin

lemma decodes_encoded: "typed r \<Longrightarrow> enc r = Ok m \<Longrightarrow> dec m = Ok r"
  by (simp add: dec_iff)

lemma encodes_decoded: "dec m = Ok r \<Longrightarrow> enc r = Ok m"
  by (simp add: dec_iff)

lemma decoded_typed: "dec m = Ok r \<Longrightarrow> typed r"
  by (simp add: dec_iff)

lemma one_wire_form: "dec m = Ok r \<Longrightarrow> dec n = Ok r \<Longrightarrow> m = n"
  by (simp add: dec_iff)

lemma encoding_injective: "typed r \<Longrightarrow> typed s \<Longrightarrow> enc r = Ok m \<Longrightarrow> enc s = Ok m \<Longrightarrow> r = s"
  using decodes_encoded [of r m] decodes_encoded [of s m] by simp

end

text \<open>
  A framed codec dispatches on the message type and reads the header before anything else, so no
  accepted message is a proper prefix of another: what is cut off or appended is reported.
\<close>

locale framed_codec =
  framing magic truncated_header invalid_magic payload_too_large truncated_payload trailing_bytes
    unsupported_version unsupported_type unsupported_flags encode_head decode_common decode_head +
  codec enc dec typed
  for magic and truncated_header invalid_magic payload_too_large truncated_payload trailing_bytes :: 'e
    and unsupported_version unsupported_type unsupported_flags encode_head decode_common decode_head
    and enc :: "'a \<Rightarrow> (bytes, 'e) result" and dec and typed +
  fixes limit :: "u16 \<Rightarrow> nat option"
  assumes limit_small: "limit t = Some k \<Longrightarrow> k < 2 ^ 32"
    and dec_common_Err: "decode_common m = Err e \<Longrightarrow> dec m = Err e"
    and dec_head_Err: "decode_common m = Ok t \<Longrightarrow> limit t = Some k \<Longrightarrow> decode_head m t k = Err e \<Longrightarrow> dec m = Err e"
    and dec_head_Ok: "dec m = Ok r \<Longrightarrow> \<exists>t k p. limit t = Some k \<and> decode_head m t k = Ok p"
begin

lemma extended_rejected:
  assumes "dec m = Ok r" "x \<noteq> []"
  shows "dec (m @ x) = Err trailing_bytes"
proof -
  obtain t k p where k: "limit t = Some k" and p: "decode_head m t k = Ok p"
    using dec_head_Ok assms(1) by blast
  then have m: "m = encode_head t (length p) @ p" by (simp add: decode_head_iff [OF limit_small [OF k]])
  have "decode_common (m @ x) = Ok t" using decode_common_head [of t "length p" "p @ x"] by (simp add: m)
  moreover have "decode_head (m @ x) t k = Err trailing_bytes"
    using decode_head_extended [OF limit_small [OF k] p assms(2)] .
  ultimately show ?thesis using k dec_head_Err by blast
qed

lemma truncated_rejected:
  assumes "dec (y @ x) = Ok r" "x \<noteq> []"
  shows "dec y = Err (if length y < 20 then truncated_header else truncated_payload)"
proof (cases "length y < 20")
  case True
  then show ?thesis using decode_common_short dec_common_Err by simp
next
  case False
  obtain t k p where k: "limit t = Some k" and p: "decode_head (y @ x) t k = Ok p"
    using dec_head_Ok assms(1) by blast
  then have "decode_common y = Ok t" "decode_head y t k = Err truncated_payload"
    using decode_head_truncated [OF limit_small [OF k] p assms(2)] False by simp_all
  with k False show ?thesis using dec_head_Err by simp
qed

lemma accepted_bounded:
  assumes "dec m = Ok r"
  shows "\<exists>t k. limit t = Some k \<and> length m \<le> 20 + k"
proof -
  obtain t k p where k: "limit t = Some k" and p: "decode_head m t k = Ok p"
    using dec_head_Ok assms by blast
  then have "m = encode_head t (length p) @ p" "length p \<le> k" by (simp_all add: decode_head_iff [OF limit_small [OF k]])
  then have "length m \<le> 20 + k" by (simp add: length_encode_head)
  with k show ?thesis by blast
qed

end

section \<open>Third-party functions\<close>

text \<open>
  The \<^verbatim>\<open>uuid\<close> crate and the encoder of \<^verbatim>\<open>base64\<close>'s standard alphabet are parameters. A \<^verbatim>\<open>Uuid\<close> is a
  128-bit value.
\<close>

type_synonym Uuid = "128 word"

record wire_ext = ext +
  uuid_parse_str :: "string \<Rightarrow> Uuid option"
  uuid_to_string :: "Uuid \<Rightarrow> string"
  uuid_from_slice :: "bytes \<Rightarrow> Uuid option"
  uuid_as_bytes :: "Uuid \<Rightarrow> bytes"
  uuid_is_nil :: "Uuid \<Rightarrow> bool"
  base64_encode :: "bytes \<Rightarrow> string"

text \<open>
  What \<^verbatim>\<open>Uuid::as_bytes\<close> and \<^verbatim>\<open>Uuid::from_slice\<close> document: sixteen bytes, and the value read from a
  slice is the one with these bytes.
\<close>

definition uuid_bytes_law :: "'z wire_ext_scheme \<Rightarrow> bool" where
  "uuid_bytes_law E \<longleftrightarrow> (\<forall>u. length (uuid_as_bytes E u) = 16)
     \<and> (\<forall>bs u. uuid_from_slice E bs = Some u \<longleftrightarrow> uuid_as_bytes E u = bs)"

section \<open>Paths and split strings\<close>

text \<open>\<^verbatim>\<open>Path::is_absolute\<close> on Unix, \<^verbatim>\<open>str::split_once\<close> at an ASCII character and \<^verbatim>\<open>u8::is_ascii_whitespace\<close>.\<close>

definition is_absolute :: "string \<Rightarrow> bool" where
  "is_absolute path = (case path of [] \<Rightarrow> False | c # _ \<Rightarrow> c = CHR ''/'')"

definition split_once :: "char \<Rightarrow> string \<Rightarrow> (string \<times> string) option" where
  "split_once c s = (if c \<in> set s then Some (takeWhile (\<lambda>d. d \<noteq> c) s, tl (dropWhile (\<lambda>d. d \<noteq> c) s)) else None)"

definition is_ascii_whitespace :: "char \<Rightarrow> bool" where
  "is_ascii_whitespace c = (let n = of_char c :: nat in n = 32 \<or> n = 9 \<or> n = 10 \<or> n = 12 \<or> n = 13)"

lemma usize_checked_add_iff [wire]: "usize_checked_add a b = Some c \<longleftrightarrow> c = a + b \<and> a + b < 2 ^ 64"
  by (auto simp: usize_checked_add_def)

end
