(* ===== verification/Approval.thy ===== *)
theory Approval
  imports Wire Domain_Control
begin

text \<open>
  The pipe protocol between the signing daemon and its one-shot consent process
  (\<^verbatim>\<open>src/crates/a-quo-approval/src/lib.rs\<close>): the five prompts, the decision that answers one, their
  validation, and the encoders, decoders and bounded readers. The crate repeats some names of
  \<^verbatim>\<open>a-quo-ipc\<close> and \<^verbatim>\<open>a-quo-core\<close>; here they carry the prefix \<open>Prompt\<close> or \<open>approval\<close>. The lemmas show that
  the consent process decodes exactly the prompts that the daemon encodes, and the daemon exactly
  the decisions that the consent process encodes.
\<close>

section \<open>Constants\<close>

definition APPROVAL_MAGIC :: bytes where "APPROVAL_MAGIC = as_bytes ''AQUOAPR'' @ [0]"
definition APPROVAL_HEADER_BYTES :: nat where "APPROVAL_HEADER_BYTES = 20"
definition ARTIFACT_PROMPT_PREFIX_BYTES :: nat where "ARTIFACT_PROMPT_PREFIX_BYTES = 96"
definition DOMAIN_PROMPT_PREFIX_BYTES :: nat where "DOMAIN_PROMPT_PREFIX_BYTES = 76"
definition PERSONA_ROOT_PROMPT_PREFIX_BYTES :: nat where "PERSONA_ROOT_PROMPT_PREFIX_BYTES = 96"
definition PERSONA_TRANSITION_PROMPT_PREFIX_BYTES :: nat where "PERSONA_TRANSITION_PROMPT_PREFIX_BYTES = 168"
definition RECOVERY_PARTICIPATION_PROMPT_PREFIX_BYTES :: nat where "RECOVERY_PARTICIPATION_PROMPT_PREFIX_BYTES = 200"
definition DECISION_PAYLOAD_BYTES :: nat where "DECISION_PAYLOAD_BYTES = 16"
definition MESSAGE_ARTIFACT_PROMPT :: u16 where "MESSAGE_ARTIFACT_PROMPT = 1"
definition MESSAGE_APPROVE :: u16 where "MESSAGE_APPROVE = 2"
definition MESSAGE_DECLINE :: u16 where "MESSAGE_DECLINE = 3"
definition MESSAGE_CANCEL :: u16 where "MESSAGE_CANCEL = 4"
definition MESSAGE_DOMAIN_PROMPT :: u16 where "MESSAGE_DOMAIN_PROMPT = 5"
definition MESSAGE_PERSONA_ROOT_PROMPT :: u16 where "MESSAGE_PERSONA_ROOT_PROMPT = 6"
definition MESSAGE_PERSONA_TRANSITION_PROMPT :: u16 where "MESSAGE_PERSONA_TRANSITION_PROMPT = 7"
definition MESSAGE_RECOVERY_PARTICIPATION_PROMPT :: u16 where "MESSAGE_RECOVERY_PARTICIPATION_PROMPT = 8"
definition APPROVAL_FLAGS_NONE :: u16 where "APPROVAL_FLAGS_NONE = 0"
definition PROMPT_DOMAIN_MAX_VALIDITY_SECONDS :: i64 where "PROMPT_DOMAIN_MAX_VALIDITY_SECONDS = 30 * 24 * 60 * 60"
definition PROMPT_DNS_TXT_PREFIX :: string where "PROMPT_DNS_TXT_PREFIX = ''a-quo-domain-v1=''"
definition APPROVAL_PROTOCOL_MAJOR :: u16 where "APPROVAL_PROTOCOL_MAJOR = 1"
definition APPROVAL_PROTOCOL_MINOR :: u16 where "APPROVAL_PROTOCOL_MINOR = 0"
definition MAX_PERSONA_LABEL_BYTES :: nat where "MAX_PERSONA_LABEL_BYTES = 256"
definition MAX_KEY_FINGERPRINT_BYTES :: nat where "MAX_KEY_FINGERPRINT_BYTES = 128"
definition PROMPT_MAX_ARTIFACT_LABEL_BYTES :: nat where "PROMPT_MAX_ARTIFACT_LABEL_BYTES = 256"
definition MAX_DOMAIN_BYTES :: nat where "MAX_DOMAIN_BYTES = 253"
definition MAX_DNS_TXT_VALUE_BYTES :: nat where "MAX_DNS_TXT_VALUE_BYTES = 128"
definition MAX_PERSONA_ANCHOR_BYTES :: nat where "MAX_PERSONA_ANCHOR_BYTES = 43"
definition MAX_RECOVERY_CEREMONY_ID_BYTES :: nat where "MAX_RECOVERY_CEREMONY_ID_BYTES = 43"
definition PROMPT_MAX_RECOVERY_POLICY_VERSION :: u32 where "PROMPT_MAX_RECOVERY_POLICY_VERSION = 1024"
definition PROMPT_MIN_RECOVERY_THRESHOLD :: u32 where "PROMPT_MIN_RECOVERY_THRESHOLD = 2"
definition PROMPT_MAX_RECOVERY_THRESHOLD :: u32 where "PROMPT_MAX_RECOVERY_THRESHOLD = 32"

definition MAX_ARTIFACT_PROMPT_PAYLOAD_BYTES :: nat where
  "MAX_ARTIFACT_PROMPT_PAYLOAD_BYTES = ARTIFACT_PROMPT_PREFIX_BYTES
     + MAX_PERSONA_LABEL_BYTES + MAX_KEY_FINGERPRINT_BYTES + PROMPT_MAX_ARTIFACT_LABEL_BYTES"
definition MAX_DOMAIN_PROMPT_PAYLOAD_BYTES :: nat where
  "MAX_DOMAIN_PROMPT_PAYLOAD_BYTES = DOMAIN_PROMPT_PREFIX_BYTES
     + MAX_PERSONA_LABEL_BYTES + MAX_KEY_FINGERPRINT_BYTES + MAX_DOMAIN_BYTES + MAX_DNS_TXT_VALUE_BYTES"
definition MAX_PERSONA_ROOT_PROMPT_PAYLOAD_BYTES :: nat where
  "MAX_PERSONA_ROOT_PROMPT_PAYLOAD_BYTES = PERSONA_ROOT_PROMPT_PREFIX_BYTES
     + MAX_PERSONA_LABEL_BYTES + MAX_KEY_FINGERPRINT_BYTES + MAX_PERSONA_ANCHOR_BYTES"
definition MAX_PERSONA_TRANSITION_PROMPT_PAYLOAD_BYTES :: nat where
  "MAX_PERSONA_TRANSITION_PROMPT_PAYLOAD_BYTES = PERSONA_TRANSITION_PROMPT_PREFIX_BYTES
     + MAX_PERSONA_LABEL_BYTES + MAX_KEY_FINGERPRINT_BYTES + MAX_KEY_FINGERPRINT_BYTES + MAX_PERSONA_ANCHOR_BYTES"
definition MAX_RECOVERY_PARTICIPATION_PROMPT_PAYLOAD_BYTES :: nat where
  "MAX_RECOVERY_PARTICIPATION_PROMPT_PAYLOAD_BYTES = RECOVERY_PARTICIPATION_PROMPT_PREFIX_BYTES
     + MAX_PERSONA_LABEL_BYTES + MAX_KEY_FINGERPRINT_BYTES + MAX_KEY_FINGERPRINT_BYTES + MAX_KEY_FINGERPRINT_BYTES
     + MAX_PERSONA_ANCHOR_BYTES + MAX_RECOVERY_CEREMONY_ID_BYTES"
definition MAX_ARTIFACT_OR_DOMAIN_PROMPT_PAYLOAD_BYTES :: nat where
  "MAX_ARTIFACT_OR_DOMAIN_PROMPT_PAYLOAD_BYTES =
     (if MAX_DOMAIN_PROMPT_PAYLOAD_BYTES < MAX_ARTIFACT_PROMPT_PAYLOAD_BYTES
      then MAX_ARTIFACT_PROMPT_PAYLOAD_BYTES else MAX_DOMAIN_PROMPT_PAYLOAD_BYTES)"
definition MAX_ROOT_OR_TRANSITION_PROMPT_PAYLOAD_BYTES :: nat where
  "MAX_ROOT_OR_TRANSITION_PROMPT_PAYLOAD_BYTES =
     (if MAX_PERSONA_TRANSITION_PROMPT_PAYLOAD_BYTES < MAX_PERSONA_ROOT_PROMPT_PAYLOAD_BYTES
      then MAX_PERSONA_ROOT_PROMPT_PAYLOAD_BYTES else MAX_PERSONA_TRANSITION_PROMPT_PAYLOAD_BYTES)"
definition MAX_EXISTING_PROMPT_PAYLOAD_BYTES :: nat where
  "MAX_EXISTING_PROMPT_PAYLOAD_BYTES =
     (if MAX_ROOT_OR_TRANSITION_PROMPT_PAYLOAD_BYTES < MAX_ARTIFACT_OR_DOMAIN_PROMPT_PAYLOAD_BYTES
      then MAX_ARTIFACT_OR_DOMAIN_PROMPT_PAYLOAD_BYTES else MAX_ROOT_OR_TRANSITION_PROMPT_PAYLOAD_BYTES)"
definition MAX_PROMPT_PAYLOAD_BYTES :: nat where
  "MAX_PROMPT_PAYLOAD_BYTES =
     (if MAX_RECOVERY_PARTICIPATION_PROMPT_PAYLOAD_BYTES < MAX_EXISTING_PROMPT_PAYLOAD_BYTES
      then MAX_EXISTING_PROMPT_PAYLOAD_BYTES else MAX_RECOVERY_PARTICIPATION_PROMPT_PAYLOAD_BYTES)"
definition MAX_MESSAGE_BYTES :: nat where
  "MAX_MESSAGE_BYTES = APPROVAL_HEADER_BYTES + MAX_PROMPT_PAYLOAD_BYTES"

lemmas prompt_prefixes = ARTIFACT_PROMPT_PREFIX_BYTES_def DOMAIN_PROMPT_PREFIX_BYTES_def
  PERSONA_ROOT_PROMPT_PREFIX_BYTES_def PERSONA_TRANSITION_PROMPT_PREFIX_BYTES_def
  RECOVERY_PARTICIPATION_PROMPT_PREFIX_BYTES_def DECISION_PAYLOAD_BYTES_def

lemmas prompt_field_sizes = MAX_PERSONA_LABEL_BYTES_def MAX_KEY_FINGERPRINT_BYTES_def PROMPT_MAX_ARTIFACT_LABEL_BYTES_def
  MAX_DOMAIN_BYTES_def MAX_DNS_TXT_VALUE_BYTES_def MAX_PERSONA_ANCHOR_BYTES_def MAX_RECOVERY_CEREMONY_ID_BYTES_def

lemmas prompt_sizes = prompt_prefixes prompt_field_sizes APPROVAL_HEADER_BYTES_def MAX_ARTIFACT_PROMPT_PAYLOAD_BYTES_def
  MAX_DOMAIN_PROMPT_PAYLOAD_BYTES_def MAX_PERSONA_ROOT_PROMPT_PAYLOAD_BYTES_def
  MAX_PERSONA_TRANSITION_PROMPT_PAYLOAD_BYTES_def MAX_RECOVERY_PARTICIPATION_PROMPT_PAYLOAD_BYTES_def
  MAX_ARTIFACT_OR_DOMAIN_PROMPT_PAYLOAD_BYTES_def MAX_ROOT_OR_TRANSITION_PROMPT_PAYLOAD_BYTES_def
  MAX_EXISTING_PROMPT_PAYLOAD_BYTES_def MAX_PROMPT_PAYLOAD_BYTES_def MAX_MESSAGE_BYTES_def

lemmas prompt_message_types = MESSAGE_ARTIFACT_PROMPT_def MESSAGE_APPROVE_def MESSAGE_DECLINE_def MESSAGE_CANCEL_def
  MESSAGE_DOMAIN_PROMPT_def MESSAGE_PERSONA_ROOT_PROMPT_def MESSAGE_PERSONA_TRANSITION_PROMPT_def
  MESSAGE_RECOVERY_PARTICIPATION_PROMPT_def

section \<open>Messages\<close>

text \<open>An I/O error is represented by its text.\<close>

datatype ApprovalProtocolError =
    PromptTruncatedHeader
  | PromptInvalidMagic
  | PromptUnsupportedVersion u16 u16
  | PromptUnsupportedMessageType u16
  | PromptUnsupportedFlags u16
  | PromptPayloadTooLarge
  | PromptTruncatedPayload
  | PromptTrailingBytes
  | PromptInvalidLayout
  | PromptUnsupportedArtifactKind byte
  | UnsupportedPersonaPurpose byte
  | UnsupportedRecoveryParticipantRole byte
  | UnsupportedRecoveryReason byte
  | InvalidField string string
  | ReadError string
  | WriteError string

type_synonym 'a approval = "('a, ApprovalProtocolError) result"

datatype PromptArtifactKind = PromptGeneric | PromptSoftwareRelease | PromptArticle | PromptImage

datatype PromptPersonaPurpose = PromptPersonal | PromptPseudonymous | PromptProject | PromptOrganization | PromptLegalBridge

datatype PromptRole = PromptRecoveryAuthority | PromptNextSigningKey

datatype PromptReason = PromptRecovery | PromptCompromise

primrec prompt_artifact_kind_label :: "PromptArtifactKind \<Rightarrow> string" where
  "prompt_artifact_kind_label PromptGeneric = ''generic artifact''"
| "prompt_artifact_kind_label PromptSoftwareRelease = ''software release''"
| "prompt_artifact_kind_label PromptArticle = ''article''"
| "prompt_artifact_kind_label PromptImage = ''image''"

primrec prompt_role_label :: "PromptRole \<Rightarrow> string" where
  "prompt_role_label PromptRecoveryAuthority = ''recovery authority''"
| "prompt_role_label PromptNextSigningKey = ''next signing key''"

primrec prompt_reason_label :: "PromptReason \<Rightarrow> string" where
  "prompt_reason_label PromptRecovery = ''recovery''"
| "prompt_reason_label PromptCompromise = ''compromise''"

primrec prompt_purpose_label :: "PromptPersonaPurpose \<Rightarrow> string" where
  "prompt_purpose_label PromptPersonal = ''personal''"
| "prompt_purpose_label PromptPseudonymous = ''pseudonymous''"
| "prompt_purpose_label PromptProject = ''project''"
| "prompt_purpose_label PromptOrganization = ''organization''"
| "prompt_purpose_label PromptLegalBridge = ''legal bridge''"

primrec prompt_artifact_kind_u8 :: "PromptArtifactKind \<Rightarrow> byte" where
  "prompt_artifact_kind_u8 PromptGeneric = 1"
| "prompt_artifact_kind_u8 PromptSoftwareRelease = 2"
| "prompt_artifact_kind_u8 PromptArticle = 3"
| "prompt_artifact_kind_u8 PromptImage = 4"

primrec prompt_purpose_u8 :: "PromptPersonaPurpose \<Rightarrow> byte" where
  "prompt_purpose_u8 PromptPersonal = 1"
| "prompt_purpose_u8 PromptPseudonymous = 2"
| "prompt_purpose_u8 PromptProject = 3"
| "prompt_purpose_u8 PromptOrganization = 4"
| "prompt_purpose_u8 PromptLegalBridge = 5"

primrec prompt_role_u8 :: "PromptRole \<Rightarrow> byte" where
  "prompt_role_u8 PromptRecoveryAuthority = 1"
| "prompt_role_u8 PromptNextSigningKey = 2"

primrec prompt_reason_u8 :: "PromptReason \<Rightarrow> byte" where
  "prompt_reason_u8 PromptRecovery = 1"
| "prompt_reason_u8 PromptCompromise = 2"

definition decode_prompt_artifact_kind :: "byte \<Rightarrow> PromptArtifactKind approval" where
  "decode_prompt_artifact_kind b =
     (if b = 1 then Ok PromptGeneric
      else if b = 2 then Ok PromptSoftwareRelease
      else if b = 3 then Ok PromptArticle
      else if b = 4 then Ok PromptImage
      else Err (PromptUnsupportedArtifactKind b))"

definition decode_prompt_role :: "byte \<Rightarrow> PromptRole approval" where
  "decode_prompt_role b =
     (if b = 1 then Ok PromptRecoveryAuthority
      else if b = 2 then Ok PromptNextSigningKey
      else Err (UnsupportedRecoveryParticipantRole b))"

definition decode_prompt_reason :: "byte \<Rightarrow> PromptReason approval" where
  "decode_prompt_reason b =
     (if b = 1 then Ok PromptRecovery
      else if b = 2 then Ok PromptCompromise
      else Err (UnsupportedRecoveryReason b))"

definition decode_prompt_purpose :: "byte \<Rightarrow> PromptPersonaPurpose approval" where
  "decode_prompt_purpose b =
     (if b = 1 then Ok PromptPersonal
      else if b = 2 then Ok PromptPseudonymous
      else if b = 3 then Ok PromptProject
      else if b = 4 then Ok PromptOrganization
      else if b = 5 then Ok PromptLegalBridge
      else Err (UnsupportedPersonaPurpose b))"

record PeerIdentity =
  peer_pid :: u32
  peer_uid :: u32
  peer_gid :: u32

record ArtifactApproval =
  aa_artifact_kind :: PromptArtifactKind
  aa_artifact_label :: string
  aa_artifact_sha256 :: bytes
  aa_artifact_size :: u64

record DomainApproval =
  da_domain :: string
  da_dns_txt_value :: string
  da_issued_at :: i64
  da_expires_at :: i64

record PersonaRootApproval =
  pra_persona_anchor :: string
  pra_root_statement_sha256 :: bytes
  pra_issued_at :: i64

record PersonaTransitionApproval =
  ta_persona_anchor :: string
  ta_root_statement_sha256 :: bytes
  ta_sequence :: u32
  ta_previous_transition_sha256 :: "bytes option"
  ta_issued_at :: i64
  ta_previous_key_fingerprint :: string
  ta_next_key_fingerprint :: string
  ta_transition_statement_sha256 :: bytes

record RecoveryParticipationApproval =
  va_request_sha256 :: bytes
  va_ceremony_id :: string
  va_ceremony_expires_at :: i64
  va_persona_anchor :: string
  va_root_statement_sha256 :: bytes
  va_recovery_policy_version :: u32
  va_recovery_policy_sha256 :: bytes
  va_recovery_policy_threshold :: u32
  va_previous_head_sequence :: u32
  va_previous_head_sha256 :: "bytes option"
  va_reason :: PromptReason
  va_previous_key_fingerprint :: string
  va_next_key_fingerprint :: string
  va_participant_role :: PromptRole
  va_participant_key_fingerprint :: string

datatype ApprovalSubject =
    ApproveArtifact ArtifactApproval
  | ApproveDomain DomainApproval
  | ApprovePersonaRoot PersonaRootApproval
  | ApprovePersonaTransition PersonaTransitionApproval
  | ApproveRecoveryParticipation RecoveryParticipationApproval

record ApprovalPrompt =
  ap_request_id :: Uuid
  ap_persona_id :: "Uuid option"
  ap_persona_label :: string
  ap_persona_purpose :: "PromptPersonaPurpose option"
  ap_key_fingerprint :: string
  ap_subject :: ApprovalSubject
  ap_peer :: PeerIdentity

datatype ApprovalDecision = Approve | Decline | Cancel

record DecisionResponse =
  dr_request_id :: Uuid
  dr_decision :: ApprovalDecision

text \<open>The digests as the consent window shows them.\<close>

definition artifact_sha256_hex :: "ArtifactApproval \<Rightarrow> string" where
  "artifact_sha256_hex approval = hex_encode (aa_artifact_sha256 approval)"

definition root_approval_sha256_hex :: "PersonaRootApproval \<Rightarrow> string" where
  "root_approval_sha256_hex approval = hex_encode (pra_root_statement_sha256 approval)"

definition transition_approval_root_sha256_hex :: "PersonaTransitionApproval \<Rightarrow> string" where
  "transition_approval_root_sha256_hex approval = hex_encode (ta_root_statement_sha256 approval)"

definition transition_approval_previous_sha256_hex :: "PersonaTransitionApproval \<Rightarrow> string option" where
  "transition_approval_previous_sha256_hex approval = map_option hex_encode (ta_previous_transition_sha256 approval)"

definition transition_approval_sha256_hex :: "PersonaTransitionApproval \<Rightarrow> string" where
  "transition_approval_sha256_hex approval = hex_encode (ta_transition_statement_sha256 approval)"

definition recovery_approval_request_sha256_hex :: "RecoveryParticipationApproval \<Rightarrow> string" where
  "recovery_approval_request_sha256_hex approval = hex_encode (va_request_sha256 approval)"

definition recovery_approval_root_sha256_hex :: "RecoveryParticipationApproval \<Rightarrow> string" where
  "recovery_approval_root_sha256_hex approval = hex_encode (va_root_statement_sha256 approval)"

definition recovery_approval_policy_sha256_hex :: "RecoveryParticipationApproval \<Rightarrow> string" where
  "recovery_approval_policy_sha256_hex approval = hex_encode (va_recovery_policy_sha256 approval)"

definition recovery_approval_previous_head_sha256_hex :: "RecoveryParticipationApproval \<Rightarrow> string option" where
  "recovery_approval_previous_head_sha256_hex approval = map_option hex_encode (va_previous_head_sha256 approval)"

section \<open>Validation\<close>

text \<open>An unsigned integer as \<^verbatim>\<open>format!\<close> prints it.\<close>

fun decimal :: "nat \<Rightarrow> string" where
  "decimal n = (if n < 10 then [char_of (48 + n)] else decimal (n div 10) @ [char_of (48 + n mod 10)])"

declare decimal.simps [simp del]

definition validate_text :: "string \<Rightarrow> string \<Rightarrow> nat \<Rightarrow> unit approval" where
  "validate_text field s maximum =
     (if s = [] then Err (InvalidField field ''it cannot be empty'')
      else if maximum < length s
      then Err (InvalidField field (''it cannot exceed '' @ decimal maximum @ '' UTF-8 bytes''))
      else if str_trim s \<noteq> s then Err (InvalidField field ''leading and trailing whitespace are not allowed'')
      else if contains_unsafe_display_characters s
      then Err (InvalidField field ''control, line/paragraph separator, or default-ignorable Unicode characters are not allowed'')
      else Ok ())"

definition approval_validate_key_fingerprint :: "'z ext_scheme \<Rightarrow> string \<Rightarrow> string \<Rightarrow> unit approval" where
  "approval_validate_key_fingerprint E field s =
     and_then (validate_text field s MAX_KEY_FINGERPRINT_BYTES) (\<lambda>_.
     and_then (ok_or (InvalidField field ''expected the canonical OpenSSH SHA256 form'') (strip_prefix ''SHA256:'' s)) (\<lambda>fingerprint.
     and_then (map_err (\<lambda>_. InvalidField field ''expected canonical unpadded Base64 after SHA256:'')
       (base64_nopad_decode E fingerprint)) (\<lambda>decoded.
     if length decoded \<noteq> 32 \<or> base64_nopad_encode E decoded \<noteq> fingerprint
     then Err (InvalidField field ''expected the canonical 32-byte OpenSSH SHA256 digest'')
     else Ok ())))"

definition approval_validate_persona_anchor :: "'z ext_scheme \<Rightarrow> string \<Rightarrow> unit approval" where
  "approval_validate_persona_anchor E anchor =
     and_then (validate_text ''persona anchor'' anchor MAX_PERSONA_ANCHOR_BYTES) (\<lambda>_.
     and_then (map_err (\<lambda>_. InvalidField ''persona anchor'' ''expected canonical unpadded Base64url'')
       (base64url_decode E anchor)) (\<lambda>decoded.
     if length decoded \<noteq> 32 \<or> base64url_encode E decoded \<noteq> anchor
     then Err (InvalidField ''persona anchor'' ''expected one canonical 32-byte persona anchor'')
     else Ok ()))"

definition validate_persona_root_approval :: "'z ext_scheme \<Rightarrow> PersonaRootApproval \<Rightarrow> unit approval" where
  "validate_persona_root_approval E root =
     and_then (approval_validate_persona_anchor E (pra_persona_anchor root)) (\<lambda>_.
     if pra_issued_at root < 0 then Err (InvalidField ''root issuance time'' ''it must be nonnegative'')
     else Ok ())"

definition validate_persona_transition_approval ::
  "'z ext_scheme \<Rightarrow> ApprovalPrompt \<Rightarrow> PersonaTransitionApproval \<Rightarrow> unit approval" where
  "validate_persona_transition_approval E prompt transition =
     and_then (approval_validate_persona_anchor E (ta_persona_anchor transition)) (\<lambda>_.
     if ta_issued_at transition < 0
     then Err (InvalidField ''transition issuance time'' ''it must be nonnegative'')
     else if ta_sequence transition = 0
     then Err (InvalidField ''transition sequence'' ''it must start at 1'')
     else if ta_sequence transition = 1 \<and> ta_previous_transition_sha256 transition \<noteq> None
     then Err (InvalidField ''previous transition digest'' ''sequence 1 cannot name a previous transition'')
     else if ta_sequence transition \<noteq> 1 \<and> ta_previous_transition_sha256 transition = None
     then Err (InvalidField ''previous transition digest'' ''sequences after 1 require a previous transition'')
     else if ap_key_fingerprint prompt \<noteq> ta_previous_key_fingerprint transition
     then Err (InvalidField ''previous key fingerprint'' ''it must equal the prompt's selected signing key'')
     else and_then (approval_validate_key_fingerprint E ''previous key fingerprint'' (ta_previous_key_fingerprint transition)) (\<lambda>_.
     and_then (approval_validate_key_fingerprint E ''next key fingerprint'' (ta_next_key_fingerprint transition)) (\<lambda>_.
     if ta_previous_key_fingerprint transition = ta_next_key_fingerprint transition
     then Err (InvalidField ''next key fingerprint'' ''it must differ from the previous key'')
     else Ok ())))"

definition approval_validate_ceremony_id :: "'z ext_scheme \<Rightarrow> string \<Rightarrow> unit approval" where
  "approval_validate_ceremony_id E s =
     and_then (validate_text ''ceremony ID'' s MAX_RECOVERY_CEREMONY_ID_BYTES) (\<lambda>_.
     and_then (map_err (\<lambda>_. InvalidField ''ceremony ID'' ''expected canonical unpadded Base64url'')
       (base64url_decode E s)) (\<lambda>decoded.
     if length decoded \<noteq> 32 \<or> base64url_encode E decoded \<noteq> s
     then Err (InvalidField ''ceremony ID'' ''expected one canonical 32-byte ceremony identifier'')
     else Ok ()))"

definition validate_recovery_participation_approval ::
  "'z ext_scheme \<Rightarrow> ApprovalPrompt \<Rightarrow> RecoveryParticipationApproval \<Rightarrow> unit approval" where
  "validate_recovery_participation_approval E prompt recovery =
     and_then (approval_validate_persona_anchor E (va_persona_anchor recovery)) (\<lambda>_.
     and_then (approval_validate_ceremony_id E (va_ceremony_id recovery)) (\<lambda>_.
     if va_ceremony_expires_at recovery \<le> 0
     then Err (InvalidField ''ceremony expiry'' ''it must be positive'')
     else if \<not> (1 \<le> va_recovery_policy_version recovery \<and> va_recovery_policy_version recovery \<le> PROMPT_MAX_RECOVERY_POLICY_VERSION)
     then Err (InvalidField ''recovery policy version''
       (''it must be 1 through '' @ decimal (unat PROMPT_MAX_RECOVERY_POLICY_VERSION)))
     else if \<not> (PROMPT_MIN_RECOVERY_THRESHOLD \<le> va_recovery_policy_threshold recovery
       \<and> va_recovery_policy_threshold recovery \<le> PROMPT_MAX_RECOVERY_THRESHOLD)
     then Err (InvalidField ''recovery policy threshold''
       (''it must be '' @ decimal (unat PROMPT_MIN_RECOVERY_THRESHOLD) @ '' through ''
        @ decimal (unat PROMPT_MAX_RECOVERY_THRESHOLD)))
     else if va_previous_head_sequence recovery = 0 \<and> va_previous_head_sha256 recovery \<noteq> None
     then Err (InvalidField ''previous head digest'' ''the root head cannot name a transition digest'')
     else if va_previous_head_sequence recovery \<noteq> 0 \<and> va_previous_head_sha256 recovery = None
     then Err (InvalidField ''previous head digest'' ''a transition head requires its exact digest'')
     else and_then (approval_validate_key_fingerprint E ''participant key fingerprint'' (va_participant_key_fingerprint recovery)) (\<lambda>_.
     if ap_key_fingerprint prompt \<noteq> va_participant_key_fingerprint recovery
     then Err (InvalidField ''participant key fingerprint'' ''it must equal the prompt's selected participant key'')
     else and_then (approval_validate_key_fingerprint E ''previous key fingerprint'' (va_previous_key_fingerprint recovery)) (\<lambda>_.
     and_then (approval_validate_key_fingerprint E ''next key fingerprint'' (va_next_key_fingerprint recovery)) (\<lambda>_.
     if va_previous_key_fingerprint recovery = va_next_key_fingerprint recovery
     then Err (InvalidField ''next key fingerprint'' ''recovery must replace the previous key with a distinct key'')
     else case va_participant_role recovery of
       PromptRecoveryAuthority \<Rightarrow>
         if va_participant_key_fingerprint recovery = va_previous_key_fingerprint recovery
           \<or> va_participant_key_fingerprint recovery = va_next_key_fingerprint recovery
         then Err (InvalidField ''participant key fingerprint''
           ''a recovery authority must be distinct from both online signing keys'')
         else Ok ()
     | PromptNextSigningKey \<Rightarrow>
         if va_participant_key_fingerprint recovery \<noteq> va_next_key_fingerprint recovery
         then Err (InvalidField ''participant key fingerprint''
           ''the next-key participant must match the proposed next signing key'')
         else Ok ())))))"

definition approval_is_special_use_domain :: "string \<Rightarrow> bool" where
  "approval_is_special_use_domain domain \<longleftrightarrow>
     list_ex (\<lambda>suffix. domain = suffix \<or> ends_with (''.'' @ suffix) domain)
       [''alt'', ''example'', ''example.com'', ''example.net'', ''example.org'', ''home.arpa'', ''invalid'', ''local'',
        ''localhost'', ''onion'', ''test'']"

definition prompt_label_invalid :: "string \<Rightarrow> bool" where
  "prompt_label_invalid label \<longleftrightarrow>
     label = [] \<or> 63 < length label \<or> starts_with ''-'' label \<or> ends_with ''-'' label
     \<or> \<not> list_all (\<lambda>c. let n = of_char c :: nat in 97 \<le> n \<and> n \<le> 122 \<or> 48 \<le> n \<and> n \<le> 57 \<or> n = 45) label"

definition validate_domain_approval :: "'z ext_scheme \<Rightarrow> DomainApproval \<Rightarrow> unit approval" where
  "validate_domain_approval E domain =
     and_then (validate_text ''domain'' (da_domain domain) MAX_DOMAIN_BYTES) (\<lambda>_.
     let labels = split_on CHR ''.'' (da_domain domain)
     in if length labels < 2 \<or> list_ex prompt_label_invalid labels \<or> approval_is_special_use_domain (da_domain domain)
     then Err (InvalidField ''domain'' ''expected a canonical global lowercase ASCII DNS name'')
     else and_then (validate_text ''DNS TXT value'' (da_dns_txt_value domain) MAX_DNS_TXT_VALUE_BYTES) (\<lambda>_.
     and_then (ok_or (InvalidField ''DNS TXT value'' ''expected the A Quo domain commitment prefix'')
       (strip_prefix PROMPT_DNS_TXT_PREFIX (da_dns_txt_value domain))) (\<lambda>encoded.
     and_then (map_err (\<lambda>_. InvalidField ''DNS TXT value'' ''expected canonical unpadded Base64url'')
       (base64url_decode E encoded)) (\<lambda>digest.
     if length digest \<noteq> 32 \<or> base64url_encode E digest \<noteq> encoded
     then Err (InvalidField ''DNS TXT value'' ''expected one canonical 32-byte SHA-256 commitment'')
     else and_then (ok_or (InvalidField ''domain validity'' ''expiry must follow issuance'')
       (i64_checked_sub (da_expires_at domain) (da_issued_at domain))) (\<lambda>validity.
     if da_issued_at domain < 0 \<or> validity \<le> 0 \<or> PROMPT_DOMAIN_MAX_VALIDITY_SECONDS < validity
     then Err (InvalidField ''domain validity'' (''timestamps must be nonnegative and span at most ''
       @ decimal (nat PROMPT_DOMAIN_MAX_VALIDITY_SECONDS) @ '' seconds''))
     else Ok ())))))"

definition validate_local_persona :: "'z wire_ext_scheme \<Rightarrow> ApprovalPrompt \<Rightarrow> unit approval" where
  "validate_local_persona E prompt =
     (let is_recovery_participation =
        (case ap_subject prompt of ApproveRecoveryParticipation _ \<Rightarrow> True | _ \<Rightarrow> False)
      in if is_recovery_participation
      then if ap_persona_id prompt = None \<and> ap_persona_purpose prompt = None then Ok ()
        else Err (InvalidField ''local persona metadata''
          ''recovery participation must not expose a coordinator-local persona UUID or purpose'')
      else case (ap_persona_id prompt, ap_persona_purpose prompt) of
        (Some persona_id, Some _) \<Rightarrow>
          if \<not> uuid_is_nil E persona_id then Ok ()
          else Err (InvalidField ''persona ID'' ''it cannot be the nil UUID'')
      | _ \<Rightarrow> Err (InvalidField ''local persona metadata'' ''this prompt purpose requires both a persona UUID and purpose''))"

definition validate_prompt :: "'z wire_ext_scheme \<Rightarrow> ApprovalPrompt \<Rightarrow> unit approval" where
  "validate_prompt E prompt =
     (if uuid_is_nil E (ap_request_id prompt) then Err (InvalidField ''request ID'' ''it cannot be the nil UUID'')
      else and_then (validate_local_persona E prompt) (\<lambda>_.
      and_then (validate_text ''persona label'' (ap_persona_label prompt) MAX_PERSONA_LABEL_BYTES) (\<lambda>_.
      and_then (approval_validate_key_fingerprint E ''key fingerprint'' (ap_key_fingerprint prompt)) (\<lambda>_.
      and_then
        (case ap_subject prompt of
           ApproveArtifact artifact \<Rightarrow>
             validate_text ''artifact label'' (aa_artifact_label artifact) PROMPT_MAX_ARTIFACT_LABEL_BYTES
         | ApproveDomain domain \<Rightarrow> validate_domain_approval E domain
         | ApprovePersonaRoot root \<Rightarrow> validate_persona_root_approval E root
         | ApprovePersonaTransition transition \<Rightarrow> validate_persona_transition_approval E prompt transition
         | ApproveRecoveryParticipation recovery \<Rightarrow> validate_recovery_participation_approval E prompt recovery) (\<lambda>_.
      if peer_pid (ap_peer prompt) = 0 then Err (InvalidField ''peer PID'' ''it must be nonzero'')
      else Ok ())))))"

definition new_with_subject ::
  "'z wire_ext_scheme \<Rightarrow> Uuid \<Rightarrow> Uuid option \<Rightarrow> string \<Rightarrow> PromptPersonaPurpose option \<Rightarrow> string \<Rightarrow> ApprovalSubject \<Rightarrow>
   PeerIdentity \<Rightarrow> ApprovalPrompt approval" where
  "new_with_subject E request_id persona_id persona_label persona_purpose key_fingerprint subject peer =
     (let prompt = \<lparr>ap_request_id = request_id, ap_persona_id = persona_id, ap_persona_label = persona_label,
        ap_persona_purpose = persona_purpose, ap_key_fingerprint = key_fingerprint, ap_subject = subject, ap_peer = peer\<rparr>
      in and_then (validate_prompt E prompt) (\<lambda>_. Ok prompt))"

definition prompt_new ::
  "'z wire_ext_scheme \<Rightarrow> Uuid \<Rightarrow> Uuid \<Rightarrow> string \<Rightarrow> PromptPersonaPurpose \<Rightarrow> string \<Rightarrow> PromptArtifactKind \<Rightarrow> string \<Rightarrow> bytes \<Rightarrow>
   u64 \<Rightarrow> PeerIdentity \<Rightarrow> ApprovalPrompt approval" where
  "prompt_new E request_id persona_id persona_label persona_purpose key_fingerprint kind label artifact_sha256 artifact_size peer =
     new_with_subject E request_id (Some persona_id) persona_label (Some persona_purpose) key_fingerprint
       (ApproveArtifact \<lparr>aa_artifact_kind = kind, aa_artifact_label = label, aa_artifact_sha256 = artifact_sha256,
          aa_artifact_size = artifact_size\<rparr>) peer"

definition prompt_new_domain ::
  "'z wire_ext_scheme \<Rightarrow> Uuid \<Rightarrow> Uuid \<Rightarrow> string \<Rightarrow> PromptPersonaPurpose \<Rightarrow> string \<Rightarrow> string \<Rightarrow> string \<Rightarrow> i64 \<Rightarrow> i64 \<Rightarrow>
   PeerIdentity \<Rightarrow> ApprovalPrompt approval" where
  "prompt_new_domain E request_id persona_id persona_label persona_purpose key_fingerprint domain dns_txt_value
       issued_at expires_at peer =
     new_with_subject E request_id (Some persona_id) persona_label (Some persona_purpose) key_fingerprint
       (ApproveDomain \<lparr>da_domain = domain, da_dns_txt_value = dns_txt_value, da_issued_at = issued_at,
          da_expires_at = expires_at\<rparr>) peer"

definition prompt_new_persona_root ::
  "'z wire_ext_scheme \<Rightarrow> Uuid \<Rightarrow> Uuid \<Rightarrow> string \<Rightarrow> PromptPersonaPurpose \<Rightarrow> string \<Rightarrow> string \<Rightarrow> bytes \<Rightarrow> i64 \<Rightarrow>
   PeerIdentity \<Rightarrow> ApprovalPrompt approval" where
  "prompt_new_persona_root E request_id persona_id persona_label persona_purpose key_fingerprint anchor
       root_statement_sha256 issued_at peer =
     new_with_subject E request_id (Some persona_id) persona_label (Some persona_purpose) key_fingerprint
       (ApprovePersonaRoot \<lparr>pra_persona_anchor = anchor, pra_root_statement_sha256 = root_statement_sha256,
          pra_issued_at = issued_at\<rparr>) peer"

definition prompt_new_persona_transition ::
  "'z wire_ext_scheme \<Rightarrow> Uuid \<Rightarrow> Uuid \<Rightarrow> string \<Rightarrow> PromptPersonaPurpose \<Rightarrow> string \<Rightarrow> string \<Rightarrow> bytes \<Rightarrow> u32 \<Rightarrow> bytes option \<Rightarrow>
   i64 \<Rightarrow> string \<Rightarrow> bytes \<Rightarrow> PeerIdentity \<Rightarrow> ApprovalPrompt approval" where
  "prompt_new_persona_transition E request_id persona_id persona_label persona_purpose previous_key_fingerprint anchor
       root_statement_sha256 sequence previous_transition_sha256 issued_at next_key_fingerprint
       transition_statement_sha256 peer =
     new_with_subject E request_id (Some persona_id) persona_label (Some persona_purpose) previous_key_fingerprint
       (ApprovePersonaTransition \<lparr>ta_persona_anchor = anchor, ta_root_statement_sha256 = root_statement_sha256,
          ta_sequence = sequence, ta_previous_transition_sha256 = previous_transition_sha256, ta_issued_at = issued_at,
          ta_previous_key_fingerprint = previous_key_fingerprint, ta_next_key_fingerprint = next_key_fingerprint,
          ta_transition_statement_sha256 = transition_statement_sha256\<rparr>) peer"

definition prompt_new_recovery_participation ::
  "'z wire_ext_scheme \<Rightarrow> Uuid \<Rightarrow> string \<Rightarrow> string \<Rightarrow> bytes \<Rightarrow> string \<Rightarrow> i64 \<Rightarrow> string \<Rightarrow> bytes \<Rightarrow> u32 \<Rightarrow> bytes \<Rightarrow> u32 \<Rightarrow> u32 \<Rightarrow>
   bytes option \<Rightarrow> PromptReason \<Rightarrow> string \<Rightarrow> string \<Rightarrow> PromptRole \<Rightarrow> PeerIdentity \<Rightarrow> ApprovalPrompt approval" where
  "prompt_new_recovery_participation E request_id persona_label participant_key_fingerprint request_sha256 ceremony_id
       ceremony_expires_at anchor root_statement_sha256 version policy_sha256 threshold head_sequence head reason
       previous_key_fingerprint next_key_fingerprint role peer =
     new_with_subject E request_id None persona_label None participant_key_fingerprint
       (ApproveRecoveryParticipation \<lparr>va_request_sha256 = request_sha256, va_ceremony_id = ceremony_id,
          va_ceremony_expires_at = ceremony_expires_at, va_persona_anchor = anchor,
          va_root_statement_sha256 = root_statement_sha256, va_recovery_policy_version = version,
          va_recovery_policy_sha256 = policy_sha256, va_recovery_policy_threshold = threshold,
          va_previous_head_sequence = head_sequence, va_previous_head_sha256 = head, va_reason = reason,
          va_previous_key_fingerprint = previous_key_fingerprint, va_next_key_fingerprint = next_key_fingerprint,
          va_participant_role = role, va_participant_key_fingerprint = participant_key_fingerprint\<rparr>) peer"

definition prompt_required_persona_id :: "ApprovalPrompt \<Rightarrow> Uuid approval" where
  "prompt_required_persona_id prompt =
     ok_or (InvalidField ''persona ID'' ''it is required for this prompt purpose'') (ap_persona_id prompt)"

definition required_persona_purpose :: "ApprovalPrompt \<Rightarrow> PromptPersonaPurpose approval" where
  "required_persona_purpose prompt =
     ok_or (InvalidField ''persona purpose'' ''it is required for this prompt purpose'') (ap_persona_purpose prompt)"

section \<open>The header\<close>

definition approval_encode_header :: "u16 \<Rightarrow> nat \<Rightarrow> bytes" where
  "approval_encode_header message_type payload_len =
     APPROVAL_MAGIC
     @ u16_to_be_bytes APPROVAL_PROTOCOL_MAJOR
     @ u16_to_be_bytes APPROVAL_PROTOCOL_MINOR
     @ u16_to_be_bytes message_type
     @ u16_to_be_bytes APPROVAL_FLAGS_NONE
     @ u32_to_be_bytes (of_nat payload_len)"

definition approval_decode_common_header :: "bytes \<Rightarrow> u16 approval" where
  "approval_decode_common_header message =
     (if length message < APPROVAL_HEADER_BYTES then Err PromptTruncatedHeader
      else if take (length APPROVAL_MAGIC) message \<noteq> APPROVAL_MAGIC then Err PromptInvalidMagic
      else let major = read_u16 message 8; minor = read_u16 message 10
      in if major \<noteq> APPROVAL_PROTOCOL_MAJOR \<or> minor \<noteq> APPROVAL_PROTOCOL_MINOR
      then Err (PromptUnsupportedVersion major minor)
      else let flags = read_u16 message 14
      in if flags \<noteq> APPROVAL_FLAGS_NONE then Err (PromptUnsupportedFlags flags)
      else Ok (read_u16 message 12))"

definition approval_decode_header :: "bytes \<Rightarrow> u16 \<Rightarrow> nat \<Rightarrow> bytes approval" where
  "approval_decode_header message expected_type maximum_payload =
     and_then (approval_decode_common_header message) (\<lambda>message_type.
     if message_type \<noteq> expected_type then Err (PromptUnsupportedMessageType message_type)
     else let payload_len = unat (read_u32 message 16)
     in if maximum_payload < payload_len then Err PromptPayloadTooLarge
     else and_then (ok_or PromptPayloadTooLarge (usize_checked_add APPROVAL_HEADER_BYTES payload_len)) (\<lambda>expected.
     if length message < expected then Err PromptTruncatedPayload
     else if expected < length message then Err PromptTrailingBytes
     else Ok (drop APPROVAL_HEADER_BYTES message)))"

section \<open>Prompts on the wire\<close>

text \<open>The chains \<^verbatim>\<open>prefix.checked_add(a).and_then(|length| length.checked_add(b))\<close>.\<close>

definition checked_sum :: "nat \<Rightarrow> nat list \<Rightarrow> nat option" where
  "checked_sum start ns = foldl (\<lambda>acc n. Option.bind acc (\<lambda>len. usize_checked_add len n)) (Some start) ns"

definition encode_peer :: "ApprovalPrompt \<Rightarrow> bytes" where
  "encode_peer prompt =
     u32_to_be_bytes (peer_pid (ap_peer prompt))
     @ u32_to_be_bytes (peer_uid (ap_peer prompt))
     @ u32_to_be_bytes (peer_gid (ap_peer prompt))"

definition length_field :: "string \<Rightarrow> bytes" where
  "length_field s = u16_to_be_bytes (of_nat (length s))"

definition encode_artifact_prompt :: "'z wire_ext_scheme \<Rightarrow> ApprovalPrompt \<Rightarrow> ArtifactApproval \<Rightarrow> bytes approval" where
  "encode_artifact_prompt E prompt artifact =
     and_then (ok_or PromptPayloadTooLarge (checked_sum ARTIFACT_PROMPT_PREFIX_BYTES
       [length (ap_persona_label prompt), length (ap_key_fingerprint prompt), length (aa_artifact_label artifact)])) (\<lambda>payload_len.
     and_then (required_persona_purpose prompt) (\<lambda>purpose.
     and_then (prompt_required_persona_id prompt) (\<lambda>persona_id.
     Ok (approval_encode_header MESSAGE_ARTIFACT_PROMPT payload_len
       @ [prompt_artifact_kind_u8 (aa_artifact_kind artifact)]
       @ [prompt_purpose_u8 purpose]
       @ u16_to_be_bytes 0
       @ encode_peer prompt
       @ u64_to_be_bytes (aa_artifact_size artifact)
       @ uuid_as_bytes E (ap_request_id prompt)
       @ uuid_as_bytes E persona_id
       @ aa_artifact_sha256 artifact
       @ length_field (ap_persona_label prompt)
       @ length_field (ap_key_fingerprint prompt)
       @ length_field (aa_artifact_label artifact)
       @ u16_to_be_bytes 0
       @ as_bytes (ap_persona_label prompt)
       @ as_bytes (ap_key_fingerprint prompt)
       @ as_bytes (aa_artifact_label artifact)))))"

definition encode_domain_prompt :: "'z wire_ext_scheme \<Rightarrow> ApprovalPrompt \<Rightarrow> DomainApproval \<Rightarrow> bytes approval" where
  "encode_domain_prompt E prompt domain =
     and_then (ok_or PromptPayloadTooLarge (checked_sum DOMAIN_PROMPT_PREFIX_BYTES
       [length (ap_persona_label prompt), length (ap_key_fingerprint prompt), length (da_domain domain),
        length (da_dns_txt_value domain)])) (\<lambda>payload_len.
     and_then (required_persona_purpose prompt) (\<lambda>purpose.
     and_then (prompt_required_persona_id prompt) (\<lambda>persona_id.
     Ok (approval_encode_header MESSAGE_DOMAIN_PROMPT payload_len
       @ [prompt_purpose_u8 purpose]
       @ [0, 0, 0]
       @ encode_peer prompt
       @ i64_to_be_bytes (da_issued_at domain)
       @ i64_to_be_bytes (da_expires_at domain)
       @ uuid_as_bytes E (ap_request_id prompt)
       @ uuid_as_bytes E persona_id
       @ length_field (ap_persona_label prompt)
       @ length_field (ap_key_fingerprint prompt)
       @ length_field (da_domain domain)
       @ length_field (da_dns_txt_value domain)
       @ u32_to_be_bytes 0
       @ as_bytes (ap_persona_label prompt)
       @ as_bytes (ap_key_fingerprint prompt)
       @ as_bytes (da_domain domain)
       @ as_bytes (da_dns_txt_value domain)))))"

definition encode_persona_root_prompt :: "'z wire_ext_scheme \<Rightarrow> ApprovalPrompt \<Rightarrow> PersonaRootApproval \<Rightarrow> bytes approval" where
  "encode_persona_root_prompt E prompt root =
     and_then (ok_or PromptPayloadTooLarge (checked_sum PERSONA_ROOT_PROMPT_PREFIX_BYTES
       [length (ap_persona_label prompt), length (ap_key_fingerprint prompt), length (pra_persona_anchor root)])) (\<lambda>payload_len.
     and_then (required_persona_purpose prompt) (\<lambda>purpose.
     and_then (prompt_required_persona_id prompt) (\<lambda>persona_id.
     Ok (approval_encode_header MESSAGE_PERSONA_ROOT_PROMPT payload_len
       @ [prompt_purpose_u8 purpose]
       @ [0, 0, 0]
       @ encode_peer prompt
       @ i64_to_be_bytes (pra_issued_at root)
       @ uuid_as_bytes E (ap_request_id prompt)
       @ uuid_as_bytes E persona_id
       @ pra_root_statement_sha256 root
       @ length_field (ap_persona_label prompt)
       @ length_field (ap_key_fingerprint prompt)
       @ length_field (pra_persona_anchor root)
       @ u16_to_be_bytes 0
       @ as_bytes (ap_persona_label prompt)
       @ as_bytes (ap_key_fingerprint prompt)
       @ as_bytes (pra_persona_anchor root)))))"

definition encode_persona_transition_prompt ::
  "'z wire_ext_scheme \<Rightarrow> ApprovalPrompt \<Rightarrow> PersonaTransitionApproval \<Rightarrow> bytes approval" where
  "encode_persona_transition_prompt E prompt transition =
     and_then (ok_or PromptPayloadTooLarge (checked_sum PERSONA_TRANSITION_PROMPT_PREFIX_BYTES
       [length (ap_persona_label prompt), length (ta_previous_key_fingerprint transition),
        length (ta_next_key_fingerprint transition), length (ta_persona_anchor transition)])) (\<lambda>payload_len.
     and_then (required_persona_purpose prompt) (\<lambda>purpose.
     and_then (prompt_required_persona_id prompt) (\<lambda>persona_id.
     Ok (approval_encode_header MESSAGE_PERSONA_TRANSITION_PROMPT payload_len
       @ [prompt_purpose_u8 purpose]
       @ [presence_byte (ta_previous_transition_sha256 transition)]
       @ u16_to_be_bytes 0
       @ encode_peer prompt
       @ u32_to_be_bytes (ta_sequence transition)
       @ i64_to_be_bytes (ta_issued_at transition)
       @ uuid_as_bytes E (ap_request_id prompt)
       @ uuid_as_bytes E persona_id
       @ ta_root_statement_sha256 transition
       @ digest_or_zeros (ta_previous_transition_sha256 transition)
       @ ta_transition_statement_sha256 transition
       @ length_field (ap_persona_label prompt)
       @ length_field (ta_previous_key_fingerprint transition)
       @ length_field (ta_next_key_fingerprint transition)
       @ length_field (ta_persona_anchor transition)
       @ u32_to_be_bytes 0
       @ as_bytes (ap_persona_label prompt)
       @ as_bytes (ta_previous_key_fingerprint transition)
       @ as_bytes (ta_next_key_fingerprint transition)
       @ as_bytes (ta_persona_anchor transition)))))"

definition encode_recovery_participation_prompt ::
  "'z wire_ext_scheme \<Rightarrow> ApprovalPrompt \<Rightarrow> RecoveryParticipationApproval \<Rightarrow> bytes approval" where
  "encode_recovery_participation_prompt E prompt recovery =
     and_then (ok_or PromptPayloadTooLarge (checked_sum RECOVERY_PARTICIPATION_PROMPT_PREFIX_BYTES
       [length (ap_persona_label prompt), length (va_participant_key_fingerprint recovery),
        length (va_previous_key_fingerprint recovery), length (va_next_key_fingerprint recovery),
        length (va_persona_anchor recovery), length (va_ceremony_id recovery)])) (\<lambda>payload_len.
     Ok (approval_encode_header MESSAGE_RECOVERY_PARTICIPATION_PROMPT payload_len
       @ [prompt_role_u8 (va_participant_role recovery)]
       @ [prompt_reason_u8 (va_reason recovery)]
       @ [presence_byte (va_previous_head_sha256 recovery)]
       @ [0]
       @ encode_peer prompt
       @ u32_to_be_bytes (va_recovery_policy_version recovery)
       @ u32_to_be_bytes (va_recovery_policy_threshold recovery)
       @ u32_to_be_bytes (va_previous_head_sequence recovery)
       @ u32_to_be_bytes 0
       @ i64_to_be_bytes (va_ceremony_expires_at recovery)
       @ uuid_as_bytes E (ap_request_id prompt)
       @ va_request_sha256 recovery
       @ va_root_statement_sha256 recovery
       @ va_recovery_policy_sha256 recovery
       @ digest_or_zeros (va_previous_head_sha256 recovery)
       @ length_field (ap_persona_label prompt)
       @ length_field (va_participant_key_fingerprint recovery)
       @ length_field (va_previous_key_fingerprint recovery)
       @ length_field (va_next_key_fingerprint recovery)
       @ length_field (va_persona_anchor recovery)
       @ length_field (va_ceremony_id recovery)
       @ u32_to_be_bytes 0
       @ as_bytes (ap_persona_label prompt)
       @ as_bytes (va_participant_key_fingerprint recovery)
       @ as_bytes (va_previous_key_fingerprint recovery)
       @ as_bytes (va_next_key_fingerprint recovery)
       @ as_bytes (va_persona_anchor recovery)
       @ as_bytes (va_ceremony_id recovery)))"

definition encode_prompt :: "'z wire_ext_scheme \<Rightarrow> ApprovalPrompt \<Rightarrow> bytes approval" where
  "encode_prompt E prompt =
     and_then (validate_prompt E prompt) (\<lambda>_.
     case ap_subject prompt of
       ApproveArtifact artifact \<Rightarrow> encode_artifact_prompt E prompt artifact
     | ApproveDomain domain \<Rightarrow> encode_domain_prompt E prompt domain
     | ApprovePersonaRoot root \<Rightarrow> encode_persona_root_prompt E prompt root
     | ApprovePersonaTransition transition \<Rightarrow> encode_persona_transition_prompt E prompt transition
     | ApproveRecoveryParticipation recovery \<Rightarrow> encode_recovery_participation_prompt E prompt recovery)"

definition decode_text :: "string \<Rightarrow> bytes \<Rightarrow> string approval" where
  "decode_text field bs = ok_or (InvalidField field ''it must be UTF-8'') (from_utf8 bs)"

definition decode_uuid :: "'z wire_ext_scheme \<Rightarrow> bytes \<Rightarrow> Uuid approval" where
  "decode_uuid E bs = ok_or PromptInvalidLayout (uuid_from_slice E bs)"

definition decode_peer :: "bytes \<Rightarrow> PeerIdentity" where
  "decode_peer payload = \<lparr>peer_pid = read_u32 payload 4, peer_uid = read_u32 payload 8, peer_gid = read_u32 payload 12\<rparr>"

definition decode_artifact_prompt :: "'z wire_ext_scheme \<Rightarrow> bytes \<Rightarrow> ApprovalPrompt approval" where
  "decode_artifact_prompt E message =
     and_then (approval_decode_header message MESSAGE_ARTIFACT_PROMPT MAX_ARTIFACT_PROMPT_PAYLOAD_BYTES) (\<lambda>payload.
     if length payload < ARTIFACT_PROMPT_PREFIX_BYTES \<or> slice payload 2 4 \<noteq> [0, 0] \<or> slice payload 94 96 \<noteq> [0, 0]
     then Err PromptInvalidLayout
     else and_then (decode_prompt_artifact_kind (payload ! 0)) (\<lambda>kind.
     and_then (decode_prompt_purpose (payload ! 1)) (\<lambda>purpose.
     let artifact_size = read_u64 payload 16
     in and_then (decode_uuid E (slice payload 24 40)) (\<lambda>request_id.
     and_then (decode_uuid E (slice payload 40 56)) (\<lambda>persona_id.
     let artifact_sha256 = slice payload 56 88;
         persona_label_len = unat (read_u16 payload 88);
         fingerprint_len = unat (read_u16 payload 90);
         artifact_label_len = unat (read_u16 payload 92)
     in and_then (ok_or PromptInvalidLayout (checked_sum ARTIFACT_PROMPT_PREFIX_BYTES
         [persona_label_len, fingerprint_len, artifact_label_len])) (\<lambda>expected.
     if expected \<noteq> length payload then Err PromptInvalidLayout
     else let persona_end = ARTIFACT_PROMPT_PREFIX_BYTES + persona_label_len;
              fingerprint_end = persona_end + fingerprint_len
     in and_then (decode_text ''persona label'' (slice payload ARTIFACT_PROMPT_PREFIX_BYTES persona_end)) (\<lambda>persona_label.
     and_then (decode_text ''key fingerprint'' (slice payload persona_end fingerprint_end)) (\<lambda>key_fingerprint.
     and_then (decode_text ''artifact label'' (drop fingerprint_end payload)) (\<lambda>artifact_label.
     prompt_new E request_id persona_id persona_label purpose key_fingerprint kind artifact_label artifact_sha256
       artifact_size (decode_peer payload))))))))))"

definition decode_domain_prompt :: "'z wire_ext_scheme \<Rightarrow> bytes \<Rightarrow> ApprovalPrompt approval" where
  "decode_domain_prompt E message =
     and_then (approval_decode_header message MESSAGE_DOMAIN_PROMPT MAX_DOMAIN_PROMPT_PAYLOAD_BYTES) (\<lambda>payload.
     if length payload < DOMAIN_PROMPT_PREFIX_BYTES \<or> slice payload 1 4 \<noteq> [0, 0, 0] \<or> slice payload 72 76 \<noteq> [0, 0, 0, 0]
     then Err PromptInvalidLayout
     else and_then (decode_prompt_purpose (payload ! 0)) (\<lambda>purpose.
     let issued_at = read_i64 payload 16; expires_at = read_i64 payload 24
     in and_then (decode_uuid E (slice payload 32 48)) (\<lambda>request_id.
     and_then (decode_uuid E (slice payload 48 64)) (\<lambda>persona_id.
     let persona_label_len = unat (read_u16 payload 64);
         fingerprint_len = unat (read_u16 payload 66);
         domain_len = unat (read_u16 payload 68);
         dns_txt_len = unat (read_u16 payload 70)
     in and_then (ok_or PromptInvalidLayout (checked_sum DOMAIN_PROMPT_PREFIX_BYTES
         [persona_label_len, fingerprint_len, domain_len, dns_txt_len])) (\<lambda>expected.
     if expected \<noteq> length payload then Err PromptInvalidLayout
     else let persona_end = DOMAIN_PROMPT_PREFIX_BYTES + persona_label_len;
              fingerprint_end = persona_end + fingerprint_len;
              domain_end = fingerprint_end + domain_len
     in and_then (decode_text ''persona label'' (slice payload DOMAIN_PROMPT_PREFIX_BYTES persona_end)) (\<lambda>persona_label.
     and_then (decode_text ''key fingerprint'' (slice payload persona_end fingerprint_end)) (\<lambda>key_fingerprint.
     and_then (decode_text ''domain'' (slice payload fingerprint_end domain_end)) (\<lambda>domain.
     and_then (decode_text ''DNS TXT value'' (drop domain_end payload)) (\<lambda>dns_txt_value.
     prompt_new_domain E request_id persona_id persona_label purpose key_fingerprint domain dns_txt_value
       issued_at expires_at (decode_peer payload))))))))))"

definition decode_persona_root_prompt :: "'z wire_ext_scheme \<Rightarrow> bytes \<Rightarrow> ApprovalPrompt approval" where
  "decode_persona_root_prompt E message =
     and_then (approval_decode_header message MESSAGE_PERSONA_ROOT_PROMPT MAX_PERSONA_ROOT_PROMPT_PAYLOAD_BYTES) (\<lambda>payload.
     if length payload < PERSONA_ROOT_PROMPT_PREFIX_BYTES \<or> slice payload 1 4 \<noteq> [0, 0, 0] \<or> slice payload 94 96 \<noteq> [0, 0]
     then Err PromptInvalidLayout
     else and_then (decode_prompt_purpose (payload ! 0)) (\<lambda>purpose.
     let issued_at = read_i64 payload 16
     in and_then (decode_uuid E (slice payload 24 40)) (\<lambda>request_id.
     and_then (decode_uuid E (slice payload 40 56)) (\<lambda>persona_id.
     let root_statement_sha256 = slice payload 56 88;
         persona_label_len = unat (read_u16 payload 88);
         fingerprint_len = unat (read_u16 payload 90);
         persona_anchor_len = unat (read_u16 payload 92)
     in and_then (ok_or PromptInvalidLayout (checked_sum PERSONA_ROOT_PROMPT_PREFIX_BYTES
         [persona_label_len, fingerprint_len, persona_anchor_len])) (\<lambda>expected.
     if expected \<noteq> length payload then Err PromptInvalidLayout
     else let persona_end = PERSONA_ROOT_PROMPT_PREFIX_BYTES + persona_label_len;
              fingerprint_end = persona_end + fingerprint_len
     in and_then (decode_text ''persona label'' (slice payload PERSONA_ROOT_PROMPT_PREFIX_BYTES persona_end)) (\<lambda>persona_label.
     and_then (decode_text ''key fingerprint'' (slice payload persona_end fingerprint_end)) (\<lambda>key_fingerprint.
     and_then (decode_text ''persona anchor'' (drop fingerprint_end payload)) (\<lambda>persona_anchor.
     prompt_new_persona_root E request_id persona_id persona_label purpose key_fingerprint persona_anchor
       root_statement_sha256 issued_at (decode_peer payload)))))))))"

definition decode_persona_transition_prompt :: "'z wire_ext_scheme \<Rightarrow> bytes \<Rightarrow> ApprovalPrompt approval" where
  "decode_persona_transition_prompt E message =
     and_then (approval_decode_header message MESSAGE_PERSONA_TRANSITION_PROMPT
       MAX_PERSONA_TRANSITION_PROMPT_PAYLOAD_BYTES) (\<lambda>payload.
     if length payload < PERSONA_TRANSITION_PROMPT_PREFIX_BYTES \<or> slice payload 2 4 \<noteq> [0, 0]
       \<or> slice payload 164 168 \<noteq> [0, 0, 0, 0] \<or> 1 < payload ! 1
     then Err PromptInvalidLayout
     else and_then (decode_prompt_purpose (payload ! 0)) (\<lambda>purpose.
     let sequence = read_u32 payload 16; issued_at = read_i64 payload 20
     in and_then (decode_uuid E (slice payload 28 44)) (\<lambda>request_id.
     and_then (decode_uuid E (slice payload 44 60)) (\<lambda>persona_id.
     let root_statement_sha256 = slice payload 60 92
     in and_then (optional_digest PromptInvalidLayout (payload ! 1) (slice payload 92 124)) (\<lambda>previous_transition_sha256.
     let transition_statement_sha256 = slice payload 124 156;
         persona_label_len = unat (read_u16 payload 156);
         previous_fingerprint_len = unat (read_u16 payload 158);
         next_fingerprint_len = unat (read_u16 payload 160);
         persona_anchor_len = unat (read_u16 payload 162)
     in and_then (ok_or PromptInvalidLayout (checked_sum PERSONA_TRANSITION_PROMPT_PREFIX_BYTES
         [persona_label_len, previous_fingerprint_len, next_fingerprint_len, persona_anchor_len])) (\<lambda>expected.
     if expected \<noteq> length payload then Err PromptInvalidLayout
     else let persona_end = PERSONA_TRANSITION_PROMPT_PREFIX_BYTES + persona_label_len;
              previous_end = persona_end + previous_fingerprint_len;
              next_end = previous_end + next_fingerprint_len
     in and_then (decode_text ''persona label'' (slice payload PERSONA_TRANSITION_PROMPT_PREFIX_BYTES persona_end)) (\<lambda>persona_label.
     and_then (decode_text ''previous key fingerprint'' (slice payload persona_end previous_end)) (\<lambda>previous_key_fingerprint.
     and_then (decode_text ''next key fingerprint'' (slice payload previous_end next_end)) (\<lambda>next_key_fingerprint.
     and_then (decode_text ''persona anchor'' (drop next_end payload)) (\<lambda>persona_anchor.
     prompt_new_persona_transition E request_id persona_id persona_label purpose previous_key_fingerprint persona_anchor
       root_statement_sha256 sequence previous_transition_sha256 issued_at next_key_fingerprint
       transition_statement_sha256 (decode_peer payload)))))))))))"

definition decode_recovery_participation_prompt :: "'z wire_ext_scheme \<Rightarrow> bytes \<Rightarrow> ApprovalPrompt approval" where
  "decode_recovery_participation_prompt E message =
     and_then (approval_decode_header message MESSAGE_RECOVERY_PARTICIPATION_PROMPT
       MAX_RECOVERY_PARTICIPATION_PROMPT_PAYLOAD_BYTES) (\<lambda>payload.
     if length payload < RECOVERY_PARTICIPATION_PROMPT_PREFIX_BYTES \<or> payload ! 3 \<noteq> 0
       \<or> slice payload 28 32 \<noteq> [0, 0, 0, 0] \<or> slice payload 196 200 \<noteq> [0, 0, 0, 0] \<or> 1 < payload ! 2
     then Err PromptInvalidLayout
     else and_then (decode_prompt_role (payload ! 0)) (\<lambda>role.
     and_then (decode_prompt_reason (payload ! 1)) (\<lambda>reason.
     let version = read_u32 payload 16;
         threshold = read_u32 payload 20;
         head_sequence = read_u32 payload 24;
         ceremony_expires_at = read_i64 payload 32
     in and_then (decode_uuid E (slice payload 40 56)) (\<lambda>request_id.
     let request_sha256 = slice payload 56 88;
         root_statement_sha256 = slice payload 88 120;
         policy_sha256 = slice payload 120 152
     in and_then (optional_digest PromptInvalidLayout (payload ! 2) (slice payload 152 184)) (\<lambda>head.
     let persona_label_len = unat (read_u16 payload 184);
         participant_fingerprint_len = unat (read_u16 payload 186);
         previous_fingerprint_len = unat (read_u16 payload 188);
         next_fingerprint_len = unat (read_u16 payload 190);
         persona_anchor_len = unat (read_u16 payload 192);
         ceremony_id_len = unat (read_u16 payload 194)
     in and_then (ok_or PromptInvalidLayout (checked_sum RECOVERY_PARTICIPATION_PROMPT_PREFIX_BYTES
         [persona_label_len, participant_fingerprint_len, previous_fingerprint_len, next_fingerprint_len,
          persona_anchor_len, ceremony_id_len])) (\<lambda>expected.
     if expected \<noteq> length payload then Err PromptInvalidLayout
     else let persona_end = RECOVERY_PARTICIPATION_PROMPT_PREFIX_BYTES + persona_label_len;
              participant_end = persona_end + participant_fingerprint_len;
              previous_end = participant_end + previous_fingerprint_len;
              next_end = previous_end + next_fingerprint_len;
              anchor_end = next_end + persona_anchor_len
     in and_then (decode_text ''persona label'' (slice payload RECOVERY_PARTICIPATION_PROMPT_PREFIX_BYTES persona_end)) (\<lambda>persona_label.
     and_then (decode_text ''participant key fingerprint'' (slice payload persona_end participant_end)) (\<lambda>participant_key_fingerprint.
     and_then (decode_text ''previous key fingerprint'' (slice payload participant_end previous_end)) (\<lambda>previous_key_fingerprint.
     and_then (decode_text ''next key fingerprint'' (slice payload previous_end next_end)) (\<lambda>next_key_fingerprint.
     and_then (decode_text ''persona anchor'' (slice payload next_end anchor_end)) (\<lambda>persona_anchor.
     and_then (decode_text ''ceremony ID'' (drop anchor_end payload)) (\<lambda>ceremony_id.
     prompt_new_recovery_participation E request_id persona_label participant_key_fingerprint request_sha256 ceremony_id
       ceremony_expires_at persona_anchor root_statement_sha256 version policy_sha256 threshold head_sequence head reason
       previous_key_fingerprint next_key_fingerprint role (decode_peer payload)))))))))))))"

definition decode_prompt :: "'z wire_ext_scheme \<Rightarrow> bytes \<Rightarrow> ApprovalPrompt approval" where
  "decode_prompt E message =
     and_then (approval_decode_common_header message) (\<lambda>message_type.
     if message_type = MESSAGE_ARTIFACT_PROMPT then decode_artifact_prompt E message
     else if message_type = MESSAGE_DOMAIN_PROMPT then decode_domain_prompt E message
     else if message_type = MESSAGE_PERSONA_ROOT_PROMPT then decode_persona_root_prompt E message
     else if message_type = MESSAGE_PERSONA_TRANSITION_PROMPT then decode_persona_transition_prompt E message
     else if message_type = MESSAGE_RECOVERY_PARTICIPATION_PROMPT then decode_recovery_participation_prompt E message
     else Err (PromptUnsupportedMessageType message_type))"

section \<open>Decisions on the wire\<close>

definition encode_decision :: "'z wire_ext_scheme \<Rightarrow> DecisionResponse \<Rightarrow> bytes" where
  "encode_decision E response =
     (let message_type = (case dr_decision response of
          Approve \<Rightarrow> MESSAGE_APPROVE | Decline \<Rightarrow> MESSAGE_DECLINE | Cancel \<Rightarrow> MESSAGE_CANCEL)
      in approval_encode_header message_type DECISION_PAYLOAD_BYTES @ uuid_as_bytes E (dr_request_id response))"

definition decode_decision :: "'z wire_ext_scheme \<Rightarrow> bytes \<Rightarrow> DecisionResponse approval" where
  "decode_decision E message =
     and_then (approval_decode_common_header message) (\<lambda>message_type.
     and_then
       (if message_type = MESSAGE_APPROVE then Ok Approve
        else if message_type = MESSAGE_DECLINE then Ok Decline
        else if message_type = MESSAGE_CANCEL then Ok Cancel
        else Err (PromptUnsupportedMessageType message_type)) (\<lambda>decision.
     and_then (approval_decode_header message message_type DECISION_PAYLOAD_BYTES) (\<lambda>payload.
     if length payload \<noteq> DECISION_PAYLOAD_BYTES then Err PromptInvalidLayout
     else and_then (decode_uuid E payload) (\<lambda>request_id.
     Ok \<lparr>dr_request_id = request_id, dr_decision = decision\<rparr>))))"

section \<open>Pipes\<close>

text \<open>
  A reader delivers bytes and then ends, or fails with an error other than an interrupted call
  (\<^verbatim>\<open>read_exact\<close> retries those). A writer accepts all bytes and a flush, or reports an error.
\<close>

record reader =
  rd_bytes :: bytes
  rd_fault :: "string option"

record writer =
  wr_written :: bytes
  wr_write_fault :: "string option"
  wr_flush_fault :: "string option"

definition read_exact :: "reader \<Rightarrow> nat \<Rightarrow> ApprovalProtocolError \<Rightarrow> (bytes \<times> reader) approval" where
  "read_exact input n on_eof =
     (if n \<le> length (rd_bytes input)
      then Ok (take n (rd_bytes input), input\<lparr>rd_bytes := drop n (rd_bytes input)\<rparr>)
      else case rd_fault input of None \<Rightarrow> Err on_eof | Some e \<Rightarrow> Err (ReadError e))"

definition read_one_message :: "reader \<Rightarrow> nat \<Rightarrow> bytes approval" where
  "read_one_message input maximum_payload =
     and_then (read_exact input APPROVAL_HEADER_BYTES PromptTruncatedHeader) (\<lambda>(header, input).
     and_then (approval_decode_common_header header) (\<lambda>_.
     let payload_len = unat (read_u32 header 16)
     in if maximum_payload < payload_len then Err PromptPayloadTooLarge
     else and_then (read_exact input payload_len PromptTruncatedPayload) (\<lambda>(payload, input).
     if rd_bytes input \<noteq> [] then Err PromptTrailingBytes
     else case rd_fault input of None \<Rightarrow> Ok (header @ payload) | Some e \<Rightarrow> Err (ReadError e))))"

definition read_prompt :: "'z wire_ext_scheme \<Rightarrow> reader \<Rightarrow> ApprovalPrompt approval" where
  "read_prompt E input = and_then (read_one_message input MAX_PROMPT_PAYLOAD_BYTES) (decode_prompt E)"

definition read_decision :: "'z wire_ext_scheme \<Rightarrow> reader \<Rightarrow> DecisionResponse approval" where
  "read_decision E input = and_then (read_one_message input DECISION_PAYLOAD_BYTES) (decode_decision E)"

definition write_message :: "writer \<Rightarrow> bytes \<Rightarrow> writer approval" where
  "write_message output message =
     (case wr_write_fault output of
       Some e \<Rightarrow> Err (WriteError e)
     | None \<Rightarrow>
         (case wr_flush_fault output of
           Some e \<Rightarrow> Err (WriteError e)
         | None \<Rightarrow> Ok (output\<lparr>wr_written := wr_written output @ message\<rparr>)))"

definition write_prompt :: "'z wire_ext_scheme \<Rightarrow> writer \<Rightarrow> ApprovalPrompt \<Rightarrow> writer approval" where
  "write_prompt E output prompt = and_then (encode_prompt E prompt) (write_message output)"

definition write_decision :: "'z wire_ext_scheme \<Rightarrow> writer \<Rightarrow> DecisionResponse \<Rightarrow> writer approval" where
  "write_decision E output response = write_message output (encode_decision E response)"

section \<open>Decoding inverts encoding\<close>

lemma length_APPROVAL_MAGIC [simp]: "length APPROVAL_MAGIC = 8"
  by (simp add: APPROVAL_MAGIC_def)

interpretation approval_framing: framing APPROVAL_MAGIC PromptTruncatedHeader PromptInvalidMagic PromptPayloadTooLarge
  PromptTruncatedPayload PromptTrailingBytes PromptUnsupportedVersion PromptUnsupportedMessageType PromptUnsupportedFlags
  approval_encode_header approval_decode_common_header approval_decode_header
  by unfold_locales (simp_all only: length_APPROVAL_MAGIC approval_encode_header_def approval_decode_common_header_def
      approval_decode_header_def APPROVAL_PROTOCOL_MAJOR_def APPROVAL_PROTOCOL_MINOR_def APPROVAL_FLAGS_NONE_def
      APPROVAL_HEADER_BYTES_def Let_def cong: if_cong)

lemma checked_sum_iff: "a < 2 ^ 64 \<Longrightarrow> checked_sum a ns = Some e \<longleftrightarrow> e = a + sum_list ns \<and> a + sum_list ns < 2 ^ 64"
proof (induction ns arbitrary: a)
  case Nil
  then show ?case by (auto simp: checked_sum_def)
next
  case (Cons n ns)
  have none: "foldl (\<lambda>acc n. Option.bind acc (\<lambda>len. usize_checked_add len n)) None ks = None" for ks
    by (induction ks) auto
  have "checked_sum a (n # ns) = (case usize_checked_add a n of None \<Rightarrow> None | Some b \<Rightarrow> checked_sum b ns)"
    by (simp add: checked_sum_def none split: option.splits)
  with Cons.IH [of "a + n"] show ?case by (auto simp: usize_checked_add_def)
qed

lemma decode_prompt_artifact_kind_iff: "decode_prompt_artifact_kind b = Ok k \<longleftrightarrow> b = prompt_artifact_kind_u8 k"
  by (cases k) (auto simp: decode_prompt_artifact_kind_def)

lemma decode_prompt_purpose_iff: "decode_prompt_purpose b = Ok k \<longleftrightarrow> b = prompt_purpose_u8 k"
  by (cases k) (auto simp: decode_prompt_purpose_def)

lemma decode_prompt_role_iff: "decode_prompt_role b = Ok k \<longleftrightarrow> b = prompt_role_u8 k"
  by (cases k) (auto simp: decode_prompt_role_def)

lemma decode_prompt_reason_iff: "decode_prompt_reason b = Ok k \<longleftrightarrow> b = prompt_reason_u8 k"
  by (cases k) (auto simp: decode_prompt_reason_def)

lemmas decode_prompt_enums_iff = decode_prompt_artifact_kind_iff decode_prompt_purpose_iff decode_prompt_role_iff
  decode_prompt_reason_iff

lemma new_with_subject_Ok_iff:
  "new_with_subject E i p l u f s peer = Ok r \<longleftrightarrow>
     r = \<lparr>ap_request_id = i, ap_persona_id = p, ap_persona_label = l, ap_persona_purpose = u, ap_key_fingerprint = f,
       ap_subject = s, ap_peer = peer\<rparr> \<and> validate_prompt E r = Ok ()"
  by (auto simp: new_with_subject_def Let_def)

lemma decode_uuid_iff: "uuid_bytes_law E \<Longrightarrow> decode_uuid E bs = Ok u \<longleftrightarrow> bs = uuid_as_bytes E u"
  by (auto simp: decode_uuid_def uuid_bytes_law_def)

lemma decode_text_iff: "decode_text field bs = Ok s \<longleftrightarrow> bs = as_bytes s \<and> is_utf8 s"
  by (simp add: decode_text_def from_utf8_iff)

lemmas prompt_iffs = decode_prompt_enums_iff new_with_subject_Ok_iff decode_text_iff

text \<open>What the Rust types of a prompt say: strings are UTF-8, digests have 32 bytes and times fit an \<^verbatim>\<open>i64\<close>.\<close>

definition prompt_typed :: "ApprovalPrompt \<Rightarrow> bool" where
  "prompt_typed prompt \<longleftrightarrow>
     is_utf8 (ap_persona_label prompt) \<and> is_utf8 (ap_key_fingerprint prompt)
     \<and> (case ap_subject prompt of
          ApproveArtifact a \<Rightarrow> is_utf8 (aa_artifact_label a) \<and> length (aa_artifact_sha256 a) = 32
        | ApproveDomain d \<Rightarrow> is_utf8 (da_domain d) \<and> is_utf8 (da_dns_txt_value d) \<and> is_i64 (da_issued_at d)
            \<and> is_i64 (da_expires_at d)
        | ApprovePersonaRoot a \<Rightarrow> is_utf8 (pra_persona_anchor a) \<and> length (pra_root_statement_sha256 a) = 32
            \<and> is_i64 (pra_issued_at a)
        | ApprovePersonaTransition t \<Rightarrow> is_utf8 (ta_persona_anchor t) \<and> is_utf8 (ta_previous_key_fingerprint t)
            \<and> is_utf8 (ta_next_key_fingerprint t) \<and> is_i64 (ta_issued_at t) \<and> length (ta_root_statement_sha256 t) = 32
            \<and> pred_option (\<lambda>d. length d = 32) (ta_previous_transition_sha256 t)
            \<and> length (ta_transition_statement_sha256 t) = 32
        | ApproveRecoveryParticipation v \<Rightarrow> is_utf8 (va_ceremony_id v) \<and> is_utf8 (va_persona_anchor v)
            \<and> is_utf8 (va_previous_key_fingerprint v) \<and> is_utf8 (va_next_key_fingerprint v)
            \<and> is_utf8 (va_participant_key_fingerprint v) \<and> is_i64 (va_ceremony_expires_at v)
            \<and> length (va_request_sha256 v) = 32 \<and> length (va_root_statement_sha256 v) = 32
            \<and> length (va_recovery_policy_sha256 v) = 32 \<and> pred_option (\<lambda>d. length d = 32) (va_previous_head_sha256 v))"

lemma decode_artifact_prompt_payload:
  assumes law: "uuid_bytes_law E" and dec: "decode_artifact_prompt E m = Ok r"
  shows "\<exists>a. ap_subject r = ApproveArtifact a \<and> prompt_typed r \<and> validate_prompt E r = Ok ()
    \<and> encode_artifact_prompt E r a = Ok m"
proof -
  let ?l = "\<lambda>p. unat (read_u16 p 88)" and ?f = "\<lambda>p. unat (read_u16 p 90)"
  from dec obtain p kind purpose i u label print artifact where
    head: "approval_decode_header m MESSAGE_ARTIFACT_PROMPT MAX_ARTIFACT_PROMPT_PAYLOAD_BYTES = Ok p"
    and p: "96 \<le> length p" "slice p 2 4 = [0, 0]" "slice p 94 96 = [0, 0]" "p ! 0 = prompt_artifact_kind_u8 kind"
      "p ! 1 = prompt_purpose_u8 purpose"
    and ids: "slice p 24 40 = uuid_as_bytes E i" "slice p 40 56 = uuid_as_bytes E u"
    and total: "length p = 96 + ?l p + ?f p + unat (read_u16 p 92)"
    and label: "slice p 96 (96 + ?l p) = as_bytes label" "is_utf8 label"
    and print: "slice p (96 + ?l p) (96 + ?l p + ?f p) = as_bytes print" "is_utf8 print"
    and artifact: "drop (96 + ?l p + ?f p) p = as_bytes artifact" "is_utf8 artifact"
    and r: "r = \<lparr>ap_request_id = i, ap_persona_id = Some u, ap_persona_label = label, ap_persona_purpose = Some purpose,
       ap_key_fingerprint = print, ap_subject = ApproveArtifact \<lparr>aa_artifact_kind = kind, aa_artifact_label = artifact,
         aa_artifact_sha256 = slice p 56 88, aa_artifact_size = read_u64 p 16\<rparr>, ap_peer = decode_peer p\<rparr>"
      "validate_prompt E r = Ok ()"
    unfolding decode_artifact_prompt_def prompt_new_def
    by (auto simp: Let_def prompt_iffs decode_uuid_iff [OF law] prompt_prefixes checked_sum_iff)
  have len: "length label = ?l p" "length print = ?f p" "length artifact = unat (read_u16 p 92)"
    using arg_cong [OF label(1), of length] arg_cong [OF print(1), of length] arg_cong [OF artifact(1), of length] total
    by simp_all
  have "p = pieces 0 [1, 2, 4, 8, 12, 16, 24, 40, 56, 88, 90, 92, 94, 96, 96 + ?l p, 96 + ?l p + ?f p] p"
    by (subst pieces_id) auto
  also have "\<dots> = [prompt_artifact_kind_u8 kind] @ [prompt_purpose_u8 purpose] @ u16_to_be_bytes 0
      @ encode_peer r @ u64_to_be_bytes (read_u64 p 16) @ uuid_as_bytes E i @ uuid_as_bytes E u @ slice p 56 88
      @ length_field label @ length_field print @ length_field artifact @ u16_to_be_bytes 0
      @ as_bytes label @ as_bytes print @ as_bytes artifact"
    using p ids label print artifact
    by (simp add: slice_u8 slice_u16 [of 90 88] slice_u16 [of 92 90] slice_u16 [of 94 92] slice_u32 [of 8 4]
        slice_u32 [of 12 8] slice_u32 [of 16 12] slice_u64 [of 24 16] zero_be_bytes len encode_peer_def decode_peer_def r
        length_field_def)
  finally have m: "m = approval_encode_header MESSAGE_ARTIFACT_PROMPT (96 + length label + length print + length artifact) @ \<dots>"
    using head total by (simp add: approval_framing.decode_head_iff prompt_sizes len)
  have "length label + length print + length artifact < 65536 * 3"
    unfolding len using unat_u16_lt [of "read_u16 p 88"] unat_u16_lt [of "read_u16 p 90"] unat_u16_lt [of "read_u16 p 92"] by simp
  then have sum: "checked_sum 96 [length label, length print, length artifact] = Some (96 + length label + length print + length artifact)"
    by (simp add: checked_sum_iff)
  have "encode_artifact_prompt E r \<lparr>aa_artifact_kind = kind, aa_artifact_label = artifact,
         aa_artifact_sha256 = slice p 56 88, aa_artifact_size = read_u64 p 16\<rparr> = Ok m"
    using m by (simp add: encode_artifact_prompt_def sum required_persona_purpose_def prompt_required_persona_id_def
        ARTIFACT_PROMPT_PREFIX_BYTES_def r(1))
  moreover have "prompt_typed r" using label print artifact p by (simp add: r(1) prompt_typed_def)
  ultimately show ?thesis using r by auto
qed

lemma validate_text_length: "validate_text field s k = Ok () \<Longrightarrow> length s \<le> k"
  by (auto simp: validate_text_def split: if_splits)

lemma fingerprint_length: "approval_validate_key_fingerprint E field s = Ok () \<Longrightarrow> length s \<le> 128"
  by (auto simp: approval_validate_key_fingerprint_def MAX_KEY_FINGERPRINT_BYTES_def dest: validate_text_length)

lemma anchor_length: "approval_validate_persona_anchor E s = Ok () \<Longrightarrow> length s \<le> 43"
  by (auto simp: approval_validate_persona_anchor_def MAX_PERSONA_ANCHOR_BYTES_def dest: validate_text_length)

lemma ceremony_id_length: "approval_validate_ceremony_id E s = Ok () \<Longrightarrow> length s \<le> 43"
  by (auto simp: approval_validate_ceremony_id_def MAX_RECOVERY_CEREMONY_ID_BYTES_def dest: validate_text_length)

lemma valid_prompt_common:
  assumes "validate_prompt E r = Ok ()"
  shows "length (ap_persona_label r) \<le> 256" "length (ap_key_fingerprint r) \<le> 128"
  using assms by (auto simp: validate_prompt_def MAX_PERSONA_LABEL_BYTES_def dest: validate_text_length fingerprint_length)

lemma valid_prompt_persona:
  assumes "validate_prompt E r = Ok ()" "\<And>v. ap_subject r \<noteq> ApproveRecoveryParticipation v"
  shows "\<exists>u purpose. ap_persona_id r = Some u \<and> ap_persona_purpose r = Some purpose"
  using assms by (cases "ap_subject r"; cases "ap_persona_id r"; cases "ap_persona_purpose r")
    (auto simp: validate_prompt_def validate_local_persona_def)

lemma valid_recovery_persona:
  assumes "validate_prompt E r = Ok ()" "ap_subject r = ApproveRecoveryParticipation v"
  shows "ap_persona_id r = None \<and> ap_persona_purpose r = None"
  using assms by (auto simp: validate_prompt_def validate_local_persona_def split: if_splits)

lemma prompt_ids:
  assumes "uuid_bytes_law E"
  shows "length (uuid_as_bytes E u) = 16" "decode_uuid E (uuid_as_bytes E u) = Ok u"
  using assms by (simp add: uuid_bytes_law_def) (simp add: decode_uuid_iff assms)

lemma prompt_length_field:
  "length s < 65536 \<Longrightarrow> unat (of_nat (length s) :: u16) = length s"
  by (rule unat_of_nat_u16)

lemma length_parts [simp]: "length (length_field s) = 2" "length (encode_peer r) = 12"
  by (simp_all add: length_field_def encode_peer_def)

lemma read_length_field [wire]: "read_u16 (length_field s @ xs) 0 = of_nat (length s)"
  by (simp add: length_field_def wire)

lemma decode_peer_encoded:
  assumes "length pre = 4"
  shows "decode_peer (pre @ encode_peer r @ xs) = ap_peer r"
  using assms by (simp add: decode_peer_def encode_peer_def wire)

lemma decode_text_as_bytes [simp]: "is_utf8 s \<Longrightarrow> decode_text field (as_bytes s) = Ok s"
  by (simp add: decode_text_iff)

lemma encode_artifact_prompt_payload:
  assumes law: "uuid_bytes_law E" and a: "ap_subject r = ApproveArtifact a" and typed: "prompt_typed r"
    and valid: "validate_prompt E r = Ok ()" and enc: "encode_artifact_prompt E r a = Ok m"
  shows "decode_artifact_prompt E m = Ok r"
proof -
  obtain u purpose where ids: "ap_persona_id r = Some u" "ap_persona_purpose r = Some purpose"
    using valid_prompt_persona [OF valid] a by auto
  define p where "p = ([prompt_artifact_kind_u8 (aa_artifact_kind a)] @ [prompt_purpose_u8 purpose] @ u16_to_be_bytes 0)
      @ encode_peer r @ u64_to_be_bytes (aa_artifact_size a) @ uuid_as_bytes E (ap_request_id r) @ uuid_as_bytes E u
      @ aa_artifact_sha256 a @ length_field (ap_persona_label r) @ length_field (ap_key_fingerprint r)
      @ length_field (aa_artifact_label a) @ u16_to_be_bytes 0
      @ as_bytes (ap_persona_label r) @ as_bytes (ap_key_fingerprint r) @ as_bytes (aa_artifact_label a)"
  let ?l = "length (ap_persona_label r)" and ?f = "length (ap_key_fingerprint r)" and ?a = "length (aa_artifact_label a)"
  have len: "?l \<le> 256" "?f \<le> 128" "?a \<le> 256"
    using valid_prompt_common [OF valid] valid
    by (auto simp: validate_prompt_def a PROMPT_MAX_ARTIFACT_LABEL_BYTES_def dest: validate_text_length)
  have t: "is_utf8 (ap_persona_label r)" "is_utf8 (ap_key_fingerprint r)" "is_utf8 (aa_artifact_label a)"
    "length (aa_artifact_sha256 a) = 32"
    using typed by (simp_all add: prompt_typed_def a)
  have lp: "length p = 96 + ?l + ?f + ?a" using t prompt_ids [OF law] by (simp add: p_def)
  have sum: "checked_sum 96 [?l, ?f, ?a] = Some (length p)" using len lp by (simp add: checked_sum_iff)
  have "m = approval_encode_header MESSAGE_ARTIFACT_PROMPT (length p) @ p"
    using enc by (simp add: encode_artifact_prompt_def ids sum required_persona_purpose_def prompt_required_persona_id_def
        ARTIFACT_PROMPT_PREFIX_BYTES_def) (simp add: p_def)
  then have head: "approval_decode_header m MESSAGE_ARTIFACT_PROMPT MAX_ARTIFACT_PROMPT_PAYLOAD_BYTES = Ok p"
    using len lp by (subst approval_framing.decode_head_iff) (simp_all add: prompt_sizes)
  have peer: "decode_peer p = ap_peer r" unfolding p_def by (rule decode_peer_encoded) simp
  have reads: "p ! 0 = prompt_artifact_kind_u8 (aa_artifact_kind a)" "p ! 1 = prompt_purpose_u8 purpose"
    "p ! Suc 0 = prompt_purpose_u8 purpose" "slice p 2 4 = [0, 0]" "slice p 94 96 = [0, 0]"
    "read_u64 p 16 = aa_artifact_size a"
    "slice p 24 40 = uuid_as_bytes E (ap_request_id r)" "slice p 40 56 = uuid_as_bytes E u" "slice p 56 88 = aa_artifact_sha256 a"
    "read_u16 p 88 = of_nat ?l" "read_u16 p 90 = of_nat ?f" "read_u16 p 92 = of_nat ?a"
    "slice p 96 (96 + ?l) = as_bytes (ap_persona_label r)"
    "slice p (96 + ?l) (96 + ?l + ?f) = as_bytes (ap_key_fingerprint r)"
    "drop (96 + ?l + ?f) p = as_bytes (aa_artifact_label a)"
    using t prompt_ids(1) [OF law] by (simp_all add: p_def wire) (simp_all add: zero_be_bytes)
  have ok: "decode_prompt_artifact_kind (prompt_artifact_kind_u8 k) = Ok k" "decode_prompt_purpose (prompt_purpose_u8 x) = Ok x" for k x
    by (simp_all add: decode_prompt_enums_iff)
  have r: "\<lparr>ap_request_id = ap_request_id r, ap_persona_id = Some u, ap_persona_label = ap_persona_label r,
      ap_persona_purpose = Some purpose, ap_key_fingerprint = ap_key_fingerprint r,
      ap_subject = ApproveArtifact \<lparr>aa_artifact_kind = aa_artifact_kind a, aa_artifact_label = aa_artifact_label a,
        aa_artifact_sha256 = aa_artifact_sha256 a, aa_artifact_size = aa_artifact_size a\<rparr>, ap_peer = ap_peer r\<rparr> = r"
    by (rule ApprovalPrompt.equality) (simp_all add: ids a)
  from head show ?thesis using lp len valid
    by (simp add: decode_artifact_prompt_def ARTIFACT_PROMPT_PREFIX_BYTES_def reads ok prompt_ids [OF law] unat_of_nat_u16
        sum t peer prompt_new_def new_with_subject_def r)
qed

lemma decode_domain_prompt_payload:
  assumes law: "uuid_bytes_law E" and dec: "decode_domain_prompt E m = Ok r"
  shows "\<exists>x. ap_subject r = ApproveDomain x \<and> prompt_typed r \<and> validate_prompt E r = Ok ()
    \<and> encode_domain_prompt E r x = Ok m"
proof -
  from dec obtain p purpose i u label print domain dns where
    head: "approval_decode_header m MESSAGE_DOMAIN_PROMPT MAX_DOMAIN_PROMPT_PAYLOAD_BYTES = Ok p"
    and p: "76 \<le> length p" "p ! 0 = prompt_purpose_u8 purpose" "slice p 1 4 = [0, 0, 0]" "slice p 72 76 = [0, 0, 0, 0]"
    and ids: "slice p 32 48 = uuid_as_bytes E i" "slice p 48 64 = uuid_as_bytes E u"
    and total: "length p = 76 + unat (read_u16 p 64) + unat (read_u16 p 66) + unat (read_u16 p 68) + unat (read_u16 p 70)"
    and texts: "slice p 76 (76 + unat (read_u16 p 64)) = as_bytes label"
      "slice p (76 + unat (read_u16 p 64)) (76 + unat (read_u16 p 64) + unat (read_u16 p 66)) = as_bytes print"
      "slice p (76 + unat (read_u16 p 64) + unat (read_u16 p 66)) (76 + unat (read_u16 p 64) + unat (read_u16 p 66) + unat (read_u16 p 68)) = as_bytes domain"
      "drop (76 + unat (read_u16 p 64) + unat (read_u16 p 66) + unat (read_u16 p 68)) p = as_bytes dns"
      "is_utf8 label" "is_utf8 print" "is_utf8 domain" "is_utf8 dns"
    and r: "r = \<lparr>ap_request_id = i, ap_persona_id = Some u, ap_persona_label = label, ap_persona_purpose = Some purpose,
       ap_key_fingerprint = print, ap_subject = ApproveDomain \<lparr>da_domain = domain, da_dns_txt_value = dns, da_issued_at = read_i64 p 16, da_expires_at = read_i64 p 24\<rparr>,
       ap_peer = decode_peer p\<rparr>"
      "validate_prompt E r = Ok ()"
    unfolding decode_domain_prompt_def prompt_new_domain_def
    by (auto simp: Let_def prompt_iffs decode_uuid_iff [OF law] prompt_prefixes checked_sum_iff not_less add.assoc)
  have len: "length label = unat (read_u16 p 64)" "length print = unat (read_u16 p 66)" "length domain = unat (read_u16 p 68)" "length dns = unat (read_u16 p 70)"
    using arg_cong [OF texts(1), of length] arg_cong [OF texts(2), of length] arg_cong [OF texts(3), of length] arg_cong [OF texts(4), of length] total by simp_all
  have "p = pieces 0 [1, 4, 8, 12, 16, 24, 32, 48, 64, 66, 68, 70, 72, 76, 76 + unat (read_u16 p 64), 76 + unat (read_u16 p 64) + unat (read_u16 p 66), 76 + unat (read_u16 p 64) + unat (read_u16 p 66) + unat (read_u16 p 68)] p"
    by (subst pieces_id) auto
  also have "\<dots> = [prompt_purpose_u8 purpose]
      @ [0, 0, 0]
      @ encode_peer r
      @ i64_to_be_bytes (read_i64 p 16)
      @ i64_to_be_bytes (read_i64 p 24)
      @ uuid_as_bytes E i
      @ uuid_as_bytes E u
      @ length_field label
      @ length_field print
      @ length_field domain
      @ length_field dns
      @ u32_to_be_bytes 0
      @ as_bytes label
      @ as_bytes print
      @ as_bytes domain
      @ as_bytes dns"
    using p ids texts
    by (simp add: slice_u8 slice_u32 [of 8 4] slice_u32 [of 12 8] slice_u32 [of 16 12] slice_i64 [of 24 16] slice_i64 [of 32 24] slice_u16 [of 66 64] slice_u16 [of 68 66] slice_u16 [of 70 68] slice_u16 [of 72 70] zero_be_bytes len encode_peer_def decode_peer_def r
        length_field_def)
  finally have m: "m = approval_encode_header MESSAGE_DOMAIN_PROMPT (76 + length label + length print + length domain + length dns) @ \<dots>"
    using head total by (simp add: approval_framing.decode_head_iff prompt_sizes len)
  have "length label + length print + length domain + length dns < 65536 * 4"
    unfolding len using unat_u16_lt [of "read_u16 p 64"] unat_u16_lt [of "read_u16 p 66"] unat_u16_lt [of "read_u16 p 68"] unat_u16_lt [of "read_u16 p 70"] by simp
  then have sum: "checked_sum 76 [length label, length print, length domain, length dns] = Some (76 + length label + length print + length domain + length dns)"
    by (simp add: checked_sum_iff)
  have "encode_domain_prompt E r (case ap_subject r of ApproveDomain x \<Rightarrow> x) = Ok m"
    using m by (simp add: encode_domain_prompt_def sum required_persona_purpose_def prompt_required_persona_id_def
        prompt_prefixes r(1))
  moreover have "prompt_typed r" using texts p by (simp add: r(1) prompt_typed_def read_i64_range)
  ultimately show ?thesis using r by auto
qed

lemma encode_domain_prompt_payload:
  assumes law: "uuid_bytes_law E" and x: "ap_subject r = ApproveDomain x" and typed: "prompt_typed r"
    and valid: "validate_prompt E r = Ok ()" and enc: "encode_domain_prompt E r x = Ok m"
  shows "decode_domain_prompt E m = Ok r"
proof -
  obtain u purpose where ids: "ap_persona_id r = Some u" "ap_persona_purpose r = Some purpose"
    using valid_prompt_persona [OF valid] x by auto
  define p where "p = ([prompt_purpose_u8 purpose] @ [0, 0, 0])
      @ encode_peer r
      @ i64_to_be_bytes (da_issued_at x)
      @ i64_to_be_bytes (da_expires_at x)
      @ uuid_as_bytes E (ap_request_id r)
      @ uuid_as_bytes E u
      @ length_field (ap_persona_label r)
      @ length_field (ap_key_fingerprint r)
      @ length_field (da_domain x)
      @ length_field (da_dns_txt_value x)
      @ u32_to_be_bytes 0
      @ as_bytes (ap_persona_label r)
      @ as_bytes (ap_key_fingerprint r)
      @ as_bytes (da_domain x)
      @ as_bytes (da_dns_txt_value x)"
  have len: "length (ap_persona_label r) \<le> 256" "length (ap_key_fingerprint r) \<le> 128" "length (da_domain x) \<le> 253" "length (da_dns_txt_value x) \<le> 128"
    using valid_prompt_common [OF valid] valid
    by (auto simp: validate_prompt_def x validate_domain_approval_def validate_persona_root_approval_def Let_def
        validate_persona_transition_approval_def validate_recovery_participation_approval_def prompt_field_sizes
        split: if_splits dest: validate_text_length fingerprint_length anchor_length ceremony_id_length)
  have t: "is_utf8 (ap_persona_label r)" "is_utf8 (ap_key_fingerprint r)" "is_utf8 (da_domain x)" "is_utf8 (da_dns_txt_value x)" "is_i64 (da_issued_at x)" "is_i64 (da_expires_at x)"
    using typed by (simp_all add: prompt_typed_def x)
  have lp: "length p = 76 + length (ap_persona_label r) + length (ap_key_fingerprint r) + length (da_domain x) + length (da_dns_txt_value x)" using t prompt_ids [OF law] by (simp add: p_def)
  have sum: "checked_sum 76 [length (ap_persona_label r), length (ap_key_fingerprint r), length (da_domain x), length (da_dns_txt_value x)] = Some (length p)" using len lp by (simp add: checked_sum_iff)
  have "m = approval_encode_header MESSAGE_DOMAIN_PROMPT (length p) @ p"
    using enc by (simp add: encode_domain_prompt_def ids sum required_persona_purpose_def prompt_required_persona_id_def
        prompt_prefixes) (simp add: p_def)
  then have head: "approval_decode_header m MESSAGE_DOMAIN_PROMPT MAX_DOMAIN_PROMPT_PAYLOAD_BYTES = Ok p"
    using len lp by (subst approval_framing.decode_head_iff) (simp_all add: prompt_sizes)
  have peer: "decode_peer p = ap_peer r" unfolding p_def by (rule decode_peer_encoded) simp
  have reads: "p ! 0 = prompt_purpose_u8 purpose"
    "slice p 1 4 = [0, 0, 0]"
    "slice p (Suc 0) 4 = [0, 0, 0]"
    "read_i64 p 16 = da_issued_at x"
    "read_i64 p 24 = da_expires_at x"
    "slice p 32 48 = uuid_as_bytes E (ap_request_id r)"
    "slice p 48 64 = uuid_as_bytes E u"
    "read_u16 p 64 = of_nat (length (ap_persona_label r))"
    "read_u16 p 66 = of_nat (length (ap_key_fingerprint r))"
    "read_u16 p 68 = of_nat (length (da_domain x))"
    "read_u16 p 70 = of_nat (length (da_dns_txt_value x))"
    "slice p 72 76 = [0, 0, 0, 0]"
    "slice p 76 (76 + length (ap_persona_label r)) = as_bytes (ap_persona_label r)"
    "slice p (76 + length (ap_persona_label r)) (76 + length (ap_persona_label r) + length (ap_key_fingerprint r)) = as_bytes (ap_key_fingerprint r)"
    "slice p (76 + length (ap_persona_label r) + length (ap_key_fingerprint r)) (76 + length (ap_persona_label r) + length (ap_key_fingerprint r) + length (da_domain x)) = as_bytes (da_domain x)"
    "drop (76 + length (ap_persona_label r) + length (ap_key_fingerprint r) + length (da_domain x)) p = as_bytes (da_dns_txt_value x)"
    using t prompt_ids(1) [OF law] by (simp_all add: p_def wire add.assoc) (simp_all add: zero_be_bytes)
  have ok: "decode_prompt_purpose (prompt_purpose_u8 k0) = Ok k0" for k0
    by (simp_all add: decode_prompt_enums_iff)
  have r: "\<lparr>ap_request_id = ap_request_id r, ap_persona_id = Some u, ap_persona_label = ap_persona_label r, ap_persona_purpose = Some purpose,
       ap_key_fingerprint = ap_key_fingerprint r, ap_subject = ApproveDomain \<lparr>da_domain = da_domain x, da_dns_txt_value = da_dns_txt_value x, da_issued_at = da_issued_at x, da_expires_at = da_expires_at x\<rparr>,
       ap_peer = ap_peer r\<rparr> = r"
    by (rule ApprovalPrompt.equality) (simp_all add: ids x)
  from head show ?thesis using lp len valid
    by (simp add: decode_domain_prompt_def prompt_prefixes reads ok prompt_ids [OF law] unat_of_nat_u16
        sum t peer prompt_new_domain_def new_with_subject_def r)
qed

lemma decode_persona_root_prompt_payload:
  assumes law: "uuid_bytes_law E" and dec: "decode_persona_root_prompt E m = Ok r"
  shows "\<exists>x. ap_subject r = ApprovePersonaRoot x \<and> prompt_typed r \<and> validate_prompt E r = Ok ()
    \<and> encode_persona_root_prompt E r x = Ok m"
proof -
  from dec obtain p purpose i u label print anchor where
    head: "approval_decode_header m MESSAGE_PERSONA_ROOT_PROMPT MAX_PERSONA_ROOT_PROMPT_PAYLOAD_BYTES = Ok p"
    and p: "96 \<le> length p" "p ! 0 = prompt_purpose_u8 purpose" "slice p 1 4 = [0, 0, 0]" "slice p 94 96 = [0, 0]"
    and ids: "slice p 24 40 = uuid_as_bytes E i" "slice p 40 56 = uuid_as_bytes E u"
    and total: "length p = 96 + unat (read_u16 p 88) + unat (read_u16 p 90) + unat (read_u16 p 92)"
    and texts: "slice p 96 (96 + unat (read_u16 p 88)) = as_bytes label"
      "slice p (96 + unat (read_u16 p 88)) (96 + unat (read_u16 p 88) + unat (read_u16 p 90)) = as_bytes print"
      "drop (96 + unat (read_u16 p 88) + unat (read_u16 p 90)) p = as_bytes anchor"
      "is_utf8 label" "is_utf8 print" "is_utf8 anchor"
    and r: "r = \<lparr>ap_request_id = i, ap_persona_id = Some u, ap_persona_label = label, ap_persona_purpose = Some purpose,
       ap_key_fingerprint = print, ap_subject = ApprovePersonaRoot \<lparr>pra_persona_anchor = anchor, pra_root_statement_sha256 = slice p 56 88, pra_issued_at = read_i64 p 16\<rparr>,
       ap_peer = decode_peer p\<rparr>"
      "validate_prompt E r = Ok ()"
    unfolding decode_persona_root_prompt_def prompt_new_persona_root_def
    by (auto simp: Let_def prompt_iffs decode_uuid_iff [OF law] prompt_prefixes checked_sum_iff not_less add.assoc)
  have len: "length label = unat (read_u16 p 88)" "length print = unat (read_u16 p 90)" "length anchor = unat (read_u16 p 92)"
    using arg_cong [OF texts(1), of length] arg_cong [OF texts(2), of length] arg_cong [OF texts(3), of length] total by simp_all
  have "p = pieces 0 [1, 4, 8, 12, 16, 24, 40, 56, 88, 90, 92, 94, 96, 96 + unat (read_u16 p 88), 96 + unat (read_u16 p 88) + unat (read_u16 p 90)] p"
    by (subst pieces_id) auto
  also have "\<dots> = [prompt_purpose_u8 purpose]
      @ [0, 0, 0]
      @ encode_peer r
      @ i64_to_be_bytes (read_i64 p 16)
      @ uuid_as_bytes E i
      @ uuid_as_bytes E u
      @ slice p 56 88
      @ length_field label
      @ length_field print
      @ length_field anchor
      @ u16_to_be_bytes 0
      @ as_bytes label
      @ as_bytes print
      @ as_bytes anchor"
    using p ids texts
    by (simp add: slice_u8 slice_u32 [of 8 4] slice_u32 [of 12 8] slice_u32 [of 16 12] slice_i64 [of 24 16] slice_u16 [of 90 88] slice_u16 [of 92 90] slice_u16 [of 94 92] zero_be_bytes len encode_peer_def decode_peer_def r
        length_field_def)
  finally have m: "m = approval_encode_header MESSAGE_PERSONA_ROOT_PROMPT (96 + length label + length print + length anchor) @ \<dots>"
    using head total by (simp add: approval_framing.decode_head_iff prompt_sizes len)
  have "length label + length print + length anchor < 65536 * 3"
    unfolding len using unat_u16_lt [of "read_u16 p 88"] unat_u16_lt [of "read_u16 p 90"] unat_u16_lt [of "read_u16 p 92"] by simp
  then have sum: "checked_sum 96 [length label, length print, length anchor] = Some (96 + length label + length print + length anchor)"
    by (simp add: checked_sum_iff)
  have "encode_persona_root_prompt E r (case ap_subject r of ApprovePersonaRoot x \<Rightarrow> x) = Ok m"
    using m by (simp add: encode_persona_root_prompt_def sum required_persona_purpose_def prompt_required_persona_id_def
        prompt_prefixes r(1))
  moreover have "prompt_typed r" using texts p by (simp add: r(1) prompt_typed_def read_i64_range)
  ultimately show ?thesis using r by auto
qed

lemma encode_persona_root_prompt_payload:
  assumes law: "uuid_bytes_law E" and x: "ap_subject r = ApprovePersonaRoot x" and typed: "prompt_typed r"
    and valid: "validate_prompt E r = Ok ()" and enc: "encode_persona_root_prompt E r x = Ok m"
  shows "decode_persona_root_prompt E m = Ok r"
proof -
  obtain u purpose where ids: "ap_persona_id r = Some u" "ap_persona_purpose r = Some purpose"
    using valid_prompt_persona [OF valid] x by auto
  define p where "p = ([prompt_purpose_u8 purpose] @ [0, 0, 0])
      @ encode_peer r
      @ i64_to_be_bytes (pra_issued_at x)
      @ uuid_as_bytes E (ap_request_id r)
      @ uuid_as_bytes E u
      @ pra_root_statement_sha256 x
      @ length_field (ap_persona_label r)
      @ length_field (ap_key_fingerprint r)
      @ length_field (pra_persona_anchor x)
      @ u16_to_be_bytes 0
      @ as_bytes (ap_persona_label r)
      @ as_bytes (ap_key_fingerprint r)
      @ as_bytes (pra_persona_anchor x)"
  have len: "length (ap_persona_label r) \<le> 256" "length (ap_key_fingerprint r) \<le> 128" "length (pra_persona_anchor x) \<le> 43"
    using valid_prompt_common [OF valid] valid
    by (auto simp: validate_prompt_def x validate_domain_approval_def validate_persona_root_approval_def Let_def
        validate_persona_transition_approval_def validate_recovery_participation_approval_def prompt_field_sizes
        split: if_splits dest: validate_text_length fingerprint_length anchor_length ceremony_id_length)
  have t: "is_utf8 (ap_persona_label r)" "is_utf8 (ap_key_fingerprint r)" "is_utf8 (pra_persona_anchor x)" "length (pra_root_statement_sha256 x) = 32" "is_i64 (pra_issued_at x)"
    using typed by (simp_all add: prompt_typed_def x)
  have lp: "length p = 96 + length (ap_persona_label r) + length (ap_key_fingerprint r) + length (pra_persona_anchor x)" using t prompt_ids [OF law] by (simp add: p_def)
  have sum: "checked_sum 96 [length (ap_persona_label r), length (ap_key_fingerprint r), length (pra_persona_anchor x)] = Some (length p)" using len lp by (simp add: checked_sum_iff)
  have "m = approval_encode_header MESSAGE_PERSONA_ROOT_PROMPT (length p) @ p"
    using enc by (simp add: encode_persona_root_prompt_def ids sum required_persona_purpose_def prompt_required_persona_id_def
        prompt_prefixes) (simp add: p_def)
  then have head: "approval_decode_header m MESSAGE_PERSONA_ROOT_PROMPT MAX_PERSONA_ROOT_PROMPT_PAYLOAD_BYTES = Ok p"
    using len lp by (subst approval_framing.decode_head_iff) (simp_all add: prompt_sizes)
  have peer: "decode_peer p = ap_peer r" unfolding p_def by (rule decode_peer_encoded) simp
  have reads: "p ! 0 = prompt_purpose_u8 purpose"
    "slice p 1 4 = [0, 0, 0]"
    "slice p (Suc 0) 4 = [0, 0, 0]"
    "read_i64 p 16 = pra_issued_at x"
    "slice p 24 40 = uuid_as_bytes E (ap_request_id r)"
    "slice p 40 56 = uuid_as_bytes E u"
    "slice p 56 88 = pra_root_statement_sha256 x"
    "read_u16 p 88 = of_nat (length (ap_persona_label r))"
    "read_u16 p 90 = of_nat (length (ap_key_fingerprint r))"
    "read_u16 p 92 = of_nat (length (pra_persona_anchor x))"
    "slice p 94 96 = [0, 0]"
    "slice p 96 (96 + length (ap_persona_label r)) = as_bytes (ap_persona_label r)"
    "slice p (96 + length (ap_persona_label r)) (96 + length (ap_persona_label r) + length (ap_key_fingerprint r)) = as_bytes (ap_key_fingerprint r)"
    "drop (96 + length (ap_persona_label r) + length (ap_key_fingerprint r)) p = as_bytes (pra_persona_anchor x)"
    using t prompt_ids(1) [OF law] by (simp_all add: p_def wire add.assoc) (simp_all add: zero_be_bytes)
  have ok: "decode_prompt_purpose (prompt_purpose_u8 k0) = Ok k0" for k0
    by (simp_all add: decode_prompt_enums_iff)
  have r: "\<lparr>ap_request_id = ap_request_id r, ap_persona_id = Some u, ap_persona_label = ap_persona_label r, ap_persona_purpose = Some purpose,
       ap_key_fingerprint = ap_key_fingerprint r, ap_subject = ApprovePersonaRoot \<lparr>pra_persona_anchor = pra_persona_anchor x, pra_root_statement_sha256 = pra_root_statement_sha256 x, pra_issued_at = pra_issued_at x\<rparr>,
       ap_peer = ap_peer r\<rparr> = r"
    by (rule ApprovalPrompt.equality) (simp_all add: ids x)
  from head show ?thesis using lp len valid
    by (simp add: decode_persona_root_prompt_def prompt_prefixes reads ok prompt_ids [OF law] unat_of_nat_u16
        sum t peer prompt_new_persona_root_def new_with_subject_def r)
qed

lemma decode_persona_transition_prompt_payload:
  assumes law: "uuid_bytes_law E" and dec: "decode_persona_transition_prompt E m = Ok r"
  shows "\<exists>x. ap_subject r = ApprovePersonaTransition x \<and> prompt_typed r \<and> validate_prompt E r = Ok ()
    \<and> encode_persona_transition_prompt E r x = Ok m"
proof -
  from dec obtain p purpose i u previous label print new_print anchor where
    head: "approval_decode_header m MESSAGE_PERSONA_TRANSITION_PROMPT MAX_PERSONA_TRANSITION_PROMPT_PAYLOAD_BYTES = Ok p"
    and p: "168 \<le> length p" "p ! 0 = prompt_purpose_u8 purpose" "slice p 2 4 = [0, 0]" "slice p 164 168 = [0, 0, 0, 0]" "p ! 1 \<le> 1"
    and ids: "slice p 28 44 = uuid_as_bytes E i" "slice p 44 60 = uuid_as_bytes E u"
    and total: "length p = 168 + unat (read_u16 p 156) + unat (read_u16 p 158) + unat (read_u16 p 160) + unat (read_u16 p 162)"
    and previous: "optional_digest PromptInvalidLayout (p ! 1) (slice p 92 124) = Ok previous"
    and texts: "slice p 168 (168 + unat (read_u16 p 156)) = as_bytes label"
      "slice p (168 + unat (read_u16 p 156)) (168 + unat (read_u16 p 156) + unat (read_u16 p 158)) = as_bytes print"
      "slice p (168 + unat (read_u16 p 156) + unat (read_u16 p 158)) (168 + unat (read_u16 p 156) + unat (read_u16 p 158) + unat (read_u16 p 160)) = as_bytes new_print"
      "drop (168 + unat (read_u16 p 156) + unat (read_u16 p 158) + unat (read_u16 p 160)) p = as_bytes anchor"
      "is_utf8 label" "is_utf8 print" "is_utf8 new_print" "is_utf8 anchor"
    and r: "r = \<lparr>ap_request_id = i, ap_persona_id = Some u, ap_persona_label = label, ap_persona_purpose = Some purpose,
       ap_key_fingerprint = print, ap_subject = ApprovePersonaTransition \<lparr>ta_persona_anchor = anchor, ta_root_statement_sha256 = slice p 60 92, ta_sequence = read_u32 p 16,
         ta_previous_transition_sha256 = previous, ta_issued_at = read_i64 p 20, ta_previous_key_fingerprint = print,
         ta_next_key_fingerprint = new_print, ta_transition_statement_sha256 = slice p 124 156\<rparr>,
       ap_peer = decode_peer p\<rparr>"
      "validate_prompt E r = Ok ()"
    unfolding decode_persona_transition_prompt_def prompt_new_persona_transition_def
    by (auto simp: Let_def prompt_iffs decode_uuid_iff [OF law] prompt_prefixes checked_sum_iff not_less add.assoc)
  have len: "length label = unat (read_u16 p 156)" "length print = unat (read_u16 p 158)" "length new_print = unat (read_u16 p 160)" "length anchor = unat (read_u16 p 162)"
    using arg_cong [OF texts(1), of length] arg_cong [OF texts(2), of length] arg_cong [OF texts(3), of length] arg_cong [OF texts(4), of length] total by simp_all
  have prev: "p ! 1 = presence_byte previous" "slice p 92 124 = digest_or_zeros previous"
    using previous p by (simp_all add: optional_digest_iff)
  have "p = pieces 0 [1, 2, 4, 8, 12, 16, 20, 28, 44, 60, 92, 124, 156, 158, 160, 162, 164, 168, 168 + unat (read_u16 p 156), 168 + unat (read_u16 p 156) + unat (read_u16 p 158), 168 + unat (read_u16 p 156) + unat (read_u16 p 158) + unat (read_u16 p 160)] p"
    by (subst pieces_id) auto
  also have "\<dots> = [prompt_purpose_u8 purpose]
      @ [presence_byte previous]
      @ u16_to_be_bytes 0
      @ encode_peer r
      @ u32_to_be_bytes (read_u32 p 16)
      @ i64_to_be_bytes (read_i64 p 20)
      @ uuid_as_bytes E i
      @ uuid_as_bytes E u
      @ slice p 60 92
      @ digest_or_zeros previous
      @ slice p 124 156
      @ length_field label
      @ length_field print
      @ length_field new_print
      @ length_field anchor
      @ u32_to_be_bytes 0
      @ as_bytes label
      @ as_bytes print
      @ as_bytes new_print
      @ as_bytes anchor"
    using p ids texts prev
    by (simp add: slice_u8 slice_u32 [of 8 4] slice_u32 [of 12 8] slice_u32 [of 16 12] slice_u32 [of 20 16] slice_i64 [of 28 20] slice_u16 [of 158 156] slice_u16 [of 160 158] slice_u16 [of 162 160] slice_u16 [of 164 162] zero_be_bytes len encode_peer_def decode_peer_def r
        length_field_def)
  finally have m: "m = approval_encode_header MESSAGE_PERSONA_TRANSITION_PROMPT (168 + length label + length print + length new_print + length anchor) @ \<dots>"
    using head total by (simp add: approval_framing.decode_head_iff prompt_sizes len)
  have "length label + length print + length new_print + length anchor < 65536 * 4"
    unfolding len using unat_u16_lt [of "read_u16 p 156"] unat_u16_lt [of "read_u16 p 158"] unat_u16_lt [of "read_u16 p 160"] unat_u16_lt [of "read_u16 p 162"] by simp
  then have sum: "checked_sum 168 [length label, length print, length new_print, length anchor] = Some (168 + length label + length print + length new_print + length anchor)"
    by (simp add: checked_sum_iff)
  have "encode_persona_transition_prompt E r (case ap_subject r of ApprovePersonaTransition x \<Rightarrow> x) = Ok m"
    using m by (simp add: encode_persona_transition_prompt_def sum required_persona_purpose_def prompt_required_persona_id_def
        prompt_prefixes r(1))
  moreover have "pred_option (\<lambda>d. length d = 32) previous"
    using p length_slice [of 124 p 92] by (simp add: prev digest_or_zeros_length)
  then have "prompt_typed r" using texts p by (simp add: r(1) prompt_typed_def read_i64_range)
  ultimately show ?thesis using r by auto
qed

lemma encode_persona_transition_prompt_payload:
  assumes law: "uuid_bytes_law E" and x: "ap_subject r = ApprovePersonaTransition x" and typed: "prompt_typed r"
    and valid: "validate_prompt E r = Ok ()" and enc: "encode_persona_transition_prompt E r x = Ok m"
  shows "decode_persona_transition_prompt E m = Ok r"
proof -
  obtain u purpose where ids: "ap_persona_id r = Some u" "ap_persona_purpose r = Some purpose"
    using valid_prompt_persona [OF valid] x by auto
  define p where "p = ([prompt_purpose_u8 purpose] @ [presence_byte (ta_previous_transition_sha256 x)] @ u16_to_be_bytes 0)
      @ encode_peer r
      @ u32_to_be_bytes (ta_sequence x)
      @ i64_to_be_bytes (ta_issued_at x)
      @ uuid_as_bytes E (ap_request_id r)
      @ uuid_as_bytes E u
      @ ta_root_statement_sha256 x
      @ digest_or_zeros (ta_previous_transition_sha256 x)
      @ ta_transition_statement_sha256 x
      @ length_field (ap_persona_label r)
      @ length_field (ta_previous_key_fingerprint x)
      @ length_field (ta_next_key_fingerprint x)
      @ length_field (ta_persona_anchor x)
      @ u32_to_be_bytes 0
      @ as_bytes (ap_persona_label r)
      @ as_bytes (ta_previous_key_fingerprint x)
      @ as_bytes (ta_next_key_fingerprint x)
      @ as_bytes (ta_persona_anchor x)"
  have len: "length (ap_persona_label r) \<le> 256" "length (ta_previous_key_fingerprint x) \<le> 128" "length (ta_next_key_fingerprint x) \<le> 128" "length (ta_persona_anchor x) \<le> 43"
    using valid_prompt_common [OF valid] valid
    by (auto simp: validate_prompt_def x validate_domain_approval_def validate_persona_root_approval_def Let_def
        validate_persona_transition_approval_def validate_recovery_participation_approval_def prompt_field_sizes
        split: if_splits dest: validate_text_length fingerprint_length anchor_length ceremony_id_length)
  have t: "is_utf8 (ap_persona_label r)" "is_utf8 (ta_previous_key_fingerprint x)" "is_utf8 (ta_next_key_fingerprint x)" "is_utf8 (ta_persona_anchor x)" "length (ta_root_statement_sha256 x) = 32" "length (ta_transition_statement_sha256 x) = 32" "is_i64 (ta_issued_at x)" "pred_option (\<lambda>d. length d = 32) (ta_previous_transition_sha256 x)"
    using typed valid by (auto simp: prompt_typed_def validate_prompt_def x)
  have prev: "length (digest_or_zeros (ta_previous_transition_sha256 x)) = 32" "\<not> 1 < presence_byte (ta_previous_transition_sha256 x)"
    using t by (simp_all add: digest_or_zeros_length presence_byte_def)
  have lp: "length p = 168 + length (ap_persona_label r) + length (ta_previous_key_fingerprint x) + length (ta_next_key_fingerprint x) + length (ta_persona_anchor x)" using t prompt_ids [OF law] prev by (simp add: p_def)
  have sum: "checked_sum 168 [length (ap_persona_label r), length (ta_previous_key_fingerprint x), length (ta_next_key_fingerprint x), length (ta_persona_anchor x)] = Some (length p)" using len lp by (simp add: checked_sum_iff)
  have "m = approval_encode_header MESSAGE_PERSONA_TRANSITION_PROMPT (length p) @ p"
    using enc by (simp add: encode_persona_transition_prompt_def ids sum required_persona_purpose_def prompt_required_persona_id_def
        prompt_prefixes) (simp add: p_def)
  then have head: "approval_decode_header m MESSAGE_PERSONA_TRANSITION_PROMPT MAX_PERSONA_TRANSITION_PROMPT_PAYLOAD_BYTES = Ok p"
    using len lp by (subst approval_framing.decode_head_iff) (simp_all add: prompt_sizes)
  have peer: "decode_peer p = ap_peer r" unfolding p_def by (rule decode_peer_encoded) simp
  have reads: "p ! 0 = prompt_purpose_u8 purpose"
    "p ! 1 = presence_byte (ta_previous_transition_sha256 x)"
    "p ! Suc 0 = presence_byte (ta_previous_transition_sha256 x)"
    "slice p 2 4 = [0, 0]"
    "read_u32 p 16 = ta_sequence x"
    "read_i64 p 20 = ta_issued_at x"
    "slice p 28 44 = uuid_as_bytes E (ap_request_id r)"
    "slice p 44 60 = uuid_as_bytes E u"
    "slice p 60 92 = ta_root_statement_sha256 x"
    "slice p 92 124 = digest_or_zeros (ta_previous_transition_sha256 x)"
    "slice p 124 156 = ta_transition_statement_sha256 x"
    "read_u16 p 156 = of_nat (length (ap_persona_label r))"
    "read_u16 p 158 = of_nat (length (ta_previous_key_fingerprint x))"
    "read_u16 p 160 = of_nat (length (ta_next_key_fingerprint x))"
    "read_u16 p 162 = of_nat (length (ta_persona_anchor x))"
    "slice p 164 168 = [0, 0, 0, 0]"
    "slice p 168 (168 + length (ap_persona_label r)) = as_bytes (ap_persona_label r)"
    "slice p (168 + length (ap_persona_label r)) (168 + length (ap_persona_label r) + length (ta_previous_key_fingerprint x)) = as_bytes (ta_previous_key_fingerprint x)"
    "slice p (168 + length (ap_persona_label r) + length (ta_previous_key_fingerprint x)) (168 + length (ap_persona_label r) + length (ta_previous_key_fingerprint x) + length (ta_next_key_fingerprint x)) = as_bytes (ta_next_key_fingerprint x)"
    "drop (168 + length (ap_persona_label r) + length (ta_previous_key_fingerprint x) + length (ta_next_key_fingerprint x)) p = as_bytes (ta_persona_anchor x)"
    using t prompt_ids(1) [OF law] prev by (simp_all add: p_def wire add.assoc) (simp_all add: zero_be_bytes)
  have ok: "decode_prompt_purpose (prompt_purpose_u8 k0) = Ok k0" for k0
    by (simp_all add: decode_prompt_enums_iff)
  have opt: "optional_digest PromptInvalidLayout (presence_byte (ta_previous_transition_sha256 x)) (digest_or_zeros (ta_previous_transition_sha256 x)) = Ok (ta_previous_transition_sha256 x)"
    using prev by (simp add: optional_digest_iff not_less)
  have r: "\<lparr>ap_request_id = ap_request_id r, ap_persona_id = Some u, ap_persona_label = ap_persona_label r, ap_persona_purpose = Some purpose,
       ap_key_fingerprint = ta_previous_key_fingerprint x, ap_subject = ApprovePersonaTransition \<lparr>ta_persona_anchor = ta_persona_anchor x, ta_root_statement_sha256 = ta_root_statement_sha256 x,
         ta_sequence = ta_sequence x, ta_previous_transition_sha256 = ta_previous_transition_sha256 x, ta_issued_at = ta_issued_at x,
         ta_previous_key_fingerprint = ta_previous_key_fingerprint x, ta_next_key_fingerprint = ta_next_key_fingerprint x,
         ta_transition_statement_sha256 = ta_transition_statement_sha256 x\<rparr>,
       ap_peer = ap_peer r\<rparr> = r"
    by (rule ApprovalPrompt.equality) (use valid in \<open>auto simp: ids x validate_prompt_def validate_persona_transition_approval_def validate_recovery_participation_approval_def\<close>)
  from head show ?thesis using lp len valid prev
    by (simp add: decode_persona_transition_prompt_def prompt_prefixes reads ok prompt_ids [OF law] unat_of_nat_u16
        sum t peer prompt_new_persona_transition_def new_with_subject_def r opt)
qed

lemma decode_recovery_participation_prompt_payload:
  assumes law: "uuid_bytes_law E" and dec: "decode_recovery_participation_prompt E m = Ok r"
  shows "\<exists>x. ap_subject r = ApproveRecoveryParticipation x \<and> prompt_typed r \<and> validate_prompt E r = Ok ()
    \<and> encode_recovery_participation_prompt E r x = Ok m"
proof -
  from dec obtain p role reason i previous label participant old_print new_print anchor ceremony where
    head: "approval_decode_header m MESSAGE_RECOVERY_PARTICIPATION_PROMPT MAX_RECOVERY_PARTICIPATION_PROMPT_PAYLOAD_BYTES = Ok p"
    and p: "200 \<le> length p" "p ! 0 = prompt_role_u8 role" "p ! 1 = prompt_reason_u8 reason" "p ! 3 = 0" "slice p 28 32 = [0, 0, 0, 0]" "slice p 196 200 = [0, 0, 0, 0]" "p ! 2 \<le> 1"
    and ids: "slice p 40 56 = uuid_as_bytes E i"
    and total: "length p = 200 + unat (read_u16 p 184) + unat (read_u16 p 186) + unat (read_u16 p 188) + unat (read_u16 p 190) + unat (read_u16 p 192) + unat (read_u16 p 194)"
    and previous: "optional_digest PromptInvalidLayout (p ! 2) (slice p 152 184) = Ok previous"
    and texts: "slice p 200 (200 + unat (read_u16 p 184)) = as_bytes label"
      "slice p (200 + unat (read_u16 p 184)) (200 + unat (read_u16 p 184) + unat (read_u16 p 186)) = as_bytes participant"
      "slice p (200 + unat (read_u16 p 184) + unat (read_u16 p 186)) (200 + unat (read_u16 p 184) + unat (read_u16 p 186) + unat (read_u16 p 188)) = as_bytes old_print"
      "slice p (200 + unat (read_u16 p 184) + unat (read_u16 p 186) + unat (read_u16 p 188)) (200 + unat (read_u16 p 184) + unat (read_u16 p 186) + unat (read_u16 p 188) + unat (read_u16 p 190)) = as_bytes new_print"
      "slice p (200 + unat (read_u16 p 184) + unat (read_u16 p 186) + unat (read_u16 p 188) + unat (read_u16 p 190)) (200 + unat (read_u16 p 184) + unat (read_u16 p 186) + unat (read_u16 p 188) + unat (read_u16 p 190) + unat (read_u16 p 192)) = as_bytes anchor"
      "drop (200 + unat (read_u16 p 184) + unat (read_u16 p 186) + unat (read_u16 p 188) + unat (read_u16 p 190) + unat (read_u16 p 192)) p = as_bytes ceremony"
      "is_utf8 label" "is_utf8 participant" "is_utf8 old_print" "is_utf8 new_print" "is_utf8 anchor" "is_utf8 ceremony"
    and r: "r = \<lparr>ap_request_id = i, ap_persona_id = None, ap_persona_label = label, ap_persona_purpose = None,
       ap_key_fingerprint = participant, ap_subject = ApproveRecoveryParticipation \<lparr>va_request_sha256 = slice p 56 88, va_ceremony_id = ceremony,
         va_ceremony_expires_at = read_i64 p 32, va_persona_anchor = anchor, va_root_statement_sha256 = slice p 88 120,
         va_recovery_policy_version = read_u32 p 16, va_recovery_policy_sha256 = slice p 120 152,
         va_recovery_policy_threshold = read_u32 p 20, va_previous_head_sequence = read_u32 p 24,
         va_previous_head_sha256 = previous, va_reason = reason, va_previous_key_fingerprint = old_print,
         va_next_key_fingerprint = new_print, va_participant_role = role, va_participant_key_fingerprint = participant\<rparr>,
       ap_peer = decode_peer p\<rparr>"
      "validate_prompt E r = Ok ()"
    unfolding decode_recovery_participation_prompt_def prompt_new_recovery_participation_def
    by (auto simp: Let_def prompt_iffs decode_uuid_iff [OF law] prompt_prefixes checked_sum_iff not_less add.assoc)
  have len: "length label = unat (read_u16 p 184)" "length participant = unat (read_u16 p 186)" "length old_print = unat (read_u16 p 188)" "length new_print = unat (read_u16 p 190)" "length anchor = unat (read_u16 p 192)" "length ceremony = unat (read_u16 p 194)"
    using arg_cong [OF texts(1), of length] arg_cong [OF texts(2), of length] arg_cong [OF texts(3), of length] arg_cong [OF texts(4), of length] arg_cong [OF texts(5), of length] arg_cong [OF texts(6), of length] total by simp_all
  have prev: "p ! 2 = presence_byte previous" "slice p 152 184 = digest_or_zeros previous"
    using previous p by (simp_all add: optional_digest_iff)
  have "p = pieces 0 [1, 2, 3, 4, 8, 12, 16, 20, 24, 28, 32, 40, 56, 88, 120, 152, 184, 186, 188, 190, 192, 194, 196, 200, 200 + unat (read_u16 p 184), 200 + unat (read_u16 p 184) + unat (read_u16 p 186), 200 + unat (read_u16 p 184) + unat (read_u16 p 186) + unat (read_u16 p 188), 200 + unat (read_u16 p 184) + unat (read_u16 p 186) + unat (read_u16 p 188) + unat (read_u16 p 190), 200 + unat (read_u16 p 184) + unat (read_u16 p 186) + unat (read_u16 p 188) + unat (read_u16 p 190) + unat (read_u16 p 192)] p"
    by (subst pieces_id) auto
  also have "\<dots> = [prompt_role_u8 role]
      @ [prompt_reason_u8 reason]
      @ [presence_byte previous]
      @ [0]
      @ encode_peer r
      @ u32_to_be_bytes (read_u32 p 16)
      @ u32_to_be_bytes (read_u32 p 20)
      @ u32_to_be_bytes (read_u32 p 24)
      @ u32_to_be_bytes 0
      @ i64_to_be_bytes (read_i64 p 32)
      @ uuid_as_bytes E i
      @ slice p 56 88
      @ slice p 88 120
      @ slice p 120 152
      @ digest_or_zeros previous
      @ length_field label
      @ length_field participant
      @ length_field old_print
      @ length_field new_print
      @ length_field anchor
      @ length_field ceremony
      @ u32_to_be_bytes 0
      @ as_bytes label
      @ as_bytes participant
      @ as_bytes old_print
      @ as_bytes new_print
      @ as_bytes anchor
      @ as_bytes ceremony"
    using p ids texts prev
    by (simp add: slice_u8 slice_u32 [of 8 4] slice_u32 [of 12 8] slice_u32 [of 16 12] slice_u32 [of 20 16] slice_u32 [of 24 20] slice_u32 [of 28 24] slice_i64 [of 40 32] slice_u16 [of 186 184] slice_u16 [of 188 186] slice_u16 [of 190 188] slice_u16 [of 192 190] slice_u16 [of 194 192] slice_u16 [of 196 194] zero_be_bytes len encode_peer_def decode_peer_def r
        length_field_def)
  finally have m: "m = approval_encode_header MESSAGE_RECOVERY_PARTICIPATION_PROMPT (200 + length label + length participant + length old_print + length new_print + length anchor + length ceremony) @ \<dots>"
    using head total by (simp add: approval_framing.decode_head_iff prompt_sizes len)
  have "length label + length participant + length old_print + length new_print + length anchor + length ceremony < 65536 * 6"
    unfolding len using unat_u16_lt [of "read_u16 p 184"] unat_u16_lt [of "read_u16 p 186"] unat_u16_lt [of "read_u16 p 188"] unat_u16_lt [of "read_u16 p 190"] unat_u16_lt [of "read_u16 p 192"] unat_u16_lt [of "read_u16 p 194"] by simp
  then have sum: "checked_sum 200 [length label, length participant, length old_print, length new_print, length anchor, length ceremony] = Some (200 + length label + length participant + length old_print + length new_print + length anchor + length ceremony)"
    by (simp add: checked_sum_iff)
  have "encode_recovery_participation_prompt E r (case ap_subject r of ApproveRecoveryParticipation x \<Rightarrow> x) = Ok m"
    using m by (simp add: encode_recovery_participation_prompt_def sum required_persona_purpose_def prompt_required_persona_id_def
        prompt_prefixes r(1))
  moreover have "pred_option (\<lambda>d. length d = 32) previous"
    using p length_slice [of 184 p 152] by (simp add: prev digest_or_zeros_length)
  then have "prompt_typed r" using texts p by (simp add: r(1) prompt_typed_def read_i64_range)
  ultimately show ?thesis using r by auto
qed

lemma encode_recovery_participation_prompt_payload:
  assumes law: "uuid_bytes_law E" and x: "ap_subject r = ApproveRecoveryParticipation x" and typed: "prompt_typed r"
    and valid: "validate_prompt E r = Ok ()" and enc: "encode_recovery_participation_prompt E r x = Ok m"
  shows "decode_recovery_participation_prompt E m = Ok r"
proof -
  have ids: "ap_persona_id r = None" "ap_persona_purpose r = None" using valid_recovery_persona [OF valid x] by simp_all
  define p where "p = ([prompt_role_u8 (va_participant_role x)] @ [prompt_reason_u8 (va_reason x)] @ [presence_byte (va_previous_head_sha256 x)] @ [0])
      @ encode_peer r
      @ u32_to_be_bytes (va_recovery_policy_version x)
      @ u32_to_be_bytes (va_recovery_policy_threshold x)
      @ u32_to_be_bytes (va_previous_head_sequence x)
      @ u32_to_be_bytes 0
      @ i64_to_be_bytes (va_ceremony_expires_at x)
      @ uuid_as_bytes E (ap_request_id r)
      @ va_request_sha256 x
      @ va_root_statement_sha256 x
      @ va_recovery_policy_sha256 x
      @ digest_or_zeros (va_previous_head_sha256 x)
      @ length_field (ap_persona_label r)
      @ length_field (va_participant_key_fingerprint x)
      @ length_field (va_previous_key_fingerprint x)
      @ length_field (va_next_key_fingerprint x)
      @ length_field (va_persona_anchor x)
      @ length_field (va_ceremony_id x)
      @ u32_to_be_bytes 0
      @ as_bytes (ap_persona_label r)
      @ as_bytes (va_participant_key_fingerprint x)
      @ as_bytes (va_previous_key_fingerprint x)
      @ as_bytes (va_next_key_fingerprint x)
      @ as_bytes (va_persona_anchor x)
      @ as_bytes (va_ceremony_id x)"
  have len: "length (ap_persona_label r) \<le> 256" "length (va_participant_key_fingerprint x) \<le> 128" "length (va_previous_key_fingerprint x) \<le> 128" "length (va_next_key_fingerprint x) \<le> 128" "length (va_persona_anchor x) \<le> 43" "length (va_ceremony_id x) \<le> 43"
    using valid_prompt_common [OF valid] valid
    by (auto simp: validate_prompt_def x validate_domain_approval_def validate_persona_root_approval_def Let_def
        validate_persona_transition_approval_def validate_recovery_participation_approval_def prompt_field_sizes
        split: if_splits dest: validate_text_length fingerprint_length anchor_length ceremony_id_length)
  have t: "is_utf8 (ap_persona_label r)" "is_utf8 (va_participant_key_fingerprint x)" "is_utf8 (va_previous_key_fingerprint x)" "is_utf8 (va_next_key_fingerprint x)" "is_utf8 (va_persona_anchor x)" "is_utf8 (va_ceremony_id x)" "length (va_request_sha256 x) = 32" "length (va_root_statement_sha256 x) = 32" "length (va_recovery_policy_sha256 x) = 32" "is_i64 (va_ceremony_expires_at x)" "pred_option (\<lambda>d. length d = 32) (va_previous_head_sha256 x)"
    using typed valid by (auto simp: prompt_typed_def validate_prompt_def x)
  have prev: "length (digest_or_zeros (va_previous_head_sha256 x)) = 32" "\<not> 1 < presence_byte (va_previous_head_sha256 x)"
    using t by (simp_all add: digest_or_zeros_length presence_byte_def)
  have lp: "length p = 200 + length (ap_persona_label r) + length (va_participant_key_fingerprint x) + length (va_previous_key_fingerprint x) + length (va_next_key_fingerprint x) + length (va_persona_anchor x) + length (va_ceremony_id x)" using t prompt_ids [OF law] prev by (simp add: p_def)
  have sum: "checked_sum 200 [length (ap_persona_label r), length (va_participant_key_fingerprint x), length (va_previous_key_fingerprint x), length (va_next_key_fingerprint x), length (va_persona_anchor x), length (va_ceremony_id x)] = Some (length p)" using len lp by (simp add: checked_sum_iff)
  have "m = approval_encode_header MESSAGE_RECOVERY_PARTICIPATION_PROMPT (length p) @ p"
    using enc by (simp add: encode_recovery_participation_prompt_def ids sum required_persona_purpose_def prompt_required_persona_id_def
        prompt_prefixes) (simp add: p_def)
  then have head: "approval_decode_header m MESSAGE_RECOVERY_PARTICIPATION_PROMPT MAX_RECOVERY_PARTICIPATION_PROMPT_PAYLOAD_BYTES = Ok p"
    using len lp by (subst approval_framing.decode_head_iff) (simp_all add: prompt_sizes)
  have peer: "decode_peer p = ap_peer r" unfolding p_def by (rule decode_peer_encoded) simp
  have reads: "p ! 0 = prompt_role_u8 (va_participant_role x)"
    "p ! 1 = prompt_reason_u8 (va_reason x)"
    "p ! Suc 0 = prompt_reason_u8 (va_reason x)"
    "p ! 2 = presence_byte (va_previous_head_sha256 x)"
    "p ! 3 = 0"
    "read_u32 p 16 = va_recovery_policy_version x"
    "read_u32 p 20 = va_recovery_policy_threshold x"
    "read_u32 p 24 = va_previous_head_sequence x"
    "slice p 28 32 = [0, 0, 0, 0]"
    "read_i64 p 32 = va_ceremony_expires_at x"
    "slice p 40 56 = uuid_as_bytes E (ap_request_id r)"
    "slice p 56 88 = va_request_sha256 x"
    "slice p 88 120 = va_root_statement_sha256 x"
    "slice p 120 152 = va_recovery_policy_sha256 x"
    "slice p 152 184 = digest_or_zeros (va_previous_head_sha256 x)"
    "read_u16 p 184 = of_nat (length (ap_persona_label r))"
    "read_u16 p 186 = of_nat (length (va_participant_key_fingerprint x))"
    "read_u16 p 188 = of_nat (length (va_previous_key_fingerprint x))"
    "read_u16 p 190 = of_nat (length (va_next_key_fingerprint x))"
    "read_u16 p 192 = of_nat (length (va_persona_anchor x))"
    "read_u16 p 194 = of_nat (length (va_ceremony_id x))"
    "slice p 196 200 = [0, 0, 0, 0]"
    "slice p 200 (200 + length (ap_persona_label r)) = as_bytes (ap_persona_label r)"
    "slice p (200 + length (ap_persona_label r)) (200 + length (ap_persona_label r) + length (va_participant_key_fingerprint x)) = as_bytes (va_participant_key_fingerprint x)"
    "slice p (200 + length (ap_persona_label r) + length (va_participant_key_fingerprint x)) (200 + length (ap_persona_label r) + length (va_participant_key_fingerprint x) + length (va_previous_key_fingerprint x)) = as_bytes (va_previous_key_fingerprint x)"
    "slice p (200 + length (ap_persona_label r) + length (va_participant_key_fingerprint x) + length (va_previous_key_fingerprint x)) (200 + length (ap_persona_label r) + length (va_participant_key_fingerprint x) + length (va_previous_key_fingerprint x) + length (va_next_key_fingerprint x)) = as_bytes (va_next_key_fingerprint x)"
    "slice p (200 + length (ap_persona_label r) + length (va_participant_key_fingerprint x) + length (va_previous_key_fingerprint x) + length (va_next_key_fingerprint x)) (200 + length (ap_persona_label r) + length (va_participant_key_fingerprint x) + length (va_previous_key_fingerprint x) + length (va_next_key_fingerprint x) + length (va_persona_anchor x)) = as_bytes (va_persona_anchor x)"
    "drop (200 + length (ap_persona_label r) + length (va_participant_key_fingerprint x) + length (va_previous_key_fingerprint x) + length (va_next_key_fingerprint x) + length (va_persona_anchor x)) p = as_bytes (va_ceremony_id x)"
    using t prompt_ids(1) [OF law] prev by (simp_all add: p_def wire add.assoc) (simp_all add: zero_be_bytes)
  have ok: "decode_prompt_reason (prompt_reason_u8 k0) = Ok k0" "decode_prompt_role (prompt_role_u8 k1) = Ok k1" for k0 k1
    by (simp_all add: decode_prompt_enums_iff)
  have opt: "optional_digest PromptInvalidLayout (presence_byte (va_previous_head_sha256 x)) (digest_or_zeros (va_previous_head_sha256 x)) = Ok (va_previous_head_sha256 x)"
    using prev by (simp add: optional_digest_iff not_less)
  have r: "\<lparr>ap_request_id = ap_request_id r, ap_persona_id = None, ap_persona_label = ap_persona_label r, ap_persona_purpose = None,
       ap_key_fingerprint = va_participant_key_fingerprint x, ap_subject = ApproveRecoveryParticipation \<lparr>va_request_sha256 = va_request_sha256 x, va_ceremony_id = va_ceremony_id x,
         va_ceremony_expires_at = va_ceremony_expires_at x, va_persona_anchor = va_persona_anchor x,
         va_root_statement_sha256 = va_root_statement_sha256 x, va_recovery_policy_version = va_recovery_policy_version x,
         va_recovery_policy_sha256 = va_recovery_policy_sha256 x, va_recovery_policy_threshold = va_recovery_policy_threshold x,
         va_previous_head_sequence = va_previous_head_sequence x, va_previous_head_sha256 = va_previous_head_sha256 x,
         va_reason = va_reason x, va_previous_key_fingerprint = va_previous_key_fingerprint x,
         va_next_key_fingerprint = va_next_key_fingerprint x, va_participant_role = va_participant_role x,
         va_participant_key_fingerprint = va_participant_key_fingerprint x\<rparr>,
       ap_peer = ap_peer r\<rparr> = r"
    by (rule ApprovalPrompt.equality) (use valid in \<open>auto simp: ids x validate_prompt_def validate_persona_transition_approval_def validate_recovery_participation_approval_def\<close>)
  from head show ?thesis using lp len valid prev
    by (simp add: decode_recovery_participation_prompt_def prompt_prefixes reads ok prompt_ids [OF law] unat_of_nat_u16
        sum t peer prompt_new_recovery_participation_def new_with_subject_def r opt)
qed

lemmas prompt_payloads = decode_artifact_prompt_payload decode_domain_prompt_payload decode_persona_root_prompt_payload
  decode_persona_transition_prompt_payload decode_recovery_participation_prompt_payload

lemma encode_prompt_type:
  assumes "encode_prompt E r = Ok m"
  shows "approval_decode_common_header m = Ok (case ap_subject r of
       ApproveArtifact _ \<Rightarrow> MESSAGE_ARTIFACT_PROMPT
     | ApproveDomain _ \<Rightarrow> MESSAGE_DOMAIN_PROMPT
     | ApprovePersonaRoot _ \<Rightarrow> MESSAGE_PERSONA_ROOT_PROMPT
     | ApprovePersonaTransition _ \<Rightarrow> MESSAGE_PERSONA_TRANSITION_PROMPT
     | ApproveRecoveryParticipation _ \<Rightarrow> MESSAGE_RECOVERY_PARTICIPATION_PROMPT)"
  using assms by (cases "ap_subject r")
    (auto simp: encode_prompt_def encode_artifact_prompt_def encode_domain_prompt_def encode_persona_root_prompt_def
      encode_persona_transition_prompt_def encode_recovery_participation_prompt_def approval_framing.decode_common_head)

lemma decode_prompt_Ok:
  assumes law: "uuid_bytes_law E" and dec: "decode_prompt E m = Ok r"
  shows "prompt_typed r \<and> encode_prompt E r = Ok m"
proof -
  obtain t where "approval_decode_common_header m = Ok t" using dec by (auto simp: decode_prompt_def)
  with dec consider "decode_artifact_prompt E m = Ok r" | "decode_domain_prompt E m = Ok r"
    | "decode_persona_root_prompt E m = Ok r" | "decode_persona_transition_prompt E m = Ok r"
    | "decode_recovery_participation_prompt E m = Ok r"
    by (simp add: decode_prompt_def split: if_splits)
  then show ?thesis
  proof cases
    case 1
    from decode_artifact_prompt_payload [OF law this] show ?thesis by (auto simp: encode_prompt_def)
  next
    case 2
    from decode_domain_prompt_payload [OF law this] show ?thesis by (auto simp: encode_prompt_def)
  next
    case 3
    from decode_persona_root_prompt_payload [OF law this] show ?thesis by (auto simp: encode_prompt_def)
  next
    case 4
    from decode_persona_transition_prompt_payload [OF law this] show ?thesis by (auto simp: encode_prompt_def)
  next
    case 5
    from decode_recovery_participation_prompt_payload [OF law this] show ?thesis by (auto simp: encode_prompt_def)
  qed
qed

lemma decode_prompt_encoded:
  assumes law: "uuid_bytes_law E" and typed: "prompt_typed r" and enc: "encode_prompt E r = Ok m"
  shows "decode_prompt E m = Ok r"
proof -
  note head = encode_prompt_type [OF enc]
  have valid: "validate_prompt E r = Ok ()" using enc by (auto simp: encode_prompt_def)
  show ?thesis
  proof (cases "ap_subject r")
    case s: (ApproveArtifact x)
    with enc have "decode_artifact_prompt E m = Ok r"
      by (intro encode_artifact_prompt_payload [OF law s typed valid]) (auto simp: encode_prompt_def)
    with s head show ?thesis by (simp add: decode_prompt_def)
  next
    case s: (ApproveDomain x)
    with enc have "decode_domain_prompt E m = Ok r"
      by (intro encode_domain_prompt_payload [OF law s typed valid]) (auto simp: encode_prompt_def)
    with s head show ?thesis by (simp add: decode_prompt_def prompt_message_types)
  next
    case s: (ApprovePersonaRoot x)
    with enc have "decode_persona_root_prompt E m = Ok r"
      by (intro encode_persona_root_prompt_payload [OF law s typed valid]) (auto simp: encode_prompt_def)
    with s head show ?thesis by (simp add: decode_prompt_def prompt_message_types)
  next
    case s: (ApprovePersonaTransition x)
    with enc have "decode_persona_transition_prompt E m = Ok r"
      by (intro encode_persona_transition_prompt_payload [OF law s typed valid]) (auto simp: encode_prompt_def)
    with s head show ?thesis by (simp add: decode_prompt_def prompt_message_types)
  next
    case s: (ApproveRecoveryParticipation x)
    with enc have "decode_recovery_participation_prompt E m = Ok r"
      by (intro encode_recovery_participation_prompt_payload [OF law s typed valid]) (auto simp: encode_prompt_def)
    with s head show ?thesis by (simp add: decode_prompt_def prompt_message_types)
  qed
qed

lemma decode_prompt_iff:
  "uuid_bytes_law E \<Longrightarrow> decode_prompt E m = Ok r \<longleftrightarrow> prompt_typed r \<and> encode_prompt E r = Ok m"
  using decode_prompt_Ok decode_prompt_encoded by blast

lemma decode_decision_iff:
  assumes law: "uuid_bytes_law E"
  shows "decode_decision E m = Ok r \<longleftrightarrow> m = encode_decision E r"
proof -
  have head: "approval_decode_header m t DECISION_PAYLOAD_BYTES = Ok p \<longleftrightarrow>
      m = approval_encode_header t (length p) @ p \<and> length p \<le> 16" for t p
    by (simp add: approval_framing.decode_head_iff DECISION_PAYLOAD_BYTES_def)
  show ?thesis
  proof
    assume "decode_decision E m = Ok r"
    then obtain t p where t: "(case dr_decision r of Approve \<Rightarrow> MESSAGE_APPROVE | Decline \<Rightarrow> MESSAGE_DECLINE
        | Cancel \<Rightarrow> MESSAGE_CANCEL) = t" and p: "approval_decode_header m t DECISION_PAYLOAD_BYTES = Ok p" "length p = 16"
        "p = uuid_as_bytes E (dr_request_id r)"
      by (auto simp: decode_decision_def decode_uuid_iff [OF law] DECISION_PAYLOAD_BYTES_def split: if_splits)
    from p(1) have "m = approval_encode_header t (length p) @ p" unfolding head by simp
    with t p show "m = encode_decision E r" by (simp add: encode_decision_def DECISION_PAYLOAD_BYTES_def)
  next
    let ?t = "case dr_decision r of Approve \<Rightarrow> MESSAGE_APPROVE | Decline \<Rightarrow> MESSAGE_DECLINE | Cancel \<Rightarrow> MESSAGE_CANCEL"
    let ?p = "uuid_as_bytes E (dr_request_id r)"
    assume "m = encode_decision E r"
    then have m: "m = approval_encode_header ?t (length ?p) @ ?p"
      using prompt_ids(1) [OF law] by (simp add: encode_decision_def DECISION_PAYLOAD_BYTES_def)
    then have "approval_decode_header m ?t DECISION_PAYLOAD_BYTES = Ok ?p"
      unfolding head using prompt_ids(1) [OF law] by simp
    moreover have "approval_decode_common_header m = Ok ?t"
      unfolding m by (rule approval_framing.decode_common_head)
    moreover have "\<lparr>dr_request_id = dr_request_id r, dr_decision = d\<rparr> = r" if "dr_decision r = d" for d
      by (rule DecisionResponse.equality) (simp_all add: that)
    ultimately show "decode_decision E m = Ok r"
      using prompt_ids [OF law]
      by (cases "dr_decision r") (simp_all add: decode_decision_def prompt_message_types DECISION_PAYLOAD_BYTES_def)
  qed
qed

section \<open>Framed codecs\<close>

definition prompt_limit :: "u16 \<Rightarrow> nat option" where
  "prompt_limit t =
     (if t = MESSAGE_ARTIFACT_PROMPT then Some MAX_ARTIFACT_PROMPT_PAYLOAD_BYTES
      else if t = MESSAGE_DOMAIN_PROMPT then Some MAX_DOMAIN_PROMPT_PAYLOAD_BYTES
      else if t = MESSAGE_PERSONA_ROOT_PROMPT then Some MAX_PERSONA_ROOT_PROMPT_PAYLOAD_BYTES
      else if t = MESSAGE_PERSONA_TRANSITION_PROMPT then Some MAX_PERSONA_TRANSITION_PROMPT_PAYLOAD_BYTES
      else if t = MESSAGE_RECOVERY_PARTICIPATION_PROMPT then Some MAX_RECOVERY_PARTICIPATION_PROMPT_PAYLOAD_BYTES
      else None)"

definition decision_limit :: "u16 \<Rightarrow> nat option" where
  "decision_limit t =
     (if t = MESSAGE_APPROVE \<or> t = MESSAGE_DECLINE \<or> t = MESSAGE_CANCEL then Some DECISION_PAYLOAD_BYTES else None)"

lemma decode_prompt_head_Err:
  assumes "approval_decode_common_header m = Ok t" "prompt_limit t = Some k" "approval_decode_header m t k = Err e"
  shows "decode_prompt E m = Err e"
proof -
  from assms(2) consider
    "t = MESSAGE_ARTIFACT_PROMPT" "k = MAX_ARTIFACT_PROMPT_PAYLOAD_BYTES"
  | "t = MESSAGE_DOMAIN_PROMPT" "k = MAX_DOMAIN_PROMPT_PAYLOAD_BYTES"
  | "t = MESSAGE_PERSONA_ROOT_PROMPT" "k = MAX_PERSONA_ROOT_PROMPT_PAYLOAD_BYTES"
  | "t = MESSAGE_PERSONA_TRANSITION_PROMPT" "k = MAX_PERSONA_TRANSITION_PROMPT_PAYLOAD_BYTES"
  | "t = MESSAGE_RECOVERY_PARTICIPATION_PROMPT" "k = MAX_RECOVERY_PARTICIPATION_PROMPT_PAYLOAD_BYTES"
    by (auto simp: prompt_limit_def split: if_splits)
  then show ?thesis
    by cases (use assms(1, 3) in \<open>simp_all add: decode_prompt_def decode_artifact_prompt_def decode_domain_prompt_def
        decode_persona_root_prompt_def decode_persona_transition_prompt_def decode_recovery_participation_prompt_def
        prompt_message_types\<close>)
qed

lemma decode_prompt_head_Ok:
  assumes "decode_prompt E m = Ok r"
  shows "\<exists>t k p. prompt_limit t = Some k \<and> approval_decode_header m t k = Ok p"
proof -
  obtain t where t: "approval_decode_common_header m = Ok t" using assms by (auto simp: decode_prompt_def)
  then obtain k where k: "prompt_limit t = Some k" using assms
    by (cases "prompt_limit t") (auto simp: decode_prompt_def prompt_limit_def split: if_splits)
  with t assms decode_prompt_head_Err [of m t k _ E] show ?thesis
    by (cases "approval_decode_header m t k") auto
qed

text \<open>The contract of both codecs, for every \<^verbatim>\<open>uuid\<close> crate with the documented bytes.\<close>

lemma prompt_codec:
  assumes "uuid_bytes_law E"
  shows "framed_codec APPROVAL_MAGIC PromptTruncatedHeader PromptInvalidMagic PromptPayloadTooLarge
    PromptTruncatedPayload PromptTrailingBytes PromptUnsupportedVersion PromptUnsupportedMessageType PromptUnsupportedFlags
    approval_encode_header approval_decode_common_header approval_decode_header
    (encode_prompt E) (decode_prompt E) prompt_typed prompt_limit"
proof unfold_locales
  show "decode_prompt E m = Ok r \<longleftrightarrow> prompt_typed r \<and> encode_prompt E r = Ok m" for m r
    by (rule decode_prompt_iff [OF assms])
  show "k < 2 ^ 32" if "prompt_limit t = Some k" for t k
    using that by (auto simp: prompt_limit_def prompt_sizes split: if_splits)
  show "decode_prompt E m = Err e" if "approval_decode_common_header m = Err e" for m e
    using that by (simp add: decode_prompt_def)
qed (blast intro: decode_prompt_head_Err decode_prompt_head_Ok)+

lemma decode_decision_head_Err:
  assumes "approval_decode_common_header m = Ok t" "decision_limit t = Some k" "approval_decode_header m t k = Err e"
  shows "decode_decision E m = Err e"
proof -
  from assms(2) have k: "k = DECISION_PAYLOAD_BYTES" and "t = MESSAGE_APPROVE \<or> t = MESSAGE_DECLINE \<or> t = MESSAGE_CANCEL"
    by (auto simp: decision_limit_def split: if_splits)
  then show ?thesis
    by (elim disjE) (use assms(1, 3) in \<open>simp_all add: decode_decision_def prompt_message_types k\<close>)
qed

lemma decode_decision_head_Ok:
  assumes "decode_decision E m = Ok r"
  shows "\<exists>t k p. decision_limit t = Some k \<and> approval_decode_header m t k = Ok p"
proof -
  obtain t where t: "approval_decode_common_header m = Ok t" using assms by (auto simp: decode_decision_def)
  then obtain k where k: "decision_limit t = Some k" using assms
    by (cases "decision_limit t") (auto simp: decode_decision_def decision_limit_def split: if_splits)
  with t assms decode_decision_head_Err [of m t k _ E] show ?thesis
    by (cases "approval_decode_header m t k") auto
qed

lemma decision_codec:
  assumes "uuid_bytes_law E"
  shows "framed_codec APPROVAL_MAGIC PromptTruncatedHeader PromptInvalidMagic PromptPayloadTooLarge
    PromptTruncatedPayload PromptTrailingBytes PromptUnsupportedVersion PromptUnsupportedMessageType PromptUnsupportedFlags
    approval_encode_header approval_decode_common_header approval_decode_header
    (\<lambda>response. Ok (encode_decision E response)) (decode_decision E) (\<lambda>_. True) decision_limit"
proof unfold_locales
  show "decode_decision E m = Ok r \<longleftrightarrow> True \<and> Ok (encode_decision E r) = Ok m" for m r
    using decode_decision_iff [OF assms] by auto
  show "k < 2 ^ 32" if "decision_limit t = Some k" for t k
    using that by (auto simp: decision_limit_def prompt_sizes split: if_splits)
  show "decode_decision E m = Err e" if "approval_decode_common_header m = Err e" for m e
    using that by (simp add: decode_decision_def)
qed (blast intro: decode_decision_head_Err decode_decision_head_Ok)+

section \<open>Reading a message from a pipe\<close>

lemma decode_common_take:
  "length m \<ge> 20 \<Longrightarrow> approval_decode_common_header (take 20 m) = approval_decode_common_header m"
  "length m \<ge> 20 \<Longrightarrow> read_u32 (take 20 m) 16 = read_u32 m 16"
  by (simp_all add: approval_decode_common_header_def APPROVAL_HEADER_BYTES_def read_u16_def read_u32_def min_def Let_def)

lemma read_one_message_iff:
  "read_one_message input k = Ok m \<longleftrightarrow>
     rd_fault input = None \<and> rd_bytes input = m \<and> (\<exists>t. approval_decode_common_header m = Ok t)
     \<and> length m = 20 + unat (read_u32 m 16) \<and> unat (read_u32 m 16) \<le> k"
proof (cases "length (rd_bytes input) < 20")
  case True
  then show ?thesis
    by (auto simp: read_one_message_def read_exact_def APPROVAL_HEADER_BYTES_def approval_decode_common_header_def
        split: option.splits)
next
  case False
  define h n where "h = take 20 (rd_bytes input)" and "n = unat (read_u32 (rd_bytes input) 16)"
  have h: "approval_decode_common_header h = approval_decode_common_header (rd_bytes input)"
    "read_u32 h 16 = read_u32 (rd_bytes input) 16" "length h = 20"
    using False by (simp_all add: h_def decode_common_take)
  have "read_one_message input k = and_then (approval_decode_common_header (rd_bytes input)) (\<lambda>_.
      if k < n then Err PromptPayloadTooLarge
      else if length (rd_bytes input) < 20 + n
        then Err (case rd_fault input of None \<Rightarrow> PromptTruncatedPayload | Some e \<Rightarrow> ReadError e)
      else if 20 + n < length (rd_bytes input) then Err PromptTrailingBytes
      else case rd_fault input of None \<Rightarrow> Ok (rd_bytes input) | Some e \<Rightarrow> Err (ReadError e))"
    using False h
    by (cases "approval_decode_common_header (rd_bytes input)")
      (auto simp: read_one_message_def read_exact_def APPROVAL_HEADER_BYTES_def Let_def n_def h_def split: option.splits)
  then show ?thesis
    by (auto simp: n_def split: option.splits)
qed

text \<open>The bounded reader accepts exactly the streams that the decoder of a whole buffer accepts.\<close>

lemma framed_message:
  assumes "approval_decode_header m t k = Ok p" "k < 2 ^ 32"
  shows "approval_decode_common_header m = Ok t \<and> length m = 20 + unat (read_u32 m 16) \<and> unat (read_u32 m 16) \<le> k"
proof -
  have m: "m = approval_encode_header t (length p) @ p" and le: "length p \<le> k"
    using assms by (simp_all add: approval_framing.decode_head_iff)
  have "read_u32 m 16 = of_nat (length p)"
    by (simp add: m approval_encode_header_def wire)
  moreover have "unat (of_nat (length p) :: u32) = length p" using le assms(2) by (simp add: unat_of_nat)
  ultimately show ?thesis using le
    by (simp add: m approval_framing.decode_common_head approval_framing.length_encode_head)
qed

lemma read_prompt_iff:
  "read_prompt E input = Ok r \<longleftrightarrow> rd_fault input = None \<and> decode_prompt E (rd_bytes input) = Ok r"
proof
  assume "read_prompt E input = Ok r"
  then show "rd_fault input = None \<and> decode_prompt E (rd_bytes input) = Ok r"
    by (auto simp: read_prompt_def read_one_message_iff)
next
  assume r: "rd_fault input = None \<and> decode_prompt E (rd_bytes input) = Ok r"
  then obtain t k p where k: "prompt_limit t = Some k" and p: "approval_decode_header (rd_bytes input) t k = Ok p"
    using decode_prompt_head_Ok by blast
  from k have "k \<le> MAX_PROMPT_PAYLOAD_BYTES" "k < 2 ^ 32"
    by (auto simp: prompt_limit_def prompt_sizes split: if_splits)
  with framed_message [OF p] have "read_one_message input MAX_PROMPT_PAYLOAD_BYTES = Ok (rd_bytes input)"
    using r by (auto simp: read_one_message_iff)
  with r show "read_prompt E input = Ok r" by (simp add: read_prompt_def)
qed

lemma read_decision_iff:
  "read_decision E input = Ok r \<longleftrightarrow> rd_fault input = None \<and> decode_decision E (rd_bytes input) = Ok r"
proof
  assume "read_decision E input = Ok r"
  then show "rd_fault input = None \<and> decode_decision E (rd_bytes input) = Ok r"
    by (auto simp: read_decision_def read_one_message_iff)
next
  assume r: "rd_fault input = None \<and> decode_decision E (rd_bytes input) = Ok r"
  then obtain t k p where k: "decision_limit t = Some k" and p: "approval_decode_header (rd_bytes input) t k = Ok p"
    using decode_decision_head_Ok by blast
  from k have "k = DECISION_PAYLOAD_BYTES" "k < 2 ^ 32"
    by (auto simp: decision_limit_def prompt_sizes split: if_splits)
  with framed_message [OF p] have "read_one_message input DECISION_PAYLOAD_BYTES = Ok (rd_bytes input)"
    using r by (auto simp: read_one_message_iff)
  with r show "read_decision E input = Ok r" by (simp add: read_decision_def)
qed

lemma write_message_Ok_iff:
  "write_message w m = Ok w' \<longleftrightarrow> wr_write_fault w = None \<and> wr_flush_fault w = None \<and> w' = w\<lparr>wr_written := wr_written w @ m\<rparr>"
  by (auto simp: write_message_def split: option.splits)

end
