(* ===== verification/Ipc_Protocol.thy ===== *)
theory Ipc_Protocol
  imports Wire Display
begin

text \<open>
  The consent protocol between a client and the signing daemon
  (\<^verbatim>\<open>src/crates/a-quo-ipc/src/protocol.rs\<close>): the five signing requests and the two responses, their
  validation, their encoders and their decoders. A digest \<^verbatim>\<open>[u8; 32]\<close> is a byte list, and
  \<open>sign_request_typed\<close> states what the Rust types of a request say of it: digests have 32 bytes and
  strings are UTF-8. The lemmas show that decoding accepts exactly the encodings of valid requests,
  so requests and responses round-trip, have one wire form and are never prefixes of one another.
\<close>

section \<open>Constants\<close>

definition IPC_MAGIC :: bytes where "IPC_MAGIC = as_bytes ''AQUOIPC'' @ [0]"
definition IPC_HEADER_BYTES :: nat where "IPC_HEADER_BYTES = 20"
definition ARTIFACT_REQUEST_PREFIX_BYTES :: nat where "ARTIFACT_REQUEST_PREFIX_BYTES = 6"
definition DOMAIN_REQUEST_PREFIX_BYTES :: nat where "DOMAIN_REQUEST_PREFIX_BYTES = 4"
definition PERSONA_TRANSITION_REQUEST_PREFIX_BYTES :: nat where "PERSONA_TRANSITION_REQUEST_PREFIX_BYTES = 80"
definition RECOVERY_PARTICIPATION_REQUEST_PREFIX_BYTES :: nat where "RECOVERY_PARTICIPATION_REQUEST_PREFIX_BYTES = 120"
definition RESPONSE_PREFIX_BYTES :: nat where "RESPONSE_PREFIX_BYTES = 4"
definition MESSAGE_SIGN_REQUEST :: u16 where "MESSAGE_SIGN_REQUEST = 1"
definition MESSAGE_SIGN_APPROVED :: u16 where "MESSAGE_SIGN_APPROVED = 2"
definition MESSAGE_SIGN_REJECTED :: u16 where "MESSAGE_SIGN_REJECTED = 3"
definition MESSAGE_DOMAIN_SIGN_REQUEST :: u16 where "MESSAGE_DOMAIN_SIGN_REQUEST = 4"
definition MESSAGE_PERSONA_ROOT_SIGN_REQUEST :: u16 where "MESSAGE_PERSONA_ROOT_SIGN_REQUEST = 5"
definition MESSAGE_PERSONA_TRANSITION_SIGN_REQUEST :: u16 where "MESSAGE_PERSONA_TRANSITION_SIGN_REQUEST = 6"
definition MESSAGE_RECOVERY_PARTICIPATION_REQUEST :: u16 where "MESSAGE_RECOVERY_PARTICIPATION_REQUEST = 7"
definition IPC_FLAGS_NONE :: u16 where "IPC_FLAGS_NONE = 0"
definition IPC_PROTOCOL_MAJOR :: u16 where "IPC_PROTOCOL_MAJOR = 1"
definition IPC_PROTOCOL_MINOR :: u16 where "IPC_PROTOCOL_MINOR = 0"
definition MAX_PERSONA_ID_BYTES :: nat where "MAX_PERSONA_ID_BYTES = 64"
definition MAX_ARTIFACT_LABEL_BYTES :: nat where "MAX_ARTIFACT_LABEL_BYTES = 256"
definition MAX_NEXT_SIGNING_REFERENCE_BYTES :: nat where "MAX_NEXT_SIGNING_REFERENCE_BYTES = 4096"
definition MAX_RECOVERY_PARTICIPANT_SIGNING_REFERENCE_BYTES :: nat where
  "MAX_RECOVERY_PARTICIPANT_SIGNING_REFERENCE_BYTES = 4096"
definition MAX_RECOVERY_PARTICIPANT_PUBLIC_KEY_BYTES :: nat where
  "MAX_RECOVERY_PARTICIPANT_PUBLIC_KEY_BYTES = 16384"
definition MAX_RECOVERY_POLICY_VERSION :: u32 where "MAX_RECOVERY_POLICY_VERSION = 1024"
definition MIN_RECOVERY_THRESHOLD :: u32 where "MIN_RECOVERY_THRESHOLD = 2"
definition MAX_RECOVERY_THRESHOLD :: u32 where "MAX_RECOVERY_THRESHOLD = 32"

definition MAX_ARTIFACT_REQUEST_PAYLOAD_BYTES :: nat where
  "MAX_ARTIFACT_REQUEST_PAYLOAD_BYTES =
     ARTIFACT_REQUEST_PREFIX_BYTES + MAX_PERSONA_ID_BYTES + MAX_ARTIFACT_LABEL_BYTES"
definition MAX_DOMAIN_REQUEST_PAYLOAD_BYTES :: nat where
  "MAX_DOMAIN_REQUEST_PAYLOAD_BYTES = DOMAIN_REQUEST_PREFIX_BYTES + MAX_PERSONA_ID_BYTES"
definition MAX_PERSONA_TRANSITION_REQUEST_PAYLOAD_BYTES :: nat where
  "MAX_PERSONA_TRANSITION_REQUEST_PAYLOAD_BYTES =
     PERSONA_TRANSITION_REQUEST_PREFIX_BYTES + MAX_PERSONA_ID_BYTES + MAX_NEXT_SIGNING_REFERENCE_BYTES"
definition MAX_RECOVERY_PARTICIPATION_REQUEST_PAYLOAD_BYTES :: nat where
  "MAX_RECOVERY_PARTICIPATION_REQUEST_PAYLOAD_BYTES =
     RECOVERY_PARTICIPATION_REQUEST_PREFIX_BYTES + MAX_RECOVERY_PARTICIPANT_SIGNING_REFERENCE_BYTES
     + MAX_RECOVERY_PARTICIPANT_PUBLIC_KEY_BYTES"
definition MAX_ARTIFACT_OR_DOMAIN_REQUEST_PAYLOAD_BYTES :: nat where
  "MAX_ARTIFACT_OR_DOMAIN_REQUEST_PAYLOAD_BYTES =
     (if MAX_DOMAIN_REQUEST_PAYLOAD_BYTES < MAX_ARTIFACT_REQUEST_PAYLOAD_BYTES
      then MAX_ARTIFACT_REQUEST_PAYLOAD_BYTES else MAX_DOMAIN_REQUEST_PAYLOAD_BYTES)"
definition MAX_EXISTING_REQUEST_PAYLOAD_BYTES :: nat where
  "MAX_EXISTING_REQUEST_PAYLOAD_BYTES =
     (if MAX_PERSONA_TRANSITION_REQUEST_PAYLOAD_BYTES < MAX_ARTIFACT_OR_DOMAIN_REQUEST_PAYLOAD_BYTES
      then MAX_ARTIFACT_OR_DOMAIN_REQUEST_PAYLOAD_BYTES else MAX_PERSONA_TRANSITION_REQUEST_PAYLOAD_BYTES)"
definition MAX_REQUEST_PAYLOAD_BYTES :: nat where
  "MAX_REQUEST_PAYLOAD_BYTES =
     (if MAX_RECOVERY_PARTICIPATION_REQUEST_PAYLOAD_BYTES < MAX_EXISTING_REQUEST_PAYLOAD_BYTES
      then MAX_EXISTING_REQUEST_PAYLOAD_BYTES else MAX_RECOVERY_PARTICIPATION_REQUEST_PAYLOAD_BYTES)"
definition MAX_REQUEST_PACKET_BYTES :: nat where
  "MAX_REQUEST_PACKET_BYTES = IPC_HEADER_BYTES + MAX_REQUEST_PAYLOAD_BYTES"
definition MAX_RESPONSE_PACKET_BYTES :: nat where
  "MAX_RESPONSE_PACKET_BYTES = IPC_HEADER_BYTES + RESPONSE_PREFIX_BYTES"

lemmas ipc_sizes = IPC_HEADER_BYTES_def ARTIFACT_REQUEST_PREFIX_BYTES_def DOMAIN_REQUEST_PREFIX_BYTES_def
  PERSONA_TRANSITION_REQUEST_PREFIX_BYTES_def RECOVERY_PARTICIPATION_REQUEST_PREFIX_BYTES_def
  RESPONSE_PREFIX_BYTES_def MAX_PERSONA_ID_BYTES_def MAX_ARTIFACT_LABEL_BYTES_def
  MAX_NEXT_SIGNING_REFERENCE_BYTES_def MAX_RECOVERY_PARTICIPANT_SIGNING_REFERENCE_BYTES_def
  MAX_RECOVERY_PARTICIPANT_PUBLIC_KEY_BYTES_def MAX_ARTIFACT_REQUEST_PAYLOAD_BYTES_def
  MAX_DOMAIN_REQUEST_PAYLOAD_BYTES_def MAX_PERSONA_TRANSITION_REQUEST_PAYLOAD_BYTES_def
  MAX_RECOVERY_PARTICIPATION_REQUEST_PAYLOAD_BYTES_def MAX_ARTIFACT_OR_DOMAIN_REQUEST_PAYLOAD_BYTES_def
  MAX_EXISTING_REQUEST_PAYLOAD_BYTES_def MAX_REQUEST_PAYLOAD_BYTES_def MAX_REQUEST_PACKET_BYTES_def
  MAX_RESPONSE_PACKET_BYTES_def

lemmas ipc_message_types = MESSAGE_SIGN_REQUEST_def MESSAGE_SIGN_APPROVED_def MESSAGE_SIGN_REJECTED_def
  MESSAGE_DOMAIN_SIGN_REQUEST_def MESSAGE_PERSONA_ROOT_SIGN_REQUEST_def
  MESSAGE_PERSONA_TRANSITION_SIGN_REQUEST_def MESSAGE_RECOVERY_PARTICIPATION_REQUEST_def

section \<open>Messages\<close>

datatype IpcProtocolError =
    TruncatedHeader
  | InvalidMagic
  | UnsupportedVersion u16 u16
  | UnsupportedMessageType u16
  | UnsupportedFlags u16
  | PayloadTooLarge
  | TruncatedPayload
  | TrailingBytes
  | InvalidLayout
  | UnsupportedArtifactKind byte
  | UnsupportedTransitionKeyProvider byte
  | UnsupportedRecoveryParticipantKeyProvider byte
  | InvalidPersonaId string
  | InvalidArtifactLabel string
  | InvalidTransitionSequence string
  | InvalidNextSigningReference string
  | InvalidRecoveryParticipantSigningReference string
  | InvalidRecoveryParticipantPublicKey string
  | InvalidRecoveryPolicyPin string
  | InvalidRecoveryHeadPin string
  | UnsupportedRejectionCode u16

type_synonym 'a ipc = "('a, IpcProtocolError) result"

datatype ArtifactKind = GenericArtifact | SoftwareRelease | Article | Image

datatype TransitionKeyProvider = TransitionOpensshFile | TransitionSshAgent | TransitionFido2

datatype RecoveryParticipantKeyProvider = ParticipantOpensshFile | ParticipantSshAgent | ParticipantFido2

text \<open>The discriminants of the \<^verbatim>\<open>repr(u8)\<close> enumerations and their decoders.\<close>

primrec artifact_kind_u8 :: "ArtifactKind \<Rightarrow> byte" where
  "artifact_kind_u8 GenericArtifact = 1"
| "artifact_kind_u8 SoftwareRelease = 2"
| "artifact_kind_u8 Article = 3"
| "artifact_kind_u8 Image = 4"

primrec transition_provider_u8 :: "TransitionKeyProvider \<Rightarrow> byte" where
  "transition_provider_u8 TransitionOpensshFile = 1"
| "transition_provider_u8 TransitionSshAgent = 2"
| "transition_provider_u8 TransitionFido2 = 3"

primrec participant_provider_u8 :: "RecoveryParticipantKeyProvider \<Rightarrow> byte" where
  "participant_provider_u8 ParticipantOpensshFile = 1"
| "participant_provider_u8 ParticipantSshAgent = 2"
| "participant_provider_u8 ParticipantFido2 = 3"

definition decode_participant_provider :: "byte \<Rightarrow> RecoveryParticipantKeyProvider ipc" where
  "decode_participant_provider b =
     (if b = 1 then Ok ParticipantOpensshFile
      else if b = 2 then Ok ParticipantSshAgent
      else if b = 3 then Ok ParticipantFido2
      else Err (UnsupportedRecoveryParticipantKeyProvider b))"

definition decode_transition_provider :: "byte \<Rightarrow> TransitionKeyProvider ipc" where
  "decode_transition_provider b =
     (if b = 1 then Ok TransitionOpensshFile
      else if b = 2 then Ok TransitionSshAgent
      else if b = 3 then Ok TransitionFido2
      else Err (UnsupportedTransitionKeyProvider b))"

definition decode_artifact_kind :: "byte \<Rightarrow> ArtifactKind ipc" where
  "decode_artifact_kind b =
     (if b = 1 then Ok GenericArtifact
      else if b = 2 then Ok SoftwareRelease
      else if b = 3 then Ok Article
      else if b = 4 then Ok Image
      else Err (UnsupportedArtifactKind b))"

datatype SignSubject =
    SubjectArtifact ArtifactKind string
  | SubjectDomainControl
  | SubjectPersonaRoot
  | SubjectPersonaTransition u32 bytes "bytes option" TransitionKeyProvider string
  | SubjectRecoveryParticipation RecoveryParticipantKeyProvider string string bytes u32 bytes u32 u32 "bytes option"

record SignRequest =
  sr_persona_id :: "string option"
  sr_subject :: SignSubject

datatype RejectionCode = UserDeclined | Cancelled | InvalidRequest | PersonaUnavailable | SignerUnavailable
  | InternalError | ConsentUnavailable

primrec rejection_code_u16 :: "RejectionCode \<Rightarrow> u16" where
  "rejection_code_u16 UserDeclined = 1"
| "rejection_code_u16 Cancelled = 2"
| "rejection_code_u16 InvalidRequest = 3"
| "rejection_code_u16 PersonaUnavailable = 4"
| "rejection_code_u16 SignerUnavailable = 5"
| "rejection_code_u16 InternalError = 6"
| "rejection_code_u16 ConsentUnavailable = 7"

definition decode_rejection_code :: "u16 \<Rightarrow> RejectionCode ipc" where
  "decode_rejection_code w =
     (if w = 1 then Ok UserDeclined
      else if w = 2 then Ok Cancelled
      else if w = 3 then Ok InvalidRequest
      else if w = 4 then Ok PersonaUnavailable
      else if w = 5 then Ok SignerUnavailable
      else if w = 6 then Ok InternalError
      else if w = 7 then Ok ConsentUnavailable
      else Err (UnsupportedRejectionCode w))"

datatype SignResponse = Approved | Rejected RejectionCode

section \<open>Validation\<close>

definition UNSAFE_TEXT :: string where
  "UNSAFE_TEXT = ''control, line/paragraph separator, or default-ignorable Unicode characters are not allowed''"

definition validate_next_signing_reference :: "string \<Rightarrow> unit ipc" where
  "validate_next_signing_reference s =
     (if s = [] then Err (InvalidNextSigningReference ''it cannot be empty'')
      else if MAX_NEXT_SIGNING_REFERENCE_BYTES < length s
      then Err (InvalidNextSigningReference ''it cannot exceed 4096 UTF-8 bytes'')
      else if str_trim s \<noteq> s
      then Err (InvalidNextSigningReference ''leading and trailing whitespace are not allowed'')
      else if \<not> is_absolute s then Err (InvalidNextSigningReference ''it must be an absolute path'')
      else if contains_unsafe_display_characters s then Err (InvalidNextSigningReference UNSAFE_TEXT)
      else Ok ())"

definition validate_recovery_participant_signing_reference :: "string \<Rightarrow> unit ipc" where
  "validate_recovery_participant_signing_reference s =
     (if s = [] then Err (InvalidRecoveryParticipantSigningReference ''it cannot be empty'')
      else if MAX_RECOVERY_PARTICIPANT_SIGNING_REFERENCE_BYTES < length s
      then Err (InvalidRecoveryParticipantSigningReference ''it cannot exceed 4096 UTF-8 bytes'')
      else if str_trim s \<noteq> s
      then Err (InvalidRecoveryParticipantSigningReference ''leading and trailing whitespace are not allowed'')
      else if \<not> is_absolute s
      then Err (InvalidRecoveryParticipantSigningReference ''it must be an absolute path'')
      else if contains_unsafe_display_characters s
      then Err (InvalidRecoveryParticipantSigningReference UNSAFE_TEXT)
      else Ok ())"

definition validate_recovery_participant_public_key :: "'z wire_ext_scheme \<Rightarrow> string \<Rightarrow> unit ipc" where
  "validate_recovery_participant_public_key E s =
     (let invalid = InvalidRecoveryParticipantPublicKey
      in if s = [] then Err (invalid ''it cannot be empty'')
      else if MAX_RECOVERY_PARTICIPANT_PUBLIC_KEY_BYTES < length s
      then Err (invalid ''it cannot exceed 16384 UTF-8 bytes'')
      else if contains_unsafe_display_characters s then Err (invalid UNSAFE_TEXT)
      else case split_once (CHR '' '') s of
        None \<Rightarrow> Err (invalid ''expected normalized OpenSSH public-key text'')
      | Some (algorithm, encoded) \<Rightarrow>
          if algorithm = [] \<or> encoded = [] \<or> list_ex is_ascii_whitespace encoded
             \<or> s \<noteq> algorithm @ '' '' @ encoded
          then Err (invalid ''expected exactly an algorithm and key blob separated by one ASCII space'')
          else and_then (map_err (\<lambda>_. invalid ''key data must use canonical Base64'') (base64_decode E encoded)) (\<lambda>blob.
          if base64_encode E blob \<noteq> encoded then Err (invalid ''key data must use canonical Base64'')
          else and_then (ok_or (invalid ''truncated OpenSSH key blob'') (slice_get blob 0 4)) (\<lambda>length_bytes.
          let algorithm_len = unat (read_u32 length_bytes 0)
          in and_then (ok_or (invalid ''invalid OpenSSH algorithm length'') (usize_checked_add 4 algorithm_len)) (\<lambda>algorithm_end.
          if slice_get blob 4 algorithm_end \<noteq> Some (as_bytes algorithm)
          then Err (invalid ''algorithm label does not match the OpenSSH key blob'')
          else Ok ()))))"

definition validate_persona_id :: "'z wire_ext_scheme \<Rightarrow> SignRequest \<Rightarrow> unit ipc" where
  "validate_persona_id E request =
     (let is_recovery_participation =
        (case sr_subject request of SubjectRecoveryParticipation _ _ _ _ _ _ _ _ _ \<Rightarrow> True | _ \<Rightarrow> False)
      in case sr_persona_id request of
        None \<Rightarrow>
          if is_recovery_participation then Ok ()
          else Err (InvalidPersonaId ''this request purpose requires a local persona UUID'')
      | Some persona_id \<Rightarrow>
          if is_recovery_participation
          then Err (InvalidPersonaId ''recovery participation must not expose a coordinator-local persona UUID'')
          else if MAX_PERSONA_ID_BYTES < length persona_id
          then Err (InvalidPersonaId ''it cannot exceed 64 bytes'')
          else and_then (ok_or (InvalidPersonaId ''expected a UUID'') (uuid_parse_str E persona_id)) (\<lambda>parsed.
          if uuid_to_string E parsed \<noteq> persona_id
          then Err (InvalidPersonaId ''expected the canonical lowercase UUID form'')
          else Ok ()))"

definition validate_artifact_label :: "string \<Rightarrow> unit ipc" where
  "validate_artifact_label s =
     (if s = [] then Err (InvalidArtifactLabel ''it cannot be empty'')
      else if MAX_ARTIFACT_LABEL_BYTES < length s
      then Err (InvalidArtifactLabel ''it cannot exceed 256 UTF-8 bytes'')
      else if str_trim s \<noteq> s
      then Err (InvalidArtifactLabel ''leading and trailing whitespace are not allowed'')
      else if contains_unsafe_display_characters s then Err (InvalidArtifactLabel UNSAFE_TEXT)
      else Ok ())"

definition validate_transition_subject :: "u32 \<Rightarrow> bytes option \<Rightarrow> string \<Rightarrow> unit ipc" where
  "validate_transition_subject expected_sequence previous reference =
     (if expected_sequence = 0 then Err (InvalidTransitionSequence ''it must start at 1'')
      else if expected_sequence = 1 \<and> previous \<noteq> None
      then Err (InvalidTransitionSequence ''sequence 1 cannot name a previous transition digest'')
      else if expected_sequence \<noteq> 1 \<and> previous = None
      then Err (InvalidTransitionSequence ''sequences after 1 require a previous transition digest'')
      else validate_next_signing_reference reference)"

definition validate_recovery_subject ::
  "'z wire_ext_scheme \<Rightarrow> string \<Rightarrow> string \<Rightarrow> u32 \<Rightarrow> u32 \<Rightarrow> u32 \<Rightarrow> bytes option \<Rightarrow> unit ipc" where
  "validate_recovery_subject E reference public_key policy_version threshold head_sequence head =
     and_then (validate_recovery_participant_signing_reference reference) (\<lambda>_.
     and_then (validate_recovery_participant_public_key E public_key) (\<lambda>_.
     if \<not> (1 \<le> policy_version \<and> policy_version \<le> MAX_RECOVERY_POLICY_VERSION)
     then Err (InvalidRecoveryPolicyPin ''version must be 1 through 1024'')
     else if \<not> (MIN_RECOVERY_THRESHOLD \<le> threshold \<and> threshold \<le> MAX_RECOVERY_THRESHOLD)
     then Err (InvalidRecoveryPolicyPin ''threshold must be 2 through 32'')
     else if head_sequence = 0 \<and> head \<noteq> None
     then Err (InvalidRecoveryHeadPin ''the root head cannot name a transition digest'')
     else if head_sequence \<noteq> 0 \<and> head = None
     then Err (InvalidRecoveryHeadPin ''a transition head requires its exact digest'')
     else Ok ()))"

definition validate_request :: "'z wire_ext_scheme \<Rightarrow> SignRequest \<Rightarrow> unit ipc" where
  "validate_request E request =
     and_then (validate_persona_id E request) (\<lambda>_.
     case sr_subject request of
       SubjectArtifact _ artifact_label \<Rightarrow> validate_artifact_label artifact_label
     | SubjectPersonaTransition expected_sequence _ previous _ reference \<Rightarrow>
         validate_transition_subject expected_sequence previous reference
     | SubjectRecoveryParticipation _ reference public_key _ policy_version _ threshold head_sequence head \<Rightarrow>
         validate_recovery_subject E reference public_key policy_version threshold head_sequence head
     | _ \<Rightarrow> Ok ())"

definition validated :: "'z wire_ext_scheme \<Rightarrow> SignRequest \<Rightarrow> SignRequest ipc" where
  "validated E request = and_then (validate_request E request) (\<lambda>_. Ok request)"

definition sign_request_new :: "'z wire_ext_scheme \<Rightarrow> string \<Rightarrow> ArtifactKind \<Rightarrow> string \<Rightarrow> SignRequest ipc" where
  "sign_request_new E persona_id artifact_kind artifact_label =
     validated E \<lparr>sr_persona_id = Some persona_id, sr_subject = SubjectArtifact artifact_kind artifact_label\<rparr>"

definition sign_request_new_domain :: "'z wire_ext_scheme \<Rightarrow> string \<Rightarrow> SignRequest ipc" where
  "sign_request_new_domain E persona_id =
     validated E \<lparr>sr_persona_id = Some persona_id, sr_subject = SubjectDomainControl\<rparr>"

definition sign_request_new_persona_root :: "'z wire_ext_scheme \<Rightarrow> string \<Rightarrow> SignRequest ipc" where
  "sign_request_new_persona_root E persona_id =
     validated E \<lparr>sr_persona_id = Some persona_id, sr_subject = SubjectPersonaRoot\<rparr>"

definition sign_request_new_persona_transition ::
  "'z wire_ext_scheme \<Rightarrow> string \<Rightarrow> u32 \<Rightarrow> bytes \<Rightarrow> bytes option \<Rightarrow> TransitionKeyProvider \<Rightarrow> string \<Rightarrow> SignRequest ipc" where
  "sign_request_new_persona_transition E persona_id sequence root previous provider reference =
     validated E \<lparr>sr_persona_id = Some persona_id,
       sr_subject = SubjectPersonaTransition sequence root previous provider reference\<rparr>"

definition sign_request_new_recovery_participation ::
  "'z wire_ext_scheme \<Rightarrow> RecoveryParticipantKeyProvider \<Rightarrow> string \<Rightarrow> string \<Rightarrow> bytes \<Rightarrow> u32 \<Rightarrow> bytes \<Rightarrow> u32 \<Rightarrow> u32 \<Rightarrow>
   bytes option \<Rightarrow> SignRequest ipc" where
  "sign_request_new_recovery_participation E provider reference public_key root version policy threshold
       head_sequence head =
     validated E \<lparr>sr_persona_id = None,
       sr_subject = SubjectRecoveryParticipation provider reference public_key root version policy threshold
         head_sequence head\<rparr>"

definition required_persona_id :: "SignRequest \<Rightarrow> string ipc" where
  "required_persona_id request = ok_or (InvalidPersonaId ''missing local persona UUID'') (sr_persona_id request)"

section \<open>The header\<close>

definition ipc_encode_header :: "u16 \<Rightarrow> nat \<Rightarrow> bytes" where
  "ipc_encode_header message_type payload_len =
     IPC_MAGIC
     @ u16_to_be_bytes IPC_PROTOCOL_MAJOR
     @ u16_to_be_bytes IPC_PROTOCOL_MINOR
     @ u16_to_be_bytes message_type
     @ u16_to_be_bytes IPC_FLAGS_NONE
     @ u32_to_be_bytes (of_nat payload_len)"

definition ipc_decode_common_header :: "bytes \<Rightarrow> u16 ipc" where
  "ipc_decode_common_header message =
     (if length message < IPC_HEADER_BYTES then Err TruncatedHeader
      else if take (length IPC_MAGIC) message \<noteq> IPC_MAGIC then Err InvalidMagic
      else let major = read_u16 message 8; minor = read_u16 message 10
      in if major \<noteq> IPC_PROTOCOL_MAJOR \<or> minor \<noteq> IPC_PROTOCOL_MINOR then Err (UnsupportedVersion major minor)
      else let flags = read_u16 message 14
      in if flags \<noteq> IPC_FLAGS_NONE then Err (UnsupportedFlags flags)
      else Ok (read_u16 message 12))"

definition ipc_decode_header :: "bytes \<Rightarrow> u16 \<Rightarrow> nat \<Rightarrow> bytes ipc" where
  "ipc_decode_header message expected_type maximum_payload =
     and_then (ipc_decode_common_header message) (\<lambda>message_type.
     if message_type \<noteq> expected_type then Err (UnsupportedMessageType message_type)
     else let payload_len = unat (read_u32 message 16)
     in if maximum_payload < payload_len then Err PayloadTooLarge
     else and_then (ok_or PayloadTooLarge (usize_checked_add IPC_HEADER_BYTES payload_len)) (\<lambda>expected_len.
     if length message < expected_len then Err TruncatedPayload
     else if expected_len < length message then Err TrailingBytes
     else Ok (drop IPC_HEADER_BYTES message)))"

section \<open>Requests on the wire\<close>

definition encode_artifact_sign_request :: "SignRequest \<Rightarrow> ArtifactKind \<Rightarrow> string \<Rightarrow> bytes ipc" where
  "encode_artifact_sign_request request artifact_kind artifact_label =
     and_then (required_persona_id request) (\<lambda>persona.
     let payload_len = ARTIFACT_REQUEST_PREFIX_BYTES + length persona + length artifact_label
     in Ok (ipc_encode_header MESSAGE_SIGN_REQUEST payload_len
       @ [artifact_kind_u8 artifact_kind]
       @ [0]
       @ u16_to_be_bytes (of_nat (length persona))
       @ u16_to_be_bytes (of_nat (length artifact_label))
       @ as_bytes persona
       @ as_bytes artifact_label))"

definition encode_single_persona_request :: "SignRequest \<Rightarrow> u16 \<Rightarrow> bytes ipc" where
  "encode_single_persona_request request message_type =
     and_then (required_persona_id request) (\<lambda>persona.
     let payload_len = DOMAIN_REQUEST_PREFIX_BYTES + length persona
     in Ok (ipc_encode_header message_type payload_len
       @ u16_to_be_bytes (of_nat (length persona))
       @ u16_to_be_bytes 0
       @ as_bytes persona))"

definition encode_domain_sign_request :: "SignRequest \<Rightarrow> bytes ipc" where
  "encode_domain_sign_request request = encode_single_persona_request request MESSAGE_DOMAIN_SIGN_REQUEST"

definition encode_persona_root_sign_request :: "SignRequest \<Rightarrow> bytes ipc" where
  "encode_persona_root_sign_request request = encode_single_persona_request request MESSAGE_PERSONA_ROOT_SIGN_REQUEST"

definition encode_persona_transition_sign_request :: "SignRequest \<Rightarrow> bytes ipc" where
  "encode_persona_transition_sign_request request =
     (case sr_subject request of
       SubjectPersonaTransition sequence root previous provider reference \<Rightarrow>
         and_then (required_persona_id request) (\<lambda>persona.
         and_then (ok_or PayloadTooLarge
           (Option.bind (usize_checked_add PERSONA_TRANSITION_REQUEST_PREFIX_BYTES (length persona)) (\<lambda>len.
            usize_checked_add len (length reference)))) (\<lambda>payload_len.
         Ok (ipc_encode_header MESSAGE_PERSONA_TRANSITION_SIGN_REQUEST payload_len
           @ [transition_provider_u8 provider]
           @ [presence_byte previous]
           @ u16_to_be_bytes 0
           @ u32_to_be_bytes sequence
           @ u16_to_be_bytes (of_nat (length persona))
           @ u16_to_be_bytes (of_nat (length reference))
           @ u32_to_be_bytes 0
           @ root
           @ digest_or_zeros previous
           @ as_bytes persona
           @ as_bytes reference)))
     | _ \<Rightarrow> Err InvalidLayout)"

definition encode_recovery_participation_request :: "SignRequest \<Rightarrow> bytes ipc" where
  "encode_recovery_participation_request request =
     (case sr_subject request of
       SubjectRecoveryParticipation provider reference public_key root version policy threshold head_sequence head \<Rightarrow>
         and_then (ok_or PayloadTooLarge
           (Option.bind (usize_checked_add RECOVERY_PARTICIPATION_REQUEST_PREFIX_BYTES (length reference)) (\<lambda>len.
            usize_checked_add len (length public_key)))) (\<lambda>payload_len.
         Ok (ipc_encode_header MESSAGE_RECOVERY_PARTICIPATION_REQUEST payload_len
           @ [participant_provider_u8 provider]
           @ [presence_byte head]
           @ u16_to_be_bytes 0
           @ u32_to_be_bytes version
           @ u32_to_be_bytes threshold
           @ u32_to_be_bytes head_sequence
           @ u16_to_be_bytes (of_nat (length reference))
           @ u16_to_be_bytes (of_nat (length public_key))
           @ u32_to_be_bytes 0
           @ root
           @ policy
           @ digest_or_zeros head
           @ as_bytes reference
           @ as_bytes public_key))
     | _ \<Rightarrow> Err InvalidLayout)"

definition encode_sign_request :: "'z wire_ext_scheme \<Rightarrow> SignRequest \<Rightarrow> bytes ipc" where
  "encode_sign_request E request =
     and_then (validate_request E request) (\<lambda>_.
     case sr_subject request of
       SubjectArtifact artifact_kind artifact_label \<Rightarrow>
         encode_artifact_sign_request request artifact_kind artifact_label
     | SubjectDomainControl \<Rightarrow> encode_domain_sign_request request
     | SubjectPersonaRoot \<Rightarrow> encode_persona_root_sign_request request
     | SubjectPersonaTransition _ _ _ _ _ \<Rightarrow> encode_persona_transition_sign_request request
     | SubjectRecoveryParticipation _ _ _ _ _ _ _ _ _ \<Rightarrow> encode_recovery_participation_request request)"

definition decode_artifact_sign_request :: "'z wire_ext_scheme \<Rightarrow> bytes \<Rightarrow> SignRequest ipc" where
  "decode_artifact_sign_request E message =
     and_then (ipc_decode_header message MESSAGE_SIGN_REQUEST MAX_ARTIFACT_REQUEST_PAYLOAD_BYTES) (\<lambda>payload.
     if length payload < ARTIFACT_REQUEST_PREFIX_BYTES \<or> payload ! 1 \<noteq> 0 then Err InvalidLayout
     else and_then (decode_artifact_kind (payload ! 0)) (\<lambda>artifact_kind.
     let persona_len = unat (read_u16 payload 2); label_len = unat (read_u16 payload 4)
     in and_then (ok_or InvalidLayout
       (Option.bind (usize_checked_add ARTIFACT_REQUEST_PREFIX_BYTES persona_len) (\<lambda>len.
        usize_checked_add len label_len))) (\<lambda>expected.
     if expected \<noteq> length payload then Err InvalidLayout
     else let persona_end = ARTIFACT_REQUEST_PREFIX_BYTES + persona_len
     in and_then (ok_or (InvalidPersonaId ''it must be UTF-8'')
         (from_utf8 (slice payload ARTIFACT_REQUEST_PREFIX_BYTES persona_end))) (\<lambda>persona_id.
     and_then (ok_or (InvalidArtifactLabel ''it must be UTF-8'') (from_utf8 (drop persona_end payload))) (\<lambda>artifact_label.
     sign_request_new E persona_id artifact_kind artifact_label)))))"

definition decode_single_persona_request :: "bytes \<Rightarrow> u16 \<Rightarrow> string ipc" where
  "decode_single_persona_request message message_type =
     and_then (ipc_decode_header message message_type MAX_DOMAIN_REQUEST_PAYLOAD_BYTES) (\<lambda>payload.
     if length payload < DOMAIN_REQUEST_PREFIX_BYTES \<or> slice payload 2 4 \<noteq> [0, 0] then Err InvalidLayout
     else let persona_len = unat (read_u16 payload 0)
     in and_then (ok_or InvalidLayout (usize_checked_add DOMAIN_REQUEST_PREFIX_BYTES persona_len)) (\<lambda>expected.
     if expected \<noteq> length payload then Err InvalidLayout
     else ok_or (InvalidPersonaId ''it must be UTF-8'') (from_utf8 (drop DOMAIN_REQUEST_PREFIX_BYTES payload))))"

definition decode_domain_sign_request :: "'z wire_ext_scheme \<Rightarrow> bytes \<Rightarrow> SignRequest ipc" where
  "decode_domain_sign_request E message =
     and_then (decode_single_persona_request message MESSAGE_DOMAIN_SIGN_REQUEST) (sign_request_new_domain E)"

definition decode_persona_root_sign_request :: "'z wire_ext_scheme \<Rightarrow> bytes \<Rightarrow> SignRequest ipc" where
  "decode_persona_root_sign_request E message =
     and_then (decode_single_persona_request message MESSAGE_PERSONA_ROOT_SIGN_REQUEST) (sign_request_new_persona_root E)"

definition decode_persona_transition_sign_request :: "'z wire_ext_scheme \<Rightarrow> bytes \<Rightarrow> SignRequest ipc" where
  "decode_persona_transition_sign_request E message =
     and_then (ipc_decode_header message MESSAGE_PERSONA_TRANSITION_SIGN_REQUEST
       MAX_PERSONA_TRANSITION_REQUEST_PAYLOAD_BYTES) (\<lambda>payload.
     if length payload < PERSONA_TRANSITION_REQUEST_PREFIX_BYTES
       \<or> slice payload 2 4 \<noteq> [0, 0]
       \<or> slice payload 12 16 \<noteq> [0, 0, 0, 0]
       \<or> 1 < payload ! 1
     then Err InvalidLayout
     else and_then (decode_transition_provider (payload ! 0)) (\<lambda>provider.
     let expected_sequence = read_u32 payload 4;
         persona_len = unat (read_u16 payload 8);
         locator_len = unat (read_u16 payload 10)
     in and_then (ok_or InvalidLayout
       (Option.bind (usize_checked_add PERSONA_TRANSITION_REQUEST_PREFIX_BYTES persona_len) (\<lambda>len.
        usize_checked_add len locator_len))) (\<lambda>expected.
     if expected \<noteq> length payload then Err InvalidLayout
     else let root = slice payload 16 48
     in and_then (optional_digest InvalidLayout (payload ! 1) (slice payload 48 80)) (\<lambda>previous.
     let persona_end = PERSONA_TRANSITION_REQUEST_PREFIX_BYTES + persona_len
     in and_then (ok_or (InvalidPersonaId ''it must be UTF-8'')
         (from_utf8 (slice payload PERSONA_TRANSITION_REQUEST_PREFIX_BYTES persona_end))) (\<lambda>persona_id.
     and_then (ok_or (InvalidNextSigningReference ''it must be UTF-8'') (from_utf8 (drop persona_end payload))) (\<lambda>reference.
     sign_request_new_persona_transition E persona_id expected_sequence root previous provider reference))))))"

definition decode_recovery_participation_request :: "'z wire_ext_scheme \<Rightarrow> bytes \<Rightarrow> SignRequest ipc" where
  "decode_recovery_participation_request E message =
     and_then (ipc_decode_header message MESSAGE_RECOVERY_PARTICIPATION_REQUEST
       MAX_RECOVERY_PARTICIPATION_REQUEST_PAYLOAD_BYTES) (\<lambda>payload.
     if length payload < RECOVERY_PARTICIPATION_REQUEST_PREFIX_BYTES
       \<or> slice payload 2 4 \<noteq> [0, 0]
       \<or> slice payload 20 24 \<noteq> [0, 0, 0, 0]
       \<or> 1 < payload ! 1
     then Err InvalidLayout
     else and_then (decode_participant_provider (payload ! 0)) (\<lambda>provider.
     let version = read_u32 payload 4;
         threshold = read_u32 payload 8;
         head_sequence = read_u32 payload 12;
         locator_len = unat (read_u16 payload 16);
         public_key_len = unat (read_u16 payload 18)
     in and_then (ok_or InvalidLayout
       (Option.bind (usize_checked_add RECOVERY_PARTICIPATION_REQUEST_PREFIX_BYTES locator_len) (\<lambda>len.
        usize_checked_add len public_key_len))) (\<lambda>expected.
     if expected \<noteq> length payload then Err InvalidLayout
     else let root = slice payload 24 56; policy = slice payload 56 88
     in and_then (optional_digest InvalidLayout (payload ! 1) (slice payload 88 120)) (\<lambda>head.
     let locator_end = RECOVERY_PARTICIPATION_REQUEST_PREFIX_BYTES + locator_len
     in and_then (ok_or (InvalidRecoveryParticipantSigningReference ''it must be UTF-8'')
         (from_utf8 (slice payload RECOVERY_PARTICIPATION_REQUEST_PREFIX_BYTES locator_end))) (\<lambda>reference.
     and_then (ok_or (InvalidRecoveryParticipantPublicKey ''it must be UTF-8'') (from_utf8 (drop locator_end payload))) (\<lambda>public_key.
     sign_request_new_recovery_participation E provider reference public_key root version policy threshold
       head_sequence head))))))"

definition decode_sign_request :: "'z wire_ext_scheme \<Rightarrow> bytes \<Rightarrow> SignRequest ipc" where
  "decode_sign_request E message =
     and_then (ipc_decode_common_header message) (\<lambda>message_type.
     if message_type = MESSAGE_SIGN_REQUEST then decode_artifact_sign_request E message
     else if message_type = MESSAGE_DOMAIN_SIGN_REQUEST then decode_domain_sign_request E message
     else if message_type = MESSAGE_PERSONA_ROOT_SIGN_REQUEST then decode_persona_root_sign_request E message
     else if message_type = MESSAGE_PERSONA_TRANSITION_SIGN_REQUEST then decode_persona_transition_sign_request E message
     else if message_type = MESSAGE_RECOVERY_PARTICIPATION_REQUEST then decode_recovery_participation_request E message
     else Err (UnsupportedMessageType message_type))"

section \<open>Responses on the wire\<close>

definition encode_sign_response :: "SignResponse \<Rightarrow> bytes" where
  "encode_sign_response response =
     (case response of
       Approved \<Rightarrow> ipc_encode_header MESSAGE_SIGN_APPROVED 0
     | Rejected code \<Rightarrow>
         ipc_encode_header MESSAGE_SIGN_REJECTED RESPONSE_PREFIX_BYTES
         @ u16_to_be_bytes (rejection_code_u16 code)
         @ u16_to_be_bytes 0)"

definition decode_sign_response :: "bytes \<Rightarrow> SignResponse ipc" where
  "decode_sign_response message =
     and_then (ipc_decode_common_header message) (\<lambda>message_type.
     if message_type = MESSAGE_SIGN_APPROVED
     then and_then (ipc_decode_header message MESSAGE_SIGN_APPROVED 0) (\<lambda>_. Ok Approved)
     else if message_type = MESSAGE_SIGN_REJECTED
     then and_then (ipc_decode_header message MESSAGE_SIGN_REJECTED RESPONSE_PREFIX_BYTES) (\<lambda>payload.
       if length payload \<noteq> RESPONSE_PREFIX_BYTES \<or> drop 2 payload \<noteq> [0, 0] then Err InvalidLayout
       else and_then (decode_rejection_code (read_u16 payload 0)) (\<lambda>code. Ok (Rejected code)))
     else Err (UnsupportedMessageType message_type))"

section \<open>The framing of the consent protocol\<close>

lemma length_IPC_MAGIC [simp]: "length IPC_MAGIC = 8"
  by (simp add: IPC_MAGIC_def)

interpretation ipc_framing: framing IPC_MAGIC TruncatedHeader InvalidMagic PayloadTooLarge TruncatedPayload
  TrailingBytes UnsupportedVersion UnsupportedMessageType UnsupportedFlags
  ipc_encode_header ipc_decode_common_header ipc_decode_header
  by unfold_locales (simp_all only: length_IPC_MAGIC ipc_encode_header_def ipc_decode_common_header_def
      ipc_decode_header_def IPC_PROTOCOL_MAJOR_def IPC_PROTOCOL_MINOR_def IPC_FLAGS_NONE_def IPC_HEADER_BYTES_def
      Let_def cong: if_cong)

lemma decode_artifact_kind_iff: "decode_artifact_kind b = Ok k \<longleftrightarrow> b = artifact_kind_u8 k"
  by (cases k) (auto simp: decode_artifact_kind_def)

lemma decode_transition_provider_iff: "decode_transition_provider b = Ok k \<longleftrightarrow> b = transition_provider_u8 k"
  by (cases k) (auto simp: decode_transition_provider_def)

lemma decode_participant_provider_iff: "decode_participant_provider b = Ok k \<longleftrightarrow> b = participant_provider_u8 k"
  by (cases k) (auto simp: decode_participant_provider_def)

lemma decode_rejection_code_iff: "decode_rejection_code w = Ok k \<longleftrightarrow> w = rejection_code_u16 k"
  by (cases k) (auto simp: decode_rejection_code_def)

lemma validated_Ok_iff: "validated E q = Ok r \<longleftrightarrow> q = r \<and> validate_request E r = Ok ()"
  by (auto simp: validated_def)

lemma decode_artifact_payload:
  assumes "decode_artifact_sign_request E m = Ok r"
  shows "\<exists>persona kind label. r = \<lparr>sr_persona_id = Some persona, sr_subject = SubjectArtifact kind label\<rparr>
    \<and> is_utf8 persona \<and> is_utf8 label \<and> validate_request E r = Ok ()
    \<and> encode_artifact_sign_request r kind label = Ok m"
proof -
  from assms obtain p kind persona label where
    head: "ipc_decode_header m MESSAGE_SIGN_REQUEST MAX_ARTIFACT_REQUEST_PAYLOAD_BYTES = Ok p"
    and p: "6 \<le> length p" "p ! 1 = 0" "p ! 0 = artifact_kind_u8 kind"
    and total: "length p = 6 + unat (read_u16 p 2) + unat (read_u16 p 4)"
    and persona: "slice p 6 (6 + unat (read_u16 p 2)) = as_bytes persona" "is_utf8 persona"
    and label: "drop (6 + unat (read_u16 p 2)) p = as_bytes label" "is_utf8 label"
    and r: "\<lparr>sr_persona_id = Some persona, sr_subject = SubjectArtifact kind label\<rparr> = r" "validate_request E r = Ok ()"
    unfolding decode_artifact_sign_request_def sign_request_new_def
    by (auto simp: Let_def decode_artifact_kind_iff ipc_sizes bind_eq_Some_conv validated_Ok_iff
        from_utf8_iff usize_checked_add_iff)
  have len: "length persona = unat (read_u16 p 2)" "length label = unat (read_u16 p 4)"
    using arg_cong [OF persona(1), of length] arg_cong [OF label(1), of length] total by simp_all
  have "p = pieces 0 [1, 2, 4, 6, 6 + unat (read_u16 p 2)] p" by (subst pieces_id) auto
  also have "\<dots> = [artifact_kind_u8 kind] @ [0] @ u16_to_be_bytes (of_nat (length persona))
      @ u16_to_be_bytes (of_nat (length label)) @ as_bytes persona @ as_bytes label"
    using p persona label by (simp add: slice_u8 slice_u16 len)
  finally have "m = ipc_encode_header MESSAGE_SIGN_REQUEST (6 + length persona + length label) @ \<dots>"
    using head total by (simp add: ipc_framing.decode_head_iff ipc_sizes len)
  with r persona label show ?thesis
    by (auto simp: encode_artifact_sign_request_def required_persona_id_def ipc_sizes)
qed

lemma encode_artifact_payload:
  assumes r: "r = \<lparr>sr_persona_id = Some persona, sr_subject = SubjectArtifact kind label\<rparr>"
    and utf8: "is_utf8 persona" "is_utf8 label" and valid: "validate_request E r = Ok ()"
    and enc: "encode_artifact_sign_request r kind label = Ok m"
  shows "decode_artifact_sign_request E m = Ok r"
proof -
  define p where "p = [artifact_kind_u8 kind] @ [0] @ u16_to_be_bytes (of_nat (length persona))
      @ u16_to_be_bytes (of_nat (length label)) @ as_bytes persona @ as_bytes label"
  have len: "length persona \<le> 64" "length label \<le> 256"
    using valid by (auto simp: r validate_request_def validate_persona_id_def validate_artifact_label_def
        ipc_sizes split: if_splits)
  then have u16: "unat (of_nat (length persona) :: u16) = length persona" "unat (of_nat (length label) :: u16) = length label"
    by (simp_all add: unat_of_nat_u16)
  have lp: "length p = 6 + length persona + length label" by (simp add: p_def)
  have "m = ipc_encode_header MESSAGE_SIGN_REQUEST (length p) @ p"
    using enc unfolding lp by (simp add: r p_def encode_artifact_sign_request_def required_persona_id_def ipc_sizes)
  then have head: "ipc_decode_header m MESSAGE_SIGN_REQUEST MAX_ARTIFACT_REQUEST_PAYLOAD_BYTES = Ok p"
    using len lp by (subst ipc_framing.decode_head_iff) (simp_all add: ipc_sizes)
  have reads: "p ! 0 = artifact_kind_u8 kind" "p ! 1 = 0" "p ! Suc 0 = 0" "read_u16 p 2 = of_nat (length persona)"
    "read_u16 p 4 = of_nat (length label)" "slice p 6 (6 + length persona) = as_bytes persona"
    "drop (6 + length persona) p = as_bytes label"
    by (simp_all add: p_def wire)
  have kind: "decode_artifact_kind (artifact_kind_u8 kind) = Ok kind" by (simp add: decode_artifact_kind_iff)
  have add: "usize_checked_add 6 (length persona) = Some (6 + length persona)"
    "usize_checked_add (6 + length persona) (length label) = Some (length p)"
    using len lp by (simp_all add: usize_checked_add_iff)
  from head show ?thesis using valid
    by (simp add: decode_artifact_sign_request_def ARTIFACT_REQUEST_PREFIX_BYTES_def reads u16 kind add utf8
        sign_request_new_def validated_def flip: r) (simp add: lp)
qed

lemma decode_single_persona_iff:
  "decode_single_persona_request m t = Ok persona \<and> length persona \<le> 64 \<longleftrightarrow>
     is_utf8 persona \<and> length persona \<le> 64
     \<and> m = ipc_encode_header t (4 + length persona)
         @ u16_to_be_bytes (of_nat (length persona)) @ u16_to_be_bytes 0 @ as_bytes persona"
  (is "_ \<longleftrightarrow> is_utf8 persona \<and> _ \<and> m = ?enc")
proof (intro iffI conjI; elim conjE)
  assume dec: "decode_single_persona_request m t = Ok persona"
  then obtain p where head: "ipc_decode_header m t MAX_DOMAIN_REQUEST_PAYLOAD_BYTES = Ok p"
    and p: "4 \<le> length p" "slice p 2 4 = [0, 0]" "length p = 4 + unat (read_u16 p 0)"
    and persona: "drop 4 p = as_bytes persona" "is_utf8 persona"
    by (auto simp: decode_single_persona_request_def Let_def ipc_sizes from_utf8_iff usize_checked_add_iff)
  show "is_utf8 persona" by (rule persona)
  have len: "length persona = unat (read_u16 p 0)"
    using arg_cong [OF persona(1), of length] p by simp
  have "p = pieces 0 [2, 4] p" by (subst pieces_id) auto
  also have "\<dots> = u16_to_be_bytes (of_nat (length persona)) @ u16_to_be_bytes 0 @ as_bytes persona"
    using p persona by (simp add: slice_u16 [of 2 0] len zero_be_bytes)
  finally show "m = ?enc"
    using head p by (simp add: ipc_framing.decode_head_iff ipc_sizes len)
next
  assume utf8: "is_utf8 persona" and len: "length persona \<le> 64" and m: "m = ?enc"
  define p where "p = u16_to_be_bytes (of_nat (length persona)) @ u16_to_be_bytes 0 @ as_bytes persona"
  have lp: "length p = 4 + length persona" by (simp add: p_def)
  have head: "ipc_decode_header m t MAX_DOMAIN_REQUEST_PAYLOAD_BYTES = Ok p"
    using len by (subst ipc_framing.decode_head_iff) (simp_all add: ipc_sizes lp m, simp add: p_def)
  have reads: "slice p 2 4 = [0, 0]" "read_u16 p 0 = of_nat (length persona)" "drop 4 p = as_bytes persona"
    by (simp_all add: p_def wire) (simp_all add: zero_be_bytes)
  have "usize_checked_add 4 (length persona) = Some (4 + length persona)"
    using len by (simp add: usize_checked_add_iff)
  with head show "decode_single_persona_request m t = Ok persona" using utf8 len
    by (simp add: decode_single_persona_request_def DOMAIN_REQUEST_PREFIX_BYTES_def reads unat_of_nat_u16 lp)
qed

lemma decode_transition_payload:
  assumes "decode_persona_transition_sign_request E m = Ok r"
  shows "\<exists>persona sequence root previous provider reference.
    r = \<lparr>sr_persona_id = Some persona, sr_subject = SubjectPersonaTransition sequence root previous provider reference\<rparr>
    \<and> is_utf8 persona \<and> is_utf8 reference \<and> length root = 32 \<and> pred_option (\<lambda>d. length d = 32) previous
    \<and> validate_request E r = Ok () \<and> encode_persona_transition_sign_request r = Ok m"
proof -
  from assms obtain p provider previous persona reference where
    head: "ipc_decode_header m MESSAGE_PERSONA_TRANSITION_SIGN_REQUEST MAX_PERSONA_TRANSITION_REQUEST_PAYLOAD_BYTES = Ok p"
    and p: "80 \<le> length p" "slice p 2 4 = [0, 0]" "slice p 12 16 = [0, 0, 0, 0]" "p ! 1 \<le> 1" "p ! 0 = transition_provider_u8 provider"
    and total: "length p = 80 + unat (read_u16 p 8) + unat (read_u16 p 10)"
    and previous: "optional_digest InvalidLayout (p ! 1) (slice p 48 80) = Ok previous"
    and persona: "slice p 80 (80 + unat (read_u16 p 8)) = as_bytes persona" "is_utf8 persona"
    and reference: "drop (80 + unat (read_u16 p 8)) p = as_bytes reference" "is_utf8 reference"
    and r: "\<lparr>sr_persona_id = Some persona, sr_subject = SubjectPersonaTransition (read_u32 p 4) (slice p 16 48) previous
       provider reference\<rparr> = r" "validate_request E r = Ok ()"
    unfolding decode_persona_transition_sign_request_def sign_request_new_persona_transition_def
    by (auto simp: Let_def decode_transition_provider_iff ipc_sizes bind_eq_Some_conv validated_Ok_iff
        from_utf8_iff usize_checked_add_iff not_less)
  have len: "length persona = unat (read_u16 p 8)" "length reference = unat (read_u16 p 10)"
    using arg_cong [OF persona(1), of length] arg_cong [OF reference(1), of length] total by simp_all
  have prev: "p ! 1 = presence_byte previous" "slice p 48 80 = digest_or_zeros previous"
    using previous p by (simp_all add: optional_digest_iff)
  have "p = pieces 0 [1, 2, 4, 8, 10, 12, 16, 48, 80, 80 + unat (read_u16 p 8)] p" by (subst pieces_id) auto
  also have "\<dots> = [transition_provider_u8 provider] @ [presence_byte previous] @ u16_to_be_bytes 0
      @ u32_to_be_bytes (read_u32 p 4) @ u16_to_be_bytes (of_nat (length persona))
      @ u16_to_be_bytes (of_nat (length reference)) @ u32_to_be_bytes 0 @ slice p 16 48 @ digest_or_zeros previous
      @ as_bytes persona @ as_bytes reference"
    using p persona reference prev
    by (simp add: slice_u8 slice_u16 [of 10 8] slice_u16 [of 12 10] slice_u32 [of 8 4] len zero_be_bytes)
  finally have m: "m = ipc_encode_header MESSAGE_PERSONA_TRANSITION_SIGN_REQUEST (80 + length persona + length reference) @ \<dots>"
    using head total by (simp add: ipc_framing.decode_head_iff ipc_sizes len)
  have "length (slice p 16 48) = 32" "pred_option (\<lambda>d. length d = 32) previous"
    using p length_slice [of 80 p 48] by (simp_all add: prev digest_or_zeros_length)
  moreover have "unat (read_u16 p 8) + unat (read_u16 p 10) < 131072"
    using unat_u16_lt [of "read_u16 p 8"] unat_u16_lt [of "read_u16 p 10"] by simp
  ultimately show ?thesis using r persona reference m
    by (auto simp: encode_persona_transition_sign_request_def required_persona_id_def ipc_sizes usize_checked_add_def len)
qed

lemma encode_transition_payload:
  assumes r: "r = \<lparr>sr_persona_id = Some persona, sr_subject = SubjectPersonaTransition sequence root previous provider reference\<rparr>"
    and utf8: "is_utf8 persona" "is_utf8 reference" and digests: "length root = 32" "pred_option (\<lambda>d. length d = 32) previous"
    and valid: "validate_request E r = Ok ()" and enc: "encode_persona_transition_sign_request r = Ok m"
  shows "decode_persona_transition_sign_request E m = Ok r"
proof -
  define p where "p = [transition_provider_u8 provider] @ [presence_byte previous] @ u16_to_be_bytes 0
      @ u32_to_be_bytes sequence @ u16_to_be_bytes (of_nat (length persona))
      @ u16_to_be_bytes (of_nat (length reference)) @ u32_to_be_bytes 0 @ root @ digest_or_zeros previous
      @ as_bytes persona @ as_bytes reference"
  have len: "length persona \<le> 64" "length reference \<le> 4096"
    using valid by (auto simp: r validate_request_def validate_persona_id_def validate_transition_subject_def
        validate_next_signing_reference_def ipc_sizes split: if_splits)
  then have u16: "unat (of_nat (length persona) :: u16) = length persona" "unat (of_nat (length reference) :: u16) = length reference"
    by (simp_all add: unat_of_nat_u16)
  have prev: "length (digest_or_zeros previous) = 32" "\<not> 1 < presence_byte previous"
    using digests by (cases previous; simp add: digest_or_zeros_def presence_byte_def)+
  have lp: "length p = 80 + length persona + length reference" using digests prev by (simp add: p_def)
  have "m = ipc_encode_header MESSAGE_PERSONA_TRANSITION_SIGN_REQUEST (length p) @ p"
    using enc len unfolding lp by (simp add: r p_def encode_persona_transition_sign_request_def required_persona_id_def
        ipc_sizes usize_checked_add_def)
  then have head: "ipc_decode_header m MESSAGE_PERSONA_TRANSITION_SIGN_REQUEST
      MAX_PERSONA_TRANSITION_REQUEST_PAYLOAD_BYTES = Ok p"
    using len lp by (subst ipc_framing.decode_head_iff) (simp_all add: ipc_sizes)
  have reads: "p ! 0 = transition_provider_u8 provider" "p ! 1 = presence_byte previous" "p ! Suc 0 = presence_byte previous"
    "slice p 2 4 = [0, 0]" "read_u32 p 4 = sequence" "read_u16 p 8 = of_nat (length persona)"
    "read_u16 p 10 = of_nat (length reference)" "slice p 12 16 = [0, 0, 0, 0]" "slice p 16 48 = root"
    "slice p 48 80 = digest_or_zeros previous" "slice p 80 (80 + length persona) = as_bytes persona"
    "drop (80 + length persona) p = as_bytes reference"
    using digests prev by (simp_all add: p_def wire) (simp_all add: zero_be_bytes)
  have ok: "decode_transition_provider (transition_provider_u8 provider) = Ok provider"
    "optional_digest InvalidLayout (presence_byte previous) (digest_or_zeros previous) = Ok previous"
    using prev by (simp_all add: decode_transition_provider_iff optional_digest_iff not_less)
  have add: "usize_checked_add 80 (length persona) = Some (80 + length persona)"
    "usize_checked_add (80 + length persona) (length reference) = Some (length p)"
    using len lp by (simp_all add: usize_checked_add_iff)
  from head show ?thesis using valid prev
    by (simp add: decode_persona_transition_sign_request_def PERSONA_TRANSITION_REQUEST_PREFIX_BYTES_def reads u16 ok add utf8
        sign_request_new_persona_transition_def validated_def flip: r) (simp add: lp)
qed

lemma decode_recovery_payload:
  assumes "decode_recovery_participation_request E m = Ok r"
  shows "\<exists>provider reference public_key root version policy threshold sequence head.
    r = \<lparr>sr_persona_id = None, sr_subject = SubjectRecoveryParticipation provider reference public_key root version policy
      threshold sequence head\<rparr>
    \<and> is_utf8 reference \<and> is_utf8 public_key \<and> length root = 32 \<and> length policy = 32
    \<and> pred_option (\<lambda>d. length d = 32) head
    \<and> validate_request E r = Ok () \<and> encode_recovery_participation_request r = Ok m"
proof -
  from assms obtain p provider previous reference key where
    head: "ipc_decode_header m MESSAGE_RECOVERY_PARTICIPATION_REQUEST MAX_RECOVERY_PARTICIPATION_REQUEST_PAYLOAD_BYTES = Ok p"
    and p: "120 \<le> length p" "slice p 2 4 = [0, 0]" "slice p 20 24 = [0, 0, 0, 0]" "p ! 1 \<le> 1" "p ! 0 = participant_provider_u8 provider"
    and total: "length p = 120 + unat (read_u16 p 16) + unat (read_u16 p 18)"
    and previous: "optional_digest InvalidLayout (p ! 1) (slice p 88 120) = Ok previous"
    and reference: "slice p 120 (120 + unat (read_u16 p 16)) = as_bytes reference" "is_utf8 reference"
    and key: "drop (120 + unat (read_u16 p 16)) p = as_bytes key" "is_utf8 key"
    and r: "\<lparr>sr_persona_id = None, sr_subject = SubjectRecoveryParticipation provider reference key (slice p 24 56)
       (read_u32 p 4) (slice p 56 88) (read_u32 p 8) (read_u32 p 12) previous\<rparr> = r" "validate_request E r = Ok ()"
    unfolding decode_recovery_participation_request_def sign_request_new_recovery_participation_def
    by (auto simp: Let_def decode_participant_provider_iff ipc_sizes bind_eq_Some_conv validated_Ok_iff
        from_utf8_iff usize_checked_add_iff not_less)
  have len: "length reference = unat (read_u16 p 16)" "length key = unat (read_u16 p 18)"
    using arg_cong [OF reference(1), of length] arg_cong [OF key(1), of length] total by simp_all
  have prev: "p ! 1 = presence_byte previous" "slice p 88 120 = digest_or_zeros previous"
    using previous p by (simp_all add: optional_digest_iff)
  have "p = pieces 0 [1, 2, 4, 8, 12, 16, 18, 20, 24, 56, 88, 120, 120 + unat (read_u16 p 16)] p" by (subst pieces_id) auto
  also have "\<dots> = [participant_provider_u8 provider] @ [presence_byte previous] @ u16_to_be_bytes 0
      @ u32_to_be_bytes (read_u32 p 4) @ u32_to_be_bytes (read_u32 p 8) @ u32_to_be_bytes (read_u32 p 12)
      @ u16_to_be_bytes (of_nat (length reference)) @ u16_to_be_bytes (of_nat (length key)) @ u32_to_be_bytes 0
      @ slice p 24 56 @ slice p 56 88 @ digest_or_zeros previous @ as_bytes reference @ as_bytes key"
    using p reference key prev
    by (simp add: slice_u8 slice_u16 [of 18 16] slice_u16 [of 20 18] slice_u32 [of 8 4] slice_u32 [of 12 8]
        slice_u32 [of 16 12] len zero_be_bytes)
  finally have m: "m = ipc_encode_header MESSAGE_RECOVERY_PARTICIPATION_REQUEST (120 + length reference + length key) @ \<dots>"
    using head total by (simp add: ipc_framing.decode_head_iff ipc_sizes len)
  have "length (slice p 24 56) = 32" "length (slice p 56 88) = 32" "pred_option (\<lambda>d. length d = 32) previous"
    using p length_slice [of 120 p 88] by (simp_all add: prev digest_or_zeros_length)
  moreover have "unat (read_u16 p 16) + unat (read_u16 p 18) < 131072"
    using unat_u16_lt [of "read_u16 p 16"] unat_u16_lt [of "read_u16 p 18"] by simp
  ultimately show ?thesis using r reference key m
    by (auto simp: encode_recovery_participation_request_def ipc_sizes usize_checked_add_def len)
qed

lemma encode_recovery_payload:
  assumes r: "r = \<lparr>sr_persona_id = None, sr_subject = SubjectRecoveryParticipation provider reference key root version policy
      threshold sequence previous\<rparr>"
    and utf8: "is_utf8 reference" "is_utf8 key"
    and digests: "length root = 32" "length policy = 32" "pred_option (\<lambda>d. length d = 32) previous"
    and valid: "validate_request E r = Ok ()" and enc: "encode_recovery_participation_request r = Ok m"
  shows "decode_recovery_participation_request E m = Ok r"
proof -
  define p where "p = [participant_provider_u8 provider] @ [presence_byte previous] @ u16_to_be_bytes 0
      @ u32_to_be_bytes version @ u32_to_be_bytes threshold @ u32_to_be_bytes sequence
      @ u16_to_be_bytes (of_nat (length reference)) @ u16_to_be_bytes (of_nat (length key)) @ u32_to_be_bytes 0
      @ root @ policy @ digest_or_zeros previous @ as_bytes reference @ as_bytes key"
  have len: "length reference \<le> 4096" "length key \<le> 16384"
    using valid by (auto simp: r validate_request_def validate_recovery_subject_def Let_def
        validate_recovery_participant_signing_reference_def validate_recovery_participant_public_key_def
        ipc_sizes split: if_splits)
  then have u16: "unat (of_nat (length reference) :: u16) = length reference" "unat (of_nat (length key) :: u16) = length key"
    by (simp_all add: unat_of_nat_u16)
  have prev: "length (digest_or_zeros previous) = 32" "\<not> 1 < presence_byte previous"
    using digests by (cases previous; simp add: digest_or_zeros_def presence_byte_def)+
  have lp: "length p = 120 + length reference + length key" using digests prev by (simp add: p_def)
  have "m = ipc_encode_header MESSAGE_RECOVERY_PARTICIPATION_REQUEST (length p) @ p"
    using enc len unfolding lp by (simp add: r p_def encode_recovery_participation_request_def ipc_sizes usize_checked_add_def)
  then have head: "ipc_decode_header m MESSAGE_RECOVERY_PARTICIPATION_REQUEST
      MAX_RECOVERY_PARTICIPATION_REQUEST_PAYLOAD_BYTES = Ok p"
    using len lp by (subst ipc_framing.decode_head_iff) (simp_all add: ipc_sizes)
  have reads: "p ! 0 = participant_provider_u8 provider" "p ! 1 = presence_byte previous" "p ! Suc 0 = presence_byte previous"
    "slice p 2 4 = [0, 0]" "read_u32 p 4 = version" "read_u32 p 8 = threshold" "read_u32 p 12 = sequence"
    "read_u16 p 16 = of_nat (length reference)" "read_u16 p 18 = of_nat (length key)" "slice p 20 24 = [0, 0, 0, 0]"
    "slice p 24 56 = root" "slice p 56 88 = policy" "slice p 88 120 = digest_or_zeros previous"
    "slice p 120 (120 + length reference) = as_bytes reference" "drop (120 + length reference) p = as_bytes key"
    using digests prev by (simp_all add: p_def wire) (simp_all add: zero_be_bytes)
  have ok: "decode_participant_provider (participant_provider_u8 provider) = Ok provider"
    "optional_digest InvalidLayout (presence_byte previous) (digest_or_zeros previous) = Ok previous"
    using prev by (simp_all add: decode_participant_provider_iff optional_digest_iff not_less)
  have add: "usize_checked_add 120 (length reference) = Some (120 + length reference)"
    "usize_checked_add (120 + length reference) (length key) = Some (length p)"
    using len lp by (simp_all add: usize_checked_add_iff)
  from head show ?thesis using valid prev
    by (simp add: decode_recovery_participation_request_def RECOVERY_PARTICIPATION_REQUEST_PREFIX_BYTES_def reads u16 ok add utf8
        sign_request_new_recovery_participation_def validated_def flip: r) (simp add: lp)
qed

section \<open>Decoding inverts encoding\<close>

text \<open>What the Rust types of a request say: strings are UTF-8 and digests have 32 bytes.\<close>

definition sign_request_typed :: "SignRequest \<Rightarrow> bool" where
  "sign_request_typed request \<longleftrightarrow>
     pred_option is_utf8 (sr_persona_id request)
     \<and> (case sr_subject request of
          SubjectArtifact _ label \<Rightarrow> is_utf8 label
        | SubjectPersonaTransition _ root previous _ reference \<Rightarrow>
            length root = 32 \<and> pred_option (\<lambda>d. length d = 32) previous \<and> is_utf8 reference
        | SubjectRecoveryParticipation _ reference public_key root _ policy _ _ head \<Rightarrow>
            length root = 32 \<and> length policy = 32 \<and> pred_option (\<lambda>d. length d = 32) head
            \<and> is_utf8 reference \<and> is_utf8 public_key
        | _ \<Rightarrow> True)"

lemma persona_valid:
  assumes "validate_request E r = Ok ()" "\<And>a b c d e f g h i. sr_subject r \<noteq> SubjectRecoveryParticipation a b c d e f g h i"
  shows "\<exists>persona. sr_persona_id r = Some persona \<and> length persona \<le> 64"
  using assms by (cases "sr_subject r"; cases "sr_persona_id r")
    (auto simp: validate_request_def validate_persona_id_def ipc_sizes)

lemma recovery_persona:
  assumes "validate_request E r = Ok ()" "sr_subject r = SubjectRecoveryParticipation a b c d e f g h i"
  shows "sr_persona_id r = None"
  using assms by (auto simp: validate_request_def validate_persona_id_def split: option.splits)

lemma decode_artifact_iff:
  "decode_artifact_sign_request E m = Ok r \<longleftrightarrow>
     (\<exists>kind label. sr_subject r = SubjectArtifact kind label) \<and> sign_request_typed r \<and> encode_sign_request E r = Ok m"
proof
  assume "decode_artifact_sign_request E m = Ok r"
  from decode_artifact_payload [OF this] show
    "(\<exists>kind label. sr_subject r = SubjectArtifact kind label) \<and> sign_request_typed r \<and> encode_sign_request E r = Ok m"
    by (auto simp: sign_request_typed_def encode_sign_request_def)
next
  assume a: "(\<exists>kind label. sr_subject r = SubjectArtifact kind label) \<and> sign_request_typed r \<and> encode_sign_request E r = Ok m"
  then obtain kind label where s: "sr_subject r = SubjectArtifact kind label" by blast
  with a have valid: "validate_request E r = Ok ()" and enc: "encode_artifact_sign_request r kind label = Ok m"
    and utf8: "is_utf8 label" "pred_option is_utf8 (sr_persona_id r)"
    by (auto simp: encode_sign_request_def sign_request_typed_def)
  obtain persona where "sr_persona_id r = Some persona" using persona_valid [OF valid] s by auto
  with s utf8 have "r = \<lparr>sr_persona_id = Some persona, sr_subject = SubjectArtifact kind label\<rparr>" "is_utf8 persona"
    by simp_all
  then show "decode_artifact_sign_request E m = Ok r" using utf8(1) valid enc by (rule encode_artifact_payload)
qed

lemma decode_single_iff:
  assumes subject: "subject = SubjectDomainControl \<and> t = MESSAGE_DOMAIN_SIGN_REQUEST
      \<or> subject = SubjectPersonaRoot \<and> t = MESSAGE_PERSONA_ROOT_SIGN_REQUEST"
  shows "and_then (decode_single_persona_request m t) (\<lambda>persona. validated E \<lparr>sr_persona_id = Some persona, sr_subject = subject\<rparr>) = Ok r
    \<longleftrightarrow> sr_subject r = subject \<and> sign_request_typed r \<and> encode_sign_request E r = Ok m"
    (is "?dec \<longleftrightarrow> ?enc")
proof
  assume ?dec
  then obtain persona where dec: "decode_single_persona_request m t = Ok persona"
    and r: "r = \<lparr>sr_persona_id = Some persona, sr_subject = subject\<rparr>" and valid: "validate_request E r = Ok ()"
    by (auto simp: validated_Ok_iff)
  have "length persona \<le> 64" using persona_valid [OF valid] subject by (auto simp: r)
  with dec decode_single_persona_iff [of m t persona] have "is_utf8 persona \<and> length persona \<le> 64
     \<and> m = ipc_encode_header t (4 + length persona)
         @ u16_to_be_bytes (of_nat (length persona)) @ u16_to_be_bytes 0 @ as_bytes persona"
    by blast
  with valid subject show ?enc
    by (auto simp: r sign_request_typed_def encode_sign_request_def encode_domain_sign_request_def
        encode_persona_root_sign_request_def encode_single_persona_request_def required_persona_id_def
        DOMAIN_REQUEST_PREFIX_BYTES_def)
next
  assume enc: ?enc
  then have valid: "validate_request E r = Ok ()" by (auto simp: encode_sign_request_def)
  with enc subject obtain persona where p: "sr_persona_id r = Some persona" "length persona \<le> 64"
    using persona_valid [OF valid] by auto
  with enc have r: "r = \<lparr>sr_persona_id = Some persona, sr_subject = subject\<rparr>" by simp
  with enc subject p have "is_utf8 persona \<and> length persona \<le> 64
     \<and> m = ipc_encode_header t (4 + length persona)
         @ u16_to_be_bytes (of_nat (length persona)) @ u16_to_be_bytes 0 @ as_bytes persona"
    by (auto simp: sign_request_typed_def encode_sign_request_def encode_domain_sign_request_def
        encode_persona_root_sign_request_def encode_single_persona_request_def required_persona_id_def
        DOMAIN_REQUEST_PREFIX_BYTES_def)
  then have "decode_single_persona_request m t = Ok persona"
    using decode_single_persona_iff [of m t persona] by blast
  with valid r show ?dec by (simp add: validated_def)
qed

lemma decode_transition_iff:
  "decode_persona_transition_sign_request E m = Ok r \<longleftrightarrow>
     (\<exists>a b c d e. sr_subject r = SubjectPersonaTransition a b c d e) \<and> sign_request_typed r \<and> encode_sign_request E r = Ok m"
    (is "?dec \<longleftrightarrow> ?enc")
proof
  assume ?dec
  from decode_transition_payload [OF this] show ?enc
    by (elim exE conjE) (simp add: sign_request_typed_def encode_sign_request_def)
next
  assume enc: ?enc
  then obtain sequence root previous provider reference where
    s: "sr_subject r = SubjectPersonaTransition sequence root previous provider reference" by blast
  with enc have valid: "validate_request E r = Ok ()" by (auto simp: encode_sign_request_def)
  obtain persona where p: "sr_persona_id r = Some persona" using persona_valid [OF valid] s by auto
  with s have "r = \<lparr>sr_persona_id = Some persona, sr_subject = SubjectPersonaTransition sequence root previous provider reference\<rparr>"
    by simp
  then show ?dec
    by (rule encode_transition_payload) (use enc valid s p in \<open>auto simp: sign_request_typed_def encode_sign_request_def\<close>)
qed

lemma decode_recovery_iff:
  "decode_recovery_participation_request E m = Ok r \<longleftrightarrow>
     (\<exists>a b c d e f g h i. sr_subject r = SubjectRecoveryParticipation a b c d e f g h i) \<and> sign_request_typed r
     \<and> encode_sign_request E r = Ok m" (is "?dec \<longleftrightarrow> ?enc")
proof
  assume ?dec
  from decode_recovery_payload [OF this] show ?enc
    by (elim exE conjE) (simp add: sign_request_typed_def encode_sign_request_def)
next
  assume enc: ?enc
  then obtain provider reference key root version policy threshold sequence head where
    s: "sr_subject r = SubjectRecoveryParticipation provider reference key root version policy threshold sequence head" by blast
  with enc have valid: "validate_request E r = Ok ()" by (auto simp: encode_sign_request_def)
  with s have "r = \<lparr>sr_persona_id = None, sr_subject = SubjectRecoveryParticipation provider reference key root version policy
      threshold sequence head\<rparr>"
    using recovery_persona [OF valid s] by simp
  then show ?dec
    by (rule encode_recovery_payload) (use enc valid s in \<open>auto simp: sign_request_typed_def encode_sign_request_def\<close>)
qed

lemma encode_message_type:
  assumes "encode_sign_request E r = Ok m"
  shows "ipc_decode_common_header m = Ok (case sr_subject r of
       SubjectArtifact _ _ \<Rightarrow> MESSAGE_SIGN_REQUEST
     | SubjectDomainControl \<Rightarrow> MESSAGE_DOMAIN_SIGN_REQUEST
     | SubjectPersonaRoot \<Rightarrow> MESSAGE_PERSONA_ROOT_SIGN_REQUEST
     | SubjectPersonaTransition _ _ _ _ _ \<Rightarrow> MESSAGE_PERSONA_TRANSITION_SIGN_REQUEST
     | SubjectRecoveryParticipation _ _ _ _ _ _ _ _ _ \<Rightarrow> MESSAGE_RECOVERY_PARTICIPATION_REQUEST)"
  using assms by (cases "sr_subject r")
    (auto simp: encode_sign_request_def encode_artifact_sign_request_def encode_domain_sign_request_def
      encode_persona_root_sign_request_def encode_single_persona_request_def encode_persona_transition_sign_request_def
      encode_recovery_participation_request_def Let_def ipc_framing.decode_common_head)

lemma decode_domain_iff:
  "decode_domain_sign_request E m = Ok r \<longleftrightarrow>
     sr_subject r = SubjectDomainControl \<and> sign_request_typed r \<and> encode_sign_request E r = Ok m"
proof -
  have "sign_request_new_domain E = (\<lambda>persona. validated E \<lparr>sr_persona_id = Some persona, sr_subject = SubjectDomainControl\<rparr>)"
    by (simp add: fun_eq_iff sign_request_new_domain_def)
  then show ?thesis unfolding decode_domain_sign_request_def by (simp only:) (rule decode_single_iff, simp)
qed

lemma decode_root_iff:
  "decode_persona_root_sign_request E m = Ok r \<longleftrightarrow>
     sr_subject r = SubjectPersonaRoot \<and> sign_request_typed r \<and> encode_sign_request E r = Ok m"
proof -
  have "sign_request_new_persona_root E = (\<lambda>persona. validated E \<lparr>sr_persona_id = Some persona, sr_subject = SubjectPersonaRoot\<rparr>)"
    by (simp add: fun_eq_iff sign_request_new_persona_root_def)
  then show ?thesis unfolding decode_persona_root_sign_request_def by (simp only:) (rule decode_single_iff, simp)
qed

lemmas request_iffs = decode_artifact_iff decode_domain_iff decode_root_iff decode_transition_iff decode_recovery_iff

lemma decode_sign_request_iff:
  "decode_sign_request E m = Ok r \<longleftrightarrow> sign_request_typed r \<and> encode_sign_request E r = Ok m"
proof
  assume "decode_sign_request E m = Ok r"
  then show "sign_request_typed r \<and> encode_sign_request E r = Ok m"
    by (auto simp: decode_sign_request_def request_iffs split: if_splits)
next
  assume enc: "sign_request_typed r \<and> encode_sign_request E r = Ok m"
  note head = encode_message_type [OF conjunct2 [OF enc]]
  show "decode_sign_request E m = Ok r"
  proof (cases "sr_subject r")
    case SubjectArtifact
    with enc head show ?thesis by (simp add: decode_sign_request_def decode_artifact_iff)
  next
    case SubjectDomainControl
    with enc head show ?thesis by (simp add: decode_sign_request_def ipc_message_types decode_domain_iff)
  next
    case SubjectPersonaRoot
    with enc head show ?thesis by (simp add: decode_sign_request_def ipc_message_types decode_root_iff)
  next
    case SubjectPersonaTransition
    with enc head show ?thesis by (simp add: decode_sign_request_def ipc_message_types decode_transition_iff)
  next
    case SubjectRecoveryParticipation
    with enc head show ?thesis by (simp add: decode_sign_request_def ipc_message_types decode_recovery_iff)
  qed
qed

text \<open>The size limit of each request type; the decoders read the header under it first.\<close>

definition request_limit :: "u16 \<Rightarrow> nat option" where
  "request_limit t =
     (if t = MESSAGE_SIGN_REQUEST then Some MAX_ARTIFACT_REQUEST_PAYLOAD_BYTES
      else if t = MESSAGE_DOMAIN_SIGN_REQUEST \<or> t = MESSAGE_PERSONA_ROOT_SIGN_REQUEST then Some MAX_DOMAIN_REQUEST_PAYLOAD_BYTES
      else if t = MESSAGE_PERSONA_TRANSITION_SIGN_REQUEST then Some MAX_PERSONA_TRANSITION_REQUEST_PAYLOAD_BYTES
      else if t = MESSAGE_RECOVERY_PARTICIPATION_REQUEST then Some MAX_RECOVERY_PARTICIPATION_REQUEST_PAYLOAD_BYTES
      else None)"

lemmas request_decoders = decode_artifact_sign_request_def decode_domain_sign_request_def
  decode_persona_root_sign_request_def decode_single_persona_request_def decode_persona_transition_sign_request_def
  decode_recovery_participation_request_def

lemma decode_sign_request_head_Err:
  assumes "ipc_decode_common_header m = Ok t" "request_limit t = Some k" "ipc_decode_header m t k = Err e"
  shows "decode_sign_request E m = Err e"
proof -
  from assms(2) consider
    "t = MESSAGE_SIGN_REQUEST" "k = MAX_ARTIFACT_REQUEST_PAYLOAD_BYTES"
  | "t = MESSAGE_DOMAIN_SIGN_REQUEST" "k = MAX_DOMAIN_REQUEST_PAYLOAD_BYTES"
  | "t = MESSAGE_PERSONA_ROOT_SIGN_REQUEST" "k = MAX_DOMAIN_REQUEST_PAYLOAD_BYTES"
  | "t = MESSAGE_PERSONA_TRANSITION_SIGN_REQUEST" "k = MAX_PERSONA_TRANSITION_REQUEST_PAYLOAD_BYTES"
  | "t = MESSAGE_RECOVERY_PARTICIPATION_REQUEST" "k = MAX_RECOVERY_PARTICIPATION_REQUEST_PAYLOAD_BYTES"
    by (auto simp: request_limit_def split: if_splits)
  then show ?thesis
    by cases (use assms(1, 3) in \<open>simp_all add: decode_sign_request_def request_decoders ipc_message_types\<close>)
qed

lemma decode_sign_request_head_Ok:
  assumes "decode_sign_request E m = Ok r"
  shows "\<exists>t k p. request_limit t = Some k \<and> ipc_decode_header m t k = Ok p"
proof -
  obtain t where t: "ipc_decode_common_header m = Ok t" using assms by (auto simp: decode_sign_request_def)
  then obtain k where k: "request_limit t = Some k" using assms
    by (cases "request_limit t") (auto simp: decode_sign_request_def request_limit_def split: if_splits)
  with t assms decode_sign_request_head_Err [of m t k _ E] show ?thesis
    by (cases "ipc_decode_header m t k") auto
qed

interpretation ipc_requests: framed_codec IPC_MAGIC TruncatedHeader InvalidMagic PayloadTooLarge TruncatedPayload
  TrailingBytes UnsupportedVersion UnsupportedMessageType UnsupportedFlags
  ipc_encode_header ipc_decode_common_header ipc_decode_header
  "encode_sign_request E" "decode_sign_request E" sign_request_typed request_limit for E :: "'z wire_ext_scheme"
proof unfold_locales
  show "decode_sign_request E m = Ok r \<longleftrightarrow> sign_request_typed r \<and> encode_sign_request E r = Ok m" for m r
    by (rule decode_sign_request_iff)
  show "k < 2 ^ 32" if "request_limit t = Some k" for t k
    using that by (auto simp: request_limit_def ipc_sizes split: if_splits)
  show "decode_sign_request E m = Err e" if "ipc_decode_common_header m = Err e" for m e
    using that by (simp add: decode_sign_request_def)
qed (blast intro: decode_sign_request_head_Err decode_sign_request_head_Ok)+

section \<open>Responses\<close>

definition response_limit :: "u16 \<Rightarrow> nat option" where
  "response_limit t = (if t = MESSAGE_SIGN_APPROVED then Some 0
     else if t = MESSAGE_SIGN_REJECTED then Some RESPONSE_PREFIX_BYTES else None)"

lemma decode_sign_response_iff: "decode_sign_response m = Ok r \<longleftrightarrow> m = encode_sign_response r"
proof
  assume dec: "decode_sign_response m = Ok r"
  then obtain t where t: "ipc_decode_common_header m = Ok t" by (auto simp: decode_sign_response_def)
  show "m = encode_sign_response r"
  proof (cases "t = MESSAGE_SIGN_APPROVED")
    case True
    with dec t obtain p where "ipc_decode_header m MESSAGE_SIGN_APPROVED 0 = Ok p" "r = Approved"
      by (auto simp: decode_sign_response_def)
    then show ?thesis by (simp add: encode_sign_response_def ipc_framing.decode_head_iff)
  next
    case False
    with dec t obtain p code where head: "ipc_decode_header m MESSAGE_SIGN_REJECTED RESPONSE_PREFIX_BYTES = Ok p"
      and p: "length p = 4" "drop 2 p = [0, 0]" "read_u16 p 0 = rejection_code_u16 code" and r: "r = Rejected code"
      by (auto simp: decode_sign_response_def decode_rejection_code_iff RESPONSE_PREFIX_BYTES_def split: if_splits)
    have "p = pieces 0 [2] p" by (subst pieces_id) auto
    with p have "p = u16_to_be_bytes (rejection_code_u16 code) @ u16_to_be_bytes 0"
      by (simp add: slice_u16 [of 2 0] zero_be_bytes)
    with head r p show ?thesis
      by (simp add: encode_sign_response_def ipc_framing.decode_head_iff RESPONSE_PREFIX_BYTES_def)
  qed
next
  assume m: "m = encode_sign_response r"
  show "decode_sign_response m = Ok r"
  proof (cases r)
    case Approved
    then have "m = ipc_encode_header MESSAGE_SIGN_APPROVED 0 @ []" by (simp add: m encode_sign_response_def)
    then have "ipc_decode_common_header m = Ok MESSAGE_SIGN_APPROVED" "ipc_decode_header m MESSAGE_SIGN_APPROVED 0 = Ok []"
      by (simp_all only: ipc_framing.decode_common_head) (simp add: ipc_framing.decode_head_iff)
    with Approved show ?thesis by (simp add: decode_sign_response_def)
  next
    case (Rejected code)
    define p where "p = u16_to_be_bytes (rejection_code_u16 code) @ u16_to_be_bytes 0"
    have p: "length p = 4" "drop 2 p = [0, 0]" "read_u16 p 0 = rejection_code_u16 code"
      by (simp_all add: p_def wire zero_be_bytes)
    have "m = ipc_encode_header MESSAGE_SIGN_REJECTED 4 @ p"
      by (simp add: m Rejected encode_sign_response_def RESPONSE_PREFIX_BYTES_def p_def)
    then have "ipc_decode_common_header m = Ok MESSAGE_SIGN_REJECTED" "ipc_decode_header m MESSAGE_SIGN_REJECTED 4 = Ok p"
      by (simp_all add: ipc_framing.decode_common_head ipc_framing.decode_head_iff p(1))
    moreover have "decode_rejection_code (rejection_code_u16 code) = Ok code" by (simp add: decode_rejection_code_iff)
    ultimately show ?thesis using p
      by (simp add: decode_sign_response_def Rejected RESPONSE_PREFIX_BYTES_def ipc_message_types)
  qed
qed

lemma decode_sign_response_head_Err:
  assumes "ipc_decode_common_header m = Ok t" "response_limit t = Some k" "ipc_decode_header m t k = Err e"
  shows "decode_sign_response m = Err e"
  using assms by (auto simp: decode_sign_response_def response_limit_def split: if_splits)

lemma decode_sign_response_head_Ok:
  assumes "decode_sign_response m = Ok r"
  shows "\<exists>t k p. response_limit t = Some k \<and> ipc_decode_header m t k = Ok p"
proof -
  obtain t where t: "ipc_decode_common_header m = Ok t" using assms by (auto simp: decode_sign_response_def)
  then obtain k where k: "response_limit t = Some k" using assms
    by (cases "response_limit t") (auto simp: decode_sign_response_def response_limit_def split: if_splits)
  with t assms decode_sign_response_head_Err [of m t k] show ?thesis
    by (cases "ipc_decode_header m t k") auto
qed

interpretation ipc_responses: framed_codec IPC_MAGIC TruncatedHeader InvalidMagic PayloadTooLarge TruncatedPayload
  TrailingBytes UnsupportedVersion UnsupportedMessageType UnsupportedFlags
  ipc_encode_header ipc_decode_common_header ipc_decode_header
  "\<lambda>response. Ok (encode_sign_response response)" decode_sign_response "\<lambda>_. True" response_limit
proof unfold_locales
  show "decode_sign_response m = Ok r \<longleftrightarrow> True \<and> Ok (encode_sign_response r) = Ok m" for m r
    by (auto simp: decode_sign_response_iff)
  show "k < 2 ^ 32" if "response_limit t = Some k" for t k
    using that by (auto simp: response_limit_def ipc_sizes split: if_splits)
  show "decode_sign_response m = Err e" if "ipc_decode_common_header m = Err e" for m e
    using that by (simp add: decode_sign_response_def)
qed (blast intro: decode_sign_response_head_Err decode_sign_response_head_Ok)+

end
