(* ===== verification/Wire_Demo.thy ===== *)
theory Wire_Demo
  imports Approval Ipc_Protocol Domain_Control
begin

text \<open>
  A concrete environment for the protocols, in which the documented laws of the \<^verbatim>\<open>uuid\<close> crate hold, and a
  prompt in it.
\<close>

definition uuid_be_bytes :: "Uuid \<Rightarrow> bytes" where
  "uuid_be_bytes u = u64_to_be_bytes (ucast (drop_bit 64 u)) @ u64_to_be_bytes (ucast u)"

definition uuid_of_be_bytes :: "bytes \<Rightarrow> Uuid option" where
  "uuid_of_be_bytes bs =
     (if length bs = 16 then Some (push_bit 64 (ucast (read_u64 bs 0)) OR ucast (read_u64 bs 8)) else None)"

lemma uuid_halves: "push_bit 64 (ucast (ucast (drop_bit 64 u) :: u64)) OR ucast (ucast u :: u64) = (u :: Uuid)"
proof (rule bit_word_eqI)
  fix n assume "n < LENGTH(128)"
  then consider "n < 64" | "64 \<le> n" "n < 128" by fastforce
  then show "bit (push_bit 64 (ucast (ucast (drop_bit 64 u) :: u64)) OR ucast (ucast u :: u64) :: Uuid) n = bit u n"
    by cases (auto simp: bit_simps)
qed

lemma uuid_joined:
  fixes v w :: u64
  defines "j \<equiv> push_bit 64 (ucast v) OR ucast w :: Uuid"
  shows "ucast (drop_bit 64 j) = v" "ucast j = w"
  unfolding j_def by (rule bit_word_eqI; auto simp: bit_simps dest: bit_imp_le_length)+

lemma length_uuid_be_bytes: "length (uuid_be_bytes u) = 16"
  by (simp add: uuid_be_bytes_def u64_to_be_bytes_def u32_to_be_bytes_def)

lemma uuid_bytes_inverse: "uuid_of_be_bytes bs = Some u \<longleftrightarrow> uuid_be_bytes u = bs"
proof
  assume u: "uuid_of_be_bytes bs = Some u"
  then have len: "length bs = 16" and u: "u = push_bit 64 (ucast (read_u64 bs 0)) OR ucast (read_u64 bs 8)"
    by (auto simp: uuid_of_be_bytes_def split: if_splits)
  have "uuid_be_bytes u = slice bs 0 8 @ slice bs 8 16"
    unfolding u uuid_be_bytes_def uuid_joined using len by (simp add: slice_u64)
  also have "\<dots> = bs" using len by (simp add: slice_def)
  finally show "uuid_be_bytes u = bs" .
next
  assume "uuid_be_bytes u = bs"
  then have bs: "bs = u64_to_be_bytes (ucast (drop_bit 64 u)) @ u64_to_be_bytes (ucast u)" by (simp add: uuid_be_bytes_def)
  have "read_u64 bs 0 = ucast (drop_bit 64 u)" "read_u64 bs 8 = ucast u"
    using slice_u64 [of 8 0 bs] slice_u64 [of 16 8 bs]
    by (simp_all add: bs read_u64_here wire u64_to_be_bytes_def u32_to_be_bytes_def read_u64_def u64_from_be_bytes_def
        u32_be_bytes_inverse u64_halves)
  then show "uuid_of_be_bytes bs = Some u"
    using length_uuid_be_bytes [of u] \<open>uuid_be_bytes u = bs\<close> by (simp add: uuid_of_be_bytes_def uuid_halves)
qed

definition demo_uuid_text :: "Uuid \<Rightarrow> string" where
  "demo_uuid_text u =
     (let h = hex_encode (uuid_be_bytes u)
      in take 8 h @ ''-'' @ take 4 (drop 8 h) @ ''-'' @ take 4 (drop 12 h) @ ''-'' @ take 4 (drop 16 h) @ ''-'' @ drop 20 h)"

definition demo_wire :: wire_ext where
  "demo_wire =
     \<lparr>base64_decode = (\<lambda>s. Ok (as_bytes s)),
      base64_nopad_decode = (\<lambda>s. Ok (as_bytes s)), base64_nopad_encode = map char_from,
      base64url_decode = (\<lambda>s. Ok (as_bytes s)), base64url_encode = map char_from,
      sha256 = (\<lambda>bs. take 32 (bs @ replicate 32 0)), key_from_openssh = (\<lambda>_. Some Ed25519), sshsig_algorithm = (\<lambda>_. Some AlgOther),
      key_verify = (\<lambda>_ _ _ _. True), keygen_metadata = None, process_env = (\<lambda>_. None), keygen_spawn = (\<lambda>_ _ _. Err ''none''),
      uuid_parse_str = (\<lambda>s. if s = demo_uuid_text 5 then Some 5 else None), uuid_to_string = demo_uuid_text,
      uuid_from_slice = uuid_of_be_bytes, uuid_as_bytes = uuid_be_bytes, uuid_is_nil = (\<lambda>u. u = 0), base64_encode = map char_from\<rparr>"

lemma demo_wire_law: "uuid_bytes_law demo_wire"
  by (simp add: uuid_bytes_law_def demo_wire_def uuid_bytes_inverse length_uuid_be_bytes)

definition demo_fingerprint :: string where "demo_fingerprint = ''SHA256:'' @ replicate 32 (CHR ''A'')"

definition demo_prompt_of :: "bytes \<Rightarrow> u64 \<Rightarrow> ApprovalPrompt" where
  "demo_prompt_of digest len =
     \<lparr>ap_request_id = 7, ap_persona_id = Some 5, ap_persona_label = ''p'', ap_persona_purpose = Some PromptPersonal,
      ap_key_fingerprint = demo_fingerprint,
      ap_subject = ApproveArtifact \<lparr>aa_artifact_kind = PromptGeneric, aa_artifact_label = ''file'',
        aa_artifact_sha256 = digest, aa_artifact_size = len\<rparr>,
      ap_peer = \<lparr>peer_pid = 9, peer_uid = 1000, peer_gid = 1000\<rparr>\<rparr>"

definition demo_prompt :: ApprovalPrompt where
  "demo_prompt = demo_prompt_of (replicate 32 0) 3"

lemma plain_text:
  assumes "\<forall>c\<in>set s. terminal_safe c \<and> c \<noteq> CHR '' ''" "s \<noteq> []" "length s \<le> maximum"
  shows "validate_text field s maximum = Ok ()"
  using assms terminal_safe_trim [OF assms(1)] terminal_safe_display [of s] by (simp add: validate_text_def)

lemma demo_prompt_valid: "validate_prompt demo_wire (demo_prompt_of digest len) = Ok ()"
proof -
  have plain: "validate_text field ''p'' MAX_PERSONA_LABEL_BYTES = Ok ()"
    "validate_text field ''file'' PROMPT_MAX_ARTIFACT_LABEL_BYTES = Ok ()"
    "validate_text field demo_fingerprint MAX_KEY_FINGERPRINT_BYTES = Ok ()" for field
    by (rule plain_text; simp add: terminal_safe_def demo_fingerprint_def MAX_PERSONA_LABEL_BYTES_def
        PROMPT_MAX_ARTIFACT_LABEL_BYTES_def MAX_KEY_FINGERPRINT_BYTES_def)+
  have "approval_validate_key_fingerprint demo_wire field demo_fingerprint = Ok ()" for field
    unfolding approval_validate_key_fingerprint_def plain
    by (simp add: demo_fingerprint_def strip_prefix_def demo_wire_def)
  then show ?thesis
    by (simp add: validate_prompt_def validate_local_persona_def demo_prompt_of_def demo_wire_def plain)
qed

lemma terminal_safe_is_utf8: "\<forall>c\<in>set s. terminal_safe c \<Longrightarrow> is_utf8 s"
  by (auto simp: is_utf8_def terminal_safe_utf8 list_all_iff terminal_safe_def Let_def dest!: bspec)

lemma demo_uuid_text_safe: "c \<in> set (demo_uuid_text u) \<Longrightarrow> terminal_safe c"
proof -
  assume "c \<in> set (demo_uuid_text u)"
  then have "c = CHR ''-'' \<or> c \<in> set (hex_encode (uuid_be_bytes u))"
    by (auto simp: demo_uuid_text_def Let_def dest!: in_set_takeD in_set_dropD)
  then show ?thesis using hex_encode_lower [of c "uuid_be_bytes u"] by (auto simp: terminal_safe_def is_lower_hexdigit_def Let_def)
qed

lemma demo_uuid_text_shape: "length (demo_uuid_text u) = 36" "is_utf8 (demo_uuid_text u)"
  by (simp add: demo_uuid_text_def Let_def length_uuid_be_bytes) (auto intro: terminal_safe_is_utf8 demo_uuid_text_safe)

lemma demo_prompt_typed: "prompt_typed demo_prompt"
proof -
  have "is_utf8 ''p''" "is_utf8 ''file''" "is_utf8 demo_fingerprint"
    by (rule terminal_safe_is_utf8; simp add: terminal_safe_def demo_fingerprint_def)+
  then show ?thesis by (simp add: prompt_typed_def demo_prompt_def demo_prompt_of_def)
qed

lemma demo_prompt_encodes: "\<exists>m. encode_prompt demo_wire demo_prompt = Ok m"
  unfolding encode_prompt_def demo_prompt_def demo_prompt_valid
  by (simp add: demo_prompt_of_def encode_artifact_prompt_def required_persona_purpose_def prompt_required_persona_id_def
      checked_sum_def usize_checked_add_def ARTIFACT_PROMPT_PREFIX_BYTES_def demo_fingerprint_def)

end
