(* ===== verification/Ipc_Transport.thy ===== *)
theory Ipc_Transport
  imports Ipc_Protocol Artifact Recovery_Ceremony
begin

text \<open>
  The Linux transport of the consent protocol (\<^verbatim>\<open>src/crates/a-quo-ipc/src/linux.rs\<close>): packets with
  exactly one descriptor, immutable snapshots of what a client passed, and sealed proofs. The
  kernel's answers (metadata, reads, seals, received messages) are arguments; a file that changes
  while it is read is a file whose reads answer differently. The lemmas show what a snapshot
  guarantees whatever the file does: its descriptor names the sealed bytes, and they stay within the
  limit.
\<close>

unbundle bit_operations_syntax

section \<open>Constants and errors\<close>

definition MAX_ARTIFACT_BYTES :: nat where "MAX_ARTIFACT_BYTES = 512 * 1024 * 1024"
definition MAX_DOMAIN_STATEMENT_BYTES :: nat where "MAX_DOMAIN_STATEMENT_BYTES = 4 * 1024"
definition MAX_PERSONA_ROOT_STATEMENT_BYTES :: nat where
  "MAX_PERSONA_ROOT_STATEMENT_BYTES = MAX_CONTINUITY_PAYLOAD_BYTES"
definition MAX_PERSONA_TRANSITION_PUBLIC_KEY_BYTES :: nat where "MAX_PERSONA_TRANSITION_PUBLIC_KEY_BYTES = 16 * 1024"
definition MAX_RECOVERY_PARTICIPATION_REQUEST_BYTES :: nat where
  "MAX_RECOVERY_PARTICIPATION_REQUEST_BYTES = MAX_RECOVERY_CEREMONY_REQUEST_BYTES"

datatype SealFlag = SealSeal | SealShrink | SealGrow | SealWrite | SealOther

definition SNAPSHOT_SEALS :: "SealFlag set" where
  "SNAPSHOT_SEALS = {SealSeal, SealShrink, SealGrow, SealWrite}"

datatype LinuxIpcError =
    Protocol IpcProtocolError
  | SocketError
  | TruncatedPacket
  | TruncatedDescriptors
  | WrongDescriptorCount nat
  | UnsupportedAncillaryData
  | PartialPacket
  | ForeignPeer u32 u32
  | ArtifactNotRegular
  | InvalidTransitionPublicKeyDescriptor
  | TransitionPublicKeyTooLarge
  | InvalidRecoveryParticipationRequestDescriptor
  | RecoveryParticipationRequestTooLarge
  | UnsealedRecoveryParticipationRequest
  | ArtifactTooLarge nat
  | InvalidSnapshotLimit nat
  | FileIo
  | Sealing
  | IncompleteSeals
  | ProofTooLarge
  | InvalidProofDescriptor
  | UnsealedProof
  | UnsafeSocketPath string string
  | SocketPathIo string

type_synonym 'a linux = "('a, LinuxIpcError) result"

section \<open>The kernel's answers\<close>

record PeerCredentials =
  pc_pid :: int
  pc_uid :: u32
  pc_gid :: u32

datatype ConnectionState = Waiting | Closed | ExtraData

text \<open>
  A descriptor that was received: its metadata (regular file, length), what \<^verbatim>\<open>read_at\<close> returns for
  an offset and a buffer length, and its seals. \<^term>\<open>None\<close> is an error.
\<close>

record SourceFile =
  sf_metadata :: "(bool \<times> nat) option"
  sf_read_at :: "nat \<Rightarrow> nat \<Rightarrow> bytes option"
  sf_seals :: "SealFlag set option"

text \<open>A new memory file: whether each call on it succeeds, and the seals the kernel reports.\<close>

record Memfd =
  mf_create :: bool
  mf_write :: "nat \<Rightarrow> bool"
  mf_flush :: bool
  mf_add_seals :: bool
  mf_get_seals :: "SealFlag set option"
  mf_seek :: bool

record SealedArtifact =
  sa_bytes :: bytes
  sa_descriptor :: ArtifactDescriptor

record SealedProof =
  sp_bytes :: bytes
  sp_size :: nat

section \<open>Sealing and snapshots\<close>

definition apply_and_verify_seals :: "Memfd \<Rightarrow> unit linux" where
  "apply_and_verify_seals mem =
     (if \<not> mf_add_seals mem then Err Sealing
      else and_then (ok_or Sealing (mf_get_seals mem)) (\<lambda>applied.
      if \<not> SNAPSHOT_SEALS \<subseteq> applied then Err IncompleteSeals
      else Ok ()))"

text \<open>
  The copying loop of \<^verbatim>\<open>snapshot_artifact\<close> and \<^verbatim>\<open>snapshot_stream\<close>: the size so far is the number of
  bytes written, and one byte more than remains is requested, so that a longer source is noticed.
\<close>

function snapshot_loop :: "SourceFile \<Rightarrow> Memfd \<Rightarrow> nat \<Rightarrow> bytes \<Rightarrow> bytes linux" where
  "snapshot_loop source mem maximum written =
     (let remaining = maximum - length written;
          read_limit = (if remaining < 64 * 1024 then remaining + 1 else 64 * 1024)
      in case sf_read_at source (length written) read_limit of
        None \<Rightarrow> Err FileIo
      | Some chunk \<Rightarrow>
          if chunk = [] then Ok written
          else if remaining < length chunk then Err (ArtifactTooLarge maximum)
          else if \<not> mf_write mem (length written) then Err FileIo
          else snapshot_loop source mem maximum (written @ chunk))"
  by pat_completeness auto
termination
proof (relation "measure (\<lambda>(source, mem, maximum, written). maximum - length written)")
  fix source mem maximum remaining limit and written chunk :: bytes
  assume "remaining = maximum - length written" "chunk \<noteq> []" "\<not> remaining < length chunk"
  then show "((source, mem, maximum, written @ chunk), source, mem, maximum, written)
      \<in> measure (\<lambda>(source, mem, maximum, written). maximum - length written)"
    by (cases chunk) auto
qed simp

declare snapshot_loop.simps [simp del]

definition finish_snapshot :: "'z ext_scheme \<Rightarrow> Memfd \<Rightarrow> bytes \<Rightarrow> SealedArtifact linux" where
  "finish_snapshot E mem written =
     (if \<not> mf_flush mem then Err FileIo
      else and_then (apply_and_verify_seals mem) (\<lambda>_.
      if \<not> mf_seek mem then Err FileIo
      else Ok \<lparr>sa_bytes = written, sa_descriptor = artifact_descriptor E written (of_nat (length written))\<rparr>))"

definition snapshot_artifact :: "'z ext_scheme \<Rightarrow> SourceFile \<Rightarrow> Memfd \<Rightarrow> nat \<Rightarrow> SealedArtifact linux" where
  "snapshot_artifact E source mem maximum =
     (if maximum = 0 \<or> MAX_ARTIFACT_BYTES < maximum then Err (InvalidSnapshotLimit maximum)
      else and_then (ok_or FileIo (sf_metadata source)) (\<lambda>(is_file, len).
      if \<not> is_file then Err ArtifactNotRegular
      else if maximum < len then Err (ArtifactTooLarge maximum)
      else if \<not> mf_create mem then Err Sealing
      else and_then (snapshot_loop source mem maximum []) (finish_snapshot E mem)))"

definition snapshot_stream :: "'z ext_scheme \<Rightarrow> SourceFile \<Rightarrow> Memfd \<Rightarrow> nat \<Rightarrow> SealedArtifact linux" where
  "snapshot_stream E source mem maximum =
     (if maximum = 0 \<or> MAX_ARTIFACT_BYTES < maximum then Err (InvalidSnapshotLimit maximum)
      else if \<not> mf_create mem then Err Sealing
      else and_then (snapshot_loop source mem maximum []) (finish_snapshot E mem))"

text \<open>
  Positional reads of a sealed file until its size is reached. Each element of the schedule is one
  call: how many bytes it delivers, an interrupted call (which is repeated), or an error. The result
  is \<^term>\<open>None\<close> while the schedule has not brought the loop to its end.
\<close>

datatype read_call = Reads nat | Interrupted | ReadFails

fun read_sealed :: "bytes \<Rightarrow> nat \<Rightarrow> read_call list \<Rightarrow> nat \<Rightarrow> bytes linux option" where
  "read_sealed contents len calls offset =
     (if len \<le> offset then Some (Ok (take len contents))
      else case calls of
        [] \<Rightarrow> None
      | Interrupted # rest \<Rightarrow> read_sealed contents len rest offset
      | ReadFails # rest \<Rightarrow> Some (Err FileIo)
      | Reads n # rest \<Rightarrow>
          (let got = min n (min (len - offset) (length contents - offset))
           in if got = 0 then Some (Err FileIo) else read_sealed contents len rest (offset + got)))"

declare read_sealed.simps [simp del]

definition read_bytes_bounded :: "SealedArtifact \<Rightarrow> read_call list \<Rightarrow> nat \<Rightarrow> bytes linux option" where
  "read_bytes_bounded artifact calls maximum =
     (let len = unat (ad_size (sa_descriptor artifact))
      in if maximum = 0 \<or> maximum < len then Some (Err (ArtifactTooLarge maximum))
      else read_sealed (sa_bytes artifact) len calls 0)"

definition read_proof_bytes :: "SealedProof \<Rightarrow> read_call list \<Rightarrow> bytes linux option" where
  "read_proof_bytes pf calls = read_sealed (sp_bytes pf) (sp_size pf) calls 0"

definition seal_proof_bytes :: "Memfd \<Rightarrow> bytes \<Rightarrow> SealedProof linux" where
  "seal_proof_bytes mem bs =
     (if bs = [] then Err InvalidProofDescriptor
      else if MAX_PROOF_BYTES < length bs then Err ProofTooLarge
      else if \<not> mf_create mem then Err Sealing
      else if \<not> mf_write mem 0 then Err FileIo
      else if \<not> mf_flush mem then Err FileIo
      else and_then (apply_and_verify_seals mem) (\<lambda>_.
      if \<not> mf_seek mem then Err FileIo
      else Ok \<lparr>sp_bytes = bs, sp_size = length bs\<rparr>))"

section \<open>Descriptors\<close>

definition validate_proof_file :: "SourceFile \<Rightarrow> nat linux" where
  "validate_proof_file file =
     and_then (ok_or FileIo (sf_metadata file)) (\<lambda>(is_file, len).
     if \<not> is_file \<or> len = 0 then Err InvalidProofDescriptor
     else if MAX_PROOF_BYTES < len then Err ProofTooLarge
     else and_then (ok_or UnsealedProof (sf_seals file)) (\<lambda>seals.
     if \<not> SNAPSHOT_SEALS \<subseteq> seals then Err UnsealedProof
     else Ok len))"

definition validate_transition_public_key_descriptor :: "SourceFile \<Rightarrow> SourceFile linux" where
  "validate_transition_public_key_descriptor file =
     and_then (ok_or FileIo (sf_metadata file)) (\<lambda>(is_file, len).
     if \<not> is_file \<or> len = 0 then Err InvalidTransitionPublicKeyDescriptor
     else if MAX_PERSONA_TRANSITION_PUBLIC_KEY_BYTES < len then Err TransitionPublicKeyTooLarge
     else Ok file)"

definition validate_recovery_participation_request_descriptor :: "SourceFile \<Rightarrow> SourceFile linux" where
  "validate_recovery_participation_request_descriptor file =
     and_then (ok_or FileIo (sf_metadata file)) (\<lambda>(is_file, len).
     if \<not> is_file \<or> len = 0 then Err InvalidRecoveryParticipationRequestDescriptor
     else if MAX_RECOVERY_PARTICIPATION_REQUEST_BYTES < len then Err RecoveryParticipationRequestTooLarge
     else and_then (ok_or UnsealedRecoveryParticipationRequest (sf_seals file)) (\<lambda>seals.
     if \<not> SNAPSHOT_SEALS \<subseteq> seals then Err UnsealedRecoveryParticipationRequest
     else Ok file))"

section \<open>Packets\<close>

datatype Ancillary = ScmRights "SourceFile list" | OtherAncillary

text \<open>What \<^verbatim>\<open>recvmsg\<close> returned: the bytes placed in the buffer, the packet's length, the flags and the control data.\<close>

record RecvMsg =
  rm_packet :: bytes
  rm_length :: nat
  rm_trunc :: bool
  rm_ctrunc :: bool
  rm_ancillary :: "Ancillary list"

definition validate_received_packet :: "RecvMsg \<Rightarrow> nat \<Rightarrow> unit linux" where
  "validate_received_packet received buffer_len =
     (if rm_trunc received \<or> buffer_len < rm_length received then Err TruncatedPacket
      else if rm_ctrunc received then Err TruncatedDescriptors
      else Ok ())"

fun collect_descriptors :: "Ancillary list \<Rightarrow> SourceFile list linux" where
  "collect_descriptors [] = Ok []"
| "collect_descriptors (ScmRights rights # messages) =
     and_then (collect_descriptors messages) (\<lambda>more. Ok (rights @ more))"
| "collect_descriptors (OtherAncillary # messages) = Err UnsupportedAncillaryData"

record ReceivedSignRequest =
  rq_request :: SignRequest
  rq_input :: SourceFile
  rq_peer :: PeerCredentials

record ReceivedSignResponse =
  rs_response :: SignResponse
  rs_proof :: "(SourceFile \<times> nat) option"
  rs_peer :: PeerCredentials

definition receive_sign_request_from_peer ::
  "'z wire_ext_scheme \<Rightarrow> RecvMsg option \<Rightarrow> PeerCredentials \<Rightarrow> ReceivedSignRequest linux" where
  "receive_sign_request_from_peer E received peer =
     and_then (ok_or SocketError received) (\<lambda>received.
     and_then (validate_received_packet received MAX_REQUEST_PACKET_BYTES) (\<lambda>_.
     and_then (collect_descriptors (rm_ancillary received)) (\<lambda>descriptors.
     case descriptors of
       [input] \<Rightarrow>
         and_then (map_err Protocol (decode_sign_request E (take (rm_length received) (rm_packet received)))) (\<lambda>request.
         and_then
           (case sr_subject request of
              SubjectPersonaTransition _ _ _ _ _ \<Rightarrow> validate_transition_public_key_descriptor input
            | SubjectRecoveryParticipation _ _ _ _ _ _ _ _ _ \<Rightarrow> validate_recovery_participation_request_descriptor input
            | _ \<Rightarrow> Ok input) (\<lambda>input.
         Ok \<lparr>rq_request = request, rq_input = input, rq_peer = peer\<rparr>))
     | _ \<Rightarrow> Err (WrongDescriptorCount (length descriptors)))))"

definition receive_sign_request ::
  "'z wire_ext_scheme \<Rightarrow> u32 \<Rightarrow> PeerCredentials option \<Rightarrow> RecvMsg option \<Rightarrow> ReceivedSignRequest linux" where
  "receive_sign_request E expected_uid credentials received =
     and_then (ok_or SocketError credentials) (\<lambda>peer.
     if pc_uid peer \<noteq> expected_uid then Err (ForeignPeer (pc_uid peer) expected_uid)
     else receive_sign_request_from_peer E received peer)"

definition receive_sign_response_from_peer ::
  "RecvMsg option \<Rightarrow> bool \<Rightarrow> PeerCredentials \<Rightarrow> ReceivedSignResponse linux" where
  "receive_sign_response_from_peer received seeks peer =
     and_then (ok_or SocketError received) (\<lambda>received.
     and_then (validate_received_packet received MAX_RESPONSE_PACKET_BYTES) (\<lambda>_.
     and_then (collect_descriptors (rm_ancillary received)) (\<lambda>descriptors.
     and_then (map_err Protocol (decode_sign_response (take (rm_length received) (rm_packet received)))) (\<lambda>response.
     case (response, descriptors) of
       (Approved, [descriptor]) \<Rightarrow>
         and_then (validate_proof_file descriptor) (\<lambda>len.
         if \<not> seeks then Err FileIo
         else Ok \<lparr>rs_response = response, rs_proof = Some (descriptor, len), rs_peer = peer\<rparr>)
     | (Rejected _, []) \<Rightarrow> Ok \<lparr>rs_response = response, rs_proof = None, rs_peer = peer\<rparr>
     | _ \<Rightarrow> Err (WrongDescriptorCount (length descriptors))))))"

definition receive_sign_response ::
  "u32 \<Rightarrow> PeerCredentials option \<Rightarrow> RecvMsg option \<Rightarrow> bool \<Rightarrow> ReceivedSignResponse linux" where
  "receive_sign_response expected_uid credentials received seeks =
     and_then (ok_or SocketError credentials) (\<lambda>peer.
     if pc_uid peer \<noteq> expected_uid then Err (ForeignPeer (pc_uid peer) expected_uid)
     else receive_sign_response_from_peer received seeks peer)"

text \<open>The one-byte peek that tells whether the client waits, left or sent more.\<close>

datatype peek = PeekBytes nat | PeekAgain | PeekError

definition connection_state :: "peek \<Rightarrow> ConnectionState linux" where
  "connection_state p =
     (case p of
       PeekBytes n \<Rightarrow> Ok (if n = 0 then Closed else ExtraData)
     | PeekAgain \<Rightarrow> Ok Waiting
     | PeekError \<Rightarrow> Err SocketError)"

text \<open>Sending: the number of bytes that \<^verbatim>\<open>sendmsg\<close> reports, and whether the descriptor could be attached.\<close>

definition send_packet :: "bytes \<Rightarrow> nat option \<Rightarrow> unit linux" where
  "send_packet packet sent =
     and_then (ok_or SocketError sent) (\<lambda>sent. if sent \<noteq> length packet then Err PartialPacket else Ok ())"

definition send_packet_with_descriptor :: "bytes \<Rightarrow> bool \<Rightarrow> nat option \<Rightarrow> unit linux" where
  "send_packet_with_descriptor packet pushed sent =
     (if \<not> pushed then Err PartialPacket
      else and_then (ok_or SocketError sent) (\<lambda>sent. if sent \<noteq> length packet then Err PartialPacket else Ok ()))"

definition send_sign_request :: "'z wire_ext_scheme \<Rightarrow> SignRequest \<Rightarrow> bool \<Rightarrow> nat option \<Rightarrow> unit linux" where
  "send_sign_request E request pushed sent =
     and_then (map_err Protocol (encode_sign_request E request)) (\<lambda>packet. send_packet_with_descriptor packet pushed sent)"

definition send_sign_approved :: "SourceFile \<Rightarrow> bool \<Rightarrow> nat option \<Rightarrow> unit linux" where
  "send_sign_approved file pushed sent =
     and_then (validate_proof_file file) (\<lambda>_.
     send_packet_with_descriptor (encode_sign_response Approved) pushed sent)"

definition send_sign_rejected :: "RejectionCode \<Rightarrow> nat option \<Rightarrow> unit linux" where
  "send_sign_rejected code sent = send_packet (encode_sign_response (Rejected code)) sent"

section \<open>Connecting\<close>

record PathMetadata =
  pm_is_symlink :: bool
  pm_is_dir :: bool
  pm_is_file :: bool
  pm_is_socket :: bool
  pm_uid :: u32
  pm_mode :: u32
  pm_len :: nat
  pm_dev :: u64
  pm_ino :: u64

text \<open>
  The components of an absolute Unix path: the root, then the parts between slashes. Empty parts and
  \<^verbatim>\<open>.\<close> are skipped, as \<^verbatim>\<open>Path::components\<close> does.
\<close>

datatype path_component = RootDir | ParentDir | Normal string

fun path_parts :: "string \<Rightarrow> string list" where
  "path_parts [] = [[]]"
| "path_parts (c # cs) =
     (case path_parts cs of
       part # parts \<Rightarrow> if c = CHR ''/'' then [] # part # parts else (c # part) # parts
     | [] \<Rightarrow> [[c]])"

definition path_components :: "string \<Rightarrow> path_component list" where
  "path_components path =
     RootDir # map (\<lambda>p. if p = ''..'' then ParentDir else Normal p) (filter (\<lambda>p. p \<noteq> [] \<and> p \<noteq> ''.'') (path_parts path))"

text \<open>
  The parent is \<^verbatim>\<open>Path::parent\<close>, the modes are \<^verbatim>\<open>0o077\<close> and \<^verbatim>\<open>0o177\<close>; the metadata of both paths is what \<^verbatim>\<open>symlink_metadata\<close>
  returned.
\<close>

definition validate_consent_socket_path ::
  "string \<Rightarrow> string option \<Rightarrow> (string \<Rightarrow> PathMetadata option) \<Rightarrow> u32 \<Rightarrow> (u64 \<times> u64) linux" where
  "validate_consent_socket_path path parent metadata euid =
     (if \<not> is_absolute path then Err (UnsafeSocketPath path ''the path must be absolute'')
      else and_then (ok_or (UnsafeSocketPath path ''the path must have a parent directory'') parent) (\<lambda>parent.
      and_then (ok_or (SocketPathIo parent) (metadata parent)) (\<lambda>pm.
      if pm_is_symlink pm \<or> \<not> pm_is_dir pm \<or> pm_uid pm \<noteq> euid \<or> pm_mode pm AND 63 \<noteq> 0
      then Err (UnsafeSocketPath parent
        ''require a current-user-owned, non-symlink directory with mode 0700 or stricter'')
      else and_then (ok_or (SocketPathIo path) (metadata path)) (\<lambda>m.
      if \<not> pm_is_socket m \<or> pm_uid m \<noteq> euid \<or> pm_mode m AND 127 \<noteq> 0
      then Err (UnsafeSocketPath path ''require a current-user-owned, non-symlink socket with mode 0600'')
      else Ok (pm_dev m, pm_ino m)))))"

text \<open>
  The metadata is read before and after the connection is made. The calls in between are a flag each,
  in the order of the code: the socket, its two timeouts, the address and \<^verbatim>\<open>connect\<close>.
\<close>

definition connect_consent_socket ::
  "string \<Rightarrow> string option \<Rightarrow> (string \<Rightarrow> PathMetadata option) \<Rightarrow> (string \<Rightarrow> PathMetadata option) \<Rightarrow> u32 \<Rightarrow> bool list \<Rightarrow>
   PeerCredentials option \<Rightarrow> u32 \<Rightarrow> unit linux" where
  "connect_consent_socket path parent before after euid calls credentials expected =
     and_then (validate_consent_socket_path path parent before euid) (\<lambda>identity.
     if \<not> list_all id calls then Err SocketError
     else and_then (validate_consent_socket_path path parent after euid) (\<lambda>identity'.
     if identity' \<noteq> identity
     then Err (UnsafeSocketPath path ''the socket device or inode changed during connect'')
     else and_then (ok_or SocketError credentials) (\<lambda>peer.
     if pc_uid peer \<noteq> expected then Err (ForeignPeer (pc_uid peer) expected)
     else Ok ())))"

section \<open>What a snapshot guarantees\<close>

lemma snapshot_loop_bound:
  assumes "snapshot_loop source mem maximum written = Ok bs" "length written \<le> maximum"
  shows "length bs \<le> maximum \<and> take (length written) bs = written"
  using assms
proof (induction source mem maximum written rule: snapshot_loop.induct)
  case (1 source mem maximum written)
  let ?limit = "if maximum - length written < 64 * 1024 then maximum - length written + 1 else 64 * 1024"
  from "1.prems"(1) obtain chunk where read: "sf_read_at source (length written) ?limit = Some chunk"
    by (subst (asm) snapshot_loop.simps) (auto simp: Let_def split: option.splits)
  show ?case
  proof (cases "chunk = []")
    case True
    with read "1.prems" show ?thesis by (subst (asm) snapshot_loop.simps) (auto simp: Let_def split: option.splits)
  next
    case False
    with read "1.prems" have le: "\<not> maximum - length written < length chunk" and w: "\<not> \<not> mf_write mem (length written)"
      and rest: "snapshot_loop source mem maximum (written @ chunk) = Ok bs"
      by (subst (asm) snapshot_loop.simps, auto simp: Let_def split: if_splits)+
    then have "length (written @ chunk) \<le> maximum" using "1.prems"(2) by simp
    from "1.IH" [OF refl refl read False le w rest this]
    have "length bs \<le> maximum" "take (length (written @ chunk)) bs = written @ chunk" by simp_all
    then have "take (length written) (take (length (written @ chunk)) bs) = written" by simp
    with \<open>length bs \<le> maximum\<close> show ?thesis by (simp add: min_def split: if_splits)
  qed
qed

text \<open>A file that does not change while it is read: \<^verbatim>\<open>read_at\<close> delivers bytes at the offset, at least one if there is one.\<close>

definition stable_file :: "SourceFile \<Rightarrow> bytes \<Rightarrow> bool" where
  "stable_file source contents \<longleftrightarrow>
     (\<forall>offset limit. \<exists>n \<le> limit. sf_read_at source offset limit = Some (take n (drop offset contents))
        \<and> (0 < limit \<longrightarrow> 0 < n))"

lemma snapshot_loop_stable:
  assumes "stable_file source contents" "\<And>k. mf_write mem k" "written = take (length written) contents"
    "length written \<le> maximum"
  shows "snapshot_loop source mem maximum written =
    (if length contents \<le> maximum then Ok contents else Err (ArtifactTooLarge maximum))"
  using assms
proof (induction source mem maximum written rule: snapshot_loop.induct)
  case (1 source mem maximum written)
  let ?remaining = "maximum - length written"
  let ?limit = "if ?remaining < 64 * 1024 then ?remaining + 1 else 64 * 1024"
  have "0 < ?limit" by simp
  with "1.prems"(1) obtain n where n: "0 < n"
    and read: "sf_read_at source (length written) ?limit = Some (take n (drop (length written) contents))"
    unfolding stable_file_def by blast
  define chunk where "chunk = take n (drop (length written) contents)"
  note read = read [folded chunk_def]
  have step: "snapshot_loop source mem maximum written =
      (if chunk = [] then Ok written else if ?remaining < length chunk then Err (ArtifactTooLarge maximum)
       else snapshot_loop source mem maximum (written @ chunk))"
    using "1.prems"(2) by (subst snapshot_loop.simps) (simp only: Let_def read option.case, simp)
  show ?case
  proof (cases "chunk = []")
    case True
    with n have "length contents \<le> length written" by (simp add: chunk_def)
    with "1.prems"(3, 4) True step show ?thesis by simp
  next
    case False
    show ?thesis
    proof (cases "?remaining < length chunk")
      case True
      then have "maximum < length contents" by (simp add: chunk_def) linarith
      with True False step show ?thesis by simp
    next
      case le: False
      have w: "written @ chunk = take (length (written @ chunk)) contents"
      proof -
        have "take (length chunk) (drop (length written) contents) = chunk"
          unfolding chunk_def by (simp add: min_def)
        then show ?thesis using "1.prems"(3) by (metis length_append take_add)
      qed
      have "length (written @ chunk) \<le> maximum" using le "1.prems"(4) by simp
      from "1.IH" [OF refl refl read False le _ "1.prems"(1, 2) w this] "1.prems"(2) False le step
      show ?thesis by simp
    qed
  qed
qed

lemma snapshot_artifact_Ok:
  assumes "snapshot_artifact E source mem maximum = Ok a"
  shows "sa_descriptor a = artifact_descriptor E (sa_bytes a) (of_nat (length (sa_bytes a)))"
    "length (sa_bytes a) \<le> maximum" "maximum \<le> MAX_ARTIFACT_BYTES"
    "unat (ad_size (sa_descriptor a)) = length (sa_bytes a)"
proof -
  from assms obtain written where loop: "snapshot_loop source mem maximum [] = Ok written"
    and fin: "finish_snapshot E mem written = Ok a" and max: "maximum \<le> MAX_ARTIFACT_BYTES"
    by (auto simp: snapshot_artifact_def split: prod.splits)
  from fin have a: "a = \<lparr>sa_bytes = written, sa_descriptor = artifact_descriptor E written (of_nat (length written))\<rparr>"
    by (auto simp: finish_snapshot_def)
  have len: "length written \<le> maximum" using snapshot_loop_bound [OF loop] by simp
  show "sa_descriptor a = artifact_descriptor E (sa_bytes a) (of_nat (length (sa_bytes a)))" "length (sa_bytes a) \<le> maximum"
    "maximum \<le> MAX_ARTIFACT_BYTES" using a len max by simp_all
  have "length written < 2 ^ 64" using len max by (simp add: MAX_ARTIFACT_BYTES_def)
  then show "unat (ad_size (sa_descriptor a)) = length (sa_bytes a)"
    by (simp add: a artifact_descriptor_def unat_of_nat)
qed

lemma read_sealed_shapes:
  "len \<le> offset \<Longrightarrow> read_sealed contents len calls offset = Some (Ok (take len contents))"
  "\<not> len \<le> offset \<Longrightarrow> read_sealed contents len [] offset = None"
  "\<not> len \<le> offset \<Longrightarrow> read_sealed contents len (Interrupted # rest) offset = read_sealed contents len rest offset"
  "\<not> len \<le> offset \<Longrightarrow> read_sealed contents len (ReadFails # rest) offset = Some (Err FileIo)"
  "\<not> len \<le> offset \<Longrightarrow> read_sealed contents len (Reads n # rest) offset =
     (let got = min n (min (len - offset) (length contents - offset))
      in if got = 0 then Some (Err FileIo) else read_sealed contents len rest (offset + got))"
  by (subst read_sealed.simps; simp)+

lemma read_sealed_contents:
  "read_sealed contents len calls offset = Some (Ok bs) \<Longrightarrow> bs = take len contents"
proof (induction contents len calls offset rule: read_sealed.induct)
  case (1 contents len calls offset)
  show ?case
  proof (cases "len \<le> offset")
    case True
    with "1.prems" show ?thesis by (simp add: read_sealed_shapes)
  next
    case False
    with "1.prems" obtain c rest where calls: "calls = c # rest"
      by (cases calls) (simp_all add: read_sealed_shapes)
    let ?got = "\<lambda>n. min n (min (len - offset) (length contents - offset))"
    show ?thesis
    proof (cases c)
      case (Reads n)
      with "1.prems" False calls have "?got n \<noteq> 0" "read_sealed contents len rest (offset + ?got n) = Some (Ok bs)"
        by (simp_all add: read_sealed_shapes Let_def split: if_splits)
      with "1.IH"(1) [OF False calls Reads refl] show ?thesis by blast
    next
      case Interrupted
      with "1.prems" False calls have "read_sealed contents len rest offset = Some (Ok bs)"
        by (simp add: read_sealed_shapes)
      with "1.IH"(2) [OF False calls Interrupted] show ?thesis by blast
    next
      case ReadFails
      with "1.prems" False calls show ?thesis by (simp add: read_sealed_shapes)
    qed
  qed
qed

lemma read_bytes_bounded_Ok:
  assumes "snapshot_artifact E source mem maximum = Ok a" "read_bytes_bounded a calls limit = Some (Ok bs)"
  shows "bs = sa_bytes a \<and> length bs \<le> limit"
proof -
  note size = snapshot_artifact_Ok(4) [OF assms(1)]
  from assms(2) have "length (sa_bytes a) \<le> limit" "bs = take (length (sa_bytes a)) (sa_bytes a)"
    by (auto simp: read_bytes_bounded_def Let_def size not_less split: if_splits dest: read_sealed_contents)
  then show ?thesis by simp
qed

text \<open>Every call that delivers bytes brings the loop forward, so as many of them as there are bytes end it.\<close>

lemma read_sealed_returns:
  assumes "length (filter (\<lambda>c. c \<noteq> Interrupted) calls) \<ge> len - offset" "\<forall>c\<in>set calls. c = Interrupted \<or> (\<exists>n>0. c = Reads n)"
    "len \<le> length contents"
  shows "read_sealed contents len calls offset = Some (Ok (take len contents))"
  using assms
proof (induction contents len calls offset rule: read_sealed.induct)
  case (1 contents len calls offset)
  show ?case
  proof (cases "len \<le> offset")
    case True
    then show ?thesis by (simp add: read_sealed_shapes)
  next
    case False
    with "1.prems"(1) obtain c rest where calls: "calls = c # rest" by (cases calls) auto
    consider "c = Interrupted" | n where "c = Reads n" "0 < n" using "1.prems"(2) calls by auto
    then show ?thesis
    proof cases
      case 1
      with "1.IH"(2) [OF False calls 1] "1.prems" calls have "read_sealed contents len rest offset = Some (Ok (take len contents))"
        by simp
      with 1 False calls show ?thesis by (simp add: read_sealed_shapes)
    next
      case (2 n)
      let ?got = "min n (min (len - offset) (length contents - offset))"
      have got: "?got \<noteq> 0" using 2 False "1.prems"(3) by auto
      have "len - (offset + ?got) \<le> length (filter (\<lambda>c. c \<noteq> Interrupted) rest)"
        using "1.prems"(1) got calls 2 by auto
      with "1.IH"(1) [OF False calls 2(1) refl got] "1.prems" calls
      have "read_sealed contents len rest (offset + ?got) = Some (Ok (take len contents))" by simp
      with 2 False calls got show ?thesis by (simp add: read_sealed_shapes Let_def)
    qed
  qed
qed

lemma seal_proof_bytes_Ok:
  "seal_proof_bytes mem bs = Ok pf \<Longrightarrow> sp_bytes pf = bs \<and> sp_size pf = length bs \<and> bs \<noteq> [] \<and> length bs \<le> MAX_PROOF_BYTES"
  by (auto simp: seal_proof_bytes_def)

text \<open>A received request was decoded from the packet, comes from the expected user and carries one descriptor.\<close>

lemma receive_sign_request_Ok:
  assumes "receive_sign_request E uid credentials received = Ok q"
  shows "pc_uid (rq_peer q) = uid \<and> (\<exists>m. received = Some m \<and> rm_length m \<le> MAX_REQUEST_PACKET_BYTES
    \<and> decode_sign_request E (take (rm_length m) (rm_packet m)) = Ok (rq_request q)
    \<and> collect_descriptors (rm_ancillary m) = Ok [rq_input q])"
proof -
  from assms obtain peer m ds where peer: "pc_uid peer = uid" and m: "received = Some m"
    and v: "validate_received_packet m MAX_REQUEST_PACKET_BYTES = Ok ()"
    and ds: "collect_descriptors (rm_ancillary m) = Ok ds" and rest: "receive_sign_request_from_peer E received peer = Ok q"
    by (auto simp: receive_sign_request_def receive_sign_request_from_peer_def)
  obtain d where d: "ds = [d]"
    using rest m v ds by (auto simp: receive_sign_request_from_peer_def split: list.splits)
  with rest m v ds obtain r input where r: "decode_sign_request E (take (rm_length m) (rm_packet m)) = Ok r"
    and input: "(case sr_subject r of
              SubjectPersonaTransition _ _ _ _ _ \<Rightarrow> validate_transition_public_key_descriptor d
            | SubjectRecoveryParticipation _ _ _ _ _ _ _ _ _ \<Rightarrow> validate_recovery_participation_request_descriptor d
            | _ \<Rightarrow> Ok d) = Ok input" and q: "q = \<lparr>rq_request = r, rq_input = input, rq_peer = peer\<rparr>"
    by (auto simp: receive_sign_request_from_peer_def)
  have "input = d" using input
    by (cases "sr_subject r") (auto simp: validate_transition_public_key_descriptor_def
        validate_recovery_participation_request_descriptor_def split: prod.splits)
  with peer m v ds d r q show ?thesis
    by (auto simp: validate_received_packet_def split: if_splits)
qed

end
