(* ===== verification/Store_Model.thy ===== *)
theory Store_Model
  imports Recovery_Ceremony
begin

text \<open>
  The values that the persona store hands to its clients (\<^verbatim>\<open>a-quo-store\<close>, \<^verbatim>\<open>lib.rs\<close>): personas, keys,
  signing references, the recorded continuity journal, and its errors. The enumerations are stored as
  text; their text forms are read back to the value that was written.
\<close>

section \<open>Errors\<close>

datatype StoreError =
    Database
  | Serialization
  | StoreIo string
  | SymlinkDatabase string
  | InvalidParent string
  | InsecureDirectory string
  | UnsupportedSchema i64
  | InvalidStoreField string string
  | PersonaNotFound string
  | PersonaAlreadyKnown string
  | PersonaArchived string
  | PersonaLabelMismatch string
  | KeyAlreadyKnown string
  | KeyNotFound string
  | InactiveSigningKey string
  | AmbiguousActiveKeys string
  | SigningReferenceNotFound string
  | UnsafeSigningReference string string
  | NoActiveKey string
  | InvalidTransition string
  | CrossPersonaKeyEvent
  | InvalidAuditHistory
  | StoredPersonaKeyLimit nat
  | StoredPersonaEventLimit nat
  | StoreInvalidPublicKey
  | ContinuityNotFound string
  | ContinuityBypass string
  | ContinuityCompromiseRequiresJournal string
  | ContinuityConflict string
  | ContinuityEvidenceOnly string
  | PersonaTerminallyRevoked string
  | InvalidContinuity string
  | ContinuityProofTooLarge
  | StoredContinuityProofBytesLimit nat
  | StoredContinuityVerificationWorkLimit nat
  | InvalidSystemTime
  | NonMonotonicAuditTime i64 i64

type_synonym 'a store = "('a, StoreError) result"

section \<open>Enumerations and their text forms\<close>

datatype PersonaPurpose = Personal | Pseudonymous | Project | Organization | LegalBridge

primrec persona_purpose_as_str :: "PersonaPurpose \<Rightarrow> string" where
  "persona_purpose_as_str Personal = ''personal''"
| "persona_purpose_as_str Pseudonymous = ''pseudonymous''"
| "persona_purpose_as_str Project = ''project''"
| "persona_purpose_as_str Organization = ''organization''"
| "persona_purpose_as_str LegalBridge = ''legal-bridge''"

definition persona_purpose_from_str :: "string \<Rightarrow> PersonaPurpose store" where
  "persona_purpose_from_str v =
     (if v = ''personal'' then Ok Personal
      else if v = ''pseudonymous'' then Ok Pseudonymous
      else if v = ''project'' then Ok Project
      else if v = ''organization'' then Ok Organization
      else if v = ''legal-bridge'' then Ok LegalBridge
      else Err (InvalidStoreField ''persona purpose''
        ''expected one of personal, pseudonymous, project, organization, legal-bridge''))"

datatype KeyProvider = OpensshFile | SshAgent | Fido2

primrec key_provider_as_str :: "KeyProvider \<Rightarrow> string" where
  "key_provider_as_str OpensshFile = ''openssh-file''"
| "key_provider_as_str SshAgent = ''ssh-agent''"
| "key_provider_as_str Fido2 = ''fido2''"

definition key_provider_from_str :: "string \<Rightarrow> KeyProvider store" where
  "key_provider_from_str v =
     (if v = ''openssh-file'' then Ok OpensshFile
      else if v = ''ssh-agent'' then Ok SshAgent
      else if v = ''fido2'' then Ok Fido2
      else Err (InvalidStoreField ''key provider'' ''expected one of openssh-file, ssh-agent, fido2''))"

datatype KeyStatus = KeyActive | KeyRetired | KeyCompromised

primrec key_status_as_str :: "KeyStatus \<Rightarrow> string" where
  "key_status_as_str KeyActive = ''active''"
| "key_status_as_str KeyRetired = ''retired''"
| "key_status_as_str KeyCompromised = ''compromised''"

definition key_status_from_str :: "string \<Rightarrow> KeyStatus store" where
  "key_status_from_str v =
     (if v = ''active'' then Ok KeyActive
      else if v = ''retired'' then Ok KeyRetired
      else if v = ''compromised'' then Ok KeyCompromised
      else Err (InvalidStoreField ''stored key status'' v))"

datatype RotationReason = RotationRoutine | RotationRecovery | RotationCompromise

primrec rotation_reason_as_str :: "RotationReason \<Rightarrow> string" where
  "rotation_reason_as_str RotationRoutine = ''routine''"
| "rotation_reason_as_str RotationRecovery = ''recovery''"
| "rotation_reason_as_str RotationCompromise = ''compromise''"

definition rotation_reason_from_str :: "string \<Rightarrow> RotationReason store" where
  "rotation_reason_from_str v =
     (if v = ''routine'' then Ok RotationRoutine
      else if v = ''recovery'' then Ok RotationRecovery
      else if v = ''compromise'' then Ok RotationCompromise
      else Err (InvalidStoreField ''rotation reason'' ''expected one of routine, recovery, compromise''))"

datatype ContinuityTransitionKind = KindRoutine | KindRecovery

primrec transition_kind_as_str :: "ContinuityTransitionKind \<Rightarrow> string" where
  "transition_kind_as_str KindRoutine = ''routine''"
| "transition_kind_as_str KindRecovery = ''recovery''"

definition transition_kind_from_str :: "string \<Rightarrow> ContinuityTransitionKind store" where
  "transition_kind_from_str v =
     (if v = ''routine'' then Ok KindRoutine
      else if v = ''recovery'' then Ok KindRecovery
      else Err (InvalidContinuity ''stored continuity transition has an unknown kind''))"

lemma text_forms_read_back [simp]:
  "persona_purpose_from_str (persona_purpose_as_str p) = Ok p"
  "key_provider_from_str (key_provider_as_str k) = Ok k"
  "key_status_from_str (key_status_as_str s) = Ok s"
  "rotation_reason_from_str (rotation_reason_as_str r) = Ok r"
  "transition_kind_from_str (transition_kind_as_str t) = Ok t"
  subgoal by (cases p) (simp_all add: persona_purpose_from_str_def)
  subgoal by (cases k) (simp_all add: key_provider_from_str_def)
  subgoal by (cases s) (simp_all add: key_status_from_str_def)
  subgoal by (cases r) (simp_all add: rotation_reason_from_str_def)
  subgoal by (cases t) (simp_all add: transition_kind_from_str_def)
  done

lemma text_forms_only:
  "persona_purpose_from_str v = Ok p \<Longrightarrow> v = persona_purpose_as_str p"
  "key_provider_from_str v = Ok k \<Longrightarrow> v = key_provider_as_str k"
  "key_status_from_str v = Ok s \<Longrightarrow> v = key_status_as_str s"
  "rotation_reason_from_str v = Ok r \<Longrightarrow> v = rotation_reason_as_str r"
  "transition_kind_from_str v = Ok t \<Longrightarrow> v = transition_kind_as_str t"
  by (auto simp: persona_purpose_from_str_def key_provider_from_str_def key_status_from_str_def
      rotation_reason_from_str_def transition_kind_from_str_def split: if_splits)

section \<open>Personas, keys and signing references\<close>

record Persona =
  per_id :: string
  per_label :: string
  per_purpose :: PersonaPurpose
  per_created_at :: i64
  per_archived_at :: "i64 option"

record KeyRecord =
  key_fingerprint :: string
  key_persona_id :: string
  key_public_key :: string
  key_provider :: KeyProvider
  key_status :: KeyStatus
  key_added_at :: i64
  key_retired_at :: "i64 option"
  key_compromised_at :: "i64 option"

record KeyEvent =
  kev_sequence :: i64
  kev_persona_id :: string
  kev_key_fingerprint :: string
  kev_event_type :: string
  kev_occurred_at :: i64
  kev_actor :: string
  kev_policy :: string
  kev_note :: "string option"

record SigningReference =
  sref_key_fingerprint :: string
  sref_locator :: string
  sref_configured_at :: i64

record SigningReferenceEvent =
  sre_sequence :: i64
  sre_key_fingerprint :: string
  sre_event_type :: string
  sre_occurred_at :: i64
  sre_locator_sha256 :: "string option"

record ActiveSigner =
  asg_persona :: Persona
  asg_key :: KeyRecord
  asg_signing_reference :: SigningReference

section \<open>The continuity journal\<close>

record RecordedPersonaRoot =
  rpr_persona_id :: string
  rpr_root_statement_sha256 :: string
  rpr_persona_anchor :: string
  rpr_initial_key_fingerprint :: string
  rpr_proof :: PersonaRootProof
  rpr_issued_at :: i64
  rpr_recorded_at :: i64

record ContinuityHead =
  hd_persona_id :: string
  hd_revision :: i64
  hd_transition_sequence :: u32
  hd_current_key_fingerprint :: string
  hd_last_transition_sha256 :: "string option"
  hd_last_issued_at :: i64

record RecordedRecoveryPolicy =
  rrp_persona_id :: string
  rrp_policy_version :: u32
  rrp_policy_statement_sha256 :: string
  rrp_previous_policy_sha256 :: "string option"
  rrp_root_statement_sha256 :: string
  rrp_checkpoint :: RecoveryContinuityCheckpoint
  rrp_issued_at :: i64
  rrp_expires_at :: i64
  rrp_proof :: RecoveryPolicyProof
  rrp_recorded_at :: i64

record RecoveryPolicyHead =
  rph_persona_id :: string
  rph_revision :: i64
  rph_latest_policy_version :: u32
  rph_latest_policy_sha256 :: string
  rph_recorded_at :: i64

record RecordedTerminalPersonaRevocation =
  rtr_persona_id :: string
  rtr_sequence :: u32
  rtr_revocation_statement_sha256 :: string
  rtr_root_statement_sha256 :: string
  rtr_previous_transition_sha256 :: "string option"
  rtr_previous_key_fingerprint :: string
  rtr_recovery_policy_sha256 :: string
  rtr_recovery_policy_version :: u32
  rtr_reason :: TerminalPersonaRevocationReason
  rtr_issued_at :: i64
  rtr_proof :: TerminalPersonaRevocationProof
  rtr_committed_at :: i64

record LiveContinuitySnapshot =
  lcs_root :: RecordedPersonaRoot
  lcs_head :: ContinuityHead
  lcs_recovery_policy_head :: "RecoveryPolicyHead option"
  lcs_recovery_policies :: "RecordedRecoveryPolicy list"
  lcs_transitions :: "PersonaContinuityTransitionProof list"
  lcs_terminal_revocation :: "RecordedTerminalPersonaRevocation option"

record RoutineTransitionIntent =
  rti_persona_id :: string
  rti_sequence :: u32
  rti_root_statement_sha256 :: string
  rti_previous_transition_sha256 :: "string option"
  rti_previous_key_fingerprint :: string
  rti_next_key_fingerprint :: string
  rti_issued_at :: i64

record RoutineRotationCandidate =
  rrc_statement :: PersonaTransitionStatement
  rrc_intent :: RoutineTransitionIntent
  rrc_public_key :: string
  rrc_provider :: KeyProvider
  rrc_signing_reference :: SigningReference

record CommittedRoutineTransition =
  crt_intent :: RoutineTransitionIntent
  crt_transition_statement_sha256 :: string
  crt_proof :: PersonaTransitionProof
  crt_committed_at :: i64
  crt_replayed :: bool

record RoutineContinuityRetryMetadata =
  rcm_persona_id :: string
  rcm_current_key_fingerprint :: string
  rcm_provider :: KeyProvider
  rcm_signing_locator :: string

end
