(* ===== verification/Effects.thy ===== *)
theory Effects
  imports Wire
begin

text \<open>
  Programs that interact with the world. A run has a clock tick, which every question to the
  environment advances, so that two equal questions may have different answers, and a transcript of
  the interactions that matter. An action returns a result and the world it leaves; an error ends it.

  A protocol is a step relation between phases, labelled with the entries of the transcript. An action
  \<open>obeys\<close> a protocol when the entries of every run are steps of it; its rules follow the combinators.
\<close>

section \<open>Actions\<close>

record 'ev world =
  w_tick :: nat
  w_transcript :: "'ev list"

type_synonym ('ev, 'a, 'e) action = "'ev world \<Rightarrow> ('a, 'e) result \<times> 'ev world"

definition give :: "('a, 'e) result \<Rightarrow> ('ev, 'a, 'e) action" where
  "give r w = (r, w)"

definition bind_action :: "('ev, 'a, 'e) action \<Rightarrow> ('a \<Rightarrow> ('ev, 'b, 'e) action) \<Rightarrow> ('ev, 'b, 'e) action" where
  "bind_action m f w = (case m w of (Ok x, w') \<Rightarrow> f x w' | (Err e, w') \<Rightarrow> (Err e, w'))"

text \<open>A question to the environment, without and with an entry in the transcript.\<close>

definition ask :: "(nat \<Rightarrow> 'a) \<Rightarrow> ('ev, 'a, 'e) action" where
  "ask g w = (Ok (g (w_tick w)), w\<lparr>w_tick := w_tick w + 1\<rparr>)"

definition observe :: "(nat \<Rightarrow> 'a) \<Rightarrow> ('a \<Rightarrow> 'ev) \<Rightarrow> ('ev, 'a, 'e) action" where
  "observe g entry w =
     (Ok (g (w_tick w)), w\<lparr>w_tick := w_tick w + 1, w_transcript := w_transcript w @ [entry (g (w_tick w))]\<rparr>)"

definition note_event :: "'ev \<Rightarrow> ('ev, unit, 'e) action" where
  "note_event entry w = (Ok (), w\<lparr>w_transcript := w_transcript w @ [entry]\<rparr>)"

section \<open>Protocols\<close>

inductive follows :: "('ph \<Rightarrow> 'ev \<Rightarrow> 'ph \<Rightarrow> bool) \<Rightarrow> 'ph \<Rightarrow> 'ev list \<Rightarrow> 'ph \<Rightarrow> bool" for step where
  follows_start: "follows step ph [] ph"
| follows_step: "follows step ph es ph' \<Longrightarrow> step ph' e ph'' \<Longrightarrow> follows step ph (es @ [e]) ph''"

lemma follows_Nil [simp]: "follows step ph [] ph' \<longleftrightarrow> ph' = ph"
  by (auto intro: follows.intros elim: follows.cases)

lemma follows_snoc [simp]: "follows step ph (es @ [e]) ph'' \<longleftrightarrow> (\<exists>ph'. follows step ph es ph' \<and> step ph' e ph'')"
  by (auto intro: follows.intros elim: follows.cases)

lemma follows_one: "step ph e ph' \<Longrightarrow> follows step ph [e] ph'"
  using follows_snoc [of step ph "[]" e ph'] by simp

lemma follows_append: "follows step ph (es @ fs) ph'' \<longleftrightarrow> (\<exists>ph'. follows step ph es ph' \<and> follows step ph' fs ph'')"
proof (induction fs arbitrary: ph'' rule: rev_induct)
  case (snoc f fs)
  have "follows step ph (es @ fs @ [f]) ph'' \<longleftrightarrow> (\<exists>ph'. follows step ph (es @ fs) ph' \<and> step ph' f ph'')"
    using follows_snoc [of step ph "es @ fs" f ph''] by simp
  with snoc.IH show ?case by auto
qed simp

lemma follows_Cons: "follows step ph (e # es) ph'' \<longleftrightarrow> (\<exists>ph'. step ph e ph' \<and> follows step ph' es ph'')"
  using follows_append [of step ph "[e]" es ph''] follows_snoc [of step ph "[]" e] by auto

lemma follows_invariant:
  assumes "follows step ph es ph'" "I ph" "\<And>p e p'. I p \<Longrightarrow> step p e p' \<Longrightarrow> I p'"
  shows "I ph'"
  using assms by (induction rule: follows.induct) auto

section \<open>Actions that obey a protocol\<close>

definition obeys ::
  "('ph \<Rightarrow> 'ev \<Rightarrow> 'ph \<Rightarrow> bool) \<Rightarrow> 'ph \<Rightarrow> ('ev, 'a, 'e) action \<Rightarrow> (('a, 'e) result \<Rightarrow> 'ph \<Rightarrow> bool) \<Rightarrow> bool" where
  "obeys step ph m Q \<longleftrightarrow> (\<forall>w. \<exists>es ph'. w_transcript (snd (m w)) = w_transcript w @ es
     \<and> follows step ph es ph' \<and> Q (fst (m w)) ph')"

named_theorems obeys_rules \<open>the protocol of an action from that of its parts\<close>

lemma obeysD:
  assumes "obeys step ph m Q" "m w = (r, w')"
  obtains es ph' where "w_transcript w' = w_transcript w @ es" "follows step ph es ph'" "Q r ph'"
  using assms unfolding obeys_def by (metis fst_conv snd_conv)

lemma obeys_weaken: "obeys step ph m Q \<Longrightarrow> (\<And>r ph'. Q r ph' \<Longrightarrow> Q' r ph') \<Longrightarrow> obeys step ph m Q'"
  unfolding obeys_def by blast

lemma obeys_give [obeys_rules]: "Q r ph \<Longrightarrow> obeys step ph (give r) Q"
  by (simp add: obeys_def give_def)

lemma obeys_bind:
  assumes "obeys step ph m R" "\<And>e ph'. R (Err e) ph' \<Longrightarrow> Q (Err e) ph'"
    "\<And>x ph'. R (Ok x) ph' \<Longrightarrow> obeys step ph' (f x) Q"
  shows "obeys step ph (bind_action m f) Q"
  unfolding obeys_def
proof
  fix w
  obtain r w' where m: "m w = (r, w')" by fastforce
  obtain es ph' where es: "w_transcript w' = w_transcript w @ es" "follows step ph es ph'" "R r ph'"
    using obeysD [OF assms(1) m] by blast
  show "\<exists>es ph'. w_transcript (snd (bind_action m f w)) = w_transcript w @ es
     \<and> follows step ph es ph' \<and> Q (fst (bind_action m f w)) ph'"
  proof (cases r)
    case (Err e)
    with m es assms(2) show ?thesis by (auto simp: bind_action_def)
  next
    case (Ok x)
    with assms(3) es(3) obtain fs ph'' where "w_transcript (snd (f x w')) = w_transcript w' @ fs"
      "follows step ph' fs ph''" "Q (fst (f x w')) ph''" unfolding obeys_def by blast
    with es Ok m have "w_transcript (snd (bind_action m f w)) = w_transcript w @ (es @ fs)"
      "follows step ph (es @ fs) ph''" "Q (fst (bind_action m f w)) ph''"
      by (auto simp: bind_action_def follows_append)
    then show ?thesis by blast
  qed
qed

lemma obeys_ask [obeys_rules]: "(\<And>x. Q (Ok x) ph) \<Longrightarrow> obeys step ph (ask g) Q"
  by (simp add: obeys_def ask_def)

lemma obeys_observe:
  fixes g :: "nat \<Rightarrow> 'a" and entry :: "'a \<Rightarrow> 'ev"
  assumes "\<And>x. \<exists>ph'. step ph (entry x) ph' \<and> Q (Ok x) ph'"
  shows "obeys step ph (observe g entry) Q"
  unfolding obeys_def
proof
  fix w :: "'ev world"
  obtain ph' where "step ph (entry (g (w_tick w))) ph'" and Q: "Q (Ok (g (w_tick w))) ph'" using assms by blast
  then have "follows step ph [entry (g (w_tick w))] ph'" using follows_snoc [of step ph "[]"] by auto
  with Q show "\<exists>es ph'. w_transcript (snd (observe g entry w)) = w_transcript w @ es
     \<and> follows step ph es ph' \<and> Q (fst (observe g entry w)) ph'"
    by (auto simp: observe_def)
qed

lemma obeys_note: "step ph entry ph' \<Longrightarrow> Q (Ok ()) ph' \<Longrightarrow> obeys step ph (note_event entry) Q"
  unfolding obeys_def note_event_def using follows_snoc [of step ph "[]" entry ph'] by auto

lemma obeys_bind_give [obeys_rules]:
  assumes "\<And>e. r = Err e \<Longrightarrow> Q (Err e) ph" "\<And>x. r = Ok x \<Longrightarrow> obeys step ph (f x) Q"
  shows "obeys step ph (bind_action (give r) f) Q"
  using assms by (intro obeys_bind [where R = "\<lambda>r' ph'. r' = r \<and> ph' = ph"] obeys_give) auto

lemma obeys_bind_ask [obeys_rules]:
  assumes "\<And>x. obeys step ph (f x) Q"
  shows "obeys step ph (bind_action (ask g) f) Q"
  using assms by (intro obeys_bind [where R = "\<lambda>r' ph'. ph' = ph \<and> is_Ok r'"] obeys_ask) auto

lemma obeys_bind_assoc [obeys_rules]:
  assumes "obeys step ph (bind_action m (\<lambda>x. bind_action (f x) g)) Q"
  shows "obeys step ph (bind_action (bind_action m f) g) Q"
proof -
  have "bind_action (bind_action m f) g w = bind_action m (\<lambda>x. bind_action (f x) g) w" for w
    by (simp add: bind_action_def split: prod.split result.split)
  with assms show ?thesis by (simp add: obeys_def)
qed

lemma obeys_if [obeys_rules]:
  "(c \<Longrightarrow> obeys step ph a Q) \<Longrightarrow> (\<not> c \<Longrightarrow> obeys step ph b Q) \<Longrightarrow> obeys step ph (if c then a else b) Q"
  by simp

lemma obeys_let [obeys_rules]: "obeys step ph (m v) Q \<Longrightarrow> obeys step ph (Let v m) Q"
  by simp

end
