(* ===== verification/Daemon.thy ===== *)
theory Daemon
  imports Approval Ipc_Transport Store_Model Effects
begin

text \<open>
  The signing daemon (\<^verbatim>\<open>a-quo-daemon\<close>, \<^verbatim>\<open>service.rs\<close> and \<^verbatim>\<open>service/recovery_participation.rs\<close>): from a
  received request over the review and the user's approval to the signature, the record in the persona
  store and the response.

  The store, the approval process, the clock, the file system and the socket answer through
  \<open>daemon_env\<close>, each answer for the tick at which it is asked, so nothing is assumed to stay as it was
  between two questions: another process may change the store or a file at any moment. The transcript
  holds what the daemon asked, decided, signed, recorded and sent, in order.
\<close>

section \<open>Failures and outcomes\<close>

datatype ApprovalError = ApproverUnavailable | ApproverTimedOut | ApproverFailed

datatype FailureClass = FailInvalidRequest | FailClientCancelled | FailPersonaUnavailable | FailConsentUnavailable
  | FailUserDeclined | FailSignerUnavailable | FailInternal

primrec failure_rejection_code :: "FailureClass \<Rightarrow> RejectionCode" where
  "failure_rejection_code FailInvalidRequest = InvalidRequest"
| "failure_rejection_code FailClientCancelled = Cancelled"
| "failure_rejection_code FailPersonaUnavailable = PersonaUnavailable"
| "failure_rejection_code FailConsentUnavailable = ConsentUnavailable"
| "failure_rejection_code FailUserDeclined = UserDeclined"
| "failure_rejection_code FailSignerUnavailable = SignerUnavailable"
| "failure_rejection_code FailInternal = InternalError"

datatype ApprovedSubject =
    ApprovedArtifact ArtifactDescriptor
  | ApprovedDomainControl DomainControlReview
  | ApprovedPersonaRoot PersonaRootReview
  | ApprovedPersonaTransition PersonaTransitionReview
  | ApprovedRecoveryParticipation RecoveryCeremonyParticipantReview

datatype DaemonOutcome =
    OutcomeApproved string string ApprovedSubject SealedProof
  | OutcomeRejected "string option" FailureClass

definition outcome_request_id :: "DaemonOutcome \<Rightarrow> string option" where
  "outcome_request_id outcome =
     (case outcome of OutcomeApproved request_id _ _ _ \<Rightarrow> Some request_id | OutcomeRejected request_id _ \<Rightarrow> request_id)"

definition unavailable_decide :: "ApprovalPrompt \<Rightarrow> (ApprovalDecision, ApprovalError) result" where
  "unavailable_decide prompt = Err ApproverUnavailable"

text \<open>A handler ends early with a failure, or never, when a read is interrupted for ever.\<close>

datatype stop = Fails FailureClass | Blocks

section \<open>Digests in text\<close>

definition encode_sha256 :: "bytes \<Rightarrow> string" where
  "encode_sha256 digest =
     concat (map (\<lambda>b. [''0123456789abcdef'' ! unat (drop_bit 4 b), ''0123456789abcdef'' ! unat (b AND 0x0f)]) digest)"

definition decode_hex_digit :: "byte \<Rightarrow> byte option" where
  "decode_hex_digit b =
     (if 0x30 \<le> b \<and> b \<le> 0x39 then Some (b - 0x30)
      else if 0x61 \<le> b \<and> b \<le> 0x66 then Some (b - 0x61 + 10)
      else None)"

fun decode_hex_pairs :: "bytes \<Rightarrow> (bytes, unit) result" where
  "decode_hex_pairs (a # b # rest) =
     and_then (ok_or () (decode_hex_digit a)) (\<lambda>high.
     and_then (ok_or () (decode_hex_digit b)) (\<lambda>low.
     and_then (decode_hex_pairs rest) (\<lambda>digest. Ok ((push_bit 4 high OR low) # digest))))"
| "decode_hex_pairs _ = Ok []"

definition decode_sha256 :: "string \<Rightarrow> (bytes, unit) result" where
  "decode_sha256 s = (if length s \<noteq> 64 then Err () else decode_hex_pairs (as_bytes s))"

definition decode_optional_sha256 :: "string option \<Rightarrow> (bytes option, unit) result" where
  "decode_optional_sha256 v = (case v of None \<Rightarrow> Ok None | Some s \<Rightarrow> and_then (decode_sha256 s) (\<lambda>d. Ok (Some d)))"

section \<open>The environment\<close>

text \<open>The metadata of a path with its times, and how looking it up may end.\<close>

record TimedMetadata = PathMetadata +
  pm_mtime :: i64
  pm_mtime_nsec :: i64
  pm_ctime :: i64
  pm_ctime_nsec :: i64

datatype lookup = Found TimedMetadata | NotFound | LookupFailed

record daemon_env =
  de_artifact :: artifact_ext
  de_domain :: domain_ext
  de_core :: ceremony_ext
  de_wire :: wire_ext
  de_root_to_json_pretty :: "PersonaRootProof \<Rightarrow> (bytes, json_error) result"
  de_transition_to_json_pretty :: "PersonaTransitionProof \<Rightarrow> (bytes, json_error) result"
  de_euid :: u32
  de_credentials :: "nat \<Rightarrow> PeerCredentials option"
  de_recv :: "nat \<Rightarrow> RecvMsg option"
  de_peek :: "nat \<Rightarrow> peek"
  de_new_v4 :: "nat \<Rightarrow> Uuid"
  de_clock :: "nat \<Rightarrow> u64 option"
  de_memfd :: "nat \<Rightarrow> Memfd"
  de_read_calls :: "nat \<Rightarrow> read_call list"
  de_proof_file :: "nat \<Rightarrow> SealedProof \<Rightarrow> SourceFile"
  de_pushed :: "nat \<Rightarrow> bool"
  de_sent :: "nat \<Rightarrow> nat option"
  de_symlink_metadata :: "nat \<Rightarrow> string \<Rightarrow> lookup"
  de_canonicalize :: "nat \<Rightarrow> string \<Rightarrow> string option"
  de_decide :: "nat \<Rightarrow> ApprovalPrompt \<Rightarrow> (ApprovalDecision, ApprovalError) result"
  de_active_signer :: "nat \<Rightarrow> string \<Rightarrow> ActiveSigner store"
  de_continuity :: "nat \<Rightarrow> string \<Rightarrow> LiveContinuitySnapshot store"
  de_candidate :: "nat \<Rightarrow> string \<Rightarrow> string \<Rightarrow> KeyProvider \<Rightarrow> string \<Rightarrow> RoutineRotationCandidate store"
  de_retry_metadata :: "nat \<Rightarrow> RoutineTransitionIntent \<Rightarrow> RoutineContinuityRetryMetadata option store"
  de_record_root :: "nat \<Rightarrow> string \<Rightarrow> PersonaRootProof \<Rightarrow> string \<Rightarrow> RecordedPersonaRoot store"
  de_commit :: "nat \<Rightarrow> string \<Rightarrow> PersonaTransitionProof \<Rightarrow> KeyProvider \<Rightarrow> string \<Rightarrow> CommittedRoutineTransition store"

text \<open>What is signed, and the entries of the transcript.\<close>

datatype signing =
    SignsArtifact ArtifactDescriptor ActiveSigner
  | SignsDomain DomainControlStatement ActiveSigner
  | SignsRoot PersonaRootStatement ActiveSigner
  | SignsTransition PersonaTransitionStatement ActiveSigner RoutineRotationCandidate
  | SignsRecovery VerifiedRecoveryCeremonyRequest RecoverySigner

datatype entry =
    Checked "FailureClass option"
  | AskedSigner string "ActiveSigner store"
  | AskedSnapshot string "LiveContinuitySnapshot store"
  | AskedCandidate "RoutineRotationCandidate store"
  | Decided ApprovalPrompt "(ApprovalDecision, ApprovalError) result"
  | Signed signing
  | RecordedRoot string PersonaRootProof string
  | Committed string PersonaTransitionProof KeyProvider string
  | SendsApproved SealedProof
  | SendsRejected RejectionCode

type_synonym 'a handler = "(entry, 'a, stop) action"

definition reject :: "FailureClass \<Rightarrow> 'a handler" where
  "reject failure = give (Err (Fails failure))"

definition attempt :: "FailureClass \<Rightarrow> ('a, 'e) result \<Rightarrow> 'a handler" where
  "attempt failure r = give (map_err (\<lambda>_. Fails failure) r)"

definition current_unix_time :: "u64 option \<Rightarrow> (i64, unit) result" where
  "current_unix_time elapsed =
     and_then (ok_or () elapsed) (\<lambda>seconds. if unat seconds < 2 ^ 63 then Ok (int (unat seconds)) else Err ())"

definition now_or :: "daemon_env \<Rightarrow> FailureClass \<Rightarrow> i64 handler" where
  "now_or D failure = bind_action (ask (de_clock D)) (\<lambda>elapsed. attempt failure (current_unix_time elapsed))"

definition take_snapshot :: "daemon_env \<Rightarrow> SourceFile \<Rightarrow> nat \<Rightarrow> SealedArtifact handler" where
  "take_snapshot D input maximum =
     bind_action (ask (de_memfd D)) (\<lambda>mem.
     attempt FailInvalidRequest (snapshot_artifact (de_artifact D) input mem maximum))"

definition read_snapshot :: "daemon_env \<Rightarrow> SealedArtifact \<Rightarrow> nat \<Rightarrow> bytes handler" where
  "read_snapshot D snapshot maximum =
     bind_action (ask (de_read_calls D)) (\<lambda>calls.
     bind_action (give (ok_or Blocks (read_bytes_bounded snapshot calls maximum))) (attempt FailInvalidRequest))"

definition check_connection :: "(nat \<Rightarrow> FailureClass option) \<Rightarrow> unit handler" where
  "check_connection interrupted =
     bind_action (observe interrupted Checked) (\<lambda>v.
     give (case v of None \<Rightarrow> Ok () | Some failure \<Rightarrow> Err (Fails failure)))"

definition ask_signer :: "daemon_env \<Rightarrow> string \<Rightarrow> ActiveSigner handler" where
  "ask_signer D persona_id =
     bind_action (observe (\<lambda>t. de_active_signer D t persona_id) (AskedSigner persona_id)) (attempt FailPersonaUnavailable)"

definition same_signer :: "daemon_env \<Rightarrow> string \<Rightarrow> ActiveSigner \<Rightarrow> ActiveSigner handler" where
  "same_signer D persona_id signer =
     bind_action (ask_signer D persona_id) (\<lambda>current_signer.
     give (if current_signer = signer then Ok current_signer else Err (Fails FailPersonaUnavailable)))"

definition ask_snapshot :: "daemon_env \<Rightarrow> string \<Rightarrow> LiveContinuitySnapshot store handler" where
  "ask_snapshot D persona_id = observe (\<lambda>t. de_continuity D t persona_id) (AskedSnapshot persona_id)"

definition decide :: "daemon_env \<Rightarrow> ApprovalPrompt \<Rightarrow> unit handler" where
  "decide D prompt =
     bind_action (observe (\<lambda>t. de_decide D t prompt) (Decided prompt)) (\<lambda>answer.
     give (case answer of
       Ok Decline \<Rightarrow> Err (Fails FailUserDeclined)
     | Ok Cancel \<Rightarrow> Err (Fails FailClientCancelled)
     | Err _ \<Rightarrow> Err (Fails FailConsentUnavailable)
     | Ok Approve \<Rightarrow> Ok ()))"

definition connection_failure :: "peek \<Rightarrow> FailureClass option" where
  "connection_failure p =
     (case connection_state p of
       Ok Waiting \<Rightarrow> None
     | Ok ExtraData \<Rightarrow> Some FailInvalidRequest
     | Ok Closed \<Rightarrow> Some FailClientCancelled
     | Err _ \<Rightarrow> Some FailClientCancelled)"

section \<open>Requests for a persona: artifacts, domains and roots\<close>

datatype PreparedRequest =
    PreparedArtifact ArtifactDescriptor ArtifactKind string
  | PreparedDomainControl DomainControlStatement DomainControlReview
  | PreparedPersonaRoot PersonaRootStatement PersonaRootReview

datatype SignedProof =
    SignedBundle ProofBundle
  | SignedPersonaRoot PersonaRootProof
  | SignedPersonaTransition PersonaTransitionProof

abbreviation signer_locator :: "ActiveSigner \<Rightarrow> string" where
  "signer_locator signer \<equiv> sref_locator (asg_signing_reference signer)"

abbreviation signer_key :: "ActiveSigner \<Rightarrow> string" where
  "signer_key signer \<equiv> key_public_key (asg_key signer)"

abbreviation signer_label :: "ActiveSigner \<Rightarrow> string" where
  "signer_label signer \<equiv> per_label (asg_persona signer)"

text \<open>The other subjects are handled before; the source has \<^verbatim>\<open>unreachable!\<close> for them.\<close>

definition prepare_request :: "daemon_env \<Rightarrow> SignSubject \<Rightarrow> SealedArtifact \<Rightarrow> ActiveSigner \<Rightarrow> PreparedRequest handler" where
  "prepare_request D subject snapshot signer =
     (case subject of
       SubjectArtifact artifact_kind artifact_label \<Rightarrow>
         give (Ok (PreparedArtifact (sa_descriptor snapshot) artifact_kind artifact_label))
     | SubjectDomainControl \<Rightarrow>
         bind_action (read_snapshot D snapshot MAX_DOMAIN_STATEMENT_BYTES) (\<lambda>bs.
         bind_action (now_or D FailInternal) (\<lambda>now.
         bind_action (attempt FailInvalidRequest
           (review_domain_control_statement_bytes (de_domain D) bs now (signer_key signer) (signer_label signer)))
           (\<lambda>(statement, review). give (Ok (PreparedDomainControl statement review)))))
     | SubjectPersonaRoot \<Rightarrow>
         bind_action (read_snapshot D snapshot MAX_PERSONA_ROOT_STATEMENT_BYTES) (\<lambda>bs.
         bind_action (now_or D FailInternal) (\<lambda>now.
         bind_action (attempt FailInvalidRequest
           (review_persona_root_statement_bytes (de_core D) bs now (signer_key signer) (signer_label signer)))
           (\<lambda>(statement, review). give (Ok (PreparedPersonaRoot statement review)))))
     | _ \<Rightarrow> reject FailInternal)"

definition sign_prepared_request ::
  "daemon_env \<Rightarrow> PreparedRequest \<Rightarrow> ActiveSigner \<Rightarrow> (SignedProof \<times> ApprovedSubject) handler" where
  "sign_prepared_request D prepared signer =
     (case prepared of
       PreparedArtifact descriptor _ _ \<Rightarrow>
         bind_action (note_event (Signed (SignsArtifact descriptor signer))) (\<lambda>_.
         bind_action (attempt FailSignerUnavailable (create_sshsig_proof_for_descriptor (de_artifact D) descriptor
           (signer_locator signer) (signer_key signer) (signer_label signer))) (\<lambda>pf.
         give (Ok (SignedBundle pf, ApprovedArtifact descriptor))))
     | PreparedDomainControl statement review \<Rightarrow>
         bind_action (note_event (Signed (SignsDomain statement signer))) (\<lambda>_.
         bind_action (attempt FailSignerUnavailable (create_domain_control_proof_for_statement (de_domain D) statement
           (signer_locator signer) (signer_key signer))) (\<lambda>pf.
         bind_action (now_or D FailInternal) (\<lambda>now.
         bind_action (attempt FailInvalidRequest (verify_domain_control_proof (de_domain D) pf now)) (\<lambda>verified.
         give (if dv_domain verified \<noteq> dr_domain review
           \<or> dv_dns_record_name verified \<noteq> dr_dns_record_name review
           \<or> dv_dns_txt_value verified \<noteq> dr_dns_txt_value review
           \<or> dv_issued_at verified \<noteq> dr_issued_at review
           \<or> dv_expires_at verified \<noteq> dr_expires_at review
           \<or> vs_persona (dv_signer verified) \<noteq> signer_label signer
           \<or> vs_key_fingerprint (dv_signer verified) \<noteq> key_fingerprint (asg_key signer)
           then Err (Fails FailInternal) else Ok (SignedBundle pf, ApprovedDomainControl review))))))
     | PreparedPersonaRoot statement review \<Rightarrow>
         bind_action (now_or D FailInternal) (\<lambda>now.
         bind_action (attempt FailInvalidRequest
           (review_persona_root_statement (de_core D) statement now (signer_key signer) (signer_label signer))) (\<lambda>current_review.
         if current_review \<noteq> review then reject FailInternal
         else bind_action (note_event (Signed (SignsRoot statement signer))) (\<lambda>_.
         bind_action (attempt FailSignerUnavailable
           (create_persona_root_proof (de_core D) statement (signer_locator signer) (signer_key signer))) (\<lambda>pf.
         bind_action (attempt FailInvalidRequest (verify_persona_root_proof (de_core D) pf)) (\<lambda>verified.
         give (if vr_statement verified \<noteq> statement
           \<or> vr_root_statement_sha256 verified \<noteq> rr_root_statement_sha256 review
           \<or> rs_persona (vr_statement verified) \<noteq> signer_label signer
           \<or> rs_initial_key_fingerprint (vr_statement verified) \<noteq> key_fingerprint (asg_key signer)
           then Err (Fails FailInternal) else Ok (SignedPersonaRoot pf, ApprovedPersonaRoot review))))))))"

primrec prompt_artifact_kind :: "ArtifactKind \<Rightarrow> PromptArtifactKind" where
  "prompt_artifact_kind GenericArtifact = PromptGeneric"
| "prompt_artifact_kind SoftwareRelease = PromptSoftwareRelease"
| "prompt_artifact_kind Article = PromptArticle"
| "prompt_artifact_kind Image = PromptImage"

primrec prompt_persona_purpose :: "PersonaPurpose \<Rightarrow> PromptPersonaPurpose" where
  "prompt_persona_purpose Personal = PromptPersonal"
| "prompt_persona_purpose Pseudonymous = PromptPseudonymous"
| "prompt_persona_purpose Project = PromptProject"
| "prompt_persona_purpose Organization = PromptOrganization"
| "prompt_persona_purpose LegalBridge = PromptLegalBridge"

definition peer_identity :: "PeerCredentials \<Rightarrow> (PeerIdentity, unit) result" where
  "peer_identity peer =
     (if 0 \<le> pc_pid peer \<and> pc_pid peer < 2 ^ 32
      then Ok \<lparr>peer_pid = word_of_int (pc_pid peer), peer_uid = pc_uid peer, peer_gid = pc_gid peer\<rparr>
      else Err ())"

definition approval_prompt ::
  "daemon_env \<Rightarrow> Uuid \<Rightarrow> PreparedRequest \<Rightarrow> PeerCredentials \<Rightarrow> ActiveSigner \<Rightarrow> (ApprovalPrompt, unit) result" where
  "approval_prompt D request_id prepared peer signer =
     and_then (ok_or () (uuid_parse_str (de_wire D) (per_id (asg_persona signer)))) (\<lambda>persona_id.
     and_then (peer_identity peer) (\<lambda>peer.
     let purpose = prompt_persona_purpose (per_purpose (asg_persona signer));
         fingerprint = key_fingerprint (asg_key signer)
     in case prepared of
       PreparedArtifact descriptor artifact_kind artifact_label \<Rightarrow>
         and_then (decode_sha256 (digest_value (ad_digest descriptor))) (\<lambda>digest.
         map_err (\<lambda>_. ()) (prompt_new (de_wire D) request_id persona_id (signer_label signer) purpose fingerprint
           (prompt_artifact_kind artifact_kind) artifact_label digest (ad_size descriptor) peer))
     | PreparedDomainControl _ review \<Rightarrow>
         map_err (\<lambda>_. ()) (prompt_new_domain (de_wire D) request_id persona_id (signer_label signer) purpose fingerprint
           (dr_domain review) (dr_dns_txt_value review) (dr_issued_at review) (dr_expires_at review) peer)
     | PreparedPersonaRoot _ review \<Rightarrow>
         and_then (decode_sha256 (rr_root_statement_sha256 review)) (\<lambda>digest.
         map_err (\<lambda>_. ()) (prompt_new_persona_root (de_wire D) request_id persona_id (signer_label signer) purpose fingerprint
           (rr_persona_anchor review) digest (rr_issued_at review) peer))))"

definition sealed_proof :: "daemon_env \<Rightarrow> SignedProof \<Rightarrow> SealedProof handler" where
  "sealed_proof D pf =
     bind_action (attempt FailInternal (case pf of
         SignedBundle p \<Rightarrow> bundle_to_json_pretty (de_artifact D) p
       | SignedPersonaRoot p \<Rightarrow> de_root_to_json_pretty D p
       | SignedPersonaTransition p \<Rightarrow> de_transition_to_json_pretty D p)) (\<lambda>bs.
     bind_action (ask (de_memfd D)) (\<lambda>mem. attempt FailInternal (seal_proof_bytes mem (bs @ [0x0a]))))"

definition subject_maximum :: "SignSubject \<Rightarrow> nat" where
  "subject_maximum subject =
     (case subject of
       SubjectDomainControl \<Rightarrow> MAX_DOMAIN_STATEMENT_BYTES
     | SubjectPersonaRoot \<Rightarrow> MAX_PERSONA_ROOT_STATEMENT_BYTES
     | _ \<Rightarrow> MAX_ARTIFACT_BYTES)"

text \<open>A new root is recorded in the store before its proof leaves the daemon.\<close>

definition record_root ::
  "daemon_env \<Rightarrow> (nat \<Rightarrow> FailureClass option) \<Rightarrow> string \<Rightarrow> SignedProof \<Rightarrow> ApprovedSubject \<Rightarrow> unit handler" where
  "record_root D interrupted persona_id pf subject =
     (case (pf, subject) of
       (SignedPersonaRoot root_proof, ApprovedPersonaRoot review) \<Rightarrow>
         bind_action (check_connection interrupted) (\<lambda>_.
         bind_action (observe (\<lambda>t. de_record_root D t persona_id root_proof (rr_root_statement_sha256 review))
           (\<lambda>_. RecordedRoot persona_id root_proof (rr_root_statement_sha256 review))) (\<lambda>recorded.
         bind_action (attempt FailInvalidRequest recorded) (\<lambda>_. give (Ok ()))))
     | _ \<Rightarrow> give (Ok ()))"

type_synonym approval_result = "string \<times> ApprovedSubject \<times> SealedProof"

definition process_persona_request ::
  "daemon_env \<Rightarrow> (nat \<Rightarrow> FailureClass option) \<Rightarrow> Uuid \<Rightarrow> SignRequest \<Rightarrow> SourceFile \<Rightarrow> PeerCredentials \<Rightarrow> approval_result handler" where
  "process_persona_request D interrupted request_uuid request input peer =
     bind_action (attempt FailInvalidRequest (ok_or () (sr_persona_id request))) (\<lambda>persona_id.
     bind_action (ask_signer D persona_id) (\<lambda>signer.
     bind_action (take_snapshot D input (subject_maximum (sr_subject request))) (\<lambda>snapshot.
     bind_action (prepare_request D (sr_subject request) snapshot signer) (\<lambda>prepared.
     bind_action (check_connection interrupted) (\<lambda>_.
     bind_action (attempt FailInternal (approval_prompt D request_uuid prepared peer signer)) (\<lambda>prompt.
     bind_action (decide D prompt) (\<lambda>_.
     bind_action (check_connection interrupted) (\<lambda>_.
     bind_action (same_signer D persona_id signer) (\<lambda>signer.
     bind_action (sign_prepared_request D prepared signer) (\<lambda>(pf, subject).
     bind_action (same_signer D persona_id signer) (\<lambda>_.
     bind_action (record_root D interrupted persona_id pf subject) (\<lambda>_.
     bind_action (sealed_proof D pf) (\<lambda>sealed.
     give (Ok (key_fingerprint (asg_key signer), subject, sealed)))))))))))))))"

end
