(* ===== verification/Approver.thy ===== *)
theory Approver
  imports Daemon
begin

text \<open>
  The approval process of the daemon (\<^verbatim>\<open>a-quo-daemon/src/approver.rs\<close>): the checks of the packaged program,
  its environment, and the exchange of one prompt for one decision under a deadline.
\<close>

section \<open>The packaged program\<close>

definition PACKAGED_APPROVER_PATH :: string where "PACKAGED_APPROVER_PATH = ''/usr/lib/a-quo/a-quo-consent''"

definition APPROVAL_TIMEOUT_NANOS :: nat where "APPROVAL_TIMEOUT_NANOS = 95 * 10 ^ 9"
definition APPROVAL_POLL_NANOS :: nat where "APPROVAL_POLL_NANOS = 25 * 10 ^ 6"

definition ALLOWED_ENVIRONMENT :: "string list" where
  "ALLOWED_ENVIRONMENT =
     [''WAYLAND_DISPLAY'', ''XDG_RUNTIME_DIR'', ''LANG'', ''LANGUAGE'', ''LC_ADDRESS'', ''LC_ALL'', ''LC_COLLATE'', ''LC_CTYPE'',
      ''LC_IDENTIFICATION'', ''LC_MEASUREMENT'', ''LC_MESSAGES'', ''LC_MONETARY'', ''LC_NAME'', ''LC_NUMERIC'', ''LC_PAPER'',
      ''LC_TELEPHONE'', ''LC_TIME'']"

datatype ApproverConfigError =
    ApproverRelativePath string
  | ApproverUnsafeComponent string
  | ApproverInspect string
  | ApproverSymbolicLink string
  | ApproverWrongOwner string
  | ApproverWritableComponent string
  | ApproverNotDirectory string
  | ApproverNotRegularFile string
  | ApproverNotExecutable string

definition path_push :: "string \<Rightarrow> string \<Rightarrow> string" where
  "path_push path part = (if path \<noteq> [] \<and> last path = CHR ''/'' then path @ part else path @ ''/'' @ part)"

definition validate_root_ownership :: "string \<Rightarrow> u32 \<Rightarrow> (unit, ApproverConfigError) result" where
  "validate_root_ownership path uid = (if uid \<noteq> 0 then Err (ApproverWrongOwner path) else Ok ())"

text \<open>The masks \<^verbatim>\<open>0o022\<close> and \<^verbatim>\<open>0o111\<close> are 18 and 73.\<close>

definition validate_program_component ::
  "string \<Rightarrow> PathMetadata \<Rightarrow> bool \<Rightarrow> (unit, ApproverConfigError) result" where
  "validate_program_component path metadata is_program =
     (if pm_is_symlink metadata then Err (ApproverSymbolicLink path)
      else and_then (validate_root_ownership path (pm_uid metadata)) (\<lambda>_.
      if pm_mode metadata AND 18 \<noteq> 0 then Err (ApproverWritableComponent path)
      else if is_program then
        if \<not> pm_is_file metadata then Err (ApproverNotRegularFile path)
        else if pm_mode metadata AND 73 = 0 then Err (ApproverNotExecutable path)
        else Ok ()
      else if \<not> pm_is_dir metadata then Err (ApproverNotDirectory path)
      else Ok ()))"

text \<open>The loop over the components, with the path so far; the last one is the program.\<close>

fun validate_components ::
  "(string \<Rightarrow> PathMetadata option) \<Rightarrow> string \<Rightarrow> string \<Rightarrow> path_component list \<Rightarrow> (unit, ApproverConfigError) result" where
  "validate_components metadata path current [] = Ok ()"
| "validate_components metadata path current (RootDir # rest) = validate_components metadata path current rest"
| "validate_components metadata path current (ParentDir # rest) = Err (ApproverUnsafeComponent path)"
| "validate_components metadata path current (Normal part # rest) =
     (let current = path_push current part
      in and_then (ok_or (ApproverInspect current) (metadata current)) (\<lambda>m.
         and_then (validate_program_component current m (rest = [])) (\<lambda>_.
         validate_components metadata path current rest)))"

definition validate_packaged_program ::
  "(string \<Rightarrow> PathMetadata option) \<Rightarrow> string \<Rightarrow> (unit, ApproverConfigError) result" where
  "validate_packaged_program metadata path =
     (if \<not> is_absolute path then Err (ApproverRelativePath path)
      else let components = path_components path
      in if length components = 1 then Err (ApproverNotRegularFile ''/'')
      else and_then (ok_or (ApproverInspect ''/'') (metadata ''/'')) (\<lambda>root.
      and_then (validate_program_component ''/'' root False) (\<lambda>_.
      validate_components metadata path ''/'' components)))"

definition copy_allowed_environment :: "'z ext_scheme \<Rightarrow> (string \<Rightarrow> string option) \<Rightarrow> (string \<Rightarrow> string option)" where
  "copy_allowed_environment E env = foldl (copy_environment_if_present E) env ALLOWED_ENVIRONMENT"

record ProcessApprovalBackend =
  pb_program :: string
  pb_timeout :: nat

definition packaged :: "(string \<Rightarrow> PathMetadata option) \<Rightarrow> (ProcessApprovalBackend, ApproverConfigError) result" where
  "packaged metadata =
     and_then (validate_packaged_program metadata PACKAGED_APPROVER_PATH) (\<lambda>_.
     Ok \<lparr>pb_program = PACKAGED_APPROVER_PATH, pb_timeout = APPROVAL_TIMEOUT_NANOS\<rparr>)"

section \<open>The exchange\<close>

text \<open>
  What the child and the system answer: the pipe to the child, whether its output could be made
  non-blocking and the deadline computed, each read of the output, each \<^verbatim>\<open>try_wait\<close> (an error, running, or
  exited with success or not), and the time that passes in a round before the deadline is compared.
\<close>

datatype child_read = ReadChunk bytes | ReadWouldBlock | ReadBroken

record ApproverChild =
  ac_stdin :: "writer option"
  ac_stdout :: bool
  ac_nonblocking :: bool
  ac_deadline :: bool
  ac_read :: "nat \<Rightarrow> child_read"
  ac_try_wait :: "nat \<Rightarrow> bool option option"
  ac_delay :: "nat \<Rightarrow> nat"

text \<open>A read returns at most the 256 bytes of the buffer; no bytes are the end of the output.\<close>

function read_available ::
  "ApproverChild \<Rightarrow> nat \<Rightarrow> bytes \<Rightarrow> (bool, ApprovalError) result \<times> nat \<times> bytes" where
  "read_available child k response =
     (case ac_read child k of
       ReadChunk data \<Rightarrow>
         (let chunk = take 256 data
          in if chunk = [] then (Ok True, Suc k, response)
             else if MAX_MESSAGE_BYTES < length response + length chunk then (Err ApproverFailed, Suc k, response)
             else read_available child (Suc k) (response @ chunk))
     | ReadWouldBlock \<Rightarrow> (Ok False, Suc k, response)
     | ReadBroken \<Rightarrow> (Err ApproverFailed, Suc k, response))"
  by pat_completeness auto
termination
  by (relation "measure (\<lambda>(child, k, response). Suc MAX_MESSAGE_BYTES - length response)")
    (auto intro!: diff_less_mono2)

declare read_available.simps [simp del]

text \<open>The decision of a child that exited: its whole output is one decision for the request of the prompt.\<close>

definition accept_decision ::
  "'z wire_ext_scheme \<Rightarrow> ApprovalPrompt \<Rightarrow> bytes \<Rightarrow> (ApprovalDecision, ApprovalError) result" where
  "accept_decision E prompt response =
     and_then (map_err (\<lambda>_. ApproverFailed) (decode_decision E response)) (\<lambda>response.
     if dr_request_id response \<noteq> ap_request_id prompt then Err ApproverFailed
     else Ok (dr_decision response))"

function interact_loop ::
  "'z wire_ext_scheme \<Rightarrow> ApproverChild \<Rightarrow> ApprovalPrompt \<Rightarrow> nat \<Rightarrow> nat \<Rightarrow> nat \<Rightarrow> nat \<Rightarrow> bytes \<Rightarrow>
   (ApprovalDecision, ApprovalError) result" where
  "interact_loop E child prompt timeout i now k response =
     (case read_available child k response of
       (Err e, _, _) \<Rightarrow> Err e
     | (Ok eof, k, response) \<Rightarrow>
         (case ac_try_wait child i of
           None \<Rightarrow> Err ApproverFailed
         | Some (Some success) \<Rightarrow>
             (case read_available child k response of
               (Err e, _, _) \<Rightarrow> Err e
             | (Ok eof', _, response) \<Rightarrow>
                 if \<not> success \<or> \<not> (eof' \<or> eof) then Err ApproverFailed
                 else accept_decision E prompt response)
         | Some None \<Rightarrow>
             if timeout \<le> now + ac_delay child i then Err ApproverTimedOut
             else interact_loop E child prompt timeout (Suc i) (now + ac_delay child i + APPROVAL_POLL_NANOS) k response))"
  by pat_completeness auto
termination
  by (relation "measure (\<lambda>(E, child, prompt, timeout, i, now, k, response). timeout - now)")
    (auto simp: APPROVAL_POLL_NANOS_def)

declare interact_loop.simps [simp del]

definition interact ::
  "'z wire_ext_scheme \<Rightarrow> ApproverChild \<Rightarrow> ApprovalPrompt \<Rightarrow> nat \<Rightarrow> (ApprovalDecision, ApprovalError) result" where
  "interact E child prompt timeout =
     and_then (ok_or ApproverFailed (ac_stdin child)) (\<lambda>input.
     and_then (map_err (\<lambda>_. ApproverFailed) (write_prompt E input prompt)) (\<lambda>_.
     if \<not> ac_stdout child \<or> \<not> ac_nonblocking child \<or> \<not> ac_deadline child then Err ApproverFailed
     else interact_loop E child prompt timeout 0 0 0 []))"

text \<open>
  What is done to a child whose exchange failed: it is killed unless \<^verbatim>\<open>try_wait\<close> reports its exit, as a
  group where its group is known, and waited for.
\<close>

datatype child_action = KillGroup | KillChild | WaitChild

definition terminate_and_reap :: "bool option option \<Rightarrow> bool \<Rightarrow> child_action list" where
  "terminate_and_reap status group_known =
     (if status = None \<or> status = Some None then [if group_known then KillGroup else KillChild] else []) @ [WaitChild]"

definition run_approver ::
  "'z wire_ext_scheme \<Rightarrow> (ApproverChild, unit) result \<Rightarrow> bool option option \<Rightarrow> bool \<Rightarrow> ProcessApprovalBackend \<Rightarrow> ApprovalPrompt \<Rightarrow>
   (ApprovalDecision, ApprovalError) result \<times> child_action list" where
  "run_approver E spawned status group_known backend prompt =
     (case spawned of
       Err _ \<Rightarrow> (Err ApproverUnavailable, [])
     | Ok child \<Rightarrow>
         (case interact E child prompt (pb_timeout backend) of
           Err e \<Rightarrow> (Err e, terminate_and_reap status group_known)
         | Ok decision \<Rightarrow> (Ok decision, [])))"

section \<open>What the packaged program is\<close>

text \<open>A component that root alone can change.\<close>

definition trusted_component :: "PathMetadata \<Rightarrow> bool" where
  "trusted_component m \<longleftrightarrow> \<not> pm_is_symlink m \<and> pm_uid m = 0 \<and> pm_mode m AND 18 = 0"

lemma validate_program_component_Ok_iff:
  "validate_program_component path m is_program = Ok u \<longleftrightarrow>
     trusted_component m \<and> (if is_program then pm_is_file m \<and> pm_mode m AND 73 \<noteq> 0 else pm_is_dir m)"
  by (auto simp: validate_program_component_def validate_root_ownership_def trusted_component_def)

lemma packaged_path_components:
  "path_components PACKAGED_APPROVER_PATH = [RootDir, Normal ''usr'', Normal ''lib'', Normal ''a-quo'', Normal ''a-quo-consent'']"
  by (simp add: path_components_def PACKAGED_APPROVER_PATH_def)

lemma validate_component_step:
  "validate_components metadata path current (Normal part # rest) = Ok u \<longleftrightarrow>
     (\<exists>m. metadata (path_push current part) = Some m \<and> trusted_component m
        \<and> (if rest = [] then pm_is_file m \<and> pm_mode m AND 73 \<noteq> 0 else pm_is_dir m))
     \<and> validate_components metadata path (path_push current part) rest = Ok u"
  by (auto simp: Let_def validate_program_component_Ok_iff simp del: unit_Ok_iff)

definition trusted_directory :: "(string \<Rightarrow> PathMetadata option) \<Rightarrow> string \<Rightarrow> bool" where
  "trusted_directory metadata path \<longleftrightarrow> (\<exists>m. metadata path = Some m \<and> trusted_component m \<and> pm_is_dir m)"

definition trusted_program :: "(string \<Rightarrow> PathMetadata option) \<Rightarrow> string \<Rightarrow> bool" where
  "trusted_program metadata path \<longleftrightarrow>
     (\<exists>m. metadata path = Some m \<and> trusted_component m \<and> pm_is_file m \<and> pm_mode m AND 73 \<noteq> 0)"

lemma packaged_iff:
  "packaged metadata = Ok backend \<longleftrightarrow>
     list_all (trusted_directory metadata) [''/'', ''/usr'', ''/usr/lib'', ''/usr/lib/a-quo'']
     \<and> trusted_program metadata PACKAGED_APPROVER_PATH
     \<and> backend = \<lparr>pb_program = PACKAGED_APPROVER_PATH, pb_timeout = APPROVAL_TIMEOUT_NANOS\<rparr>"
proof -
  have "validate_packaged_program metadata PACKAGED_APPROVER_PATH = Ok u \<longleftrightarrow>
      list_all (trusted_directory metadata) [''/'', ''/usr'', ''/usr/lib'', ''/usr/lib/a-quo'']
      \<and> trusted_program metadata PACKAGED_APPROVER_PATH" for u
    unfolding validate_packaged_program_def packaged_path_components
    by (auto simp: is_absolute_def validate_component_step validate_program_component_Ok_iff path_push_def
        trusted_directory_def trusted_program_def PACKAGED_APPROVER_PATH_def simp del: validate_components.simps(4))
  then show ?thesis by (auto simp: packaged_def)
qed

lemma allowed_environment: "v \<notin> set ALLOWED_ENVIRONMENT \<Longrightarrow> copy_allowed_environment E env v = env v"
  by (simp add: copy_allowed_environment_def copied_environment_other)

section \<open>What a decision rests on\<close>

text \<open>What the child wrote in the reads from one call to another, and whether it closed its output.\<close>

definition child_output :: "ApproverChild \<Rightarrow> nat \<Rightarrow> nat \<Rightarrow> bytes" where
  "child_output child k k' =
     concat (map (\<lambda>j. case ac_read child j of ReadChunk data \<Rightarrow> take 256 data | _ \<Rightarrow> []) [k..<k'])"

definition output_closed :: "ApproverChild \<Rightarrow> nat \<Rightarrow> nat \<Rightarrow> bool" where
  "output_closed child k k' \<longleftrightarrow> list_ex (\<lambda>j. ac_read child j = ReadChunk []) [k..<k']"

lemma child_output_join: "k \<le> m \<Longrightarrow> m \<le> k' \<Longrightarrow> child_output child k m @ child_output child m k' = child_output child k k'"
  unfolding child_output_def by (metis concat_append map_append upt_add_eq_append le_add_diff_inverse)

lemma output_closed_mono: "output_closed child k m \<Longrightarrow> j \<le> k \<Longrightarrow> m \<le> l \<Longrightarrow> output_closed child j l"
  by (auto simp: output_closed_def list_ex_iff)

lemma read_available_Ok:
  "read_available child k response = (Ok eof, k', response') \<Longrightarrow> length response \<le> MAX_MESSAGE_BYTES \<Longrightarrow>
   k < k' \<and> response' = response @ child_output child k k' \<and> length response' \<le> MAX_MESSAGE_BYTES \<and> (eof \<longrightarrow> output_closed child k k')"
proof (induction child k response rule: read_available.induct)
  case (1 child k response)
  show ?case
  proof (cases "ac_read child k")
    case (ReadChunk data)
    show ?thesis
    proof (cases "take 256 data = []")
      case True
      with ReadChunk "1.prems" show ?thesis
        by (auto simp: read_available.simps [of child k response] child_output_def output_closed_def)
    next
      case False
      with ReadChunk "1.prems" have fits: "\<not> MAX_MESSAGE_BYTES < length response + length (take 256 data)"
        and rest: "read_available child (Suc k) (response @ take 256 data) = (Ok eof, k', response')"
        by (auto simp: read_available.simps [of child k response] Let_def split: if_splits)
      note ih = "1.IH" [OF ReadChunk refl False fits rest]
      have "child_output child k (Suc k) = take 256 data" using ReadChunk by (simp add: child_output_def)
      with ih fits child_output_join [of k "Suc k" k' child] output_closed_mono [of child "Suc k" k' k k'] show ?thesis by auto
    qed
  qed (use "1.prems" in \<open>auto simp: read_available.simps [of child k response] child_output_def\<close>)
qed

lemma interact_loop_Ok:
  "interact_loop E child prompt timeout i now k response = Ok decision \<Longrightarrow> length response \<le> MAX_MESSAGE_BYTES \<Longrightarrow>
   \<exists>j k'. i \<le> j \<and> k \<le> k' \<and> ac_try_wait child j = Some (Some True) \<and> output_closed child k k'
     \<and> accept_decision E prompt (response @ child_output child k k') = Ok decision"
proof (induction E child prompt timeout i now k response rule: interact_loop.induct)
  case (1 E child prompt timeout i now k response)
  obtain r k1 response1 where read: "read_available child k response = (r, k1, response1)" by (metis prod.collapse)
  with "1.prems"(1) obtain eof where r: "r = Ok eof"
    by (cases r) (simp_all add: interact_loop.simps [of E child prompt timeout i now k response])
  note out1 = read_available_Ok [OF read [unfolded r] "1.prems"(2)]
  from "1.prems"(1) read r consider success where "ac_try_wait child i = Some (Some success)" | "ac_try_wait child i = Some None"
    by (cases "ac_try_wait child i") (auto simp: interact_loop.simps [of E child prompt timeout i now k response])
  then show ?case
  proof cases
    case (1 success)
    with "1.prems"(1) read r obtain eof' k2 response2 where read2: "read_available child k1 response1 = (Ok eof', k2, response2)"
      and ok: "success" "eof' \<or> eof" "accept_decision E prompt response2 = Ok decision"
      by (auto simp: interact_loop.simps [of E child prompt timeout i now k response] split: prod.splits result.splits if_splits)
    have out2: "k1 < k2 \<and> response2 = response1 @ child_output child k1 k2 \<and> (eof' \<longrightarrow> output_closed child k1 k2)"
      using read_available_Ok [OF read2] out1 by blast
    have "response @ child_output child k k2 = response2"
      using out1 out2 child_output_join [of k k1 k2 child] by simp
    moreover have "output_closed child k k2"
      using ok(2) out1 out2 output_closed_mono [of child k1 k2 k k2] output_closed_mono [of child k k1 k k2] by auto
    ultimately show ?thesis using 1 ok out1 out2 by (intro exI [of _ i] exI [of _ k2]) auto
  next
    case 2
    with "1.prems"(1) read r have t: "\<not> timeout \<le> now + ac_delay child i"
      and rest: "interact_loop E child prompt timeout (Suc i) (now + ac_delay child i + APPROVAL_POLL_NANOS) k1 response1 = Ok decision"
      by (auto simp: interact_loop.simps [of E child prompt timeout i now k response] split: if_splits)
    from "1.IH" [OF read [unfolded r, symmetric] refl refl 2 refl t rest] out1 obtain j k' where
      "Suc i \<le> j" "k1 \<le> k'" "ac_try_wait child j = Some (Some True)" "output_closed child k1 k'"
      "accept_decision E prompt (response1 @ child_output child k1 k') = Ok decision" by blast
    with out1 child_output_join [of k k1 k' child] output_closed_mono [of child k1 k' k k'] show ?thesis
      by (intro exI [of _ j] exI [of _ k']) auto
  qed
qed

text \<open>
  A decision for a prompt: the child took the whole prompt, exited with success and closed its output, and
  all it wrote is the encoding of that decision for the request of the prompt.
\<close>

definition decided_by_child :: "'z wire_ext_scheme \<Rightarrow> ApproverChild \<Rightarrow> ApprovalPrompt \<Rightarrow> ApprovalDecision \<Rightarrow> bool" where
  "decided_by_child E child prompt decision \<longleftrightarrow>
     (\<exists>input message. ac_stdin child = Some input \<and> encode_prompt E prompt = Ok message
        \<and> write_prompt E input prompt = Ok (input\<lparr>wr_written := wr_written input @ message\<rparr>))
     \<and> (\<exists>j k. ac_try_wait child j = Some (Some True) \<and> output_closed child 0 k
        \<and> child_output child 0 k = encode_decision E \<lparr>dr_request_id = ap_request_id prompt, dr_decision = decision\<rparr>)"

lemma accept_decision_iff:
  assumes "uuid_bytes_law E"
  shows "accept_decision E prompt m = Ok decision \<longleftrightarrow>
    m = encode_decision E \<lparr>dr_request_id = ap_request_id prompt, dr_decision = decision\<rparr>"
proof
  assume "accept_decision E prompt m = Ok decision"
  then obtain r where "decode_decision E m = Ok r" "dr_request_id r = ap_request_id prompt" "dr_decision r = decision"
    by (auto simp: accept_decision_def)
  moreover from this have "r = \<lparr>dr_request_id = ap_request_id prompt, dr_decision = decision\<rparr>" by (cases r) simp
  ultimately show "m = encode_decision E \<lparr>dr_request_id = ap_request_id prompt, dr_decision = decision\<rparr>"
    using decode_decision_iff [OF assms] by simp
next
  assume "m = encode_decision E \<lparr>dr_request_id = ap_request_id prompt, dr_decision = decision\<rparr>"
  then have "decode_decision E m = Ok \<lparr>dr_request_id = ap_request_id prompt, dr_decision = decision\<rparr>"
    using decode_decision_iff [OF assms] by simp
  then show "accept_decision E prompt m = Ok decision" by (simp add: accept_decision_def)
qed

lemma interact_decided:
  assumes law: "uuid_bytes_law E" and run: "interact E child prompt timeout = Ok decision"
  shows "decided_by_child E child prompt decision"
proof -
  from run obtain input w where input: "ac_stdin child = Some input" "write_prompt E input prompt = Ok w"
    and loop: "interact_loop E child prompt timeout 0 0 0 [] = Ok decision"
    by (auto simp: interact_def split: if_splits)
  from input(2) obtain message where "encode_prompt E prompt = Ok message" "w = input\<lparr>wr_written := wr_written input @ message\<rparr>"
    by (auto simp: write_prompt_def write_message_Ok_iff)
  moreover obtain j k where "ac_try_wait child j = Some (Some True)" "output_closed child 0 k"
    "accept_decision E prompt (child_output child 0 k) = Ok decision"
    using interact_loop_Ok [OF loop] by auto
  ultimately show ?thesis unfolding decided_by_child_def accept_decision_iff [OF law] using input by blast
qed

text \<open>A child that runs on is stopped at the deadline, or earlier if its output breaks the rules.\<close>

lemma interact_loop_running:
  "\<forall>j. ac_try_wait child j = Some None \<Longrightarrow> \<exists>e. interact_loop E child prompt timeout i now k response = Err e
     \<and> (e = ApproverTimedOut \<or> e = ApproverFailed)"
proof (induction E child prompt timeout i now k response rule: interact_loop.induct)
  case (1 E child prompt timeout i now k response)
  obtain r k1 response1 where read: "read_available child k response = (r, k1, response1)" by (metis prod.collapse)
  show ?case
  proof (cases r)
    case (Err e)
    have "e = ApproverFailed" if "read_available child k response = (Err e, k1, response1)" for child k response
      using that by (induction child k response rule: read_available.induct)
        (subst (asm) (2) read_available.simps, auto simp: Let_def split: child_read.splits if_splits)
    with read Err show ?thesis by (auto simp: interact_loop.simps [of E child prompt timeout i now k response])
  next
    case (Ok eof)
    note unfold = interact_loop.simps [of E child prompt timeout i now k response]
    show ?thesis
    proof (cases "timeout \<le> now + ac_delay child i")
      case True
      with read Ok "1.prems" show ?thesis by (simp add: unfold)
    next
      case False
      from "1.IH" [OF read [unfolded Ok, symmetric] refl refl _ refl False "1.prems"] "1.prems" read Ok False
      show ?thesis by (simp add: unfold)
    qed
  qed
qed

text \<open>A child is never left running: after a decision it exited, after an error it was killed or had exited, and was waited for.\<close>

lemma terminate_and_reap_waits: "last (terminate_and_reap status group_known) = WaitChild"
  by (simp add: terminate_and_reap_def)

lemma run_approver_reaps:
  assumes "run_approver E (Ok child) status group_known backend prompt = (r, actions)"
  shows "case r of
      Ok decision \<Rightarrow> actions = [] \<and> (\<exists>j. ac_try_wait child j = Some (Some True))
    | Err e \<Rightarrow> last actions = WaitChild \<and> (KillGroup \<in> set actions \<or> KillChild \<in> set actions \<or> (\<exists>s. status = Some (Some s)))"
proof (cases "interact E child prompt (pb_timeout backend)")
  case (Ok decision)
  then have "interact_loop E child prompt (pb_timeout backend) 0 0 0 [] = Ok decision"
    by (auto simp: interact_def split: if_splits)
  then have "\<exists>j. ac_try_wait child j = Some (Some True)" using interact_loop_Ok by fastforce
  moreover have "r = Ok decision" "actions = []" using Ok assms by (auto simp: run_approver_def)
  ultimately show ?thesis by simp
next
  case (Err e)
  with assms have "r = Err e" "actions = terminate_and_reap status group_known" by (auto simp: run_approver_def)
  then show ?thesis by (cases status) (auto simp: terminate_and_reap_def)
qed

end
