(* ===== verification/Protocol_Properties.thy ===== *)
theory Protocol_Properties
  imports Wire_Demo Approver Ipc_Transport
begin

text \<open>
  What the protocols between client, daemon and consent process guarantee: one wire form for each message,
  nothing accepted that is cut off or padded, requests of the own user only, snapshots that cannot change,
  and decisions that belong to their prompt.
\<close>

section \<open>Requests\<close>

text \<open>
  C17. A request that the daemon receives comes from its own user, with exactly one descriptor. It is well
  typed and valid, and the packet it came in is its only encoding.
\<close>

theorem received_request_well_formed:
  "case receive_sign_request E uid credentials received of
     Ok q \<Rightarrow> pc_uid (rq_peer q) = uid \<and> sign_request_typed (rq_request q) \<and> validate_request E (rq_request q) = Ok ()
       \<and> (\<exists>m. received = Some m \<and> rm_length m \<le> MAX_REQUEST_PACKET_BYTES
            \<and> encode_sign_request E (rq_request q) = Ok (take (rm_length m) (rm_packet m))
            \<and> collect_descriptors (rm_ancillary m) = Ok [rq_input q])
   | Err _ \<Rightarrow> True"
proof (cases "receive_sign_request E uid credentials received")
  case (Ok q)
  then show ?thesis using receive_sign_request_Ok [OF Ok]
    by (auto simp: decode_sign_request_iff encode_sign_request_def)
qed simp

text \<open>
  C19. Decoding accepts exactly the encodings of typed requests and of responses: what one side encodes the
  other decodes to the same value, and no value has a second wire form.
\<close>

theorem ipc_messages_have_one_form:
  "(decode_sign_request E m = Ok request \<longleftrightarrow> sign_request_typed request \<and> encode_sign_request E request = Ok m)
   \<and> (decode_sign_response n = Ok response \<longleftrightarrow> n = encode_sign_response response)"
  by (simp add: decode_sign_request_iff decode_sign_response_iff)

text \<open>
  C18. A request that is cut off is reported as truncated, in its header or in its payload, and a request
  with anything behind it is reported as having trailing bytes.
\<close>

theorem cut_or_padded_request_rejected:
  assumes "decode_sign_request E (start @ rest) = Ok request" "rest \<noteq> []" "padding \<noteq> []"
  shows "decode_sign_request E start = Err (if length start < 20 then TruncatedHeader else TruncatedPayload)
    \<and> decode_sign_request E (start @ rest @ padding) = Err TrailingBytes"
  using ipc_requests.truncated_rejected [OF assms(1, 2)] ipc_requests.extended_rejected [OF assms(1, 3)] by simp_all

definition demo_sign_request :: SignRequest where
  "demo_sign_request = \<lparr>sr_persona_id = Some (demo_uuid_text 5), sr_subject = SubjectDomainControl\<rparr>"

lemma demo_sign_request_message:
  obtains m where "encode_sign_request demo_wire demo_sign_request = Ok m" "decode_sign_request demo_wire m = Ok demo_sign_request"
    "20 < length m"
proof -
  have "\<exists>m. encode_sign_request demo_wire demo_sign_request = Ok m \<and> 20 < length m"
    by (simp add: encode_sign_request_def demo_sign_request_def validate_request_def validate_persona_id_def demo_wire_def
        demo_uuid_text_shape ipc_sizes encode_domain_sign_request_def encode_single_persona_request_def required_persona_id_def
        ipc_framing.length_encode_head)
  then obtain m where m: "encode_sign_request demo_wire demo_sign_request = Ok m" "20 < length m" by blast
  then have "decode_sign_request demo_wire m = Ok demo_sign_request"
    by (simp add: decode_sign_request_iff sign_request_typed_def demo_sign_request_def demo_uuid_text_shape)
  with m that show thesis by blast
qed

theorem cut_or_padded_request_rejected_witness:
  "\<exists>m. decode_sign_request demo_wire m = Ok demo_sign_request \<and> decode_sign_request demo_wire (take 10 m) = Err TruncatedHeader
     \<and> decode_sign_request demo_wire (take 20 m) = Err TruncatedPayload \<and> decode_sign_request demo_wire (m @ [0]) = Err TrailingBytes"
proof -
  obtain m where m: "decode_sign_request demo_wire m = Ok demo_sign_request" "20 < length m"
    using demo_sign_request_message by metis
  have split: "take k m @ drop k m = m" "take k m @ drop k m @ [0] = m @ [0]" for k
    using append_take_drop_id [of k m] by (simp_all only: append_assoc [symmetric])
  have "drop 10 m \<noteq> []" "drop 20 m \<noteq> []" "length (take 10 m) < 20" "\<not> length (take 20 m) < 20" using m(2) by auto
  then have "decode_sign_request demo_wire (take 10 m) = Err TruncatedHeader" "decode_sign_request demo_wire (m @ [0]) = Err TrailingBytes"
    "decode_sign_request demo_wire (take 20 m) = Err TruncatedPayload"
    using cut_or_padded_request_rejected [of demo_wire "take 10 m" "drop 10 m" demo_sign_request "[0]", unfolded split]
      cut_or_padded_request_rejected [of demo_wire "take 20 m" "drop 20 m" demo_sign_request "[0]", unfolded split] m(1)
    by auto
  with m(1) show ?thesis by blast
qed

section \<open>Snapshots\<close>


definition demo_source :: SourceFile where
  "demo_source = \<lparr>sf_metadata = Some (True, 3), sf_read_at = (\<lambda>offset limit. Some (take limit (drop offset [1, 2, 3]))), sf_seals = None\<rparr>"

definition demo_memfd :: Memfd where
  "demo_memfd = \<lparr>mf_create = True, mf_write = (\<lambda>_. True), mf_flush = True, mf_add_seals = True, mf_get_seals = Some SNAPSHOT_SEALS,
     mf_seek = True\<rparr>"

lemma demo_snapshot:
  "snapshot_artifact demo_wire demo_source demo_memfd 10
     = Ok \<lparr>sa_bytes = [1, 2, 3], sa_descriptor = artifact_descriptor demo_wire [1, 2, 3] 3\<rparr>"
proof -
  have "stable_file demo_source [1, 2, 3]"
    unfolding stable_file_def demo_source_def by (intro allI, rule_tac x = limit in exI) simp
  then have "snapshot_loop demo_source demo_memfd 10 [] = Ok [1, 2, 3]"
    using snapshot_loop_stable [of demo_source "[1, 2, 3]" demo_memfd "[]" 10] by (simp add: demo_memfd_def)
  then show ?thesis
    by (simp add: snapshot_artifact_def finish_snapshot_def apply_and_verify_seals_def demo_source_def demo_memfd_def MAX_ARTIFACT_BYTES_def)
qed


section \<open>Prompts and decisions\<close>

text \<open>
  C20. The consent process reads exactly the prompts that the daemon writes, and the daemon exactly the
  decisions that the consent process writes, each as the same value.
\<close>

theorem prompts_and_decisions_read_back:
  assumes "uuid_bytes_law E"
  shows "(read_prompt E input = Ok prompt \<longleftrightarrow>
      rd_fault input = None \<and> prompt_typed prompt \<and> encode_prompt E prompt = Ok (rd_bytes input))
    \<and> (read_decision E input = Ok decision \<longleftrightarrow> rd_fault input = None \<and> rd_bytes input = encode_decision E decision)"
  by (simp add: read_prompt_iff read_decision_iff decode_prompt_iff [OF assms] decode_decision_iff [OF assms])

theorem prompts_and_decisions_read_back_witness:
  "\<exists>m. encode_prompt demo_wire demo_prompt = Ok m \<and> read_prompt demo_wire \<lparr>rd_bytes = m, rd_fault = None\<rparr> = Ok demo_prompt
     \<and> read_decision demo_wire \<lparr>rd_bytes = encode_decision demo_wire \<lparr>dr_request_id = 7, dr_decision = Approve\<rparr>, rd_fault = None\<rparr>
       = Ok \<lparr>dr_request_id = 7, dr_decision = Approve\<rparr>"
proof -
  show ?thesis
    using demo_prompt_encodes demo_prompt_typed by (auto simp: prompts_and_decisions_read_back [OF demo_wire_law])
qed

text \<open>How the exchange with the consent process may end.\<close>

definition approver_result :: "'z wire_ext_scheme \<Rightarrow> (ApproverChild, unit) result \<Rightarrow> bool option option \<Rightarrow> ApprovalPrompt \<Rightarrow>
    (ApprovalDecision, ApprovalError) result \<times> child_action list \<Rightarrow> bool" where
  "approver_result E spawned status prompt v \<longleftrightarrow>
     (case v of
       (Ok decision, actions) \<Rightarrow> actions = [] \<and> (\<exists>child. spawned = Ok child \<and> decided_by_child E child prompt decision)
     | (Err _, actions) \<Rightarrow> spawned = Err () \<or> last actions = WaitChild
         \<and> (KillGroup \<in> set actions \<or> KillChild \<in> set actions \<or> (\<exists>exit. status = Some (Some exit))))"

text \<open>
  C15. A decision rests on the child alone: the daemon wrote the whole prompt to it, the child exited with
  success and closed its output, and all it wrote is that decision for the request of this prompt. Every
  other behaviour of the child, and one that lasts too long, is an error, after which no child is left.
\<close>

theorem decision_belongs_to_prompt:
  assumes "uuid_bytes_law E"
  shows "approver_result E spawned status prompt (run_approver E spawned status group_known backend prompt)"
proof (cases spawned)
  case (Ok child)
  obtain r actions where run: "run_approver E (Ok child) status group_known backend prompt = (r, actions)" by fastforce
  show ?thesis
  proof (cases r)
    case Ok': (Ok decision)
    with run have "interact E child prompt (pb_timeout backend) = Ok decision"
      by (auto simp: run_approver_def split: result.splits)
    from interact_decided [OF assms this] run_approver_reaps [OF run] Ok Ok' run show ?thesis
      by (simp add: approver_result_def)
  next
    case (Err e)
    with run_approver_reaps [OF run] Ok run show ?thesis by (simp add: approver_result_def)
  qed
qed (simp add: approver_result_def run_approver_def)

definition demo_child :: ApproverChild where
  "demo_child =
     \<lparr>ac_stdin = Some \<lparr>wr_written = [], wr_write_fault = None, wr_flush_fault = None\<rparr>, ac_stdout = True, ac_nonblocking = True,
      ac_deadline = True,
      ac_read = (\<lambda>k. if k = 0 then ReadChunk (encode_decision demo_wire \<lparr>dr_request_id = 7, dr_decision = Approve\<rparr>) else ReadChunk []),
      ac_try_wait = (\<lambda>_. Some (Some True)), ac_delay = (\<lambda>_. 0)\<rparr>"

lemma demo_child_approves: "interact demo_wire demo_child demo_prompt timeout = Ok Approve"
proof -
  let ?m = "encode_decision demo_wire \<lparr>dr_request_id = 7, dr_decision = Approve\<rparr>"
  have len: "length ?m = 36"
    by (simp add: encode_decision_def approval_framing.length_encode_head demo_wire_def length_uuid_be_bytes)
  then have m: "take 256 ?m = ?m" "?m \<noteq> []" by auto
  have read: "read_available demo_child 0 [] = (Ok True, 2, ?m)"
    unfolding read_available.simps [of demo_child 0] using m len
    by (simp add: demo_child_def Let_def MAX_MESSAGE_BYTES_def prompt_sizes read_available.simps [of _ "Suc 0"])
  have again: "read_available demo_child 2 ?m = (Ok True, 3, ?m)"
    by (simp add: read_available.simps [of _ 2] demo_child_def)
  have "accept_decision demo_wire demo_prompt ?m = Ok Approve"
    by (simp add: accept_decision_iff [OF demo_wire_law]) (simp add: demo_prompt_def demo_prompt_of_def)
  moreover have "\<exists>w. write_prompt demo_wire \<lparr>wr_written = [], wr_write_fault = None, wr_flush_fault = None\<rparr> demo_prompt = Ok w"
    using demo_prompt_encodes by (auto simp: write_prompt_def write_message_Ok_iff)
  moreover have "ac_try_wait demo_child 0 = Some (Some True)" "ac_stdout demo_child" "ac_nonblocking demo_child" "ac_deadline demo_child"
    "ac_stdin demo_child = Some \<lparr>wr_written = [], wr_write_fault = None, wr_flush_fault = None\<rparr>"
    by (simp_all add: demo_child_def)
  ultimately show ?thesis
    by (auto simp: interact_def interact_loop.simps [of _ _ _ _ 0] read again)
qed

theorem decision_belongs_to_prompt_witness:
  "run_approver demo_wire (Ok demo_child) None True \<lparr>pb_program = PACKAGED_APPROVER_PATH, pb_timeout = APPROVAL_TIMEOUT_NANOS\<rparr> demo_prompt
     = (Ok Approve, []) \<and> decided_by_child demo_wire demo_child demo_prompt Approve"
  using decision_belongs_to_prompt [OF demo_wire_law, of "Ok demo_child" None demo_prompt True
      "\<lparr>pb_program = PACKAGED_APPROVER_PATH, pb_timeout = APPROVAL_TIMEOUT_NANOS\<rparr>"]
  by (simp add: run_approver_def demo_child_approves approver_result_def)


end
