(* ===== verification/Daemon_Requests.thy ===== *)
theory Daemon_Requests
  imports Daemon
begin

text \<open>
  The daemon's routine transitions and recovery participations, the dispatch on the subject of a
  request, and the handling of one connection (\<^verbatim>\<open>service.rs\<close>, \<^verbatim>\<open>service/recovery_participation.rs\<close>).
\<close>

section \<open>Routine transitions\<close>

record TransitionRequest =
  tq_persona_id :: string
  tq_expected_sequence :: u32
  tq_expected_root_sha256 :: string
  tq_expected_previous_transition_sha256 :: "string option"
  tq_next_key_provider :: KeyProvider
  tq_next_signing_reference :: string

primrec store_key_provider :: "TransitionKeyProvider \<Rightarrow> KeyProvider" where
  "store_key_provider TransitionOpensshFile = OpensshFile"
| "store_key_provider TransitionSshAgent = SshAgent"
| "store_key_provider TransitionFido2 = Fido2"

definition transition_request :: "SignRequest \<Rightarrow> (TransitionRequest, FailureClass) result" where
  "transition_request request =
     (case sr_subject request of
       SubjectPersonaTransition expected_sequence root previous provider reference \<Rightarrow>
         and_then (ok_or FailInvalidRequest (sr_persona_id request)) (\<lambda>persona_id.
         Ok \<lparr>tq_persona_id = persona_id, tq_expected_sequence = expected_sequence,
             tq_expected_root_sha256 = encode_sha256 root,
             tq_expected_previous_transition_sha256 = map_option encode_sha256 previous,
             tq_next_key_provider = store_key_provider provider, tq_next_signing_reference = reference\<rparr>)
     | _ \<Rightarrow> Err FailInvalidRequest)"

definition transition_request_matches_head :: "TransitionRequest \<Rightarrow> LiveContinuitySnapshot \<Rightarrow> bool" where
  "transition_request_matches_head request snapshot \<longleftrightarrow>
     (case checked_add (hd_transition_sequence (lcs_head snapshot)) 1 of
        None \<Rightarrow> False | Some sequence \<Rightarrow> sequence = tq_expected_sequence request)
     \<and> rpr_root_statement_sha256 (lcs_root snapshot) = tq_expected_root_sha256 request
     \<and> hd_last_transition_sha256 (lcs_head snapshot) = tq_expected_previous_transition_sha256 request"

definition normalized_public_key_text :: "string \<Rightarrow> string" where
  "normalized_public_key_text public_key =
     (case split_whitespace public_key of
        [] \<Rightarrow> '' ''
      | [algorithm] \<Rightarrow> algorithm @ '' ''
      | algorithm # encoded # _ \<Rightarrow> algorithm @ '' '' @ encoded)"

definition retry_locator_matches :: "daemon_env \<Rightarrow> string \<Rightarrow> string \<Rightarrow> bool handler" where
  "retry_locator_matches D path stored =
     (if path = stored then give (Ok True)
      else bind_action (ask (\<lambda>t. de_symlink_metadata D t path)) (\<lambda>v.
      case v of
        NotFound \<Rightarrow> give (Ok False)
      | LookupFailed \<Rightarrow> reject FailSignerUnavailable
      | Found metadata \<Rightarrow>
          if pm_is_symlink metadata \<or> \<not> pm_is_file metadata then give (Ok False)
          else bind_action (ask (\<lambda>t. de_canonicalize D t path)) (\<lambda>canonical.
          bind_action (attempt FailSignerUnavailable (ok_or () canonical)) (\<lambda>canonical. give (Ok (canonical = stored))))))"

definition retry_review :: "VerifiedPersonaTransition \<Rightarrow> PersonaTransitionReview" where
  "retry_review verified =
     (let statement = vt_statement verified in
      \<lparr>tr_persona = ts_persona statement, tr_persona_anchor = ts_persona_anchor statement,
       tr_root_statement_sha256 = ts_root_statement_sha256 statement, tr_sequence = ts_sequence statement,
       tr_previous_transition_sha256 = ts_previous_transition_sha256 statement,
       tr_previous_key_fingerprint = ts_previous_key_fingerprint statement,
       tr_next_key_fingerprint = ts_next_key_fingerprint statement, tr_issued_at = ts_issued_at statement,
       tr_transition_statement_sha256 = vt_transition_statement_sha256 verified\<rparr>)"

definition exact_transition_retry ::
  "daemon_env \<Rightarrow> LiveContinuitySnapshot \<Rightarrow> TransitionRequest \<Rightarrow> string \<Rightarrow> string \<Rightarrow>
   (PersonaTransitionProof \<times> PersonaTransitionReview) option handler" where
  "exact_transition_retry D snapshot request next_public_key next_key_fingerprint =
     (if hd_transition_sequence (lcs_head snapshot) \<noteq> tq_expected_sequence request then give (Ok None)
      else if lcs_transitions snapshot = [] then reject FailInvalidRequest
      else case last (lcs_transitions snapshot) of
        RoutineProof pf \<Rightarrow>
          bind_action (attempt FailInvalidRequest (verify_persona_transition_proof (de_core D) pf)) (\<lambda>verified.
          let statement = vt_statement verified in
          if rpr_root_statement_sha256 (lcs_root snapshot) \<noteq> tq_expected_root_sha256 request
             \<or> ts_sequence statement \<noteq> tq_expected_sequence request
             \<or> ts_root_statement_sha256 statement \<noteq> tq_expected_root_sha256 request
             \<or> ts_previous_transition_sha256 statement \<noteq> tq_expected_previous_transition_sha256 request
             \<or> ts_next_key_fingerprint statement \<noteq> next_key_fingerprint
             \<or> vt_next_public_key verified \<noteq> normalized_public_key_text next_public_key
          then give (Ok None)
          else let retry_intent = \<lparr>rti_persona_id = tq_persona_id request, rti_sequence = ts_sequence statement,
              rti_root_statement_sha256 = ts_root_statement_sha256 statement,
              rti_previous_transition_sha256 = ts_previous_transition_sha256 statement,
              rti_previous_key_fingerprint = ts_previous_key_fingerprint statement,
              rti_next_key_fingerprint = ts_next_key_fingerprint statement, rti_issued_at = ts_issued_at statement\<rparr>
          in bind_action (ask (\<lambda>t. de_retry_metadata D t retry_intent)) (\<lambda>answer.
          bind_action (attempt FailInvalidRequest answer) (\<lambda>found.
          bind_action (attempt FailInvalidRequest (ok_or () found)) (\<lambda>metadata.
          bind_action (retry_locator_matches D (tq_next_signing_reference request) (rcm_signing_locator metadata))
            (\<lambda>locator_matches.
          give (Ok (if rcm_persona_id metadata \<noteq> tq_persona_id request
             \<or> rcm_current_key_fingerprint metadata \<noteq> ts_next_key_fingerprint statement
             \<or> rcm_provider metadata \<noteq> tq_next_key_provider request
             \<or> \<not> locator_matches
           then None else Some (pf, retry_review verified))))))))
      | _ \<Rightarrow> give (Ok None))"

definition same_rotation_candidate :: "RoutineRotationCandidate \<Rightarrow> RoutineRotationCandidate \<Rightarrow> bool" where
  "same_rotation_candidate expected actual \<longleftrightarrow>
     rti_persona_id (rrc_intent expected) = rti_persona_id (rrc_intent actual)
     \<and> rti_sequence (rrc_intent expected) = rti_sequence (rrc_intent actual)
     \<and> rti_root_statement_sha256 (rrc_intent expected) = rti_root_statement_sha256 (rrc_intent actual)
     \<and> rti_previous_transition_sha256 (rrc_intent expected) = rti_previous_transition_sha256 (rrc_intent actual)
     \<and> rti_previous_key_fingerprint (rrc_intent expected) = rti_previous_key_fingerprint (rrc_intent actual)
     \<and> rti_next_key_fingerprint (rrc_intent expected) = rti_next_key_fingerprint (rrc_intent actual)
     \<and> rrc_public_key expected = rrc_public_key actual
     \<and> rrc_provider expected = rrc_provider actual
     \<and> sref_key_fingerprint (rrc_signing_reference expected) = sref_key_fingerprint (rrc_signing_reference actual)
     \<and> sref_locator (rrc_signing_reference expected) = sref_locator (rrc_signing_reference actual)"

text \<open>The tip of the extended chain: its length, its key and its last digest.\<close>

definition routine_only :: "PersonaContinuityTransitionProof \<Rightarrow> (PersonaTransitionProof, unit) result" where
  "routine_only t = (case t of RoutineProof pf \<Rightarrow> Ok pf | _ \<Rightarrow> Err ())"

definition extended_tip ::
  "daemon_env \<Rightarrow> LiveContinuitySnapshot \<Rightarrow> PersonaContinuityTransitionProof list \<Rightarrow> (u32 \<times> string \<times> string option) handler" where
  "extended_tip D previous chain =
     (case lcs_recovery_policy_head previous of
       Some policy_head \<Rightarrow>
         bind_action (now_or D FailInternal) (\<lambda>now.
         bind_action (attempt FailInternal (verify_persona_continuity_chain_with_recovery (de_core D)
           (rpr_proof (lcs_root previous)) chain (map rrp_proof (lcs_recovery_policies previous))
           (rpr_root_statement_sha256 (lcs_root previous)) (rph_latest_policy_sha256 policy_head) now)) (\<lambda>report.
         bind_action (attempt FailInternal (ok_or () (ra_current_key_fingerprint report))) (\<lambda>key.
         give (Ok (ra_transition_count report, key, ra_last_transition_sha256 report)))))
     | None \<Rightarrow>
         if lcs_recovery_policies previous \<noteq> [] then reject FailInternal
         else bind_action (attempt FailInternal (try_map routine_only chain)) (\<lambda>routine_chain.
         bind_action (attempt FailInternal (verify_persona_continuity_chain (de_core D)
           (rpr_proof (lcs_root previous)) routine_chain (rpr_root_statement_sha256 (lcs_root previous)))) (\<lambda>report.
         give (Ok (cr_transition_count report, cr_chain_tip_key_fingerprint report, cr_last_transition_sha256 report)))))"

definition verify_new_transition ::
  "daemon_env \<Rightarrow> PersonaTransitionProof \<Rightarrow> PersonaTransitionStatement \<Rightarrow> PersonaTransitionReview \<Rightarrow> LiveContinuitySnapshot \<Rightarrow>
   unit handler" where
  "verify_new_transition D pf statement review previous =
     bind_action (attempt FailInternal (verify_persona_transition_proof (de_core D) pf)) (\<lambda>verified.
     if vt_statement verified \<noteq> statement
        \<or> vt_transition_statement_sha256 verified \<noteq> tr_transition_statement_sha256 review
     then reject FailInternal
     else bind_action (extended_tip D previous (lcs_transitions previous @ [RoutineProof pf])) (\<lambda>(transition_count, key, last_sha256).
     if transition_count \<noteq> tr_sequence review \<or> key \<noteq> tr_next_key_fingerprint review
        \<or> last_sha256 \<noteq> Some (tr_transition_statement_sha256 review)
     then reject FailInternal
     else give (Ok ())))"

definition transition_approval_prompt ::
  "daemon_env \<Rightarrow> Uuid \<Rightarrow> PersonaTransitionReview \<Rightarrow> PeerCredentials \<Rightarrow> ActiveSigner \<Rightarrow> (ApprovalPrompt, unit) result" where
  "transition_approval_prompt D request_id review peer signer =
     and_then (ok_or () (uuid_parse_str (de_wire D) (per_id (asg_persona signer)))) (\<lambda>persona_id.
     and_then (decode_sha256 (tr_root_statement_sha256 review)) (\<lambda>root.
     and_then (decode_optional_sha256 (tr_previous_transition_sha256 review)) (\<lambda>previous.
     and_then (decode_sha256 (tr_transition_statement_sha256 review)) (\<lambda>digest.
     and_then (peer_identity peer) (\<lambda>peer.
     map_err (\<lambda>_. ()) (prompt_new_persona_transition (de_wire D) request_id persona_id (signer_label signer)
       (prompt_persona_purpose (per_purpose (asg_persona signer))) (tr_previous_key_fingerprint review)
       (tr_persona_anchor review) root (tr_sequence review) previous (tr_issued_at review)
       (tr_next_key_fingerprint review) digest peer))))))"

definition ask_candidate :: "daemon_env \<Rightarrow> TransitionRequest \<Rightarrow> string \<Rightarrow> RoutineRotationCandidate handler" where
  "ask_candidate D request next_public_key =
     bind_action (observe (\<lambda>t. de_candidate D t (tq_persona_id request) next_public_key (tq_next_key_provider request)
       (tq_next_signing_reference request)) AskedCandidate) (attempt FailSignerUnavailable)"

text \<open>The key to rotate to: the trimmed text of the snapshot and its fingerprint.\<close>

definition next_key :: "daemon_env \<Rightarrow> SourceFile \<Rightarrow> (string \<times> string) handler" where
  "next_key D input =
     bind_action (take_snapshot D input MAX_PERSONA_TRANSITION_PUBLIC_KEY_BYTES) (\<lambda>snapshot.
     bind_action (read_snapshot D snapshot MAX_PERSONA_TRANSITION_PUBLIC_KEY_BYTES) (\<lambda>bs.
     bind_action (attempt FailInvalidRequest (ok_or () (from_utf8 bs))) (\<lambda>v.
     if str_trim v = [] then reject FailInvalidRequest
     else bind_action (attempt FailInvalidRequest (public_key_fingerprint (de_core D) (str_trim v))) (\<lambda>fingerprint.
     give (Ok (str_trim v, fingerprint))))))"

text \<open>What the user is asked about: the statement to sign, its review, and what both were derived from.\<close>

record ReviewedTransition =
  rv_signer :: ActiveSigner
  rv_candidate :: RoutineRotationCandidate
  rv_statement :: PersonaTransitionStatement
  rv_review :: PersonaTransitionReview

definition review_transition ::
  "daemon_env \<Rightarrow> TransitionRequest \<Rightarrow> string \<Rightarrow> string \<Rightarrow> LiveContinuitySnapshot \<Rightarrow> ReviewedTransition handler" where
  "review_transition D request next_public_key next_key_fingerprint continuity =
     (if \<not> transition_request_matches_head request continuity then reject FailInvalidRequest
      else bind_action (ask_signer D (tq_persona_id request)) (\<lambda>previous_signer.
      if key_fingerprint (asg_key previous_signer) \<noteq> hd_current_key_fingerprint (lcs_head continuity)
      then reject FailPersonaUnavailable
      else bind_action (ask_candidate D request next_public_key) (\<lambda>candidate.
      if sref_key_fingerprint (rrc_signing_reference candidate) \<noteq> next_key_fingerprint then reject FailInternal
      else bind_action (attempt FailInvalidRequest (verify_persona_root_proof (de_core D) (rpr_proof (lcs_root continuity)))) (\<lambda>root.
      bind_action (attempt FailInvalidRequest (new_routine_transition_statement (de_core D) root
        (rti_sequence (rrc_intent candidate)) (rti_previous_transition_sha256 (rrc_intent candidate))
        (signer_key previous_signer) (rrc_public_key candidate) (rti_issued_at (rrc_intent candidate)))) (\<lambda>statement.
      bind_action (now_or D FailInternal) (\<lambda>now.
      bind_action (attempt FailInvalidRequest (review_persona_transition_statement (de_core D) statement now root
        (tq_expected_sequence request) (tq_expected_previous_transition_sha256 request)
        (signer_key previous_signer) (rrc_public_key candidate))) (\<lambda>review.
      if tr_root_statement_sha256 review \<noteq> tq_expected_root_sha256 request then reject FailInvalidRequest
      else give (Ok \<lparr>rv_signer = previous_signer, rv_candidate = candidate, rv_statement = statement, rv_review = review\<rparr>))))))))"

text \<open>After the approval everything that was reviewed is asked for again and must be the same.\<close>

definition recheck_transition ::
  "daemon_env \<Rightarrow> TransitionRequest \<Rightarrow> string \<Rightarrow> LiveContinuitySnapshot \<Rightarrow> ReviewedTransition \<Rightarrow>
   (ActiveSigner \<times> RoutineRotationCandidate) handler" where
  "recheck_transition D request next_public_key continuity v =
     bind_action (ask_snapshot D (tq_persona_id request)) (\<lambda>answer.
     if answer \<noteq> Ok continuity then reject FailPersonaUnavailable
     else bind_action (same_signer D (tq_persona_id request) (rv_signer v)) (\<lambda>signer.
     bind_action (ask_candidate D request next_public_key) (\<lambda>candidate.
     if \<not> same_rotation_candidate (rv_candidate v) candidate then reject FailSignerUnavailable
     else bind_action (attempt FailInvalidRequest (verify_persona_root_proof (de_core D) (rpr_proof (lcs_root continuity)))) (\<lambda>root.
     bind_action (now_or D FailInvalidRequest) (\<lambda>now.
     bind_action (attempt FailInvalidRequest (review_persona_transition_statement (de_core D) (rv_statement v) now root
       (tq_expected_sequence request) (tq_expected_previous_transition_sha256 request)
       (signer_key signer) (rrc_public_key candidate))) (\<lambda>review.
     if review \<noteq> rv_review v then reject FailInvalidRequest
     else give (Ok (signer, candidate))))))))"

definition commit_transition ::
  "daemon_env \<Rightarrow> string \<Rightarrow> PersonaTransitionProof \<Rightarrow> PersonaTransitionReview \<Rightarrow> RoutineRotationCandidate \<Rightarrow>
   PersonaTransitionProof handler" where
  "commit_transition D persona_id pf review candidate =
     bind_action (observe (\<lambda>t. de_commit D t persona_id pf (rrc_provider candidate)
         (sref_locator (rrc_signing_reference candidate)))
       (\<lambda>_. Committed persona_id pf (rrc_provider candidate) (sref_locator (rrc_signing_reference candidate)))) (\<lambda>answer.
     bind_action (attempt FailInvalidRequest answer) (\<lambda>committed.
     if crt_proof committed \<noteq> pf then reject FailInternal
     else bind_action (ask_snapshot D persona_id) (\<lambda>answer.
     bind_action (attempt FailInternal answer) (\<lambda>snapshot.
     if hd_transition_sequence (lcs_head snapshot) = tr_sequence review
        \<and> hd_current_key_fingerprint (lcs_head snapshot) = tr_next_key_fingerprint review
        \<and> lcs_transitions snapshot \<noteq> []
        \<and> last (lcs_transitions snapshot) = RoutineProof (crt_proof committed)
     then give (Ok (crt_proof committed)) else reject FailInternal))))"

definition process_persona_transition ::
  "daemon_env \<Rightarrow> (nat \<Rightarrow> FailureClass option) \<Rightarrow> Uuid \<Rightarrow> SignRequest \<Rightarrow> SourceFile \<Rightarrow> PeerCredentials \<Rightarrow> approval_result handler" where
  "process_persona_transition D interrupted request_uuid request input peer =
     bind_action (give (map_err Fails (transition_request request))) (\<lambda>request.
     bind_action (next_key D input) (\<lambda>(next_public_key, next_key_fingerprint).
     bind_action (ask_snapshot D (tq_persona_id request)) (\<lambda>answer.
     bind_action (attempt FailPersonaUnavailable answer) (\<lambda>continuity.
     bind_action (exact_transition_retry D continuity request next_public_key next_key_fingerprint) (\<lambda>retry.
     case retry of
       Some (pf, review) \<Rightarrow>
         bind_action (check_connection interrupted) (\<lambda>_.
         bind_action (sealed_proof D (SignedPersonaTransition pf)) (\<lambda>sealed.
         give (Ok (tr_previous_key_fingerprint review, ApprovedPersonaTransition review, sealed))))
     | None \<Rightarrow>
         bind_action (review_transition D request next_public_key next_key_fingerprint continuity) (\<lambda>v.
         bind_action (check_connection interrupted) (\<lambda>_.
         bind_action (attempt FailInternal (transition_approval_prompt D request_uuid (rv_review v) peer (rv_signer v))) (\<lambda>prompt.
         bind_action (decide D prompt) (\<lambda>_.
         bind_action (check_connection interrupted) (\<lambda>_.
         bind_action (recheck_transition D request next_public_key continuity v) (\<lambda>(signer, candidate).
         bind_action (note_event (Signed (SignsTransition (rv_statement v) signer candidate))) (\<lambda>_.
         bind_action (attempt FailSignerUnavailable (create_routine_transition_proof (de_core D) (rv_statement v)
           (signer_locator signer) (signer_key signer)
           (sref_locator (rrc_signing_reference candidate)) (rrc_public_key candidate))) (\<lambda>pf.
         bind_action (verify_new_transition D pf (rv_statement v) (rv_review v) continuity) (\<lambda>_.
         bind_action (check_connection interrupted) (\<lambda>_.
         bind_action (commit_transition D (tq_persona_id request) pf (rv_review v) candidate) (\<lambda>persisted.
         bind_action (sealed_proof D (SignedPersonaTransition persisted)) (\<lambda>sealed.
         give (Ok (tr_previous_key_fingerprint (rv_review v), ApprovedPersonaTransition (rv_review v), sealed)))))))))))))))))))"

section \<open>Recovery participation\<close>

definition MAX_PRIVATE_SIGNING_REFERENCE_BYTES :: nat where "MAX_PRIVATE_SIGNING_REFERENCE_BYTES = 1024 * 1024"

record ParticipantRequest =
  pq_provider :: RecoveryParticipantKeyProvider
  pq_signing_reference :: string
  pq_public_key :: string
  pq_expected_root_sha256 :: bytes
  pq_expected_policy_version :: u32
  pq_expected_policy_sha256 :: bytes
  pq_expected_policy_threshold :: u32
  pq_expected_previous_head_sequence :: u32
  pq_expected_previous_head_sha256 :: "bytes option"

record SigningReferenceIdentity =
  si_canonical_path :: string
  si_device :: u64
  si_inode :: u64
  si_length :: nat
  si_mode :: u32
  si_owner :: u32
  si_modified_seconds :: i64
  si_modified_nanoseconds :: i64
  si_changed_seconds :: i64
  si_changed_nanoseconds :: i64

definition participant_request :: "SignRequest \<Rightarrow> (ParticipantRequest, FailureClass) result" where
  "participant_request request =
     (if sr_persona_id request \<noteq> None then Err FailInvalidRequest
      else case sr_subject request of
        SubjectRecoveryParticipation provider reference public_key root version policy threshold sequence head \<Rightarrow>
          Ok \<lparr>pq_provider = provider, pq_signing_reference = reference, pq_public_key = public_key,
              pq_expected_root_sha256 = root, pq_expected_policy_version = version, pq_expected_policy_sha256 = policy,
              pq_expected_policy_threshold = threshold, pq_expected_previous_head_sequence = sequence,
              pq_expected_previous_head_sha256 = head\<rparr>
      | _ \<Rightarrow> Err FailInvalidRequest)"

definition result_ok :: "('a, 'e) result \<Rightarrow> 'a option" where
  "result_ok r = (case r of Ok x \<Rightarrow> Some x | Err _ \<Rightarrow> None)"

definition pins_match ::
  "ParticipantRequest \<Rightarrow> RecoveryCeremonyParticipantReview \<Rightarrow> VerifiedRecoveryCeremonyRequest \<Rightarrow> bool" where
  "pins_match participant review verified \<longleftrightarrow>
     result_ok (decode_sha256 (cv_root_statement_sha256 review)) = Some (pq_expected_root_sha256 participant)
     \<and> cv_recovery_policy_version review = pq_expected_policy_version participant
     \<and> result_ok (decode_sha256 (cv_recovery_policy_sha256 review)) = Some (pq_expected_policy_sha256 participant)
     \<and> ps_threshold (vp_statement (vq_selected_policy verified)) = pq_expected_policy_threshold participant
     \<and> pc_transition_sequence (cv_previous_head review) = pq_expected_previous_head_sequence participant
     \<and> Option.bind (result_ok (decode_optional_sha256 (pc_transition_sha256 (cv_previous_head review)))) id
         = pq_expected_previous_head_sha256 participant"

definition file_identity :: "string \<Rightarrow> TimedMetadata \<Rightarrow> SigningReferenceIdentity" where
  "file_identity path metadata =
     \<lparr>si_canonical_path = path, si_device = pm_dev metadata, si_inode = pm_ino metadata, si_length = pm_len metadata,
      si_mode = pm_mode metadata, si_owner = pm_uid metadata, si_modified_seconds = pm_mtime metadata,
      si_modified_nanoseconds = pm_mtime_nsec metadata, si_changed_seconds = pm_ctime metadata,
      si_changed_nanoseconds = pm_ctime_nsec metadata\<rparr>"

definition lookup_metadata :: "daemon_env \<Rightarrow> string \<Rightarrow> TimedMetadata handler" where
  "lookup_metadata D path =
     bind_action (ask (\<lambda>t. de_symlink_metadata D t path)) (\<lambda>v.
     attempt FailSignerUnavailable (case v of Found metadata \<Rightarrow> Ok metadata | _ \<Rightarrow> Err ()))"

definition hardware_algorithm :: "string \<Rightarrow> bool" where
  "hardware_algorithm public_key \<longleftrightarrow>
     (case split_whitespace public_key of [] \<Rightarrow> False
      | algorithm # _ \<Rightarrow> algorithm = ''sk-ssh-ed25519@openssh.com'' \<or> algorithm = ''sk-ecdsa-sha2-nistp256@openssh.com'')"

text \<open>The masks \<^verbatim>\<open>0o022\<close> and \<^verbatim>\<open>0o077\<close> are 18 and 63.\<close>

definition validate_signing_reference :: "daemon_env \<Rightarrow> ParticipantRequest \<Rightarrow> SigningReferenceIdentity handler" where
  "validate_signing_reference D participant =
     bind_action (attempt FailInvalidRequest (public_key_fingerprint (de_core D) (pq_public_key participant))) (\<lambda>_.
     if pq_provider participant = ParticipantFido2 \<and> \<not> hardware_algorithm (pq_public_key participant)
     then reject FailSignerUnavailable
     else if pq_signing_reference participant = [] \<or> \<not> is_absolute (pq_signing_reference participant)
     then reject FailSignerUnavailable
     else bind_action (lookup_metadata D (pq_signing_reference participant)) (\<lambda>entry.
     if pm_is_symlink entry \<or> \<not> pm_is_file entry \<or> pm_len entry = 0 then reject FailSignerUnavailable
     else bind_action (ask (\<lambda>t. de_canonicalize D t (pq_signing_reference participant))) (\<lambda>canonical.
     bind_action (attempt FailSignerUnavailable (ok_or () canonical)) (\<lambda>canonical_path.
     bind_action (lookup_metadata D canonical_path) (\<lambda>metadata.
     if pm_is_symlink metadata \<or> \<not> pm_is_file metadata \<or> pm_len metadata = 0
        \<or> MAX_PRIVATE_SIGNING_REFERENCE_BYTES < pm_len metadata
     then reject FailSignerUnavailable
     else if pm_uid metadata \<noteq> de_euid D \<and> \<not> (pq_provider participant = ParticipantSshAgent \<and> pm_uid metadata = 0)
     then reject FailSignerUnavailable
     else if pm_mode metadata AND 18 \<noteq> 0
        \<or> (pq_provider participant \<noteq> ParticipantSshAgent \<and> pm_mode metadata AND 63 \<noteq> 0)
     then reject FailSignerUnavailable
     else give (Ok (file_identity canonical_path metadata)))))))"

primrec prompt_role :: "RecoveryCeremonyParticipantRole \<Rightarrow> PromptRole" where
  "prompt_role RecoveryAuthority = PromptRecoveryAuthority"
| "prompt_role NextKey = PromptNextSigningKey"

primrec prompt_reason :: "RecoveryTransitionReason \<Rightarrow> PromptReason" where
  "prompt_reason RecoveryOfKey = PromptRecovery"
| "prompt_reason RecoveryFromCompromise = PromptCompromise"

definition recovery_approval_prompt ::
  "daemon_env \<Rightarrow> Uuid \<Rightarrow> RecoveryCeremonyParticipantReview \<Rightarrow> VerifiedRecoveryCeremonyRequest \<Rightarrow> PeerCredentials \<Rightarrow>
   (ApprovalPrompt, unit) result" where
  "recovery_approval_prompt D request_id review verified peer =
     and_then (decode_sha256 (cv_request_sha256 review)) (\<lambda>request_sha256.
     and_then (decode_sha256 (cv_root_statement_sha256 review)) (\<lambda>root.
     and_then (decode_sha256 (cv_recovery_policy_sha256 review)) (\<lambda>policy.
     and_then (decode_optional_sha256 (pc_transition_sha256 (cv_previous_head review))) (\<lambda>head.
     and_then (peer_identity peer) (\<lambda>peer.
     map_err (\<lambda>_. ()) (prompt_new_recovery_participation (de_wire D) request_id (cv_persona review)
       (cv_participant_fingerprint review) request_sha256 (cv_ceremony_id review) (cv_expires_at review)
       (rts_persona_anchor (vq_statement verified)) root (cv_recovery_policy_version review) policy
       (ps_threshold (vp_statement (vq_selected_policy verified))) (pc_transition_sequence (cv_previous_head review)) head
       (prompt_reason (cv_reason review)) (cv_previous_key_fingerprint review) (cv_next_key_fingerprint review)
       (prompt_role (cv_role review)) peer))))))"

text \<open>The review of a ceremony request: parsed, verified, reviewed for the participant and matched with the pins.\<close>

definition review_participation ::
  "daemon_env \<Rightarrow> ParticipantRequest \<Rightarrow> RecoveryCeremonyRequest \<Rightarrow> i64 \<Rightarrow>
   (VerifiedRecoveryCeremonyRequest \<times> RecoveryCeremonyParticipantReview) handler" where
  "review_participation D participant request now =
     bind_action (attempt FailInvalidRequest (verify_recovery_ceremony_request (de_core D) request now)) (\<lambda>verified.
     bind_action (attempt FailInvalidRequest
       (review_recovery_ceremony_participant (de_core D) verified (pq_public_key participant) now)) (\<lambda>review.
     if \<not> pins_match participant review verified then reject FailInvalidRequest
     else give (Ok (verified, review))))"

definition same_signing_reference ::
  "daemon_env \<Rightarrow> ParticipantRequest \<Rightarrow> SigningReferenceIdentity \<Rightarrow> SigningReferenceIdentity handler" where
  "same_signing_reference D participant signing_identity w =
     (case validate_signing_reference D participant w of
       (Ok current, w') \<Rightarrow> (if current = signing_identity then Ok current else Err (Fails FailSignerUnavailable), w')
     | (Err _, w') \<Rightarrow> (Err (Fails FailSignerUnavailable), w'))"

definition process_recovery_participation ::
  "daemon_env \<Rightarrow> (nat \<Rightarrow> FailureClass option) \<Rightarrow> Uuid \<Rightarrow> SignRequest \<Rightarrow> SourceFile \<Rightarrow> PeerCredentials \<Rightarrow> approval_result handler" where
  "process_recovery_participation D interrupted request_uuid request input peer =
     bind_action (give (map_err Fails (participant_request request))) (\<lambda>participant.
     bind_action (take_snapshot D input MAX_RECOVERY_PARTICIPATION_REQUEST_BYTES) (\<lambda>snapshot.
     bind_action (read_snapshot D snapshot MAX_RECOVERY_PARTICIPATION_REQUEST_BYTES) (\<lambda>request_bytes.
     bind_action (now_or D FailInternal) (\<lambda>now.
     bind_action (attempt FailInvalidRequest (parse_recovery_ceremony_request_bytes (de_core D) request_bytes)) (\<lambda>request.
     bind_action (review_participation D participant request now) (\<lambda>(verified, review).
     bind_action (validate_signing_reference D participant) (\<lambda>signing_identity.
     bind_action (check_connection interrupted) (\<lambda>_.
     bind_action (attempt FailInternal (recovery_approval_prompt D request_uuid review verified peer)) (\<lambda>prompt.
     bind_action (decide D prompt) (\<lambda>_.
     bind_action (check_connection interrupted) (\<lambda>_.
     bind_action (now_or D FailInternal) (\<lambda>checked_at.
     if checked_at < now then reject FailInvalidRequest
     else bind_action (attempt FailInvalidRequest (parse_recovery_ceremony_request_bytes (de_core D) request_bytes)) (\<lambda>current_request.
     if current_request \<noteq> request then reject FailInvalidRequest
     else bind_action (attempt FailInvalidRequest
       (verify_recovery_ceremony_request (de_core D) current_request checked_at)) (\<lambda>current_verified.
     if vq_request_sha256 current_verified \<noteq> vq_request_sha256 verified then reject FailInvalidRequest
     else bind_action (attempt FailInvalidRequest
       (review_recovery_ceremony_participant (de_core D) current_verified (pq_public_key participant) checked_at)) (\<lambda>current_review.
     if current_review \<noteq> review then reject FailInvalidRequest
     else if \<not> pins_match participant current_review current_verified then reject FailInvalidRequest
     else bind_action (same_signing_reference D participant signing_identity) (\<lambda>current_identity.
     let signer = \<lparr>signer_private_key_path = si_canonical_path current_identity,
                   signer_public_key = pq_public_key participant\<rparr> in
     bind_action (note_event (Signed (SignsRecovery current_verified signer))) (\<lambda>_.
     bind_action (attempt FailSignerUnavailable
       (sign_recovery_ceremony_request (de_core D) current_verified signer checked_at)) (\<lambda>response.
     bind_action (check_connection interrupted) (\<lambda>_.
     bind_action (now_or D FailInternal) (\<lambda>completed_at.
     bind_action (attempt FailInvalidRequest
       (verify_recovery_ceremony_response (de_core D) current_verified response completed_at)) (\<lambda>_.
     bind_action (attempt FailInternal (canonical_recovery_ceremony_response_bytes (de_core D) response)) (\<lambda>response_bytes.
     bind_action (ask (de_memfd D)) (\<lambda>mem.
     bind_action (attempt FailInternal (seal_proof_bytes mem response_bytes)) (\<lambda>sealed.
     give (Ok (cv_participant_fingerprint current_review, ApprovedRecoveryParticipation current_review, sealed))))))))))))))))))))))))))"

section \<open>Requests and connections\<close>

definition process_subject ::
  "daemon_env \<Rightarrow> (nat \<Rightarrow> FailureClass option) \<Rightarrow> Uuid \<Rightarrow> SignRequest \<Rightarrow> SourceFile \<Rightarrow> PeerCredentials \<Rightarrow> approval_result handler" where
  "process_subject D interrupted request_uuid request input peer =
     (case sr_subject request of
       SubjectRecoveryParticipation _ _ _ _ _ _ _ _ _ \<Rightarrow>
         process_recovery_participation D interrupted request_uuid request input peer
     | SubjectPersonaTransition _ _ _ _ _ \<Rightarrow> process_persona_transition D interrupted request_uuid request input peer
     | _ \<Rightarrow> process_persona_request D interrupted request_uuid request input peer)"

definition to_outcome :: "string \<Rightarrow> (approval_result, stop) result \<Rightarrow> DaemonOutcome option" where
  "to_outcome request_id r =
     (case r of
       Ok (signer_fingerprint, subject, sealed) \<Rightarrow> Some (OutcomeApproved request_id signer_fingerprint subject sealed)
     | Err (Fails failure) \<Rightarrow> Some (OutcomeRejected (Some request_id) failure)
     | Err Blocks \<Rightarrow> None)"

definition process_received_request_inner ::
  "daemon_env \<Rightarrow> (nat \<Rightarrow> FailureClass option) \<Rightarrow> ReceivedSignRequest \<Rightarrow> entry world \<Rightarrow> DaemonOutcome option \<times> entry world" where
  "process_received_request_inner D interrupted received w =
     (let request_uuid = de_new_v4 D (w_tick w);
          (r, w') = process_subject D interrupted request_uuid (rq_request received) (rq_input received) (rq_peer received)
            (w\<lparr>w_tick := w_tick w + 1\<rparr>)
      in (to_outcome (uuid_to_string (de_wire D) request_uuid) r, w'))"

definition process_received_request ::
  "daemon_env \<Rightarrow> ReceivedSignRequest \<Rightarrow> entry world \<Rightarrow> DaemonOutcome option \<times> entry world" where
  "process_received_request D = process_received_request_inner D (\<lambda>_. None)"

text \<open>Sending: a rejection is sent and forgotten, an approval reports whether it was sent.\<close>

definition tell_rejected :: "daemon_env \<Rightarrow> RejectionCode \<Rightarrow> entry world \<Rightarrow> entry world" where
  "tell_rejected D code w =
     (let _ = send_sign_rejected code (de_sent D (w_tick w))
      in w\<lparr>w_tick := w_tick w + 1, w_transcript := w_transcript w @ [SendsRejected code]\<rparr>)"

definition tell_approved :: "daemon_env \<Rightarrow> SealedProof \<Rightarrow> entry world \<Rightarrow> bool \<times> entry world" where
  "tell_approved D sealed w =
     (is_Ok (send_sign_approved (de_proof_file D (w_tick w) sealed) (de_pushed D (w_tick w)) (de_sent D (w_tick w))),
      w\<lparr>w_tick := w_tick w + 1, w_transcript := w_transcript w @ [SendsApproved sealed]\<rparr>)"

definition look :: "daemon_env \<Rightarrow> entry world \<Rightarrow> FailureClass option \<times> entry world" where
  "look D w =
     (let v = connection_failure (de_peek D (w_tick w))
      in (v, w\<lparr>w_tick := w_tick w + 1, w_transcript := w_transcript w @ [Checked v]\<rparr>))"

definition tell_failure :: "daemon_env \<Rightarrow> FailureClass \<Rightarrow> entry world \<Rightarrow> entry world" where
  "tell_failure D failure w =
     (if failure = FailInvalidRequest then tell_rejected D (failure_rejection_code failure) w else w)"

text \<open>The arm of \<open>handle_connection\<close> for a request that was approved.\<close>

definition answer_approved ::
  "daemon_env \<Rightarrow> string \<Rightarrow> string \<Rightarrow> ApprovedSubject \<Rightarrow> SealedProof \<Rightarrow> entry world \<Rightarrow> DaemonOutcome option \<times> entry world" where
  "answer_approved D request_id signer_fingerprint subject sealed w =
     (case look D w of
       (Some failure, w) \<Rightarrow> (Some (OutcomeRejected (Some request_id) failure), tell_failure D failure w)
     | (None, w) \<Rightarrow>
         (case tell_approved D sealed w of
           (False, w) \<Rightarrow> (Some (OutcomeRejected (Some request_id) FailClientCancelled), w)
         | (True, w) \<Rightarrow> (Some (OutcomeApproved request_id signer_fingerprint subject sealed), w)))"

definition handle_connection :: "daemon_env \<Rightarrow> entry world \<Rightarrow> DaemonOutcome option \<times> entry world" where
  "handle_connection D w =
     (case receive_sign_request (de_wire D) (de_euid D) (de_credentials D (w_tick w)) (de_recv D (w_tick w)) of
       Err _ \<Rightarrow> (Some (OutcomeRejected None FailInvalidRequest), tell_rejected D InvalidRequest (w\<lparr>w_tick := w_tick w + 1\<rparr>))
     | Ok received \<Rightarrow>
         (case look D (w\<lparr>w_tick := w_tick w + 1\<rparr>) of
           (Some failure, w) \<Rightarrow> (Some (OutcomeRejected None failure), tell_failure D failure w)
         | (None, w) \<Rightarrow>
             (case process_received_request_inner D (connection_failure \<circ> de_peek D) received w of
               (None, w) \<Rightarrow> (None, w)
             | (Some (OutcomeRejected request_id failure), w) \<Rightarrow>
                 (Some (OutcomeRejected request_id failure), tell_rejected D (failure_rejection_code failure) w)
             | (Some (OutcomeApproved request_id signer_fingerprint subject sealed), w) \<Rightarrow>
                 answer_approved D request_id signer_fingerprint subject sealed w)))"

end
