(* ===== verification/Daemon_Protocol.thy ===== *)
theory Daemon_Protocol
  imports Daemon_Requests
begin

text \<open>
  The protocol of the daemon and the proof that its handlers obey it: nothing is signed unless the user
  approved a prompt that shows it, one approval covers one signature, a root or a transition is stored
  only after it was signed, and a proof leaves the daemon only when it was signed and stored, or when
  it is the last transition that the store already holds.
\<close>

section \<open>Digests in text\<close>

lemma as_bytes_hex_digit: "n < 16 \<Longrightarrow> decode_hex_digit (of_char (''0123456789abcdef'' ! n)) = Some (of_nat n)"
  by (drule less_16_cases) (auto simp: decode_hex_digit_def)

lemma nibble_pair: "push_bit 4 (drop_bit 4 b) OR (b AND 0x0f) = (b :: byte)"
proof -
  have "push_bit 4 (drop_bit 4 b) OR (b AND mask 4) = b"
    by (rule bit_eqI) (auto simp: bit_simps)
  then show ?thesis by (simp add: mask_eq_exp_minus_1)
qed

lemma nibble_less: "unat (drop_bit 4 (b :: byte)) < 16" "unat (b AND 0x0f :: byte) < 16"
  using nibbles [of b] by simp_all

lemma decode_hex_pairs_encode [simp]: "decode_hex_pairs (as_bytes (encode_sha256 digest)) = Ok digest"
proof (induction digest)
  case (Cons b digest)
  have "decode_hex_digit (of_char (''0123456789abcdef'' ! unat (drop_bit 4 b))) = Some (drop_bit 4 b)"
    "decode_hex_digit (of_char (''0123456789abcdef'' ! unat (b AND 0x0f))) = Some (b AND 0x0f)"
    using as_bytes_hex_digit [OF nibble_less(1) [of b]] as_bytes_hex_digit [OF nibble_less(2) [of b]] by simp_all
  with Cons.IH show ?case by (simp add: encode_sha256_def as_bytes_def nibble_pair)
qed (simp add: encode_sha256_def as_bytes_def)

lemma length_encode_sha256 [simp]: "length (encode_sha256 digest) = 2 * length digest"
  by (induction digest) (simp_all add: encode_sha256_def)

lemma decode_encode_sha256 [simp]: "decode_sha256 (encode_sha256 digest) = Ok digest \<longleftrightarrow> length digest = 32"
  by (auto simp: decode_sha256_def)

lemma decode_hex_digit_Some:
  assumes "decode_hex_digit (of_char c) = Some v"
  shows "unat v < 16 \<and> ''0123456789abcdef'' ! unat v = c"
proof -
  have v: "unat v < 16" and c: "of_char c = (if unat v < 10 then v + 0x30 else v + 0x57)"
    using assms by (auto simp: decode_hex_digit_def word_le_nat_alt unat_sub unat_word_ariths split: if_splits)
  from v obtain n where n: "n < 16" "v = of_nat n" by (rule that [of "unat v"]) simp
  have "of_char (''0123456789abcdef'' ! unat v) = (if unat v < 10 then v + 0x30 else v + 0x57)"
    using less_16_cases [OF n(1)] unfolding n(2) by auto
  with c v show ?thesis by (metis char_from_of_char)
qed

lemma join_nibbles:
  fixes high low :: byte
  assumes "unat high < 16" "unat low < 16"
  shows "drop_bit 4 (push_bit 4 high OR low) = high" "(push_bit 4 high OR low) AND 0x0f = low"
proof -
  have t: "take_bit 4 high = high" "take_bit 4 low = low"
    using assms by (simp_all add: word_unat_eq_iff unsigned_take_bit_eq take_bit_nat_eq_self)
  then have bits: "bit high k \<Longrightarrow> k < 4" "bit low k \<Longrightarrow> k < 4" for k
    by (metis bit_take_bit_iff)+
  show "drop_bit 4 (push_bit 4 high OR low) = high"
    by (rule bit_eqI) (auto simp: bit_simps dest: bits)
  have "(push_bit 4 high OR low) AND mask 4 = low"
    by (rule bit_eqI) (auto simp: bit_simps dest: bits)
  then show "(push_bit 4 high OR low) AND 0x0f = low" by (simp add: mask_eq_exp_minus_1)
qed

lemma decode_hex_pairs_Ok:
  "decode_hex_pairs (as_bytes s) = Ok digest \<Longrightarrow> even (length s) \<Longrightarrow> encode_sha256 digest = s \<and> length s = 2 * length digest"
proof (induction s arbitrary: digest rule: induct_list012)
  case (3 a b s)
  from "3.prems"(1) obtain high low rest where h: "decode_hex_digit (of_char a) = Some high"
    and l: "decode_hex_digit (of_char b) = Some low" and rest: "decode_hex_pairs (as_bytes s) = Ok rest"
    and digest: "digest = (push_bit 4 high OR low) # rest"
    by (auto simp: as_bytes_def)
  have "drop_bit 4 (push_bit 4 high OR low) = high" "(push_bit 4 high OR low) AND 0x0f = low"
    using join_nibbles decode_hex_digit_Some [OF h] decode_hex_digit_Some [OF l] by blast+
  with "3.IH"(1) [OF rest] "3.prems"(2) digest decode_hex_digit_Some [OF h] decode_hex_digit_Some [OF l] show ?case
    by (simp add: encode_sha256_def)
qed (simp_all add: as_bytes_def encode_sha256_def)

lemma encode_decode_sha256: "decode_sha256 s = Ok digest \<Longrightarrow> encode_sha256 digest = s \<and> length digest = 32"
  using decode_hex_pairs_Ok [of s digest] by (auto simp: decode_sha256_def)

section \<open>What a prompt shows\<close>

text \<open>
  The prompt names the signer's persona and key, and its subject is what is signed, a digest by its
  lower case hexadecimal form.
\<close>

definition names_signer :: "ApprovalPrompt \<Rightarrow> ActiveSigner \<Rightarrow> bool" where
  "names_signer prompt signer \<longleftrightarrow>
     ap_persona_label prompt = signer_label signer \<and> ap_key_fingerprint prompt = key_fingerprint (asg_key signer)"

definition shows_root :: "daemon_env \<Rightarrow> PersonaRootStatement \<Rightarrow> PersonaRootApproval \<Rightarrow> bool" where
  "shows_root D statement a \<longleftrightarrow>
     pra_persona_anchor a = rs_persona_anchor statement \<and> pra_issued_at a = rs_issued_at statement
     \<and> persona_root_statement_sha256 (de_core D) statement = Ok (encode_sha256 (pra_root_statement_sha256 a))"

definition shows_transition :: "daemon_env \<Rightarrow> PersonaTransitionStatement \<Rightarrow> PersonaTransitionApproval \<Rightarrow> bool" where
  "shows_transition D statement a \<longleftrightarrow>
     ta_persona_anchor a = ts_persona_anchor statement \<and> ta_sequence a = ts_sequence statement
     \<and> ta_issued_at a = ts_issued_at statement
     \<and> encode_sha256 (ta_root_statement_sha256 a) = ts_root_statement_sha256 statement
     \<and> map_option encode_sha256 (ta_previous_transition_sha256 a) = ts_previous_transition_sha256 statement
     \<and> ta_previous_key_fingerprint a = ts_previous_key_fingerprint statement
     \<and> ta_next_key_fingerprint a = ts_next_key_fingerprint statement
     \<and> persona_transition_statement_sha256 (de_core D) statement = Ok (encode_sha256 (ta_transition_statement_sha256 a))"

definition shows_recovery :: "VerifiedRecoveryCeremonyRequest \<Rightarrow> RecoveryParticipationApproval \<Rightarrow> bool" where
  "shows_recovery verified a \<longleftrightarrow>
     encode_sha256 (va_request_sha256 a) = vq_request_sha256 verified
     \<and> encode_sha256 (va_root_statement_sha256 a) = rts_root_statement_sha256 (vq_statement verified)
     \<and> encode_sha256 (va_recovery_policy_sha256 a) = rts_recovery_policy_sha256 (vq_statement verified)
     \<and> va_recovery_policy_version a = rts_recovery_policy_version (vq_statement verified)
     \<and> va_previous_key_fingerprint a = rts_previous_key_fingerprint (vq_statement verified)
     \<and> va_next_key_fingerprint a = rts_next_key_fingerprint (vq_statement verified)"

definition displays :: "daemon_env \<Rightarrow> ApprovalPrompt \<Rightarrow> signing \<Rightarrow> bool" where
  "displays D prompt s \<longleftrightarrow>
     (case (s, ap_subject prompt) of
       (SignsArtifact descriptor signer, ApproveArtifact a) \<Rightarrow>
         names_signer prompt signer \<and> encode_sha256 (aa_artifact_sha256 a) = digest_value (ad_digest descriptor)
         \<and> aa_artifact_size a = ad_size descriptor
     | (SignsDomain statement signer, ApproveDomain a) \<Rightarrow>
         names_signer prompt signer \<and> da_domain a = dc_domain statement
         \<and> da_issued_at a = dc_issued_at statement \<and> da_expires_at a = dc_expires_at statement
         \<and> map_err (\<lambda>_. ()) (and_then (canonical_domain_control_statement_bytes (de_domain D) statement)
             (\<lambda>payload. Ok (dns_txt_commitment (de_domain D) payload))) = Ok (da_dns_txt_value a)
     | (SignsRoot statement signer, ApprovePersonaRoot a) \<Rightarrow> names_signer prompt signer \<and> shows_root D statement a
     | (SignsTransition statement signer candidate, ApprovePersonaTransition a) \<Rightarrow>
         ap_persona_label prompt = signer_label signer \<and> shows_transition D statement a
     | (SignsRecovery verified signer, ApproveRecoveryParticipation a) \<Rightarrow>
         ap_persona_label prompt = rts_persona (vq_statement verified) \<and> shows_recovery verified a
     | _ \<Rightarrow> False)"

section \<open>The protocol\<close>

text \<open>
  A review remembers the transitions of the last snapshot. After the answer nothing more happens.
\<close>

datatype phase =
    Reviewing "PersonaContinuityTransitionProof list"
  | ApprovedFor ApprovalPrompt
  | Refused RejectionCode
  | SignedFor signing
  | Stored signing
  | Answered

fun question :: "entry \<Rightarrow> bool" where
  "question (Checked _) = True"
| "question (AskedSigner _ _) = True"
| "question (AskedSnapshot _ _) = True"
| "question (AskedCandidate _) = True"
| "question _ = False"

definition stored_signing :: "signing \<Rightarrow> bool" where
  "stored_signing s = (case s of SignsRoot _ _ \<Rightarrow> True | SignsTransition _ _ _ \<Rightarrow> True | _ \<Rightarrow> False)"

text \<open>The proof that a signing makes, and the text of a proof that is sealed to be sent.\<close>

definition made :: "daemon_env \<Rightarrow> signing \<Rightarrow> SignedProof \<Rightarrow> bool" where
  "made D s pf \<longleftrightarrow>
     (case (s, pf) of
       (SignsArtifact descriptor signer, SignedBundle b) \<Rightarrow>
         create_sshsig_proof_for_descriptor (de_artifact D) descriptor (signer_locator signer) (signer_key signer)
           (signer_label signer) = Ok b
     | (SignsDomain statement signer, SignedBundle b) \<Rightarrow>
         create_domain_control_proof_for_statement (de_domain D) statement (signer_locator signer) (signer_key signer) = Ok b
     | (SignsRoot statement signer, SignedPersonaRoot r) \<Rightarrow>
         create_persona_root_proof (de_core D) statement (signer_locator signer) (signer_key signer) = Ok r
     | (SignsTransition statement signer candidate, SignedPersonaTransition t) \<Rightarrow>
         create_routine_transition_proof (de_core D) statement (signer_locator signer) (signer_key signer)
           (sref_locator (rrc_signing_reference candidate)) (rrc_public_key candidate) = Ok t
     | _ \<Rightarrow> False)"

definition seals :: "daemon_env \<Rightarrow> SignedProof \<Rightarrow> SealedProof \<Rightarrow> bool" where
  "seals D pf sealed \<longleftrightarrow> (\<exists>bs. sp_bytes sealed = bs @ [0x0a] \<and>
     (case pf of SignedBundle p \<Rightarrow> bundle_to_json_pretty (de_artifact D) p
       | SignedPersonaRoot p \<Rightarrow> de_root_to_json_pretty D p
       | SignedPersonaTransition p \<Rightarrow> de_transition_to_json_pretty D p) = Ok bs)"

definition carries :: "daemon_env \<Rightarrow> signing \<Rightarrow> SealedProof \<Rightarrow> bool" where
  "carries D s sealed \<longleftrightarrow>
     (case s of
       SignsRecovery verified signer \<Rightarrow> \<exists>now response. sign_recovery_ceremony_request (de_core D) verified signer now = Ok response
         \<and> canonical_recovery_ceremony_response_bytes (de_core D) response = Ok (sp_bytes sealed)
     | _ \<Rightarrow> \<exists>pf. made D s pf \<and> seals D pf sealed)"

lemma carries_made: "made D s pf \<Longrightarrow> seals D pf sealed \<Longrightarrow> carries D s sealed"
  by (cases s) (auto simp: carries_def made_def)

text \<open>
  When a proof may leave: it is the one that was signed and, where the store keeps it, stored, or it is
  already in the store.
\<close>

definition may_answer :: "daemon_env \<Rightarrow> phase \<Rightarrow> SealedProof \<Rightarrow> bool" where
  "may_answer D ph sealed \<longleftrightarrow>
     (case ph of
       SignedFor s \<Rightarrow> \<not> stored_signing s \<and> carries D s sealed
     | Stored s \<Rightarrow> carries D s sealed
     | Reviewing ts \<Rightarrow> ts \<noteq> [] \<and>
         (case last ts of RoutineProof pf \<Rightarrow> seals D (SignedPersonaTransition pf) sealed | _ \<Rightarrow> False)
     | _ \<Rightarrow> False)"

text \<open>The code that reports an answer other than an approval.\<close>

definition refusal_code :: "(ApprovalDecision, ApprovalError) result \<Rightarrow> RejectionCode" where
  "refusal_code answer = (case answer of Ok Decline \<Rightarrow> UserDeclined | Ok Cancel \<Rightarrow> Cancelled | _ \<Rightarrow> ConsentUnavailable)"

fun closing :: "phase \<Rightarrow> bool" where
  "closing (Refused _) = True"
| "closing Answered = True"
| "closing _ = False"

inductive daemon_step :: "daemon_env \<Rightarrow> phase \<Rightarrow> entry \<Rightarrow> phase \<Rightarrow> bool" for D where
  snapshot: "daemon_step D (Reviewing ts) (AskedSnapshot persona_id (Ok snapshot)) (Reviewing (lcs_transitions snapshot))"
| asks: "question e \<Longrightarrow> ph \<noteq> Answered \<Longrightarrow> daemon_step D ph e ph"
| approves: "daemon_step D (Reviewing ts) (Decided prompt (Ok Approve)) (ApprovedFor prompt)"
| refuses: "answer \<noteq> Ok Approve \<Longrightarrow> daemon_step D (Reviewing ts) (Decided prompt answer) (Refused (refusal_code answer))"
| signs: "displays D prompt s \<Longrightarrow> daemon_step D (ApprovedFor prompt) (Signed s) (SignedFor s)"
| records: "verify_persona_root_proof (de_core D) pf = Ok verified \<Longrightarrow> vr_statement verified = statement \<Longrightarrow>
    vr_root_statement_sha256 verified = digest \<Longrightarrow> made D (SignsRoot statement signer) (SignedPersonaRoot pf) \<Longrightarrow>
    daemon_step D (SignedFor (SignsRoot statement signer)) (RecordedRoot persona_id pf digest) (Stored (SignsRoot statement signer))"
| commits: "verify_persona_transition_proof (de_core D) pf = Ok verified \<Longrightarrow> vt_statement verified = statement \<Longrightarrow>
    made D (SignsTransition statement signer candidate) (SignedPersonaTransition pf) \<Longrightarrow>
    daemon_step D (SignedFor (SignsTransition statement signer candidate))
      (Committed persona_id pf (rrc_provider candidate) (sref_locator (rrc_signing_reference candidate)))
      (Stored (SignsTransition statement signer candidate))"
| answers: "may_answer D ph sealed \<Longrightarrow> daemon_step D ph (SendsApproved sealed) Answered"
| turns_down: "ph \<noteq> Answered \<Longrightarrow> (\<And>c. ph = Refused c \<Longrightarrow> code = c) \<Longrightarrow> daemon_step D ph (SendsRejected code) Answered"

inductive_cases daemon_stepE: "daemon_step D ph e ph'"
inductive_simps answered_iff: "daemon_step D Answered e ph'"
inductive_simps signed_iff: "daemon_step D ph (Signed s) ph'"

section \<open>The handlers obey the protocol\<close>

abbreviation obeysD :: "daemon_env \<Rightarrow> phase \<Rightarrow> 'a handler \<Rightarrow> (('a, stop) result \<Rightarrow> phase \<Rightarrow> bool) \<Rightarrow> bool" where
  "obeysD D \<equiv> obeys (daemon_step D)"

lemma question_step: "question e \<Longrightarrow> ph \<noteq> Answered \<Longrightarrow> daemon_step D ph e ph"
  by (rule daemon_step.asks)

lemma obeys_reject [obeys_rules]: "Q (Err (Fails failure)) ph \<Longrightarrow> obeysD D ph (reject failure) Q"
  by (simp add: reject_def obeys_give)

lemma obeys_attempt: "(\<And>x. r = Ok x \<Longrightarrow> Q (Ok x) ph) \<Longrightarrow> Q (Err (Fails failure)) ph \<Longrightarrow> obeysD D ph (attempt failure r) Q"
  by (cases r) (simp_all add: attempt_def obeys_give)

lemma obeys_bind_attempt [obeys_rules]:
  "(\<And>x. r = Ok x \<Longrightarrow> obeysD D ph (f x) Q) \<Longrightarrow> Q (Err (Fails failure)) ph \<Longrightarrow>
   obeysD D ph (bind_action (attempt failure r) f) Q"
  unfolding attempt_def by (rule obeys_bind_give; cases r; simp)

lemma obeys_bind_reject [obeys_rules]:
  "Q (Err (Fails failure)) ph \<Longrightarrow> obeysD D ph (bind_action (reject failure) f) Q"
  unfolding reject_def by (rule obeys_bind_give) auto

lemma obeys_bind_if [obeys_rules]:
  "(c \<Longrightarrow> obeys step ph (bind_action a f) Q) \<Longrightarrow> (\<not> c \<Longrightarrow> obeys step ph (bind_action b f) Q) \<Longrightarrow>
   obeys step ph (bind_action (if c then a else b) f) Q"
  by simp

text \<open>Where the phase stays, with what is known of the value; errors are arbitrary.\<close>

definition quiet :: "daemon_env \<Rightarrow> phase \<Rightarrow> 'a handler \<Rightarrow> ('a \<Rightarrow> bool) \<Rightarrow> bool" where
  "quiet D ph m F \<longleftrightarrow> obeysD D ph m (\<lambda>r ph'. ph' = ph \<and> (\<forall>x. r = Ok x \<longrightarrow> F x))"

lemma obeys_bind_quiet:
  assumes "quiet D ph m F" "\<And>e. Q (Err e) ph" "\<And>x. F x \<Longrightarrow> obeysD D ph (f x) Q"
  shows "obeysD D ph (bind_action m f) Q"
  using assms by (intro obeys_bind [OF assms(1) [unfolded quiet_def]]) auto

lemma quiet_bind [intro]: "quiet D ph m F \<Longrightarrow> (\<And>x. F x \<Longrightarrow> quiet D ph (f x) G) \<Longrightarrow> quiet D ph (bind_action m f) G"
  unfolding quiet_def by (erule obeys_bind) auto

lemma quiet_give: "(\<And>x. r = Ok x \<Longrightarrow> F x) \<Longrightarrow> quiet D ph (give r) F"
  by (simp add: quiet_def obeys_give)

lemma quiet_reject [simp]: "quiet D ph (reject failure) F"
  by (simp add: quiet_def obeys_reject)

lemma quiet_attempt: "(\<And>x. r = Ok x \<Longrightarrow> F x) \<Longrightarrow> quiet D ph (attempt failure r) F"
  by (simp add: quiet_def obeys_attempt)

lemma quiet_attempt_Ok: "quiet D ph (attempt failure r) (\<lambda>x. r = Ok x)"
  by (rule quiet_attempt)

lemma quiet_ask [simp]: "quiet D ph (ask g) (\<lambda>_. True)"
  by (simp add: quiet_def obeys_ask)

lemma quiet_observe: "ph \<noteq> Answered \<Longrightarrow> (\<And>x. question (entry x)) \<Longrightarrow> quiet D ph (observe g entry) (\<lambda>_. True)"
  by (auto simp: quiet_def intro!: obeys_observe question_step)

lemma quiet_weaken: "quiet D ph m F \<Longrightarrow> (\<And>x. F x \<Longrightarrow> G x) \<Longrightarrow> quiet D ph m G"
  unfolding quiet_def by (erule obeys_weaken) auto

lemma quiet_if [intro]: "(c \<Longrightarrow> quiet D ph a F) \<Longrightarrow> (\<not> c \<Longrightarrow> quiet D ph b F) \<Longrightarrow> quiet D ph (if c then a else b) F"
  by simp

lemma quiet_now: "quiet D ph (now_or D' failure) (\<lambda>_. True)"
  unfolding now_or_def by (rule quiet_bind, rule quiet_ask, rule quiet_attempt) simp

lemma quiet_take_snapshot:
  "quiet D ph (take_snapshot D' input maximum) (\<lambda>a. \<exists>mem. snapshot_artifact (de_artifact D') input mem maximum = Ok a)"
  unfolding take_snapshot_def by (rule quiet_bind, rule quiet_ask, rule quiet_attempt) blast

lemma quiet_read_snapshot: "quiet D ph (read_snapshot D' a maximum) (\<lambda>bs. \<exists>calls. read_bytes_bounded a calls maximum = Some (Ok bs))"
  unfolding read_snapshot_def
  by (rule quiet_bind, rule quiet_ask, rule quiet_bind, rule quiet_give, assumption, rule quiet_attempt) auto

lemma quiet_check_connection: "ph \<noteq> Answered \<Longrightarrow> quiet D ph (check_connection interrupted) (\<lambda>_. True)"
  unfolding check_connection_def by (rule quiet_bind, rule quiet_observe) (auto intro: quiet_give)

lemma quiet_ask_signer: "ph \<noteq> Answered \<Longrightarrow> quiet D ph (ask_signer D' persona_id) (\<lambda>_. True)"
  unfolding ask_signer_def by (rule quiet_bind, rule quiet_observe) (auto intro: quiet_attempt)

lemma quiet_same_signer: "ph \<noteq> Answered \<Longrightarrow> quiet D ph (same_signer D' persona_id signer) (\<lambda>s. s = signer)"
  unfolding same_signer_def by (rule quiet_bind, rule quiet_ask_signer) (auto intro!: quiet_give split: if_splits)

lemma quiet_ask_candidate: "ph \<noteq> Answered \<Longrightarrow> quiet D ph (ask_candidate D' request key) (\<lambda>_. True)"
  unfolding ask_candidate_def by (rule quiet_bind, rule quiet_observe) (auto intro: quiet_attempt)

lemma quiet_sealed_proof:
  "quiet D ph (sealed_proof D' pf) (seals D' pf)"
  unfolding sealed_proof_def seals_def
  by (rule quiet_bind, rule quiet_attempt, assumption, rule quiet_bind, rule quiet_ask, rule quiet_attempt)
    (use seal_proof_bytes_Ok in blast)

lemma obeys_decide [obeys_rules]:
  assumes "obeysD D (ApprovedFor prompt) (f ()) Q" 
    "\<And>failure. Q (Err (Fails failure)) (Refused (failure_rejection_code failure))"
  shows "obeysD D (Reviewing ts) (bind_action (decide D' prompt) f) Q"
  unfolding decide_def
proof (rule obeys_bind_assoc, rule obeys_bind [where R = "\<lambda>r ph. \<exists>answer. r = Ok answer \<and>
    ph = (if answer = Ok Approve then ApprovedFor prompt else Refused (refusal_code answer))"], rule obeys_observe)
  fix answer
  show "\<exists>ph'. daemon_step D (Reviewing ts) (Decided prompt answer) ph' \<and>
    (\<exists>answer'. Ok answer = Ok answer' \<and> ph' = (if answer' = Ok Approve then ApprovedFor prompt else Refused (refusal_code answer')))"
    using daemon_step.approves daemon_step.refuses by fastforce
next
  fix answer ph
  assume "\<exists>answer'. Ok answer = Ok answer' \<and> ph = (if answer' = Ok Approve then ApprovedFor prompt else Refused (refusal_code answer'))"
  then show "obeysD D ph (bind_action (give (case answer of
       Ok Decline \<Rightarrow> Err (Fails FailUserDeclined) | Ok Cancel \<Rightarrow> Err (Fails FailClientCancelled)
     | Err _ \<Rightarrow> Err (Fails FailConsentUnavailable) | Ok Approve \<Rightarrow> Ok ())) f) Q"
    using assms(1) assms(2) [of FailUserDeclined] assms(2) [of FailClientCancelled] assms(2) [of FailConsentUnavailable]
    by (intro obeys_bind_give) (auto simp: refusal_code_def split: result.splits ApprovalDecision.splits if_splits)
qed simp

lemma obeys_sign: "displays D prompt s \<Longrightarrow> obeysD D (SignedFor s) (f ()) Q \<Longrightarrow>
    obeysD D (ApprovedFor prompt) (bind_action (note_event (Signed s)) f) Q"
  by (rule obeys_bind [where R = "\<lambda>r ph. r = Ok () \<and> ph = SignedFor s"])
    (auto intro: obeys_note daemon_step.signs)

section \<open>Requests for a persona\<close>

text \<open>What holds of a prepared request: its review is that of its statement.\<close>

definition prepared_ok :: "daemon_env \<Rightarrow> PreparedRequest \<Rightarrow> bool" where
  "prepared_ok D prepared \<longleftrightarrow>
     (case prepared of
       PreparedArtifact _ _ _ \<Rightarrow> True
     | PreparedDomainControl statement review \<Rightarrow>
         \<exists>now key label. review_domain_control_statement (de_domain D) statement now key label = Ok review
     | PreparedPersonaRoot statement review \<Rightarrow>
         \<exists>now key label. review_persona_root_statement (de_core D) statement now key label = Ok review)"

lemma quiet_prepare_request: "quiet D ph (prepare_request D subject snapshot signer) (prepared_ok D)"
proof -
  have "quiet D ph (bind_action (read_snapshot D snapshot maximum) (\<lambda>bs. bind_action (now_or D FailInternal) (\<lambda>now.
      bind_action (attempt FailInvalidRequest (review bs now)) (\<lambda>(statement, r). give (Ok (prepared statement r))))))
      (prepared_ok D)"
    if "\<And>bs now statement r. review bs now = Ok (statement, r) \<Longrightarrow> prepared_ok D (prepared statement r)"
    for maximum and review :: "bytes \<Rightarrow> i64 \<Rightarrow> ('s \<times> 'r) res" and prepared
    using that by (intro quiet_bind [OF quiet_read_snapshot] quiet_bind [OF quiet_now]
        quiet_bind [OF quiet_attempt [where F = "\<lambda>(s, r). prepared_ok D (prepared s r)"]]) (auto intro: quiet_give)
  note * = this
  show ?thesis unfolding prepare_request_def
    by (cases subject; simp only: SignSubject.case)
      (auto intro!: quiet_give * simp: prepared_ok_def review_domain_control_statement_bytes_def
        review_persona_root_statement_bytes_def, blast+)
qed

lemma approval_prompt_displays:
  assumes "approval_prompt D request_id prepared peer signer = Ok prompt" "prepared_ok D prepared"
  shows "case prepared of
      PreparedArtifact descriptor _ _ \<Rightarrow> displays D prompt (SignsArtifact descriptor signer)
    | PreparedDomainControl statement _ \<Rightarrow> displays D prompt (SignsDomain statement signer)
    | PreparedPersonaRoot statement _ \<Rightarrow> displays D prompt (SignsRoot statement signer)"
proof (cases prepared)
  case (PreparedArtifact descriptor kind label)
  with assms(1) show ?thesis
    by (auto simp: approval_prompt_def prompt_new_def new_with_subject_def Let_def displays_def names_signer_def
        dest: encode_decode_sha256)
next
  case (PreparedDomainControl statement review)
  with assms show ?thesis
    by (auto simp: approval_prompt_def prompt_new_domain_def new_with_subject_def Let_def displays_def names_signer_def
        prepared_ok_def review_domain_control_statement_def)
next
  case (PreparedPersonaRoot statement review)
  with assms show ?thesis
    by (auto simp: approval_prompt_def prompt_new_persona_root_def new_with_subject_def Let_def displays_def names_signer_def
        prepared_ok_def review_persona_root_statement_def shows_root_def persona_root_statement_sha256_def
        dest!: encode_decode_sha256)
qed

text \<open>How a handler ends: with a proof that may leave, or with an error before any answer.\<close>

definition ends_well :: "daemon_env \<Rightarrow> (approval_result, stop) result \<Rightarrow> phase \<Rightarrow> bool" where
  "ends_well D r ph \<longleftrightarrow>
     (case r of
       Ok (fingerprint, subject, sealed) \<Rightarrow> may_answer D ph sealed
     | Err (Fails failure) \<Rightarrow> ph \<noteq> Answered \<and> (\<forall>c. ph = Refused c \<longrightarrow> failure_rejection_code failure = c)
     | Err Blocks \<Rightarrow> \<not> closing ph)"

lemma ends_well_Err [simp]: "\<not> closing ph \<Longrightarrow> ends_well D (Err e) ph"
  by (cases e; cases ph) (simp_all add: ends_well_def)

lemma ends_well_Ok [simp]: "ends_well D (Ok (fingerprint, subject, sealed)) ph \<longleftrightarrow> may_answer D ph sealed"
  by (simp add: ends_well_def)

lemma ends_well_Refused [simp]: "ends_well D (Err (Fails failure)) (Refused (failure_rejection_code failure))"
  by (simp add: ends_well_def)

text \<open>Signing a prepared request that the prompt displays, to the phase in which its proof may leave or be recorded.\<close>

definition signed_root :: "daemon_env \<Rightarrow> SignedProof \<Rightarrow> ApprovedSubject \<Rightarrow> signing \<Rightarrow> bool" where
  "signed_root D pf subject s \<longleftrightarrow> (\<exists>root review verified statement signer. pf = SignedPersonaRoot root
     \<and> subject = ApprovedPersonaRoot review \<and> s = SignsRoot statement signer
     \<and> verify_persona_root_proof (de_core D) root = Ok verified \<and> vr_statement verified = statement
     \<and> vr_root_statement_sha256 verified = rr_root_statement_sha256 review)"

definition signed_state :: "daemon_env \<Rightarrow> SignedProof \<Rightarrow> ApprovedSubject \<Rightarrow> phase \<Rightarrow> bool" where
  "signed_state D pf subject ph \<longleftrightarrow>
     (\<exists>s. ph = SignedFor s \<and> made D s pf \<and> (\<not> stored_signing s \<and> (\<exists>b. pf = SignedBundle b) \<or> signed_root D pf subject s))"

lemma obeys_sign_prepared:
  assumes "approval_prompt D request_id prepared peer signer = Ok prompt" "prepared_ok D prepared"
    and cont: "\<And>pf subject ph. signed_state D pf subject ph \<Longrightarrow> obeysD D ph (f (pf, subject)) Q"
    and err: "\<And>e ph. \<not> closing ph \<Longrightarrow> Q (Err e) ph"
  shows "obeysD D (ApprovedFor prompt) (bind_action (sign_prepared_request D prepared signer) f) Q"
proof (cases prepared)
  case (PreparedArtifact descriptor kind label)
  then have d: "displays D prompt (SignsArtifact descriptor signer)" using approval_prompt_displays [OF assms(1, 2)] by simp
  show ?thesis unfolding PreparedArtifact sign_prepared_request_def PreparedRequest.case
    by (intro obeys_bind_assoc obeys_sign [OF d] obeys_bind_attempt obeys_bind_give err)
      (auto simp: signed_state_def stored_signing_def made_def intro!: cont)
next
  case (PreparedDomainControl statement review)
  then have d: "displays D prompt (SignsDomain statement signer)" using approval_prompt_displays [OF assms(1, 2)] by simp
  show ?thesis unfolding PreparedDomainControl sign_prepared_request_def PreparedRequest.case
    by (intro obeys_bind_assoc obeys_sign [OF d] obeys_bind_attempt obeys_bind_quiet [OF quiet_now] obeys_bind_give err)
      (auto simp: signed_state_def stored_signing_def made_def split: if_splits intro!: cont)
next
  case (PreparedPersonaRoot statement review)
  then have d: "displays D prompt (SignsRoot statement signer)" using approval_prompt_displays [OF assms(1, 2)] by simp
  show ?thesis unfolding PreparedPersonaRoot sign_prepared_request_def PreparedRequest.case
    by (intro obeys_bind_assoc obeys_bind_quiet [OF quiet_now] obeys_bind_attempt obeys_bind_if obeys_bind_reject
        obeys_sign [OF d] obeys_bind_give err)
      (auto simp: signed_state_def signed_root_def stored_signing_def made_def split: if_splits intro!: cont)
qed

lemma obeys_record_root:
  assumes "signed_state D pf subject ph"
    and cont: "\<And>ph. (\<exists>s. (ph = Stored s \<or> ph = SignedFor s \<and> \<not> stored_signing s) \<and> made D s pf) \<Longrightarrow> obeysD D ph (f ()) Q"
    and err: "\<And>e ph. \<not> closing ph \<Longrightarrow> Q (Err e) ph"
  shows "obeysD D ph (bind_action (record_root D interrupted persona_id pf subject) f) Q"
proof -
  from assms(1) consider s b where "ph = SignedFor s" "\<not> stored_signing s" "pf = SignedBundle b" "made D s pf"
    | s where "ph = SignedFor s" "signed_root D pf subject s" "made D s pf" by (auto simp: signed_state_def)
  then show ?thesis
  proof cases
    case 1
    show ?thesis unfolding 1(3) record_root_def prod.case SignedProof.case
      by (rule obeys_bind_give) (use 1 in \<open>auto intro!: cont\<close>)
  next
    case (2 s)
    then obtain pr review verified statement signer where r: "pf = SignedPersonaRoot pr"
      "subject = ApprovedPersonaRoot review" "s = SignsRoot statement signer"
      "verify_persona_root_proof (de_core D) pr = Ok verified" "vr_statement verified = statement"
      "vr_root_statement_sha256 verified = rr_root_statement_sha256 review" by (auto simp: signed_root_def)
    have "daemon_step D (SignedFor s) (RecordedRoot persona_id pr (rr_root_statement_sha256 review)) (Stored s)"
      using daemon_step.records [OF r(4, 5, 6)] 2(3) r(1, 3) by simp
    then have "obeysD D (SignedFor s) (observe (\<lambda>t. de_record_root D t persona_id pr (rr_root_statement_sha256 review))
        (\<lambda>_. RecordedRoot persona_id pr (rr_root_statement_sha256 review))) (\<lambda>r ph. is_Ok r \<and> ph = Stored s)"
      by (intro obeys_observe) auto
    note bind = obeys_bind [OF this]
    show ?thesis unfolding 2(1) r(1, 2) record_root_def prod.case SignedProof.case ApprovedSubject.case
      by (intro obeys_bind_assoc obeys_bind_quiet [OF quiet_check_connection] bind obeys_bind_attempt obeys_bind_give err)
        (use 2(3) r(1) in \<open>auto intro!: cont err obeys_bind_attempt obeys_bind_give\<close>)
  qed
qed

lemma process_persona_request_obeys:
  "obeysD D (Reviewing ts) (process_persona_request D interrupted request_uuid request input peer) (ends_well D)"
proof -
  have finish: "obeysD D ph (bind_action (same_signer D persona_id signer) (\<lambda>_.
      bind_action (record_root D interrupted persona_id pf subject) (\<lambda>_.
      bind_action (sealed_proof D pf) (\<lambda>sealed. give (Ok (fingerprint, subject, sealed)))))) (ends_well D)"
    if state: "signed_state D pf subject ph" for ph pf subject persona_id signer fingerprint
  proof -
    have ph: "ph \<noteq> Answered" "\<not> closing ph" using state by (auto simp: signed_state_def)
    show ?thesis
      by (rule obeys_bind_quiet [OF quiet_same_signer [OF ph(1)]], simp add: ph,
          rule obeys_record_root [OF state], rule obeys_bind_quiet [OF quiet_sealed_proof],
          auto simp: may_answer_def intro!: obeys_give carries_made)
  qed
  show ?thesis unfolding process_persona_request_def
    apply (rule obeys_bind_attempt)
     apply (rule obeys_bind_quiet [OF quiet_ask_signer], simp, simp)
     apply (rule obeys_bind_quiet [OF quiet_take_snapshot], simp)
     apply (rule obeys_bind_quiet [OF quiet_prepare_request], simp)
     apply (rule obeys_bind_quiet [OF quiet_check_connection], simp, simp)
     apply (rule obeys_bind_attempt)
      apply (rule obeys_decide)
       apply (rule obeys_bind_quiet [OF quiet_check_connection], simp, simp)
       apply (rule obeys_bind_quiet [OF quiet_same_signer], simp, simp)
       apply (simp only:)
       apply (erule obeys_sign_prepared, assumption)
        apply (simp add: finish)
       apply simp_all
    done
qed

section \<open>Routine transitions\<close>

lemma quiet_case_option [intro]:
  "(v = None \<Longrightarrow> quiet D ph a F) \<Longrightarrow> (\<And>x. v = Some x \<Longrightarrow> quiet D ph (b x) F) \<Longrightarrow>
   quiet D ph (case v of None \<Rightarrow> a | Some x \<Rightarrow> b x) F"
  by (cases v) simp_all

lemma quiet_next_key: "quiet D ph (next_key D input) (\<lambda>_. True)"
  unfolding next_key_def
  by (intro quiet_bind [OF quiet_take_snapshot] quiet_bind [OF quiet_read_snapshot] quiet_if quiet_reject
      quiet_bind [OF quiet_attempt [where F = "\<lambda>_. True"]] quiet_give) simp_all

lemma quiet_retry_locator_matches: "quiet D ph (retry_locator_matches D path stored) (\<lambda>_. True)"
  unfolding retry_locator_matches_def
proof (intro quiet_if quiet_give quiet_bind [OF quiet_ask])
  fix v
  show "quiet D ph (case v of NotFound \<Rightarrow> give (Ok False) | LookupFailed \<Rightarrow> reject FailSignerUnavailable
      | Found metadata \<Rightarrow> if pm_is_symlink metadata \<or> \<not> pm_is_file metadata then give (Ok False)
          else bind_action (ask (\<lambda>t. de_canonicalize D t path)) (\<lambda>canonical.
          bind_action (attempt FailSignerUnavailable (ok_or () canonical)) (\<lambda>canonical. give (Ok (canonical = stored)))))
      (\<lambda>_. True)"
    by (cases v) (auto intro!: quiet_give quiet_bind [OF quiet_ask] quiet_bind [OF quiet_attempt [where F = "\<lambda>_. True"]])
qed simp

text \<open>A retry returns the last transition of the snapshot, with a review of what it states.\<close>

lemma quiet_exact_transition_retry:
  "quiet D ph (exact_transition_retry D snapshot request key fingerprint)
     (\<lambda>v. \<forall>pf review. v = Some (pf, review) \<longrightarrow> lcs_transitions snapshot \<noteq> [] \<and>
        last (lcs_transitions snapshot) = RoutineProof pf)"
proof (cases "lcs_transitions snapshot = []")
  case True
  then show ?thesis unfolding exact_transition_retry_def by (auto intro!: quiet_give)
next
  case False
  show ?thesis
  proof (cases "last (lcs_transitions snapshot)")
    case (RoutineProof pf)
    with False show ?thesis unfolding exact_transition_retry_def Let_def
      by (auto intro!: quiet_give quiet_bind [OF quiet_ask] quiet_bind [OF quiet_attempt [where F = "\<lambda>_. True"]]
          quiet_bind [OF quiet_retry_locator_matches] split: if_splits)
  qed (use False in \<open>auto simp: exact_transition_retry_def intro!: quiet_give\<close>)
qed

definition reviewed_ok :: "daemon_env \<Rightarrow> ReviewedTransition \<Rightarrow> bool" where
  "reviewed_ok D v \<longleftrightarrow> (\<exists>now root sequence previous key new_key.
     review_persona_transition_statement (de_core D) (rv_statement v) now root sequence previous key new_key = Ok (rv_review v))"

lemma quiet_review_transition:
  assumes "ph \<noteq> Answered"
  shows "quiet D ph (review_transition D request key fingerprint continuity) (reviewed_ok D)"
  unfolding review_transition_def
  by (intro quiet_if quiet_reject quiet_bind [OF quiet_ask_signer [OF assms]] quiet_bind [OF quiet_ask_candidate [OF assms]]
      quiet_bind [OF quiet_now] quiet_bind [OF quiet_attempt_Ok] quiet_give)
    (auto simp: reviewed_ok_def, blast)

lemma review_transition_fields:
  assumes "review_persona_transition_statement E statement now root sequence previous key new_key = Ok review"
  shows "tr_persona_anchor review = ts_persona_anchor statement" "tr_sequence review = ts_sequence statement"
    "tr_issued_at review = ts_issued_at statement" "tr_root_statement_sha256 review = ts_root_statement_sha256 statement"
    "tr_previous_transition_sha256 review = ts_previous_transition_sha256 statement"
    "tr_previous_key_fingerprint review = ts_previous_key_fingerprint statement"
    "tr_next_key_fingerprint review = ts_next_key_fingerprint statement"
    "persona_transition_statement_sha256 E statement = Ok (tr_transition_statement_sha256 review)"
  using assms by (auto simp: review_persona_transition_statement_def persona_transition_statement_sha256_def)

lemma transition_prompt_displays:
  assumes "transition_approval_prompt D request_id (rv_review v) peer signer = Ok prompt" "reviewed_ok D v"
  shows "displays D prompt (SignsTransition (rv_statement v) signer candidate)"
proof -
  from assms(2) obtain now root sequence previous key new_key where
    "review_persona_transition_statement (de_core D) (rv_statement v) now root sequence previous key new_key = Ok (rv_review v)"
    by (auto simp: reviewed_ok_def)
  note fields = review_transition_fields [OF this]
  have previous: "map_option encode_sha256 d = s" if "decode_optional_sha256 s = Ok d" for s d
    using that by (auto simp: decode_optional_sha256_def dest: encode_decode_sha256 split: option.splits)
  show ?thesis using assms(1)
    by (auto simp: transition_approval_prompt_def prompt_new_persona_transition_def new_with_subject_def Let_def displays_def
        shows_transition_def fields dest!: encode_decode_sha256 previous)
qed

lemma obeys_first_snapshot:
  assumes "\<And>answer. obeysD D (Reviewing (case answer of Ok snapshot \<Rightarrow> lcs_transitions snapshot | Err _ \<Rightarrow> ts)) (f answer) Q"
  shows "obeysD D (Reviewing ts) (bind_action (ask_snapshot D' persona_id) f) Q"
proof -
  have "obeysD D (Reviewing ts) (ask_snapshot D' persona_id) (\<lambda>r ph. \<exists>answer. r = Ok answer \<and>
      ph = Reviewing (case answer of Ok snapshot \<Rightarrow> lcs_transitions snapshot | Err _ \<Rightarrow> ts))"
    unfolding ask_snapshot_def
  proof (rule obeys_observe)
    fix answer
    show "\<exists>ph'. daemon_step D (Reviewing ts) (AskedSnapshot persona_id answer) ph' \<and> (\<exists>answer'. Ok answer = Ok answer' \<and>
      ph' = Reviewing (case answer' of Ok snapshot \<Rightarrow> lcs_transitions snapshot | Err _ \<Rightarrow> ts))"
      by (cases answer) (auto intro: daemon_step.intros)
  qed
  then show ?thesis by (rule obeys_bind) (use assms in auto)
qed

lemma obeys_ask_snapshot:
  assumes "ph \<noteq> Answered" "\<And>answer. obeysD D ph (f answer) Q"
  shows "obeysD D ph (bind_action (ask_snapshot D' persona_id) f) Q"
  unfolding ask_snapshot_def
  by (rule obeys_bind [where R = "\<lambda>r ph'. ph' = ph \<and> is_Ok r"], rule obeys_observe)
    (use assms in \<open>auto intro: question_step\<close>)

lemma obeys_recheck:
  assumes "\<And>signer candidate. obeysD D (ApprovedFor prompt) (f (rv_signer v, candidate)) Q"
    "\<And>e. Q (Err e) (ApprovedFor prompt)"
  shows "obeysD D (ApprovedFor prompt) (bind_action (recheck_transition D request key continuity v) f) Q"
  unfolding recheck_transition_def
  by (intro obeys_bind_assoc obeys_ask_snapshot obeys_bind_if obeys_bind_reject obeys_bind_quiet [OF quiet_same_signer]
      obeys_bind_quiet [OF quiet_ask_candidate] obeys_bind_attempt obeys_bind_quiet [OF quiet_now] obeys_bind_give assms(2))
    (auto intro!: assms)

definition extends_chain :: "daemon_env \<Rightarrow> PersonaTransitionProof \<Rightarrow> PersonaTransitionStatement \<Rightarrow> bool" where
  "extends_chain D pf statement \<longleftrightarrow>
     (\<exists>verified. verify_persona_transition_proof (de_core D) pf = Ok verified \<and> vt_statement verified = statement)"

lemma quiet_extended_tip: "quiet D ph (extended_tip D previous chain) (\<lambda>_. True)"
  unfolding extended_tip_def
  by (intro quiet_case_option quiet_if quiet_reject quiet_bind [OF quiet_now] quiet_bind [OF quiet_attempt_Ok] quiet_give) simp_all

lemma quiet_verify_new_transition:
  "quiet D ph (verify_new_transition D pf statement review previous) (\<lambda>_. extends_chain D pf statement)"
  unfolding verify_new_transition_def
  by (intro quiet_bind [OF quiet_attempt_Ok] quiet_if quiet_reject quiet_bind [OF quiet_extended_tip])
    (auto intro!: quiet_give simp: extends_chain_def)

lemma obeys_commit:
  assumes "extends_chain D pf statement" "made D (SignsTransition statement signer candidate) (SignedPersonaTransition pf)"
    "obeysD D (Stored (SignsTransition statement signer candidate)) (f pf) Q"
    "\<And>e. Q (Err e) (Stored (SignsTransition statement signer candidate))"
  shows "obeysD D (SignedFor (SignsTransition statement signer candidate))
    (bind_action (commit_transition D persona_id pf review candidate) f) Q"
proof -
  let ?s = "SignsTransition statement signer candidate"
  have "daemon_step D (SignedFor ?s) (Committed persona_id pf (rrc_provider candidate)
      (sref_locator (rrc_signing_reference candidate))) (Stored ?s)"
    using assms(1, 2) daemon_step.commits by (auto simp: extends_chain_def)
  then have "obeysD D (SignedFor ?s) (observe (\<lambda>t. de_commit D t persona_id pf (rrc_provider candidate)
         (sref_locator (rrc_signing_reference candidate)))
       (\<lambda>_. Committed persona_id pf (rrc_provider candidate) (sref_locator (rrc_signing_reference candidate))))
       (\<lambda>r ph. is_Ok r \<and> ph = Stored ?s)"
    by (intro obeys_observe) auto
  note bind = obeys_bind [OF this]
  have rest: "obeysD D (Stored ?s) (bind_action (bind_action (attempt FailInvalidRequest answer) (\<lambda>committed.
      if crt_proof committed \<noteq> pf then reject FailInternal
      else bind_action (ask_snapshot D persona_id) (\<lambda>answer.
      bind_action (attempt FailInternal answer) (\<lambda>snapshot.
      if hd_transition_sequence (lcs_head snapshot) = tr_sequence review
         \<and> hd_current_key_fingerprint (lcs_head snapshot) = tr_next_key_fingerprint review
         \<and> lcs_transitions snapshot \<noteq> []
         \<and> last (lcs_transitions snapshot) = RoutineProof (crt_proof committed)
      then give (Ok (crt_proof committed)) else reject FailInternal)))) f) Q" for answer
    by (intro obeys_bind_assoc obeys_bind_attempt obeys_bind_if obeys_bind_reject obeys_ask_snapshot obeys_bind_give assms(4))
      (use assms(3) in auto)
  show ?thesis unfolding commit_transition_def
    by (rule obeys_bind_assoc, rule bind) (auto simp: rest)
qed

lemma process_persona_transition_obeys:
  "obeysD D (Reviewing ts) (process_persona_transition D interrupted request_uuid request input peer) (ends_well D)"
proof -
  have sign: "obeysD D (Reviewing ts) (bind_action (review_transition D q key fingerprint continuity) (\<lambda>v.
         bind_action (check_connection interrupted) (\<lambda>_.
         bind_action (attempt FailInternal (transition_approval_prompt D request_uuid (rv_review v) peer (rv_signer v))) (\<lambda>prompt.
         bind_action (decide D prompt) (\<lambda>_.
         bind_action (check_connection interrupted) (\<lambda>_.
         bind_action (recheck_transition D q key continuity v) (\<lambda>(signer, candidate).
         bind_action (note_event (Signed (SignsTransition (rv_statement v) signer candidate))) (\<lambda>_.
         bind_action (attempt FailSignerUnavailable (create_routine_transition_proof (de_core D) (rv_statement v)
           (signer_locator signer) (signer_key signer)
           (sref_locator (rrc_signing_reference candidate)) (rrc_public_key candidate))) (\<lambda>pf.
         bind_action (verify_new_transition D pf (rv_statement v) (rv_review v) continuity) (\<lambda>_.
         bind_action (check_connection interrupted) (\<lambda>_.
         bind_action (commit_transition D (tq_persona_id q) pf (rv_review v) candidate) (\<lambda>persisted.
         bind_action (sealed_proof D (SignedPersonaTransition persisted)) (\<lambda>sealed.
         give (Ok (tr_previous_key_fingerprint (rv_review v), ApprovedPersonaTransition (rv_review v), sealed))))))))))))))) (ends_well D)"
    for ts q key fingerprint continuity
    apply (rule obeys_bind_quiet [OF quiet_review_transition], simp, simp)
    apply (rule obeys_bind_quiet [OF quiet_check_connection], simp, simp)
    apply (rule obeys_bind_attempt)
     apply (rule obeys_decide)
      apply (rule obeys_bind_quiet [OF quiet_check_connection], simp, simp)
      apply (rule obeys_recheck)
       apply (simp only: prod.case)
       apply (rule obeys_sign, erule transition_prompt_displays, assumption)
       apply (rule obeys_bind_attempt)
        apply (rule obeys_bind_quiet [OF quiet_verify_new_transition], simp)
        apply (rule obeys_bind_quiet [OF quiet_check_connection], simp, simp)
        apply (erule obeys_commit, simp add: made_def)
         apply (rule obeys_bind_quiet [OF quiet_sealed_proof], simp)
         apply (rule obeys_give)
         apply (simp_all add: may_answer_def)
    apply (erule carries_made [rotated], simp add: made_def)
    done
  show ?thesis unfolding process_persona_transition_def
  proof (rule obeys_bind_give, goal_cases)
    case (2 q)
    show ?case
    proof (rule obeys_bind_quiet [OF quiet_next_key], simp, simp only: case_prod_beta, rule obeys_first_snapshot,
        rule obeys_bind_attempt, rule obeys_bind_quiet [OF quiet_exact_transition_retry], simp, goal_cases)
      case (1 x answer continuity retry)
      show ?case
      proof (cases retry)
        case None
        then show ?thesis using sign by (simp add: case_prod_beta)
      next
        case (Some p)
        then obtain pf review where p: "retry = Some (pf, review)" by (cases p) auto
        with 1 have last: "lcs_transitions continuity \<noteq> []" "last (lcs_transitions continuity) = RoutineProof pf" by auto
        show ?thesis unfolding p option.case prod.case \<open>answer = Ok continuity\<close> result.case
          by (rule obeys_bind_quiet [OF quiet_check_connection], simp, simp,
              rule obeys_bind_quiet [OF quiet_sealed_proof], simp, rule obeys_give)
            (use last in \<open>auto simp: may_answer_def\<close>)
      qed
    qed (auto split: result.splits)
  qed simp
qed

section \<open>Recovery participation\<close>

lemma verified_request: "verify_recovery_ceremony_request E request now = Ok verified \<Longrightarrow> vq_request verified = request"
  by (auto simp: verify_recovery_ceremony_request_def)

lemma recovery_prompt_displays:
  assumes "recovery_approval_prompt D request_id review verified peer = Ok prompt"
    "review_recovery_ceremony_participant (de_core D) verified key now = Ok review"
    "vq_request current = vq_request verified" "vq_request_sha256 current = vq_request_sha256 verified"
  shows "displays D prompt (SignsRecovery current signer)"
proof -
  have fields: "cv_request_sha256 review = vq_request_sha256 verified" "cv_persona review = rts_persona (vq_statement verified)"
    "cv_root_statement_sha256 review = rts_root_statement_sha256 (vq_statement verified)"
    "cv_recovery_policy_sha256 review = rts_recovery_policy_sha256 (vq_statement verified)"
    "cv_recovery_policy_version review = rts_recovery_policy_version (vq_statement verified)"
    "cv_previous_key_fingerprint review = rts_previous_key_fingerprint (vq_statement verified)"
    "cv_next_key_fingerprint review = rts_next_key_fingerprint (vq_statement verified)"
    using assms(2) by (auto simp: review_recovery_ceremony_participant_def Let_def)
  show ?thesis using assms(1)
    by (auto simp: recovery_approval_prompt_def prompt_new_recovery_participation_def new_with_subject_def Let_def
        displays_def shows_recovery_def fields assms(3, 4) dest!: encode_decode_sha256)
qed

lemma quiet_lookup_metadata: "quiet D ph (lookup_metadata D' path) (\<lambda>_. True)"
  unfolding lookup_metadata_def by (rule quiet_bind [OF quiet_ask], rule quiet_attempt) simp

lemma quiet_validate_signing_reference: "quiet D ph (validate_signing_reference D' participant) (\<lambda>_. True)"
  unfolding validate_signing_reference_def
  by (intro quiet_bind [OF quiet_attempt_Ok] quiet_if quiet_reject quiet_bind [OF quiet_lookup_metadata]
      quiet_bind [OF quiet_ask] quiet_give) simp_all

lemma quiet_same_signing_reference: "quiet D ph (same_signing_reference D' participant identity) (\<lambda>_. True)"
proof -
  have "fst (same_signing_reference D' participant identity w) = Ok x \<Longrightarrow> True"
    and "snd (same_signing_reference D' participant identity w) = snd (validate_signing_reference D' participant w)" for w x
    by (simp_all add: same_signing_reference_def split: prod.split result.split)
  with quiet_validate_signing_reference [of D ph D' participant] show ?thesis
    by (auto simp: quiet_def obeys_def)
qed

lemma quiet_review_participation:
  "quiet D ph (review_participation D participant request now) (\<lambda>(verified, review). vq_request verified = request \<and>
     review_recovery_ceremony_participant (de_core D) verified (pq_public_key participant) now = Ok review)"
  unfolding review_participation_def
  by (intro quiet_bind [OF quiet_attempt_Ok] quiet_if quiet_reject quiet_give) (auto dest: verified_request)

lemma process_recovery_participation_obeys:
  "obeysD D (Reviewing ts) (process_recovery_participation D interrupted request_uuid request input peer) (ends_well D)"
  unfolding process_recovery_participation_def
  apply (rule obeys_bind_give, simp)
  apply (rule obeys_bind_quiet [OF quiet_take_snapshot], simp)
  apply (rule obeys_bind_quiet [OF quiet_read_snapshot], simp)
  apply (rule obeys_bind_quiet [OF quiet_now], simp)
  apply (rule obeys_bind_attempt)
   apply (rule obeys_bind_quiet [OF quiet_review_participation], simp)
   apply (simp only: case_prod_beta)
   apply (rule obeys_bind_quiet [OF quiet_validate_signing_reference], simp)
   apply (rule obeys_bind_quiet [OF quiet_check_connection], simp, simp)
   apply (rule obeys_bind_attempt)
    apply (rule obeys_decide)
     apply (rule obeys_bind_quiet [OF quiet_check_connection], simp, simp)
     apply (rule obeys_bind_quiet [OF quiet_now], simp)
     apply (rule obeys_if, rule obeys_reject, simp)
     apply (rule obeys_bind_attempt)
      apply (rule obeys_if, rule obeys_reject, simp)
      apply (rule obeys_bind_attempt)
       apply (rule obeys_if, rule obeys_reject, simp)
       apply (rule obeys_bind_attempt)
        apply (rule obeys_if, rule obeys_reject, simp)
        apply (rule obeys_if, rule obeys_reject, simp)
        apply (rule obeys_bind_quiet [OF quiet_same_signing_reference], simp)
        apply (rule obeys_let, rule obeys_sign)
         apply (rule recovery_prompt_displays, assumption, blast)
          apply (auto dest: verified_request) [2]
        apply (rule obeys_bind_attempt)
         apply (rule obeys_bind_quiet [OF quiet_check_connection], simp, simp)
         apply (rule obeys_bind_quiet [OF quiet_now], simp)
         apply (rule obeys_bind_attempt, rule obeys_bind_attempt, rule obeys_bind_ask, rule obeys_bind_attempt, rule obeys_give)
            apply (simp_all add: may_answer_def stored_signing_def carries_def)
  using seal_proof_bytes_Ok apply blast
  done

section \<open>Connections\<close>

lemma process_subject_obeys:
  "obeysD D (Reviewing ts) (process_subject D interrupted request_uuid request input peer) (ends_well D)"
  unfolding process_subject_def
  by (cases "sr_subject request")
    (simp_all add: process_persona_request_obeys process_persona_transition_obeys process_recovery_participation_obeys)

text \<open>How a request ends: with a proof that may leave, with a failure that may be reported, or not at all.\<close>

definition outcome_well :: "daemon_env \<Rightarrow> DaemonOutcome option \<Rightarrow> phase \<Rightarrow> bool" where
  "outcome_well D v ph \<longleftrightarrow>
     (case v of
       Some (OutcomeApproved _ _ _ sealed) \<Rightarrow> may_answer D ph sealed
     | Some (OutcomeRejected _ failure) \<Rightarrow> ph \<noteq> Answered \<and> (\<forall>c. ph = Refused c \<longrightarrow> failure_rejection_code failure = c)
     | None \<Rightarrow> \<not> closing ph)"

lemma to_outcome_well: "ends_well D r ph \<Longrightarrow> outcome_well D (to_outcome request_id r) ph"
  by (auto simp: ends_well_def outcome_well_def to_outcome_def split: result.splits stop.splits prod.splits)

lemma process_received_request_inner_obeys:
  assumes "process_received_request_inner D interrupted received w = (v, w')"
  obtains es ph where "w_transcript w' = w_transcript w @ es" "follows (daemon_step D) (Reviewing ts) es ph" "outcome_well D v ph"
proof -
  let ?w = "w\<lparr>w_tick := w_tick w + 1\<rparr>"
  obtain r where r: "process_subject D interrupted (de_new_v4 D (w_tick w)) (rq_request received) (rq_input received) (rq_peer received)
      ?w = (r, w')" and v: "v = to_outcome (uuid_to_string (de_wire D) (de_new_v4 D (w_tick w))) r"
    using assms by (auto simp: process_received_request_inner_def Let_def split: prod.splits)
  obtain es ph where "w_transcript w' = w_transcript ?w @ es" "follows (daemon_step D) (Reviewing ts) es ph" "ends_well D r ph"
    using obeysD [OF process_subject_obeys r] by blast
  with v show thesis by (intro that [of es ph]) (auto intro: to_outcome_well)
qed

end
