(* ===== verification/Daemon_Runs.thy ===== *)
theory Daemon_Runs
  imports Daemon_Protocol
begin

text \<open>
  Whole connections: the run of \<open>handle_connection\<close> follows the daemon's protocol, the shapes such runs
  have, and what they say about signatures, stored records and released proofs.
\<close>

section \<open>Answers\<close>

fun answer :: "entry \<Rightarrow> bool" where
  "answer (SendsApproved _) = True"
| "answer (SendsRejected _) = True"
| "answer _ = False"

lemma may_answer_open: "may_answer D ph sealed \<Longrightarrow> ph \<noteq> Answered"
  by (auto simp: may_answer_def)

lemma may_answer_not_refused: "may_answer D ph sealed \<Longrightarrow> ph \<noteq> Refused c"
  by (auto simp: may_answer_def)

lemma question_not_answer: "question e \<Longrightarrow> \<not> answer e"
  by (cases e) simp_all

lemma step_answer: "daemon_step D ph e ph' \<Longrightarrow> ph \<noteq> Answered \<and> (answer e \<longleftrightarrow> ph' = Answered)"
  by (erule daemon_step.cases) (simp_all add: may_answer_open question_not_answer)

text \<open>The answer is the last thing that happens.\<close>

lemma follows_answer:
  assumes "follows (daemon_step D) ph es ph'" "ph \<noteq> Answered"
  shows "if ph' = Answered then es \<noteq> [] \<and> answer (last es) \<and> list_all (\<lambda>e. \<not> answer e) (butlast es)
    else list_all (\<lambda>e. \<not> answer e) es"
  using assms
proof (induction rule: follows.induct)
  case (follows_step ph es ph' e ph'')
  with step_answer [OF follows_step.hyps(2)] show ?case by auto
qed simp

definition reported :: "DaemonOutcome option \<Rightarrow> entry list \<Rightarrow> bool" where
  "reported outcome es \<longleftrightarrow>
     (case outcome of
       None \<Rightarrow> list_all (\<lambda>e. \<not> answer e) es
     | Some (OutcomeApproved _ _ _ sealed) \<Rightarrow> es \<noteq> [] \<and> last es = SendsApproved sealed
     | Some (OutcomeRejected _ failure) \<Rightarrow> list_all (\<lambda>e. \<forall>c. e = SendsRejected c \<longrightarrow> c = failure_rejection_code failure) es)"

lemma look_eq: "look D w = (v, w') \<Longrightarrow> w_transcript w' = w_transcript w @ [Checked v]"
  by (auto simp: look_def Let_def)

lemma tell_failure_follows:
  assumes "follows (daemon_step D) start es ph" "ph \<noteq> Answered" "\<And>c. ph \<noteq> Refused c"
  obtains fs ph' where "w_transcript (tell_failure D failure w) = w_transcript w @ fs" "\<And>c. ph' \<noteq> Refused c"
    "follows (daemon_step D) start (es @ fs) ph'" "list_all (\<lambda>e. e = SendsRejected (failure_rejection_code failure)) fs"
proof (cases "failure = FailInvalidRequest")
  case True
  show thesis by (rule that [of "[SendsRejected InvalidRequest]" Answered])
    (use assms True in \<open>auto simp: tell_failure_def tell_rejected_def intro!: daemon_step.turns_down\<close>)
next
  case False
  with assms show thesis by (intro that [of "[]" ph]) (simp_all add: tell_failure_def)
qed

lemma not_answer_reported: "list_all (\<lambda>e. \<not> answer e) es \<Longrightarrow> list_all (\<lambda>e. \<forall>c. e = SendsRejected c \<longrightarrow> c = code) es"
  by (auto simp: list_all_iff)

lemma only_reported: "list_all (\<lambda>e. e = SendsRejected code) es \<Longrightarrow> list_all (\<lambda>e. \<forall>c. e = SendsRejected c \<longrightarrow> c = code) es"
  by (auto simp: list_all_iff)

lemma answer_approved_follows:
  assumes es: "follows (daemon_step D) start es ph" and clean: "list_all (\<lambda>e. \<not> answer e) es" and may: "may_answer D ph sealed"
    and run: "answer_approved D request_id fingerprint subject sealed w = (outcome, w')"
  obtains fs ph' where "w_transcript w' = w_transcript w @ fs" "follows (daemon_step D) start (es @ fs) ph'" "reported outcome (es @ fs)"
    "\<And>c. ph' \<noteq> Refused c"
proof -
  note open_ph = may_answer_open [OF may] may_answer_not_refused [OF may]
  obtain v w1 where look: "look D w = (v, w1)" by fastforce
  note t1 = look_eq [OF look]
  have es1: "follows (daemon_step D) start (es @ [Checked v]) ph"
    unfolding follows_snoc using es open_ph(1) question_step [of "Checked v"] by auto
  show thesis
  proof (cases v)
    case (Some failure)
    obtain fs ph' where t2: "w_transcript (tell_failure D failure w1) = w_transcript w1 @ fs" and "\<And>c. ph' \<noteq> Refused c"
      and es2: "follows (daemon_step D) start ((es @ [Checked v]) @ fs) ph'"
      and fs: "list_all (\<lambda>e. e = SendsRejected (failure_rejection_code failure)) fs"
      using tell_failure_follows [OF es1 open_ph] by metis
    with run look Some t1 only_reported [OF fs] not_answer_reported [OF clean] show thesis
      by (intro that [of "Checked v # fs" ph']) (auto simp: answer_approved_def reported_def)
  next
    case None
    have es2: "follows (daemon_step D) start ((es @ [Checked v]) @ [SendsApproved sealed]) Answered"
      unfolding follows_snoc using es1 may by (auto intro: daemon_step.answers)
    with run look None t1 not_answer_reported [OF clean] show thesis
      by (intro that [of "[Checked v, SendsApproved sealed]" Answered])
        (auto simp: answer_approved_def reported_def tell_approved_def split: bool.splits)
  qed
qed

text \<open>How the outcome of the inner handler is answered.\<close>

lemma outcome_follows:
  assumes es: "follows (daemon_step D) (Reviewing []) es ph" and well: "outcome_well D v ph"
    and run: "(case v of
        None \<Rightarrow> (None, w)
      | Some (OutcomeRejected request_id failure) \<Rightarrow>
          (Some (OutcomeRejected request_id failure), tell_rejected D (failure_rejection_code failure) w)
      | Some (OutcomeApproved request_id signer_fingerprint subject sealed) \<Rightarrow>
          answer_approved D request_id signer_fingerprint subject sealed w) = (outcome, w')"
  obtains fs ph' where "w_transcript w' = w_transcript w @ fs" "follows (daemon_step D) (Reviewing []) (es @ fs) ph'"
    "reported outcome (es @ fs)" "\<And>c. ph' \<noteq> Refused c"
proof -
  have before: "ph \<noteq> Answered \<Longrightarrow> list_all (\<lambda>e. \<not> answer e) es" using follows_answer [OF es] by simp
  show thesis
  proof (cases v)
    case None
    then have "ph \<noteq> Answered" "\<And>c. ph \<noteq> Refused c" using well by (auto simp: outcome_well_def)
    with None run es before show thesis by (intro that [of "[]" ph]) (auto simp: reported_def)
  next
    case (Some outcome2)
    show thesis
    proof (cases outcome2)
      case (OutcomeRejected request_id failure)
      have open_ph: "ph \<noteq> Answered" "\<And>c. ph = Refused c \<Longrightarrow> failure_rejection_code failure = c"
        using well Some OutcomeRejected by (auto simp: outcome_well_def)
      have "follows (daemon_step D) (Reviewing []) (es @ [SendsRejected (failure_rejection_code failure)]) Answered"
        unfolding follows_snoc using es open_ph by (blast intro: daemon_step.turns_down)
      with run Some OutcomeRejected not_answer_reported [OF before [OF open_ph(1)], of "failure_rejection_code failure"]
      show thesis
        by (intro that [of "[SendsRejected (failure_rejection_code failure)]" Answered])
          (auto simp: tell_rejected_def reported_def)
    next
      case (OutcomeApproved request_id fingerprint subject sealed)
      have may: "may_answer D ph sealed" using well Some OutcomeApproved by (simp add: outcome_well_def)
      have "answer_approved D request_id fingerprint subject sealed w = (outcome, w')"
        using run Some OutcomeApproved by simp
      then show thesis by (rule answer_approved_follows [OF es before [OF may_answer_open [OF may]] may]) (rule that)
    qed
  qed
qed

theorem handle_connection_follows:
  assumes "handle_connection D w = (outcome, w')"
  obtains es ph where "w_transcript w' = w_transcript w @ es" "follows (daemon_step D) (Reviewing []) es ph" "reported outcome es"
    "\<And>c. ph \<noteq> Refused c"
proof -
  let ?w = "w\<lparr>w_tick := w_tick w + 1\<rparr>"
  have start: "follows (daemon_step D) (Reviewing []) [Checked v] (Reviewing [])" for v
    by (rule follows_one, rule question_step) simp_all
  show thesis
  proof (cases "receive_sign_request (de_wire D) (de_euid D) (de_credentials D (w_tick w)) (de_recv D (w_tick w))")
    case (Err e)
    have "follows (daemon_step D) (Reviewing []) [SendsRejected InvalidRequest] Answered"
      by (rule follows_one, rule daemon_step.turns_down) simp_all
    with Err assms show thesis
      by (intro that [of "[SendsRejected InvalidRequest]" Answered]) (auto simp: handle_connection_def tell_rejected_def reported_def)
  next
    case (Ok received)
    obtain v w1 where look: "look D ?w = (v, w1)" by fastforce
    note t1 = look_eq [OF look]
    show thesis
    proof (cases v)
      case (Some failure)
      obtain fs ph' where "w_transcript (tell_failure D failure w1) = w_transcript w1 @ fs" "\<And>c. ph' \<noteq> Refused c"
        "follows (daemon_step D) (Reviewing []) ([Checked v] @ fs) ph'" and
        fs: "list_all (\<lambda>e. e = SendsRejected (failure_rejection_code failure)) fs"
        using tell_failure_follows [OF start [of v]] by (metis phase.distinct(3, 9))
      with Some Ok look t1 assms only_reported [OF fs] show thesis
        by (intro that [of "Checked v # fs" ph']) (auto simp: handle_connection_def reported_def)
    next
      case None
      obtain o2 w2 where inner: "process_received_request_inner D (connection_failure \<circ> de_peek D) received w1 = (o2, w2)"
        by fastforce
      then obtain es ph where t2: "w_transcript w2 = w_transcript w1 @ es"
        and es: "follows (daemon_step D) (Reviewing []) es ph" and well: "outcome_well D o2 ph"
        by (rule process_received_request_inner_obeys)
      have es': "follows (daemon_step D) (Reviewing []) (Checked v # es) ph"
        using es start [of v] by (auto simp: follows_Cons)
      have "handle_connection D w = (case o2 of
          None \<Rightarrow> (None, w2)
        | Some (OutcomeRejected request_id failure) \<Rightarrow>
            (Some (OutcomeRejected request_id failure), tell_rejected D (failure_rejection_code failure) w2)
        | Some (OutcomeApproved request_id signer_fingerprint subject sealed) \<Rightarrow>
            answer_approved D request_id signer_fingerprint subject sealed w2)"
        using Ok look None inner by (simp add: handle_connection_def split: option.split DaemonOutcome.split)
      from outcome_follows [OF es' well this [symmetric, unfolded assms]] obtain fs ph' where
        "w_transcript w' = w_transcript w2 @ fs" "follows (daemon_step D) (Reviewing []) ((Checked v # es) @ fs) ph'"
        "reported outcome ((Checked v # es) @ fs)" "\<And>c. ph' \<noteq> Refused c" by metis
      with t1 t2 show thesis by (intro that [of "(Checked v # es) @ fs" ph']) auto
    qed
  qed
qed

section \<open>The shape of a run\<close>

text \<open>Without its questions a run has one of seven shapes, by the phase it ends in.\<close>

definition acts :: "entry list \<Rightarrow> entry list" where
  "acts es = filter (\<lambda>e. \<not> question e) es"

lemma acts_snoc [simp]: "acts (es @ [e]) = (if question e then acts es else acts es @ [e])"
  by (simp add: acts_def)

lemma acts_Nil [simp]: "acts [] = []"
  by (simp add: acts_def)

text \<open>The entry that stores what was signed.\<close>

definition stores :: "daemon_env \<Rightarrow> signing \<Rightarrow> entry \<Rightarrow> bool" where
  "stores D s e \<longleftrightarrow>
     (case (s, e) of
       (SignsRoot statement signer, RecordedRoot persona_id pf digest) \<Rightarrow>
         made D s (SignedPersonaRoot pf) \<and> (\<exists>verified. verify_persona_root_proof (de_core D) pf = Ok verified \<and> vr_statement verified = statement
            \<and> vr_root_statement_sha256 verified = digest)
     | (SignsTransition statement signer candidate, Committed persona_id pf provider locator) \<Rightarrow>
         made D s (SignedPersonaTransition pf) \<and> provider = rrc_provider candidate \<and> locator = sref_locator (rrc_signing_reference candidate) \<and> extends_chain D pf statement
     | _ \<Rightarrow> False)"

fun open_shape :: "daemon_env \<Rightarrow> phase \<Rightarrow> entry list \<Rightarrow> bool" where
  "open_shape D (Reviewing ts) es \<longleftrightarrow> es = []"
| "open_shape D (ApprovedFor prompt) es \<longleftrightarrow> es = [Decided prompt (Ok Approve)]"
| "open_shape D (Refused code) es \<longleftrightarrow> (\<exists>prompt v. v \<noteq> Ok Approve \<and> code = refusal_code v \<and> es = [Decided prompt v])"
| "open_shape D (SignedFor s) es \<longleftrightarrow> (\<exists>prompt. displays D prompt s \<and> es = [Decided prompt (Ok Approve), Signed s])"
| "open_shape D (Stored s) es \<longleftrightarrow> (\<exists>prompt e. displays D prompt s \<and> stores D s e \<and> es = [Decided prompt (Ok Approve), Signed s, e])"
| "open_shape D Answered es \<longleftrightarrow> False"

definition shape :: "daemon_env \<Rightarrow> phase \<Rightarrow> entry list \<Rightarrow> bool" where
  "shape D ph es \<longleftrightarrow>
     (if ph = Answered then \<exists>ph fs e. open_shape D ph fs \<and> es = fs @ [e] \<and> answer e \<and> daemon_step D ph e Answered
      else open_shape D ph es)"

lemma step_shape:
  assumes "daemon_step D ph e ph'" "shape D ph (acts es)"
  shows "shape D ph' (acts (es @ [e]))"
proof -
  have op: "open_shape D ph (acts es)" using assms step_answer [OF assms(1)] by (simp add: shape_def)
  from assms(1) show ?thesis
  proof cases
    case (answers sealed)
    with op assms(1) show ?thesis by (auto simp: shape_def)
  next
    case (turns_down code)
    with op assms(1) show ?thesis by (auto simp: shape_def)
  qed (use op in \<open>auto simp: shape_def stores_def extends_chain_def\<close>)
qed

lemma follows_shape: "follows (daemon_step D) (Reviewing ts) es ph \<Longrightarrow> shape D ph (acts es)"
proof (induction es arbitrary: ph rule: rev_induct)
  case Nil
  then show ?case by (simp add: shape_def)
next
  case (snoc e es)
  then obtain ph' where "daemon_step D ph' e ph" "shape D ph' (acts es)" by auto
  then show ?case by (rule step_shape)
qed

text \<open>The acts of a connection: what was decided, signed and stored, with the answer if there is one.\<close>

lemma connection_acts:
  assumes "handle_connection D w = (outcome, w')" "w_transcript w' = w_transcript w @ es"
  obtains ph fs where "open_shape D ph fs" "acts es = fs" "ph \<noteq> Answered" "reported outcome es"
  | ph fs e where "open_shape D ph fs" "acts es = fs @ [e]" "answer e" "daemon_step D ph e Answered" "reported outcome es"
proof -
  obtain ph where f: "follows (daemon_step D) (Reviewing []) es ph" and r: "reported outcome es"
    using handle_connection_follows [OF assms(1)] assms(2) by auto
  show thesis
    using follows_shape [OF f] r that by (cases "ph = Answered") (auto simp: shape_def)
qed

lemma acts_set: "e \<in> set es \<Longrightarrow> \<not> question e \<Longrightarrow> e \<in> set (acts es)"
  by (simp add: acts_def)

lemma acts_last: "es \<noteq> [] \<Longrightarrow> last es = e \<Longrightarrow> \<not> question e \<Longrightarrow> acts es \<noteq> [] \<and> last (acts es) = e"
  by (cases es rule: rev_cases) auto

lemma stores_entry: "stores D s e \<Longrightarrow> \<not> question e \<and> \<not> answer e \<and> (\<forall>s'. e \<noteq> Signed s') \<and> (\<forall>p v. e \<noteq> Decided p v)"
  by (cases s; cases e) (simp_all add: stores_def)

lemma answer_entry: "answer e \<Longrightarrow> \<not> question e \<and> (\<forall>s'. e \<noteq> Signed s') \<and> (\<forall>p v. e \<noteq> Decided p v)"
  by (cases e) simp_all

section \<open>One approval, one signature\<close>

text \<open>
  Reading a transcript from its start with the prompt that is approved and not yet used: a signature
  needs such a prompt, which displays what is signed, and uses it up.
\<close>

fun signs_only_approved :: "daemon_env \<Rightarrow> ApprovalPrompt option \<Rightarrow> entry list \<Rightarrow> bool" where
  "signs_only_approved D pending [] \<longleftrightarrow> True"
| "signs_only_approved D pending (Decided prompt v # es) \<longleftrightarrow> signs_only_approved D (if v = Ok Approve then Some prompt else None) es"
| "signs_only_approved D pending (Signed s # es) \<longleftrightarrow>
     (case pending of None \<Rightarrow> False | Some prompt \<Rightarrow> displays D prompt s \<and> signs_only_approved D None es)"
| "signs_only_approved D pending (_ # es) \<longleftrightarrow> signs_only_approved D pending es"

lemma signs_only_approved_acts: "signs_only_approved D pending (acts es) \<longleftrightarrow> signs_only_approved D pending es"
proof (induction es arbitrary: pending)
  case (Cons e es)
  then show ?case by (cases e) (auto simp: acts_def split: option.splits)
qed (simp add: acts_def)

lemma signs_only_approved_skip:
  "(\<forall>s. e \<noteq> Signed s) \<and> (\<forall>p v. e \<noteq> Decided p v) \<Longrightarrow> signs_only_approved D pending (e # es) \<longleftrightarrow> signs_only_approved D pending es"
  by (cases e) auto

lemma open_shape_approved:
  assumes "open_shape D ph fs" "answer e"
  shows "signs_only_approved D None fs" "signs_only_approved D None (fs @ [e])"
  using assms answer_entry [OF assms(2)] by (cases ph; auto simp: signs_only_approved_skip dest!: stores_entry)+

lemma shape_approved: "shape D ph es \<Longrightarrow> signs_only_approved D None es"
  using open_shape_approved open_shape_approved(1) [of D ph es "SendsRejected Cancelled"]
  by (auto simp: shape_def split: if_splits)

section \<open>Nothing is released without a signature\<close>

lemma follows_reviewing:
  "follows (daemon_step D) (Reviewing []) es (Reviewing ts) \<Longrightarrow> ts \<noteq> [] \<Longrightarrow>
   \<exists>persona_id snapshot. AskedSnapshot persona_id (Ok snapshot) \<in> set es \<and> lcs_transitions snapshot = ts"
proof (induction es arbitrary: ts rule: rev_induct)
  case (snoc e es)
  then obtain ph where es: "follows (daemon_step D) (Reviewing []) es ph" and step: "daemon_step D ph e (Reviewing ts)" by auto
  from step show ?case
  proof cases
    case asks
    with snoc.IH [of ts] snoc.prems(2) es show ?thesis by fastforce
  qed (use snoc es in auto)
qed simp

text \<open>A proof that the store already holds: the last transition of a snapshot that was asked for.\<close>

definition already_committed :: "daemon_env \<Rightarrow> entry list \<Rightarrow> SealedProof \<Rightarrow> bool" where
  "already_committed D es sealed \<longleftrightarrow> (\<exists>persona_id snapshot pf. AskedSnapshot persona_id (Ok snapshot) \<in> set es
     \<and> lcs_transitions snapshot \<noteq> [] \<and> last (lcs_transitions snapshot) = RoutineProof pf
     \<and> seals D (SignedPersonaTransition pf) sealed)"

definition released_properly :: "daemon_env \<Rightarrow> entry list \<Rightarrow> SealedProof \<Rightarrow> bool" where
  "released_properly D es sealed \<longleftrightarrow>
     (\<exists>prompt s. displays D prompt s \<and> carries D s sealed \<and>
        (\<not> stored_signing s \<and> acts es = [Decided prompt (Ok Approve), Signed s, SendsApproved sealed]
         \<or> (\<exists>e. stores D s e \<and> acts es = [Decided prompt (Ok Approve), Signed s, e, SendsApproved sealed])))
     \<or> acts es = [SendsApproved sealed] \<and> already_committed D es sealed"

lemma follows_released:
  assumes "follows (daemon_step D) (Reviewing []) (es @ [SendsApproved sealed]) ph'"
  shows "released_properly D (es @ [SendsApproved sealed]) sealed"
proof -
  obtain ph where es: "follows (daemon_step D) (Reviewing []) es ph" and "daemon_step D ph (SendsApproved sealed) ph'"
    using assms by auto
  then have may: "may_answer D ph sealed" by (auto elim: daemon_step.cases)
  have shape: "open_shape D ph (acts es)" using follows_shape [OF es] may_answer_open [OF may] by (simp add: shape_def)
  show ?thesis
  proof (cases ph)
    case (Reviewing ts)
    with may have ts: "ts \<noteq> []" by (simp add: may_answer_def)
    from follows_reviewing [OF es [unfolded Reviewing] ts] may shape Reviewing
    show ?thesis by (auto simp: released_properly_def already_committed_def may_answer_def
          split: PersonaContinuityTransitionProof.splits result.splits)
  qed (use may shape in \<open>auto simp: may_answer_def released_properly_def\<close>)
qed

end
