(* ===== verification/Listener.thy ===== *)
theory Listener
  imports Approver Daemon_Runs
begin

text \<open>
  The socket of the daemon (\<^verbatim>\<open>listener.rs\<close>) and its main loop (\<^verbatim>\<open>main.rs\<close>): where the runtime directory and the
  store are found, how the socket is bound in a private directory, how it is removed again, and that the
  loop serves one connection after the other.
\<close>

section \<open>Paths of the process\<close>

datatype StartError = RuntimeNotAbsolute | RuntimeMissing | DataHomeNotAbsolute | StoreNotFound

definition path_join :: "string \<Rightarrow> string \<Rightarrow> string" where
  "path_join path part = (if is_absolute part then part else if path = [] then part else path_push path part)"

definition resolve_runtime_directory ::
  "(string \<Rightarrow> string option) \<Rightarrow> string option \<Rightarrow> (string, StartError) result" where
  "resolve_runtime_directory env explicit =
     (case explicit of
       Some path \<Rightarrow> if is_absolute path then Ok path else Err RuntimeNotAbsolute
     | None \<Rightarrow> and_then (ok_or RuntimeMissing (env ''XDG_RUNTIME_DIR'')) (\<lambda>path.
         if is_absolute path then Ok path else Err RuntimeNotAbsolute))"

definition resolve_store_path :: "(string \<Rightarrow> string option) \<Rightarrow> string option \<Rightarrow> (string, StartError) result" where
  "resolve_store_path env explicit =
     (case explicit of
       Some path \<Rightarrow> Ok path
     | None \<Rightarrow> case env ''XDG_DATA_HOME'' of
         Some data_home \<Rightarrow>
           if is_absolute data_home then Ok (path_join data_home ''a-quo/personas.sqlite3'') else Err DataHomeNotAbsolute
       | None \<Rightarrow> case env ''HOME'' of
           Some home \<Rightarrow> Ok (path_join home ''.local/share/a-quo/personas.sqlite3'')
         | None \<Rightarrow> Err StoreNotFound)"

section \<open>The listener\<close>

definition APP_RUNTIME_DIRECTORY :: string where "APP_RUNTIME_DIRECTORY = ''a-quo''"
definition SOCKET_FILE :: string where "SOCKET_FILE = ''consent.sock''"

datatype ListenerError =
    ListenerIo string
  | UnsafeRuntimePath string string
  | ExistingSocket string
  | ListenerSocket

record ConsentListener =
  lst_socket_path :: string
  lst_socket_device :: u64
  lst_socket_inode :: u64

datatype created = DirectoryCreated | DirectoryExists | CreateFailed

text \<open>
  The answers of the system, by tick, and the entries of the transcript: what was looked up, the changes
  of the file system, and the socket calls.
\<close>

record listener_env =
  le_euid :: u32
  le_metadata :: "nat \<Rightarrow> string \<Rightarrow> lookup"
  le_create_dir :: "nat \<Rightarrow> string \<Rightarrow> created"
  le_set_permissions :: "nat \<Rightarrow> string \<Rightarrow> bool"
  le_socket :: "nat \<Rightarrow> bool"
  le_bind :: "nat \<Rightarrow> bool"
  le_listen :: "nat \<Rightarrow> bool"
  le_accept :: "nat \<Rightarrow> bool"

datatype listener_entry =
    LooksUp string lookup
  | CreatesDirectory string
  | SetsMode string u32
  | BindsSocket string
  | Listens string
  | RemovesFile string
  | AcceptsConnection

type_synonym 'a listening = "(listener_entry, 'a, ListenerError) action"

definition look_up :: "listener_env \<Rightarrow> string \<Rightarrow> TimedMetadata listening" where
  "look_up L path =
     bind_action (observe (\<lambda>t. le_metadata L t path) (LooksUp path)) (\<lambda>v.
     give (case v of Found m \<Rightarrow> Ok m | _ \<Rightarrow> Err (ListenerIo path)))"

definition set_permissions :: "listener_env \<Rightarrow> string \<Rightarrow> u32 \<Rightarrow> unit listening" where
  "set_permissions L path mode =
     bind_action (observe (\<lambda>t. le_set_permissions L t path) (\<lambda>_. SetsMode path mode)) (\<lambda>done.
     give (if done then Ok () else Err (ListenerIo path)))"

text \<open>The masks \<^verbatim>\<open>0o077\<close> and \<^verbatim>\<open>0o177\<close> are 63 and 127, the modes \<^verbatim>\<open>0o700\<close> and \<^verbatim>\<open>0o600\<close> are 448 and 384.\<close>

definition validate_private_directory :: "listener_env \<Rightarrow> string \<Rightarrow> unit listening" where
  "validate_private_directory L path =
     (if \<not> is_absolute path then give (Err (UnsafeRuntimePath path ''the path must be absolute''))
      else bind_action (look_up L path) (\<lambda>m. give (
        if pm_is_symlink m \<or> \<not> pm_is_dir m
        then Err (UnsafeRuntimePath path ''the path must be a non-symlink directory'')
        else if pm_uid m \<noteq> le_euid L
        then Err (UnsafeRuntimePath path (''owner UID '' @ decimal (unat (pm_uid m))
          @ '' is not the current effective UID '' @ decimal (unat (le_euid L))))
        else if pm_mode m AND 63 \<noteq> 0
        then Err (UnsafeRuntimePath path ''group/world permissions are not allowed'')
        else Ok ())))"

definition prepare_app_directory :: "listener_env \<Rightarrow> string \<Rightarrow> unit listening" where
  "prepare_app_directory L path =
     bind_action (observe (\<lambda>t. le_create_dir L t path) (\<lambda>_. CreatesDirectory path)) (\<lambda>v.
     bind_action (case v of
         DirectoryCreated \<Rightarrow> set_permissions L path 448
       | DirectoryExists \<Rightarrow> give (Ok ())
       | CreateFailed \<Rightarrow> give (Err (ListenerIo path))) (\<lambda>_.
     validate_private_directory L path))"

definition validate_owned_socket :: "listener_env \<Rightarrow> string \<Rightarrow> u64 \<Rightarrow> u64 \<Rightarrow> unit listening" where
  "validate_owned_socket L path device inode =
     bind_action (look_up L path) (\<lambda>m. give (
       if \<not> pm_is_socket m \<or> pm_dev m \<noteq> device \<or> pm_ino m \<noteq> inode \<or> pm_uid m \<noteq> le_euid L \<or> pm_mode m AND 127 \<noteq> 0
       then Err (UnsafeRuntimePath path ''the socket entry, owner, inode, or mode changed unexpectedly'')
       else Ok ()))"

definition finish_bind :: "listener_env \<Rightarrow> ConsentListener \<Rightarrow> unit listening" where
  "finish_bind L listener =
     bind_action (set_permissions L (lst_socket_path listener) 384) (\<lambda>_.
     bind_action (validate_owned_socket L (lst_socket_path listener) (lst_socket_device listener) (lst_socket_inode listener)) (\<lambda>_.
     bind_action (observe (le_listen L) (\<lambda>_. Listens (lst_socket_path listener))) (\<lambda>listening.
     give (if listening then Ok () else Err ListenerSocket))))"

text \<open>Dropping the listener: the result of the removal is ignored.\<close>

definition drop_listener :: "listener_env \<Rightarrow> ConsentListener \<Rightarrow> unit listening" where
  "drop_listener L listener w =
     (case validate_owned_socket L (lst_socket_path listener) (lst_socket_device listener) (lst_socket_inode listener) w of
       (Ok _, w') \<Rightarrow> note_event (RemovesFile (lst_socket_path listener)) w'
     | (Err _, w') \<Rightarrow> (Ok (), w'))"

text \<open>The bound socket with the rest of \<open>bind\<close>; a listener that cannot be finished is dropped.\<close>

definition finish_or_drop :: "listener_env \<Rightarrow> ConsentListener \<Rightarrow> ConsentListener listening" where
  "finish_or_drop L listener w =
     (case finish_bind L listener w of
       (Ok _, w') \<Rightarrow> (Ok listener, w')
     | (Err e, w') \<Rightarrow> (Err e, snd (drop_listener L listener w')))"

definition socket_is_free :: "listener_env \<Rightarrow> string \<Rightarrow> unit listening" where
  "socket_is_free L path =
     bind_action (observe (\<lambda>t. le_metadata L t path) (LooksUp path)) (\<lambda>v.
     give (case v of Found _ \<Rightarrow> Err (ExistingSocket path) | NotFound \<Rightarrow> Ok () | LookupFailed \<Rightarrow> Err (ListenerIo path)))"

definition bind_listener :: "listener_env \<Rightarrow> string \<Rightarrow> ConsentListener listening" where
  "bind_listener L runtime_root =
     bind_action (validate_private_directory L runtime_root) (\<lambda>_.
     let app_directory = path_join runtime_root APP_RUNTIME_DIRECTORY;
         socket_path = path_join app_directory SOCKET_FILE
     in bind_action (prepare_app_directory L app_directory) (\<lambda>_.
     bind_action (socket_is_free L socket_path) (\<lambda>_.
     bind_action (ask (le_socket L)) (\<lambda>made.
     if \<not> made then give (Err ListenerSocket)
     else bind_action (observe (le_bind L) (\<lambda>_. BindsSocket socket_path)) (\<lambda>bound.
     if \<not> bound then give (Err ListenerSocket)
     else bind_action (look_up L socket_path) (\<lambda>m.
     finish_or_drop L \<lparr>lst_socket_path = socket_path, lst_socket_device = pm_dev m, lst_socket_inode = pm_ino m\<rparr>))))))"

text \<open>Accepting a connection; its two timeouts are set by further calls.\<close>

definition accept_connection :: "listener_env \<Rightarrow> unit listening" where
  "accept_connection L =
     bind_action (observe (le_accept L) (\<lambda>_. AcceptsConnection)) (\<lambda>accepted.
     give (if accepted then Ok () else Err ListenerSocket))"

section \<open>The main loop\<close>

text \<open>
  The connections that are accepted before the loop ends with an error of \<open>accept\<close>. Connections are served
  one after the other; a connection that never ends holds the loop.
\<close>

fun serve :: "daemon_env \<Rightarrow> nat \<Rightarrow> entry world \<Rightarrow> DaemonOutcome option list \<times> entry world" where
  "serve D 0 w = ([], w)"
| "serve D (Suc n) w =
     (case handle_connection D w of
       (None, w) \<Rightarrow> ([None], w)
     | (Some outcome, w) \<Rightarrow> (let (outcomes, w) = serve D n w in (Some outcome # outcomes, w)))"

section \<open>The protocol of the socket\<close>

text \<open>
  Metadata of a directory that only this user can enter, and of a socket that is the one that was bound and
  that only this user can use.
\<close>

definition private_directory :: "listener_env \<Rightarrow> TimedMetadata \<Rightarrow> bool" where
  "private_directory L m \<longleftrightarrow> \<not> pm_is_symlink m \<and> pm_is_dir m \<and> pm_uid m = le_euid L \<and> pm_mode m AND 63 = 0"

definition own_socket :: "listener_env \<Rightarrow> u64 \<Rightarrow> u64 \<Rightarrow> TimedMetadata \<Rightarrow> bool" where
  "own_socket L device inode m \<longleftrightarrow>
     pm_is_socket m \<and> pm_dev m = device \<and> pm_ino m = inode \<and> pm_uid m = le_euid L \<and> pm_mode m AND 127 = 0"

datatype listener_phase =
    Opening
  | InRuntime
  | InApplication
  | SocketFree
  | SocketBound
  | SocketKnown u64 u64
  | SocketOwned u64 u64
  | Serving u64 u64
  | Closed_Down

inductive listener_step :: "listener_env \<Rightarrow> string \<Rightarrow> string \<Rightarrow> string \<Rightarrow> listener_phase \<Rightarrow> listener_entry \<Rightarrow> listener_phase \<Rightarrow> bool"
  for L root app sock where
  looks: "(\<And>d i. ph \<noteq> SocketOwned d i) \<Longrightarrow> listener_step L root app sock ph (LooksUp path v) ph"
| enters_root: "is_absolute root \<Longrightarrow> private_directory L m \<Longrightarrow> listener_step L root app sock Opening (LooksUp root (Found m)) InRuntime"
| creates: "listener_step L root app sock InRuntime (CreatesDirectory app) InRuntime"
| restricts_app: "listener_step L root app sock InRuntime (SetsMode app 448) InRuntime"
| enters_app: "is_absolute app \<Longrightarrow> private_directory L m \<Longrightarrow> listener_step L root app sock InRuntime (LooksUp app (Found m)) InApplication"
| finds_free: "listener_step L root app sock InApplication (LooksUp sock NotFound) SocketFree"
| binds: "listener_step L root app sock SocketFree (BindsSocket sock) SocketBound"
| knows: "listener_step L root app sock SocketBound (LooksUp sock (Found m)) (SocketKnown (pm_dev m) (pm_ino m))"
| restricts: "listener_step L root app sock (SocketKnown d i) (SetsMode sock 384) (SocketKnown d i)"
| owns: "own_socket L d i m \<Longrightarrow> ph = SocketKnown d i \<or> ph = Serving d i \<Longrightarrow>
    listener_step L root app sock ph (LooksUp sock (Found m)) (SocketOwned d i)"
| listens: "listener_step L root app sock (SocketOwned d i) (Listens sock) (Serving d i)"
| removes: "listener_step L root app sock (SocketOwned d i) (RemovesFile sock) Closed_Down"

text \<open>Validating a path moves to the phase that its metadata allows and stays where it fails.\<close>

lemma obeys_bind_observe:
  assumes "\<And>x. \<exists>ph'. step ph (entry x) ph' \<and> obeys step ph' (f x) Q"
  shows "obeys step ph (bind_action (observe g entry) f) Q"
  by (rule obeys_bind [where R = "\<lambda>r ph'. \<exists>x. r = Ok x \<and> obeys step ph' (f x) Q"], rule obeys_observe) (use assms in auto)

lemma obeys_look_up:
  assumes "\<And>v. \<exists>ph'. step ph (LooksUp path v) ph' \<and> Q (case v of Found m \<Rightarrow> Ok m | _ \<Rightarrow> Err (ListenerIo path)) ph'"
  shows "obeys step ph (look_up L path) Q"
  unfolding look_up_def by (rule obeys_bind_observe) (use assms in \<open>auto intro: obeys_give\<close>)

lemma obeys_set_permissions:
  "step ph (SetsMode path mode) ph \<Longrightarrow> (\<And>r. Q r ph) \<Longrightarrow> obeys step ph (set_permissions L path mode) Q"
  unfolding set_permissions_def by (rule obeys_bind_observe) (auto intro!: obeys_give)

lemma validate_private_directory_obeys:
  assumes "\<And>m. is_absolute path \<Longrightarrow> private_directory L m \<Longrightarrow> listener_step L root app sock ph (LooksUp path (Found m)) ph'"
    "\<And>d i. ph \<noteq> SocketOwned d i"
  shows "obeys (listener_step L root app sock) ph (validate_private_directory L path) (\<lambda>r p. p = (if is_Ok r then ph' else ph))"
proof (cases "is_absolute path")
  case True
  have "obeys (listener_step L root app sock) ph (look_up L path)
      (\<lambda>r p. p = (case r of Ok m \<Rightarrow> if private_directory L m then ph' else ph | Err _ \<Rightarrow> ph))"
  proof (rule obeys_look_up)
    fix v
    show "\<exists>p. listener_step L root app sock ph (LooksUp path v) p \<and>
      p = (case (case v of Found m \<Rightarrow> Ok m | _ \<Rightarrow> Err (ListenerIo path)) of
        Ok m \<Rightarrow> if private_directory L m then ph' else ph | Err _ \<Rightarrow> ph)"
      using assms True by (cases v) (auto intro: listener_step.looks)
  qed
  then show ?thesis unfolding validate_private_directory_def
    by (auto simp: True private_directory_def intro!: obeys_bind obeys_give)
qed (simp add: validate_private_directory_def obeys_give)

lemma validate_owned_socket_obeys:
  assumes "ph = SocketKnown d i \<or> ph = Serving d i"
  shows "obeys (listener_step L root app sock) ph (validate_owned_socket L sock d i)
    (\<lambda>r p. p = (if is_Ok r then SocketOwned d i else ph))"
proof -
  have "obeys (listener_step L root app sock) ph (look_up L sock)
      (\<lambda>r p. p = (case r of Ok m \<Rightarrow> if own_socket L d i m then SocketOwned d i else ph | Err _ \<Rightarrow> ph))"
  proof (rule obeys_look_up)
    fix v
    show "\<exists>p. listener_step L root app sock ph (LooksUp sock v) p \<and>
      p = (case (case v of Found m \<Rightarrow> Ok m | _ \<Rightarrow> Err (ListenerIo sock)) of
        Ok m \<Rightarrow> if own_socket L d i m then SocketOwned d i else ph | Err _ \<Rightarrow> ph)"
      using assms by (cases v) (auto intro: listener_step.looks listener_step.owns)
  qed
  then show ?thesis unfolding validate_owned_socket_def
    by (auto simp: own_socket_def intro!: obeys_bind obeys_give)
qed

lemma drop_listener_obeys:
  assumes "ph = SocketKnown d i \<or> ph = Serving d i" "lst_socket_path listener = sock"
    "lst_socket_device listener = d" "lst_socket_inode listener = i"
  shows "obeys (listener_step L root app sock) ph (drop_listener L listener) (\<lambda>r p. p = ph \<or> p = Closed_Down)"
  unfolding obeys_def
proof
  fix w
  obtain r w1 where run: "validate_owned_socket L sock d i w = (r, w1)" by fastforce
  obtain es p where es: "w_transcript w1 = w_transcript w @ es" "follows (listener_step L root app sock) ph es p"
    and p: "p = (if is_Ok r then SocketOwned d i else ph)"
    using obeysD [OF validate_owned_socket_obeys [OF assms(1)] run] by blast
  show "\<exists>es p. w_transcript (snd (drop_listener L listener w)) = w_transcript w @ es
      \<and> follows (listener_step L root app sock) ph es p \<and> (p = ph \<or> p = Closed_Down)"
  proof (cases r)
    case (Ok u)
    then have "follows (listener_step L root app sock) ph (es @ [RemovesFile sock]) Closed_Down"
      using es p by (auto intro: listener_step.removes)
    with Ok es run assms show ?thesis
      by (intro exI [of _ "es @ [RemovesFile sock]"] exI [of _ Closed_Down]) (simp add: drop_listener_def note_event_def)
  next
    case (Err e)
    with es p run assms show ?thesis by (intro exI [of _ es] exI [of _ ph]) (simp add: drop_listener_def)
  qed
qed

text \<open>How opening the socket ends: serving on the socket that was bound, or not listening for anyone.\<close>

definition opened :: "string \<Rightarrow> (ConsentListener, ListenerError) result \<Rightarrow> listener_phase \<Rightarrow> bool" where
  "opened sock r ph \<longleftrightarrow>
     (case r of
       Ok listener \<Rightarrow> lst_socket_path listener = sock \<and> ph = Serving (lst_socket_device listener) (lst_socket_inode listener)
     | Err _ \<Rightarrow> \<forall>d i. ph \<noteq> SocketOwned d i)"

lemma finish_bind_obeys:
  "obeys (listener_step L root app sock) (SocketKnown d i)
     (finish_bind L \<lparr>lst_socket_path = sock, lst_socket_device = d, lst_socket_inode = i\<rparr>)
     (\<lambda>r p. p = Serving d i \<or> \<not> is_Ok r \<and> p = SocketKnown d i)"
proof -
  have rest: "obeys (listener_step L root app sock) (SocketOwned d i)
      (bind_action (observe (le_listen L) (\<lambda>_. Listens sock)) (\<lambda>listening. give (if listening then Ok () else Err ListenerSocket)))
      (\<lambda>r p. p = Serving d i \<or> \<not> is_Ok r \<and> p = SocketKnown d i)"
    by (rule obeys_bind_observe) (auto intro!: obeys_give exI [of _ "Serving d i"] listener_step.listens)
  show ?thesis unfolding finish_bind_def
    by (rule obeys_bind [where R = "\<lambda>r p. p = SocketKnown d i"], rule obeys_set_permissions, simp_all add: listener_step.restricts,
        rule obeys_bind [OF validate_owned_socket_obeys]) (auto intro: rest)
qed

lemma finish_or_drop_obeys:
  "obeys (listener_step L root app sock) (SocketKnown d i)
     (finish_or_drop L \<lparr>lst_socket_path = sock, lst_socket_device = d, lst_socket_inode = i\<rparr>) (opened sock)"
  unfolding obeys_def
proof
  fix w
  let ?l = "\<lparr>lst_socket_path = sock, lst_socket_device = d, lst_socket_inode = i\<rparr>"
  obtain r w1 where run: "finish_bind L ?l w = (r, w1)" by fastforce
  obtain es p where es: "w_transcript w1 = w_transcript w @ es" "follows (listener_step L root app sock) (SocketKnown d i) es p"
    and p: "p = Serving d i \<or> \<not> is_Ok r \<and> p = SocketKnown d i"
    using obeysD [OF finish_bind_obeys run] by blast
  show "\<exists>es p. w_transcript (snd (finish_or_drop L ?l w)) = w_transcript w @ es
      \<and> follows (listener_step L root app sock) (SocketKnown d i) es p \<and> opened sock (fst (finish_or_drop L ?l w)) p"
  proof (cases r)
    case (Ok u)
    with es p run show ?thesis by (intro exI [of _ es] exI [of _ p]) (simp add: finish_or_drop_def opened_def)
  next
    case (Err e)
    with p have p: "p = SocketKnown d i \<or> p = Serving d i" by auto
    obtain r2 w2 where drop: "drop_listener L ?l w1 = (r2, w2)" by fastforce
    have "obeys (listener_step L root app sock) p (drop_listener L ?l) (\<lambda>r q. q = p \<or> q = Closed_Down)"
      by (rule drop_listener_obeys [OF p]) simp_all
    from obeysD [OF this drop] obtain fs q where "w_transcript w2 = w_transcript w1 @ fs" "follows (listener_step L root app sock) p fs q" "q = p \<or> q = Closed_Down"
      by blast
    with Err es p run drop show ?thesis
      by (intro exI [of _ "es @ fs"] exI [of _ q]) (auto simp: finish_or_drop_def opened_def follows_append)
  qed
qed

lemma prepare_app_directory_obeys:
  "obeys (listener_step L root app sock) InRuntime (prepare_app_directory L app)
     (\<lambda>r p. p = (if is_Ok r then InApplication else InRuntime))"
proof -
  have "obeys (listener_step L root app sock) InRuntime (case v of DirectoryCreated \<Rightarrow> set_permissions L app 448
      | DirectoryExists \<Rightarrow> give (Ok ()) | CreateFailed \<Rightarrow> give (Err (ListenerIo app))) (\<lambda>r p. p = InRuntime)" for v
    by (cases v) (auto intro: obeys_give obeys_set_permissions listener_step.restricts_app)
  note prepared = obeys_bind [OF this]
  show ?thesis unfolding prepare_app_directory_def
    by (intro obeys_bind_observe exI [of _ InRuntime] conjI listener_step.creates prepared)
      (auto intro!: validate_private_directory_obeys listener_step.enters_app)
qed

lemma socket_is_free_obeys:
  "obeys (listener_step L root app sock) InApplication (socket_is_free L sock)
     (\<lambda>r p. p = (if is_Ok r then SocketFree else InApplication))"
  unfolding socket_is_free_def
proof (rule obeys_bind_observe)
  fix v
  show "\<exists>ph'. listener_step L root app sock InApplication (LooksUp sock v) ph' \<and>
      obeys (listener_step L root app sock) ph' (give (case v of Found _ \<Rightarrow> Err (ExistingSocket sock) | NotFound \<Rightarrow> Ok ()
        | LookupFailed \<Rightarrow> Err (ListenerIo sock))) (\<lambda>r p. p = (if is_Ok r then SocketFree else InApplication))"
    by (cases v) (auto intro!: obeys_give listener_step.looks listener_step.finds_free)
qed

definition app_directory :: "string \<Rightarrow> string" where
  "app_directory root = path_join root APP_RUNTIME_DIRECTORY"

definition consent_socket_path :: "string \<Rightarrow> string" where
  "consent_socket_path root = path_join (app_directory root) SOCKET_FILE"

lemma bind_listener_obeys:
  "obeys (listener_step L root (app_directory root) (consent_socket_path root)) Opening (bind_listener L root)
     (opened (consent_socket_path root))"
proof -
  let ?app = "app_directory root" and ?sock = "consent_socket_path root"
  let ?step = "listener_step L root ?app ?sock"
  have known: "obeys ?step SocketBound (bind_action (look_up L ?sock) (\<lambda>m.
      finish_or_drop L \<lparr>lst_socket_path = ?sock, lst_socket_device = pm_dev m, lst_socket_inode = pm_ino m\<rparr>)) (opened ?sock)"
  proof (rule obeys_bind [where R = "\<lambda>r p. p = (case r of Ok m \<Rightarrow> SocketKnown (pm_dev m) (pm_ino m) | Err _ \<Rightarrow> SocketBound)"],
      rule obeys_look_up)
    fix v
    show "\<exists>p. ?step SocketBound (LooksUp ?sock v) p \<and>
      p = (case (case v of Found m \<Rightarrow> Ok m | _ \<Rightarrow> Err (ListenerIo ?sock)) of
        Ok m \<Rightarrow> SocketKnown (pm_dev m) (pm_ino m) | Err _ \<Rightarrow> SocketBound)"
      by (cases v) (auto intro: listener_step.looks listener_step.knows)
  qed (auto simp: finish_or_drop_obeys opened_def)
  have bound: "obeys ?step SocketFree (bind_action (ask (le_socket L)) (\<lambda>made.
     if \<not> made then give (Err ListenerSocket)
     else bind_action (observe (le_bind L) (\<lambda>_. BindsSocket ?sock)) (\<lambda>bound.
     if \<not> bound then give (Err ListenerSocket)
     else bind_action (look_up L ?sock) (\<lambda>m.
     finish_or_drop L \<lparr>lst_socket_path = ?sock, lst_socket_device = pm_dev m, lst_socket_inode = pm_ino m\<rparr>)))) (opened ?sock)"
    by (intro obeys_bind_ask obeys_if obeys_give obeys_bind_observe exI [of _ SocketBound] conjI listener_step.binds known)
      (simp_all add: opened_def)
  have in_app: "obeys ?step InRuntime (bind_action (prepare_app_directory L ?app) (\<lambda>_.
      bind_action (socket_is_free L ?sock) (\<lambda>_. bind_action (ask (le_socket L)) (\<lambda>made.
     if \<not> made then give (Err ListenerSocket)
     else bind_action (observe (le_bind L) (\<lambda>_. BindsSocket ?sock)) (\<lambda>bound.
     if \<not> bound then give (Err ListenerSocket)
     else bind_action (look_up L ?sock) (\<lambda>m.
     finish_or_drop L \<lparr>lst_socket_path = ?sock, lst_socket_device = pm_dev m, lst_socket_inode = pm_ino m\<rparr>)))))) (opened ?sock)"
    by (rule obeys_bind [OF prepare_app_directory_obeys], simp add: opened_def, simp, rule obeys_bind [OF socket_is_free_obeys])
      (auto simp: opened_def intro: bound)
  have enter: "obeys ?step Opening (validate_private_directory L root) (\<lambda>r p. p = (if is_Ok r then InRuntime else Opening))"
    by (rule validate_private_directory_obeys) (auto intro: listener_step.enters_root)
  show ?thesis unfolding bind_listener_def Let_def app_directory_def [symmetric] consent_socket_path_def [symmetric]
    by (rule obeys_bind [OF enter]) (auto simp: opened_def intro: in_app)
qed

section \<open>Connections do not share approvals\<close>

text \<open>A run of the loop is one protocol run for each outcome, from its start.\<close>

definition protocol_run :: "daemon_env \<Rightarrow> DaemonOutcome option \<Rightarrow> entry list \<Rightarrow> bool" where
  "protocol_run D outcome es \<longleftrightarrow> (\<exists>ph. follows (daemon_step D) (Reviewing []) es ph) \<and> reported outcome es"

lemma handle_connection_run:
  assumes "handle_connection D w = (outcome, w')"
  obtains es where "w_transcript w' = w_transcript w @ es" "protocol_run D outcome es"
  using handle_connection_follows [OF assms] unfolding protocol_run_def by metis

lemma serve_runs:
  assumes "serve D n w = (outcomes, w')"
  shows "\<exists>runs. w_transcript w' = w_transcript w @ concat runs \<and> list_all2 (protocol_run D) outcomes runs"
  using assms
proof (induction n arbitrary: w outcomes)
  case 0
  then show ?case by (intro exI [of _ "[]"]) simp
next
  case (Suc n)
  obtain outcome w1 where first: "handle_connection D w = (outcome, w1)" by fastforce
  obtain es where es: "w_transcript w1 = w_transcript w @ es" "protocol_run D outcome es"
    using handle_connection_run [OF first] .
  show ?case
  proof (cases outcome)
    case None
    with Suc.prems first es show ?thesis by (intro exI [of _ "[es]"]) auto
  next
    case (Some o1)
    with Suc.prems first obtain rest where rest: "serve D n w1 = (rest, w')" "outcomes = Some o1 # rest"
      by (auto split: prod.splits)
    from Suc.IH [OF rest(1)] obtain runs where
      "w_transcript w' = w_transcript w1 @ concat runs" "list_all2 (protocol_run D) rest runs" by blast
    with es rest Some show ?thesis by (intro exI [of _ "es # runs"]) auto
  qed
qed

lemma signs_only_approved_more: "signs_only_approved D None es \<Longrightarrow> signs_only_approved D pending es"
proof (induction es)
  case (Cons e es)
  then show ?case by (cases e) auto
qed simp

lemma signs_only_approved_append:
  "signs_only_approved D pending es \<Longrightarrow> signs_only_approved D None fs \<Longrightarrow> signs_only_approved D pending (es @ fs)"
proof (induction es arbitrary: pending)
  case Nil
  then show ?case by (simp add: signs_only_approved_more)
next
  case (Cons e es)
  then show ?case by (cases e) (auto split: option.splits)
qed

lemma protocol_run_approved: "protocol_run D outcome es \<Longrightarrow> signs_only_approved D None es"
  using follows_shape shape_approved signs_only_approved_acts unfolding protocol_run_def by blast

lemma serve_approved:
  assumes "list_all2 (protocol_run D) outcomes runs"
  shows "signs_only_approved D None (concat runs)"
  using assms
proof (induction rule: list_all2_induct)
  case (Cons outcome outcomes es runs)
  then show ?case by (auto intro: signs_only_approved_append protocol_run_approved)
qed simp

end
