(* ===== verification/Daemon_Answers.thy ===== *)
theory Daemon_Answers
  imports Daemon_Requests
begin

text \<open>
  The daemon ends: the only loop of a handler that the environment can keep from ending is the one that
  reads a sealed snapshot, so a connection has an outcome whenever those reads are not interrupted for ever.
\<close>

section \<open>Actions that end\<close>

definition ends :: "'a handler \<Rightarrow> bool" where
  "ends m \<longleftrightarrow> (\<forall>w. fst (m w) \<noteq> Err Blocks)"

named_theorems ends_rules \<open>that an action ends, from its parts\<close>

lemma ends_give [ends_rules]: "r \<noteq> Err Blocks \<Longrightarrow> ends (give r)"
  by (simp add: ends_def give_def)

lemma ends_bind [ends_rules]: "ends m \<Longrightarrow> (\<And>x. ends (f x)) \<Longrightarrow> ends (bind_action m f)"
  by (auto simp: ends_def bind_action_def split: prod.splits result.splits) (metis fst_conv)+

lemma ends_ask [ends_rules]: "ends (ask g)"
  by (simp add: ends_def ask_def)

lemma ends_observe [ends_rules]: "ends (observe g entry)"
  by (simp add: ends_def observe_def)

lemma ends_note [ends_rules]: "ends (note_event e)"
  by (simp add: ends_def note_event_def)

lemma ends_reject [ends_rules]: "ends (reject failure)"
  by (simp add: reject_def ends_give)

lemma ends_attempt [ends_rules]: "ends (attempt failure r)"
  by (cases r) (simp_all add: attempt_def ends_give)

lemma ends_if [ends_rules]: "ends a \<Longrightarrow> ends b \<Longrightarrow> ends (if c then a else b)"
  by simp

lemma ends_let [ends_rules]: "(\<And>x. ends (f x)) \<Longrightarrow> ends (let x = v in f x)"
  by simp

lemma ends_prod [ends_rules]: "(\<And>x y. ends (f x y)) \<Longrightarrow> ends (case v of (x, y) \<Rightarrow> f x y)"
  by (cases v) simp

lemma ends_option [ends_rules]: "ends a \<Longrightarrow> (\<And>x. ends (b x)) \<Longrightarrow> ends (case v of None \<Rightarrow> a | Some x \<Rightarrow> b x)"
  by (cases v) simp_all

lemma ends_lookup [ends_rules]:
  "(\<And>x. ends (f x)) \<Longrightarrow> ends a \<Longrightarrow> ends b \<Longrightarrow> ends (case v of Found x \<Rightarrow> f x | NotFound \<Rightarrow> a | LookupFailed \<Rightarrow> b)"
  by (cases v) simp_all

lemma ends_transition [ends_rules]:
  "(\<And>x. ends (f x)) \<Longrightarrow> (\<And>x. ends (g x)) \<Longrightarrow> (\<And>x. ends (h x)) \<Longrightarrow>
   ends (case t of RoutineProof x \<Rightarrow> f x | RecoveryProof x \<Rightarrow> g x | TerminalProof x \<Rightarrow> h x)"
  by (cases t) simp_all

lemma ends_map_err [ends_rules]: "ends (give (map_err Fails r))"
  by (cases r) (simp_all add: ends_give)

lemma ends_case_check [ends_rules]: "ends (give (case v of None \<Rightarrow> Ok x | Some failure \<Rightarrow> Err (Fails failure)))"
  by (cases v) (simp_all add: ends_give)

section \<open>The parts of the handlers\<close>

definition reads_end :: "daemon_env \<Rightarrow> bool" where
  "reads_end D \<longleftrightarrow> (\<forall>t a maximum. read_bytes_bounded a (de_read_calls D t) maximum \<noteq> None)"

lemma ends_now [ends_rules]: "ends (now_or D failure)"
  unfolding now_or_def by (intro ends_rules)

lemma ends_take_snapshot [ends_rules]: "ends (take_snapshot D input maximum)"
  unfolding take_snapshot_def by (intro ends_rules)

lemma ends_read_snapshot:
  assumes "reads_end D"
  shows "ends (read_snapshot D a maximum)"
  unfolding ends_def
proof
  fix w :: "entry world"
  obtain r where "read_bytes_bounded a (de_read_calls D (w_tick w)) maximum = Some r"
    using assms unfolding reads_end_def by blast
  then show "fst (read_snapshot D a maximum w) \<noteq> Err Blocks"
    by (cases r) (simp_all add: read_snapshot_def bind_action_def ask_def give_def attempt_def)
qed

lemma ends_check_connection [ends_rules]: "ends (check_connection interrupted)"
  unfolding check_connection_def by (intro ends_rules)

lemma ends_ask_signer [ends_rules]: "ends (ask_signer D persona_id)"
  unfolding ask_signer_def by (intro ends_rules)

lemma ends_same_signer [ends_rules]: "ends (same_signer D persona_id signer)"
  unfolding same_signer_def by (intro ends_rules) simp

lemma ends_ask_snapshot [ends_rules]: "ends (ask_snapshot D persona_id)"
  unfolding ask_snapshot_def by (intro ends_rules)

lemma ends_decide [ends_rules]: "ends (decide D prompt)"
  unfolding decide_def by (intro ends_rules) (simp split: result.split ApprovalDecision.split)

lemma ends_sealed_proof [ends_rules]: "ends (sealed_proof D pf)"
  unfolding sealed_proof_def by (intro ends_rules)

lemma ends_prepare_request:
  assumes "reads_end D"
  shows "ends (prepare_request D subject snapshot signer)"
  unfolding prepare_request_def
  by (cases subject; simp only: SignSubject.case; intro ends_rules ends_read_snapshot [OF assms]; simp)

lemma ends_sign_prepared [ends_rules]: "ends (sign_prepared_request D prepared signer)"
  unfolding sign_prepared_request_def
  by (cases prepared; simp only: PreparedRequest.case; intro ends_rules; simp)

lemma ends_record_root [ends_rules]: "ends (record_root D interrupted persona_id pf subject)"
  unfolding record_root_def
  by (cases pf; cases subject; simp only: prod.case SignedProof.case ApprovedSubject.case; intro ends_rules; simp)

lemma ends_process_persona_request: "reads_end D \<Longrightarrow> ends (process_persona_request D interrupted request_uuid request input peer)"
  unfolding process_persona_request_def by (intro ends_rules ends_prepare_request) simp_all

lemma ends_retry_locator_matches [ends_rules]: "ends (retry_locator_matches D path stored)"
  unfolding retry_locator_matches_def by (intro ends_rules) simp_all

lemma ends_exact_transition_retry [ends_rules]: "ends (exact_transition_retry D snapshot request key fingerprint)"
  unfolding exact_transition_retry_def by (intro ends_rules) simp_all

lemma ends_ask_candidate [ends_rules]: "ends (ask_candidate D request key)"
  unfolding ask_candidate_def by (intro ends_rules)

lemma ends_next_key: "reads_end D \<Longrightarrow> ends (next_key D input)"
  unfolding next_key_def by (intro ends_rules ends_read_snapshot) simp_all

lemma ends_review_transition [ends_rules]: "ends (review_transition D request key fingerprint continuity)"
  unfolding review_transition_def by (intro ends_rules) simp_all

lemma ends_recheck_transition [ends_rules]: "ends (recheck_transition D request key continuity v)"
  unfolding recheck_transition_def by (intro ends_rules) simp_all

lemma ends_extended_tip [ends_rules]: "ends (extended_tip D previous chain)"
  unfolding extended_tip_def by (intro ends_rules) simp_all

lemma ends_verify_new_transition [ends_rules]: "ends (verify_new_transition D pf statement review previous)"
  unfolding verify_new_transition_def by (intro ends_rules) simp_all

lemma ends_commit_transition [ends_rules]: "ends (commit_transition D persona_id pf review candidate)"
  unfolding commit_transition_def by (intro ends_rules) simp_all

lemma ends_process_persona_transition: "reads_end D \<Longrightarrow> ends (process_persona_transition D interrupted request_uuid request input peer)"
  unfolding process_persona_transition_def by (intro ends_rules ends_next_key) simp_all

lemma ends_lookup_metadata [ends_rules]: "ends (lookup_metadata D path)"
  unfolding lookup_metadata_def by (intro ends_rules)

lemma ends_validate_signing_reference [ends_rules]: "ends (validate_signing_reference D participant)"
  unfolding validate_signing_reference_def by (intro ends_rules) simp_all

lemma ends_same_signing_reference [ends_rules]: "ends (same_signing_reference D participant identity)"
  by (auto simp: ends_def same_signing_reference_def split: prod.split result.split)

lemma ends_review_participation [ends_rules]: "ends (review_participation D participant request now)"
  unfolding review_participation_def by (intro ends_rules) simp_all

lemma ends_process_recovery_participation:
  "reads_end D \<Longrightarrow> ends (process_recovery_participation D interrupted request_uuid request input peer)"
  unfolding process_recovery_participation_def by (intro ends_rules ends_read_snapshot) simp_all

section \<open>Connections\<close>

lemma ends_process_subject: "reads_end D \<Longrightarrow> ends (process_subject D interrupted request_uuid request input peer)"
  unfolding process_subject_def
  by (cases "sr_subject request")
    (simp_all add: ends_process_persona_request ends_process_persona_transition ends_process_recovery_participation)

lemma process_received_request_inner_ends:
  assumes "reads_end D"
  shows "fst (process_received_request_inner D interrupted received w) \<noteq> None"
proof -
  let ?m = "process_subject D interrupted (de_new_v4 D (w_tick w)) (rq_request received) (rq_input received) (rq_peer received)
    (w\<lparr>w_tick := w_tick w + 1\<rparr>)"
  have "fst ?m \<noteq> Err Blocks" using ends_process_subject [OF assms] unfolding ends_def by blast
  then have "to_outcome request_id (fst ?m) \<noteq> None" for request_id
    by (simp add: to_outcome_def split: result.split stop.split prod.split)
  then show ?thesis by (simp add: process_received_request_inner_def Let_def case_prod_beta)
qed

lemma answer_approved_ends: "fst (answer_approved D request_id fingerprint subject sealed w) \<noteq> None"
  by (simp add: answer_approved_def split: prod.split option.split bool.split)

lemma handle_connection_ends:
  assumes "reads_end D"
  shows "fst (handle_connection D w) \<noteq> None"
proof -
  obtain v w1 where look: "look D (w\<lparr>w_tick := w_tick w + 1\<rparr>) = (v, w1)" by fastforce
  have inner: "fst (process_received_request_inner D (connection_failure \<circ> de_peek D) received w1) \<noteq> None" for received
    by (rule process_received_request_inner_ends [OF assms])
  show ?thesis
  proof (cases "receive_sign_request (de_wire D) (de_euid D) (de_credentials D (w_tick w)) (de_recv D (w_tick w))")
    case (Ok received)
    obtain o2 w2 where "process_received_request_inner D (connection_failure \<circ> de_peek D) received w1 = (Some o2, w2)"
      using inner [of received] by (cases "process_received_request_inner D (connection_failure \<circ> de_peek D) received w1") auto
    with Ok look show ?thesis
      by (cases v; cases o2) (simp_all add: handle_connection_def answer_approved_ends)
  qed (simp add: handle_connection_def)
qed

end
