(* ===== verification/Daemon_Properties.thy ===== *)
theory Daemon_Properties
  imports Listener Daemon_Answers
begin

text \<open>
  What the daemon guarantees to its user, for every sequence of connections and whatever the store, the
  consent process, the clock, the file system and the clients answer.
\<close>

section \<open>Approvals and signatures\<close>

lemma connection_follows:
  obtains es ph where "w_transcript (snd (handle_connection D w)) = w_transcript w @ es" "follows (daemon_step D) (Reviewing []) es ph"
    "reported (fst (handle_connection D w)) es" "\<And>c. ph \<noteq> Refused c"
  by (rule handle_connection_follows [of D w "fst (handle_connection D w)" "snd (handle_connection D w)"]) auto

lemma list_all2_right: "list_all2 P xs ys \<Longrightarrow> (\<And>x y. P x y \<Longrightarrow> Q y) \<Longrightarrow> list_all Q ys"
  by (induction rule: list_all2_induct) auto


text \<open>
  C2. Nothing is signed without approval: in the transcript of any number of connections each signature
  follows an approval whose prompt displays what is signed, and uses it up. An approval is never used
  twice, nor for something else, nor for another connection.
\<close>

theorem daemon_signs_only_approved:
  "\<exists>runs. w_transcript (snd (serve D n w)) = w_transcript w @ concat runs
     \<and> list_all (signs_only_approved D None) runs \<and> signs_only_approved D None (concat runs)"
proof -
  obtain runs where t: "w_transcript (snd (serve D n w)) = w_transcript w @ concat runs"
    and runs: "list_all2 (protocol_run D) (fst (serve D n w)) runs"
    using serve_runs [of D n w "fst (serve D n w)" "snd (serve D n w)"] by auto
  have "list_all (signs_only_approved D None) runs"
    using list_all2_right [OF runs] protocol_run_approved by blast
  with t serve_approved [OF runs] show ?thesis by blast
qed

text \<open>Every proof that is sent was released as it should be.\<close>

definition releases_properly :: "daemon_env \<Rightarrow> entry list \<Rightarrow> bool" where
  "releases_properly D es \<longleftrightarrow>
     list_all (\<lambda>e. case e of SendsApproved sealed \<Rightarrow> released_properly D es sealed | _ \<Rightarrow> True) es"

lemma follows_releases:
  assumes "follows (daemon_step D) (Reviewing []) es ph"
  shows "releases_properly D es"
proof -
  have "released_properly D es sealed" if "SendsApproved sealed \<in> set es" for sealed
  proof -
    have "ph = Answered" using follows_answer [OF assms] that by (auto simp: list_all_iff split: if_splits)
    then have es: "es \<noteq> []" "answer (last es)" "list_all (\<lambda>e. \<not> answer e) (butlast es)"
      using follows_answer [OF assms] by auto
    have "SendsApproved sealed \<notin> set (butlast es)" using es(3) by (auto simp: list_all_iff)
    with that es(1) have "last es = SendsApproved sealed"
      by (metis append_butlast_last_id rotate1.simps(2) set_ConsD set_rotate1)
    then have "es = butlast es @ [SendsApproved sealed]" using es(1) by (metis append_butlast_last_id)
    with follows_released [of D "butlast es" sealed ph] assms show ?thesis by simp
  qed
  then show ?thesis by (auto simp: releases_properly_def list_all_iff split: entry.split)
qed


text \<open>After an answer of the user other than approval nothing happens but the report of it.\<close>

definition refusal_ends :: "entry list \<Rightarrow> bool" where
  "refusal_ends es \<longleftrightarrow>
     list_all (\<lambda>e. case e of Decided prompt v \<Rightarrow> v = Ok Approve \<or> acts es = [Decided prompt v, SendsRejected (refusal_code v)]
       | _ \<Rightarrow> True) es"

lemma shape_decided:
  assumes "shape D ph (acts es)" "Decided prompt v \<in> set es" "v \<noteq> Ok Approve" "\<And>c. ph \<noteq> Refused c"
  shows "acts es = [Decided prompt v, SendsRejected (refusal_code v)]"
proof -
  have d: "Decided prompt v \<in> set (acts es)" using assms(2) by (auto intro: acts_set)
  show ?thesis
  proof (cases "ph = Answered")
    case False
    with assms(1, 3, 4) d show ?thesis by (cases ph) (auto simp: shape_def dest!: stores_entry)
  next
    case True
    with assms(1) obtain q fs e where fs: "open_shape D q fs" "acts es = fs @ [e]" "answer e" "daemon_step D q e Answered"
      by (auto simp: shape_def)
    have "Decided prompt v \<in> set fs" using d fs answer_entry [OF fs(3)] by auto
    with fs(1) assms(3) obtain c where q: "q = Refused c" "c = refusal_code v" "fs = [Decided prompt v]"
      by (cases q) (auto dest!: stores_entry)
    from fs(4) have "e = SendsRejected c"
      using fs(3) unfolding q(1) by (auto elim!: daemon_step.cases simp: may_answer_def dest: question_not_answer)
    with q fs(2) show ?thesis by simp
  qed
qed

text \<open>
  C5. A prompt that is declined, cancelled or not answered ends its request: nothing is signed, stored or
  released, and the client is told the code that stands for that answer.
\<close>

theorem refusal_is_reported:
  "\<exists>es. w_transcript (snd (handle_connection D w)) = w_transcript w @ es \<and> refusal_ends es"
proof -
  obtain es ph where t: "w_transcript (snd (handle_connection D w)) = w_transcript w @ es"
    and f: "follows (daemon_step D) (Reviewing []) es ph" and ph: "\<And>c. ph \<noteq> Refused c"
    by (rule connection_follows [of D w]) blast
  have "refusal_ends es"
    using shape_decided [OF follows_shape [OF f] _ _ ph] by (auto simp: refusal_ends_def list_all_iff split: entry.split)
  with t show ?thesis by blast
qed

section \<open>Every connection ends\<close>

lemma serve_ends: "reads_end D \<Longrightarrow> length (fst (serve D n w)) = n \<and> None \<notin> set (fst (serve D n w))"
proof (induction n arbitrary: w)
  case (Suc n)
  obtain o1 w1 where "handle_connection D w = (Some o1, w1)"
    using handle_connection_ends [OF Suc.prems, of w] by (cases "handle_connection D w") auto
  with Suc.IH [OF Suc.prems, of w1] show ?case by (simp add: case_prod_beta)
qed simp


section \<open>Approved artifacts are signed\<close>

text \<open>An environment in which nothing goes wrong for one artifact request: every answer is the good one.\<close>

definition serves_artifact ::
  "daemon_env \<Rightarrow> SignRequest \<Rightarrow> ArtifactKind \<Rightarrow> string \<Rightarrow> ActiveSigner \<Rightarrow> SealedArtifact \<Rightarrow> ProofBundle \<Rightarrow> SealedProof \<Rightarrow> bool" where
  "serves_artifact D request kind label signer snapshot bundle sealed \<longleftrightarrow>
     (\<exists>input peer persona_id bs. sr_subject request = SubjectArtifact kind label \<and> sr_persona_id request = Some persona_id
        \<and> (\<forall>t. receive_sign_request (de_wire D) (de_euid D) (de_credentials D t) (de_recv D t)
              = Ok \<lparr>rq_request = request, rq_input = input, rq_peer = peer\<rparr>)
        \<and> (\<forall>t. connection_failure (de_peek D t) = None) \<and> (\<forall>t. de_active_signer D t persona_id = Ok signer)
        \<and> (\<forall>t. snapshot_artifact (de_artifact D) input (de_memfd D t) MAX_ARTIFACT_BYTES = Ok snapshot)
        \<and> (\<forall>t. is_Ok (approval_prompt D (de_new_v4 D t) (PreparedArtifact (sa_descriptor snapshot) kind label) peer signer))
        \<and> (\<forall>t prompt. de_decide D t prompt = Ok Approve)
        \<and> made D (SignsArtifact (sa_descriptor snapshot) signer) (SignedBundle bundle)
        \<and> bundle_to_json_pretty (de_artifact D) bundle = Ok bs
        \<and> (\<forall>t. seal_proof_bytes (de_memfd D t) (bs @ [0x0a]) = Ok sealed)
        \<and> (\<forall>t. is_Ok (send_sign_approved (de_proof_file D t sealed) (de_pushed D t) (de_sent D t))))"

text \<open>
  C16. When the client stays, the signer stays the same, the user approves and the signing and sending
  succeed, an artifact request is approved: the client is sent the proof of the snapshot that was shown.
\<close>

theorem approved_artifact_is_signed:
  assumes "serves_artifact D request kind label signer snapshot bundle sealed"
  shows "\<exists>prompt. fst (handle_connection D w) = Some (OutcomeApproved (uuid_to_string (de_wire D) (de_new_v4 D (w_tick w + 2)))
        (key_fingerprint (asg_key signer)) (ApprovedArtifact (sa_descriptor snapshot)) sealed)
    \<and> carries D (SignsArtifact (sa_descriptor snapshot) signer) sealed
    \<and> displays D prompt (SignsArtifact (sa_descriptor snapshot) signer)
    \<and> (\<exists>es. w_transcript (snd (handle_connection D w)) = w_transcript w @ es
        \<and> acts es = [Decided prompt (Ok Approve), Signed (SignsArtifact (sa_descriptor snapshot) signer), SendsApproved sealed])"
proof -
  from assms obtain input peer persona_id bs where facts: "sr_subject request = SubjectArtifact kind label"
    "sr_persona_id request = Some persona_id"
    "\<And>t. receive_sign_request (de_wire D) (de_euid D) (de_credentials D t) (de_recv D t)
        = Ok \<lparr>rq_request = request, rq_input = input, rq_peer = peer\<rparr>"
    "\<And>t. connection_failure (de_peek D t) = None" "\<And>t. de_active_signer D t persona_id = Ok signer"
    "\<And>t. snapshot_artifact (de_artifact D) input (de_memfd D t) MAX_ARTIFACT_BYTES = Ok snapshot"
    "\<And>t prompt. de_decide D t prompt = Ok Approve" "bundle_to_json_pretty (de_artifact D) bundle = Ok bs"
    "\<And>t. seal_proof_bytes (de_memfd D t) (bs @ [0x0a]) = Ok sealed"
    "\<And>t. is_Ok (send_sign_approved (de_proof_file D t sealed) (de_pushed D t) (de_sent D t))"
    and prompts: "\<And>t. is_Ok (approval_prompt D (de_new_v4 D t) (PreparedArtifact (sa_descriptor snapshot) kind label) peer signer)"
    and made: "made D (SignsArtifact (sa_descriptor snapshot) signer) (SignedBundle bundle)"
    unfolding serves_artifact_def by blast
  obtain prompt where prompt: "approval_prompt D (de_new_v4 D (w_tick w + 2)) (PreparedArtifact (sa_descriptor snapshot) kind label)
      peer signer = Ok prompt" using prompts by (auto simp: is_Ok_iff)
  have seals: "seals D (SignedBundle bundle) sealed"
    using facts(8) seal_proof_bytes_Ok [OF facts(9)] by (simp add: seals_def)
  note defs = handle_connection_def look_def Let_def process_received_request_inner_def process_subject_def
    process_persona_request_def bind_action_def attempt_def ask_signer_def observe_def take_snapshot_def ask_def give_def
    prepare_request_def check_connection_def decide_def same_signer_def sign_prepared_request_def note_event_def record_root_def
    sealed_proof_def to_outcome_def answer_approved_def tell_approved_def subject_maximum_def
  let ?s = "SignsArtifact (sa_descriptor snapshot) signer"
  have created: "create_sshsig_proof_for_descriptor (de_artifact D) (sa_descriptor snapshot) (signer_locator signer)
      (signer_key signer) (signer_label signer) = Ok bundle" using made by (simp add: made_def)
  have "w_transcript (snd (handle_connection D w)) = w_transcript w @ [Checked None, AskedSigner persona_id (Ok signer), Checked None,
      Decided prompt (Ok Approve), Checked None, AskedSigner persona_id (Ok signer), Signed ?s, AskedSigner persona_id (Ok signer),
      Checked None, SendsApproved sealed]"
    using facts prompt created by (simp add: defs)
  moreover have "fst (handle_connection D w) = Some (OutcomeApproved (uuid_to_string (de_wire D) (de_new_v4 D (w_tick w + 2)))
        (key_fingerprint (asg_key signer)) (ApprovedArtifact (sa_descriptor snapshot)) sealed)"
    using facts prompt created by (simp add: defs)
  moreover have "displays D prompt ?s" using approval_prompt_displays [OF prompt] by (simp add: prepared_ok_def)
  ultimately show ?thesis
    using carries_made [OF made seals] by (intro exI [of _ prompt] conjI exI) (auto simp: acts_def)
qed

section \<open>The socket\<close>


end
