(* ===== verification/Daemon_Example.thy ===== *)
theory Daemon_Example
  imports Core_Properties Domain_Properties Protocol_Properties Daemon_Properties
begin

text \<open>
  A daemon that serves one artifact request: the persona of the other examples signs a file of two bytes.
\<close>

definition example_signer :: ActiveSigner where
  "example_signer =
     \<lparr>asg_persona = \<lparr>per_id = demo_uuid_text 5, per_label = ''p'', per_purpose = Personal, per_created_at = 0, per_archived_at = None\<rparr>,
      asg_key = \<lparr>key_fingerprint = demo_fingerprint, key_persona_id = demo_uuid_text 5, key_public_key = demo_key (CHR ''0''),
        key_provider = OpensshFile, key_status = KeyActive, key_added_at = 0, key_retired_at = None, key_compromised_at = None\<rparr>,
      asg_signing_reference = \<lparr>sref_key_fingerprint = demo_fingerprint, sref_locator = demo_key (CHR ''0''), sref_configured_at = 0\<rparr>\<rparr>"

definition example_input :: SourceFile where
  "example_input = \<lparr>sf_metadata = Some (True, 2), sf_read_at = (\<lambda>offset limit. Some (take limit (drop offset [7, 7]))), sf_seals = None\<rparr>"

definition example_request :: SignRequest where
  "example_request = \<lparr>sr_persona_id = Some (demo_uuid_text 5), sr_subject = SubjectArtifact GenericArtifact ''file''\<rparr>"

definition example_packet :: RecvMsg where
  "example_packet =
     (let m = ok_value (encode_sign_request demo_wire example_request)
      in \<lparr>rm_packet = m, rm_length = length m, rm_trunc = False, rm_ctrunc = False, rm_ancillary = [ScmRights [example_input]]\<rparr>)"

definition example_sealed :: SealedProof where
  "example_sealed = \<lparr>sp_bytes = [9, 10], sp_size = 2\<rparr>"

definition example_daemon :: daemon_env where
  "example_daemon =
     \<lparr>de_artifact = demo_artifact_ext, de_domain = demo_domain_ext, de_core = demo_ext, de_wire = demo_wire,
      de_root_to_json_pretty = (\<lambda>_. Ok []), de_transition_to_json_pretty = (\<lambda>_. Ok []), de_euid = 1000,
      de_credentials = (\<lambda>_. Some \<lparr>pc_pid = 9, pc_uid = 1000, pc_gid = 1000\<rparr>), de_recv = (\<lambda>_. Some example_packet),
      de_peek = (\<lambda>_. PeekAgain), de_new_v4 = (\<lambda>_. 7), de_clock = (\<lambda>_. Some 1500), de_memfd = (\<lambda>_. demo_memfd),
      de_read_calls = (\<lambda>_. [ReadFails]),
      de_proof_file = (\<lambda>_ sealed. \<lparr>sf_metadata = Some (True, length (sp_bytes sealed)), sf_read_at = (\<lambda>_ _. None), sf_seals = Some SNAPSHOT_SEALS\<rparr>),
      de_pushed = (\<lambda>_. True), de_sent = (\<lambda>_. Some (length (encode_sign_response Approved))),
      de_symlink_metadata = (\<lambda>_ _. NotFound), de_canonicalize = (\<lambda>_ _. None), de_decide = (\<lambda>_ _. Ok Approve),
      de_active_signer = (\<lambda>_ _. Ok example_signer), de_continuity = (\<lambda>_ _. Err (PersonaNotFound [])),
      de_candidate = (\<lambda>_ _ _ _ _. Err (PersonaNotFound [])), de_retry_metadata = (\<lambda>_ _. Ok None),
      de_record_root = (\<lambda>_ _ _ _. Err (PersonaNotFound [])), de_commit = (\<lambda>_ _ _ _ _. Err (PersonaNotFound []))\<rparr>"

lemma example_request_valid: "validate_request demo_wire example_request = Ok ()"
proof -
  have "validate_artifact_label ''file'' = Ok ()"
    using terminal_safe_trim [of "''file''"] terminal_safe_display [of "''file''"]
    by (simp add: validate_artifact_label_def terminal_safe_def ipc_sizes)
  then show ?thesis
    by (simp add: validate_request_def validate_persona_id_def example_request_def demo_wire_def demo_uuid_text_shape ipc_sizes)
qed

lemma example_request_message:
  obtains m where "encode_sign_request demo_wire example_request = Ok m" "decode_sign_request demo_wire m = Ok example_request"
    "length m \<le> MAX_REQUEST_PACKET_BYTES"
proof -
  have "\<exists>m. encode_sign_request demo_wire example_request = Ok m"
    unfolding encode_sign_request_def example_request_valid
    by (simp add: example_request_def encode_artifact_sign_request_def required_persona_id_def usize_checked_add_def
        demo_uuid_text_shape ipc_sizes)
  then obtain m where m: "encode_sign_request demo_wire example_request = Ok m" ..
  have "is_utf8 ''file''" by (rule terminal_safe_is_utf8) (simp add: terminal_safe_def)
  with m have dec: "decode_sign_request demo_wire m = Ok example_request"
    by (simp add: decode_sign_request_iff sign_request_typed_def example_request_def demo_uuid_text_shape)
  from ipc_requests.accepted_bounded [OF dec] have "length m \<le> MAX_REQUEST_PACKET_BYTES"
    by (auto simp: request_limit_def ipc_sizes MAX_REQUEST_PACKET_BYTES_def split: if_splits)
  with m dec that show thesis by blast
qed

lemma example_received:
  "receive_sign_request demo_wire 1000 (Some \<lparr>pc_pid = 9, pc_uid = 1000, pc_gid = 1000\<rparr>) (Some example_packet)
     = Ok \<lparr>rq_request = example_request, rq_input = example_input, rq_peer = \<lparr>pc_pid = 9, pc_uid = 1000, pc_gid = 1000\<rparr>\<rparr>"
proof -
  obtain m where m: "encode_sign_request demo_wire example_request = Ok m" "decode_sign_request demo_wire m = Ok example_request"
    "length m \<le> MAX_REQUEST_PACKET_BYTES" by (rule example_request_message)
  then show ?thesis
    by (simp add: receive_sign_request_def receive_sign_request_from_peer_def example_packet_def validate_received_packet_def)
      (simp add: example_request_def)
qed

lemma example_snapshot:
  "snapshot_artifact demo_artifact_ext example_input demo_memfd MAX_ARTIFACT_BYTES
     = Ok \<lparr>sa_bytes = [7, 7], sa_descriptor = demo_artifact\<rparr>"
proof -
  have "stable_file example_input [7, 7]"
    unfolding stable_file_def example_input_def by (intro allI, rule_tac x = limit in exI) simp
  then have "snapshot_loop example_input demo_memfd MAX_ARTIFACT_BYTES [] = Ok [7, 7]"
    using snapshot_loop_stable [of example_input "[7, 7]" demo_memfd "[]" MAX_ARTIFACT_BYTES]
    by (simp add: demo_memfd_def MAX_ARTIFACT_BYTES_def)
  moreover have "artifact_descriptor demo_artifact_ext [7, 7] 2 = demo_artifact"
    by (simp add: demo_artifact_def artifact_descriptor_def sha256_hex_def demo_artifact_ext_def)
  ultimately show ?thesis
    by (simp add: snapshot_artifact_def finish_snapshot_def apply_and_verify_seals_def example_input_def demo_memfd_def MAX_ARTIFACT_BYTES_def)
qed

lemma encode_sha256_hex: "encode_sha256 digest = hex_encode digest"
proof -
  have "''0123456789abcdef'' ! n = hex_digit n" if "n < 16" for n
    using less_16_cases [OF that] by (auto simp: hex_digit_def)
  moreover have "unat (drop_bit 4 b) = unat b div 16" "unat (b AND 0x0f) = unat b mod 16" for b :: byte
  proof -
    have "b AND 0x0f = take_bit 4 b" by (simp add: take_bit_eq_mask mask_eq_exp_minus_1)
    then show "unat (b AND 0x0f) = unat b mod 16" by (simp add: take_bit_eq_mod unat_mod)
    show "unat (drop_bit 4 b) = unat b div 16" by (simp add: drop_bit_eq_div unat_div)
  qed
  ultimately show ?thesis
    using nibble_less by (simp add: encode_sha256_def hex_encode_def hex_byte_def [abs_def])
qed

lemma example_prompt:
  "is_Ok (approval_prompt example_daemon 7 (PreparedArtifact demo_artifact GenericArtifact ''file'')
     \<lparr>pc_pid = 9, pc_uid = 1000, pc_gid = 1000\<rparr> example_signer)"
proof -
  have digest: "decode_sha256 (digest_value (ad_digest demo_artifact)) = Ok (demo_sha256 [7, 7])"
    using decode_encode_sha256 [of "demo_sha256 [7, 7]"]
    by (simp add: encode_sha256_hex demo_artifact_def artifact_descriptor_def sha256_hex_def)
  have "uuid_parse_str demo_wire (demo_uuid_text 5) = Some 5" by (simp add: demo_wire_def)
  with digest demo_prompt_valid [of "demo_sha256 [7, 7]" "ad_size demo_artifact"] show ?thesis
    by (simp add: approval_prompt_def example_daemon_def example_signer_def peer_identity_def prompt_new_def new_with_subject_def Let_def
        demo_prompt_of_def)
qed

lemma example_serves:
  "serves_artifact example_daemon example_request GenericArtifact ''file'' example_signer
     \<lparr>sa_bytes = [7, 7], sa_descriptor = demo_artifact\<rparr> demo_bundle example_sealed"
proof -
  have fields: "de_wire example_daemon = demo_wire" "de_euid example_daemon = 1000" "de_artifact example_daemon = demo_artifact_ext"
    "de_memfd example_daemon t = demo_memfd" "de_new_v4 example_daemon t = 7" "de_peek example_daemon t = PeekAgain"
    "de_recv example_daemon t = Some example_packet" "de_decide example_daemon t prompt = Ok Approve"
    "de_credentials example_daemon t = Some \<lparr>pc_pid = 9, pc_uid = 1000, pc_gid = 1000\<rparr>"
    "de_active_signer example_daemon t persona_id = Ok example_signer" for t prompt persona_id
    by (simp_all add: example_daemon_def)
  have "bundle_to_json_pretty demo_artifact_ext demo_bundle = Ok [9]" by (simp add: demo_artifact_ext_def demo_to_def)
  moreover have "made example_daemon (SignsArtifact demo_artifact example_signer) (SignedBundle demo_bundle)"
    using demo_artifact_created by (simp add: made_def fields example_signer_def)
  moreover have "seal_proof_bytes demo_memfd [9, 10] = Ok example_sealed"
    by (simp add: seal_proof_bytes_def demo_memfd_def apply_and_verify_seals_def example_sealed_def MAX_PROOF_BYTES_def)
  moreover have "is_Ok (send_sign_approved (de_proof_file example_daemon t example_sealed) (de_pushed example_daemon t) (de_sent example_daemon t))" for t
    by (simp add: send_sign_approved_def send_packet_with_descriptor_def validate_proof_file_def example_daemon_def example_sealed_def
        MAX_PROOF_BYTES_def)
  moreover have "sr_subject example_request = SubjectArtifact GenericArtifact ''file''"
    "sr_persona_id example_request = Some (demo_uuid_text 5)" by (simp_all add: example_request_def)
  ultimately show ?thesis
    unfolding serves_artifact_def
    by (intro exI [of _ example_input] exI [of _ "\<lparr>pc_pid = 9, pc_uid = 1000, pc_gid = 1000\<rparr>"] exI [of _ "demo_uuid_text 5"] exI [of _ "[9]"])
      (simp add: fields example_received example_snapshot example_prompt connection_failure_def connection_state_def)
qed

section \<open>The guarantees in the example\<close>

lemma example_reads_end: "reads_end example_daemon"
proof -
  have "read_bytes_bounded a (de_read_calls example_daemon t) maximum \<noteq> None" for a t maximum
    by (simp add: read_bytes_bounded_def Let_def example_daemon_def read_sealed.simps [of _ _ "[ReadFails]"])
  then show ?thesis by (simp add: reads_end_def)
qed


theorem approved_artifact_is_signed_witness:
  "fst (handle_connection example_daemon \<lparr>w_tick = 0, w_transcript = []\<rparr>)
     = Some (OutcomeApproved (demo_uuid_text 7) demo_fingerprint (ApprovedArtifact demo_artifact) example_sealed)"
proof -
  have "uuid_to_string (de_wire example_daemon) (de_new_v4 example_daemon t) = demo_uuid_text 7" for t
    by (simp add: example_daemon_def demo_wire_def)
  moreover have "key_fingerprint (asg_key example_signer) = demo_fingerprint" by (simp add: example_signer_def)
  ultimately show ?thesis
    using approved_artifact_is_signed [OF example_serves, of "\<lparr>w_tick = 0, w_transcript = []\<rparr>"] by auto
qed

end
