(* ===== verification/Spec2Isabelle.thy ===== *)
theory Spec2Isabelle
  imports Core_Properties Recovery_Properties Ceremony_Properties Domain_Properties Distribution_Properties
    Daemon_Example
begin

text \<open>
  \<^bold>\<open>A verification of the core of a-quo\<close>

  a-quo binds artifacts, domains and key changes to a \<^emph>\<open>persona\<close>. A persona starts with a self-signed root
  statement. Routine transitions, signed by the old and the new key, move its online key. A recovery policy
  names offline authorities; a threshold of them can recover the persona to a new key or end it with a
  terminal revocation. Every statement is canonical JSON, signed with SSHSIG by \<^verbatim>\<open>ssh-keygen\<close>, and a verifier
  replays the whole history against digests that it pinned earlier. Authorities that are not in one place
  sign a recovery in a ceremony, by portable requests and responses. Artifact proofs, live signer bindings
  and domain control proofs are signed by the keys of personas; root cards and pins carry a root to a
  verifier.

  \<^bold>\<open>How the model is built\<close>

  Code that is not in the repository is a parameter. The records \<open>ext\<close>, \<open>artifact_ext\<close>, \<open>domain_ext\<close>,
  \<open>continuity_ext\<close>, \<open>distribution_ext\<close>, \<open>policy_ext\<close>, \<open>recovery_ext\<close>, \<open>chain_ext\<close> and \<open>ceremony_ext\<close>, each an extension of
  an earlier one, hold base64, SHA-256, the OpenSSH key and signature parsers, the signature check, the
  child process that signs, the JSON codecs, and the IDNA conversion. What a theorem needs of them is a named
  hypothesis: that codecs read back what they write (\<open>continuity_codecs\<close>, \<open>recovery_codecs\<close>, \<open>artifact_codecs\<close>,
  \<open>domain_codecs\<close>, \<open>distribution_codecs\<close>), that a conversion leaves its results unchanged (\<open>idna_stable\<close>), or
  that a digest does not collide on the payloads at hand (\<open>inj_on\<close>). The theory \<open>Demo\<close> gives a concrete
  environment that meets them and a persona in it, and each theorem with a hypothesis is applied there.

  Fallible functions return \<open>('a, 'e) result\<close> with the errors of the source as constructors, so each early
  return is a branch. Strings are their UTF-8 bytes; \<open>u32\<close> and \<open>u64\<close> are words, with the checked arithmetic of
  the source; \<open>i64\<close> is an integer, and the places where a difference is computed check or prove the range;
  \<open>usize\<close> is a natural number with checked addition at \<open>2\<^sup>6\<^sup>4\<close>. Files and locators are values that state what
  each read returns. Loops over input are folds of a step function with early exit; the loop that waits for
  the signer is a function whose termination is proved from its deadline, so no fuel is used anywhere.

  \<^bold>\<open>Theories and sources\<close> (under \<^verbatim>\<open>src/crates/\<close>)

  \<^item> \<open>Prelude\<close>: results, folds with early exit, the locale \<open>loop_invariant\<close>. \<open>Rust_Std\<close>: the parts of the
    Rust standard library that the code uses, with lemmas (hex, UTF-8, trimming, binary search, integers).
  \<^item> \<open>Display\<close> (\<^verbatim>\<open>a-quo-display\<close>): escaping of untrusted text. \<open>Errors\<close>: \<^verbatim>\<open>ProofError\<close> and its messages.
  \<^item> \<open>Signing\<close> and \<open>Artifact\<close> (\<^verbatim>\<open>a-quo-core/src/lib.rs\<close>): public keys, fingerprints, the RSA profile, signing through
    a child process with a deadline; artifact descriptors and proof bundles, live signer bindings, files.
  \<^item> \<open>Continuity\<close> (\<^verbatim>\<open>continuity.rs\<close>): roots, routine transitions, their proofs, reviews, chains and extensions.
  \<^item> \<open>Recovery_Policy\<close>, \<open>Recovery_Transition\<close>, \<open>Recovery_Chain\<close> (\<^verbatim>\<open>recovery.rs\<close>): policies and threshold signatures,
    recoveries and terminal revocations, and chains with all three kinds of entries.
  \<^item> \<open>Recovery_Ceremony\<close> (\<^verbatim>\<open>recovery_ceremony.rs\<close>): requests, reviews, responses, assembly.
  \<^item> \<open>Root_Distribution\<close> (\<^verbatim>\<open>root_distribution.rs\<close>): cards, pins, pin URIs, comparison reports.
  \<^item> \<open>Domain_Control\<close> (\<^verbatim>\<open>domain.rs\<close>, \<^verbatim>\<open>a-quo-domain/src/lib.rs\<close>): domain names, proofs, live DNS evaluation.
  \<^item> \<open>History\<close>: the abstract machine of a persona (a head, and the events that advance it) with the locales
    \<open>chain_refinement\<close> and \<open>hash_chain\<close>; \<open>Recovery_History\<close> and \<open>Recovery_Creation\<close>: the lemmas that relate the
    chains and the creators of the code to it.
  \<^item> \<open>Core_Properties\<close>, \<open>Recovery_Properties\<close>, \<open>Ceremony_Properties\<close>, \<open>Domain_Properties\<close>, \<open>Distribution_Properties\<close> and
    this theory: the properties, each under its claim number.

  A definition keeps the name of the function it models, and its arguments in the order of the source after
  the environment. Fields of records carry a prefix of their type, since the source reuses field names.

  \<^bold>\<open>What is shown\<close>

  \<^item> \<^emph>\<open>Refinement.\<close> The loops that verify routine and recovery-aware chains accept exactly the histories of the
    abstract machine, with the reported head. Extending a verified chain by a receipt agrees with verifying
    the longer chain. A terminal revocation is final.
  \<^item> \<^emph>\<open>Authority.\<close> Every entry of a verified history was signed by the keys that its kind requires, under the
    last policy before it; thresholds count distinct allowed keys in any order; recovery keys were never online.
  \<^item> \<^emph>\<open>Binding.\<close> Head digest and policy digest determine the history; artifact proofs, challenges, pins and
    DNS commitments determine what they were made for, as long as the digest does not collide.
  \<^item> \<^emph>\<open>Round trips.\<close> What the creators sign, the verifiers accept: transitions, policies, recoveries,
    revocations, artifact and domain proofs, ceremony responses, cards and URIs.
  \<^item> \<^emph>\<open>Ceremonies.\<close> A ceremony assembles exactly when enough participants answered, the result does not depend
    on the order of the answers, and it extends the history that was reviewed.
  \<^item> \<^emph>\<open>Resources and text.\<close> The signer is never left running; requests, domain windows and RSA keys are
    bounded; files are never overwritten; escaped text and canonical domain names are safe to display.

  \<^bold>\<open>Not modelled\<close>

  The persona store (SQL over SQLite), the daemon and the IPC transport (sockets, peer credentials, threads),
  the command line, the consent window and the approval prompts, the C2PA and supply-chain adapters
  (subprocesses around third-party tools), the plugin installer (archives, Git and file-system transactions),
  the rendering of root cards, the maintainer tools, the fuzz targets and the packaging scripts. They call
  the functions modelled here, or act on an environment (a database, a kernel, a desktop) that is not in
  the repository. Inside the modelled files, only derived trait code, test modules and the text of error
  messages beyond their distinguishable content are left out.
\<close>

text \<open>
  C26. The proof that a ceremony assembles is the recovery that its participants reviewed: it decodes to the
  statement of the request, and the history of the request extended by it verifies against the same root
  and the same policy.
\<close>

theorem assembled_proof_extends_history:
  assumes "recovery_codecs E" "verify_recovery_ceremony_request E request t0 = Ok v"
    and "assemble_recovery_ceremony_proof E v rs t = Ok pf"
  shows "decode_recovery_transition_proof E pf = Ok (vq_statement_payload v, cq_statement request) \<and>
    is_Ok (verify_persona_continuity_chain_with_recovery_with_verified_sequence E (cq_root_proof request)
      (cq_prior_transitions request @ [RecoveryProof pf]) (cq_recovery_policies request)
      (cq_expected_root_statement_sha256 request) (cq_expected_latest_policy_sha256 request) t0)"
  using assembled_proof_extends [OF assms(2,3)] assms(3) assembled_proof_decodes [OF assms(1,2)]
  unfolding assemble_iff [OF assms(1,2)] by blast

theorem assembled_proof_extends_history_witness:
  "\<exists>v pf. verify_recovery_ceremony_request demo_ext demo_request 500 = Ok v \<and>
     assemble_recovery_ceremony_proof demo_ext v demo_responses 600 = Ok pf \<and>
     decode_recovery_transition_proof demo_ext pf = Ok ([5], demo_recovery) \<and>
     is_Ok (verify_persona_continuity_chain_with_recovery_with_verified_sequence demo_ext demo_root_proof
       [RoutineProof demo_transition_proof, RecoveryProof pf] [demo_policy_proof] (demo_digest 1) (demo_digest 3) 500)"
proof -
  obtain v pf where v: "verify_recovery_ceremony_request demo_ext demo_request 500 = Ok v" "vq_statement_payload v = [5]"
    "assemble_recovery_ceremony_proof demo_ext v demo_responses 600 = Ok pf" by (rule demo_assembles)
  from assembled_proof_extends_history [OF demo_codecs v(1,3)] v show ?thesis
    by (intro exI [of _ v] exI [of _ pf]) (simp add: demo_request_def)
qed

end
